(* ===== verification/JsString.thy ===== *)
theory JsString
  imports Main
begin

text \<open>
  Prelude: the JavaScript strings of the program and the regular expressions of
  \<^verbatim>\<open>reg.js\<close> that the other theories share.

  A JavaScript string is a sequence of UTF-16 code units. It is modelled as a list of
  natural numbers (\<open>jstr\<close>), so that the code points beyond Latin-1 that the lexer treats
  specially are represented. \<open>ch\<close> gives the code unit of an ASCII character and \<open>js\<close>
  the JavaScript string of an ASCII literal.
  \<open>String.prototype.charAt\<close> returns the empty string or a one-unit string; \<open>char_at\<close>
  returns \<open>None\<close> or \<open>Some c\<close> in its place.
\<close>

named_theorems lex_measure \<open>facts that bound what a scanner leaves of its input\<close>

section \<open>Code units and strings\<close>

type_synonym jchar = nat
type_synonym jstr = "nat list"

definition ch :: "char \<Rightarrow> jchar" where
  "ch c = of_char c"

definition js :: "string \<Rightarrow> jstr" where
  "js s = map ch s"

lemma ch_Char [simp]:
  "ch (Char b0 b1 b2 b3 b4 b5 b6 b7) =
     of_bool b0 + 2 * (of_bool b1 + 2 * (of_bool b2 + 2 * (of_bool b3 + 2 *
       (of_bool b4 + 2 * (of_bool b5 + 2 * (of_bool b6 + 2 * of_bool b7))))))"
  by (simp add: ch_def)

lemma ch_inject [simp]: "ch c = ch d \<longleftrightarrow> c = d"
  by (simp add: ch_def)

lemma js_Nil [simp]: "js [] = []"
  by (simp add: js_def)

lemma js_Cons: "js (c # cs) = ch c # js cs"
  by (simp add: js_def)

lemma js_append: "js (s @ t) = js s @ js t"
  by (simp add: js_def)

lemma length_js [simp]: "length (js s) = length s"
  by (simp add: js_def)

lemma js_inject [simp]: "js s = js t \<longleftrightarrow> s = t"
proof -
  have "inj ch" by (simp add: inj_def)
  then show ?thesis by (simp add: js_def inj_map_eq_map)
qed

lemma js_eq_Nil [simp]: "js s = [] \<longleftrightarrow> s = []" "[] = js s \<longleftrightarrow> s = []"
  by (simp_all add: js_def)

definition char_at :: "jstr \<Rightarrow> nat \<Rightarrow> jchar option" where
  "char_at s i = (if i < length s then Some (s ! i) else None)"

text \<open>The string a \<open>charAt\<close> returns, when the code appends it to another string.\<close>

fun opt_str :: "jchar option \<Rightarrow> jstr" where
  "opt_str None = []"
| "opt_str (Some c) = [c]"

lemma char_at_Nil [simp]: "char_at [] i = None"
  by (simp add: char_at_def)

lemma char_at_Cons_0 [simp]: "char_at (c # cs) 0 = Some c"
  by (simp add: char_at_def)

lemma char_at_Cons_Suc [simp]: "char_at (c # cs) (Suc i) = char_at cs i"
  by (simp add: char_at_def)

lemma char_at_Cons_numeral [simp]: "char_at (c # cs) (numeral n) = char_at cs (numeral n - 1)"
  by (simp add: char_at_def nth_Cons')

lemma char_at_0_None [simp]: "char_at s 0 = None \<longleftrightarrow> s = []"
  by (cases s) auto

lemma char_at_0_Some: "char_at s 0 = Some c \<longleftrightarrow> (\<exists>cs. s = c # cs)"
  by (cases s) auto

lemma char_at_Some_less: "char_at s i = Some c \<Longrightarrow> i < length s"
  by (auto simp: char_at_def split: if_splits)

lemma char_at_Some_drop: "char_at s i = Some c \<Longrightarrow> drop i s = c # drop (Suc i) s"
  by (auto simp: char_at_def Cons_nth_drop_Suc split: if_splits)

lemma char_at_drop [simp]: "char_at (drop n s) i = char_at s (n + i)"
  by (auto simp: char_at_def)

text \<open>
  \<open>s.substr(i, n)\<close>, and \<open>s.indexOf(p)\<close> with \<open>None\<close> for \<open>-1\<close>.
\<close>

definition substr :: "jstr \<Rightarrow> nat \<Rightarrow> nat \<Rightarrow> jstr" where
  "substr s i n = take n (drop i s)"

definition starts_with :: "jstr \<Rightarrow> jstr \<Rightarrow> bool" where
  "starts_with p s \<longleftrightarrow> take (length p) s = p"

fun index_of :: "jstr \<Rightarrow> jstr \<Rightarrow> nat option" where
  "index_of p [] = (if p = [] then Some 0 else None)"
| "index_of p (c # cs) =
     (if starts_with p (c # cs) then Some 0 else map_option Suc (index_of p cs))"

definition contains_char :: "jchar \<Rightarrow> jstr \<Rightarrow> bool" where
  "contains_char c s \<longleftrightarrow> List.member s c"

lemma starts_with_append [simp]: "starts_with p (p @ s)"
  by (simp add: starts_with_def)

lemma starts_with_iff: "starts_with p s \<longleftrightarrow> (\<exists>r. s = p @ r)"
  by (auto simp: starts_with_def) (metis append_take_drop_id)

lemma index_of_Some_starts:
  "index_of p s = Some i \<Longrightarrow> starts_with p (drop i s)"
proof (induction s arbitrary: i)
  case Nil
  then show ?case by (auto simp: starts_with_def split: if_splits)
next
  case (Cons c cs)
  then show ?case by (auto split: if_splits)
qed

text \<open>\<open>s.split(c)\<close> for a one-unit separator.\<close>

fun split_on :: "jchar \<Rightarrow> jstr \<Rightarrow> jstr list" where
  "split_on d [] = [[]]"
| "split_on d (c # cs) =
     (if c = d then [] # split_on d cs
      else (case split_on d cs of [] \<Rightarrow> [[c]] | w # ws \<Rightarrow> (c # w) # ws))"

fun join_on :: "jchar \<Rightarrow> jstr list \<Rightarrow> jstr" where
  "join_on d [] = []"
| "join_on d [w] = w"
| "join_on d (w # ws) = w @ d # join_on d ws"

lemma split_on_not_Nil [simp]: "split_on d s \<noteq> []"
  by (induction s) (auto split: list.splits)

lemma join_split [simp]: "join_on d (split_on d s) = s"
proof (induction s)
  case Nil
  then show ?case by simp
next
  case (Cons c cs)
  obtain w ws where w: "split_on d cs = w # ws"
    using split_on_not_Nil [of d cs] by (meson neq_Nil_conv)
  then show ?case using Cons by (cases ws) auto
qed

lemma split_on_no_sep: "w \<in> set (split_on d s) \<Longrightarrow> d \<notin> set w"
  by (induction s arbitrary: w) (fastforce split: list.splits if_splits)+

section \<open>Character classes of \<open>reg.js\<close> and \<open>lex.js\<close>\<close>

definition is_dec_digit :: "jchar \<Rightarrow> bool" where
  "is_dec_digit c \<longleftrightarrow> 48 \<le> c \<and> c \<le> 57"

definition is_nonzero_digit :: "jchar \<Rightarrow> bool" where
  "is_nonzero_digit c \<longleftrightarrow> 49 \<le> c \<and> c \<le> 57"

definition is_hex_char :: "jchar \<Rightarrow> bool" where
  "is_hex_char c \<longleftrightarrow>
     (48 \<le> c \<and> c \<le> 57) \<or> (97 \<le> c \<and> c \<le> 102) \<or> (65 \<le> c \<and> c \<le> 70)"

text \<open>\<open>isHex\<close>: the whole string is a non-empty run of hexadecimal digits.\<close>

definition isHex :: "jstr \<Rightarrow> bool" where
  "isHex s \<longleftrightarrow> s \<noteq> [] \<and> list_all is_hex_char s"

definition isHexDigit :: "jchar option \<Rightarrow> bool" where
  "isHexDigit c = (case c of None \<Rightarrow> False | Some x \<Rightarrow> isHex [x])"

text \<open>
  \<open>reg.whitespace\<close>; the class \<open>\s\<close> and the units \<open>String.prototype.trim\<close> removes are
  the same set.
\<close>

definition is_ws :: "jchar \<Rightarrow> bool" where
  "is_ws c \<longleftrightarrow> c = 32 \<or> (9 \<le> c \<and> c \<le> 13) \<or> c = 160 \<or> c = 5760 \<or>
     (8192 \<le> c \<and> c \<le> 8202) \<or> c = 8232 \<or> c = 8233 \<or> c = 8239 \<or> c = 8287 \<or>
     c = 12288 \<or> c = 65279"

definition trim_left :: "jstr \<Rightarrow> jstr" where
  "trim_left s = dropWhile is_ws s"

definition trim_right :: "jstr \<Rightarrow> jstr" where
  "trim_right s = rev (dropWhile is_ws (rev s))"

definition trim :: "jstr \<Rightarrow> jstr" where
  "trim s = trim_right (trim_left s)"

text \<open>\<open>reg.fallsThrough\<close>: \<open>/^\s*falls?\sthrough\s*$/\<close>.\<close>

definition fallsThrough :: "jstr \<Rightarrow> bool" where
  "fallsThrough s =
     (let t = trim s in
        (starts_with (js ''fall'') t \<and>
         (let r = drop 4 t; r' = (if starts_with (js ''s'') r then drop 1 r else r) in
            r' \<noteq> [] \<and> is_ws (hd r') \<and> tl r' = js ''through'')))"

text \<open>
  \<open>reg.maxlenException\<close>: \<open>/^(?:(?:\/\/|\/\*|\*) ?)?[^ ]+$/\<close>. The optional group may
  match nothing, so a string without a blank matches whatever its start.
\<close>

definition no_blank_run :: "jstr \<Rightarrow> bool" where
  "no_blank_run s \<longleftrightarrow> s \<noteq> [] \<and> list_all (\<lambda>c. c \<noteq> 32) s"

definition maxlenException :: "jstr \<Rightarrow> bool" where
  "maxlenException s \<longleftrightarrow>
     no_blank_run s \<or>
     list_ex (\<lambda>p. starts_with p s \<and>
        (let r = drop (length p) s in
           no_blank_run r \<or> (starts_with [32] r \<and> no_blank_run (drop 1 r))))
       [js ''//'', js ''/*'', js ''*'']"

text \<open>\<open>reg.regexpSyntaxChars\<close>, \<open>regexpQuantifiers\<close>, \<open>regexpControlEscapes\<close>, \<open>regexpCharClasses\<close>.\<close>

definition regexpSyntaxChars :: "jchar \<Rightarrow> bool" where
  "regexpSyntaxChars c \<longleftrightarrow> List.member (js ''^$'' @ [92] @ js ''.*+?()[]{}|'') c"

definition regexpQuantifiers :: "jchar \<Rightarrow> bool" where
  "regexpQuantifiers c \<longleftrightarrow> List.member (js ''*+?{'') c"

definition regexpControlEscapes :: "jchar \<Rightarrow> bool" where
  "regexpControlEscapes c \<longleftrightarrow> List.member (js ''fnrtv'') c"

definition regexpCharClasses :: "jchar \<Rightarrow> bool" where
  "regexpCharClasses c \<longleftrightarrow> List.member (js ''dDsSwWpP'') c"

text \<open>
  \<open>reg.regexpDot\<close>: \<open>/(^|[^\\])(\\\\)*\./\<close>, a dot that an even number of backslashes
  precedes. \<open>par\<close> says whether an odd number of backslashes precedes the rest.
\<close>

fun dot_after :: "bool \<Rightarrow> jstr \<Rightarrow> bool" where
  "dot_after par [] = False"
| "dot_after par (c # cs) =
     (if c = 92 then dot_after (\<not> par) cs
      else if c = 46 \<and> \<not> par then True
      else dot_after False cs)"

definition regexpDot :: "jstr \<Rightarrow> bool" where
  "regexpDot s = dot_after False s"

section \<open>Numbers in strings\<close>

definition hex_val :: "jchar \<Rightarrow> nat" where
  "hex_val c = (if c \<le> 57 then c - 48 else if c \<le> 70 then c - 55 else c - 87)"

definition hex_nat :: "jstr \<Rightarrow> nat" where
  "hex_nat s = foldl (\<lambda>n c. 16 * n + hex_val c) 0 s"

definition dec_nat :: "jstr \<Rightarrow> nat" where
  "dec_nat s = foldl (\<lambda>n c. 10 * n + (c - 48)) 0 s"

text \<open>
  \<open>parseInt(s, 16)\<close>: leading white space and a sign are skipped, then an optional
  \<open>0x\<close>; the longest run of hexadecimal digits is read, \<open>None\<close> stands for \<open>NaN\<close>.
\<close>

definition parseInt16 :: "jstr \<Rightarrow> int option" where
  "parseInt16 s =
     (let t = trim_left s;
          neg = starts_with (js ''-'') t;
          u = (if neg \<or> starts_with (js ''+'') t then drop 1 t else t);
          v = (if starts_with (js ''0x'') u \<or> starts_with (js ''0X'') u then drop 2 u else u);
          d = takeWhile is_hex_char v
      in if d = [] then None
         else Some (if neg then - int (hex_nat d) else int (hex_nat d)))"

text \<open>\<open>String.fromCharCode\<close>: the argument modulo \<open>2 ^ 16\<close>, and \<open>NaN\<close> as \<open>0\<close>.\<close>

definition fromCharCode :: "int option \<Rightarrow> jchar" where
  "fromCharCode n = (case n of None \<Rightarrow> 0 | Some k \<Rightarrow> nat (k mod 65536))"

lemma hex_val_less: "is_hex_char c \<Longrightarrow> hex_val c < 16"
  by (auto simp: is_hex_char_def hex_val_def)

lemma foldl_hex_less:
  "list_all is_hex_char s \<Longrightarrow> foldl (\<lambda>n c. 16 * n + hex_val c) k s < (k + 1) * 16 ^ length s"
proof (induction s arbitrary: k)
  case Nil
  then show ?case by simp
next
  case (Cons c cs)
  have "foldl (\<lambda>n c. 16 * n + hex_val c) (16 * k + hex_val c) cs
          < (16 * k + hex_val c + 1) * 16 ^ length cs"
    using Cons by simp
  also have "\<dots> \<le> (16 * (k + 1)) * 16 ^ length cs"
    using hex_val_less [of c] Cons.prems by (intro mult_right_mono) auto
  finally show ?case by (simp add: algebra_simps)
qed

lemma hex_nat_less: "list_all is_hex_char s \<Longrightarrow> hex_nat s < 16 ^ length s"
  using foldl_hex_less [of s 0] by (simp add: hex_nat_def)

lemma fromCharCode_less: "fromCharCode n < 65536"
  by (auto simp: fromCharCode_def nat_less_iff split: option.splits)

text \<open>
  \<open>isFinite(v)\<close> for the text \<open>v\<close> of a decimal literal: a mantissa \<open>m\<close> (all its
  digits), the number \<open>f\<close> of digits after the point and an exponent \<open>e\<close>. The value
  rounds to infinity from half way between the largest double and \<open>2 ^ 1024\<close> on.
  A text without a digit is \<open>NaN\<close>, which is not finite.
\<close>

definition double_limit :: nat where
  "double_limit = 2 ^ 1024 - 2 ^ 970"

definition decimal_isFinite :: "jstr \<Rightarrow> bool" where
  "decimal_isFinite s =
     (let ip = takeWhile is_dec_digit s;
          r1 = dropWhile is_dec_digit s;
          dot = starts_with (js ''.'') r1;
          fp = (if dot then takeWhile is_dec_digit (drop 1 r1) else []);
          r2 = (if dot then dropWhile is_dec_digit (drop 1 r1) else r1);
          ex = starts_with (js ''e'') r2 \<or> starts_with (js ''E'') r2;
          r3 = (if ex then drop 1 r2 else r2);
          neg = starts_with (js ''-'') r3;
          r4 = (if ex \<and> (neg \<or> starts_with (js ''+'') r3) then drop 1 r3 else r3);
          e = (if ex then (if neg then - int (dec_nat r4) else int (dec_nat r4)) else 0);
          m = dec_nat (ip @ fp);
          k = e - int (length fp)
      in ip @ fp \<noteq> [] \<and>
         (if 0 \<le> k then m * 10 ^ nat k < double_limit
          else m < double_limit * 10 ^ nat (- k)))"

section \<open>Line splitting of the lexer's constructor\<close>

text \<open>
  \<open>.replace(/\r\n/g, "\n").replace(/\r/g, "\n").split("\n")\<close>.
\<close>

fun crlf_to_lf :: "jstr \<Rightarrow> jstr" where
  "crlf_to_lf [] = []"
| "crlf_to_lf [c] = [c]"
| "crlf_to_lf (c # d # cs) =
     (if c = 13 \<and> d = 10 then 10 # crlf_to_lf cs else c # crlf_to_lf (d # cs))"

definition split_lines :: "jstr \<Rightarrow> jstr list" where
  "split_lines s = split_on 10 (map (\<lambda>c. if c = 13 then 10 else c) (crlf_to_lf s))"

lemma split_lines_no_break:
  assumes "w \<in> set (split_lines s)"
  shows "10 \<notin> set w \<and> 13 \<notin> set w"
proof -
  have in_split: "set w \<subseteq> set t" if "w \<in> set (split_on d t)" for d :: jchar and t w
    using that by (induction t arbitrary: w) (fastforce split: list.splits if_splits)+
  have "13 \<notin> set (map (\<lambda>c. if c = 13 then 10 else c) (crlf_to_lf s))"
    by auto
  with assms show ?thesis
    unfolding split_lines_def using in_split split_on_no_sep by blast
qed

end
