(* ===== verification/JsObject.thy ===== *)
theory JsObject
  imports JsString "HOL-Library.AList"
begin

text \<open>
  Prelude: the objects the program uses as lookup tables (\<open>Object.create(null)\<close> and plain
  object literals). A table is an association list in insertion order, the order in which
  \<open>Object.keys\<close> and \<open>for in\<close> enumerate names that are not array indices.

  The locale \<open>js_object\<close> states what the components rely on: what a lookup returns after a
  store or a \<open>delete\<close>, and what the enumeration lists. Its lemmas are proved once and reach
  the components through the interpretation \<open>obj\<close> at the end of this theory.
\<close>

section \<open>The interface\<close>

locale js_object =
  fixes get :: "'o \<Rightarrow> 'k \<Rightarrow> 'v option"
    and put :: "'o \<Rightarrow> 'k \<Rightarrow> 'v \<Rightarrow> 'o"
    and del :: "'o \<Rightarrow> 'k \<Rightarrow> 'o"
    and keys :: "'o \<Rightarrow> 'k list"
    and inv :: "'o \<Rightarrow> bool"
    and new :: 'o
  assumes get_new: "get new k = None"
    and get_put: "get (put obj k v) k' = (if k' = k then Some v else get obj k')"
    and get_del: "get (del obj k) k' = (if k' = k then None else get obj k')"
    and keys_put: "keys (put obj k v) = (if k \<in> set (keys obj) then keys obj else keys obj @ [k])"
    and set_keys: "set (keys obj) = {k. get obj k \<noteq> None}"
    and inv_new: "inv new"
    and inv_put: "inv obj \<Longrightarrow> inv (put obj k v)"
    and inv_del: "inv obj \<Longrightarrow> inv (del obj k)"
    and inv_keys: "inv obj \<Longrightarrow> distinct (keys obj)"
begin

text \<open>A store keeps every other binding; the last store of a run of stores wins.\<close>

lemma get_put_same: "get (put obj k v) k = Some v"
  by (simp add: get_put)

lemma get_put_other: "k' \<noteq> k \<Longrightarrow> get (put obj k v) k' = get obj k'"
  by (simp add: get_put)

lemma put_all_get:
  "get (foldl (\<lambda>o' (k, v). put o' k v) obj kvs) k =
     (case map_of (rev kvs) k of None \<Rightarrow> get obj k | Some v \<Rightarrow> Some v)"
proof (induction kvs arbitrary: obj)
  case Nil
  then show ?case by simp
next
  case (Cons kv kvs)
  then show ?case
    by (cases kv) (auto simp: get_put map_add_def split: option.splits)
qed

lemma put_all_inv: "inv obj \<Longrightarrow> inv (foldl (\<lambda>o' (k, v). put o' k v) obj kvs)"
  by (induction kvs arbitrary: obj) (auto intro: inv_put)

lemma del_all_get: "get (foldl del obj ks) k = (if k \<in> set ks then None else get obj k)"
  by (induction ks arbitrary: obj) (auto simp: get_del)

lemma in_keys: "k \<in> set (keys obj) \<longleftrightarrow> (\<exists>v. get obj k = Some v)"
  by (simp add: set_keys)

end

section \<open>The tables of the model\<close>

type_synonym ('k, 'v) obj = "('k \<times> 'v) list"

definition obj_get :: "('k, 'v) obj \<Rightarrow> 'k \<Rightarrow> 'v option" where
  "obj_get ob k = map_of ob k"

definition obj_put :: "('k, 'v) obj \<Rightarrow> 'k \<Rightarrow> 'v \<Rightarrow> ('k, 'v) obj" where
  "obj_put ob k v = AList.update k v ob"

definition obj_del :: "('k, 'v) obj \<Rightarrow> 'k \<Rightarrow> ('k, 'v) obj" where
  "obj_del ob k = AList.delete k ob"

definition obj_keys :: "('k, 'v) obj \<Rightarrow> 'k list" where
  "obj_keys ob = map fst ob"

definition obj_ok :: "('k, 'v) obj \<Rightarrow> bool" where
  "obj_ok ob \<longleftrightarrow> distinct (map fst ob)"

text \<open>\<open>k in ob\<close> and \<open>_.has(ob, k)\<close> on such a table.\<close>

definition obj_has :: "('k, 'v) obj \<Rightarrow> 'k \<Rightarrow> bool" where
  "obj_has ob k \<longleftrightarrow> obj_get ob k \<noteq> None"

text \<open>In-place modification of an entry, \<open>ob[k].field = \<dots>\<close>.\<close>

definition obj_upd :: "('k, 'v) obj \<Rightarrow> 'k \<Rightarrow> ('v \<Rightarrow> 'v) \<Rightarrow> ('k, 'v) obj" where
  "obj_upd ob k f = (case obj_get ob k of None \<Rightarrow> ob | Some v \<Rightarrow> obj_put ob k (f v))"

lemma keys_update:
  "map fst (AList.update k v ob) = (if k \<in> set (map fst ob) then map fst ob else map fst ob @ [k])"
  by (induction ob) auto

interpretation obj: js_object obj_get obj_put obj_del obj_keys obj_ok "[]"
proof
  show "obj_get [] k = None" for k :: 'a
    by (simp add: obj_get_def)
  show "obj_get (obj_put ob k v) k' = (if k' = k then Some v else obj_get ob k')"
    for ob :: "('a, 'b) obj" and k k' v
    by (simp add: obj_get_def obj_put_def update_conv')
  show "obj_get (obj_del ob k) k' = (if k' = k then None else obj_get ob k')"
    for ob :: "('a, 'b) obj" and k k'
    by (simp add: obj_get_def obj_del_def delete_conv')
  show "obj_keys (obj_put ob k v) =
      (if k \<in> set (obj_keys ob) then obj_keys ob else obj_keys ob @ [k])"
    for ob :: "('a, 'b) obj" and k v
    by (simp add: obj_keys_def obj_put_def keys_update)
  show "set (obj_keys ob) = {k. obj_get ob k \<noteq> None}" for ob :: "('a, 'b) obj"
    by (auto simp: obj_keys_def obj_get_def map_of_eq_None_iff)
  show "obj_ok []"
    by (simp add: obj_ok_def)
  show "obj_ok (obj_put ob k v)" if "obj_ok ob" for ob :: "('a, 'b) obj" and k v
    using that by (simp add: obj_ok_def obj_put_def distinct_update)
  show "obj_ok (obj_del ob k)" if "obj_ok ob" for ob :: "('a, 'b) obj" and k
    using that by (simp add: obj_ok_def obj_del_def distinct_delete)
  show "distinct (obj_keys ob)" if "obj_ok ob" for ob :: "('a, 'b) obj"
    using that by (simp add: obj_ok_def obj_keys_def)
qed

lemmas obj_simps [simp] = obj.get_new obj.get_put obj.get_del

lemma obj_has_put [simp]: "obj_has (obj_put ob k v) k' \<longleftrightarrow> k' = k \<or> obj_has ob k'"
  by (simp add: obj_has_def)

lemma obj_has_del [simp]: "obj_has (obj_del ob k) k' \<longleftrightarrow> k' \<noteq> k \<and> obj_has ob k'"
  by (simp add: obj_has_def)

lemma obj_has_new [simp]: "\<not> obj_has [] k"
  by (simp add: obj_has_def)

lemma obj_get_upd [simp]:
  "obj_get (obj_upd ob k f) k' = (if k' = k then map_option f (obj_get ob k) else obj_get ob k')"
  by (auto simp: obj_upd_def split: option.splits)

lemma obj_has_upd [simp]: "obj_has (obj_upd ob k f) k' = obj_has ob k'"
  by (auto simp: obj_has_def)

lemma obj_ok_upd [simp]: "obj_ok ob \<Longrightarrow> obj_ok (obj_upd ob k f)"
  by (auto simp: obj_upd_def obj.inv_put split: option.splits)

lemma obj_keys_upd [simp]: "obj_keys (obj_upd ob k f) = obj_keys ob"
  by (auto simp: obj_upd_def obj.keys_put obj.set_keys split: option.splits)

lemma obj_keys_has: "k \<in> set (obj_keys ob) \<longleftrightarrow> obj_has ob k"
  by (simp add: obj.in_keys obj_has_def)

end
