(* ===== verification/LintState.thy ===== *)
theory LintState
  imports JsObject
begin

text \<open>
  The global linter state of \<^verbatim>\<open>state.js\<close> and the production parameters of
  \<^verbatim>\<open>prod-params.js\<close>.

  \<open>lstate\<close> is the object \<open>state\<close>, less what other theories own: the source lines belong to
  the lexer's record, the tokens and \<open>funct\<close> to the scope manager's. Option values are
  JavaScript values (\<open>jsval\<close>): a user may set an option to a boolean, a number or a string.
\<close>

section \<open>Option values\<close>

datatype jsval = JUndef | JNull | JBool bool | JNum int | JStr jstr

fun truthy :: "jsval \<Rightarrow> bool" where
  "truthy JUndef = False"
| "truthy JNull = False"
| "truthy (JBool b) = b"
| "truthy (JNum n) = (n \<noteq> 0)"
| "truthy (JStr s) = (s \<noteq> [])"

text \<open>
  The conversion of a relational operator, \<open>None\<close> for \<open>NaN\<close>. A string converts when it is
  blank or a decimal integer; no other numeric string is given to an option.
\<close>

fun toNumber :: "jsval \<Rightarrow> int option" where
  "toNumber JUndef = None"
| "toNumber JNull = Some 0"
| "toNumber (JBool b) = Some (if b then 1 else 0)"
| "toNumber (JNum n) = Some n"
| "toNumber (JStr s) =
     (let t = trim s in
        if t = [] then Some 0
        else if list_all is_dec_digit t then Some (int (dec_nat t)) else None)"

definition js_ge :: "jsval \<Rightarrow> int \<Rightarrow> bool" where
  "js_ge v n = (case toNumber v of None \<Rightarrow> False | Some k \<Rightarrow> n \<le> k)"

definition js_less :: "jsval \<Rightarrow> int \<Rightarrow> bool" where
  "js_less v n = (case toNumber v of None \<Rightarrow> False | Some k \<Rightarrow> k < n)"

lemma js_ge_mono: "js_ge v n \<Longrightarrow> m \<le> n \<Longrightarrow> js_ge v m"
  by (auto simp: js_ge_def split: option.splits)

section \<open>The state object\<close>

record lstate =
  option :: "string \<Rightarrow> jsval"
  unstable :: "string \<Rightarrow> jsval"
  esVersion :: jsval
  ignored :: "string \<Rightarrow> bool"
  directive :: "(jstr, nat) obj"
  jsonMode :: bool
  tab :: jstr
  cache :: "string \<Rightarrow> jsval"
  ignoredLines :: "nat \<Rightarrow> bool"
  inClassBody :: bool
  curr_id :: jstr

text \<open>\<open>state.option[name]\<close> used as a condition.\<close>

definition opt_on :: "lstate \<Rightarrow> string \<Rightarrow> bool" where
  "opt_on st name = truthy (option st name)"

definition isStrict :: "lstate \<Rightarrow> bool" where
  "isStrict st \<longleftrightarrow> obj_has (directive st) (js ''use strict'') \<or> inClassBody st \<or>
     opt_on st ''module'' \<or> option st ''strict'' = JStr (js ''implied'')"

definition stmtMissingStrict :: "lstate \<Rightarrow> bool" where
  "stmtMissingStrict st =
     (if option st ''strict'' = JStr (js ''global'') then True
      else if option st ''strict'' = JBool False then False
      else if opt_on st ''globalstrict'' then True
      else False)"

definition impliedClosure :: "lstate \<Rightarrow> bool" where
  "impliedClosure st \<longleftrightarrow> opt_on st ''node'' \<or> opt_on st ''phantom'' \<or> opt_on st ''browserify''"

definition allowsGlobalUsd :: "lstate \<Rightarrow> bool" where
  "allowsGlobalUsd st \<longleftrightarrow> option st ''strict'' = JStr (js ''global'') \<or>
     opt_on st ''globalstrict'' \<or> opt_on st ''module'' \<or> impliedClosure st"

definition inMoz :: "lstate \<Rightarrow> bool" where
  "inMoz st = opt_on st ''moz''"

definition inES11 :: "lstate \<Rightarrow> bool" where
  "inES11 st = js_ge (esVersion st) 11"

definition inES10 :: "lstate \<Rightarrow> bool" where
  "inES10 st = js_ge (esVersion st) 10"

definition inES9 :: "lstate \<Rightarrow> bool" where
  "inES9 st = js_ge (esVersion st) 9"

definition inES8 :: "lstate \<Rightarrow> bool" where
  "inES8 st = js_ge (esVersion st) 8"

definition inES7 :: "lstate \<Rightarrow> bool" where
  "inES7 st = js_ge (esVersion st) 7"

definition inES6 :: "lstate \<Rightarrow> bool \<Rightarrow> bool" where
  "inES6 st strict =
     (if \<not> strict \<and> opt_on st ''moz'' then True else js_ge (esVersion st) 6)"

definition inES5 :: "lstate \<Rightarrow> bool" where
  "inES5 st \<longleftrightarrow> \<not> truthy (esVersion st) \<or> js_ge (esVersion st) 5 \<or> opt_on st ''moz''"

text \<open>
  \<open>inferEsVersion\<close> returns the name of an option that conflicts with \<open>esversion\<close>, or
  \<open>None\<close> with the version in the state set.
\<close>

definition inferEsVersion :: "lstate \<Rightarrow> string option \<times> lstate" where
  "inferEsVersion st =
     (if opt_on st ''esversion'' then
        (let badOpt =
           (if opt_on st ''es3'' then Some ''es3''
            else if opt_on st ''es5'' then Some ''es5''
            else if opt_on st ''esnext'' then Some ''esnext''
            else None)
         in if badOpt \<noteq> None then (badOpt, st)
            else if option st ''esversion'' = JNum 2015 then (None, st\<lparr>esVersion := JNum 6\<rparr>)
            else (None, st\<lparr>esVersion := option st ''esversion''\<rparr>))
      else if opt_on st ''es3'' then (None, st\<lparr>esVersion := JNum 3\<rparr>)
      else if opt_on st ''esnext'' then (None, st\<lparr>esVersion := JNum 6\<rparr>)
      else (None, st))"

text \<open>\<open>reset\<close> gives every field its start value; \<open>curr_id\<close> is that of the \<open>(begin)\<close> token.\<close>

definition reset_state :: lstate where
  "reset_state =
     \<lparr>option = (\<lambda>_. JUndef), unstable = (\<lambda>_. JUndef), esVersion = JNum 5,
      ignored = (\<lambda>_. False), directive = [], jsonMode = False, tab = [],
      cache = (\<lambda>_. JUndef), ignoredLines = (\<lambda>_. False), inClassBody = False,
      curr_id = js ''(begin)''\<rparr>"

section \<open>Production parameters\<close>

text \<open>The bit flags of \<^verbatim>\<open>prod-params.js\<close>; a context is the sum of the flags that are set.\<close>

definition ctx_export :: nat where "ctx_export = 1"

definition ctx_noin :: nat where "ctx_noin = 2"

definition ctx_initial :: nat where "ctx_initial = 4"

definition ctx_preAsync :: nat where "ctx_preAsync = 8"

definition ctx_async :: nat where "ctx_async = 16"

definition ctx_tryClause :: nat where "ctx_tryClause = 32"

definition ctx_yield :: nat where "ctx_yield = 64"

text \<open>\<open>context & flag\<close> as a condition.\<close>

definition ctx_has :: "nat \<Rightarrow> nat \<Rightarrow> bool" where
  "ctx_has context flag \<longleftrightarrow> odd (context div flag)"

section \<open>Facts the other theories use\<close>

lemmas es_defs = inES11_def inES10_def inES9_def inES8_def inES7_def inES6_def inES5_def

lemma es_chain:
  "inES11 st \<Longrightarrow> inES10 st" "inES10 st \<Longrightarrow> inES9 st" "inES9 st \<Longrightarrow> inES8 st"
  "inES8 st \<Longrightarrow> inES7 st" "inES7 st \<Longrightarrow> inES6 st True"
  "inES6 st True \<Longrightarrow> inES6 st False" "inES6 st False \<Longrightarrow> inES5 st"
  by (auto simp: es_defs js_ge_def split: option.splits if_splits)

lemma reset_state_es5: "inES5 reset_state" "\<not> inES6 reset_state False"
  by (simp_all add: es_defs reset_state_def opt_on_def js_ge_def)

lemma inferEsVersion_option: "option (snd (inferEsVersion st)) = option st"
  by (simp add: inferEsVersion_def Let_def)

text \<open>
  The editions are cumulative: what a later edition allows, every earlier test allows too,
  down to \<open>inES5\<close>; and after \<open>reset\<close> the program is checked as ES5.
\<close>

theorem editions_cumulative:
  "(inES11 st \<longrightarrow> inES10 st) \<and> (inES10 st \<longrightarrow> inES9 st) \<and> (inES9 st \<longrightarrow> inES8 st) \<and>
   (inES8 st \<longrightarrow> inES7 st) \<and> (inES7 st \<longrightarrow> inES6 st True) \<and>
   (inES6 st True \<longrightarrow> inES6 st False) \<and> (inES6 st False \<longrightarrow> inES5 st) \<and>
   inES5 reset_state \<and> \<not> inES6 reset_state False"
  by (auto simp: es_chain reset_state_es5)

theorem editions_cumulative_witness:
  "inES9 (reset_state\<lparr>esVersion := JNum 11\<rparr>)"
proof -
  have "inES11 (reset_state\<lparr>esVersion := JNum 11\<rparr>)"
    by (simp add: inES11_def js_ge_def)
  with editions_cumulative [of "reset_state\<lparr>esVersion := JNum 11\<rparr>"] show ?thesis by blast
qed

end
