(* ===== verification/LexCore.thy ===== *)
theory LexCore
  imports LintState
begin

text \<open>
  The state of the lexer (the object \<open>Lexer\<close> of \<^verbatim>\<open>lex.js\<close>), its events and postponed checks, and
  the operations every scanner uses: \<open>peek\<close>, \<open>skip\<close>, the context stack, \<open>trigger\<close>,
  \<open>triggerAsync\<close> and \<open>nextLine\<close>.

  A scanner of the source reads and writes \<open>this\<close> and the global \<open>state\<close>; its model takes
  the linter state \<open>st\<close> (which no scanner writes) and the lexer \<open>L\<close> and returns the new lexer.
  The events a scanner emits are appended to \<open>events\<close>; the listeners are outside the lexer.
\<close>

section \<open>Events and postponed checks\<close>

datatype diag_kind = DWarning | DError

datatype template_kind = TemplateHead | TemplateMiddle | TemplateTail | NoSubstTemplate

datatype lex_event =
    EvDiag diag_kind string nat nat "jstr list"
    \<comment> \<open>\<open>warning\<close> or \<open>error\<close>: code, line, character, data\<close>
  | EvFatal nat nat
  | EvIdentifier nat nat nat jstr jstr bool
    \<comment> \<open>line, char, from, name, raw name, isProperty\<close>
  | EvString nat nat nat nat nat jstr jchar
    \<comment> \<open>line, char, from, startLine, startChar, value, quote\<close>
  | EvTemplate template_kind nat nat nat nat nat jstr
  | EvNumber nat nat nat jstr "nat option" bool
    \<comment> \<open>line, char, from, value, base, isMalformed\<close>

text \<open>
  The condition of a postponed check, the function that \<open>triggerAsync\<close> stores. What the
  closure captured when it was made is already evaluated (\<open>CStatic b\<close>, or the flag of the
  other constructors); what it reads from the global state is read when it is called.
  \<open>CUFlag\<close> is \<open>hasUFlag\<close>, which reads a variable of the running \<open>scanRegExp\<close>: it is
  replaced by a static condition when that call returns.
\<close>

datatype check_cond =
    CStatic bool
  | CJson bool
  | CStrict bool
  | CNotES11
  | CNotMultistr
  | CJsonMultistr
  | CRegexpu
  | CUFlag

fun cond_holds :: "lstate \<Rightarrow> check_cond \<Rightarrow> bool" where
  "cond_holds st (CStatic b) = b"
| "cond_holds st (CJson b) = (jsonMode st \<and> b)"
| "cond_holds st (CStrict b) = (b \<and> isStrict st)"
| "cond_holds st CNotES11 = (\<not> inES11 st)"
| "cond_holds st CNotMultistr = (\<not> opt_on st ''multistr'')"
| "cond_holds st CJsonMultistr = (jsonMode st \<and> opt_on st ''multistr'')"
| "cond_holds st CRegexpu = opt_on st ''regexpu''"
| "cond_holds st CUFlag = False"

type_synonym check = "check_cond \<times> lex_event"

text \<open>
  \<open>asyncTrigger().check()\<close>: the stored functions run in order, each emits its event if its
  condition holds now, and the queue is emptied.
\<close>

definition run_checks :: "lstate \<Rightarrow> check list \<Rightarrow> lex_event list \<times> check list" where
  "run_checks st cs = (map snd (filter (\<lambda>c. cond_holds st (fst c)) cs), [])"

section \<open>The lexer\<close>

text \<open>
  The raw tokens the scanners return, one constructor per \<open>Token\<close> value. A property that a
  scanner leaves out of its object is \<open>False\<close> or \<open>None\<close>.
\<close>

datatype lex_context = Block | Template

datatype raw_token =
    RPunctuator jstr
  | RKeyword jstr
  | RIdentifier jstr jstr
    \<comment> \<open>value, text\<close>
  | RNumeric jstr "nat option" bool bool bool
    \<comment> \<open>value, base, isLegacy, isNonOctal, isMalformed\<close>
  | RString jstr nat nat bool jchar
    \<comment> \<open>value, startLine, startChar, isUnclosed, quote\<close>
  | RTemplate template_kind jstr nat nat bool nat "lex_context option"
    \<comment> \<open>value, startLine, startChar, isUnclosed, depth, context\<close>
  | RRegExp jstr bool
    \<comment> \<open>value, isMalformed\<close>
  | RComment jstr jstr jstr bool bool
    \<comment> \<open>commentType, value, body, isSpecial, isMalformed\<close>

record lexer =
  lines :: "jstr list"
  prereg :: bool
  line :: nat
  lchar :: nat
  lfrom :: nat
  input :: jstr
  inComment :: bool
  lcontext :: "lex_context list"
  templateStarts :: "(nat \<times> nat) list"
  ignoringLinterErrors :: bool
  exhausted :: bool
  events :: "lex_event list"
  checks :: "check list"

text \<open>
  The constructor. A \<open>#!\<close> line is blanked (one that mentions \<open>node\<close> sets the option), and
  \<open>state.tab\<close> gets one blank per column of \<open>indent\<close>.
\<close>

definition source_lines :: "jstr \<Rightarrow> jstr list" where
  "source_lines source = split_lines source"

definition is_shebang :: "jstr list \<Rightarrow> bool" where
  "is_shebang ls = (case ls of [] \<Rightarrow> False | l # _ \<Rightarrow> substr l 0 2 = js ''#!'')"

definition new_Lexer :: "jstr list \<Rightarrow> lstate \<Rightarrow> lexer \<times> lstate" where
  "new_Lexer ls st =
     (let st1 = (if is_shebang ls \<and> index_of (js ''node'') (hd ls) \<noteq> None
                 then st\<lparr>option := (option st)(''node'' := JBool True)\<rparr> else st);
          ls1 = (if is_shebang ls then [] # tl ls else ls);
          n = (case toNumber (option st ''indent'') of None \<Rightarrow> 0 | Some k \<Rightarrow> nat k)
      in (\<lparr>lines = ls1, prereg = True, line = 0, lchar = 1, lfrom = 1, input = [],
           inComment = False, lcontext = [], templateStarts = [],
           ignoringLinterErrors = False, exhausted = False, events = [], checks = []\<rparr>,
          st1\<lparr>tab := tab st1 @ replicate n 32\<rparr>))"

definition peek :: "lexer \<Rightarrow> nat \<Rightarrow> jchar option" where
  "peek L i = char_at (input L) i"

text \<open>\<open>skip(i)\<close>, where \<open>i || 1\<close> makes a skip of 0 one of 1.\<close>

definition skip :: "nat \<Rightarrow> lexer \<Rightarrow> lexer" where
  "skip i L = (let i' = (if i = 0 then 1 else i) in
     L\<lparr>lchar := lchar L + i', input := drop i' (input L)\<rparr>)"

definition inContext :: "lex_context \<Rightarrow> lexer \<Rightarrow> bool" where
  "inContext c L = (case lcontext L of [] \<Rightarrow> False | d # _ \<Rightarrow> d = c)"

definition pushContext :: "lex_context \<Rightarrow> lexer \<Rightarrow> lexer" where
  "pushContext c L = L\<lparr>lcontext := c # lcontext L\<rparr>"

definition popContext :: "lexer \<Rightarrow> lex_context option \<times> lexer" where
  "popContext L =
     (case lcontext L of [] \<Rightarrow> (None, L) | c # r \<Rightarrow> (Some c, L\<lparr>lcontext := r\<rparr>))"

definition currentContext :: "lexer \<Rightarrow> lex_context option" where
  "currentContext L = (case lcontext L of [] \<Rightarrow> None | c # _ \<Rightarrow> Some c)"

definition trigger :: "lex_event \<Rightarrow> lexer \<Rightarrow> lexer" where
  "trigger e L = L\<lparr>events := events L @ [e]\<rparr>"

definition triggerAsync :: "lex_event \<Rightarrow> check_cond \<Rightarrow> lexer \<Rightarrow> lexer" where
  "triggerAsync e c L = L\<lparr>checks := checks L @ [(c, e)]\<rparr>"

abbreviation warn_at :: "string \<Rightarrow> jstr list \<Rightarrow> lexer \<Rightarrow> lex_event" where
  "warn_at code d L \<equiv> EvDiag DWarning code (line L) (lchar L) d"

abbreviation error_at :: "string \<Rightarrow> jstr list \<Rightarrow> lexer \<Rightarrow> lex_event" where
  "error_at code d L \<equiv> EvDiag DError code (line L) (lchar L) d"

section \<open>Moving to the next line\<close>

text \<open>\<open>scanNonBreakingSpaces\<close>: the index of the first \<open>\u00A0\<close>, \<open>None\<close> for \<open>-1\<close>.\<close>

definition scanNonBreakingSpaces :: "lstate \<Rightarrow> lexer \<Rightarrow> nat option" where
  "scanNonBreakingSpaces st L =
     (if opt_on st ''nonbsp'' then index_of [160] (input L) else None)"

definition ends_with :: "jstr \<Rightarrow> jstr \<Rightarrow> bool" where
  "ends_with p s \<longleftrightarrow> length p \<le> length s \<and> drop (length s - length p) s = p"

definition expand_tabs :: "jstr \<Rightarrow> jstr \<Rightarrow> jstr" where
  "expand_tabs t s = concat (map (\<lambda>c. if c = 9 then t else [c]) s)"

text \<open>
  The steps of \<open>nextLine\<close> after it has taken the line, \<open>t\<close> being the line trimmed: under an
  ignore directive a line that neither starts a comment nor ends one is blanked; a
  non-breaking space and, last, a line that is too long are reported.
\<close>

definition blank_ignored :: "jstr \<Rightarrow> lexer \<Rightarrow> lexer" where
  "blank_ignored t L =
     (if ignoringLinterErrors L \<and>
         \<not> (starts_with (js ''/*'') t \<or> starts_with (js ''//'') t) \<and>
         \<not> (inComment L \<and> ends_with (js ''*/'') t)
      then L\<lparr>input := []\<rparr> else L)"

definition report_nbsp :: "lstate \<Rightarrow> lexer \<Rightarrow> lexer" where
  "report_nbsp st L =
     (case scanNonBreakingSpaces st L of
        None \<Rightarrow> L
      | Some c \<Rightarrow>
          triggerAsync (EvDiag DWarning ''W125'' (line L) (c + 1) []) (CStatic True) L)"

definition report_maxlen :: "lstate \<Rightarrow> jstr \<Rightarrow> lexer \<Rightarrow> lexer" where
  "report_maxlen st t L =
     (if \<not> ignoringLinterErrors L \<and> opt_on st ''maxlen'' \<and>
         js_less (option st ''maxlen'') (int (length (input L))) \<and>
         (let inC = inComment L \<or> starts_with (js ''//'') t \<or> starts_with (js ''/*'') t
          in \<not> inC \<or> \<not> maxlenException t)
      then triggerAsync (EvDiag DWarning ''W101'' (line L) (length (input L)) []) (CStatic True) L
      else L)"

definition nextLine :: "lstate \<Rightarrow> lexer \<Rightarrow> bool \<times> lexer" where
  "nextLine st L =
     (if length (lines L) \<le> line L then (False, L)
      else
        (let L1 = L\<lparr>input := lines L ! line L, line := line L + 1, lchar := 1, lfrom := 1\<rparr>;
             inputTrimmed = trim (input L1);
             L2 = report_nbsp st (blank_ignored inputTrimmed L1);
             L3 = L2\<lparr>input := expand_tabs (tab st) (input L2)\<rparr>
         in (True, report_maxlen st inputTrimmed L3)))"

section \<open>Scanners that only add checks\<close>

text \<open>Most scanners read without moving: all they change is the queue of checks.\<close>

definition adds_checks :: "lexer \<Rightarrow> lexer \<Rightarrow> bool" where
  "adds_checks L L' \<longleftrightarrow> (\<exists>cs. L' = L\<lparr>checks := checks L @ cs\<rparr>)"

lemma adds_checks_refl [simp]: "adds_checks L L"
  by (auto simp: adds_checks_def intro: exI [of _ "[]"])

lemma adds_checks_trans [trans]: "adds_checks L L' \<Longrightarrow> adds_checks L' L'' \<Longrightarrow> adds_checks L L''"
  by (auto simp: adds_checks_def)

lemma adds_checks_triggerAsync [simp]: "adds_checks L (triggerAsync e c L)"
  by (auto simp: adds_checks_def triggerAsync_def)

lemma adds_checks_then [intro]: "adds_checks L L' \<Longrightarrow> adds_checks L (triggerAsync e c L')"
  by (rule adds_checks_trans [OF _ adds_checks_triggerAsync])

lemma adds_checks_frame:
  assumes "adds_checks L L'"
  shows "lines L' = lines L" "line L' = line L" "input L' = input L" "lchar L' = lchar L"
    "events L' = events L" "lcontext L' = lcontext L" "templateStarts L' = templateStarts L"
    "lfrom L' = lfrom L" "prereg L' = prereg L" "inComment L' = inComment L"
    "ignoringLinterErrors L' = ignoringLinterErrors L" "exhausted L' = exhausted L"
  using assms by (auto simp: adds_checks_def)

text \<open>\<open>stays\<close>: a scanner may also emit events, and rewrite the queue.\<close>

definition stays :: "lexer \<Rightarrow> lexer \<Rightarrow> bool" where
  "stays L L' \<longleftrightarrow> L'\<lparr>events := [], checks := []\<rparr> = L\<lparr>events := [], checks := []\<rparr>"

lemma stays_refl [simp]: "stays L L"
  by (simp add: stays_def)

lemma stays_trans [trans]: "stays L L' \<Longrightarrow> stays L' L'' \<Longrightarrow> stays L L''"
  by (simp add: stays_def)

lemma stays_simps [simp]:
  "stays L (trigger e L') \<longleftrightarrow> stays L L'" "stays L (triggerAsync e c L') \<longleftrightarrow> stays L L'"
  "stays L (L'\<lparr>checks := cs\<rparr>) \<longleftrightarrow> stays L L'"
  by (simp_all add: stays_def trigger_def triggerAsync_def)

lemma adds_checks_stays: "adds_checks L L' \<Longrightarrow> stays L L'"
  by (auto simp: adds_checks_def)

lemma stays_frame:
  assumes "stays L L'"
  shows "lines L' = lines L" "line L' = line L" "input L' = input L" "lchar L' = lchar L"
    "lcontext L' = lcontext L" "templateStarts L' = templateStarts L"
    "lfrom L' = lfrom L" "prereg L' = prereg L" "inComment L' = inComment L"
    "ignoringLinterErrors L' = ignoringLinterErrors L" "exhausted L' = exhausted L"
  using arg_cong [OF assms [unfolded stays_def], of lines] arg_cong [OF assms [unfolded stays_def], of line]
    arg_cong [OF assms [unfolded stays_def], of input] arg_cong [OF assms [unfolded stays_def], of lchar]
    arg_cong [OF assms [unfolded stays_def], of lcontext]
    arg_cong [OF assms [unfolded stays_def], of templateStarts]
    arg_cong [OF assms [unfolded stays_def], of lfrom] arg_cong [OF assms [unfolded stays_def], of prereg]
    arg_cong [OF assms [unfolded stays_def], of inComment]
    arg_cong [OF assms [unfolded stays_def], of ignoringLinterErrors]
    arg_cong [OF assms [unfolded stays_def], of exhausted]
  by simp_all

section \<open>How much of the source is left\<close>

text \<open>
  A scanner moves forward: it keeps the lines (and the flag \<open>exhausted\<close>) and either stays on the line with a suffix of
  its input or has moved to a later line, which is at most as long as all lines with their tabs expanded.
  \<open>fwd\<close> is that order; every scanner is shown to
  respect it, and \<open>lex_left\<close> is the measure it makes the loops of the lexer end by.
\<close>

definition width :: "lstate \<Rightarrow> lexer \<Rightarrow> nat" where
  "width st L = (\<Sum>l\<leftarrow>lines L. length (expand_tabs (tab st) l))"

definition fwd :: "lstate \<Rightarrow> lexer \<Rightarrow> lexer \<Rightarrow> bool" where
  "fwd st L L' \<longleftrightarrow> lines L' = lines L \<and> exhausted L' = exhausted L \<and>
     (line L < line L' \<and> line L' \<le> length (lines L) \<and> length (input L') \<le> width st L \<or>
      line L' = line L \<and> (\<exists>n. input L' = drop n (input L)))"

definition lex_left :: "(lexer \<times> lexer) set" where
  "lex_left = measures [\<lambda>L. length (lines L) - line L, \<lambda>L. length (input L)]"

lemma wf_lex_left [simp, intro]: "wf lex_left"
  by (simp add: lex_left_def)

lemma lex_left_iff:
  "(L', L) \<in> lex_left \<longleftrightarrow>
     length (lines L') - line L' < length (lines L) - line L \<or>
     length (lines L') - line L' = length (lines L) - line L \<and>
       length (input L') < length (input L)"
  by (auto simp: lex_left_def)

lemma fwd_refl [simp]: "fwd st L L"
  by (auto simp: fwd_def intro: exI [of _ 0])

lemma width_same: "lines L' = lines L \<Longrightarrow> width st L' = width st L"
  by (simp add: width_def)

lemma fwd_trans [trans]:
  assumes "fwd st L L'" "fwd st L' L''"
  shows "fwd st L L''"
proof -
  have "width st L' = width st L" using assms(1) by (intro width_same) (simp add: fwd_def)
  then show ?thesis using assms by (fastforce simp: fwd_def)
qed

lemma fwd_same:
  "lines L' = lines L \<Longrightarrow> line L' = line L \<Longrightarrow> input L' = input L \<Longrightarrow> exhausted L' = exhausted L \<Longrightarrow>
     fwd st L L'"
  by (auto simp: fwd_def intro: exI [of _ 0])

lemma fwd_lines: "fwd st L L' \<Longrightarrow> lines L' = lines L"
  by (simp add: fwd_def)

lemma fwd_not_longer:
  "fwd st L L' \<Longrightarrow> (L', L) \<in> lex_left \<or>
     length (lines L') - line L' = length (lines L) - line L \<and> length (input L') = length (input L)"
  by (auto simp: fwd_def lex_left_iff)

lemma fwd_lex_left_trans:
  "fwd st L L' \<Longrightarrow> (L'', L') \<in> lex_left \<Longrightarrow> (L'', L) \<in> lex_left"
  "(L', L) \<in> lex_left \<Longrightarrow> fwd st L' L'' \<Longrightarrow> (L'', L) \<in> lex_left"
  by (auto dest!: fwd_not_longer simp: lex_left_iff)

subsection \<open>The basic operations\<close>

lemma skip_simps [simp]:
  "exhausted (skip i L) = exhausted L" "lines (skip i L) = lines L" "line (skip i L) = line L" "checks (skip i L) = checks L"
  "events (skip i L) = events L" "lcontext (skip i L) = lcontext L"
  "templateStarts (skip i L) = templateStarts L"
  "input (skip i L) = drop (if i = 0 then 1 else i) (input L)"
  "lchar (skip i L) = lchar L + (if i = 0 then 1 else i)"
  by (simp_all add: skip_def Let_def)

lemma trigger_simps [simp]:
  "exhausted (trigger e L) = exhausted L" "lines (trigger e L) = lines L" "line (trigger e L) = line L" "input (trigger e L) = input L"
  "lchar (trigger e L) = lchar L" "checks (trigger e L) = checks L"
  "lcontext (trigger e L) = lcontext L" "templateStarts (trigger e L) = templateStarts L"
  "events (trigger e L) = events L @ [e]"
  by (simp_all add: trigger_def)

lemma triggerAsync_simps [simp]:
  "exhausted (triggerAsync e c L) = exhausted L" "lines (triggerAsync e c L) = lines L" "line (triggerAsync e c L) = line L"
  "input (triggerAsync e c L) = input L" "lchar (triggerAsync e c L) = lchar L"
  "events (triggerAsync e c L) = events L" "lcontext (triggerAsync e c L) = lcontext L"
  "templateStarts (triggerAsync e c L) = templateStarts L"
  "checks (triggerAsync e c L) = checks L @ [(c, e)]"
  by (simp_all add: triggerAsync_def)

lemma context_simps [simp]:
  "exhausted (pushContext c L) = exhausted L" "exhausted (snd (popContext L)) = exhausted L"
  "lines (pushContext c L) = lines L" "line (pushContext c L) = line L"
  "input (pushContext c L) = input L" "lchar (pushContext c L) = lchar L"
  "lines (snd (popContext L)) = lines L" "line (snd (popContext L)) = line L"
  "input (snd (popContext L)) = input L" "lchar (snd (popContext L)) = lchar L"
  "events (pushContext c L) = events L" "checks (pushContext c L) = checks L"
  "events (snd (popContext L)) = events L" "checks (snd (popContext L)) = checks L"
  "templateStarts (pushContext c L) = templateStarts L"
  "templateStarts (snd (popContext L)) = templateStarts L"
  "lcontext (pushContext c L) = c # lcontext L" "lcontext (snd (popContext L)) = tl (lcontext L)"
  by (simp_all add: pushContext_def popContext_def split: list.splits)

lemma fwd_skip [simp]: "fwd st L (skip i L)"
  by (auto simp: fwd_def)

lemma fwd_trigger [simp]: "fwd st L (trigger e L)" "fwd st L (triggerAsync e c L)"
  "fwd st L (pushContext k L)" "fwd st L (snd (popContext L))"
  by (simp_all add: fwd_same)

lemma fwd_field_updates [simp]:
  "fwd st L (L\<lparr>inComment := b\<rparr>)" "fwd st L (L\<lparr>templateStarts := ts\<rparr>)"
  "fwd st L (L\<lparr>ignoringLinterErrors := b\<rparr>)" "fwd st L (L\<lparr>prereg := b\<rparr>)" "fwd st L (L\<lparr>lfrom := n\<rparr>)"
  "fwd st L (L\<lparr>checks := cs\<rparr>)"
  by (simp_all add: fwd_same)

lemma skip_left: "input L \<noteq> [] \<Longrightarrow> (skip i L, L) \<in> lex_left"
  by (simp add: lex_left_iff)

lemma blank_ignored_simps [simp]:
  "lines (blank_ignored t L) = lines L" "line (blank_ignored t L) = line L"
  "lchar (blank_ignored t L) = lchar L" "lfrom (blank_ignored t L) = lfrom L"
  "prereg (blank_ignored t L) = prereg L" "inComment (blank_ignored t L) = inComment L"
  "lcontext (blank_ignored t L) = lcontext L"
  "templateStarts (blank_ignored t L) = templateStarts L"
  "ignoringLinterErrors (blank_ignored t L) = ignoringLinterErrors L"
  "exhausted (blank_ignored t L) = exhausted L"
  "events (blank_ignored t L) = events L" "checks (blank_ignored t L) = checks L"
  by (simp_all add: blank_ignored_def)

lemma report_nbsp_simps [simp]:
  "lines (report_nbsp st L) = lines L" "line (report_nbsp st L) = line L"
  "lchar (report_nbsp st L) = lchar L" "lfrom (report_nbsp st L) = lfrom L"
  "prereg (report_nbsp st L) = prereg L" "inComment (report_nbsp st L) = inComment L"
  "lcontext (report_nbsp st L) = lcontext L" "input (report_nbsp st L) = input L"
  "templateStarts (report_nbsp st L) = templateStarts L"
  "ignoringLinterErrors (report_nbsp st L) = ignoringLinterErrors L"
  "exhausted (report_nbsp st L) = exhausted L" "events (report_nbsp st L) = events L"
  by (simp_all add: report_nbsp_def triggerAsync_def split: option.splits)

lemma report_maxlen_simps [simp]:
  "lines (report_maxlen st t L) = lines L" "line (report_maxlen st t L) = line L"
  "lchar (report_maxlen st t L) = lchar L" "lfrom (report_maxlen st t L) = lfrom L"
  "prereg (report_maxlen st t L) = prereg L" "inComment (report_maxlen st t L) = inComment L"
  "lcontext (report_maxlen st t L) = lcontext L" "input (report_maxlen st t L) = input L"
  "templateStarts (report_maxlen st t L) = templateStarts L"
  "ignoringLinterErrors (report_maxlen st t L) = ignoringLinterErrors L"
  "exhausted (report_maxlen st t L) = exhausted L" "events (report_maxlen st t L) = events L"
  by (simp_all add: report_maxlen_def triggerAsync_def)

lemma nextLine_False: "nextLine st L = (False, L') \<Longrightarrow> L' = L \<and> length (lines L) \<le> line L"
  by (auto simp: nextLine_def Let_def split: if_splits)

lemma nextLine_fields:
  assumes "nextLine st L = (True, L')"
  shows "lines L' = lines L" "line L' = Suc (line L)" "line L < length (lines L)"
    "lchar L' = 1" "lfrom L' = 1" "prereg L' = prereg L" "inComment L' = inComment L"
    "lcontext L' = lcontext L" "templateStarts L' = templateStarts L" "events L' = events L"
    "ignoringLinterErrors L' = ignoringLinterErrors L" "exhausted L' = exhausted L"
  using assms by (auto simp: nextLine_def Let_def split: if_splits)

lemma nextLine_iff: "fst (nextLine st L) \<longleftrightarrow> line L < length (lines L)"
  by (auto simp: nextLine_def Let_def)

lemma nextLine_left: "nextLine st L = (True, L') \<Longrightarrow> (L', L) \<in> lex_left"
  using nextLine_fields(1-3) [of st L L'] by (simp add: lex_left_iff diff_less_mono2)

lemma nextLine_width: "nextLine st L = (True, L') \<Longrightarrow> length (input L') \<le> width st L"
proof -
  assume "nextLine st L = (True, L')"
  then have l: "line L < length (lines L)"
    and i: "input L' = expand_tabs (tab st) (lines L ! line L) \<or> input L' = []"
    by (auto simp: nextLine_def Let_def blank_ignored_def expand_tabs_def split: if_splits)
  from l have "length (expand_tabs (tab st) (lines L ! line L)) \<le> width st L"
    unfolding width_def by (intro member_le_sum_list) auto
  with i show ?thesis by auto
qed

lemma nextLine_fwd: "nextLine st L = (b, L') \<Longrightarrow> fwd st L L'"
proof (cases b)
  case True
  moreover assume "nextLine st L = (b, L')"
  ultimately show ?thesis using nextLine_fields [of st L L'] nextLine_width [of st L L'] by (simp add: fwd_def)
next
  case False
  moreover assume "nextLine st L = (b, L')"
  ultimately show ?thesis using nextLine_False [of st L L'] by simp
qed

text \<open>Without an ignore directive and without tabs the new input is the line as it is.\<close>

lemma expand_tabs_id: "9 \<notin> set s \<Longrightarrow> expand_tabs t s = s"
  by (induction s) (auto simp: expand_tabs_def)

lemma nextLine_input:
  "nextLine st L = (True, L') \<Longrightarrow> \<not> ignoringLinterErrors L \<Longrightarrow>
     input L' = expand_tabs (tab st) (lines L ! line L)"
  by (auto simp: nextLine_def Let_def blank_ignored_def split: if_splits)

section \<open>The interface of the scanners\<close>

text \<open>
  \<open>next\<close> tries the scanners one after the other. What it relies on is stated by two locales.
  A \<open>scanner\<close> moves the character pointer itself: it never goes back, and moves on when it
  has found a token. A \<open>looking_scanner\<close> leaves the pointer alone and returns a token that
  fits into the rest of the line; the caller then skips it.
\<close>

text \<open>\<open>match.tokenLength || match.value.length\<close>; identifiers alone have a \<open>tokenLength\<close>.\<close>

fun token_length :: "raw_token \<Rightarrow> nat" where
  "token_length (RPunctuator v) = length v"
| "token_length (RKeyword v) = length v"
| "token_length (RIdentifier v t) = (if t = [] then length v else length t)"
| "token_length (RNumeric v b l n m) = length v"
| "token_length (RString v a b u q) = length v"
| "token_length (RTemplate k v a b u d c) = length v"
| "token_length (RRegExp v m) = length v"
| "token_length (RComment c v b s m) = length v"

type_synonym scan_fun = "lexer \<Rightarrow> raw_token option \<times> lexer"

text \<open>The operator \<open>||\<close> between two scanners, and a scanner followed by the skip.\<close>

definition orelse :: "scan_fun \<Rightarrow> scan_fun \<Rightarrow> scan_fun" where
  "orelse f g = (\<lambda>L. case f L of (Some t, L1) \<Rightarrow> (Some t, L1) | (None, L1) \<Rightarrow> g L1)"

definition then_skip :: "scan_fun \<Rightarrow> scan_fun" where
  "then_skip f = (\<lambda>L. case f L of
     (Some t, L1) \<Rightarrow> (Some t, skip (token_length t) L1) | (None, L1) \<Rightarrow> (None, L1))"

locale scanner =
  fixes st :: lstate and scan :: "lexer \<Rightarrow> raw_token option \<times> lexer"
  assumes keeps: "scan L = (x, L') \<Longrightarrow> fwd st L L'"
    and moves: "scan L = (Some t, L') \<Longrightarrow> (L', L) \<in> lex_left"

locale looking_scanner =
  fixes look :: "lexer \<Rightarrow> raw_token option \<times> lexer"
  assumes same: "look L = (x, L') \<Longrightarrow>
      lines L' = lines L \<and> line L' = line L \<and> input L' = input L \<and> exhausted L' = exhausted L"
    and fits: "look L = (Some t, L') \<Longrightarrow> 0 < token_length t \<and> token_length t \<le> length (input L)"

sublocale looking_scanner \<subseteq> skipping: scanner st "then_skip look" for st
proof
  fix L x L'
  assume "then_skip look L = (x, L')"
  then obtain y L1 where "look L = (y, L1)" "L' = L1 \<or> (\<exists>n. L' = skip n L1)"
    by (auto simp: then_skip_def split: prod.splits option.splits)
  then show "fwd st L L'" using same [of L y L1] fwd_trans [OF fwd_same [of L1 L] fwd_skip] fwd_same [of L1 L] by auto
next
  fix L t L'
  assume "then_skip look L = (Some t, L')"
  then obtain L1 where look: "look L = (Some t, L1)" and L': "L' = skip (token_length t) L1"
    by (auto simp: then_skip_def split: prod.splits option.splits)
  show "(L', L) \<in> lex_left"
    using same [OF look] fits [OF look] by (auto simp: L' lex_left_iff)
qed

text \<open>Two scanners in a row are a scanner.\<close>

locale scanners = first: scanner st scan1 + second: scanner st scan2
  for st and scan1 scan2 :: "lexer \<Rightarrow> raw_token option \<times> lexer"

sublocale scanners \<subseteq> either: scanner st "orelse scan1 scan2"
proof
  fix L x L'
  assume "orelse scan1 scan2 L = (x, L')"
  then obtain y L1 where "scan1 L = (y, L1)" "L' = L1 \<or> scan2 L1 = (x, L')"
    by (auto simp: orelse_def split: prod.splits option.splits)
  then show "fwd st L L'"
    using first.keeps [of L y L1] second.keeps [of L1 x L'] by (auto intro: fwd_trans)
next
  fix L t L'
  assume "orelse scan1 scan2 L = (Some t, L')"
  then obtain y L1 where "scan1 L = (y, L1)"
    "(y = Some t \<and> L' = L1) \<or> scan2 L1 = (Some t, L')"
    by (auto simp: orelse_def split: prod.splits option.splits)
  then show "(L', L) \<in> lex_left"
    using first.keeps [of L y L1] first.moves [of L t L1] second.moves [of L1 t L']
    by (auto intro: fwd_lex_left_trans)
qed

locale looking_scanners = first: looking_scanner look1 + second: looking_scanner look2
  for look1 look2 :: "lexer \<Rightarrow> raw_token option \<times> lexer"

sublocale looking_scanners \<subseteq> either: looking_scanner "orelse look1 look2"
proof
  fix L x L'
  assume "orelse look1 look2 L = (x, L')"
  then obtain y L1 where "look1 L = (y, L1)" "L' = L1 \<or> look2 L1 = (x, L')"
    by (auto simp: orelse_def split: prod.splits option.splits)
  then show "lines L' = lines L \<and> line L' = line L \<and> input L' = input L \<and> exhausted L' = exhausted L"
    using first.same [of L y L1] second.same [of L1 x L'] by auto
next
  fix L t L'
  assume "orelse look1 look2 L = (Some t, L')"
  then obtain y L1 where "look1 L = (y, L1)"
    "(y = Some t \<and> L' = L1) \<or> look2 L1 = (Some t, L')"
    by (auto simp: orelse_def split: prod.splits option.splits)
  then show "0 < token_length t \<and> token_length t \<le> length (input L)"
    using first.same [of L y L1] first.fits [of L t L1] second.fits [of L1 t L'] by auto
qed

text \<open>A token that is a prefix of the input fits.\<close>

lemma starts_with_length: "starts_with p s \<Longrightarrow> length p \<le> length s"
  by (auto simp: starts_with_iff)

end
