(* ===== verification/LexPunct.thy ===== *)
theory LexPunct
  imports LexCore
begin

text \<open>
  The scanners \<open>scanPunctuator\<close> and \<open>scanKeyword\<close> of \<^verbatim>\<open>lex.js\<close>. Neither moves the character
  pointer; \<open>scanPunctuator\<close> changes the context stack at a brace.
\<close>

section \<open>Punctuators\<close>

text \<open>\<open>ch1 === ch2\<close> and comparisons with a one-character literal, for the result of a \<open>peek\<close>.\<close>

definition is_ch :: "jchar option \<Rightarrow> char \<Rightarrow> bool" where
  "is_ch x c \<longleftrightarrow> x = Some (ch c)"

definition one_of :: "jchar option \<Rightarrow> string \<Rightarrow> bool" where
  "one_of x cs = (case x of None \<Rightarrow> False | Some c \<Rightarrow> List.member (js cs) c)"

definition digit_at :: "jchar option \<Rightarrow> bool" where
  "digit_at x = (case x of None \<Rightarrow> False | Some c \<Rightarrow> is_dec_digit c)"

text \<open>The part of \<open>scanPunctuator\<close> after its \<open>switch\<close>, on the first four characters.\<close>

definition long_punctuator ::
  "jchar option \<Rightarrow> jchar option \<Rightarrow> jchar option \<Rightarrow> jchar option \<Rightarrow> jstr option" where
  "long_punctuator ch1 ch2 ch3 ch4 =
     (if is_ch ch1 (CHR ''?'') then
        (if is_ch ch2 (CHR ''.'') \<and> \<not> digit_at ch3 then Some (js ''?.'')
         else if is_ch ch2 (CHR ''?'') then Some (js ''??'') else Some (js ''?''))
      else if is_ch ch1 (CHR ''>'') \<and> is_ch ch2 (CHR ''>'') \<and> is_ch ch3 (CHR ''>'') \<and>
              is_ch ch4 (CHR ''='') then Some (js ''>>>='')
      else if is_ch ch1 (CHR ''='') \<and> is_ch ch2 (CHR ''='') \<and> is_ch ch3 (CHR ''='')
        then Some (js ''==='')
      else if is_ch ch1 (CHR ''!'') \<and> is_ch ch2 (CHR ''='') \<and> is_ch ch3 (CHR ''='')
        then Some (js ''!=='')
      else if is_ch ch1 (CHR ''>'') \<and> is_ch ch2 (CHR ''>'') \<and> is_ch ch3 (CHR ''>'')
        then Some (js ''>>>'')
      else if is_ch ch1 (CHR ''<'') \<and> is_ch ch2 (CHR ''<'') \<and> is_ch ch3 (CHR ''='')
        then Some (js ''<<='')
      else if is_ch ch1 (CHR ''>'') \<and> is_ch ch2 (CHR ''>'') \<and> is_ch ch3 (CHR ''='')
        then Some (js ''>>='')
      else if is_ch ch1 (CHR ''='') \<and> is_ch ch2 (CHR ''>'') then Some (opt_str ch1 @ opt_str ch2)
      else if ch1 = ch2 \<and> one_of ch1 ''+-<>&|*'' then
        (if is_ch ch1 (CHR ''*'') \<and> is_ch ch3 (CHR ''='')
         then Some (opt_str ch1 @ opt_str ch2 @ opt_str ch3)
         else Some (opt_str ch1 @ opt_str ch2))
      else if one_of ch1 ''<>=!+-*%&|^/'' then
        (if is_ch ch2 (CHR ''='') then Some (opt_str ch1 @ opt_str ch2) else Some (opt_str ch1))
      else None)"

definition scanPunctuator :: "lexer \<Rightarrow> jstr option \<times> lexer" where
  "scanPunctuator L =
     (let ch1 = peek L 0 in
      if is_ch ch1 (CHR ''.'') \<and> digit_at (peek L 1) then (None, L)
      else if is_ch ch1 (CHR ''.'') \<and> is_ch (peek L 1) (CHR ''.'') \<and> is_ch (peek L 2) (CHR ''.'')
        then (Some (js ''...''), L)
      else if one_of ch1 ''.();,[]:~'' then (Some (opt_str ch1), L)
      else if is_ch ch1 (CHR ''{'') then (Some (opt_str ch1), pushContext Block L)
      else if is_ch ch1 (CHR ''}'') then
        (Some (opt_str ch1), if inContext Block L then snd (popContext L) else L)
      else if is_ch ch1 (CHR ''#'') then (Some (opt_str ch1), L)
      else if ch1 = None then (None, L)
      else (long_punctuator ch1 (peek L 1) (peek L 2) (peek L 3), L))"

section \<open>Keywords\<close>

definition is_word_start :: "jchar \<Rightarrow> bool" where
  "is_word_start c \<longleftrightarrow>
     (ch CHR ''a'' \<le> c \<and> c \<le> ch CHR ''z'') \<or> (ch CHR ''A'' \<le> c \<and> c \<le> ch CHR ''Z'') \<or>
     c = ch CHR ''_'' \<or> c = ch CHR ''$''"

definition is_word_part :: "jchar \<Rightarrow> bool" where
  "is_word_part c \<longleftrightarrow> is_word_start c \<or> is_dec_digit c"

text \<open>\<open>/^[a-zA-Z_$][a-zA-Z0-9_$]*/.exec(s)\<close>.\<close>

definition word_match :: "jstr \<Rightarrow> jstr option" where
  "word_match s =
     (case s of [] \<Rightarrow> None
      | c # cs \<Rightarrow> if is_word_start c then Some (c # takeWhile is_word_part cs) else None)"

definition keyword_list :: "string list" where
  "keyword_list =
     [''if'', ''in'', ''do'', ''var'', ''for'', ''new'',
      ''try'', ''let'', ''this'', ''else'', ''case'',
      ''void'', ''with'', ''enum'', ''while'', ''break'',
      ''catch'', ''throw'', ''const'', ''yield'', ''class'',
      ''super'', ''return'', ''typeof'', ''delete'',
      ''switch'', ''export'', ''import'', ''default'',
      ''finally'', ''extends'', ''function'', ''continue'',
      ''debugger'', ''instanceof'', ''true'', ''false'', ''null'', ''async'', ''await'']"

definition is_keyword :: "jstr \<Rightarrow> bool" where
  "is_keyword w \<longleftrightarrow> list_ex (\<lambda>k. js k = w) keyword_list"

definition scanKeyword :: "lexer \<Rightarrow> jstr option" where
  "scanKeyword L =
     (case word_match (input L) of
        None \<Rightarrow> None
      | Some w \<Rightarrow> if is_keyword w then Some w else None)"

section \<open>What a punctuator can be\<close>

text \<open>Every value \<open>scanPunctuator\<close> can return.\<close>

definition punctuators :: "string list" where
  "punctuators =
     [''.'', ''('', '')'', '';'', '','', ''['', '']'', '':'', ''~'', ''...'', ''{'', ''}'', ''#'',
      ''?.'', ''??'', ''?'', ''>>>='', ''==='', ''!=='', ''>>>'', ''<<='', ''>>='', ''=>'', ''**='',
      ''++'', ''--'', ''<<'', ''>>'', ''&&'', ''||'', ''**'',
      ''<='', ''>='', ''=='', ''!='', ''+='', ''-='', ''*='', ''%='', ''&='', ''|='', ''^='', ''/='',
      ''<'', ''>'', ''='', ''!'', ''+'', ''-'', ''*'', ''%'', ''&'', ''|'', ''^'', ''/'']"

text \<open>
  A result is one of these strings and agrees with the characters it was computed from; the
  two facts are proved together, \<open>c1\<close> to \<open>c4\<close> being the results of the four \<open>peek\<close>s.
\<close>

lemma one_of_iff: "one_of x cs \<longleftrightarrow> (\<exists>a \<in> set cs. x = Some (ch a))"
  by (auto simp: one_of_def js_def split: option.splits)

definition reads :: "jchar option list \<Rightarrow> jstr \<Rightarrow> bool" where
  "reads cs p \<longleftrightarrow> (\<exists>s \<in> set punctuators. p = js s \<and> take (length s) cs = map (\<lambda>c. Some (ch c)) s)"

lemma readsI:
  "js s = p \<Longrightarrow> s \<in> set punctuators \<Longrightarrow> take (length s) cs = map (\<lambda>c. Some (ch c)) s \<Longrightarrow> reads cs p"
  by (auto simp: reads_def)

lemma opt_strs: "opt_str (Some (ch a)) = js [a]"
  by (simp add: js_def)

lemmas to_js = opt_strs js_append [symmetric] append.simps

lemma if_SomeE:
  "(if c then a else b) = Some p \<Longrightarrow> (c \<Longrightarrow> a = Some p \<Longrightarrow> P) \<Longrightarrow> (b = Some p \<Longrightarrow> P) \<Longrightarrow> P"
  by (auto split: if_splits)

lemma if_PairE:
  "(if c then a else b) = (Some p, L) \<Longrightarrow> (c \<Longrightarrow> a = (Some p, L) \<Longrightarrow> P) \<Longrightarrow>
     (b = (Some p, L) \<Longrightarrow> P) \<Longrightarrow> P"
  by (auto split: if_splits)

lemma double_known: "c \<in> set ''+-<>&|*'' \<Longrightarrow> [c, c] \<in> set punctuators"
  by (auto simp: punctuators_def)

lemma assign_known: "c \<in> set ''<>=!+-*%&|^/'' \<Longrightarrow> [c, CHR ''=''] \<in> set punctuators"
  by (auto simp: punctuators_def)

lemma single_known:
  "c \<in> set ''<>=!+-*%&|^/'' \<Longrightarrow> [c] \<in> set punctuators"
  "c \<in> set ''.();,[]:~'' \<Longrightarrow> [c] \<in> set punctuators"
  by (auto simp: punctuators_def)

lemma literals_known:
  "''?.'' \<in> set punctuators" "''??'' \<in> set punctuators" "''?'' \<in> set punctuators"
  "''>>>='' \<in> set punctuators" "''==='' \<in> set punctuators" "''!=='' \<in> set punctuators"
  "''>>>'' \<in> set punctuators" "''<<='' \<in> set punctuators" "''>>='' \<in> set punctuators"
  "''=>'' \<in> set punctuators" "''**='' \<in> set punctuators" "''...'' \<in> set punctuators"
  "''{'' \<in> set punctuators" "''}'' \<in> set punctuators" "''#'' \<in> set punctuators"
  by (simp_all add: punctuators_def)

lemmas known_intros = double_known assign_known single_known literals_known

lemma long_punctuator_reads:
  assumes "long_punctuator c1 c2 c3 c4 = Some p"
  shows "reads [c1, c2, c3, c4] p"
  using assms unfolding long_punctuator_def is_ch_def one_of_iff
  apply (elim if_SomeE conjE bexE)
  apply (simp_all only: option.inject option.distinct)
  apply ((rule readsI, assumption, rule known_intros, simp del: ch_Char list.set)+)[9]
  subgoal by (rule readsI, erule subst, simp only: to_js, rule known_intros, simp del: ch_Char list.set)
  subgoal
    by (drule sym [of "Some (ch CHR ''*'')"], simp only: to_js option.inject ch_inject,
        rule readsI, assumption, rule known_intros, simp del: ch_Char list.set)
  subgoal for a
    by (drule sym [of "Some (ch a)"], simp only: to_js, rule readsI, assumption,
        rule double_known, assumption, simp del: ch_Char list.set)
  subgoal
    by (simp only: to_js, rule readsI, assumption, rule assign_known, assumption,
        simp del: ch_Char list.set)
  subgoal
    by (simp only: to_js, rule readsI, assumption, rule single_known, assumption,
        simp del: ch_Char list.set)
  done

lemma scanPunctuator_reads:
  assumes "scanPunctuator L = (Some p, L')"
  shows "reads [peek L 0, peek L 1, peek L 2, peek L 3] p"
  using assms unfolding scanPunctuator_def Let_def is_ch_def one_of_iff
  apply (elim if_PairE conjE bexE)
  apply (simp_all only: option.inject option.distinct prod.inject simp_thms)
  apply (elim conjE, rule readsI, assumption, rule known_intros, simp del: ch_Char list.set)
  subgoal
    by (elim conjE, simp only: to_js, rule readsI, assumption, rule single_known, assumption,
        simp del: ch_Char list.set)
  subgoal by (elim conjE, simp only: to_js, rule readsI, assumption, rule known_intros,
        simp del: ch_Char list.set)
  subgoal by (elim conjE, simp only: to_js, rule readsI, assumption, rule known_intros,
        simp del: ch_Char list.set)
  subgoal by (elim conjE, simp only: to_js, rule readsI, assumption, rule known_intros,
        simp del: ch_Char list.set)
  subgoal by (elim conjE) (simp add: long_punctuator_reads)
  done

lemma reads_nonempty: "reads cs p \<Longrightarrow> p \<noteq> []"
  by (auto simp: reads_def punctuators_def)

lemma reads_known: "reads cs p \<Longrightarrow> p \<in> set (map js punctuators)"
  by (auto simp: reads_def)

lemma reads_prefix:
  assumes "reads [char_at s 0, char_at s 1, char_at s 2, char_at s 3] p"
  shows "starts_with p s"
proof -
  obtain t where t: "p = js t"
    "take (length t) [char_at s 0, char_at s 1, char_at s 2, char_at s 3] = map (\<lambda>c. Some (ch c)) t"
    using assms by (auto simp: reads_def)
  from arg_cong [OF t(2), of length] have len: "length t \<le> 4" by simp
  have nth: "char_at s i = Some (ch (t ! i))" if "i < length t" for i
  proof -
    have "i = 0 \<or> i = 1 \<or> i = 2 \<or> i = 3" using that len by arith
    then show ?thesis
      using arg_cong [OF t(2), of "\<lambda>xs. xs ! i"] that by auto
  qed
  have "take (length t) s = map ch t"
  proof (rule nth_equalityI)
    show "length (take (length t) s) = length (map ch t)"
      using nth [of "length t - 1"] by (cases t) (auto dest: char_at_Some_less)
    show "take (length t) s ! i = map ch t ! i" if "i < length (take (length t) s)" for i
      using nth [of i] that by (auto simp: char_at_def split: if_splits)
  qed
  with t(1) show ?thesis by (simp add: starts_with_def js_def)
qed

lemmas scanPunctuator_nonempty = scanPunctuator_reads [THEN reads_nonempty]

lemma scanPunctuator_prefix:
  "scanPunctuator L = (Some p, L') \<Longrightarrow> starts_with p (input L)"
  using scanPunctuator_reads reads_prefix by (simp add: peek_def)

lemma scanPunctuator_frame:
  assumes "scanPunctuator L = (r, L')"
  shows "lines L' = lines L" "line L' = line L" "input L' = input L" "lchar L' = lchar L"
    "events L' = events L" "checks L' = checks L" "templateStarts L' = templateStarts L"
    "exhausted L' = exhausted L"
  using assms by (auto simp: scanPunctuator_def Let_def split: if_splits)

text \<open>A keyword is a non-empty prefix of the input.\<close>

lemma word_match_prefix: "word_match s = Some w \<Longrightarrow> starts_with w s \<and> w \<noteq> []"
  by (auto simp: word_match_def starts_with_iff split: list.splits if_splits)
    (metis takeWhile_dropWhile_id)

lemma scanKeyword_prefix: "scanKeyword L = Some w \<Longrightarrow> starts_with w (input L) \<and> w \<noteq> []"
  by (auto simp: scanKeyword_def word_match_prefix split: option.splits if_splits)

section \<open>The interface\<close>

definition scan_punctuator :: scan_fun where
  "scan_punctuator L = (case scanPunctuator L of (p, L1) \<Rightarrow> (map_option RPunctuator p, L1))"

definition scan_keyword :: scan_fun where
  "scan_keyword L = (map_option RKeyword (scanKeyword L), L)"

interpretation punctuator: looking_scanner scan_punctuator
proof
  show "lines L' = lines L \<and> line L' = line L \<and> input L' = input L \<and> exhausted L' = exhausted L"
    if "scan_punctuator L = (x, L')" for L x L'
    using that scanPunctuator_frame [of L _ L'] by (auto simp: scan_punctuator_def split: prod.splits)
  show "0 < token_length t \<and> token_length t \<le> length (input L)"
    if "scan_punctuator L = (Some t, L')" for L t L'
    using that scanPunctuator_nonempty [of L _ L'] scanPunctuator_prefix [of L _ L']
    by (auto simp: scan_punctuator_def starts_with_length split: prod.splits)
qed

interpretation keyword: looking_scanner scan_keyword
proof
  show "lines L' = lines L \<and> line L' = line L \<and> input L' = input L \<and> exhausted L' = exhausted L"
    if "scan_keyword L = (x, L')" for L x L'
    using that by (simp add: scan_keyword_def)
  show "0 < token_length t \<and> token_length t \<le> length (input L)"
    if "scan_keyword L = (Some t, L')" for L t L'
    using that scanKeyword_prefix [of L] by (auto simp: scan_keyword_def starts_with_length)
qed

end
