(* ===== verification/LexText.thy ===== *)
theory LexText
  imports LexPunct
begin

text \<open>
  The scanners that move the character pointer and may cross lines: \<open>scanEscapeSequence\<close>,
  \<open>scanTemplateLiteral\<close> and \<open>scanStringLiteral\<close> of \<^verbatim>\<open>lex.js\<close>. Their loops end because the
  lexer moves forward (\<open>lex_left\<close>).
\<close>

section \<open>Escape sequences\<close>

text \<open>
  The text the escape stands for, how far to skip and \<open>allowNewLine\<close>; the backslash itself
  is skipped here. The source keeps most escapes as they are written.
\<close>

definition scanEscapeSequence :: "lexer \<Rightarrow> (jstr \<times> nat \<times> bool) \<times> lexer" where
  "scanEscapeSequence L0 =
     (let L = skip 1 L0; char = peek L 0;
          keep = (\<lambda>c. ((js [CHR 92, c], 1, False), L))
      in if is_ch char (CHR 39) then
           ((opt_str char, 1, False),
            triggerAsync (warn_at ''W114'' [js [CHR 92, CHR 39]] L) (CJson True) L)
         else if is_ch char (CHR ''b'') then keep (CHR ''b'')
         else if is_ch char (CHR ''f'') then keep (CHR ''f'')
         else if is_ch char (CHR ''n'') then keep (CHR ''n'')
         else if is_ch char (CHR ''r'') then keep (CHR ''r'')
         else if is_ch char (CHR ''t'') then keep (CHR ''t'')
         else if is_ch char (CHR ''0'') then
           ((js [CHR 92, CHR ''0''], 1, False),
            triggerAsync (warn_at ''W115'' [] L) (CStrict (one_of (peek L 1) ''01234567'')) L)
         else if one_of char ''1234567'' then
           ((92 # opt_str char, 1, False),
            triggerAsync (warn_at ''W115'' [] L) (CStrict True) L)
         else if is_ch char (CHR ''u'') then
           (let sequence = substr (input L) 1 4
            in (([fromCharCode (parseInt16 sequence)], 5, False),
                if isHex sequence then L
                else trigger (warn_at ''W052'' [ch CHR ''u'' # sequence] L) L))
         else if is_ch char (CHR ''v'') then
           (([11], 1, False),
            triggerAsync (warn_at ''W114'' [js [CHR 92, CHR ''v'']] L) (CJson True) L)
         else if is_ch char (CHR ''x'') then
           (([fromCharCode (parseInt16 (substr (input L) 1 2))], 3, False),
            triggerAsync (warn_at ''W114'' [js [CHR 92, CHR ''x'', CHR ''-'']] L) (CJson True) L)
         else if is_ch char (CHR 92) then keep (CHR 92)
         else if is_ch char (CHR ''/'') then ((opt_str char, 1, False), L)
         else if char = None then (([], 1, True), L)
         else ((opt_str char, 1, False), L))"

lemma scanEscapeSequence_frame:
  assumes "scanEscapeSequence L = (r, L')"
  shows "lines L' = lines L" "line L' = line L" "input L' = drop 1 (input L)"
    "lcontext L' = lcontext L" "templateStarts L' = templateStarts L" "exhausted L' = exhausted L"
  using assms unfolding scanEscapeSequence_def Let_def
  by (auto split: if_splits)

lemma scanEscapeSequence_eol:
  "scanEscapeSequence L = ((s, j, nl), L') \<Longrightarrow> (nl \<longleftrightarrow> tl (input L) = []) \<and> (s = [] \<longleftrightarrow> nl)"
  unfolding scanEscapeSequence_def Let_def peek_def skip_simps
  by (cases "drop 1 (input L)") (auto simp: is_ch_def one_of_def js_def drop_Suc tl_drop split: if_splits)

lemma fwd_drop:
  "exhausted L' = exhausted L \<Longrightarrow> lines L' = lines L \<Longrightarrow> line L' = line L \<Longrightarrow> input L' = drop n (input L) \<Longrightarrow> fwd st L L'"
  by (auto simp: fwd_def)

lemma scanEscapeSequence_fwd: "scanEscapeSequence L = (r, L') \<Longrightarrow> fwd st L L'"
  by (rule fwd_drop) (auto dest: scanEscapeSequence_frame)

lemma scanEscapeSequence_left [lex_measure]:
  "scanEscapeSequence L = (r, L') \<Longrightarrow> input L \<noteq> [] \<Longrightarrow> (L', L) \<in> lex_left"
  by (auto simp: lex_left_iff scanEscapeSequence_frame)

section \<open>Template literals\<close>

definition pop_start :: "lexer \<Rightarrow> lexer" where
  "pop_start L = L\<lparr>templateStarts := tl (templateStarts L)\<rparr>"

lemma pop_start_simps [simp]:
  "exhausted (pop_start L) = exhausted L" "lines (pop_start L) = lines L" "line (pop_start L) = line L" "input (pop_start L) = input L"
  "lchar (pop_start L) = lchar L" "events (pop_start L) = events L" "checks (pop_start L) = checks L"
  "lcontext (pop_start L) = lcontext L" "templateStarts (pop_start L) = tl (templateStarts L)"
  by (simp_all add: pop_start_def)

text \<open>
  At the end of the file: the start of the template is taken off the stack and reported.
  Within a template there is one (\<open>template_starts_ok\<close> below).
\<close>

definition unclosed_template :: "lexer \<Rightarrow> lexer" where
  "unclosed_template L =
     (case templateStarts L of
        [] \<Rightarrow> L
      | (l, c) # _ \<Rightarrow> trigger (EvDiag DError ''E052'' l c []) (pop_start L))"

text \<open>
  The loop of \<open>scanTemplateLiteral\<close>; \<open>v\<close> is the value so far. The inner loop of the source,
  which skips empty lines, is the first branch.
\<close>

function template_loop ::
  "lstate \<Rightarrow> template_kind \<Rightarrow> nat \<Rightarrow> nat \<Rightarrow> nat \<Rightarrow> jstr \<Rightarrow> lexer \<Rightarrow> raw_token \<times> lexer" where
  "template_loop st tk startLine startChar depth v L =
     (case peek L 0 of
        None \<Rightarrow>
          (case nextLine st L of
             (True, L1) \<Rightarrow> template_loop st tk startLine startChar depth (v @ [10]) L1
           | (False, L1) \<Rightarrow>
               (case popContext (unclosed_template L1) of
                  (c, L2) \<Rightarrow> (RTemplate tk (v @ [10]) startLine startChar True depth c, L2)))
      | Some c \<Rightarrow>
          if c = ch CHR ''`'' then
            (case popContext (pop_start (skip 1 L)) of
               (k, L2) \<Rightarrow>
                 (RTemplate (if tk = TemplateHead then NoSubstTemplate else TemplateTail)
                    v startLine startChar False depth k, L2))
          else if c = ch CHR ''$'' \<and> is_ch (peek L 1) (CHR ''{'') then
            (let L1 = skip 2 L in
             (RTemplate tk (v @ js ''${'') startLine startChar False depth (currentContext L1), L1))
          else if c = 92 then
            (case scanEscapeSequence L of
               ((s, jump, _), L1) \<Rightarrow>
                 template_loop st tk startLine startChar depth (v @ s) (skip jump L1))
          else template_loop st tk startLine startChar depth (v @ [c]) (skip 1 L))"
  by pat_completeness auto
termination
proof (relation "inv_image lex_left (\<lambda>(st, tk, sl, sc, d, v, L). L)", goal_cases)
  case 1
  then show ?case by simp
next
  case (2 st tk sl sc d v L b L1)
  then show ?case by (simp add: nextLine_left)
next
  case (3 st tk sl sc d v L c r L1 q nl)
  then have "input L \<noteq> []" by (auto simp: peek_def)
  with 3 have "(L1, L) \<in> lex_left" by (auto intro: scanEscapeSequence_left [OF sym])
  then show ?case by (auto intro: fwd_lex_left_trans(2))
next
  case (4 st tk sl sc d v L c)
  then show ?case by (auto simp: peek_def intro!: skip_left)
qed

declare template_loop.simps [simp del]

text \<open>The opening backtick.\<close>

definition open_template :: "lstate \<Rightarrow> lexer \<Rightarrow> lexer" where
  "open_template st L =
     (let L1 = (if \<not> inES6 st True
                then triggerAsync (warn_at ''W119'' [js ''template literal syntax'', js ''6''] L)
                       (CStatic True) L
                else L);
          L2 = L1\<lparr>templateStarts := (line L, lchar L) # templateStarts L\<rparr>
      in pushContext Template (skip 1 L2))"

lemma open_template_simps [simp]:
  "exhausted (open_template st L) = exhausted L" "lines (open_template st L) = lines L" "line (open_template st L) = line L"
  "input (open_template st L) = drop 1 (input L)" "events (open_template st L) = events L"
  "lcontext (open_template st L) = Template # lcontext L"
  "templateStarts (open_template st L) = (line L, lchar L) # templateStarts L"
  by (simp_all add: open_template_def Let_def)

definition scanTemplateLiteral :: "lstate \<Rightarrow> lexer \<Rightarrow> raw_token option \<times> lexer" where
  "scanTemplateLiteral st L =
     (if is_ch (peek L 0) (CHR ''`'') then
        (let L3 = open_template st L
         in case template_loop st TemplateHead (line L) (lchar L) (length (templateStarts L3)) [] L3 of
              (t, L4) \<Rightarrow> (Some t, L4))
      else if inContext Template L \<and> is_ch (peek L 0) (CHR ''}'') then
        (case template_loop st TemplateMiddle (line L) (lchar L) (length (templateStarts L)) [] L of
           (t, L4) \<Rightarrow> (Some t, L4))
      else (None, L))"

section \<open>String literals\<close>

definition report_eol :: "bool \<Rightarrow> lexer \<Rightarrow> lexer" where
  "report_eol allowNewLine L =
     (if \<not> allowNewLine then trigger (warn_at ''W112'' [] L) L
      else triggerAsync (warn_at ''W042'' [] L) CJsonMultistr
             (triggerAsync (warn_at ''W043'' [] L) CNotMultistr L))"

definition report_control :: "jchar \<Rightarrow> lexer \<Rightarrow> lexer" where
  "report_control c L =
     (if c < 32 then triggerAsync (warn_at ''W113'' [js ''<non-printable>''] L) (CStatic True) L
      else L)"

lemma report_simps [simp]:
  "exhausted (report_eol b L) = exhausted L" "lines (report_eol b L) = lines L" "line (report_eol b L) = line L"
  "input (report_eol b L) = input L" "lchar (report_eol b L) = lchar L"
  "lcontext (report_eol b L) = lcontext L" "templateStarts (report_eol b L) = templateStarts L"
  "exhausted (report_control c L) = exhausted L" "lines (report_control c L) = lines L" "line (report_control c L) = line L"
  "input (report_control c L) = input L" "lchar (report_control c L) = lchar L"
  "lcontext (report_control c L) = lcontext L" "events (report_control c L) = events L"
  "templateStarts (report_control c L) = templateStarts L"
  by (simp_all add: report_eol_def report_control_def)

lemma report_fwd [simp]: "fwd st L (report_eol b L)" "fwd st L (report_control c L)"
  by (simp_all add: fwd_same)

function string_loop ::
  "lstate \<Rightarrow> jchar \<Rightarrow> nat \<Rightarrow> nat \<Rightarrow> jstr \<Rightarrow> bool \<Rightarrow> lexer \<Rightarrow> raw_token \<times> lexer" where
  "string_loop st quote startLine startChar v allowNewLine L =
     (case peek L 0 of
        None \<Rightarrow>
          (case nextLine st (report_eol allowNewLine L) of
             (True, L1) \<Rightarrow> string_loop st quote startLine startChar v False L1
           | (False, L1) \<Rightarrow> (RString v startLine startChar True quote, L1))
      | Some c \<Rightarrow>
          if c = quote then (RString v startLine startChar False quote, skip 1 L)
          else if c = 92 then
            (case scanEscapeSequence (report_control c L) of
               ((s, jump, nl), L1) \<Rightarrow>
                 string_loop st quote startLine startChar (v @ s) nl
                   (if s = [] then L1 else skip jump L1))
          else string_loop st quote startLine startChar (v @ [c]) False
                 (skip 1 (report_control c L)))"
  by pat_completeness auto
termination
proof (relation "inv_image lex_left (\<lambda>(st, q, sl, sc, v, nl, L). L)", goal_cases)
  case 1
  then show ?case by simp
next
  case (2 st q sl sc v nl L b L1)
  then have "(L1, report_eol nl L) \<in> lex_left" by (simp add: nextLine_left)
  then show ?case by (simp add: lex_left_iff)
next
  case (3 st q sl sc v nl L c r L1 s y jump z)
  then have "input (report_control c L) \<noteq> []" by (auto simp: peek_def)
  with 3 have "(L1, report_control c L) \<in> lex_left" by (auto intro: scanEscapeSequence_left [OF sym])
  then have "(L1, L) \<in> lex_left" by (simp add: lex_left_iff)
  then show ?case by (auto intro: fwd_lex_left_trans(2))
next
  case (4 st q sl sc v nl L c)
  then show ?case by (cases "input L") (auto simp: peek_def lex_left_iff)
qed

declare string_loop.simps [simp del]

definition scanStringLiteral :: "lstate \<Rightarrow> lexer \<Rightarrow> raw_token option \<times> lexer" where
  "scanStringLiteral st L =
     (case peek L 0 of
        None \<Rightarrow> (None, L)
      | Some quote \<Rightarrow>
          if quote \<noteq> ch CHR 34 \<and> quote \<noteq> ch CHR 39 then (None, L)
          else
            (let L1 = triggerAsync (warn_at ''W108'' [] L) (CJson (quote \<noteq> ch CHR 34)) L
             in case string_loop st quote (line L) (lchar L) [] False (skip 1 L1) of
                  (t, L2) \<Rightarrow> (Some t, L2)))"

section \<open>The scanners move forward\<close>

lemma unclosed_template_simps [simp]:
  "exhausted (unclosed_template L) = exhausted L" "lines (unclosed_template L) = lines L" "line (unclosed_template L) = line L"
  "input (unclosed_template L) = input L" "lcontext (unclosed_template L) = lcontext L"
  "templateStarts (unclosed_template L) = tl (templateStarts L)"
  by (auto simp: unclosed_template_def split: list.splits)

lemma fwd_pop: "popContext L = (k, L') \<Longrightarrow> fwd st L0 L \<Longrightarrow> fwd st L0 L'"
  using fwd_trigger(4) [of _ L] by (auto intro: fwd_trans)

lemma fwd_templates [simp]: "fwd st L (pop_start L)" "fwd st L (unclosed_template L)"
  by (simp_all add: fwd_same)

lemma template_loop_fwd: "template_loop st tk sl sc d v L = (t, L') \<Longrightarrow> fwd st L L'"
proof (induction st tk sl sc d v L rule: template_loop.induct)
  case (1 st tk sl sc d v L)
  show ?case
  proof (cases "peek L 0")
    case None
    obtain b L1 where nl: "nextLine st L = (b, L1)" by (cases "nextLine st L")
    have f1: "fwd st L L1" using nextLine_fwd [OF nl] .
    show ?thesis
    proof (cases b)
      case True
      with "1.prems" None nl have "template_loop st tk sl sc d (v @ [10]) L1 = (t, L')"
        by (subst (asm) template_loop.simps) simp
      with "1.IH"(1) [OF None nl [symmetric]] True f1 show ?thesis
        by (auto intro: fwd_trans)
    next
      case False
      with "1.prems" None nl obtain c where "popContext (unclosed_template L1) = (c, L')"
        by (subst (asm) template_loop.simps) (auto split: prod.splits)
      then show ?thesis by (rule fwd_pop) (rule fwd_trans [OF f1 fwd_templates(2)])
    qed
  next
    case (Some c)
    obtain s jump nl L1 where esc: "scanEscapeSequence L = ((s, jump, nl), L1)"
      by (metis surj_pair)
    consider (close) "c = ch CHR ''`''"
      | (subst) "c \<noteq> ch CHR ''`''" "c = ch CHR ''$'' \<and> is_ch (peek L 1) (CHR ''{'')"
      | (escape) "c = 92" | (plain) "c \<noteq> ch CHR ''`''" "c \<noteq> 92"
          "\<not> (c = ch CHR ''$'' \<and> is_ch (peek L 1) (CHR ''{''))"
      by blast
    then show ?thesis
    proof cases
      case close
      with "1.prems" Some obtain k where "popContext (pop_start (skip 1 L)) = (k, L')"
        by (subst (asm) template_loop.simps) (auto split: prod.splits)
      then show ?thesis by (rule fwd_pop) (rule fwd_trans [OF fwd_skip fwd_templates(1)])
    next
      case subst
      with "1.prems" Some show ?thesis
        by (subst (asm) template_loop.simps) (auto simp: Let_def)
    next
      case escape
      with "1.prems" Some esc have "template_loop st tk sl sc d (v @ s) (skip jump L1) = (t, L')"
        by (subst (asm) template_loop.simps) simp
      with "1.IH"(2) [OF Some _ _ escape esc [symmetric] refl refl] escape
      have "fwd st (skip jump L1) L'" by simp
      then show ?thesis using scanEscapeSequence_fwd [OF esc] by (blast intro: fwd_trans fwd_skip)
    next
      case plain
      with "1.prems" Some have "template_loop st tk sl sc d (v @ [c]) (skip 1 L) = (t, L')"
        by (subst (asm) template_loop.simps) auto
      with "1.IH"(3) [OF Some plain(1,3,2)] show ?thesis
        by (blast intro: fwd_trans fwd_skip)
    qed
  qed
qed

lemma string_loop_fwd: "string_loop st q sl sc v nl L = (t, L') \<Longrightarrow> fwd st L L'"
proof (induction st q sl sc v nl L rule: string_loop.induct)
  case (1 st q sl sc v nl L)
  show ?case
  proof (cases "peek L 0")
    case None
    obtain b L1 where nx: "nextLine st (report_eol nl L) = (b, L1)"
      by (cases "nextLine st (report_eol nl L)")
    have f1: "fwd st L L1" using nextLine_fwd [OF nx] report_fwd(1) by (blast intro: fwd_trans)
    show ?thesis
    proof (cases b)
      case True
      with "1.prems" None nx have "string_loop st q sl sc v False L1 = (t, L')"
        by (subst (asm) string_loop.simps) simp
      with "1.IH"(1) [OF None nx [symmetric]] True f1 show ?thesis
        by (auto intro: fwd_trans)
    next
      case False
      with "1.prems" None nx show ?thesis using f1
        by (subst (asm) string_loop.simps) simp
    qed
  next
    case (Some c)
    obtain s jump nl' L1 where esc: "scanEscapeSequence (report_control c L) = ((s, jump, nl'), L1)"
      by (metis surj_pair)
    consider (close) "c = q" | (escape) "c \<noteq> q" "c = 92" | (plain) "c \<noteq> q" "c \<noteq> 92" by blast
    then show ?thesis
    proof cases
      case close
      with "1.prems" Some show ?thesis by (subst (asm) string_loop.simps) auto
    next
      case escape
      define L2 where "L2 = (if s = [] then L1 else skip jump L1)"
      have "string_loop st q sl sc (v @ s) nl' L2 = (t, L')"
        using "1.prems" Some esc escape
        by (subst (asm) string_loop.simps) (simp add: L2_def)
      with "1.IH"(2) [OF Some escape esc [symmetric] refl refl] have "fwd st L2 L'"
        by (simp add: L2_def)
      moreover have "fwd st L L1"
        using scanEscapeSequence_fwd [OF esc] report_fwd(2) by (blast intro: fwd_trans)
      moreover have "fwd st L1 L2" by (simp add: L2_def)
      ultimately show ?thesis by (blast intro: fwd_trans)
    next
      case plain
      with "1.prems" Some
      have "string_loop st q sl sc (v @ [c]) False (skip 1 (report_control c L)) = (t, L')"
        by (subst (asm) string_loop.simps) auto
      with "1.IH"(3) [OF Some plain] show ?thesis
        by (blast intro: fwd_trans fwd_skip report_fwd)
    qed
  qed
qed

lemma scanStringLiteral_left [lex_measure]:
  assumes "scanStringLiteral st L = (Some t, L')"
  shows "(L', L) \<in> lex_left"
proof -
  from assms obtain q e c where q: "peek L 0 = Some q"
    and loop: "string_loop st q (line L) (lchar L) [] False (skip 1 (triggerAsync e c L)) = (t, L')"
    by (auto simp: scanStringLiteral_def Let_def split: option.splits if_splits prod.splits)
  have "(skip 1 (triggerAsync e c L), L) \<in> lex_left"
    using q by (cases "input L") (auto simp: peek_def lex_left_iff)
  then show ?thesis using string_loop_fwd [OF loop] by (rule fwd_lex_left_trans(2))
qed

lemma scanStringLiteral_None: "scanStringLiteral st L = (None, L') \<Longrightarrow> L' = L"
  by (auto simp: scanStringLiteral_def Let_def split: option.splits if_splits prod.splits)

lemma template_loop_plain:
  "peek L 0 = Some c \<Longrightarrow> c \<noteq> ch CHR ''`'' \<Longrightarrow> c \<noteq> ch CHR ''$'' \<Longrightarrow> c \<noteq> 92 \<Longrightarrow>
     template_loop st tk sl sc d v L = template_loop st tk sl sc d (v @ [c]) (skip 1 L)"
  by (subst template_loop.simps) simp

lemma scanTemplateLiteral_left [lex_measure]:
  assumes "scanTemplateLiteral st L = (Some t, L')"
  shows "(L', L) \<in> lex_left"
proof (cases "is_ch (peek L 0) (CHR ''`'')")
  case True
  with assms obtain d where
    loop: "template_loop st TemplateHead (line L) (lchar L) d [] (open_template st L) = (t, L')"
    unfolding scanTemplateLiteral_def Let_def
    by (auto split: prod.splits if_splits)
  have "(open_template st L, L) \<in> lex_left"
    using True by (cases "input L") (auto simp: peek_def is_ch_def lex_left_iff)
  then show ?thesis using template_loop_fwd [OF loop] by (rule fwd_lex_left_trans(2))
next
  case False
  with assms have brace: "is_ch (peek L 0) (CHR ''}'')"
    and loop: "template_loop st TemplateMiddle (line L) (lchar L) (length (templateStarts L)) [] L = (t, L')"
    by (auto simp: scanTemplateLiteral_def split: prod.splits if_splits)
  have "template_loop st TemplateMiddle (line L) (lchar L) (length (templateStarts L)) [ch CHR ''}''] (skip 1 L) = (t, L')"
    using loop template_loop_plain [of L "ch CHR ''}''"] brace by (simp add: is_ch_def)
  then have "fwd st (skip 1 L) L'" by (rule template_loop_fwd)
  moreover have "(skip 1 L, L) \<in> lex_left"
    using brace by (auto simp: peek_def is_ch_def intro!: skip_left)
  ultimately show ?thesis by (blast intro: fwd_lex_left_trans(2))
qed

lemma scanTemplateLiteral_None: "scanTemplateLiteral st L = (None, L') \<Longrightarrow> L' = L"
  by (auto simp: scanTemplateLiteral_def Let_def split: if_splits prod.splits)

section \<open>Open templates\<close>

text \<open>
  The stack of template starts has one entry per template context. So the scanner never
  takes a start off an empty stack, and an unclosed template is reported where it starts.
\<close>

definition template_starts_ok :: "lexer \<Rightarrow> bool" where
  "template_starts_ok L \<longleftrightarrow>
     length (filter (\<lambda>c. c = Template) (lcontext L)) = length (templateStarts L)"

text \<open>What the loop leaves of the two stacks, and the report of an unclosed template.\<close>

definition template_end :: "lex_context list \<Rightarrow> (nat \<times> nat) \<Rightarrow> (nat \<times> nat) list \<Rightarrow> raw_token \<Rightarrow> lexer \<Rightarrow> bool" where
  "template_end r p ps t L \<longleftrightarrow>
     (\<exists>k v sl sc u d c. t = RTemplate k v sl sc u d c \<and>
        (u \<longrightarrow> events L \<noteq> [] \<and> last (events L) = EvDiag DError ''E052'' (fst p) (snd p) []) \<and>
        (lcontext L = Template # r \<and> templateStarts L = p # ps \<or>
         lcontext L = r \<and> templateStarts L = ps))"

lemma template_loop_end:
  "lcontext L = Template # r \<Longrightarrow> templateStarts L = p # ps \<Longrightarrow>
     template_loop st tk sl sc d v L = (t, L') \<Longrightarrow> template_end r p ps t L'"
proof (induction st tk sl sc d v L rule: template_loop.induct)
  case (1 st tk sl sc d v L)
  note stacks = "1.prems"(1,2) and run = "1.prems"(3)
  show ?case
  proof (cases "peek L 0")
    case None
    obtain b L1 where nl: "nextLine st L = (b, L1)" by (cases "nextLine st L")
    show ?thesis
    proof (cases b)
      case True
      with run None nl have "template_loop st tk sl sc d (v @ [10]) L1 = (t, L')"
        by (subst (asm) template_loop.simps) simp
      with "1.IH"(1) [OF None nl [symmetric]] True stacks nl show ?thesis
        by (simp add: nextLine_fields)
    next
      case False
      with nl have "L1 = L" using nextLine_False [of st L L1] by simp
      with run None nl False stacks show ?thesis
        by (subst (asm) template_loop.simps)
          (cases p, auto simp: template_end_def unclosed_template_def popContext_def)
    qed
  next
    case (Some c)
    obtain s jump nl L1 where esc: "scanEscapeSequence L = ((s, jump, nl), L1)"
      by (metis surj_pair)
    consider (close) "c = ch CHR ''`''"
      | (subst) "c \<noteq> ch CHR ''`''" "c = ch CHR ''$'' \<and> is_ch (peek L 1) (CHR ''{'')"
      | (escape) "c = 92" | (plain) "c \<noteq> ch CHR ''`''" "c \<noteq> 92"
          "\<not> (c = ch CHR ''$'' \<and> is_ch (peek L 1) (CHR ''{''))"
      by blast
    then show ?thesis
    proof cases
      case close
      with run Some stacks show ?thesis
        by (subst (asm) template_loop.simps) (auto simp: template_end_def popContext_def)
    next
      case subst
      with run Some stacks show ?thesis
        by (subst (asm) template_loop.simps) (auto simp: Let_def template_end_def)
    next
      case escape
      with run Some esc have "template_loop st tk sl sc d (v @ s) (skip jump L1) = (t, L')"
        by (subst (asm) template_loop.simps) simp
      with "1.IH"(2) [OF Some _ _ escape esc [symmetric] refl refl] escape stacks
      show ?thesis by (simp add: scanEscapeSequence_frame [OF esc])
    next
      case plain
      with run Some have "template_loop st tk sl sc d (v @ [c]) (skip 1 L) = (t, L')"
        by (subst (asm) template_loop.simps) auto
      with "1.IH"(3) [OF Some plain(1,3,2)] stacks show ?thesis by simp
    qed
  qed
qed

text \<open>Where the scanner enters the loop.\<close>

lemma scanTemplateLiteral_end:
  assumes "scanTemplateLiteral st L = (Some t, L')" "template_starts_ok L"
  obtains r p ps where "template_end r p ps t L'"
    "length (filter (\<lambda>c. c = Template) r) = length ps"
    "peek L 0 = Some (ch CHR ''`'') \<Longrightarrow> p = (line L, lchar L) \<and> r = lcontext L \<and> ps = templateStarts L"
    "peek L 0 \<noteq> Some (ch CHR ''`'') \<Longrightarrow> Template # r = lcontext L \<and> p # ps = templateStarts L"
proof (cases "is_ch (peek L 0) (CHR ''`'')")
  case True
  from assms(1) True obtain d where
    loop: "template_loop st TemplateHead (line L) (lchar L) d [] (open_template st L) = (t, L')"
    unfolding scanTemplateLiteral_def Let_def
    by (auto split: prod.splits if_splits)
  from template_loop_end [OF _ _ loop] show ?thesis
    using assms(2) True by (intro that) (auto simp: template_starts_ok_def is_ch_def)
next
  case False
  with assms(1) have ctx: "inContext Template L"
    and loop: "template_loop st TemplateMiddle (line L) (lchar L) (length (templateStarts L)) [] L = (t, L')"
    by (auto simp: scanTemplateLiteral_def split: prod.splits if_splits)
  from ctx obtain r where r: "lcontext L = Template # r"
    by (auto simp: inContext_def split: list.splits)
  with assms(2) obtain p ps where ps: "templateStarts L = p # ps"
    by (cases "templateStarts L") (auto simp: template_starts_ok_def)
  from template_loop_end [OF r ps loop] show ?thesis
    using assms(2) False r ps by (intro that) (auto simp: template_starts_ok_def is_ch_def)
qed

lemma scanTemplateLiteral_ok:
  assumes "scanTemplateLiteral st L = (x, L')" "template_starts_ok L"
  shows "template_starts_ok L'"
proof (cases x)
  case None
  with assms show ?thesis using scanTemplateLiteral_None by blast
next
  case (Some t)
  with assms obtain r p ps where "template_end r p ps t L'"
    "length (filter (\<lambda>c. c = Template) r) = length ps"
    by (metis scanTemplateLiteral_end)
  then show ?thesis by (auto simp: template_end_def template_starts_ok_def)
qed

lemma scanPunctuator_ok:
  "scanPunctuator L = (x, L') \<Longrightarrow> template_starts_ok L \<Longrightarrow> template_starts_ok L'"
  by (auto simp: scanPunctuator_def Let_def template_starts_ok_def inContext_def popContext_def pushContext_def
      split: if_splits list.splits)

section \<open>Plain strings\<close>

text \<open>A string without escapes, quotes and control characters is read as it is.\<close>

definition plain_char :: "jchar \<Rightarrow> jchar \<Rightarrow> bool" where
  "plain_char q c \<longleftrightarrow> c \<noteq> q \<and> c \<noteq> 92 \<and> 32 \<le> c"

lemma string_loop_plain:
  "input L = s @ q # r \<Longrightarrow> list_all (plain_char q) s \<Longrightarrow>
     string_loop st q sl sc v nl L =
       (RString (v @ s) sl sc False q, L\<lparr>lchar := lchar L + length s + 1, input := r\<rparr>)"
proof (induction s arbitrary: v nl L)
  case Nil
  then show ?case by (subst string_loop.simps) (simp add: peek_def skip_def)
next
  case (Cons c s)
  have "string_loop st q sl sc v nl L = string_loop st q sl sc (v @ [c]) False (skip 1 L)"
    using Cons.prems by (subst string_loop.simps) (simp add: peek_def plain_char_def report_control_def)
  also have "\<dots> = (RString ((v @ [c]) @ s) sl sc False q,
      (skip 1 L)\<lparr>lchar := lchar (skip 1 L) + length s + 1, input := r\<rparr>)"
    using Cons.prems by (intro Cons.IH) auto
  finally show ?case by (simp add: skip_def)
qed

section \<open>The interface\<close>

interpretation string_scanner: scanner st "scanStringLiteral st" for st
proof
  show "fwd st L L'" if "scanStringLiteral st L = (x, L')" for L x L'
  proof (cases x)
    case None
    with that scanStringLiteral_None show ?thesis by fastforce
  next
    case (Some t)
    with that show ?thesis
      unfolding scanStringLiteral_def Let_def
      by (auto split: option.splits if_splits prod.splits dest!: string_loop_fwd
          intro: fwd_trans [OF fwd_trans [OF fwd_trigger(2) fwd_skip]])
  qed
  show "(L', L) \<in> lex_left" if "scanStringLiteral st L = (Some t, L')" for L t L'
    using that by (rule scanStringLiteral_left)
qed

interpretation template_scanner: scanner st "scanTemplateLiteral st" for st
proof
  show "fwd st L L'" if "scanTemplateLiteral st L = (x, L')" for L x L'
  proof (cases x)
    case None
    with that scanTemplateLiteral_None show ?thesis by fastforce
  next
    case (Some t)
    have "fwd st L (open_template st L)" by (rule fwd_drop) simp_all
    with that Some show ?thesis
      unfolding scanTemplateLiteral_def Let_def
      by (auto split: if_splits prod.splits dest!: template_loop_fwd intro: fwd_trans)
  qed
  show "(L', L) \<in> lex_left" if "scanTemplateLiteral st L = (Some t, L')" for L t L'
    using that by (rule scanTemplateLiteral_left)
qed

end
