(* ===== verification/LexComment.thy ===== *)
theory LexComment
  imports LexText
begin

text \<open>
  The scanner \<open>scanComments\<close> of \<^verbatim>\<open>lex.js\<close>: comments and the directives in them.
\<close>

section \<open>Directives\<close>

definition specials :: "string list" where
  "specials = [''jshint'', ''jshint.unstable'', ''jslint'', ''members'', ''member'', ''globals'',
     ''global'', ''exported'']"

text \<open>The variables of \<open>commentToken\<close> that the loop over \<open>special\<close> changes.\<close>

record comment_state =
  c_label :: jstr
  c_body :: jstr
  c_type :: jstr
  c_special :: bool
  c_ignoring :: bool

text \<open>
  The three ways a comment may name a directive: at its start, after one blank, and after
  other white space. The later ones are tried when the earlier ones failed.
\<close>

definition match_special :: "string \<Rightarrow> comment_state \<Rightarrow> comment_state" where
  "match_special str C =
     (let s = js str; n = length str; b = c_body C;
          found = (\<lambda>l i. C\<lparr>c_special := True, c_label := c_label C @ l, c_body := drop i b\<rparr>)
      in if char_at b n = Some 32 \<and> substr b 0 n = s then found s n
         else if char_at b 0 = Some 32 \<and> char_at b (n + 1) = Some 32 \<and> substr b 1 n = s
           then found (32 # s) (n + 1)
         else case index_of s b of
                None \<Rightarrow> C
              | Some i \<Rightarrow>
                  if char_at b (i + n) = Some 32 \<and> trim (substr b 0 i) = [] then found [] (n + i)
                  else C)"

text \<open>
  What a directive does: \<open>ignore:start\<close> and \<open>ignore:end\<close> switch the lexer's flag, and the
  comment is then no longer special.
\<close>

definition apply_special :: "string \<Rightarrow> comment_state \<Rightarrow> comment_state" where
  "apply_special str C =
     (if str = ''member'' then C\<lparr>c_type := js ''members''\<rparr>
      else if str = ''global'' then C\<lparr>c_type := js ''globals''\<rparr>
      else
        (let options = map trim (split_on (ch CHR '':'') (c_body C));
             C1 = (if options = [js ''ignore'', js ''start'']
                   then C\<lparr>c_ignoring := True, c_special := False\<rparr>
                   else if options = [js ''ignore'', js ''end'']
                   then C\<lparr>c_ignoring := False, c_special := False\<rparr>
                   else C)
         in C1\<lparr>c_type := js str\<rparr>))"

definition special_step :: "string \<Rightarrow> comment_state \<Rightarrow> comment_state" where
  "special_step str C =
     (if c_special C then C
      else if c_label C = js ''//'' \<and> str \<noteq> ''jshint'' \<and> str \<noteq> ''jshint.unstable'' then C
      else
        (let C1 = match_special str C in
         if c_special C1 then apply_special str C1 else C1))"

definition commentToken :: "jstr \<Rightarrow> jstr \<Rightarrow> bool \<Rightarrow> bool \<Rightarrow> lexer \<Rightarrow> raw_token \<times> lexer" where
  "commentToken label body0 isMultiline isMalformed L =
     (let text = label @ body0 @ (if isMultiline then js ''*/'' else []);
          body = map (\<lambda>c. if c = 10 then 32 else c) body0;
          falls = (label = js ''/*'' \<and> fallsThrough body);
          C0 = \<lparr>c_label = label, c_body = body,
                c_type = (if falls then js ''falls through'' else js ''plain''),
                c_special = falls, c_ignoring = ignoringLinterErrors L\<rparr>;
          C = fold special_step specials C0
      in (RComment (c_type C) text (c_body C) (c_special C) isMalformed,
          L\<lparr>ignoringLinterErrors := c_ignoring C\<rparr>))"

section \<open>The scanner\<close>

text \<open>
  The loop over the body of a multi-line comment: the body, whether the end of the comment
  was found, and the lexer there.
\<close>

function comment_loop :: "lstate \<Rightarrow> jstr \<Rightarrow> lexer \<Rightarrow> jstr \<times> bool \<times> lexer" where
  "comment_loop st body L =
     (case peek L 0 of
        None \<Rightarrow>
          (case nextLine st L of
             (True, L1) \<Rightarrow> comment_loop st (body @ [10]) L1
           | (False, L1) \<Rightarrow> (body @ [10], False, L1))
      | Some c \<Rightarrow>
          if c = ch CHR ''*'' \<and> is_ch (peek L 1) (CHR ''/'') then (body, True, L)
          else comment_loop st (body @ [c]) (skip 1 L))"
  by pat_completeness auto
termination
proof (relation "inv_image lex_left (\<lambda>(st, b, L). L)", goal_cases)
  case 1
  then show ?case by simp
next
  case (2 st body L b L1)
  then show ?case by (simp add: nextLine_left)
next
  case (3 st body L c)
  then show ?case by (auto simp: peek_def intro!: skip_left)
qed

declare comment_loop.simps [simp del]

definition scanComments :: "lstate \<Rightarrow> lexer \<Rightarrow> raw_token option \<times> lexer" where
  "scanComments st L =
     (let ch1 = peek L 0; ch2 = peek L 1; rest = drop 2 (input L) in
      if is_ch ch1 (CHR ''*'') \<and> is_ch ch2 (CHR ''/'') then
        (None, skip 2 (trigger (error_at ''E018'' [] L) L))
      else if \<not> is_ch ch1 (CHR ''/'') \<or> (\<not> is_ch ch2 (CHR ''*'') \<and> \<not> is_ch ch2 (CHR ''/''))
        then (None, L)
      else if is_ch ch2 (CHR ''/'') then
        (case commentToken (js ''//'') rest False False (skip (length (input L)) L) of
           (t, L1) \<Rightarrow> (Some t, L1))
      else
        (case comment_loop st [] (skip 2 (L\<lparr>inComment := True\<rparr>)) of
           (body, closed, L1) \<Rightarrow>
             (let L2 = (if closed then skip 2 L1 else trigger (error_at ''E017'' [] L) L1)
              in case commentToken (js ''/*'') body True (\<not> closed) (L2\<lparr>inComment := False\<rparr>) of
                   (t, L3) \<Rightarrow> (Some t, L3))))"

section \<open>The scanner moves forward\<close>

lemma comment_loop_fwd: "comment_loop st b L = (b', c, L') \<Longrightarrow> fwd st L L'"
proof (induction st b L rule: comment_loop.induct)
  case (1 st body L)
  show ?case
  proof (cases "peek L 0")
    case None
    obtain b L1 where nl: "nextLine st L = (b, L1)" by (cases "nextLine st L")
    have f1: "fwd st L L1" using nextLine_fwd [OF nl] .
    show ?thesis
    proof (cases b)
      case True
      with "1.prems" None nl have "comment_loop st (body @ [10]) L1 = (b', c, L')"
        by (subst (asm) comment_loop.simps) simp
      with "1.IH"(1) [OF None nl [symmetric]] True f1 show ?thesis by (auto intro: fwd_trans)
    next
      case False
      with "1.prems" None nl f1 show ?thesis by (subst (asm) comment_loop.simps) simp
    qed
  next
    case (Some d)
    show ?thesis
    proof (cases "d = ch CHR ''*'' \<and> is_ch (peek L 1) (CHR ''/'')")
      case True
      with "1.prems" Some show ?thesis by (subst (asm) comment_loop.simps) auto
    next
      case False
      with "1.prems" Some have "comment_loop st (body @ [d]) (skip 1 L) = (b', c, L')"
        by (subst (asm) comment_loop.simps) auto
      with "1.IH"(2) [OF Some False] show ?thesis by (blast intro: fwd_trans fwd_skip)
    qed
  qed
qed

lemma commentToken_lexer:
  assumes "commentToken l b m f L = (t, L')"
  obtains i where "L' = L\<lparr>ignoringLinterErrors := i\<rparr>"
  using assms by (auto simp: commentToken_def Let_def)

lemma scanComments_left [lex_measure]:
  assumes "scanComments st L = (x, L')" "x \<noteq> None \<or> L' \<noteq> L"
  shows "(L', L) \<in> lex_left"
proof (cases "is_ch (peek L 0) (CHR ''*'') \<and> is_ch (peek L 1) (CHR ''/'')")
  case True
  with assms(1) have "L' = skip 2 (trigger (error_at ''E018'' [] L) L)"
    by (simp add: scanComments_def Let_def)
  moreover have "input L \<noteq> []" using True by (auto simp: peek_def is_ch_def)
  ultimately show ?thesis by (cases "input L") (auto simp: lex_left_iff)
next
  case not_end: False
  show ?thesis
  proof (cases "\<not> is_ch (peek L 0) (CHR ''/'') \<or>
      (\<not> is_ch (peek L 1) (CHR ''*'') \<and> \<not> is_ch (peek L 1) (CHR ''/''))")
    case True
    have "(None, L) = (x, L')"
      using assms(1) [unfolded scanComments_def Let_def if_not_P [OF not_end] if_P [OF True]] .
    with assms(2) show ?thesis by simp
  next
    case False
    then have ne: "input L \<noteq> []" by (auto simp: peek_def is_ch_def)
    note branch = assms(1) [unfolded scanComments_def Let_def if_not_P [OF not_end] if_not_P [OF False]]
    show ?thesis
    proof (cases "is_ch (peek L 1) (CHR ''/'')")
      case True
      with branch obtain t where
        "commentToken (js ''//'') (drop 2 (input L)) False False (skip (length (input L)) L) = (t, L')"
        by (auto split: prod.splits)
      with ne show ?thesis by (elim commentToken_lexer) (simp add: lex_left_iff)
    next
      case False
      obtain b c L1 where loop: "comment_loop st [] (skip 2 (L\<lparr>inComment := True\<rparr>)) = (b, c, L1)"
        by (metis prod_cases3)
      with branch False obtain t where
        "commentToken (js ''/*'') b True (\<not> c)
         ((if c then skip 2 L1 else trigger (error_at ''E017'' [] L) L1)\<lparr>inComment := False\<rparr>) = (t, L')"
        by (simp split: prod.splits)
      then have "fwd st L1 L'"
        by (elim commentToken_lexer) (cases c, auto simp: fwd_def intro: exI [of _ 0])
      moreover have "(skip 2 (L\<lparr>inComment := True\<rparr>), L) \<in> lex_left"
        using ne by (cases "input L") (auto simp: lex_left_iff)
      ultimately show ?thesis
        using comment_loop_fwd [OF loop] by (blast intro: fwd_lex_left_trans fwd_trans)
    qed
  qed
qed

section \<open>What is read\<close>

text \<open>\<open>no_close s\<close>: the text holds no \<open>*/\<close>, also not with the \<open>*/\<close> that follows it.\<close>

fun no_close :: "jstr \<Rightarrow> bool" where
  "no_close [] = True"
| "no_close [c] = True"
| "no_close (c # d # s) = (\<not> (c = ch CHR ''*'' \<and> d = ch CHR ''/'') \<and> no_close (d # s))"

lemma no_close_append:
  "no_close (s @ t) \<Longrightarrow> no_close t"
proof (induction s)
  case (Cons c s)
  then show ?case by (cases "s @ t") auto
qed simp

text \<open>A comment that ends on its line is closed by the first \<open>*/\<close> in it.\<close>

lemma comment_loop_line:
  "input L = s @ js ''*/'' @ r \<Longrightarrow> no_close s \<Longrightarrow>
     comment_loop st b L = (b @ s, True, L\<lparr>lchar := lchar L + length s, input := js ''*/'' @ r\<rparr>)"
proof (induction s arbitrary: b L)
  case Nil
  then show ?case by (subst comment_loop.simps) (simp add: peek_def is_ch_def js_def)
next
  case (Cons c s)
  have "\<not> (c = ch CHR ''*'' \<and> is_ch (peek L 1) (CHR ''/''))"
    using Cons.prems by (cases s) (auto simp: peek_def is_ch_def js_def)
  with Cons.prems have "comment_loop st b L = comment_loop st (b @ [c]) (skip 1 L)"
    by (subst comment_loop.simps) (auto simp: peek_def)
  also have "\<dots> = ((b @ [c]) @ s, True,
      (skip 1 L)\<lparr>lchar := lchar (skip 1 L) + length s, input := js ''*/'' @ r\<rparr>)"
    using Cons.prems no_close_append [of "[c]" s] by (intro Cons.IH) auto
  finally show ?case by (simp add: skip_def)
qed

lemma scanComments_fwd:
  assumes "scanComments st L = (x, L')"
  shows "fwd st L L'"
proof (cases "\<not> is_ch (peek L 0) (CHR ''/'') \<or>
      (\<not> is_ch (peek L 1) (CHR ''*'') \<and> \<not> is_ch (peek L 1) (CHR ''/''))")
  case True
  with assms have "L' = L \<or> L' = skip 2 (trigger (error_at ''E018'' [] L) L)"
    by (auto simp: scanComments_def Let_def split: if_splits)
  then show ?thesis by (auto intro: fwd_trans [OF fwd_trigger(1) fwd_skip])
next
  case slash: False
  then have not_end: "\<not> (is_ch (peek L 0) (CHR ''*'') \<and> is_ch (peek L 1) (CHR ''/''))"
    by (auto simp: is_ch_def)
  note branch = assms [unfolded scanComments_def Let_def if_not_P [OF not_end] if_not_P [OF slash]]
  show ?thesis
  proof (cases "is_ch (peek L 1) (CHR ''/'')")
    case True
    with branch obtain t where
      "commentToken (js ''//'') (drop 2 (input L)) False False (skip (length (input L)) L) = (t, L')"
      by (auto split: prod.splits)
    then show ?thesis by (elim commentToken_lexer) (auto simp: fwd_def)
  next
    case False
    obtain b c L1 where loop: "comment_loop st [] (skip 2 (L\<lparr>inComment := True\<rparr>)) = (b, c, L1)"
      by (metis prod_cases3)
    with branch False obtain t where
      "commentToken (js ''/*'') b True (\<not> c)
       ((if c then skip 2 L1 else trigger (error_at ''E017'' [] L) L1)\<lparr>inComment := False\<rparr>) = (t, L')"
      by (simp split: prod.splits)
    then have "fwd st L1 L'"
      by (elim commentToken_lexer) (cases c, auto simp: fwd_def intro: exI [of _ 0])
    moreover have "fwd st L (skip 2 (L\<lparr>inComment := True\<rparr>))" by (auto simp: fwd_def)
    ultimately show ?thesis
      using comment_loop_fwd [OF loop] by (blast intro: fwd_trans)
  qed
qed

section \<open>The interface\<close>

interpretation comment_scanner: scanner st "scanComments st" for st
proof
  show "fwd st L L'" if "scanComments st L = (x, L')" for L x L'
    using that by (rule scanComments_fwd)
  show "(L', L) \<in> lex_left" if "scanComments st L = (Some t, L')" for L t L'
    using scanComments_left [OF that] by simp
qed

end
