(* ===== verification/LexNumber.thy ===== *)
theory LexNumber
  imports LexPunct
begin

text \<open>
  The scanner \<open>scanNumericLiteral\<close> of \<^verbatim>\<open>lex.js\<close>. The source indexes the input; the model
  keeps the rest of the input from that index, so that \<open>this.peek(index)\<close> is the first
  character of the rest and \<open>index < length\<close> says that it is not empty. The variables
  \<open>value\<close> and \<open>char\<close> of the source are passed along.
\<close>

section \<open>The parts of the scanner\<close>

text \<open>\<open>isAllowedDigit\<close> is one of four functions.\<close>

datatype digit_class = DecimalDigit | HexDigit | OctalDigit | BinaryDigit

definition isDecimalDigit :: "jchar option \<Rightarrow> bool" where
  "isDecimalDigit c = (case c of None \<Rightarrow> False | Some d \<Rightarrow> 48 \<le> d \<and> d \<le> 57)"

definition isOctalDigit :: "jchar option \<Rightarrow> bool" where
  "isOctalDigit c = (case c of None \<Rightarrow> False | Some d \<Rightarrow> 48 \<le> d \<and> d \<le> 55)"

definition isNonOctalDigit :: "jchar option \<Rightarrow> bool" where
  "isNonOctalDigit c \<longleftrightarrow> is_ch c (CHR ''8'') \<or> is_ch c (CHR ''9'')"

definition isBinaryDigit :: "jchar option \<Rightarrow> bool" where
  "isBinaryDigit c = (case c of None \<Rightarrow> False | Some d \<Rightarrow> 48 \<le> d \<and> d \<le> 49)"

definition isIdentifierStart :: "jchar option \<Rightarrow> bool" where
  "isIdentifierStart c = (case c of None \<Rightarrow> False
     | Some d \<Rightarrow> d = ch CHR ''$'' \<or> d = ch CHR ''_'' \<or> d = 92 \<or>
         (ch CHR ''a'' \<le> d \<and> d \<le> ch CHR ''z'') \<or> (ch CHR ''A'' \<le> d \<and> d \<le> ch CHR ''Z''))"

fun isAllowedDigit :: "digit_class \<Rightarrow> jchar option \<Rightarrow> bool" where
  "isAllowedDigit DecimalDigit c = isDecimalDigit c"
| "isAllowedDigit HexDigit c = isHexDigit c"
| "isAllowedDigit OctalDigit c = isOctalDigit c"
| "isAllowedDigit BinaryDigit c = isBinaryDigit c"

text \<open>The variables of the scanner while it reads the integer part.\<close>

record num_state =
  n_class :: digit_class
  n_base :: nat
  n_isLegacy :: bool
  n_isNonOctal :: bool
  n_value :: jstr
  n_rest :: jstr
  n_char :: "jchar option"

text \<open>
  After a first \<open>0\<close>: a base prefix (one more character is consumed), or a digit that makes
  the literal a legacy octal or a decimal with a leading zero. \<open>char\<close> is the second
  character of the literal throughout.
\<close>

definition num_prefix :: "lstate \<Rightarrow> num_state \<Rightarrow> lexer \<Rightarrow> num_state \<times> lexer" where
  "num_prefix st N L =
     (let char = n_char N;
          consume = (\<lambda>c b. N\<lparr>n_class := c, n_base := b, n_rest := tl (n_rest N),
                              n_value := n_value N @ opt_str char\<rparr>);
          es6 = (\<lambda>what. if \<not> inES6 st True
                  then triggerAsync (warn_at ''W119'' [js what, js ''6''] L) (CStatic True) L else L)
      in if is_ch char (CHR ''x'') \<or> is_ch char (CHR ''X'') then (consume HexDigit 16, L)
         else if is_ch char (CHR ''o'') \<or> is_ch char (CHR ''O'')
           then (consume OctalDigit 8, es6 ''Octal integer literal'')
         else if is_ch char (CHR ''b'') \<or> is_ch char (CHR ''B'')
           then (consume BinaryDigit 2, es6 ''Binary integer literal'')
         else if isOctalDigit char
           then (N\<lparr>n_class := OctalDigit, n_base := 8, n_isLegacy := True\<rparr>, L)
         else if isDecimalDigit char then (N\<lparr>n_isNonOctal := True\<rparr>, L)
         else (N, L))"

text \<open>The digit loop; a legacy octal that meets an 8 or a 9 becomes a decimal.\<close>

function num_loop :: "num_state \<Rightarrow> num_state" where
  "num_loop N =
     (case n_rest N of
        [] \<Rightarrow> N
      | c # cs \<Rightarrow>
          (let N1 = N\<lparr>n_char := Some c\<rparr>;
               N2 = (if n_isLegacy N1 \<and> isNonOctalDigit (Some c)
                     then N1\<lparr>n_base := 10, n_isLegacy := False, n_isNonOctal := True,
                             n_class := DecimalDigit\<rparr>
                     else N1)
           in if \<not> isAllowedDigit (n_class N2) (Some c) then N2
              else num_loop (N2\<lparr>n_value := n_value N2 @ [c], n_rest := cs\<rparr>)))"
  by pat_completeness auto
termination
  by (relation "measure (\<lambda>N. length (n_rest N))") (auto simp: Let_def split: if_splits)

declare num_loop.simps [simp del]

text \<open>A run of decimal digits: the new \<open>value\<close>, the rest and the last \<open>char\<close> looked at.\<close>

fun digits_loop :: "jstr \<Rightarrow> jstr \<Rightarrow> jchar option \<Rightarrow> jstr \<times> jstr \<times> jchar option" where
  "digits_loop [] v char = (v, [], char)"
| "digits_loop (d # ds) v char =
     (if isDecimalDigit (Some d) then digits_loop ds (v @ [d]) (Some d) else (v, d # ds, Some d))"

text \<open>Literals in another base, and \<open>BigInt\<close> literals: the branch after the digit loop.\<close>

definition num_based :: "num_state \<Rightarrow> lexer \<Rightarrow> raw_token option \<times> lexer" where
  "num_based N L =
     (let isBigInt = is_ch (char_at (n_rest N) 0) (CHR ''n'');
          L1 = (if isBigInt then triggerAsync (warn_at ''W119'' [js ''BigInt'', js ''11''] L) CNotES11 L
                else L);
          L2 = (if isBigInt \<and> (n_isLegacy N \<or> n_isNonOctal N)
                then triggerAsync (error_at ''E067'' [n_value N @ opt_str (n_char N)] L1)
                       (CStatic True) L1
                else L1);
          v = (if isBigInt then n_value N @ opt_str (n_char N) else n_value N);
          rest = (if isBigInt then tl (n_rest N) else n_rest N)
      in if \<not> isBigInt \<and> \<not> n_isLegacy N \<and> length (n_value N) \<le> 2
         then (Some (RNumeric (n_value N) None False False True), L2)
         else if rest \<noteq> [] \<and> isIdentifierStart (char_at rest 0) then (None, L2)
         else (Some (RNumeric v (Some (n_base N)) (n_isLegacy N) False False), L2))"

text \<open>The fraction, the exponent and the end of a decimal literal.\<close>

definition num_fraction :: "jstr \<Rightarrow> jstr \<Rightarrow> jchar option \<Rightarrow> jstr \<times> jstr \<times> jchar option" where
  "num_fraction v rest char =
     (if is_ch char (CHR ''.'') then digits_loop (tl rest) (v @ opt_str char) char
      else (v, rest, char))"

definition num_exponent ::
  "jstr \<Rightarrow> jstr \<Rightarrow> jchar option \<Rightarrow> (jstr \<times> jstr) option" where
  "num_exponent v rest char =
     (if is_ch char (CHR ''e'') \<or> is_ch char (CHR ''E'') then
        (let v1 = v @ opt_str char; rest1 = tl rest; char1 = char_at rest1 0;
             sign = is_ch char1 (CHR ''+'') \<or> is_ch char1 (CHR ''-'');
             v2 = (if sign then v1 @ opt_str char1 else v1);
             rest2 = (if sign then tl rest1 else rest1);
             char2 = char_at rest2 0
         in if isDecimalDigit char2 then
              (case digits_loop (tl rest2) (v2 @ opt_str char2) char2 of
                 (v3, rest3, _) \<Rightarrow> Some (v3, rest3))
            else None)
      else Some (v, rest))"

definition num_decimal :: "num_state \<Rightarrow> lexer \<Rightarrow> raw_token option \<times> lexer" where
  "num_decimal N L =
     (case num_fraction (n_value N) (n_rest N) (n_char N) of
        (v1, rest1, char1) \<Rightarrow>
          (case num_exponent v1 rest1 char1 of
             None \<Rightarrow> (None, L)
           | Some (v, rest) \<Rightarrow>
               if rest \<noteq> [] \<and> isIdentifierStart (char_at rest 0) then (None, L)
               else (Some (RNumeric v (Some (n_base N)) False (n_isNonOctal N) False),
                     triggerAsync (EvDiag DWarning ''W045'' (line L) (lchar L + length v) [v])
                       (CStatic (\<not> decimal_isFinite v)) L)))"

definition num_start :: "lexer \<Rightarrow> num_state" where
  "num_start L =
     \<lparr>n_class = DecimalDigit, n_base = 10, n_isLegacy = False, n_isNonOctal = False,
      n_value = [], n_rest = input L, n_char = peek L 0\<rparr>"

definition scanNumericLiteral :: "lstate \<Rightarrow> lexer \<Rightarrow> raw_token option \<times> lexer" where
  "scanNumericLiteral st L =
     (let N0 = num_start L; char = n_char N0 in
      if \<not> is_ch char (CHR ''.'') \<and> \<not> isDecimalDigit char then (None, L)
      else if \<not> is_ch char (CHR ''.'') then
        (let N1 = N0\<lparr>n_value := opt_str char, n_rest := tl (n_rest N0), n_char := peek L 1\<rparr>;
             (N2, L2) = (if n_value N1 = js ''0'' then num_prefix st N1 L else (N1, L));
             N3 = num_loop N2;
             isBigInt = is_ch (char_at (n_rest N3) 0) (CHR ''n'')
         in if n_class N3 \<noteq> DecimalDigit \<or> isBigInt then num_based N3 L2
            else num_decimal N3 L2)
      else num_decimal N0 L)"

section \<open>What the scanner reads is a prefix of the input\<close>

text \<open>
  \<open>num_ok inp N\<close>: the value read so far and the rest make up the input, and \<open>char\<close> is the
  first character of the rest; at the end of the input it is the last character read, which
  is a decimal digit where the scanner goes on to look at it.
\<close>

definition num_ok :: "jstr \<Rightarrow> num_state \<Rightarrow> bool" where
  "num_ok inp N \<longleftrightarrow> n_value N @ n_rest N = inp \<and>
     (n_rest N \<noteq> [] \<longrightarrow> n_char N = char_at (n_rest N) 0) \<and>
     (n_rest N = [] \<and> n_class N = DecimalDigit \<longrightarrow> n_char N = None \<or> isDecimalDigit (n_char N))"

lemma num_loop_ok:
  "n_value N @ n_rest N = inp \<Longrightarrow>
     (n_rest N = [] \<and> n_class N = DecimalDigit \<longrightarrow> n_char N = None \<or> isDecimalDigit (n_char N)) \<Longrightarrow>
     num_ok inp (num_loop N)"
proof (induction N rule: num_loop.induct)
  case (1 N)
  show ?case
  proof (cases "n_rest N")
    case Nil
    with "1.prems" show ?thesis by (subst num_loop.simps) (auto simp: num_ok_def)
  next
    case (Cons c cs)
    define N1 where "N1 = N\<lparr>n_char := Some c\<rparr>"
    define N2 where "N2 = (if n_isLegacy N1 \<and> isNonOctalDigit (Some c)
                     then N1\<lparr>n_base := 10, n_isLegacy := False, n_isNonOctal := True,
                             n_class := DecimalDigit\<rparr>
                     else N1)"
    have unf: "num_loop N = (if \<not> isAllowedDigit (n_class N2) (Some c) then N2
              else num_loop (N2\<lparr>n_value := n_value N2 @ [c], n_rest := cs\<rparr>))"
      by (subst num_loop.simps) (simp add: Cons N1_def N2_def Let_def)
    have fields: "n_value N2 = n_value N" "n_rest N2 = n_rest N" "n_char N2 = Some c"
      by (simp_all add: N2_def N1_def)
    show ?thesis
    proof (cases "isAllowedDigit (n_class N2) (Some c)")
      case False
      then show ?thesis using "1.prems" by (auto simp: unf num_ok_def fields Cons)
    next
      case True
      then have "n_class N2 = DecimalDigit \<longrightarrow> isDecimalDigit (Some c)" by auto
      then have "num_ok inp (num_loop (N2\<lparr>n_value := n_value N2 @ [c], n_rest := cs\<rparr>))"
        using "1.IH" [OF Cons N1_def N2_def] True "1.prems"
        by (simp add: fields Cons)
      with True show ?thesis by (simp add: unf)
    qed
  qed
qed

lemma num_loop_grows: "length (n_value N) \<le> length (n_value (num_loop N))"
proof (induction N rule: num_loop.induct)
  case (1 N)
  then show ?case
    by (subst num_loop.simps) (fastforce simp: Let_def split: list.splits)
qed

lemma digits_loop_ok:
  "digits_loop ds v char = (v', rest, char') \<Longrightarrow>
     v' @ rest = v @ ds \<and> length v \<le> length v' \<and>
     (rest \<noteq> [] \<longrightarrow> char' = char_at rest 0) \<and>
     (rest = [] \<longrightarrow> char' = char \<or> isDecimalDigit char')"
  by (induction ds v char rule: digits_loop.induct) (auto split: if_splits)

lemma is_ch_not_digit:
  "is_ch c (CHR ''e'') \<Longrightarrow> \<not> isDecimalDigit c" "is_ch c (CHR ''E'') \<Longrightarrow> \<not> isDecimalDigit c"
  "is_ch c (CHR ''.'') \<Longrightarrow> \<not> isDecimalDigit c"
  by (auto simp: is_ch_def isDecimalDigit_def)

text \<open>A character that is looked at and is no digit stands at the head of the rest.\<close>

lemma head_of_rest:
  assumes "rest \<noteq> [] \<longrightarrow> char = char_at rest 0" "rest = [] \<longrightarrow> char = None \<or> P"
    and "is_ch char c" "\<not> P"
  shows "rest = opt_str char @ tl rest"
  using assms by (cases rest) (auto simp: is_ch_def)

lemma num_fraction_ok:
  assumes "num_fraction v rest char = (v', rest', char')"
    and "rest \<noteq> [] \<longrightarrow> char = char_at rest 0"
    and "rest = [] \<longrightarrow> char = None \<or> isDecimalDigit char"
  shows "v' @ rest' = v @ rest" "length v \<le> length v'"
    "rest' \<noteq> [] \<longrightarrow> char' = char_at rest' 0"
    "rest' = [] \<longrightarrow> char' = None \<or> \<not> (is_ch char' (CHR ''e'') \<or> is_ch char' (CHR ''E''))"
proof -
  have "v' @ rest' = v @ rest \<and> length v \<le> length v' \<and>
      (rest' \<noteq> [] \<longrightarrow> char' = char_at rest' 0) \<and>
      (rest' = [] \<longrightarrow> char' = None \<or> \<not> (is_ch char' (CHR ''e'') \<or> is_ch char' (CHR ''E'')))"
  proof (cases "is_ch char (CHR ''.'')")
    case True
    have split: "rest = opt_str char @ tl rest"
      using head_of_rest [OF assms(2,3) True] is_ch_not_digit(3) [OF True] by blast
    have dl: "digits_loop (tl rest) (v @ opt_str char) char = (v', rest', char')"
      using assms(1) True by (simp add: num_fraction_def)
    have dot: "\<not> (is_ch char (CHR ''e'') \<or> is_ch char (CHR ''E''))"
      using True by (auto simp: is_ch_def)
    have eq: "v' @ rest' = v @ opt_str char @ tl rest"
      using digits_loop_ok [OF dl] by simp
    then have "v' @ rest' = v @ rest"
      using split by (metis append.assoc)
    moreover have "rest' = [] \<longrightarrow> char' = None \<or> \<not> (is_ch char' (CHR ''e'') \<or> is_ch char' (CHR ''E''))"
      using digits_loop_ok [OF dl] dot is_ch_not_digit(1,2) by blast
    ultimately show ?thesis
      using digits_loop_ok [OF dl] by simp
  next
    case False
    with assms(1) have "v' = v" "rest' = rest" "char' = char"
      by (simp_all add: num_fraction_def)
    then show ?thesis using assms(2,3) is_ch_not_digit(1,2) by auto
  qed
  then show "v' @ rest' = v @ rest" "length v \<le> length v'"
    "rest' \<noteq> [] \<longrightarrow> char' = char_at rest' 0"
    "rest' = [] \<longrightarrow> char' = None \<or> \<not> (is_ch char' (CHR ''e'') \<or> is_ch char' (CHR ''E''))"
    by blast+
qed

lemma char_at_0_split: "opt_str (char_at s 0) @ tl s = s"
  by (cases s) auto

lemma num_exponent_ok:
  assumes "num_exponent v rest char = Some (v', rest')"
    and "rest \<noteq> [] \<longrightarrow> char = char_at rest 0"
    and "rest = [] \<longrightarrow> char = None \<or> \<not> (is_ch char (CHR ''e'') \<or> is_ch char (CHR ''E''))"
  shows "v' @ rest' = v @ rest \<and> length v \<le> length v'"
proof (cases "is_ch char (CHR ''e'') \<or> is_ch char (CHR ''E'')")
  case False
  with assms(1) show ?thesis by (auto simp: num_exponent_def)
next
  case True
  then have "rest \<noteq> []" using assms(3) by (auto simp: is_ch_def)
  with assms(2) have r: "rest = opt_str char @ tl rest" by (simp add: char_at_0_split)
  obtain v2 rest2 where vr: "v2 @ rest2 = (v @ opt_str char) @ tl rest"
      "length (v @ opt_str char) \<le> length v2"
    and dl: "\<exists>c. digits_loop (tl rest2) (v2 @ opt_str (char_at rest2 0)) (char_at rest2 0) = (v', rest', c)"
  proof -
    let ?sign = "is_ch (char_at (tl rest) 0) (CHR ''+'') \<or> is_ch (char_at (tl rest) 0) (CHR ''-'')"
    let ?v2 = "if ?sign then (v @ opt_str char) @ opt_str (char_at (tl rest) 0) else v @ opt_str char"
    let ?r2 = "if ?sign then tl (tl rest) else tl rest"
    have "?v2 @ ?r2 = (v @ opt_str char) @ tl rest"
      by (simp add: char_at_0_split)
    moreover have "\<exists>c. digits_loop (tl ?r2) (?v2 @ opt_str (char_at ?r2 0)) (char_at ?r2 0) = (v', rest', c)"
      using assms(1) True
      by (auto simp: num_exponent_def Let_def simp del: append_assoc split: if_splits prod.splits)
    ultimately show ?thesis by (intro that [of ?v2 ?r2]) auto
  qed
  from dl obtain c where
    "digits_loop (tl rest2) (v2 @ opt_str (char_at rest2 0)) (char_at rest2 0) = (v', rest', c)" ..
  from digits_loop_ok [OF this] have "v' @ rest' = v2 @ rest2" "length v2 \<le> length v'"
    by (simp_all add: char_at_0_split)
  with vr r show ?thesis by (metis append.assoc length_append le_add1 order_trans)
qed

lemma num_decimal_ok:
  assumes "num_decimal N L = (Some t, L')" "num_ok inp N" "n_class N = DecimalDigit"
  obtains v where "t = RNumeric v (Some (n_base N)) False (n_isNonOctal N) False"
    "starts_with v inp" "length (n_value N) \<le> length v"
    "is_ch (n_char N) (CHR ''.'') \<longrightarrow> length (n_value N) < length v"
proof -
  obtain v1 rest1 char1 where f: "num_fraction (n_value N) (n_rest N) (n_char N) = (v1, rest1, char1)"
    by (metis prod_cases3)
  have ok: "n_rest N \<noteq> [] \<longrightarrow> n_char N = char_at (n_rest N) 0"
    "n_rest N = [] \<longrightarrow> n_char N = None \<or> isDecimalDigit (n_char N)"
    using assms(2,3) by (auto simp: num_ok_def)
  note fr = num_fraction_ok [OF f ok]
  from assms(1) f obtain v rest where e: "num_exponent v1 rest1 char1 = Some (v, rest)"
    and t: "t = RNumeric v (Some (n_base N)) False (n_isNonOctal N) False"
    by (auto simp: num_decimal_def split: option.splits if_splits)
  note ex = num_exponent_ok [OF e fr(3,4)]
  have "is_ch (n_char N) (CHR ''.'') \<longrightarrow> length (n_value N) < length v1"
  proof
    assume dot: "is_ch (n_char N) (CHR ''.'')"
    then have "length (n_value N @ opt_str (n_char N)) \<le> length v1"
      using digits_loop_ok [of "tl (n_rest N)" "n_value N @ opt_str (n_char N)" "n_char N" v1 rest1 char1] f
      by (simp add: num_fraction_def)
    with dot show "length (n_value N) < length v1" by (auto simp: is_ch_def)
  qed
  moreover have "v @ rest = inp"
    using ex fr(1) assms(2) by (simp add: num_ok_def)
  then have "starts_with v inp" by (auto simp: starts_with_iff)
  ultimately show ?thesis using ex fr(2) by (intro that [OF t]) auto
qed

lemma num_based_ok:
  assumes "num_based N L = (Some t, L')" "num_ok inp N"
  obtains v b l m where "t = RNumeric v b l False m" "starts_with v inp"
    "length (n_value N) \<le> length v"
proof -
  have "(\<exists>b l m. t = RNumeric (n_value N) b l False m) \<or>
     is_ch (char_at (n_rest N) 0) (CHR ''n'') \<and> (\<exists>b l m. t = RNumeric (n_value N @ opt_str (n_char N)) b l False m)"
    using assms(1) by (auto simp: num_based_def Let_def split: if_splits)
  moreover have "starts_with (n_value N) inp"
    using assms(2) by (auto simp: num_ok_def starts_with_iff)
  moreover have "starts_with (n_value N @ opt_str (n_char N)) inp"
    if "is_ch (char_at (n_rest N) 0) (CHR ''n'')"
  proof -
    have "n_rest N \<noteq> []" using that by (auto simp: is_ch_def)
    then have "n_rest N = opt_str (n_char N) @ tl (n_rest N)"
      using assms(2) by (simp add: num_ok_def char_at_0_split)
    then show ?thesis
      using assms(2) unfolding num_ok_def starts_with_iff by (metis append.assoc)
  qed
  ultimately show ?thesis
    using that [of "n_value N"] that [of "n_value N @ opt_str (n_char N)"] by auto
qed

lemma num_prefix_ok:
  assumes "num_prefix st N L = (N', L')" "n_rest N \<noteq> [] \<longrightarrow> n_char N = char_at (n_rest N) 0"
    "n_rest N = [] \<longrightarrow> n_char N = None"
  shows "n_value N' @ n_rest N' = n_value N @ n_rest N" "length (n_value N) \<le> length (n_value N')"
    "n_class N = DecimalDigit \<Longrightarrow> n_rest N' = [] \<Longrightarrow> n_class N' = DecimalDigit \<Longrightarrow> n_char N' = None"
proof -
  have r: "opt_str (n_char N) @ tl (n_rest N) = n_rest N"
    using assms(2,3) by (cases "n_rest N") auto
  show "n_value N' @ n_rest N' = n_value N @ n_rest N"
    using assms(1) r by (auto simp: num_prefix_def Let_def split: if_splits)
  show "length (n_value N) \<le> length (n_value N')"
    using assms(1) by (auto simp: num_prefix_def Let_def split: if_splits)
  show "n_char N' = None" if "n_class N = DecimalDigit" "n_rest N' = []" "n_class N' = DecimalDigit"
    using assms(1,3) that by (auto simp: num_prefix_def Let_def split: if_splits)
qed

definition num_first :: "lexer \<Rightarrow> num_state" where
  "num_first L = (num_start L)\<lparr>n_value := opt_str (peek L 0), n_rest := tl (input L),
     n_char := peek L 1\<rparr>"

lemma scanNumericLiteral_unfold:
  assumes "\<not> is_ch (peek L 0) (CHR ''.'')" "isDecimalDigit (peek L 0)" "N1 = num_first L"
    and "(if n_value N1 = js ''0'' then num_prefix st N1 L else (N1, L)) = (N2, L2)"
    and "N3 = num_loop N2"
  shows "scanNumericLiteral st L =
     (if n_class N3 \<noteq> DecimalDigit \<or> is_ch (char_at (n_rest N3) 0) (CHR ''n'')
      then num_based N3 L2 else num_decimal N3 L2)"
proof -
  have "n_char (num_start L) = peek L 0" "n_rest (num_start L) = input L"
    by (simp_all add: num_start_def)
  with assms show ?thesis
    by (simp only: scanNumericLiteral_def Let_def num_first_def [symmetric] prod.case simp_thms if_False if_True)
qed

lemma scanNumericLiteral_text:
  assumes "scanNumericLiteral st L = (Some t, L')"
  obtains v b l n m where "t = RNumeric v b l n m" "v \<noteq> []" "starts_with v (input L)"
proof (cases "is_ch (peek L 0) (CHR ''.'')")
  case True
  have ok: "num_ok (input L) (num_start L)"
    by (auto simp: num_ok_def num_start_def peek_def)
  have "num_decimal (num_start L) L = (Some t, L')"
    using assms True by (simp add: scanNumericLiteral_def num_start_def Let_def)
  from num_decimal_ok [OF this ok] obtain v where v: "starts_with v (input L)"
      "t = RNumeric v (Some (n_base (num_start L))) False (n_isNonOctal (num_start L)) False"
      "is_ch (n_char (num_start L)) (CHR ''.'') \<longrightarrow> length (n_value (num_start L)) < length v"
    by (auto simp: num_start_def)
  have "v \<noteq> []" using v(3) True by (auto simp: num_start_def)
  with v show ?thesis by (intro that) auto
next
  case False
  define N1 where "N1 = num_first L"
  define q where "q = (if n_value N1 = js ''0'' then num_prefix st N1 L else (N1, L))"
  define N3 where "N3 = num_loop (fst q)"
  have digit: "isDecimalDigit (peek L 0)"
    using assms False by (auto simp: scanNumericLiteral_def num_start_def Let_def split: if_splits)
  then obtain c cs where inp: "input L = c # cs"
    by (cases "input L") (auto simp: isDecimalDigit_def peek_def)
  have char1: "n_rest N1 \<noteq> [] \<longrightarrow> n_char N1 = char_at (n_rest N1) 0" "n_rest N1 = [] \<longrightarrow> n_char N1 = None"
    by (simp_all add: N1_def num_first_def num_start_def inp peek_def)
  have read1: "n_value N1 @ n_rest N1 = input L" "n_value N1 \<noteq> []" "n_class N1 = DecimalDigit"
    by (simp_all add: N1_def num_first_def num_start_def inp peek_def)
  obtain N2 L2 where q: "q = (N2, L2)" by (cases q)
  have read2: "n_value N2 @ n_rest N2 = input L \<and> n_value N2 \<noteq> [] \<and>
      (n_rest N2 = [] \<and> n_class N2 = DecimalDigit \<longrightarrow> n_char N2 = None)"
  proof (cases "n_value N1 = js ''0''")
    case True
    then have pre: "num_prefix st N1 L = (N2, L2)" using q by (simp add: q_def)
    show ?thesis
      using num_prefix_ok [OF pre char1] read1 by auto
  next
    case False
    then show ?thesis using q read1 char1 by (simp add: q_def)
  qed
  have ok: "num_ok (input L) N3"
    unfolding N3_def q using read2 by (intro num_loop_ok) auto
  have ne: "0 < length (n_value N3)"
    using num_loop_grows [of N2] read2 by (simp add: N3_def q) (metis length_greater_0_conv less_le_trans)
  have res: "(if n_class N3 \<noteq> DecimalDigit \<or> is_ch (char_at (n_rest N3) 0) (CHR ''n'')
       then num_based N3 L2 else num_decimal N3 L2) = (Some t, L')"
    using scanNumericLiteral_unfold [OF False digit N1_def q [unfolded q_def] N3_def [unfolded q fst_conv]] assms
    by simp
  show ?thesis
  proof (cases "n_class N3 \<noteq> DecimalDigit \<or> is_ch (char_at (n_rest N3) 0) (CHR ''n'')")
    case True
    then have "num_based N3 L2 = (Some t, L')" using res by simp
    from num_based_ok [OF this ok] ne show ?thesis by (metis that length_greater_0_conv less_le_trans)
  next
    case False
    then have "num_decimal N3 L2 = (Some t, L')" "n_class N3 = DecimalDigit" using res by auto
    from num_decimal_ok [OF this(1) ok this(2)] ne show ?thesis
      by (metis that length_greater_0_conv less_le_trans)
  qed
qed

lemma num_prefix_adds: "num_prefix st N L = (N', L') \<Longrightarrow> adds_checks L L'"
  by (auto simp: num_prefix_def Let_def split: if_splits)

lemma num_based_adds: "num_based N L = (r, L') \<Longrightarrow> adds_checks L L'"
  by (auto simp: num_based_def Let_def split: if_splits)

lemma num_decimal_adds: "num_decimal N L = (r, L') \<Longrightarrow> adds_checks L L'"
  by (auto simp: num_decimal_def split: prod.splits option.splits if_splits)

lemma scanNumericLiteral_adds: "scanNumericLiteral st L = (r, L') \<Longrightarrow> adds_checks L L'"
  by (auto simp: scanNumericLiteral_def Let_def split: prod.splits if_splits
      intro: adds_checks_trans dest!: num_prefix_adds num_based_adds num_decimal_adds)

lemmas scanNumericLiteral_frame = adds_checks_frame [OF scanNumericLiteral_adds]

section \<open>The number a literal denotes\<close>

text \<open>
  \<open>ends_number r\<close>: the rest \<open>r\<close> does not continue a decimal integer.
\<close>

definition ends_number :: "jstr \<Rightarrow> bool" where
  "ends_number r \<longleftrightarrow>
     (case r of [] \<Rightarrow> True
      | c # _ \<Rightarrow> \<not> isHexDigit (Some c) \<and> c \<noteq> ch CHR ''.'' \<and> \<not> isIdentifierStart (Some c))"

lemma num_loop_run:
  "n_rest N = ds @ r \<Longrightarrow> list_all (\<lambda>d. isAllowedDigit (n_class N) (Some d)) ds \<Longrightarrow>
     n_isLegacy N = False \<or> n_class N = OctalDigit \<and> isNonOctalDigit (char_at r 0) = False \<Longrightarrow>
     ends_number r \<Longrightarrow>
     num_loop N = N\<lparr>n_value := n_value N @ ds, n_rest := r,
       n_char := (if r \<noteq> [] then char_at r 0 else if ds \<noteq> [] then Some (last ds) else n_char N)\<rparr>"
proof (induction ds arbitrary: N)
  case Nil
  show ?case
  proof (cases r)
    case Nil
    with Nil.prems show ?thesis by (subst num_loop.simps) simp
  next
    case (Cons c cs)
    have "\<not> isAllowedDigit k (Some c)" for k
      using Nil.prems(4) Cons
      by (cases k) (auto simp: ends_number_def isHexDigit_def isHex_def is_hex_char_def
          isDecimalDigit_def isOctalDigit_def isBinaryDigit_def)
    moreover have "\<not> (n_isLegacy N \<and> isNonOctalDigit (Some c))"
      using Nil.prems(3) Cons by auto
    ultimately show ?thesis
      using Nil.prems Cons by (subst num_loop.simps) (auto simp: Let_def)
  qed
next
  case (Cons d ds)
  have d: "isAllowedDigit (n_class N) (Some d)" using Cons.prems(2) by simp
  have noswitch: "\<not> (n_isLegacy N \<and> isNonOctalDigit (Some d))"
    using Cons.prems(3) d by (auto simp: isNonOctalDigit_def is_ch_def isOctalDigit_def)
  have "num_loop N = num_loop (N\<lparr>n_char := Some d, n_value := n_value N @ [d], n_rest := ds @ r\<rparr>)"
    using Cons.prems(1) d noswitch by (subst num_loop.simps) (auto simp: Let_def)
  also have "\<dots> = N\<lparr>n_char := Some d, n_value := n_value N @ [d], n_rest := ds @ r\<rparr>
      \<lparr>n_value := (n_value N @ [d]) @ ds, n_rest := r,
       n_char := (if r \<noteq> [] then char_at r 0 else if ds \<noteq> [] then Some (last ds) else Some d)\<rparr>"
    using Cons.prems by (subst Cons.IH) auto
  finally show ?case by simp
qed

lemma ends_number_not:
  assumes "ends_number r"
  shows "\<not> is_ch (char_at r 0) (CHR ''n'')" "\<not> is_ch (char_at r 0) (CHR ''.'')"
    "\<not> is_ch (char_at r 0) (CHR ''e'')" "\<not> is_ch (char_at r 0) (CHR ''E'')"
    "\<not> isNonOctalDigit (char_at r 0)" "\<not> isIdentifierStart (char_at r 0)"
    "\<not> isDecimalDigit (char_at r 0)"
  using assms
  by (auto simp: ends_number_def is_ch_def isIdentifierStart_def isNonOctalDigit_def isDecimalDigit_def
      isHexDigit_def isHex_def is_hex_char_def split: list.splits)

lemma is_dec_digit_iff: "isDecimalDigit (Some d) \<longleftrightarrow> is_dec_digit d"
  by (simp add: isDecimalDigit_def is_dec_digit_def)

lemma num_prefix_none:
  assumes "\<not> isHexDigit (n_char N)" "\<not> isIdentifierStart (n_char N)"
  shows "num_prefix st N L = (N, L)"
proof (cases "n_char N")
  case None
  then show ?thesis
    by (simp add: num_prefix_def is_ch_def isOctalDigit_def isDecimalDigit_def)
next
  case (Some d)
  have "d \<noteq> 120" "d \<noteq> 88" "d \<noteq> 111" "d \<noteq> 79" "d \<noteq> 98" "d \<noteq> 66"
    using assms(2) Some by (auto simp: isIdentifierStart_def)
  moreover have "\<not> (48 \<le> d \<and> d \<le> 57)"
    using assms(1) Some by (auto simp: isHexDigit_def isHex_def is_hex_char_def)
  ultimately show ?thesis
    using Some by (auto simp: num_prefix_def is_ch_def isOctalDigit_def isDecimalDigit_def)
qed

text \<open>The end of a decimal integer: no fraction, no exponent.\<close>

lemma num_decimal_integer:
  assumes "n_rest N = r" "ends_number r" "r = [] \<longrightarrow> n_char N = None \<or> isDecimalDigit (n_char N)"
    "r \<noteq> [] \<longrightarrow> n_char N = char_at r 0"
  shows "num_decimal N L = (Some (RNumeric (n_value N) (Some (n_base N)) False (n_isNonOctal N) False),
           triggerAsync (EvDiag DWarning ''W045'' (line L) (lchar L + length (n_value N)) [n_value N])
             (CStatic (\<not> decimal_isFinite (n_value N))) L)"
proof -
  have "\<not> is_ch (n_char N) (CHR ''.'')" "\<not> is_ch (n_char N) (CHR ''e'')" "\<not> is_ch (n_char N) (CHR ''E'')"
    using assms ends_number_not [OF assms(2)] is_ch_not_digit by (cases "r = []"; force simp: is_ch_def)+
  then show ?thesis
    using ends_number_not [OF assms(2)] assms(1)
    by (simp add: num_decimal_def num_fraction_def num_exponent_def)
qed

lemma scan_decimal_integer:
  assumes "input L = d # ds @ r" "is_dec_digit d" "list_all is_dec_digit ds" "ends_number r"
    "d = 48 \<longrightarrow> ds = []"
  shows "scanNumericLiteral st L =
     (Some (RNumeric (d # ds) (Some 10) False False False),
      triggerAsync (EvDiag DWarning ''W045'' (line L) (lchar L + length (d # ds)) [d # ds])
        (CStatic (\<not> decimal_isFinite (d # ds))) L)"
proof -
  define N1 where "N1 = num_first L"
  have N1: "N1 = (num_start L)\<lparr>n_value := [d], n_rest := ds @ r, n_char := char_at (ds @ r) 0\<rparr>"
    using assms(1) by (simp add: N1_def num_first_def peek_def)
  have pre: "(if n_value N1 = js ''0'' then num_prefix st N1 L else (N1, L)) = (N1, L)"
  proof (cases "d = 48")
    case True
    with assms(5) have "n_char N1 = char_at r 0" by (simp add: N1)
    moreover have "\<not> isHexDigit (char_at r 0) \<and> \<not> isIdentifierStart (char_at r 0)"
      using assms(4) by (auto simp: ends_number_def isHexDigit_def isIdentifierStart_def split: list.splits)
    ultimately show ?thesis by (simp add: num_prefix_none)
  next
    case False
    then show ?thesis by (simp add: N1 js_def)
  qed
  define N3 where "N3 = num_loop N1"
  have N3: "N3 = N1\<lparr>n_value := [d] @ ds, n_rest := r,
       n_char := (if r \<noteq> [] then char_at r 0 else if ds \<noteq> [] then Some (last ds) else n_char N1)\<rparr>"
    unfolding N3_def using assms(3,4)
    by (subst num_loop_run [where ds = ds and r = r]) (auto simp: N1 num_start_def is_dec_digit_iff list_all_iff)
  have last: "ds \<noteq> [] \<Longrightarrow> isDecimalDigit (Some (last ds))"
    using assms(3) by (simp add: is_dec_digit_iff list_all_iff)
  have dig: "\<not> is_ch (peek L 0) (CHR ''.'')" "isDecimalDigit (peek L 0)"
    using assms(1,2) by (auto simp: peek_def is_ch_def is_dec_digit_iff is_dec_digit_def)
  have "scanNumericLiteral st L = num_decimal N3 L"
    using scanNumericLiteral_unfold [OF dig N1_def pre N3_def] ends_number_not(1) [OF assms(4)]
    by (simp add: N3 N1 num_start_def)
  also have "\<dots> = (Some (RNumeric (d # ds) (Some 10) False False False),
      triggerAsync (EvDiag DWarning ''W045'' (line L) (lchar L + length (d # ds)) [d # ds])
        (CStatic (\<not> decimal_isFinite (d # ds))) L)"
    using assms(4) last by (subst num_decimal_integer [where r = r]) (auto simp: N3 N1 num_start_def)
  finally show ?thesis .
qed

section \<open>The interface\<close>

interpretation numeric: looking_scanner "scanNumericLiteral st" for st
proof
  show "lines L' = lines L \<and> line L' = line L \<and> input L' = input L \<and> exhausted L' = exhausted L"
    if "scanNumericLiteral st L = (x, L')" for L x L'
    using scanNumericLiteral_frame [OF that] by simp
  show "0 < token_length t \<and> token_length t \<le> length (input L)"
    if "scanNumericLiteral st L = (Some t, L')" for L t L'
    using that by (elim scanNumericLiteral_text) (simp add: starts_with_length)
qed

end
