(* ===== verification/UnicodeProps.thy ===== *)
theory UnicodeProps
  imports JsString
begin

text \<open>
  \<^verbatim>\<open>validate-unicode-escape-sequence.js\<close>: the names and values a \<open>\p{...}\<close> escape of a
  regular expression may use. A table object is the list of its names, in the source's order.
\<close>

text \<open>\<open>names.nonBinary\<close>, which \<open>validate\<close> does not read.\<close>

definition unicode_names_nonBinary :: "string list" where
  "unicode_names_nonBinary = [
    ''General_Category'', ''gc'', ''Script'', ''sc'', ''Script_Extensions'', ''scx'']"

text \<open>\<open>names.binary\<close>.\<close>

definition unicode_names_binary :: "string list" where
  "unicode_names_binary = [
    ''ASCII'', ''ASCII_Hex_Digit'', ''AHex'', ''Alphabetic'', ''Alpha'', ''Any'', ''Assigned'',
    ''Bidi_Control'', ''Bidi_C'', ''Bidi_Mirrored'', ''Bidi_M'', ''Case_Ignorable'', ''CI'',
    ''Cased'', ''Changes_When_Casefolded'', ''CWCF'', ''Changes_When_Casemapped'', ''CWCM'',
    ''Changes_When_Lowercased'', ''CWL'', ''Changes_When_NFKC_Casefolded'', ''CWKCF'',
    ''Changes_When_Titlecased'', ''CWT'', ''Changes_When_Uppercased'', ''CWU'', ''Dash'',
    ''Default_Ignorable_Code_Point'', ''DI'', ''Deprecated'', ''Dep'', ''Diacritic'', ''Dia'',
    ''Emoji'', ''Emoji_Component'', ''EComp'', ''Emoji_Modifier'', ''EMod'',
    ''Emoji_Modifier_Base'', ''EBase'', ''Emoji_Presentation'', ''EPres'',
    ''Extended_Pictographic'', ''ExtPict'', ''Extender'', ''Ext'', ''Grapheme_Base'',
    ''Gr_Base'', ''Grapheme_Extend'', ''Gr_Ext'', ''Hex_Digit'', ''Hex'',
    ''IDS_Binary_Operator'', ''IDSB'', ''IDS_Trinary_Operator'', ''IDST'', ''ID_Continue'',
    ''IDC'', ''ID_Start'', ''IDS'', ''Ideographic'', ''Ideo'', ''Join_Control'', ''Join_C'',
    ''Logical_Order_Exception'', ''LOE'', ''Lowercase'', ''Lower'', ''Math'',
    ''Noncharacter_Code_Point'', ''NChar'', ''Pattern_Syntax'', ''Pat_Syn'',
    ''Pattern_White_Space'', ''Pat_WS'', ''Quotation_Mark'', ''QMark'', ''Radical'',
    ''Regional_Indicator'', ''RI'', ''Sentence_Terminal'', ''STerm'', ''Soft_Dotted'', ''SD'',
    ''Terminal_Punctuation'', ''Term'', ''Unified_Ideograph'', ''UIdeo'', ''Uppercase'',
    ''Upper'', ''Variation_Selector'', ''VS'', ''White_Space'', ''space'', ''XID_Continue'',
    ''XIDC'', ''XID_Start'', ''XIDS'']"

text \<open>\<open>values.general\<close>.\<close>

definition unicode_values_general :: "string list" where
  "unicode_values_general = [
    ''Cased_Letter'', ''LC'', ''Close_Punctuation'', ''Pe'', ''Connector_Punctuation'', ''Pc'',
    ''Control'', ''Cc'', ''cntrl'', ''Currency_Symbol'', ''Sc'', ''Dash_Punctuation'', ''Pd'',
    ''Decimal_Number'', ''Nd'', ''digit'', ''Enclosing_Mark'', ''Me'', ''Final_Punctuation'',
    ''Pf'', ''Format'', ''Cf'', ''Initial_Punctuation'', ''Pi'', ''Letter'', ''L'',
    ''Letter_Number'', ''Nl'', ''Line_Separator'', ''Zl'', ''Lowercase_Letter'', ''Ll'',
    ''Mark'', ''M'', ''Combining_Mark'', ''Math_Symbol'', ''Sm'', ''Modifier_Letter'', ''Lm'',
    ''Modifier_Symbol'', ''Sk'', ''Nonspacing_Mark'', ''Mn'', ''Number'', ''N'',
    ''Open_Punctuation'', ''Ps'', ''Other'', ''C'', ''Other_Letter'', ''Lo'', ''Other_Number'',
    ''No'', ''Other_Punctuation'', ''Po'', ''Other_Symbol'', ''So'', ''Paragraph_Separator'',
    ''Zp'', ''Private_Use'', ''Co'', ''Punctuation'', ''P'', ''punct'', ''Separator'', ''Z'',
    ''Space_Separator'', ''Zs'', ''Spacing_Mark'', ''Mc'', ''Surrogate'', ''Cs'', ''Symbol'',
    ''S'', ''Titlecase_Letter'', ''Lt'', ''Unassigned'', ''Cn'', ''Uppercase_Letter'', ''Lu'']"

text \<open>\<open>values.script\<close>, part 1.\<close>

definition unicode_values_script1 :: "string list" where
  "unicode_values_script1 = [
    ''Adlam'', ''Adlm'', ''Ahom'', ''Anatolian_Hieroglyphs'', ''Hluw'', ''Arabic'', ''Arab'',
    ''Armenian'', ''Armn'', ''Avestan'', ''Avst'', ''Balinese'', ''Bali'', ''Bamum'', ''Bamu'',
    ''Bassa_Vah'', ''Bass'', ''Batak'', ''Batk'', ''Bengali'', ''Beng'', ''Bhaiksuki'',
    ''Bhks'', ''Bopomofo'', ''Bopo'', ''Brahmi'', ''Brah'', ''Braille'', ''Brai'',
    ''Buginese'', ''Bugi'', ''Buhid'', ''Buhd'', ''Canadian_Aboriginal'', ''Cans'', ''Carian'',
    ''Cari'', ''Caucasian_Albanian'', ''Aghb'', ''Chakma'', ''Cakm'', ''Cham'', ''Chorasmian'',
    ''Chrs'', ''Cherokee'', ''Cher'', ''Common'', ''Zyyy'', ''Coptic'', ''Copt'', ''Qaac'',
    ''Cuneiform'', ''Xsux'', ''Cypriot'', ''Cprt'', ''Cyrillic'', ''Cyrl'', ''Deseret'',
    ''Dsrt'', ''Devanagari'', ''Deva'', ''Dives_Akuru'', ''Diak'', ''Dogra'', ''Dogr'',
    ''Duployan'', ''Dupl'', ''Egyptian_Hieroglyphs'', ''Egyp'', ''Elbasan'', ''Elba'',
    ''Elymaic'', ''Elym'', ''Ethiopic'', ''Ethi'', ''Georgian'', ''Geor'', ''Glagolitic'',
    ''Glag'', ''Gothic'', ''Goth'', ''Grantha'', ''Gran'', ''Greek'', ''Grek'', ''Gujarati'',
    ''Gujr'', ''Gunjala_Gondi'', ''Gong'', ''Gurmukhi'', ''Guru'', ''Han'', ''Hani'',
    ''Hangul'', ''Hang'', ''Hanifi_Rohingya'', ''Rohg'', ''Hanunoo'', ''Hano'', ''Hatran'',
    ''Hatr'', ''Hebrew'', ''Hebr'', ''Hiragana'', ''Hira'', ''Imperial_Aramaic'', ''Armi'',
    ''Inherited'', ''Zinh'', ''Qaai'', ''Inscriptional_Pahlavi'', ''Phli'',
    ''Inscriptional_Parthian'', ''Prti'', ''Javanese'', ''Java'', ''Kaithi'', ''Kthi'',
    ''Kannada'', ''Knda'', ''Katakana'', ''Kana'', ''Kayah_Li'', ''Kali'', ''Kharoshthi'',
    ''Khar'', ''Khitan_Small_Script'', ''Kits'', ''Khmer'', ''Khmr'', ''Khojki'', ''Khoj'',
    ''Khudawadi'', ''Sind'', ''Lao'', ''Laoo'', ''Latin'', ''Latn'', ''Lepcha'', ''Lepc'',
    ''Limbu'', ''Limb'', ''Linear_A'', ''Lina'', ''Linear_B'', ''Linb'', ''Lisu'', ''Lycian'',
    ''Lyci'', ''Lydian'']"

text \<open>\<open>values.script\<close>, part 2.\<close>

definition unicode_values_script2 :: "string list" where
  "unicode_values_script2 = [
    ''Lydi'', ''Mahajani'', ''Mahj'', ''Makasar'', ''Maka'', ''Malayalam'', ''Mlym'',
    ''Mandaic'', ''Mand'', ''Manichaean'', ''Mani'', ''Marchen'', ''Marc'', ''Medefaidrin'',
    ''Medf'', ''Masaram_Gondi'', ''Gonm'', ''Meetei_Mayek'', ''Mtei'', ''Mende_Kikakui'',
    ''Mend'', ''Meroitic_Cursive'', ''Merc'', ''Meroitic_Hieroglyphs'', ''Mero'', ''Miao'',
    ''Plrd'', ''Modi'', ''Mongolian'', ''Mong'', ''Mro'', ''Mroo'', ''Multani'', ''Mult'',
    ''Myanmar'', ''Mymr'', ''Nabataean'', ''Nbat'', ''Nandinagari'', ''Nand'', ''New_Tai_Lue'',
    ''Talu'', ''Newa'', ''Nko'', ''Nkoo'', ''Nushu'', ''Nshu'', ''Nyiakeng_Puachue_Hmong'',
    ''Hmnp'', ''Ogham'', ''Ogam'', ''Ol_Chiki'', ''Olck'', ''Old_Hungarian'', ''Hung'',
    ''Old_Italic'', ''Ital'', ''Old_North_Arabian'', ''Narb'', ''Old_Permic'', ''Perm'',
    ''Old_Persian'', ''Xpeo'', ''Old_Sogdian'', ''Sogo'', ''Old_South_Arabian'', ''Sarb'',
    ''Old_Turkic'', ''Orkh'', ''Oriya'', ''Orya'', ''Osage'', ''Osge'', ''Osmanya'', ''Osma'',
    ''Pahawh_Hmong'', ''Hmng'', ''Palmyrene'', ''Palm'', ''Pau_Cin_Hau'', ''Pauc'',
    ''Phags_Pa'', ''Phag'', ''Phoenician'', ''Phnx'', ''Psalter_Pahlavi'', ''Phlp'',
    ''Rejang'', ''Rjng'', ''Runic'', ''Runr'', ''Samaritan'', ''Samr'', ''Saurashtra'',
    ''Saur'', ''Sharada'', ''Shrd'', ''Shavian'', ''Shaw'', ''Siddham'', ''Sidd'',
    ''SignWriting'', ''Sgnw'', ''Sinhala'', ''Sinh'', ''Sogdian'', ''Sogd'', ''Sora_Sompeng'',
    ''Sora'', ''Soyombo'', ''Soyo'', ''Sundanese'', ''Sund'', ''Syloti_Nagri'', ''Sylo'',
    ''Syriac'', ''Syrc'', ''Tagalog'', ''Tglg'', ''Tagbanwa'', ''Tagb'', ''Tai_Le'', ''Tale'',
    ''Tai_Tham'', ''Lana'', ''Tai_Viet'', ''Tavt'', ''Takri'', ''Takr'', ''Tamil'', ''Taml'',
    ''Tangut'', ''Tang'', ''Telugu'', ''Telu'', ''Thaana'', ''Thaa'', ''Thai'', ''Tibetan'',
    ''Tibt'', ''Tifinagh'', ''Tfng'', ''Tirhuta'', ''Tirh'', ''Ugaritic'', ''Ugar'', ''Vai'',
    ''Vaii'', ''Wancho'', ''Wcho'']"

text \<open>\<open>values.script\<close>, part 3.\<close>

definition unicode_values_script3 :: "string list" where
  "unicode_values_script3 = [
    ''Warang_Citi'', ''Wara'', ''Yezidi'', ''Yezi'', ''Yi'', ''Yiii'', ''Zanabazar_Square'',
    ''Zanb'']"

definition unicode_values_script :: "string list" where
  "unicode_values_script = unicode_values_script1 @ unicode_values_script2 @ unicode_values_script3"

text \<open>\<open>sequence in table\<close>; a table has no prototype.\<close>

definition in_table :: "string list \<Rightarrow> jstr \<Rightarrow> bool" where
  "in_table t s \<longleftrightarrow> list_ex (\<lambda>n. js n = s) t"

definition validate :: "jstr \<Rightarrow> bool" where
  "validate sequence =
     (case index_of (js ''='') sequence of
        None \<Rightarrow> in_table unicode_names_binary sequence \<or> in_table unicode_values_general sequence
      | Some equalSignIndex \<Rightarrow>
          (let name = substr sequence 0 equalSignIndex;
               value = drop (equalSignIndex + 1) sequence
           in if name = js ''General_Category'' \<or> name = js ''gc''
              then in_table unicode_values_general value
              else if name = js ''Script'' \<or> name = js ''sc'' \<or>
                      name = js ''Script_Extensions'' \<or> name = js ''scx''
              then in_table unicode_values_script value
              else False))"

end
