(* ===== verification/LexRegExp.thy ===== *)
theory LexRegExp
  imports LexPunct UnicodeProps
begin

text \<open>
  The scanner \<open>scanRegExp\<close> of \<^verbatim>\<open>lex.js\<close>. It reads the input by an index and does not move the
  character pointer.

  The correctness of the pattern is left to \<open>new RegExp(body, flags)\<close> of the engine that runs
  the program; its answer differs between engines, so it is the parameter \<open>regexp_error\<close>:
  \<open>None\<close>, or the message of the exception it throws.
\<close>

section \<open>Variables\<close>

text \<open>
  The variables of the scanner. \<open>isGroup\<close> is written and never read, and is left out.
  \<open>r_desc\<close> is \<open>malformedDesc\<close>, empty for \<open>undefined\<close>.
\<close>

record regexp_state =
  r_index :: nat
  r_char :: "jchar option"
  r_value :: jstr
  r_body :: jstr
  r_refs :: "nat list"
  r_malformed :: bool
  r_isCharSet :: bool
  r_isCharSetRange :: bool
  r_isQuantifiable :: bool
  r_badQuantifier :: bool
  r_escapedChars :: jstr
  r_groupCount :: nat
  r_terminated :: bool
  r_desc :: jstr
  r_allFlags :: jstr
  r_es5Flags :: jstr

definition regexp_start :: regexp_state where
  "regexp_start =
     \<lparr>r_index = 1, r_char = Some (ch CHR ''/''), r_value = js ''/'', r_body = [], r_refs = [],
      r_malformed = False, r_isCharSet = False, r_isCharSetRange = False,
      r_isQuantifiable = False, r_badQuantifier = False, r_escapedChars = [],
      r_groupCount = 0, r_terminated = False, r_desc = [], r_allFlags = [], r_es5Flags = []\<rparr>"

text \<open>
  \<open>Number(s)\<close> for a text of decimal digits: the nearest double, ties to even, \<open>2 ^ 1024\<close>
  standing for infinity.
\<close>

fun bit_len :: "nat \<Rightarrow> nat" where
  "bit_len n = (if n = 0 then 0 else Suc (bit_len (n div 2)))"

declare bit_len.simps [simp del]

definition Number :: "jstr \<Rightarrow> nat" where
  "Number s =
     (let n = dec_nat s; e = bit_len n - 53; q = n div 2 ^ e; r = n mod 2 ^ e;
          up = (2 * r > 2 ^ e \<or> (2 * r = 2 ^ e \<and> odd q))
      in if n < 2 ^ 53 then n
         else if double_limit \<le> n then 2 ^ 1024
         else (if up then q + 1 else q) * 2 ^ e)"

section \<open>Escape sequences in a pattern\<close>

definition add_text :: "jstr \<Rightarrow> regexp_state \<Rightarrow> regexp_state" where
  "add_text s R = R\<lparr>r_body := r_body R @ s, r_value := r_value R @ s\<rparr>"

abbreviation uflag_error :: "string \<Rightarrow> lexer \<Rightarrow> lexer" where
  "uflag_error msg L \<equiv> triggerAsync (error_at ''E016'' [js msg] L) CUFlag L"

text \<open>\<open>\u{\<dots>}\<close>, when the index stands on the \<open>u\<close>; \<open>None\<close> when the function goes on.\<close>

definition escape_u :: "regexp_state \<Rightarrow> lexer \<Rightarrow> (jstr \<times> regexp_state) option \<times> lexer" where
  "escape_u R L =
     (let i = r_index R in
      if is_ch (r_char R) (CHR ''u'') \<and> is_ch (peek L (i + 1)) (CHR ''{'') then
        (let hexs = takeWhile is_hex_char (drop (i + 2) (input L)); x = i + 2 + length hexs
         in if \<not> is_ch (peek L x) (CHR ''}'')
            then (None, uflag_error ''Invalid Unicode escape sequence'' L)
            else if hexs \<noteq> [] then
              (let sequence = js ''u{'' @ hexs @ js ''}''
               in (Some (sequence, (add_text sequence R)\<lparr>r_index := x + 1\<rparr>), L))
            else (None, L))
      else (None, L))"

text \<open>\<open>\p{\<dots>}\<close> and \<open>\P{\<dots>}\<close>.\<close>

definition escape_p :: "lstate \<Rightarrow> regexp_state \<Rightarrow> lexer \<Rightarrow> (jstr \<times> regexp_state) option \<times> lexer" where
  "escape_p st R L =
     (let i = r_index R in
      if is_ch (r_char R) (CHR ''p'') \<or> is_ch (r_char R) (CHR ''P'') then
        (let sequence = (if is_ch (peek L (i + 1)) (CHR ''{'')
               then takeWhile (\<lambda>c. c \<noteq> ch CHR ''}'') (drop (i + 2) (input L)) else []);
             y = i + 2 + length sequence;
             L1 = (if sequence = [] \<or> \<not> validate sequence
                   then uflag_error ''Invalid Unicode property escape sequence'' L else L)
         in if sequence \<noteq> [] then
              (let text = opt_str (r_char R) @ js ''{'' @ sequence @ js ''}'';
                   L2 = (if \<not> inES9 st
                         then triggerAsync (warn_at ''W119'' [js ''Unicode property escape'', js ''9''] L)
                                CUFlag L1
                         else L1)
               in (Some (text, (add_text text R)\<lparr>r_index := y + 1\<rparr>), L2))
            else (None, L1))
      else (None, L))"

text \<open>The end of \<open>scanRegexpEscapeSequence\<close>: any other character. An empty one counts as a control character.\<close>

definition escape_char :: "regexp_state \<Rightarrow> lexer \<Rightarrow> jstr \<times> regexp_state \<times> lexer" where
  "escape_char R L =
     (let char = r_char R;
          ctrl = (case char of None \<Rightarrow> True | Some c \<Rightarrow> c < 32);
          L1 = (if ctrl then triggerAsync (warn_at ''W048'' [] L) (CStatic True) L else L);
          lt = is_ch char (CHR ''<'');
          L2 = (if lt then triggerAsync (warn_at ''W049'' [opt_str char] L) (CStatic True) L1
                else if is_ch char (CHR ''0'') \<and> digit_at (peek L (r_index R + 1))
                  then uflag_error ''Invalid decimal escape sequence'' L1
                else L1)
      in (opt_str char,
          (add_text (opt_str char) R)
             \<lparr>r_index := r_index R + 1, r_malformed := r_malformed R \<or> ctrl \<or> lt\<rparr>,
          L2))"

definition escape_other :: "lstate \<Rightarrow> regexp_state \<Rightarrow> lexer \<Rightarrow> jstr \<times> regexp_state \<times> lexer" where
  "escape_other st R L =
     (case escape_u R L of
        (Some (s, R2), L1) \<Rightarrow> (s, R2, L1)
      | (None, L1) \<Rightarrow>
          (case escape_p st R L1 of
             (Some (s, R2), L2) \<Rightarrow> (s, R2, L2)
           | (None, L2) \<Rightarrow> escape_char R L2))"

text \<open>
  A back reference: the digits after the first are added here and the index stays on the
  last of them, which the main loop then adds again.
\<close>

definition escape_reference :: "jchar \<Rightarrow> regexp_state \<Rightarrow> lexer \<Rightarrow> jstr \<times> regexp_state \<times> lexer" where
  "escape_reference d R L =
     (let more = takeWhile is_dec_digit (drop (r_index R + 1) (input L)) in
      (d # more,
       (add_text more R)
         \<lparr>r_index := r_index R + length more, r_char := Some (last (d # more)),
          r_refs := r_refs R @ [Number (d # more)]\<rparr>,
       L))"

definition scanRegexpEscapeSequence ::
  "lstate \<Rightarrow> regexp_state \<Rightarrow> lexer \<Rightarrow> jstr \<times> regexp_state \<times> lexer" where
  "scanRegexpEscapeSequence st R0 L =
     (let i = r_index R0 + 1; R = R0\<lparr>r_index := i, r_char := peek L i\<rparr> in
      case peek L i of
        Some d \<Rightarrow>
          if is_nonzero_digit d then escape_reference d R L
          else escape_other st (R\<lparr>r_escapedChars := r_escapedChars R @ [d]\<rparr>) L
      | None \<Rightarrow> escape_char R L)"

text \<open>\<open>checkQuantifier\<close>, the index being that of the opening brace.\<close>

definition checkQuantifier :: "nat \<Rightarrow> lexer \<Rightarrow> bool" where
  "checkQuantifier index L =
     (let lower = takeWhile is_dec_digit (drop (index + 1) (input L));
          i1 = index + 1 + length lower; nxt = peek L i1
      in if lower = [] then False
         else if is_ch nxt (CHR ''}'') then True
         else if \<not> is_ch nxt (CHR '','') then False
         else
           (let upper = takeWhile is_dec_digit (drop (i1 + 1) (input L)) in
            if \<not> is_ch (peek L (i1 + 1 + length upper)) (CHR ''}'') then False
            else if upper \<noteq> [] then Number lower \<le> Number upper else True))"

section \<open>The pattern\<close>

text \<open>One iteration of the loop over the pattern, \<open>index < length\<close> being given.\<close>

definition pattern_escape :: "lstate \<Rightarrow> regexp_state \<Rightarrow> lexer \<Rightarrow> regexp_state \<times> lexer" where
  "pattern_escape st R L =
     (case scanRegexpEscapeSequence st R L of
        (s, R1, L1) \<Rightarrow>
          (R1,
           if r_isCharSet R1 \<and> (is_ch (peek L (r_index R1)) (CHR ''-'') \<or> r_isCharSetRange R1) \<and>
              list_ex regexpCharClasses s
           then uflag_error ''Character class used in range'' L1 else L1))"

definition pattern_char :: "regexp_state \<Rightarrow> lexer \<Rightarrow> regexp_state \<times> lexer" where
  "pattern_char R0 L =
     (let i = r_index R0; char = r_char R0;
          R = (if is_ch char (CHR ''{'') \<and> \<not> r_badQuantifier R0
               then R0\<lparr>r_badQuantifier := \<not> checkQuantifier i L\<rparr> else R0)
      in if is_ch char (CHR ''['') then (R\<lparr>r_isCharSet := True, r_index := i + 1\<rparr>, L)
         else if is_ch char (CHR ''('') then
           (R\<lparr>r_isQuantifiable := r_isQuantifiable R \<or>
                (is_ch (peek L (i + 1)) (CHR ''?'') \<and>
                 (is_ch (peek L (i + 2)) (CHR ''='') \<or> is_ch (peek L (i + 2)) (CHR ''!''))),
              r_index := i + 1\<rparr>, L)
         else if is_ch char (CHR '')'') then
           (if r_isQuantifiable R then
              (R\<lparr>r_isQuantifiable := False, r_index := i + 1\<rparr>,
               if one_of (peek L (i + 1)) ''*+?{''
               then uflag_error ''Quantified quantifiable'' L else L)
            else (R\<lparr>r_groupCount := r_groupCount R + 1, r_index := i + 1\<rparr>, L))
         else if is_ch char (CHR ''/'') then
           (R\<lparr>r_body := butlast (r_body R), r_terminated := True, r_index := i + 1\<rparr>, L)
         else (R\<lparr>r_index := i + 1\<rparr>, L))"

text \<open>The start of an iteration: the next character, and whether it is in a character set.\<close>

definition pattern_enter :: "regexp_state \<Rightarrow> lexer \<Rightarrow> regexp_state" where
  "pattern_enter R0 L =
     (let i = r_index R0; char = peek L i;
          R1 = (add_text (opt_str char) R0)
                 \<lparr>r_isCharSetRange := r_isCharSetRange R0 \<and> is_ch (r_char R0) (CHR ''-''),
                  r_char := char\<rparr>
      in if r_isCharSet R1 then
           (if is_ch char (CHR '']'') then
              (if \<not> is_ch (peek L (i - 1)) (CHR 92) \<or> is_ch (peek L (i - 2)) (CHR 92)
               then R1\<lparr>r_isCharSet := False\<rparr> else R1)
            else if is_ch char (CHR ''-'') then R1\<lparr>r_isCharSetRange := True\<rparr>
            else R1)
         else R1)"

definition pattern_step :: "lstate \<Rightarrow> regexp_state \<Rightarrow> lexer \<Rightarrow> regexp_state \<times> lexer" where
  "pattern_step st R0 L =
     (let R = pattern_enter R0 L in
      if is_ch (r_char R) (CHR 92) then pattern_escape st R L
      else if r_isCharSet R then (R\<lparr>r_index := r_index R + 1\<rparr>, L)
      else pattern_char R L)"

lemma pattern_enter_simps [simp]:
  "r_index (pattern_enter R L) = r_index R" "r_terminated (pattern_enter R L) = r_terminated R"
  "r_char (pattern_enter R L) = peek L (r_index R)"
  "r_value (pattern_enter R L) = r_value R @ opt_str (peek L (r_index R))"
  "r_body (pattern_enter R L) = r_body R @ opt_str (peek L (r_index R))"
  by (simp_all add: pattern_enter_def Let_def add_text_def)

text \<open>The index moves on, and the lexer only gains checks.\<close>

lemma escape_u_step:
  "escape_u R L = (x, L') \<Longrightarrow> adds_checks L L' \<and> (\<forall>s R'. x = Some (s, R') \<longrightarrow> r_index R < r_index R')"
  by (auto simp: escape_u_def Let_def add_text_def split: if_splits)

lemma escape_p_step:
  "escape_p st R L = (x, L') \<Longrightarrow> adds_checks L L' \<and> (\<forall>s R'. x = Some (s, R') \<longrightarrow> r_index R < r_index R')"
  by (auto simp: escape_p_def Let_def add_text_def split: if_splits)

lemma escape_char_step:
  "escape_char R L = (s, R', L') \<Longrightarrow> adds_checks L L' \<and> r_index R < r_index R'"
  unfolding escape_char_def Let_def by (auto simp: add_text_def split: if_splits)

lemma escape_other_step:
  assumes "escape_other st R L = (s, R', L')"
  shows "adds_checks L L' \<and> r_index R < r_index R'"
proof -
  obtain x L1 where u: "escape_u R L = (x, L1)" by (cases "escape_u R L")
  obtain y L2 where p: "escape_p st R L1 = (y, L2)" by (cases "escape_p st R L1")
  show ?thesis
    using assms escape_u_step [OF u] escape_p_step [OF p] escape_char_step [of R L2 s R' L']
    by (auto simp: escape_other_def u p split: option.splits intro: adds_checks_trans)
qed

lemma scanRegexpEscapeSequence_step:
  "scanRegexpEscapeSequence st R L = (s, R', L') \<Longrightarrow> adds_checks L L' \<and> r_index R < r_index R'"
  by (auto simp: scanRegexpEscapeSequence_def Let_def escape_reference_def add_text_def
      split: option.splits if_splits dest!: escape_other_step escape_char_step)

lemma pattern_escape_step:
  "pattern_escape st R L = (R', L') \<Longrightarrow> adds_checks L L' \<and> r_index R < r_index R'"
  unfolding pattern_escape_def
  by (auto split: prod.splits if_splits dest!: scanRegexpEscapeSequence_step)

lemma pattern_char_step:
  "pattern_char R L = (R', L') \<Longrightarrow> adds_checks L L' \<and> r_index R < r_index R'"
  unfolding pattern_char_def Let_def by (auto split: if_splits)

lemma pattern_step_step:
  assumes "pattern_step st R L = (R', L')"
  shows "adds_checks L L' \<and> r_index R < r_index R'"
  using assms pattern_escape_step [of st "pattern_enter R L" L R' L']
    pattern_char_step [of "pattern_enter R L" L R' L']
  by (auto simp: pattern_step_def Let_def split: if_splits)

function pattern_loop :: "lstate \<Rightarrow> regexp_state \<Rightarrow> lexer \<Rightarrow> regexp_state \<times> lexer" where
  "pattern_loop st R L =
     (if \<not> r_terminated R \<and> r_index R < length (input L)
      then (case pattern_step st R L of (R', L') \<Rightarrow> pattern_loop st R' L')
      else (R, L))"
  by pat_completeness auto
termination
proof (relation "measure (\<lambda>(st, R, L). length (input L) - r_index R)", goal_cases)
  case 1
  then show ?case by simp
next
  case (2 st R L x y)
  from pattern_step_step [of st R L x y] 2 show ?case
    by (auto simp: adds_checks_frame split: prod.splits)
qed

declare pattern_loop.simps [simp del]

section \<open>The \<open>u\<close> flag\<close>

text \<open>
  \<open>translateUFlag\<close>: \<open>unicode_escape s\<close> is the match of
  \<open>/\\u\{([0-9a-fA-F]+)\}|\\u([a-fA-F0-9]{4})/\<close> at the start of \<open>s\<close>, its digits and its length.
  A code point beyond Unicode is reported and replaced by the text \<open>undefined\<close>, the value
  the replacing function returns then.
\<close>

definition unicode_escape :: "jstr \<Rightarrow> (jstr \<times> nat) option" where
  "unicode_escape s =
     (let hexs = takeWhile is_hex_char (drop 3 s) in
      if starts_with (js [CHR 92, CHR ''u'', CHR ''{'']) s \<and> hexs \<noteq> [] \<and>
         char_at s (3 + length hexs) = Some (ch CHR ''}'')
      then Some (hexs, 4 + length hexs)
      else if starts_with (js [CHR 92, CHR ''u'']) s \<and> 6 \<le> length s \<and> isHex (substr s 2 4)
      then Some (substr s 2 4, 6)
      else None)"

definition translate_point :: "jstr \<Rightarrow> jstr \<Rightarrow> jstr" where
  "translate_point matched hexs =
     (let codePoint = hex_nat hexs; literal = fromCharCode (Some (int codePoint)) in
      if 1114111 < codePoint then js ''undefined''
      else if regexpSyntaxChars literal then matched
      else if codePoint \<le> 65535 then [literal]
      else [65535])"

function translate_escapes :: "jstr \<Rightarrow> jstr" where
  "translate_escapes [] = []"
| "translate_escapes (c # cs) =
     (case unicode_escape (c # cs) of
        None \<Rightarrow> c # translate_escapes cs
      | Some (hexs, n) \<Rightarrow>
          translate_point (take n (c # cs)) hexs @ translate_escapes (drop (n - 1) cs))"
  by pat_completeness auto
termination
  by (relation "measure length") auto

text \<open>How many of the escapes are beyond Unicode: one report each.\<close>

function beyond_unicode :: "jstr \<Rightarrow> nat" where
  "beyond_unicode [] = 0"
| "beyond_unicode (c # cs) =
     (case unicode_escape (c # cs) of
        None \<Rightarrow> beyond_unicode cs
      | Some (hexs, n) \<Rightarrow>
          (if 1114111 < hex_nat hexs then 1 else 0) + beyond_unicode (drop (n - 1) cs))"
  by pat_completeness auto
termination
  by (relation "measure length") auto

definition is_lead :: "jchar \<Rightarrow> bool" where
  "is_lead c \<longleftrightarrow> 55296 \<le> c \<and> c \<le> 56319"

definition is_trail :: "jchar \<Rightarrow> bool" where
  "is_trail c \<longleftrightarrow> 56320 \<le> c \<and> c \<le> 57343"

fun replace_pairs :: "jstr \<Rightarrow> jstr" where
  "replace_pairs [] = []"
| "replace_pairs [c] = [c]"
| "replace_pairs (c # d # cs) =
     (if is_lead c \<and> is_trail d then 65535 # replace_pairs cs
      else c # replace_pairs (d # cs))"

definition translateUFlag :: "jstr \<Rightarrow> jstr" where
  "translateUFlag body = replace_pairs (translate_escapes body)"

fun report_beyond :: "nat \<Rightarrow> lexer \<Rightarrow> lexer" where
  "report_beyond 0 L = L"
| "report_beyond (Suc n) L = report_beyond n (trigger (error_at ''E016'' [js ''u''] L) L)"

definition hasInvalidEscape :: "regexp_state \<Rightarrow> bool" where
  "hasInvalidEscape R \<longleftrightarrow>
     list_ex (\<lambda>n. r_groupCount R < n) (r_refs R) \<or>
     \<not> list_all (\<lambda>c. c = ch CHR ''u'' \<or> c = ch CHR ''/'' \<or> c = ch CHR ''0'' \<or>
          regexpControlEscapes c \<or> regexpCharClasses c \<or> regexpSyntaxChars c) (r_escapedChars R)"

section \<open>The flags\<close>

definition is_flag :: "jchar \<Rightarrow> bool" where
  "is_flag c \<longleftrightarrow> List.member (js ''gimyus'') c"

definition u_flag :: "regexp_state \<Rightarrow> regexp_state" where
  "u_flag R =
     (let R1 = (if hasInvalidEscape R then R\<lparr>r_desc := js ''Invalid escape''\<rparr>
                else if r_badQuantifier R then R\<lparr>r_desc := js ''Invalid quantifier''\<rparr>
                else R)
      in R1\<lparr>r_body := translateUFlag (r_body R),
            r_malformed := r_malformed R \<or> 0 < beyond_unicode (r_body R)\<rparr>)"

text \<open>One flag. The test for a second \<open>s\<close> looks into the whole literal read so far.\<close>

definition flag_step :: "lstate \<Rightarrow> jchar \<Rightarrow> regexp_state \<Rightarrow> lexer \<Rightarrow> regexp_state \<times> lexer" where
  "flag_step st c R L =
     (let es = (\<lambda>b what v. if b
                  then triggerAsync (warn_at ''W119'' [js what, js v] L) (CStatic True) L else L);
          (R1, L1) =
            (if c = ch CHR ''y'' then (R, es (\<not> inES6 st True) ''Sticky RegExp flag'' ''6'')
             else if c = ch CHR ''u'' then
               (u_flag R,
                report_beyond (beyond_unicode (r_body R))
                  (es (\<not> inES6 st True) ''Unicode RegExp flag'' ''6''))
             else if c = ch CHR ''s'' then
               (if contains_char (ch CHR ''s'') (r_value R)
                then R\<lparr>r_desc := js ''Duplicate RegExp flag''\<rparr> else R,
                es (\<not> inES9 st) ''DotAll RegExp flag'' ''9'')
             else (R\<lparr>r_es5Flags := r_es5Flags R @ [c]\<rparr>, L));
          R2 = (if contains_char c (r_allFlags R1)
                then R1\<lparr>r_desc := js ''Duplicate RegExp flag''\<rparr> else R1)
      in (R2\<lparr>r_value := r_value R2 @ [c], r_allFlags := r_allFlags R2 @ [c, c],
             r_index := r_index R2 + 1\<rparr>, L1))"

fun flag_loop :: "lstate \<Rightarrow> jstr \<Rightarrow> regexp_state \<Rightarrow> lexer \<Rightarrow> regexp_state \<times> lexer" where
  "flag_loop st [] R L = (R, L)"
| "flag_loop st (c # cs) R L =
     (if is_flag c then (case flag_step st c R L of (R1, L1) \<Rightarrow> flag_loop st cs R1 L1)
      else (R, L))"

section \<open>The scanner\<close>

text \<open>
  The checks with the condition \<open>hasUFlag\<close> are called after the scanner has returned, so
  they see all flags.
\<close>

definition resolve_uflag :: "bool \<Rightarrow> lexer \<Rightarrow> lexer" where
  "resolve_uflag b L =
     L\<lparr>checks := map (\<lambda>(c, e). (if c = CUFlag then CStatic b else c, e)) (checks L)\<rparr>"

text \<open>After the flags: the checks of the whole literal.\<close>

definition finish_regexp ::
  "(jstr \<Rightarrow> jstr \<Rightarrow> jstr option) \<Rightarrow> lstate \<Rightarrow> regexp_state \<Rightarrow> lexer \<Rightarrow> raw_token option \<times> lexer" where
  "finish_regexp regexp_error st R L =
     (let hasU = contains_char (ch CHR ''u'') (r_allFlags R);
          L1 = (if \<not> hasU then triggerAsync (warn_at ''W147'' [] L) CRegexpu L else L);
          desc = (case regexp_error (r_body R) (r_es5Flags R) of Some m \<Rightarrow> m | None \<Rightarrow> r_desc R);
          L2 = (if desc \<noteq> [] then trigger (error_at ''E016'' [desc] L) L1
                else if contains_char (ch CHR ''s'') (r_allFlags R) \<and> \<not> regexpDot (r_body R)
                then trigger (warn_at ''W148'' [] L) L1
                else L1)
      in (Some (RRegExp (r_value R) (r_malformed R \<or> desc \<noteq> [])), resolve_uflag hasU L2))"

text \<open>
  A literal that is not closed on its line: the error, then the event \<open>fatal\<close>, whose listener
  ends the run.
\<close>

definition scanRegExp ::
  "(jstr \<Rightarrow> jstr \<Rightarrow> jstr option) \<Rightarrow> lstate \<Rightarrow> lexer \<Rightarrow> raw_token option \<times> lexer" where
  "scanRegExp regexp_error st L =
     (if \<not> prereg L \<or> \<not> is_ch (peek L 0) (CHR ''/'') then (None, L)
      else
        (case pattern_loop st regexp_start L of
           (R, L1) \<Rightarrow>
             if \<not> r_terminated R then
               (None, resolve_uflag False
                  (trigger (EvFatal (line L) (lfrom L))
                    (trigger (EvDiag DError ''E015'' (line L) (lfrom L) []) L1)))
             else
               (case flag_loop st (drop (r_index R) (input L)) R L1 of
                  (R2, L2) \<Rightarrow> finish_regexp regexp_error st R2 L2)))"

section \<open>The scanner stays where it is, and its token fits into the line\<close>

lemma pattern_loop_adds: "pattern_loop st R L = (R', L') \<Longrightarrow> adds_checks L L'"
proof (induction st R L rule: pattern_loop.induct)
  case (1 st R L)
  obtain R1 L1 where s: "pattern_step st R L = (R1, L1)" by (cases "pattern_step st R L")
  show ?case
  proof (cases "\<not> r_terminated R \<and> r_index R < length (input L)")
    case True
    with "1.prems" s have "pattern_loop st R1 L1 = (R', L')"
      by (subst (asm) pattern_loop.simps) simp
    with "1.IH" [OF True s [symmetric]] pattern_step_step [OF s] show ?thesis
      by (blast intro: adds_checks_trans)
  next
    case False
    with "1.prems" show ?thesis by (subst (asm) pattern_loop.simps) simp
  qed
qed

lemma report_beyond_stays [simp]: "stays L (report_beyond n L') \<longleftrightarrow> stays L L'"
  by (induction n arbitrary: L') auto

lemma flag_step_stays: "flag_step st c R L = (R', L') \<Longrightarrow> stays L L'"
  unfolding flag_step_def Let_def by (auto split: if_splits)

lemma flag_loop_stays: "flag_loop st cs R L = (R', L') \<Longrightarrow> stays L L'"
  by (induction st cs R L rule: flag_loop.induct)
    (auto split: if_splits prod.splits dest: flag_step_stays intro: stays_trans)

lemma finish_regexp_stays: "finish_regexp re st R L = (t, L') \<Longrightarrow> stays L L'"
  unfolding finish_regexp_def Let_def resolve_uflag_def by (auto split: if_splits)

lemma scanRegExp_stays: "scanRegExp re st L = (t, L') \<Longrightarrow> stays L L'"
  unfolding scanRegExp_def resolve_uflag_def
  by (auto split: if_splits prod.splits
      dest!: pattern_loop_adds adds_checks_stays flag_loop_stays finish_regexp_stays
      intro: stays_trans)

text \<open>
  As long as the index is within the input, the value read has the length of the index,
  though not always the characters (see \<open>escape_reference\<close>).
\<close>

definition regexp_sync :: "lexer \<Rightarrow> regexp_state \<Rightarrow> bool" where
  "regexp_sync L R \<longleftrightarrow> length (r_value R) = r_index R \<or> length (input L) < r_index R"

lemma add_text_simps [simp]:
  "r_value (add_text s R) = r_value R @ s" "r_index (add_text s R) = r_index R"
  "r_terminated (add_text s R) = r_terminated R" "r_isCharSet (add_text s R) = r_isCharSet R"
  "r_body (add_text s R) = r_body R @ s" "r_char (add_text s R) = r_char R"
  by (simp_all add: add_text_def)

lemma is_ch_length: "is_ch c k \<Longrightarrow> length (opt_str c) = 1"
  by (auto simp: is_ch_def)

lemma escape_u_sync:
  "escape_u R L = (Some (s, R'), L') \<Longrightarrow> length (r_value R) = r_index R \<Longrightarrow> length (r_value R') = r_index R'"
  by (auto simp: escape_u_def Let_def split: if_splits)

lemma escape_p_sync:
  "escape_p st R L = (Some (s, R'), L') \<Longrightarrow> length (r_value R) = r_index R \<Longrightarrow> length (r_value R') = r_index R'"
  by (auto simp: escape_p_def Let_def is_ch_length split: if_splits)

lemma escape_char_sync:
  "escape_char R L = (s, R', L') \<Longrightarrow> length (r_value R) = r_index R \<Longrightarrow> r_char R \<noteq> None \<Longrightarrow>
     length (r_value R') = r_index R'"
  by (auto simp: escape_char_def Let_def)

lemma escape_other_sync:
  "escape_other st R L = (s, R', L') \<Longrightarrow> length (r_value R) = r_index R \<Longrightarrow> r_char R \<noteq> None \<Longrightarrow>
     length (r_value R') = r_index R'"
  unfolding escape_other_def
  by (auto split: prod.splits option.splits dest: escape_u_sync escape_p_sync escape_char_sync)

lemma scanRegexpEscapeSequence_sync:
  assumes "scanRegexpEscapeSequence st R L = (s, R', L')" "length (r_value R) = r_index R + 1"
  shows "regexp_sync L R'"
proof (cases "peek L (r_index R + 1)")
  case None
  then have "r_index R' = r_index R + 2 \<and> length (input L) \<le> r_index R + 1"
    using assms(1)
    by (auto simp: scanRegexpEscapeSequence_def Let_def escape_char_def peek_def char_at_def split: if_splits)
  then show ?thesis by (simp add: regexp_sync_def)
next
  case (Some d)
  with assms show ?thesis
    by (auto simp: scanRegexpEscapeSequence_def Let_def escape_reference_def regexp_sync_def
        split: if_splits dest!: escape_other_sync)
qed

lemma pattern_char_sync:
  "pattern_char R L = (R', L') \<Longrightarrow> length (r_value R) = r_index R + 1 \<Longrightarrow> length (r_value R') = r_index R'"
  unfolding pattern_char_def Let_def by (auto split: if_splits)

lemma pattern_step_sync:
  assumes "pattern_step st R L = (R', L')" "length (r_value R) = r_index R" "r_index R < length (input L)"
  shows "regexp_sync L R'"
proof -
  let ?R = "pattern_enter R L"
  have len: "length (r_value ?R) = r_index ?R + 1"
    using assms(2,3) by (simp add: peek_def char_at_def)
  show ?thesis
  proof (cases "is_ch (peek L (r_index R)) (CHR 92)")
    case True
    with assms(1) obtain s L2 where "scanRegexpEscapeSequence st ?R L = (s, R', L2)"
      by (auto simp: pattern_step_def Let_def pattern_escape_def split: prod.splits if_splits)
    then show ?thesis using len by (rule scanRegexpEscapeSequence_sync)
  next
    case False
    with assms(1) len pattern_char_sync [of ?R L R' L'] show ?thesis
      by (auto simp: pattern_step_def Let_def regexp_sync_def split: if_splits)
  qed
qed

lemma pattern_loop_sync:
  "pattern_loop st R L = (R', L') \<Longrightarrow> \<not> r_terminated R \<Longrightarrow> regexp_sync L R \<Longrightarrow> regexp_sync L R'"
proof (induction st R L rule: pattern_loop.induct)
  case (1 st R L)
  obtain R1 L1 where s: "pattern_step st R L = (R1, L1)" by (cases "pattern_step st R L")
  show ?case
  proof (cases "r_index R < length (input L)")
    case True
    with "1.prems" s have run: "pattern_loop st R1 L1 = (R', L')"
      by (subst (asm) pattern_loop.simps) simp
    have inp: "input L1 = input L"
      using pattern_step_step [OF s] adds_checks_frame(3) by blast
    have sync: "regexp_sync L R1"
      using pattern_step_sync [OF s _ True] "1.prems"(3) True by (simp add: regexp_sync_def)
    show ?thesis
    proof (cases "r_terminated R1")
      case True
      with run have "R' = R1" by (subst (asm) pattern_loop.simps) simp
      with sync show ?thesis by simp
    next
      case False
      with "1.IH" [OF _ s [symmetric]] run sync True "1.prems"(2) inp show ?thesis
        by (simp add: regexp_sync_def)
    qed
  next
    case False
    with "1.prems" have "R' = R" by (subst (asm) pattern_loop.simps) simp
    with "1.prems"(3) show ?thesis by simp
  qed
qed

text \<open>Only a slash within the line ends the pattern.\<close>

lemma not_terminated_escape:
  "escape_u R L = (Some (s, R'), L') \<Longrightarrow> r_terminated R' = r_terminated R"
  "escape_p st R L = (Some (s, R'), L') \<Longrightarrow> r_terminated R' = r_terminated R"
  "escape_char R L = (s, R', L') \<Longrightarrow> r_terminated R' = r_terminated R"
  by (auto simp: escape_u_def escape_p_def escape_char_def Let_def split: if_splits)

lemma not_terminated_seq:
  "scanRegexpEscapeSequence st R L = (s, R', L') \<Longrightarrow> r_terminated R' = r_terminated R"
  unfolding scanRegexpEscapeSequence_def escape_other_def escape_reference_def Let_def
  by (auto split: option.splits if_splits prod.splits dest!: not_terminated_escape)

lemma pattern_step_terminated:
  assumes "pattern_step st R L = (R', L')" "\<not> r_terminated R" "r_terminated R'"
    "r_index R < length (input L)"
  shows "r_index R' \<le> length (input L)"
proof -
  have "\<not> is_ch (peek L (r_index R)) (CHR 92)"
    using assms(1-3)
    by (auto simp: pattern_step_def pattern_escape_def Let_def split: prod.splits dest!: not_terminated_seq)
  then have "r_index R' = r_index R + 1"
    using assms(1) by (auto simp: pattern_step_def pattern_char_def Let_def split: if_splits)
  with assms(4) show ?thesis by simp
qed

lemma pattern_loop_terminated:
  "pattern_loop st R L = (R', L') \<Longrightarrow> \<not> r_terminated R \<Longrightarrow> r_terminated R' \<Longrightarrow>
     r_index R' \<le> length (input L)"
proof (induction st R L rule: pattern_loop.induct)
  case (1 st R L)
  obtain R1 L1 where s: "pattern_step st R L = (R1, L1)" by (cases "pattern_step st R L")
  show ?case
  proof (cases "r_index R < length (input L)")
    case True
    with "1.prems" s have run: "pattern_loop st R1 L1 = (R', L')"
      by (subst (asm) pattern_loop.simps) simp
    have inp: "input L1 = input L"
      using pattern_step_step [OF s] adds_checks_frame(3) by blast
    show ?thesis
    proof (cases "r_terminated R1")
      case True
      with run have "R' = R1" by (subst (asm) pattern_loop.simps) simp
      with pattern_step_terminated [OF s "1.prems"(2) True] \<open>r_index R < length (input L)\<close>
      show ?thesis by simp
    next
      case False
      with "1.IH" [OF _ s [symmetric]] run True "1.prems"(2,3) inp show ?thesis by simp
    qed
  next
    case False
    with "1.prems" show ?thesis by (subst (asm) pattern_loop.simps) simp
  qed
qed

lemma flag_step_value:
  "flag_step st c R L = (R', L') \<Longrightarrow> r_value R' = r_value R @ [c] \<and> r_index R' = r_index R + 1"
  unfolding flag_step_def u_flag_def Let_def by (auto split: if_splits)

lemma flag_loop_value:
  "flag_loop st cs R L = (R', L') \<Longrightarrow>
     \<exists>fs. r_value R' = r_value R @ fs \<and> length fs \<le> length cs"
proof (induction st cs R L rule: flag_loop.induct)
  case (1 st R L)
  then show ?case by auto
next
  case (2 st c cs R L)
  obtain R1 L1 where s: "flag_step st c R L = (R1, L1)" by (cases "flag_step st c R L")
  show ?case
  proof (cases "is_flag c")
    case True
    with 2 s obtain fs where "r_value R' = r_value R1 @ fs" "length fs \<le> length cs" by fastforce
    with flag_step_value [OF s] show ?thesis by (auto intro: exI [of _ "c # fs"])
  next
    case False
    with 2 show ?thesis by auto
  qed
qed

lemma pattern_loop_index: "pattern_loop st S M = (S', M') \<Longrightarrow> r_index S \<le> r_index S'"
proof (induction st S M rule: pattern_loop.induct)
  case (1 st S M)
  obtain S1 M1 where s: "pattern_step st S M = (S1, M1)" by (cases "pattern_step st S M")
  show ?case
  proof (cases "\<not> r_terminated S \<and> r_index S < length (input M)")
    case True
    with "1.prems" s have "pattern_loop st S1 M1 = (S', M')"
      by (subst (asm) pattern_loop.simps) simp
    with "1.IH" [OF True s [symmetric]] pattern_step_step [OF s] show ?thesis by simp
  next
    case False
    with "1.prems" show ?thesis by (subst (asm) pattern_loop.simps) simp
  qed
qed

lemma scanRegExp_value:
  assumes "scanRegExp re st L = (Some t, L')"
  obtains v m where "t = RRegExp v m" "v \<noteq> []" "length v \<le> length (input L)"
proof -
  from assms obtain R L1 R2 L2 where loop: "pattern_loop st regexp_start L = (R, L1)"
    and ended: "r_terminated R"
    and flags: "flag_loop st (drop (r_index R) (input L)) R L1 = (R2, L2)"
    and t: "\<exists>m. t = RRegExp (r_value R2) m"
    by (auto simp: scanRegExp_def finish_regexp_def Let_def split: if_splits prod.splits)
  have "regexp_sync L R"
    using pattern_loop_sync [OF loop] by (simp add: regexp_sync_def regexp_start_def)
  then have len: "length (r_value R) = r_index R" "r_index R \<le> length (input L)"
    using pattern_loop_terminated [OF loop _ ended] by (auto simp: regexp_sync_def regexp_start_def)
  have "0 < r_index R"
    using pattern_loop_index [OF loop] by (simp add: regexp_start_def)
  moreover obtain fs where "r_value R2 = r_value R @ fs" "length fs \<le> length (input L) - r_index R"
    using flag_loop_value [OF flags] by auto
  ultimately have "r_value R2 \<noteq> []" "length (r_value R2) \<le> length (input L)"
    using len by auto
  with t show ?thesis by (auto intro: that)
qed

section \<open>Plain patterns\<close>

text \<open>A pattern without backslashes, sets, groups and braces is handed to the engine as it is.\<close>

definition plain_regexp :: "jchar \<Rightarrow> bool" where
  "plain_regexp c \<longleftrightarrow> c \<noteq> 92 \<and> \<not> List.member (js ''[{()/'') c"

lemma plain_regexp_iff:
  "plain_regexp c \<longleftrightarrow> c \<noteq> 92 \<and> c \<noteq> ch CHR ''['' \<and> c \<noteq> ch CHR ''{'' \<and> c \<noteq> ch CHR ''('' \<and>
     c \<noteq> ch CHR '')'' \<and> c \<noteq> ch CHR ''/''"
  by (auto simp: plain_regexp_def js_def)

lemma pattern_loop_plain:
  "input L = pre @ s @ ch CHR ''/'' # r \<Longrightarrow> r_index R = length pre \<Longrightarrow> list_all plain_regexp s \<Longrightarrow>
     \<not> r_terminated R \<Longrightarrow> \<not> r_isCharSet R \<Longrightarrow> \<not> r_isCharSetRange R \<Longrightarrow>
     pattern_loop st R L =
       (R\<lparr>r_index := length pre + length s + 1, r_char := Some (ch CHR ''/''),
          r_value := r_value R @ s @ [ch CHR ''/''], r_body := r_body R @ s,
          r_terminated := True\<rparr>, L)"
proof (induction s arbitrary: pre R)
  case Nil
  have at: "peek L (r_index R) = Some (ch CHR ''/'')"
    using Nil.prems by (simp add: peek_def char_at_def)
  have "pattern_step st R L =
       (R\<lparr>r_index := length pre + 1, r_char := Some (ch CHR ''/''),
          r_value := r_value R @ [ch CHR ''/''], r_body := r_body R, r_terminated := True\<rparr>, L)"
    using Nil.prems(2,4-6) at
    by (simp add: pattern_step_def pattern_enter_def pattern_char_def add_text_def Let_def is_ch_def)
  then show ?case
    using Nil.prems by (subst pattern_loop.simps) (simp add: pattern_loop.simps)
next
  case (Cons c s)
  have at: "peek L (r_index R) = Some c"
    using Cons.prems by (simp add: peek_def char_at_def)
  have c: "c \<noteq> 92" "c \<noteq> ch CHR ''[''" "c \<noteq> ch CHR ''{''" "c \<noteq> ch CHR ''(''"
    "c \<noteq> ch CHR '')''" "c \<noteq> ch CHR ''/''"
    using Cons.prems(3) by (simp_all add: plain_regexp_iff)
  let ?R = "R\<lparr>r_index := length (pre @ [c]), r_char := Some c,
          r_value := r_value R @ [c], r_body := r_body R @ [c]\<rparr>"
  have "pattern_step st R L = (?R, L)"
    using Cons.prems(2,4-6) at c
    by (simp add: pattern_step_def pattern_enter_def pattern_char_def add_text_def Let_def is_ch_def)
  then have "pattern_loop st R L = pattern_loop st ?R L"
    using Cons.prems by (subst pattern_loop.simps) simp
  also have "\<dots> = (?R\<lparr>r_index := length (pre @ [c]) + length s + 1, r_char := Some (ch CHR ''/''),
          r_value := r_value ?R @ s @ [ch CHR ''/''], r_body := r_body ?R @ s,
          r_terminated := True\<rparr>, L)"
    using Cons.prems by (intro Cons.IH) auto
  finally show ?case by simp
qed

lemma scanRegExp_plain:
  assumes "prereg L" "input L = ch CHR ''/'' # s @ ch CHR ''/'' # fs" "list_all plain_regexp s"
  shows "scanRegExp re st L =
     (case flag_loop st fs
             (regexp_start\<lparr>r_index := length s + 2, r_char := Some (ch CHR ''/''),
                r_value := js ''/'' @ s @ [ch CHR ''/''], r_body := s, r_terminated := True\<rparr>) L of
        (R2, L2) \<Rightarrow> finish_regexp re st R2 L2)"
proof -
  have "pattern_loop st regexp_start L =
      (regexp_start\<lparr>r_index := length [ch CHR ''/''] + length s + 1, r_char := Some (ch CHR ''/''),
         r_value := r_value regexp_start @ s @ [ch CHR ''/''], r_body := r_body regexp_start @ s,
         r_terminated := True\<rparr>, L)"
    using assms(2,3) by (intro pattern_loop_plain) (auto simp: regexp_start_def)
  then have "pattern_loop st regexp_start L =
      (regexp_start\<lparr>r_index := length s + 2, r_char := Some (ch CHR ''/''),
         r_value := js ''/'' @ s @ [ch CHR ''/''], r_body := s, r_terminated := True\<rparr>, L)"
    by (simp add: regexp_start_def)
  with assms(1,2) show ?thesis
    by (simp add: scanRegExp_def peek_def is_ch_def)
qed

definition stops_flags :: "jstr \<Rightarrow> bool" where
  "stops_flags r \<longleftrightarrow> (case r of [] \<Rightarrow> True | c # _ \<Rightarrow> \<not> is_flag c)"

lemma flag_loop_stop: "stops_flags r \<Longrightarrow> flag_loop st r R L = (R, L)"
  by (cases r) (auto simp: stops_flags_def)

lemma contains_char_simps [simp]:
  "contains_char c [] = False" "contains_char c (d # s) \<longleftrightarrow> c = d \<or> contains_char c s"
  "contains_char c (s @ t) \<longleftrightarrow> contains_char c s \<or> contains_char c t"
  by (auto simp: contains_char_def)

text \<open>Without flags, and with the flag \<open>s\<close> alone.\<close>

lemma regexp_no_flags:
  assumes "prereg L" "input L = ch CHR ''/'' # s @ ch CHR ''/'' # r" "list_all plain_regexp s"
    and "stops_flags r"
  shows "fst (scanRegExp re st L) =
      Some (RRegExp (js ''/'' @ s @ js ''/'') (\<exists>m. re s [] = Some m \<and> m \<noteq> []))"
    and "events (snd (scanRegExp re st L)) = events L @
      (case re s [] of None \<Rightarrow> [] | Some m \<Rightarrow> if m = [] then [] else [error_at ''E016'' [m] L])"
  unfolding scanRegExp_plain [OF assms(1-3)] flag_loop_stop [OF assms(4)]
  by (auto simp: finish_regexp_def regexp_start_def resolve_uflag_def js_def Let_def split: option.splits)

lemma regexp_s_flag:
  assumes "prereg L" "input L = ch CHR ''/'' # s @ ch CHR ''/'' # ch CHR ''s'' # r"
    and "list_all plain_regexp s" "stops_flags r" "re s [] = None"
  shows "fst (scanRegExp re st L) =
      Some (RRegExp (js ''/'' @ s @ js ''/s'') (contains_char (ch CHR ''s'') s))"
    and "events (snd (scanRegExp re st L)) = events L @
      (if contains_char (ch CHR ''s'') s then [error_at ''E016'' [js ''Duplicate RegExp flag''] L]
       else if regexpDot s then [] else [warn_at ''W148'' [] L])"
proof -
  have flag: "is_flag (ch CHR ''s'')" by (simp add: is_flag_def js_def)
  show "fst (scanRegExp re st L) =
      Some (RRegExp (js ''/'' @ s @ js ''/s'') (contains_char (ch CHR ''s'') s))"
    unfolding scanRegExp_plain [OF assms(1-3)]
    using flag flag_loop_stop [OF assms(4)] assms(5)
    by (auto simp: flag_step_def finish_regexp_def regexp_start_def js_def Let_def split: prod.splits)
  show "events (snd (scanRegExp re st L)) = events L @
      (if contains_char (ch CHR ''s'') s then [error_at ''E016'' [js ''Duplicate RegExp flag''] L]
       else if regexpDot s then [] else [warn_at ''W148'' [] L])"
    unfolding scanRegExp_plain [OF assms(1-3)]
    using flag flag_loop_stop [OF assms(4)] assms(5)
    by (auto simp: flag_step_def finish_regexp_def regexp_start_def resolve_uflag_def js_def Let_def split: prod.splits)
qed

section \<open>The interface\<close>

interpretation regexp: looking_scanner "scanRegExp re st" for re st
proof
  show "lines L' = lines L \<and> line L' = line L \<and> input L' = input L \<and> exhausted L' = exhausted L"
    if "scanRegExp re st L = (x, L')" for L x L'
    using stays_frame [OF scanRegExp_stays [OF that]] by simp
  show "0 < token_length t \<and> token_length t \<le> length (input L)"
    if "scanRegExp re st L = (Some t, L')" for L t L'
    using that by (elim scanRegExp_value) simp
qed

end
