(* ===== verification/LexIdent.thy ===== *)
theory LexIdent
  imports LexPunct UnicodeTables
begin

text \<open>
  The scanner \<open>scanIdentifier\<close> of \<^verbatim>\<open>lex.js\<close>. It reads the input by an index and does not move
  the character pointer. The index may pass the end of the input when an escape sequence is
  cut off there; the text it returns is nevertheless what stands in the input.
\<close>

section \<open>The parts of the scanner\<close>

text \<open>
  The inner functions return the piece of the identifier they read and the new index, or
  \<open>None\<close> for \<open>null\<close>. \<open>\u\<close> must be followed by hexadecimal digits only; at the end of the
  input fewer than four are accepted.
\<close>

definition readUnicodeEscapeSequence :: "jstr \<Rightarrow> nat \<Rightarrow> (jstr \<times> nat) option" where
  "readUnicodeEscapeSequence inp index0 =
     (let index = index0 + 1 in
      if char_at inp index \<noteq> Some (ch CHR ''u'') then None
      else
        (let sequence = opt_str (char_at inp (index + 1)) @ opt_str (char_at inp (index + 2)) @
               opt_str (char_at inp (index + 3)) @ opt_str (char_at inp (index + 4))
         in if isHex sequence then
              (let code = hex_nat sequence in
               if asciiIdentifierPartTable code \<or> isNonAsciiIdentifierPart code
               then Some ([92, ch CHR ''u''] @ sequence, index + 5) else None)
            else None))"

definition getIdentifierStart :: "jstr \<Rightarrow> nat \<Rightarrow> (jstr \<times> nat) option" where
  "getIdentifierStart inp index =
     (case char_at inp index of
        None \<Rightarrow> None
      | Some code \<Rightarrow>
          if code = 92 then readUnicodeEscapeSequence inp index
          else if code < 128 then
            (if asciiIdentifierStartTable code then Some ([code], index + 1) else None)
          else if isNonAsciiIdentifierStart code then Some ([code], index + 1)
          else None)"

definition getIdentifierPart :: "jstr \<Rightarrow> nat \<Rightarrow> (jstr \<times> nat) option" where
  "getIdentifierPart inp index =
     (case char_at inp index of
        None \<Rightarrow> None
      | Some code \<Rightarrow>
          if code = 92 then readUnicodeEscapeSequence inp index
          else if code < 128 then
            (if asciiIdentifierPartTable code then Some ([code], index + 1) else None)
          else if isNonAsciiIdentifierPart code then Some ([code], index + 1)
          else None)"

lemma getIdentifierPart_moves:
  "getIdentifierPart inp index = Some (s, index') \<Longrightarrow> index < length inp \<and> index < index'"
  by (auto simp: getIdentifierPart_def readUnicodeEscapeSequence_def Let_def
      split: option.splits if_splits dest: char_at_Some_less)

function ident_loop :: "jstr \<Rightarrow> nat \<Rightarrow> jstr \<Rightarrow> jstr" where
  "ident_loop inp index idn =
     (case getIdentifierPart inp index of
        None \<Rightarrow> idn
      | Some (s, index') \<Rightarrow> ident_loop inp index' (idn @ s))"
  by pat_completeness auto
termination
  by (relation "measure (\<lambda>(inp, index, idn). length inp - index)")
    (auto dest!: getIdentifierPart_moves)

declare ident_loop.simps [simp del]

text \<open>\<open>id.replace(/\\u([0-9a-fA-F]{4})/g, \<dots>)\<close>.\<close>

fun removeEscapeSequences :: "jstr \<Rightarrow> jstr" where
  "removeEscapeSequences [] = []"
| "removeEscapeSequences (c # cs) =
     (if c = 92 \<and> starts_with (js ''u'') cs \<and> 5 \<le> length cs \<and> isHex (substr cs 1 4)
      then fromCharCode (Some (int (hex_nat (substr cs 1 4)))) # removeEscapeSequences (drop 5 cs)
      else c # removeEscapeSequences cs)"

definition scanIdentifier :: "lstate \<Rightarrow> lexer \<Rightarrow> raw_token option \<times> lexer" where
  "scanIdentifier st L =
     (case getIdentifierStart (input L) 0 of
        None \<Rightarrow> (None, L)
      | Some (s, index) \<Rightarrow>
          (let idn = ident_loop (input L) index s;
               value = removeEscapeSequences idn;
               L' = (if \<not> inES6 st True \<and> \<not> es5IdentifierNames value
                     then triggerAsync (warn_at ''W119'' [js ''unicode 8'', js ''6''] L)
                            (CStatic True) L
                     else L)
           in (Some (RIdentifier value idn), L')))"

section \<open>The text is what the input holds\<close>

definition read_to :: "jstr \<Rightarrow> nat \<Rightarrow> jstr \<Rightarrow> bool" where
  "read_to inp index s \<longleftrightarrow> s = take index inp \<and> (index \<le> length inp \<or> s = inp)"

lemma escape_text:
  assumes "char_at inp i = Some 92" "char_at inp (i + 1) = Some (ch CHR ''u'')"
    and "i \<le> length inp"
  shows "take i inp @ [92, ch CHR ''u''] @ opt_str (char_at inp (i + 2)) @ opt_str (char_at inp (i + 3)) @
           opt_str (char_at inp (i + 4)) @ opt_str (char_at inp (i + 5)) = take (i + 6) inp"
proof -
  define r where "r = drop i inp"
  have at: "char_at inp (i + k) = char_at r k" for k
    by (simp add: r_def)
  from assms(1,2) at [of 0] at [of 1] obtain r' where r': "r = 92 # ch CHR ''u'' # r'"
    by (cases r; cases "tl r") auto
  have four: "opt_str (char_at r' 0) @ opt_str (char_at r' 1) @ opt_str (char_at r' 2) @
      opt_str (char_at r' 3) = take 4 r'"
  proof -
    consider "r' = []" | a where "r' = [a]" | a b where "r' = [a, b]" | a b c where "r' = [a, b, c]"
      | a b c d q where "r' = a # b # c # d # q"
      by (metis neq_Nil_conv)
    then show ?thesis
      by cases (auto simp: char_at_def numeral_eq_Suc)
  qed
  have take6: "take (i + 6) inp = take i inp @ take 6 r"
    by (simp add: r_def take_add)
  show ?thesis
    using four take6 at [of 2] at [of 3] at [of 4] at [of 5] by (simp add: r')
qed

lemma read_to_step:
  assumes "read_to inp index s" "getIdentifierPart inp index = Some (p, index')"
  shows "read_to inp index' (s @ p)"
proof -
  have i: "index < length inp" using getIdentifierPart_moves [OF assms(2)] by simp
  then have s: "s = take index inp" using assms(1) by (auto simp: read_to_def)
  obtain c where c: "char_at inp index = Some c"
    using i by (auto simp: char_at_def)
  show ?thesis
  proof (cases "c = 92")
    case True
    with assms(2) c have esc: "char_at inp (index + 1) = Some (ch CHR ''u'')"
      and p: "p = [92, ch CHR ''u''] @ opt_str (char_at inp (index + 2)) @ opt_str (char_at inp (index + 3)) @
           opt_str (char_at inp (index + 4)) @ opt_str (char_at inp (index + 5))"
      and index': "index' = index + 6"
      by (auto simp: getIdentifierPart_def readUnicodeEscapeSequence_def Let_def numeral_eq_Suc
          split: if_splits)
    have "s @ p = take (index + 6) inp"
      unfolding s p using escape_text [of inp index] c esc i True by simp
    then show ?thesis by (auto simp: read_to_def index')
  next
    case False
    with assms(2) c have "p = [c]" "index' = index + 1"
      by (auto simp: getIdentifierPart_def split: if_splits)
    with c i s show ?thesis
      by (auto simp: read_to_def char_at_def take_Suc_conv_app_nth)
  qed
qed

lemma ident_loop_prefix:
  "read_to inp index idn \<Longrightarrow> starts_with (ident_loop inp index idn) inp \<and> length idn \<le> length (ident_loop inp index idn)"
proof (induction inp index idn rule: ident_loop.induct)
  case (1 inp index idn)
  show ?case
  proof (cases "getIdentifierPart inp index")
    case None
    with 1 show ?thesis
      by (subst (1 2) ident_loop.simps) (auto simp: read_to_def starts_with_def)
  next
    case (Some q)
    obtain p index' where q: "q = (p, index')" by (cases q)
    with Some have step: "read_to inp index' (idn @ p)"
      using read_to_step [OF "1.prems"] by simp
    from "1.IH" [OF Some q [symmetric] step] Some q show ?thesis
      by (subst (1 2) ident_loop.simps) auto
  qed
qed

lemma start_is_part_read:
  assumes "getIdentifierStart inp 0 = Some (s, index)"
  shows "read_to inp index s" "s \<noteq> []"
proof -
  have part: "getIdentifierPart inp 0 = Some (s, index)"
    using assms
    by (auto simp: getIdentifierStart_def getIdentifierPart_def asciiIdentifierPartTable_def
        isNonAsciiIdentifierPart_def split: option.splits if_splits)
  have "read_to inp 0 []" by (simp add: read_to_def)
  from read_to_step [OF this part] show "read_to inp index s" by simp
  show "s \<noteq> []"
    using part by (auto simp: getIdentifierPart_def readUnicodeEscapeSequence_def Let_def
        split: option.splits if_splits)
qed

lemma scanIdentifier_text:
  assumes "scanIdentifier st L = (Some t, L')"
  obtains v idn where "t = RIdentifier v idn" "idn \<noteq> []" "starts_with idn (input L)"
    "v = removeEscapeSequences idn"
proof -
  from assms obtain s index where s: "getIdentifierStart (input L) 0 = Some (s, index)"
    and t: "t = RIdentifier (removeEscapeSequences (ident_loop (input L) index s))
              (ident_loop (input L) index s)"
    by (auto simp: scanIdentifier_def Let_def split: option.splits)
  from ident_loop_prefix [OF start_is_part_read(1) [OF s]] start_is_part_read(2) [OF s]
  show ?thesis by (intro that [OF t]) auto
qed

lemma scanIdentifier_adds: "scanIdentifier st L = (r, L') \<Longrightarrow> adds_checks L L'"
  by (auto simp: scanIdentifier_def Let_def split: option.splits if_splits)

lemmas scanIdentifier_frame = adds_checks_frame [OF scanIdentifier_adds]

section \<open>Plain words\<close>

text \<open>
  On a word of ASCII letters, digits, \<open>_\<close> and \<open>$\<close> the scanner reads the whole word, as the
  regular expression of \<open>scanKeyword\<close> does, and does not warn.
\<close>

lemma word_start_table: "is_word_start c \<longleftrightarrow> asciiIdentifierStartTable c"
  by (auto simp: is_word_start_def asciiIdentifierStartTable_def)

lemma word_part_table: "is_word_part c \<longleftrightarrow> asciiIdentifierPartTable c"
  by (auto simp: is_word_part_def word_start_table asciiIdentifierPartTable_def
      is_dec_digit_def asciiIdentifierStartTable_def)

lemma word_part_ascii: "is_word_part c \<Longrightarrow> c < 128 \<and> c \<noteq> 92"
  by (auto simp: word_part_table asciiIdentifierPartTable_def asciiIdentifierStartTable_def)

definition stops_word :: "jstr \<Rightarrow> bool" where
  "stops_word r \<longleftrightarrow>
     (case r of [] \<Rightarrow> True | c # _ \<Rightarrow> c \<noteq> 92 \<and> c < 128 \<and> \<not> is_word_part c)"

lemma part_at_word:
  "is_word_part c \<Longrightarrow> getIdentifierPart (pre @ c # r) (length pre) = Some ([c], length pre + 1)"
  using word_part_ascii [of c]
  by (simp add: getIdentifierPart_def char_at_def word_part_table)

lemma part_at_stop:
  "stops_word r \<Longrightarrow> getIdentifierPart (pre @ r) (length pre) = None"
  by (auto simp: getIdentifierPart_def char_at_def stops_word_def word_part_table split: list.splits)

lemma ident_loop_word:
  "list_all is_word_part w \<Longrightarrow> stops_word r \<Longrightarrow>
     ident_loop (pre @ w @ r) (length pre) idn = idn @ w"
proof (induction w arbitrary: pre idn)
  case Nil
  then show ?case by (simp add: ident_loop.simps part_at_stop)
next
  case (Cons c w)
  have "ident_loop (pre @ (c # w) @ r) (length pre) idn =
      ident_loop ((pre @ [c]) @ w @ r) (length (pre @ [c])) (idn @ [c])"
    using Cons.prems(1) part_at_word [of c pre "w @ r"] by (subst ident_loop.simps) simp
  also have "\<dots> = (idn @ [c]) @ w"
    using Cons by (intro Cons.IH) auto
  finally show ?case by simp
qed

lemma removeEscapeSequences_id: "92 \<notin> set s \<Longrightarrow> removeEscapeSequences s = s"
  by (induction s) auto

lemma scan_word:
  assumes "is_word_start c" "list_all is_word_part w" "stops_word r" "input L = (c # w) @ r"
  shows "scanIdentifier st L = (Some (RIdentifier (c # w) (c # w)), L)"
proof -
  have c: "asciiIdentifierStartTable c" "c < 128" "c \<noteq> 92"
    using assms(1) by (auto simp: word_start_table asciiIdentifierStartTable_def)
  have start: "getIdentifierStart (input L) 0 = Some ([c], 1)"
    using c by (simp add: getIdentifierStart_def assms(4))
  have loop: "ident_loop (input L) 1 [c] = c # w"
    using ident_loop_word [OF assms(2,3), of "[c]" "[c]"] by (simp add: assms(4))
  have no_esc: "92 \<notin> set (c # w)"
    using assms(2) c word_part_ascii by (auto simp: list_all_iff)
  have es5: "es5IdentifierNames (c # w)"
    using es5_ascii_start [OF c(1)] assms(2) es5_ascii_part
    by (auto simp: es5IdentifierNames_def list_all_iff word_part_table)
  show ?thesis
    unfolding scanIdentifier_def start
    by (simp only: option.case prod.case Let_def loop removeEscapeSequences_id [OF no_esc] es5
        simp_thms if_False)
qed

lemma scanKeyword_word:
  assumes "is_word_start c" "list_all is_word_part w" "stops_word r" "input L = (c # w) @ r"
  shows "scanKeyword L = (if is_keyword (c # w) then Some (c # w) else None)"
proof -
  have "takeWhile is_word_part (w @ r) = w"
    using assms(2,3) by (induction w) (auto simp: stops_word_def split: list.splits)
  with assms(1,4) show ?thesis by (simp add: scanKeyword_def word_match_def)
qed

section \<open>The interface\<close>

interpretation ident: looking_scanner "scanIdentifier st" for st
proof
  show "lines L' = lines L \<and> line L' = line L \<and> input L' = input L \<and> exhausted L' = exhausted L"
    if "scanIdentifier st L = (x, L')" for L x L'
    using scanIdentifier_frame [OF that] by simp
  show "0 < token_length t \<and> token_length t \<le> length (input L)"
    if "scanIdentifier st L = (Some t, L')" for L t L'
    using that by (elim scanIdentifier_text) (simp add: starts_with_length)
qed

end
