(* ===== verification/SyntaxTable.thy ===== *)
theory SyntaxTable
  imports JsObject
begin

text \<open>
  The symbol table \<open>state.syntax\<close> that \<^verbatim>\<open>jshint.js\<close> builds before it parses: one function per
  declaring function of the source (\<open>symbol\<close>, \<open>delim\<close>, \<open>stmt\<close>, \<open>prefix\<close>, \<open>infix\<close>, \dots), each a
  transformer of the table, and the declarations in the order the source makes them. The
  denotation functions (\<open>nud\<close>, \<open>led\<close>, \<open>fud\<close>) are the parser's code; the table records only that
  a symbol has one. The lexer creates every token from an entry of this table.
\<close>

section \<open>Symbols\<close>

record meta =
  m_es5 :: bool
  m_isFutureReservedWord :: bool
  m_strictOnly :: bool

record symbol =
  s_id :: "string option"
  s_lbp :: "int option"
  s_rbp :: "int option"
  s_value :: "string option"
  s_type :: "string option"
  s_reach :: bool
  s_delim :: bool
  s_identifier :: bool
  s_reserved :: bool
  s_block :: bool
  s_infix :: bool
  s_exps :: bool
  s_assign :: bool
  s_labelled :: bool
  s_declaration :: bool
  s_template :: bool
  s_tail :: bool
  s_noSubst :: bool
  s_nud :: bool
  s_led :: bool
  s_fud :: bool
  s_meta :: "meta option"

type_synonym symtab = "(string, symbol) obj"

definition empty_symbol :: symbol where
  "empty_symbol =
     \<lparr>s_id = None, s_lbp = None, s_rbp = None, s_value = None, s_type = None,
      s_reach = False, s_delim = False, s_identifier = False, s_reserved = False,
      s_block = False, s_infix = False, s_exps = False, s_assign = False, s_labelled = False,
      s_declaration = False, s_template = False, s_tail = False, s_noSubst = False,
      s_nud = False, s_led = False, s_fud = False, s_meta = None\<rparr>"

section \<open>The declaring functions\<close>

text \<open>
  A declaring function looks its symbol up in the table (\<open>symbol\<close> makes it when it is not
  there) and assigns fields of that one entry. It is modelled as the symbol's name and the
  function from the entry, if there is one, to the entry it leaves.
\<close>

type_synonym decl = "string \<times> (symbol option \<Rightarrow> symbol)"

definition symbol :: "string \<Rightarrow> int option \<Rightarrow> symbol option \<Rightarrow> symbol" where
  "symbol s p x =
     (case x of
        None \<Rightarrow> empty_symbol\<lparr>s_id := Some s, s_lbp := p, s_rbp := p, s_value := Some s\<rparr>
      | Some y \<Rightarrow> y)"

definition delim :: "string \<Rightarrow> decl" where
  "delim s = (s, \<lambda>x. (symbol s (Some 0) x)\<lparr>s_delim := True\<rparr>)"

definition stmt :: "string \<Rightarrow> decl" where
  "stmt s = (s, \<lambda>x. (snd (delim s) x)\<lparr>s_reserved := True, s_identifier := True, s_fud := True\<rparr>)"

definition blockstmt :: "string \<Rightarrow> decl" where
  "blockstmt s = (s, \<lambda>x. (snd (stmt s) x)\<lparr>s_block := True\<rparr>)"

text \<open>\<open>reserveName\<close> reads the symbol's own \<open>id\<close>, which a symbol made by \<open>symbol\<close> always has.\<close>

definition reserveName :: "symbol \<Rightarrow> symbol" where
  "reserveName x =
     (case s_id x of
        Some (c # _) \<Rightarrow>
          if (ch CHR ''a'' \<le> ch c \<and> ch c \<le> ch CHR ''z'') \<or>
             (ch CHR ''A'' \<le> ch c \<and> ch c \<le> ch CHR ''Z'')
          then x\<lparr>s_reserved := True, s_identifier := True\<rparr> else x
      | _ \<Rightarrow> x)"

definition prefix_sym :: "string \<Rightarrow> decl" where
  "prefix_sym s = (s, \<lambda>x. (reserveName (symbol s (Some 150) x))\<lparr>s_nud := True\<rparr>)"

definition type_sym :: "string \<Rightarrow> bool \<Rightarrow> decl" where
  "type_sym s f = (s, \<lambda>x. (symbol s (Some 0) x)\<lparr>s_type := Some s, s_nud := f\<rparr>)"

definition reserve :: "string \<Rightarrow> bool \<Rightarrow> decl" where
  "reserve s f = (s, \<lambda>x. (snd (type_sym s f) x)\<lparr>s_identifier := True, s_reserved := True\<rparr>)"

definition FutureReservedWord :: "string \<Rightarrow> bool \<Rightarrow> bool \<Rightarrow> decl" where
  "FutureReservedWord s es5 strictOnly =
     (s, \<lambda>x. (snd (type_sym s True) x)
        \<lparr>s_value := Some s, s_identifier := True, s_reserved := True,
         s_meta := Some \<lparr>m_es5 = es5, m_isFutureReservedWord = True, m_strictOnly = strictOnly\<rparr>\<rparr>)"

definition infix_sym :: "string \<Rightarrow> int option \<Rightarrow> decl" where
  "infix_sym s p = (s, \<lambda>x. (reserveName (symbol s p x))\<lparr>s_infix := True, s_led := True\<rparr>)"

definition application :: "string \<Rightarrow> decl" where
  "application s = (s, \<lambda>x. (symbol s (Some 42) x)\<lparr>s_infix := True, s_led := True\<rparr>)"

definition relation :: "string \<Rightarrow> decl" where
  "relation s = (s, \<lambda>x. (symbol s (Some 100) x)\<lparr>s_infix := True, s_led := True\<rparr>)"

definition assignop :: "string \<Rightarrow> decl" where
  "assignop s = (s, \<lambda>x. (snd (infix_sym s (Some 20)) x)\<lparr>s_exps := True, s_assign := True\<rparr>)"

definition bitwise :: "string \<Rightarrow> int \<Rightarrow> decl" where
  "bitwise s p = (s, \<lambda>x. (reserveName (symbol s (Some p) x))\<lparr>s_infix := True, s_led := True\<rparr>)"

definition bitwiseassignop :: "string \<Rightarrow> decl" where
  "bitwiseassignop s =
     (s, \<lambda>x. snd (infix_sym s (Some 20)) (Some ((symbol s (Some 20) x)\<lparr>s_exps := True\<rparr>)))"

definition suffix_sym :: "string \<Rightarrow> decl" where
  "suffix_sym s = (s, \<lambda>x. (symbol s (Some 150) x)\<lparr>s_led := True\<rparr>)"

text \<open>An assignment to fields of a declared symbol, and a table entry written directly.\<close>

definition refine :: "string \<Rightarrow> (symbol \<Rightarrow> symbol) \<Rightarrow> decl" where
  "refine s f = (s, \<lambda>x. f (case x of None \<Rightarrow> empty_symbol | Some y \<Rightarrow> y))"

definition reach :: "symbol \<Rightarrow> symbol" where
  "reach x = x\<lparr>s_reach := True\<rparr>"

definition exps :: "symbol \<Rightarrow> symbol" where
  "exps x = x\<lparr>s_exps := True\<rparr>"

definition entry :: "string \<Rightarrow> symbol \<Rightarrow> decl" where
  "entry s x = (s, \<lambda>_. x)"

section \<open>The declarations\<close>

definition literal_decls :: "decl list" where
  "literal_decls =
     [type_sym ''(number)'' True, type_sym ''(string)'' True,
      entry ''(identifier)'' (empty_symbol\<lparr>s_type := Some ''(identifier)'', s_lbp := Some 0,
        s_identifier := True, s_nud := True, s_led := True\<rparr>)]"

definition template_decls :: "decl list" where
  "template_decls =
     [entry ''(template)'' (empty_symbol\<lparr>s_lbp := Some 155, s_type := Some ''(template)'',
        s_nud := True, s_led := True, s_template := True\<rparr>),
      entry ''(template middle)'' (empty_symbol\<lparr>s_lbp := Some 0,
        s_type := Some ''(template middle)'', s_template := True\<rparr>),
      entry ''(template tail)'' (empty_symbol\<lparr>s_lbp := Some 0, s_type := Some ''(template tail)'',
        s_tail := True, s_template := True\<rparr>),
      entry ''(no subst template)'' (empty_symbol\<lparr>s_lbp := Some 155, s_type := Some ''(template)'',
        s_nud := True, s_led := True, s_noSubst := True, s_tail := True, s_template := True\<rparr>)]"

definition delim_decls :: "decl list" where
  "delim_decls =
     [type_sym ''(regexp)'' True,
      delim ''(endline)'', delim ''(begin)'',
      delim ''(end)'', refine ''(end)'' reach,
      delim ''(error)'', refine ''(error)'' reach,
      delim ''}'', refine ''}'' reach,
      delim '')'', delim '']'',
      delim [CHR 0x22], refine [CHR 0x22] reach,
      delim [CHR 0x27], refine [CHR 0x27] reach,
      delim '';'',
      delim '':'', refine '':'' reach,
      delim ''#'']"

definition reserve_decls :: "decl list" where
  "reserve_decls =
     [reserve ''else'' False, reserve ''case'' False, refine ''case'' reach,
      reserve ''catch'' False, reserve ''default'' False, refine ''default'' reach,
      reserve ''finally'' False, reserve ''true'' True, reserve ''false'' True,
      reserve ''null'' True, reserve ''this'' True,
      reserve ''super'' True, refine ''super'' (\<lambda>x. x\<lparr>s_rbp := Some 161\<rparr>)]"

definition assign_decls :: "decl list" where
  "assign_decls =
     [assignop ''='', assignop ''+='', assignop ''-='', assignop ''*='',
      assignop ''/='', refine ''/='' (\<lambda>x. x\<lparr>s_nud := True\<rparr>),
      assignop ''%='', assignop ''**='',
      bitwiseassignop ''&='', bitwiseassignop ''|='', bitwiseassignop ''^='',
      bitwiseassignop ''<<='', bitwiseassignop ''>>='', bitwiseassignop ''>>>='']"

definition logic_decls :: "decl list" where
  "logic_decls =
     [infix_sym '','' (Some 10), infix_sym ''?'' (Some 30), infix_sym ''||'' (Some 40),
      infix_sym ''&&'' (Some 50), infix_sym ''??'' (Some 39),
      infix_sym ''**'' (Some 150), refine ''**'' (\<lambda>x. x\<lparr>s_rbp := Some 140\<rparr>),
      bitwise ''|'' 70, bitwise ''^'' 80, bitwise ''&'' 90]"

definition relation_decls :: "decl list" where
  "relation_decls =
     [relation ''=='', relation ''==='', relation ''!='', relation ''!=='',
      relation ''<'', relation ''>'', relation ''<='', relation ''>='',
      bitwise ''<<'' 120, bitwise ''>>'' 120, bitwise ''>>>'' 120,
      infix_sym ''in'' (Some 120), infix_sym ''instanceof'' (Some 120)]"

definition arith_decls :: "decl list" where
  "arith_decls =
     [infix_sym ''+'' (Some 130), prefix_sym ''+'', infix_sym ''-'' (Some 130), prefix_sym ''-'',
      infix_sym ''*'' (Some 140), infix_sym ''/'' (Some 140), infix_sym ''%'' (Some 140),
      suffix_sym ''++'', prefix_sym ''++'', refine ''++'' exps,
      suffix_sym ''--'', prefix_sym ''--'', refine ''--'' exps]"

definition unary_decls :: "decl list" where
  "unary_decls =
     [prefix_sym ''delete'', refine ''delete'' exps, prefix_sym ''~'', infix_sym ''...'' None,
      prefix_sym ''!'', prefix_sym ''typeof'', prefix_sym ''new'', refine ''new'' exps,
      blockstmt ''class'', refine ''class'' (\<lambda>x. x\<lparr>s_exps := True, s_declaration := True\<rparr>),
      prefix_sym ''class'',
      prefix_sym ''void'', refine ''void'' exps,
      infix_sym ''.'' (Some 160), infix_sym ''?.'' (Some 160),
      infix_sym ''('' (Some 155), refine ''('' exps, prefix_sym ''('',
      application ''=>'', refine ''=>'' (\<lambda>x. x\<lparr>s_rbp := Some 161\<rparr>),
      infix_sym ''['' (Some 160), prefix_sym ''['',
      delim ''{'', refine ''{'' (\<lambda>x. x\<lparr>s_nud := True, s_fud := True\<rparr>)]"

definition statement_decls :: "decl list" where
  "statement_decls =
     [stmt ''const'', refine ''const'' (\<lambda>x. x\<lparr>s_exps := True, s_declaration := True\<rparr>),
      stmt ''let'', refine ''let'' (\<lambda>x. x\<lparr>s_nud := True, s_exps := True, s_declaration := True,
        s_meta := Some \<lparr>m_es5 = True, m_isFutureReservedWord = False, m_strictOnly = True\<rparr>\<rparr>),
      stmt ''var'', refine ''var'' exps,
      blockstmt ''function'', refine ''function'' (\<lambda>x. x\<lparr>s_declaration := True\<rparr>),
      prefix_sym ''function'', blockstmt ''if'', blockstmt ''try'',
      blockstmt ''while'', refine ''while'' (\<lambda>x. x\<lparr>s_labelled := True\<rparr>),
      blockstmt ''with'',
      blockstmt ''switch'', refine ''switch'' (\<lambda>x. x\<lparr>s_labelled := True\<rparr>),
      stmt ''debugger'', refine ''debugger'' exps,
      stmt ''do'', refine ''do'' (\<lambda>x. x\<lparr>s_labelled := True, s_exps := True\<rparr>),
      blockstmt ''for'', refine ''for'' (\<lambda>x. x\<lparr>s_labelled := True\<rparr>),
      stmt ''break'', refine ''break'' exps, stmt ''continue'', refine ''continue'' exps,
      stmt ''return'', refine ''return'' exps,
      prefix_sym ''await'', refine ''await'' exps]"

definition module_decls :: "decl list" where
  "module_decls =
     [prefix_sym ''async'', refine ''async'' (\<lambda>x. x\<lparr>s_fud := True, s_exps := True, s_reserved := False,
        s_meta := Some \<lparr>m_es5 = True, m_isFutureReservedWord = True, m_strictOnly = True\<rparr>\<rparr>),
      prefix_sym ''yield'', refine ''yield'' (\<lambda>x. x\<lparr>s_rbp := Some 25, s_lbp := Some 25, s_exps := True\<rparr>),
      stmt ''throw'', refine ''throw'' exps,
      prefix_sym ''import'',
      stmt ''import'', refine ''import'' (\<lambda>x. x\<lparr>s_exps := True, s_reserved := True, s_rbp := Some 161,
        s_meta := Some \<lparr>m_es5 = True, m_isFutureReservedWord = True, m_strictOnly = False\<rparr>\<rparr>),
      stmt ''export'', refine ''export'' exps]"

definition future_decls :: "decl list" where
  "future_decls =
     [FutureReservedWord ''abstract'' False False, FutureReservedWord ''boolean'' False False,
      FutureReservedWord ''byte'' False False, FutureReservedWord ''char'' False False,
      FutureReservedWord ''double'' False False, FutureReservedWord ''enum'' True False,
      FutureReservedWord ''export'' True False, FutureReservedWord ''extends'' True False,
      FutureReservedWord ''final'' False False, FutureReservedWord ''float'' False False,
      FutureReservedWord ''goto'' False False, FutureReservedWord ''implements'' True True,
      FutureReservedWord ''int'' False False, FutureReservedWord ''interface'' True True,
      FutureReservedWord ''long'' False False, FutureReservedWord ''native'' False False,
      FutureReservedWord ''package'' True True, FutureReservedWord ''private'' True True,
      FutureReservedWord ''protected'' True True, FutureReservedWord ''public'' True True,
      FutureReservedWord ''short'' False False, FutureReservedWord ''static'' True True,
      FutureReservedWord ''synchronized'' False False, FutureReservedWord ''transient'' False False,
      FutureReservedWord ''volatile'' False False]"

definition all_decls :: "decl list" where
  "all_decls = literal_decls @ template_decls @ delim_decls @ reserve_decls @ assign_decls @
     logic_decls @ relation_decls @ arith_decls @ unary_decls @ statement_decls @ module_decls @
     future_decls"

definition declare_sym :: "symtab \<Rightarrow> decl \<Rightarrow> symtab" where
  "declare_sym T d = obj_put T (fst d) (snd d (obj_get T (fst d)))"

definition syntax_table :: symtab where
  "syntax_table = foldl declare_sym [] all_decls"

section \<open>Looking symbols up\<close>

text \<open>
  What a lookup of \<open>s\<close> finds is decided by the declarations of \<open>s\<close> alone; \<open>decls_for\<close> runs
  those, so that a lookup evaluates without the whole table.
\<close>

fun decls_for :: "string \<Rightarrow> decl list \<Rightarrow> symbol option \<Rightarrow> symbol option" where
  "decls_for s [] x = x"
| "decls_for s ((t, f) # ds) x = decls_for s ds (if s = t then Some (f x) else x)"

lemma get_declared:
  "obj_get (foldl declare_sym T ds) s = decls_for s ds (obj_get T s)"
  by (induction ds arbitrary: T) (auto simp: declare_sym_def)

lemma syntax_lookup: "obj_get syntax_table s = decls_for s all_decls None"
  by (simp add: syntax_table_def get_declared)

lemmas group_defs =
  literal_decls_def template_decls_def delim_decls_def reserve_decls_def assign_decls_def
  logic_decls_def relation_decls_def arith_decls_def unary_decls_def statement_decls_def
  module_decls_def future_decls_def all_decls_def

lemmas declaring_defs =
  delim_def stmt_def blockstmt_def prefix_sym_def type_sym_def reserve_def FutureReservedWord_def
  infix_sym_def application_def relation_def assignop_def bitwise_def bitwiseassignop_def
  suffix_sym_def refine_def entry_def

lemmas field_defs = symbol_def reserveName_def reach_def exps_def empty_symbol_def

text \<open>The declarations as a list of names and functions, computed once.\<close>

lemmas all_decls_eval = group_defs declaring_defs

definition sym_names :: "string list" where
  "sym_names = remdups (map fst all_decls)"

lemma decls_for_not_None:
  "decls_for s ds x \<noteq> None \<longleftrightarrow> x \<noteq> None \<or> s \<in> fst ` set ds"
proof (induction ds arbitrary: x)
  case Nil
  then show ?case by simp
next
  case (Cons d ds)
  then show ?case by (cases d) auto
qed

lemma has_syntax_iff: "obj_has syntax_table s \<longleftrightarrow> s \<in> set sym_names"
  using decls_for_not_None [of s all_decls None]
  by (simp only: obj_has_def syntax_lookup sym_names_def set_remdups set_map simp_thms not_Some_eq)

end
