(* ===== verification/LexToken.thy ===== *)
theory LexToken
  imports LexComment LexNumber LexRegExp LexIdent SyntaxTable
begin

text \<open>
  The top of the lexer: \<open>next\<close>, which finds the next raw token, and \<open>token\<close>, which makes the
  parser's tokens of them, from \<^verbatim>\<open>lex.js\<close>; and the run of \<open>token\<close> over a whole source.
\<close>

section \<open>The next raw token\<close>

text \<open>
  The skipping of white space: \<open>from\<close> starts as \<open>char\<close>, and both move with every space.
\<close>

definition skip_space :: "lexer \<Rightarrow> lexer" where
  "skip_space L =
     (let n = length (takeWhile is_ws (input L)) in
      L\<lparr>lfrom := lchar L + n, lchar := lchar L + n, input := drop n (input L)\<rparr>)"

definition moving_scanners :: "lstate \<Rightarrow> scan_fun" where
  "moving_scanners st =
     orelse (orelse (scanComments st) (scanStringLiteral st)) (scanTemplateLiteral st)"

definition looking_scanners_fun :: "(jstr \<Rightarrow> jstr \<Rightarrow> jstr option) \<Rightarrow> lstate \<Rightarrow> scan_fun" where
  "looking_scanners_fun re st =
     orelse (orelse (orelse (orelse (scanRegExp re st) scan_punctuator) scan_keyword)
       (scanIdentifier st)) (scanNumericLiteral st)"

definition next_token :: "(jstr \<Rightarrow> jstr \<Rightarrow> jstr option) \<Rightarrow> lstate \<Rightarrow> scan_fun" where
  "next_token re st L =
     orelse (moving_scanners st) (then_skip (looking_scanners_fun re st)) (skip_space L)"

text \<open>The scanners in the order of \<open>next\<close> satisfy the interface.\<close>

interpretation comment_or_string: scanners st "scanComments st" "scanStringLiteral st" for st
  by unfold_locales

interpretation moving: scanners st "orelse (scanComments st) (scanStringLiteral st)" "scanTemplateLiteral st" for st
  by unfold_locales

interpretation re_punct: looking_scanners "scanRegExp re st" scan_punctuator for re st
  by unfold_locales

interpretation re_punct_kw: looking_scanners "orelse (scanRegExp re st) scan_punctuator" scan_keyword for re st
  by unfold_locales

interpretation upto_ident: looking_scanners
    "orelse (orelse (scanRegExp re st) scan_punctuator) scan_keyword" "scanIdentifier st" for re st
  by unfold_locales

interpretation looking: looking_scanners
    "orelse (orelse (orelse (scanRegExp re st) scan_punctuator) scan_keyword) (scanIdentifier st)"
    "scanNumericLiteral st" for re st
  by unfold_locales

interpretation all_scanners: scanners st "moving_scanners st" "then_skip (looking_scanners_fun re st)" for re st
  unfolding moving_scanners_def looking_scanners_fun_def
  by unfold_locales

lemma skip_space_fwd [simp]: "fwd st L (skip_space L)"
  by (auto simp: skip_space_def Let_def fwd_def)

lemma next_token_fwd: "next_token re st L = (x, L') \<Longrightarrow> fwd st L L'"
  unfolding next_token_def
  by (rule fwd_trans [OF skip_space_fwd all_scanners.either.keeps])

lemma next_token_moves: "next_token re st L = (Some t, L') \<Longrightarrow> (L', L) \<in> lex_left"
  unfolding next_token_def
  by (rule fwd_lex_left_trans(1) [OF skip_space_fwd all_scanners.either.moves])

section \<open>Tokens\<close>

text \<open>
  The object \<open>create\<close> returns: \<open>tk_proto\<close> is the name of the symbol it was created from,
  whose fields it inherits; \<open>tk_checks\<close> are the checks its \<open>check\<close> method runs.
\<close>

record token =
  tk_proto :: string
  tk_identifier :: bool
  tk_type :: string
  tk_value :: jstr
  tk_line :: nat
  tk_character :: nat
  tk_from :: nat
  tk_raw_text :: "jstr option"
  tk_startLine :: "nat option"
  tk_context :: "lex_context option"
  tk_depth :: "nat option"
  tk_isUnclosed :: bool
  tk_isProperty :: bool
  tk_checks :: "check list"

text \<open>What \<open>token\<close> returns: a token, a special comment or \<open>null\<close>.\<close>

datatype lex_item =
    LexToken token
  | LexComment jstr jstr jstr nat nat nat
    \<comment> \<open>value, body, type, line, character, from\<close>

text \<open>The entry of the symbol table with the name \<open>v\<close>, if there is one.\<close>

definition syntax_name :: "jstr \<Rightarrow> string option" where
  "syntax_name v = find (\<lambda>s. js s = v) sym_names"

definition symbol_type :: "string \<Rightarrow> string option" where
  "symbol_type s = (case obj_get syntax_table s of None \<Rightarrow> None | Some x \<Rightarrow> s_type x)"

definition closes_operand :: "jstr \<Rightarrow> bool" where
  "closes_operand v \<longleftrightarrow>
     list_ex (\<lambda>s. js s = v) [''.'', '')'', ''~'', ''#'', '']'', ''}'', ''++'', ''--'']"

definition expects_operand :: "jstr \<Rightarrow> bool" where
  "expects_operand v \<longleftrightarrow>
     list_ex (\<lambda>s. js s = v)
       [''return'', ''case'', ''yield'', ''typeof'', ''instanceof'', ''void'', ''await'', ''new'',
        ''delete'', ''default'', ''extends'']"

text \<open>How \<open>create\<close> sets \<open>prereg\<close>, which says whether a slash starts a regular expression.\<close>

definition next_prereg :: "string \<Rightarrow> jstr \<Rightarrow> bool \<Rightarrow> bool" where
  "next_prereg type v old =
     (let p0 = (if type \<noteq> ''(endline)'' \<and> type \<noteq> ''(end)'' then False else old);
          p1 = (if type = ''(punctuator)'' then \<not> closes_operand v else p0);
          p2 = (if type = ''(identifier)'' \<and> expects_operand v then True else p1)
      in if type = ''(template)'' \<or> type = ''(template middle)'' then True else p2)"

definition proto_name :: "string \<Rightarrow> jstr \<Rightarrow> string" where
  "proto_name type v =
     (if type = ''(punctuator)'' then
        (case syntax_name v of Some s \<Rightarrow> s | None \<Rightarrow> ''(error)'')
      else if type = ''(identifier)'' then
        (case syntax_name v of Some s \<Rightarrow> s | None \<Rightarrow> type)
      else type)"

text \<open>The fields \<open>create\<close> copies from the raw token, for those that have them.\<close>

fun raw_text :: "raw_token \<Rightarrow> jstr" where
  "raw_text (RIdentifier v t) = (if t = [] then v else t)"
| "raw_text (RKeyword v) = v"
| "raw_text _ = []"

fun raw_startLine :: "raw_token \<Rightarrow> nat option" where
  "raw_startLine (RString v sl sc u q) = Some sl"
| "raw_startLine (RTemplate k v sl sc u d c) = Some sl"
| "raw_startLine _ = None"

fun raw_unclosed :: "raw_token \<Rightarrow> bool" where
  "raw_unclosed (RString v sl sc u q) = u"
| "raw_unclosed (RTemplate k v sl sc u d c) = u"
| "raw_unclosed _ = False"

fun raw_depth :: "raw_token \<Rightarrow> nat option" where
  "raw_depth (RTemplate k v sl sc u d c) = (if d = 0 then None else Some d)"
| "raw_depth _ = None"

fun raw_context :: "raw_token \<Rightarrow> lex_context option" where
  "raw_context (RTemplate k v sl sc u d c) = c"
| "raw_context _ = None"

definition create :: "string \<Rightarrow> jstr \<Rightarrow> bool \<Rightarrow> raw_token option \<Rightarrow> lexer \<Rightarrow> token \<times> lexer" where
  "create type v isProperty raw L =
     (let p = proto_name type v; idn = (type = ''(identifier)'') in
      (\<lparr>tk_proto = p, tk_identifier = idn,
        tk_type = (case symbol_type p of Some t \<Rightarrow> t | None \<Rightarrow> type),
        tk_value = v, tk_line = line L, tk_character = lchar L, tk_from = lfrom L,
        tk_raw_text = (if idn then map_option raw_text raw else None),
        tk_startLine = (case raw of None \<Rightarrow> None | Some t \<Rightarrow>
           (case raw_startLine t of None \<Rightarrow> None | Some s \<Rightarrow>
              if s \<noteq> 0 \<and> s \<noteq> line L then Some s else None)),
        tk_context = (case raw of None \<Rightarrow> None | Some t \<Rightarrow> raw_context t),
        tk_depth = (case raw of None \<Rightarrow> None | Some t \<Rightarrow> raw_depth t),
        tk_isUnclosed = (case raw of None \<Rightarrow> False | Some t \<Rightarrow> raw_unclosed t),
        tk_isProperty = (isProperty \<and> idn),
        tk_checks = checks L\<rparr>,
       L\<lparr>prereg := next_prereg type v (prereg L)\<rparr>))"

section \<open>The token function\<close>

definition template_type :: "template_kind \<Rightarrow> string" where
  "template_type k =
     (case k of TemplateHead \<Rightarrow> ''(template)'' | TemplateMiddle \<Rightarrow> ''(template middle)''
      | TemplateTail \<Rightarrow> ''(template tail)'' | NoSubstTemplate \<Rightarrow> ''(no subst template)'')"

definition number_checks :: "jstr \<Rightarrow> nat option \<Rightarrow> bool \<Rightarrow> bool \<Rightarrow> lexer \<Rightarrow> lexer" where
  "number_checks v base isLegacy isNonOctal L =
     triggerAsync (error_at ''E068'' [] L) (CStrict isNonOctal)
       (triggerAsync (warn_at ''W115'' [] L) (CStrict (base = Some 8 \<and> isLegacy))
         (triggerAsync (warn_at ''W114'' [js ''0x-''] L) (CJson (base = Some 16)) L))"

text \<open>The \<open>switch\<close> of \<open>token\<close>; \<open>None\<close> where the source goes on with its loop.\<close>

definition make_token :: "lstate \<Rightarrow> raw_token \<Rightarrow> lexer \<Rightarrow> lex_item option \<times> lexer" where
  "make_token st t L =
     (let isProperty = (curr_id st = js ''.'');
          made = (\<lambda>(tok, L'). (Some (LexToken tok), L'))
      in case t of
        RString v startLine startChar u q \<Rightarrow>
          made (create ''(string)'' v False (Some t)
            (triggerAsync (EvString (line L) (lchar L) (lfrom L) startLine startChar v q)
               (CStatic True) L))
      | RTemplate k v startLine startChar u d c \<Rightarrow>
          made (create (template_type k) v False (Some t)
            (trigger (EvTemplate k (line L) (lchar L) (lfrom L) startLine startChar v) L))
      | RIdentifier v text \<Rightarrow>
          made (create ''(identifier)'' v isProperty (Some t)
            (triggerAsync (EvIdentifier (line L) (lchar L) (lfrom L) v text isProperty)
               (CStatic True) L))
      | RKeyword v \<Rightarrow> made (create ''(identifier)'' v isProperty (Some t) L)
      | RNumeric v base isLegacy isNonOctal isMalformed \<Rightarrow>
          (let L1 = (if isMalformed then trigger (error_at ''E067'' [v] L) L else L);
               L2 = number_checks v base isLegacy isNonOctal L1
           in made (create ''(number)'' v False None
                (trigger (EvNumber (line L) (lchar L) (lfrom L) v base isMalformed) L2)))
      | RRegExp v m \<Rightarrow> made (create ''(regexp)'' v False None L)
      | RComment commentType v body isSpecial isMalformed \<Rightarrow>
          (if isSpecial
           then (Some (LexComment v body commentType (line L) (lchar L) (lfrom L)), L)
           else (None, L))
      | RPunctuator v \<Rightarrow> made (create ''(punctuator)'' v False None L))"

text \<open>An unexpected character: it is reported, and the rest of its line is dropped.\<close>

definition unexpected :: "lexer \<Rightarrow> lexer" where
  "unexpected L =
     (if input L \<noteq> []
      then (trigger (error_at ''E024'' [opt_str (peek L 0)] L) L)\<lparr>input := []\<rparr> else L)"

lemma make_token_frame:
  assumes "make_token st t L = (x, L')"
  shows "lines L' = lines L" "line L' = line L" "input L' = input L" "exhausted L' = exhausted L"
  using assms
  by (auto simp: make_token_def create_def number_checks_def Let_def triggerAsync_def trigger_def
      split: raw_token.splits if_splits)

lemma unexpected_simps [simp]:
  "lines (unexpected L) = lines L" "line (unexpected L) = line L" "input (unexpected L) = []"
  by (simp_all add: unexpected_def)

function token_loop ::
  "(jstr \<Rightarrow> jstr \<Rightarrow> jstr option) \<Rightarrow> lstate \<Rightarrow> lexer \<Rightarrow> lex_item option \<times> lexer" where
  "token_loop re st L =
     (if input L = [] then
        (case nextLine st L of
           (True, L1) \<Rightarrow>
             (case create ''(endline)'' [] False None L1 of (tok, L2) \<Rightarrow> (Some (LexToken tok), L2))
         | (False, L1) \<Rightarrow>
             if exhausted L1 then (None, L1)
             else (case create ''(end)'' [] False None (L1\<lparr>exhausted := True\<rparr>) of
                     (tok, L2) \<Rightarrow> (Some (LexToken tok), L2)))
      else
        (case next_token re st L of
           (None, L1) \<Rightarrow> token_loop re st (unexpected L1)
         | (Some t, L1) \<Rightarrow>
             (case make_token st t L1 of
                (None, L2) \<Rightarrow> token_loop re st L2
              | (Some x, L2) \<Rightarrow> (Some x, L2))))"
  by pat_completeness auto
termination
proof (relation "inv_image lex_left (\<lambda>(re, st, L). L)", goal_cases)
  case 1
  then show ?case by simp
next
  case (2 re st L x L1)
  then have "fwd st L L1" using next_token_fwd by metis
  then show ?case using 2(1) by (auto simp: fwd_def lex_left_iff)
next
  case (3 re st L x L1 t y L2)
  then have "(L1, L) \<in> lex_left" by (metis next_token_moves)
  moreover have "lines L2 = lines L1" "line L2 = line L1" "input L2 = input L1"
    using make_token_frame [of st t L1 y L2] 3 by auto
  ultimately show ?case by (simp add: lex_left_iff)
qed

declare token_loop.simps [simp del]

text \<open>\<open>token\<close> starts with an empty queue of checks.\<close>

definition lex_token ::
  "(jstr \<Rightarrow> jstr \<Rightarrow> jstr option) \<Rightarrow> lstate \<Rightarrow> lexer \<Rightarrow> lex_item option \<times> lexer" where
  "lex_token re st L = token_loop re st (L\<lparr>checks := []\<rparr>)"

section \<open>A whole source\<close>

lemma create_frame:
  assumes "create ty v p r L = (tok, L')"
  shows "lines L' = lines L" "line L' = line L" "input L' = input L" "exhausted L' = exhausted L"
    "tk_proto tok = proto_name ty v"
  using assms by (auto simp: create_def Let_def)

text \<open>The item that ends a source.\<close>

definition is_end :: "lex_item \<Rightarrow> bool" where
  "is_end x = (case x of LexToken tok \<Rightarrow> tk_proto tok = ''(end)'' | _ \<Rightarrow> False)"

text \<open>\<open>token\<close> moves on, or it gives the end of a source that has been read to its end.\<close>

definition advanced :: "lexer \<Rightarrow> lexer \<Rightarrow> bool" where
  "advanced L L' \<longleftrightarrow> (L', L) \<in> lex_left \<and> exhausted L' = exhausted L \<and> lines L' = lines L"

definition finished :: "lexer \<Rightarrow> lex_item \<Rightarrow> lexer \<Rightarrow> bool" where
  "finished L x L' \<longleftrightarrow> \<not> exhausted L \<and> exhausted L' \<and> is_end x \<and> input L' = [] \<and>
     lines L' = lines L \<and> length (lines L') \<le> line L' \<and>
     ((L', L) \<in> lex_left \<or> line L' = line L \<and> input L = [])"

lemma token_loop_moves:
  "token_loop re st L = (Some x, L') \<Longrightarrow> advanced L L' \<or> finished L x L'"
proof (induction re st L rule: token_loop.induct)
  case (1 re st L)
  show ?case
  proof (cases "input L = []")
    case True
    obtain b L1 where nl: "nextLine st L = (b, L1)" by (cases "nextLine st L")
    show ?thesis
    proof (cases b)
      case True
      with "1.prems" \<open>input L = []\<close> nl obtain tok where
        c: "create ''(endline)'' [] False None L1 = (tok, L')"
        by (subst (asm) token_loop.simps) (auto split: prod.splits)
      have "(L1, L) \<in> lex_left" "exhausted L1 = exhausted L" "lines L1 = lines L"
        using nl True nextLine_left nextLine_fields by auto
      with create_frame [OF c] show ?thesis by (simp add: advanced_def lex_left_iff)
    next
      case False
      with nl have L1: "L1 = L" "length (lines L) \<le> line L"
        using nextLine_False [of st L L1] by auto
      from "1.prems" \<open>input L = []\<close> nl False L1 obtain tok where ex: "\<not> exhausted L" and
        c: "create ''(end)'' [] False None (L\<lparr>exhausted := True\<rparr>) = (tok, L')" "x = LexToken tok"
        by (subst (asm) token_loop.simps) (auto split: prod.splits if_splits)
      have "tk_proto tok = ''(end)''"
        using create_frame(5) [OF c(1)] by (simp add: proto_name_def)
      with create_frame [OF c(1)] ex L1 True c(2) show ?thesis
        by (simp add: finished_def is_end_def)
    qed
  next
    case False
    obtain x0 L1 where n: "next_token re st L = (x0, L1)" by (cases "next_token re st L")
    have f: "fwd st L L1" using n by (rule next_token_fwd)
    have again: ?thesis if "advanced L2 L' \<or> finished L2 x L'" "advanced L L2" for L2
      using that by (auto simp: advanced_def finished_def lex_left_iff)
    show ?thesis
    proof (cases x0)
      case None
      with "1.prems" False n have "token_loop re st (unexpected L1) = (Some x, L')"
        by (subst (asm) token_loop.simps) simp
      from "1.IH"(1) [OF False n [symmetric] None this] show ?thesis
        by (rule again)
          (use f False in \<open>auto simp: advanced_def fwd_def lex_left_iff unexpected_def trigger_def\<close>)
    next
      case (Some t)
      obtain y L2 where mk: "make_token st t L1 = (y, L2)" by (cases "make_token st t L1")
      have L2: "advanced L L2"
        using next_token_moves [of re st L t L1] n Some f make_token_frame [OF mk]
        by (simp add: advanced_def fwd_def lex_left_iff)
      show ?thesis
      proof (cases y)
        case None
        with "1.prems" False n Some mk have "token_loop re st L2 = (Some x, L')"
          by (subst (asm) token_loop.simps) simp
        from "1.IH"(2) [OF False n [symmetric] Some mk [symmetric] None this] L2 show ?thesis
          by (rule again)
      next
        case (Some z)
        with "1.prems" False n \<open>x0 = Some t\<close> mk have "L' = L2"
          by (subst (asm) token_loop.simps) simp
        with L2 show ?thesis by simp
      qed
    qed
  qed
qed

lemma token_loop_None:
  "token_loop re st L = (None, L') \<Longrightarrow> exhausted L"
proof (induction re st L rule: token_loop.induct)
  case (1 re st L)
  show ?case
  proof (cases "input L = []")
    case True
    then show ?thesis
      using "1.prems" nextLine_False [of st L]
      by (subst (asm) token_loop.simps) (auto split: prod.splits bool.splits if_splits)
  next
    case False
    obtain x0 L1 where n: "next_token re st L = (x0, L1)" by (cases "next_token re st L")
    have f: "exhausted L1 = exhausted L" using next_token_fwd [OF n] by (simp add: fwd_def)
    show ?thesis
    proof (cases x0)
      case None
      with "1.prems" False n have "token_loop re st (unexpected L1) = (None, L')"
        by (subst (asm) token_loop.simps) simp
      from "1.IH"(1) [OF False n [symmetric] None this] f show ?thesis
        by (simp add: unexpected_def trigger_def split: if_splits)
    next
      case (Some t)
      obtain y L2 where mk: "make_token st t L1 = (y, L2)" by (cases "make_token st t L1")
      show ?thesis
      proof (cases y)
        case None
        with "1.prems" False n Some mk have "token_loop re st L2 = (None, L')"
          by (subst (asm) token_loop.simps) simp
        from "1.IH"(2) [OF False n [symmetric] Some mk [symmetric] None this] f make_token_frame [OF mk]
        show ?thesis by simp
      next
        case (Some z)
        with "1.prems" False n \<open>x0 = Some t\<close> mk show ?thesis
          by (subst (asm) token_loop.simps) simp
      qed
    qed
  qed
qed

text \<open>
  The items of a whole source, when the linter state stays as it is. The parser calls
  \<open>token\<close> once per step of its own; the events and the queue are left to it.
\<close>

function lex_all :: "(jstr \<Rightarrow> jstr \<Rightarrow> jstr option) \<Rightarrow> lstate \<Rightarrow> lexer \<Rightarrow> lex_item list" where
  "lex_all re st L =
     (case lex_token re st L of
        (None, L') \<Rightarrow> []
      | (Some x, L') \<Rightarrow> x # lex_all re st L')"
  by pat_completeness auto
termination
proof (relation "inv_image (measures [\<lambda>L. length (lines L) - line L, \<lambda>L. length (input L),
    \<lambda>L. if exhausted L then 0 else 1]) (\<lambda>(re, st, L). L)", goal_cases)
  case 1
  then show ?case by simp
next
  case (2 re st L y L' x)
  then have "token_loop re st (L\<lparr>checks := []\<rparr>) = (Some x, L')"
    by (simp add: lex_token_def)
  from token_loop_moves [OF this] show ?case
    by (auto simp: advanced_def finished_def lex_left_iff)
qed

declare lex_all.simps [simp del]

lemma lex_token_moves:
  "lex_token re st L = (Some x, L') \<Longrightarrow> advanced L L' \<or> finished L x L'"
  using token_loop_moves [of re st "L\<lparr>checks := []\<rparr>" x L']
  by (simp add: lex_token_def advanced_def finished_def lex_left_iff)

lemma lex_token_None: "lex_token re st L = (None, L') \<Longrightarrow> exhausted L"
  using token_loop_None [of re st "L\<lparr>checks := []\<rparr>" L'] by (simp add: lex_token_def)

lemma lex_all_read: "exhausted L \<Longrightarrow> input L = [] \<Longrightarrow> length (lines L) \<le> line L \<Longrightarrow> lex_all re st L = []"
  by (subst lex_all.simps) (simp add: lex_token_def token_loop.simps nextLine_def)

text \<open>The lexer reads any source to its end.\<close>

lemma lex_all_ends:
  "\<not> exhausted L \<Longrightarrow> \<exists>xs e. lex_all re st L = xs @ [e] \<and> is_end e"
proof (induction re st L rule: lex_all.induct)
  case (1 re st L)
  obtain y L' where t: "lex_token re st L = (y, L')" by (cases "lex_token re st L")
  show ?case
  proof (cases y)
    case None
    with t lex_token_None "1.prems" show ?thesis by blast
  next
    case (Some x)
    with t have step: "lex_all re st L = x # lex_all re st L'"
      by (subst lex_all.simps) simp
    from lex_token_moves [OF t [unfolded Some]] show ?thesis
    proof (elim disjE)
      assume "advanced L L'"
      with "1.prems" have "\<not> exhausted L'" by (simp add: advanced_def)
      with "1.IH" [OF t [symmetric] Some] obtain xs e where "lex_all re st L' = xs @ [e]" "is_end e"
        by blast
      with step have "lex_all re st L = (x # xs) @ [e] \<and> is_end e" by simp
      then show ?thesis by blast
    next
      assume "finished L x L'"
      then have "lex_all re st L' = []" "is_end x"
        by (auto simp: finished_def intro: lex_all_read)
      with step have "lex_all re st L = [] @ [x] \<and> is_end x" by simp
      then show ?thesis by blast
    qed
  qed
qed

end
