(* ===== verification/LexTheorems.thy ===== *)
theory LexTheorems
  imports LexToken
begin

text \<open>
  The properties of the lexer, stated over the model of \<^verbatim>\<open>lex.js\<close> and resting on the lemmas of
  the scanners' theories.
\<close>

text \<open>A lexer that stands at the start of the line \<open>s\<close>, for the concrete instances below.\<close>

definition at_line :: "jstr \<Rightarrow> lexer" where
  "at_line s = (fst (new_Lexer [s] reset_state))\<lparr>line := 1, input := s\<rparr>"

lemma at_line_simps [simp]:
  "input (at_line s) = s" "line (at_line s) = 1" "lchar (at_line s) = 1" "prereg (at_line s)"
  "lcontext (at_line s) = []" "templateStarts (at_line s) = []" "events (at_line s) = []"
  "checks (at_line s) = []" "exhausted (at_line s) = False" "lfrom (at_line s) = 1"
  by (simp_all add: at_line_def new_Lexer_def Let_def)

text \<open>C3: the lexer reads every source to its end: the sequence of tokens is finite and its last item is the token \<open>(end)\<close>.\<close>

theorem lexer_reads_to_end:
  "\<exists>xs e. lex_all re st (fst (new_Lexer ls st0)) = xs @ [e] \<and> is_end e"
  by (rule lex_all_ends) (simp add: new_Lexer_def Let_def)

text \<open>C14: \<open>next\<close> never moves back, and with every token it finds it moves forward in the source.\<close>

theorem next_token_progress:
  assumes "next_token re st L = (x, L')"
  shows "fwd st L L' \<and> (x = None \<or> (L', L) \<in> lex_left)"
  using assms next_token_fwd [OF assms] next_token_moves [of re st L _ L'] by (cases x) auto

lemma next_semicolon:
  "next_token re st (at_line (js '';'')) =
     (Some (RPunctuator (js '';'')), (at_line (js '';''))\<lparr>lchar := 2, input := []\<rparr>)"
  by (simp add: next_token_def moving_scanners_def looking_scanners_fun_def orelse_def then_skip_def
      skip_space_def scanComments_def scanStringLiteral_def scanTemplateLiteral_def scanRegExp_def
      scan_punctuator_def scanPunctuator_def is_ch_def one_of_def js_def peek_def skip_def inContext_def
      is_ws_def Let_def)

theorem next_token_progress_witness:
  "fwd reset_state (at_line (js '';'')) ((at_line (js '';''))\<lparr>lchar := 2, input := []\<rparr>)"
  using next_token_progress [OF next_semicolon [of "\<lambda>_ _. None" reset_state]] by simp

lemma syntax_name_Some: "s \<in> set sym_names \<Longrightarrow> syntax_name (js s) = Some s"
proof -
  assume "s \<in> set sym_names"
  then have "find (\<lambda>t. js t = js s) sym_names \<noteq> None"
    by (auto simp: find_None_iff)
  then show ?thesis
    by (auto simp: syntax_name_def find_Some_iff)
qed

lemma punctuators_declared: "set punctuators \<subseteq> set sym_names"
proof -
  have "list_all (\<lambda>p. List.member sym_names p) punctuators"
    by (simp add: sym_names_def all_decls_eval punctuators_def)
  then show ?thesis by (auto simp: list_all_iff)
qed

text \<open>
  C19: a punctuator is the text at the head of the input, and the parser's symbol table declares
  it, so its token is created from its own symbol and never from \<open>(error)\<close>.
\<close>

theorem punctuator_declared:
  assumes "scanPunctuator L = (Some p, L')"
  shows "starts_with p (input L) \<and> p \<noteq> [] \<and>
    (\<exists>s. p = js s \<and> proto_name ''(punctuator)'' p = s \<and> obj_has syntax_table s)"
proof -
  from reads_known [OF scanPunctuator_reads [OF assms]] obtain s where
    s: "s \<in> set punctuators" "p = js s" by auto
  with punctuators_declared have "s \<in> set sym_names" by blast
  with s show ?thesis
    using scanPunctuator_prefix [OF assms] scanPunctuator_nonempty [OF assms]
    by (auto simp: proto_name_def syntax_name_Some has_syntax_iff)
qed

theorem punctuator_declared_witness:
  "starts_with (js '';'') (js '';'') \<and> proto_name ''(punctuator)'' (js '';'') = '';''"
proof -
  have "scanPunctuator (at_line (js '';'')) = (Some (js '';''), at_line (js '';''))"
    by (simp add: scanPunctuator_def is_ch_def one_of_def js_def peek_def Let_def)
  from punctuator_declared [OF this] show ?thesis by auto
qed

text \<open>
  C20: on a word of ASCII letters, digits, \<open>_\<close> and \<open>$\<close> the two word scanners read the whole word;
  it becomes a keyword when it is one and an identifier otherwise, and nothing is reported.
\<close>

theorem word_becomes_one_token:
  assumes "is_word_start c" "list_all is_word_part w" "stops_word r" "input L = (c # w) @ r"
  shows "orelse scan_keyword (scanIdentifier st) L =
    (Some (if is_keyword (c # w) then RKeyword (c # w) else RIdentifier (c # w) (c # w)), L)"
  using scanKeyword_word [OF assms] scan_word [OF assms, of st]
  by (simp add: orelse_def scan_keyword_def)

theorem word_becomes_one_token_witness:
  "orelse scan_keyword (scanIdentifier reset_state) (at_line (js ''var x'')) =
     (Some (RKeyword (js ''var'')), at_line (js ''var x''))"
proof -
  have "is_keyword (js ''var'')" by (simp add: is_keyword_def keyword_list_def)
  moreover have v: "js ''var'' = ch CHR ''v'' # js ''ar''" "js ''var x'' = (ch CHR ''v'' # js ''ar'') @ js '' x''"
    by (simp_all add: js_def)
  ultimately show ?thesis
    using word_becomes_one_token [of "ch CHR ''v''" "js ''ar''" "js '' x''" "at_line (js ''var x'')" reset_state]
    by (simp add: v is_word_start_def is_word_part_def stops_word_def js_def is_dec_digit_def)
qed

text \<open>
  C21: a run of decimal digits without a leading zero is one decimal literal with its own text as
  value; the warning W045 (the number is no double) is queued with exactly the condition that
  the value is not finite.
\<close>

theorem decimal_integer_token:
  assumes "input L = d # ds @ r" "is_dec_digit d" "list_all is_dec_digit ds" "ends_number r"
    "d = 48 \<longrightarrow> ds = []"
  shows "scanNumericLiteral st L =
     (Some (RNumeric (d # ds) (Some 10) False False False),
      triggerAsync (EvDiag DWarning ''W045'' (line L) (lchar L + length (d # ds)) [d # ds])
        (CStatic (double_limit \<le> dec_nat (d # ds))) L)"
proof -
  have all: "list_all is_dec_digit (d # ds)" using assms(2,3) by simp
  have tw: "takeWhile is_dec_digit (d # ds) = d # ds" "dropWhile is_dec_digit (d # ds) = []"
    using all by (simp_all add: list_all_iff takeWhile_eq_all_conv dropWhile_eq_Nil_conv)
  have "decimal_isFinite (d # ds) \<longleftrightarrow> dec_nat (d # ds) < double_limit"
    unfolding decimal_isFinite_def Let_def tw by (simp add: starts_with_def js_def)
  with scan_decimal_integer [OF assms, of st] show ?thesis by (simp add: not_less)
qed

theorem decimal_integer_token_witness:
  "fst (scanNumericLiteral reset_state (at_line (js ''42;''))) =
     Some (RNumeric (js ''42'') (Some 10) False False False)"
proof -
  have "input (at_line (js ''42;'')) = 52 # [50] @ [59]" by (simp add: js_def)
  from decimal_integer_token [OF this, of reset_state] show ?thesis
    by (simp add: is_dec_digit_def ends_number_def isHexDigit_def isHex_def is_hex_char_def
        isIdentifierStart_def js_def)
qed

text \<open>
  C22: a string without escapes, control characters and its own quote is read up to the closing
  quote, its value being the text between the quotes.
\<close>

theorem plain_string_token:
  assumes "input L = q # s @ q # r" "q = ch CHR 34 \<or> q = ch CHR 39" "list_all (plain_char q) s"
  shows "\<exists>L'. scanStringLiteral st L = (Some (RString s (line L) (lchar L) False q), L') \<and>
    input L' = r \<and> lchar L' = lchar L + length s + 2 \<and> events L' = events L"
proof -
  define L1 where "L1 = skip 1 (triggerAsync (warn_at ''W108'' [] L) (CJson (q \<noteq> ch CHR 34)) L)"
  have inp: "input L1 = s @ q # r" using assms(1) by (simp add: L1_def)
  from string_loop_plain [OF inp assms(3), of st "line L" "lchar L" "[]" False] assms(1,2)
  show ?thesis
    by (auto simp: scanStringLiteral_def peek_def Let_def L1_def)
qed

theorem plain_string_token_witness:
  "\<exists>L'. scanStringLiteral reset_state (at_line (js [CHR 39, CHR ''a'', CHR 39])) =
     (Some (RString (js ''a'') 1 1 False 39), L') \<and> input L' = []"
  using plain_string_token [of "at_line (js [CHR 39, CHR ''a'', CHR 39])" 39 "js ''a''" "[]" reset_state]
  by (force simp: js_def plain_char_def)

text \<open>
  C23: the templates that are open and the template contexts stay in step. So when the source
  ends within a template the start of a template is always there to be reported, and E052
  points to it.
\<close>

theorem unclosed_template_reported:
  assumes "scanTemplateLiteral st L = (Some t, L')" "template_starts_ok L"
  shows "template_starts_ok L' \<and>
    (raw_unclosed t = False \<or>
     (\<exists>l c. last (events L') = EvDiag DError ''E052'' l c [] \<and>
        (l, c) \<in> set ((line L, lchar L) # templateStarts L)))"
proof -
  from assms obtain r p ps where e: "template_end r p ps t L'"
    and at: "peek L 0 = Some (ch CHR ''`'') \<Longrightarrow> p = (line L, lchar L) \<and> r = lcontext L \<and> ps = templateStarts L"
      "peek L 0 \<noteq> Some (ch CHR ''`'') \<Longrightarrow> Template # r = lcontext L \<and> p # ps = templateStarts L"
    by (metis scanTemplateLiteral_end)
  from at have "p \<in> set ((line L, lchar L) # templateStarts L)"
    by (cases "peek L 0 = Some (ch CHR ''`'')") (auto, metis list.set_intros(1))
  with e scanTemplateLiteral_ok [OF assms] show ?thesis
    by (cases p) (auto simp: template_end_def)
qed

theorem unclosed_template_reported_witness:
  "\<exists>t L'. scanTemplateLiteral reset_state (at_line (js ''`a'')) = (Some t, L') \<and>
     raw_unclosed t \<and> template_starts_ok L' \<and>
     last (events L') = EvDiag DError ''E052'' 1 1 []"
proof -
  have eof: "nextLine reset_state M = (False, M)" if "lines M = [x]" "line M = 1" for M x
    using that by (simp add: nextLine_def)
  define M where "M = skip 1 (open_template reset_state (at_line (js ''`a'')))"
  have M: "lines M = [js ''`a'']" "line M = 1" "input M = []" "templateStarts M = [(1, 1)]"
    "lcontext M = [Template]"
    by (simp_all add: M_def at_line_def new_Lexer_def is_shebang_def substr_def js_def Let_def)
  have "template_loop reset_state TemplateHead 1 1 1 [] (open_template reset_state (at_line (js ''`a''))) =
      template_loop reset_state TemplateHead 1 1 1 [97] M"
    unfolding M_def by (subst template_loop_plain) (auto simp: peek_def js_def)
  also have "\<dots> = (RTemplate TemplateHead [97, 10] 1 1 True 1 (Some Template),
      snd (popContext (unclosed_template M)))"
    using eof [OF M(1,2)] M
    by (subst template_loop.simps) (simp add: peek_def popContext_def)
  finally have run: "scanTemplateLiteral reset_state (at_line (js ''`a'')) =
      (Some (RTemplate TemplateHead [97, 10] 1 1 True 1 (Some Template)),
       snd (popContext (unclosed_template M)))"
    by (simp add: scanTemplateLiteral_def Let_def peek_def is_ch_def js_def)
  have ok: "template_starts_ok (at_line (js ''`a''))" by (simp add: template_starts_ok_def)
  from unclosed_template_reported [OF run ok] run show ?thesis by simp
qed

text \<open>
  C24: a comment that is opened and closed on one line ends at the first \<open>*/\<close>; what follows is
  left to the next token.
\<close>

theorem comment_ends_at_first_close:
  assumes "input L = js ''/*'' @ s @ js ''*/'' @ r" "no_close s"
  shows "\<exists>t L'. scanComments st L = (Some t, L') \<and> input L' = r \<and>
    lchar L' = lchar L + length s + 4 \<and> \<not> inComment L' \<and> events L' = events L \<and>
    (\<exists>ty b sp. t = RComment ty (js ''/*'' @ s @ js ''*/'') b sp False)"
proof -
  define M where "M = skip 2 (L\<lparr>inComment := True\<rparr>)"
  have M: "input M = s @ js ''*/'' @ r" "lchar M = lchar L + 2" "events M = events L"
    using assms(1) by (simp_all add: M_def js_def skip_def)
  have loop: "comment_loop st [] M =
      ([] @ s, True, M\<lparr>lchar := lchar M + length s, input := js ''*/'' @ r\<rparr>)"
    by (rule comment_loop_line [OF M(1) assms(2)])
  have heads: "is_ch (peek L 0) (CHR ''/'')" "is_ch (peek L 1) (CHR ''*'')"
    "\<not> is_ch (peek L 0) (CHR ''*'')" "\<not> is_ch (peek L 1) (CHR ''/'')"
    using assms(1) by (simp_all add: peek_def is_ch_def js_def)
  have "scanComments st L =
      (case commentToken (js ''/*'') s True False
          ((skip 2 (M\<lparr>lchar := lchar M + length s, input := js ''*/'' @ r\<rparr>))\<lparr>inComment := False\<rparr>) of
        (t, L3) \<Rightarrow> (Some t, L3))"
    using heads loop by (simp add: scanComments_def Let_def M_def)
  then show ?thesis
    using M by (auto simp: commentToken_def Let_def skip_def js_def)
qed

theorem comment_ends_at_first_close_witness:
  "\<exists>t L'. scanComments reset_state (at_line (js ''/*a*/x*/'')) = (Some t, L') \<and> input L' = js ''x*/''"
proof -
  have "input (at_line (js ''/*a*/x*/'')) = js ''/*'' @ js ''a'' @ js ''*/'' @ js ''x*/''"
    by (simp add: js_def)
  from comment_ends_at_first_close [OF this, of reset_state] show ?thesis by (auto simp: js_def)
qed

text \<open>
  C25: a regular expression without flags and without special characters is handed to the engine
  as it is: its token holds the literal, and it is malformed, with one error E016 carrying the
  engine's message, exactly when the engine rejects it.
\<close>

theorem plain_regexp_token:
  assumes "prereg L" "input L = ch CHR ''/'' # s @ ch CHR ''/'' # r" "list_all plain_regexp s"
    and "stops_flags r"
  shows "fst (scanRegExp re st L) =
      Some (RRegExp (js ''/'' @ s @ js ''/'') (\<exists>m. re s [] = Some m \<and> m \<noteq> [])) \<and>
    events (snd (scanRegExp re st L)) = events L @
      (case re s [] of None \<Rightarrow> [] | Some m \<Rightarrow> if m = [] then [] else [error_at ''E016'' [m] L])"
  using regexp_no_flags [OF assms] by blast

theorem plain_regexp_token_witness:
  "fst (scanRegExp (\<lambda>_ _. Some (js ''bad'')) reset_state (at_line (js ''/a+/''))) =
     Some (RRegExp (js ''/a+/'') True)"
proof -
  have "input (at_line (js ''/a+/'')) = ch CHR ''/'' # js ''a+'' @ ch CHR ''/'' # []"
    by (simp add: js_def)
  from plain_regexp_token [OF _ this, of "\<lambda>_ _. Some (js ''bad'')" reset_state] show ?thesis
    by (simp add: plain_regexp_def stops_flags_def js_def)
qed

text \<open>
  C26: the test for a second flag \<open>s\<close> looks into the whole literal: a valid expression with the
  single flag \<open>s\<close> is reported as having a duplicate flag exactly when its pattern contains the
  letter \<open>s\<close>.
\<close>

theorem dotall_flag_misreported:
  assumes "prereg L" "input L = ch CHR ''/'' # s @ ch CHR ''/'' # ch CHR ''s'' # r"
    and "list_all plain_regexp s" "stops_flags r" "re s [] = None"
  shows "error_at ''E016'' [js ''Duplicate RegExp flag''] L \<in> set (drop (length (events L)) (events (snd (scanRegExp re st L))))
    \<longleftrightarrow> contains_char (ch CHR ''s'') s"
  using regexp_s_flag(2) [of L s r re st] assms by simp

theorem dotall_flag_misreported_witness:
  "error_at ''E016'' [js ''Duplicate RegExp flag''] (at_line (js ''/s/s''))
     \<in> set (events (snd (scanRegExp (\<lambda>_ _. None) reset_state (at_line (js ''/s/s'')))))"
proof -
  have "input (at_line (js ''/s/s'')) = ch CHR ''/'' # js ''s'' @ ch CHR ''/'' # ch CHR ''s'' # []"
    by (simp add: js_def)
  from dotall_flag_misreported [OF _ this, of "\<lambda>_ _. None" reset_state] show ?thesis
    by (simp add: plain_regexp_def stops_flags_def js_def)
qed

text \<open>
  C27: a back reference of two digits is garbled: the escape adds the second digit, the main
  loop then adds it again, and the first digit is lost, so the pattern the engine is asked to
  check (and the text of the token) is not what the source holds.
\<close>

theorem back_reference_garbled:
  assumes "\<not> r_isCharSet R" "\<not> r_terminated R"
    and "drop (r_index R) (input L) = 92 # a # b # r" "is_nonzero_digit a" "is_dec_digit b"
    and "takeWhile is_dec_digit r = []"
  shows "\<exists>R1 R2. pattern_step st R L = (R1, L) \<and> pattern_step st R1 L = (R2, L) \<and>
    r_index R2 = r_index R + 3 \<and> r_body R2 = r_body R @ [92, b, b]"
proof -
  let ?i = "r_index R"
  have len: "?i + 3 \<le> length (input L)"
    using arg_cong [OF assms(3), of length] by simp
  have at: "char_at (input L) ?i = Some 92" "char_at (input L) (?i + 1) = Some a"
    "char_at (input L) (?i + 2) = Some b"
    using char_at_drop [of ?i "input L" 0] char_at_drop [of ?i "input L" 1]
      char_at_drop [of ?i "input L" 2] by (simp_all add: assms(3) numeral_2_eq_2)
  have rest: "drop (?i + 2) (input L) = b # r"
    using arg_cong [OF assms(3), of "drop 2"] by (simp add: add.commute)
  have more: "takeWhile is_dec_digit (drop (?i + 2) (input L)) = [b]"
    using rest assms(5,6) by simp
  let ?E = "pattern_enter R L"
  have cs: "\<not> r_isCharSet ?E"
    using assms(1) by (simp add: pattern_enter_def Let_def add_text_def)
  let ?R0 = "?E\<lparr>r_index := ?i + 1, r_char := Some a\<rparr>"
  obtain R1 where R1: "escape_reference a ?R0 L = ([a, b], R1, L)" "r_index R1 = ?i + 2"
    "r_body R1 = r_body R @ [92, b]" "\<not> r_isCharSet R1" "\<not> r_terminated R1"
    using more cs assms(2) at(1) by (simp add: escape_reference_def add_text_def Let_def peek_def)
  have step1: "pattern_step st R L = (R1, L)"
    using R1 at cs assms(4)
    by (simp add: pattern_step_def Let_def pattern_escape_def scanRegexpEscapeSequence_def peek_def is_ch_def)
  have b: "b \<noteq> 92 \<and> b \<noteq> ch CHR ''{'' \<and> b \<noteq> ch CHR ''['' \<and> b \<noteq> ch CHR ''('' \<and> b \<noteq> ch CHR '')'' \<and> b \<noteq> ch CHR ''/''"
    using assms(5) by (auto simp: is_dec_digit_def)
  have "pattern_step st R1 L = (pattern_enter R1 L\<lparr>r_index := ?i + 3\<rparr>, L)"
  proof -
    have "\<not> r_isCharSet (pattern_enter R1 L)"
      using R1(4) by (simp add: pattern_enter_def Let_def add_text_def)
    then show ?thesis
      using R1(2) at(3) b
      by (simp add: pattern_step_def Let_def pattern_char_def peek_def is_ch_def)
  qed
  moreover have "r_body (pattern_enter R1 L) = r_body R @ [92, b, b]"
    using R1(2,3) at(3) by (simp add: peek_def)
  ultimately show ?thesis using step1 by auto
qed

theorem back_reference_garbled_witness:
  "\<exists>R1 R2. pattern_step reset_state (regexp_start\<lparr>r_index := 4\<rparr>) (at_line (js ''/(a)'' @ [92] @ js ''12/'')) =
       (R1, at_line (js ''/(a)'' @ [92] @ js ''12/'')) \<and>
     pattern_step reset_state R1 (at_line (js ''/(a)'' @ [92] @ js ''12/'')) =
       (R2, at_line (js ''/(a)'' @ [92] @ js ''12/'')) \<and> r_body R2 = [92, 50, 50]"
proof -
  let ?R = "regexp_start\<lparr>r_index := 4\<rparr>" and ?L = "at_line (js ''/(a)'' @ [92] @ js ''12/'')"
  have "\<not> r_isCharSet ?R" "\<not> r_terminated ?R" and d: "drop (r_index ?R) (input ?L) = 92 # 49 # 50 # [47]"
    and "is_nonzero_digit 49" "is_dec_digit 50" "takeWhile is_dec_digit [47] = []"
    by (simp_all add: js_def regexp_start_def is_nonzero_digit_def is_dec_digit_def)
  from back_reference_garbled [OF this, of reset_state] obtain R1 R2 where
    "pattern_step reset_state ?R ?L = (R1, ?L)" "pattern_step reset_state R1 ?L = (R2, ?L)"
    "r_body R2 = r_body ?R @ [92, 50, 50]" by blast
  then show ?thesis by (auto simp: regexp_start_def)
qed

text \<open>
  C28: the start of an identifier may be written as an escape of any character that may continue
  one, a digit for example; written plainly such a character starts no identifier.
\<close>

theorem escaped_identifier_start:
  assumes "input L = js [CHR 92, CHR ''u'', CHR ''0'', CHR ''0'', CHR ''3'', d] @ r"
    and "d \<in> set ''0123456789''" "stops_word r"
  shows "(\<exists>L'. scanIdentifier st L =
      (Some (RIdentifier [ch d] (js [CHR 92, CHR ''u'', CHR ''0'', CHR ''0'', CHR ''3'', d])), L')) \<and>
    getIdentifierStart [ch d] 0 = None"
proof -
  have d: "is_hex_char (ch d)" "hex_val (ch d) \<le> 9" "ch d = 48 + hex_val (ch d)" "ch d < 58"
    using assms(2) by (auto simp: is_hex_char_def hex_val_def)
  let ?s = "js [CHR 92, CHR ''u'', CHR ''0'', CHR ''0'', CHR ''3'', d]"
  have seq: "js [CHR ''0'', CHR ''0'', CHR ''3'', d] = [48, 48, 51, ch d]"
    by (simp add: js_def)
  have code: "hex_nat [48, 48, 51, ch d] = ch d"
    using d(3) by (simp add: hex_nat_def hex_val_def)
  have part: "asciiIdentifierPartTable (ch d)"
    using d by (auto simp: asciiIdentifierPartTable_def)
  have start: "getIdentifierStart (input L) 0 = Some (?s, 6)"
    unfolding assms(1) getIdentifierStart_def readUnicodeEscapeSequence_def Let_def
    using d code part by (simp add: js_def isHex_def is_hex_char_def)
  have "length ?s = 6" by simp
  then have "getIdentifierPart (input L) 6 = None"
    using part_at_stop [OF assms(3), of ?s] assms(1) by metis
  then have loop: "ident_loop (input L) 6 ?s = ?s"
    by (subst ident_loop.simps) simp
  have val: "removeEscapeSequences ?s = [ch d]"
    using d code by (simp add: js_def starts_with_def substr_def isHex_def is_hex_char_def fromCharCode_def)
  have "\<exists>L'. scanIdentifier st L = (Some (RIdentifier [ch d] ?s), L')"
    unfolding scanIdentifier_def start by (simp only: option.case prod.case Let_def loop val) blast
  moreover have "getIdentifierStart [ch d] 0 = None"
    using d by (auto simp: getIdentifierStart_def asciiIdentifierStartTable_def)
  ultimately show ?thesis ..
qed

theorem escaped_identifier_start_witness:
  "\<exists>L'. scanIdentifier reset_state (at_line (js [CHR 92, CHR ''u'', CHR ''0'', CHR ''0'', CHR ''3'', CHR ''1''])) =
     (Some (RIdentifier (js ''1'') (js [CHR 92, CHR ''u'', CHR ''0'', CHR ''0'', CHR ''3'', CHR ''1''])), L')"
  using escaped_identifier_start [of "at_line (js [CHR 92, CHR ''u'', CHR ''0'', CHR ''0'', CHR ''3'', CHR ''1''])"
      "CHR ''1''" "[]" reset_state]
  by (simp add: stops_word_def js_def)

text \<open>
  while the linter is told to ignore errors, a line that neither starts a comment nor ends
  one is not looked at: the input is empty, and the line queues no check of its own.
\<close>

theorem ignored_line_is_blank:
  assumes "nextLine st L = (True, L')" "ignoringLinterErrors L"
    and "\<not> starts_with (js ''/*'') (trim (lines L ! line L))"
    and "\<not> starts_with (js ''//'') (trim (lines L ! line L))"
    and "\<not> (inComment L \<and> ends_with (js ''*/'') (trim (lines L ! line L)))"
  shows "input L' = [] \<and> checks L' = checks L \<and> line L' = Suc (line L)"
proof -
  define L1 where "L1 = L\<lparr>input := lines L ! line L, line := line L + 1, lchar := 1, lfrom := 1\<rparr>"
  let ?t = "trim (lines L ! line L)"
  have b: "blank_ignored ?t L1 = L1\<lparr>input := []\<rparr>"
    using assms(2-5) by (simp add: blank_ignored_def L1_def)
  have "\<not> length (lines L) \<le> line L"
    using assms(1) by (auto simp: nextLine_def)
  then have "nextLine st L = (True, report_maxlen st ?t
      ((report_nbsp st (blank_ignored ?t L1))\<lparr>input :=
        expand_tabs (tab st) (input (report_nbsp st (blank_ignored ?t L1)))\<rparr>))"
    by (simp add: nextLine_def Let_def L1_def)
  then show ?thesis
    using assms(1,2) b
    by (auto simp: report_nbsp_def scanNonBreakingSpaces_def report_maxlen_def expand_tabs_def L1_def)
qed

theorem ignored_line_is_blank_witness:
  "\<exists>L'. nextLine reset_state ((fst (new_Lexer [js ''eval(x)''] reset_state))\<lparr>ignoringLinterErrors := True\<rparr>) =
     (True, L') \<and> input L' = []"
proof -
  let ?L = "(fst (new_Lexer [js ''eval(x)''] reset_state))\<lparr>ignoringLinterErrors := True\<rparr>"
  have L: "lines ?L = [js ''eval(x)'']" "line ?L = 0" "inComment ?L = False"
    by (simp_all add: new_Lexer_def is_shebang_def substr_def js_def Let_def)
  obtain L' where n: "nextLine reset_state ?L = (True, L')"
    using nextLine_iff [of reset_state ?L] L by (cases "nextLine reset_state ?L") auto
  have t: "trim (js ''eval(x)'') = js ''eval(x)''"
    by (simp add: trim_def trim_left_def trim_right_def js_def is_ws_def)
  from ignored_line_is_blank [OF n] n show ?thesis
    unfolding L by (simp add: t) (simp add: starts_with_def js_def)
qed

section \<open>The comments that switch the results off and on\<close>

abbreviation blanks :: "jstr \<Rightarrow> bool" where
  "blanks \<equiv> list_all is_ws"

lemma dropWhile_blanks: "blanks v \<Longrightarrow> dropWhile is_ws (v @ x) = dropWhile is_ws x"
  by (induction v) auto

lemma trim_word:
  assumes "blanks v" "blanks w" "x = c # y" "\<not> is_ws c" "\<not> is_ws (last x)"
  shows "trim (v @ x @ w) = x"
proof -
  have "x \<noteq> []" "hd x = c" using assms(3) by simp_all
  then have "dropWhile is_ws x = x" "dropWhile is_ws (rev x) = rev x"
    using assms(4,5) by (simp_all add: dropWhile_eq_self_iff hd_rev)
  then show ?thesis
    using assms(1,2,3,4) dropWhile_blanks [of "rev w" "rev x"] dropWhile_blanks [of v "x @ w"]
    by (simp add: trim_def trim_left_def trim_right_def)
qed

lemma trim_Nil: "trim s = [] \<Longrightarrow> blanks s"
proof -
  assume "trim s = []"
  then have "\<forall>c \<in> set (dropWhile is_ws s). is_ws c" by (simp add: trim_def trim_left_def trim_right_def)
  then have "dropWhile is_ws s = []" by (metis hd_dropWhile hd_in_set)
  then show "blanks s" by (simp add: list_all_iff)
qed

lemma trim_begins: "dropWhile is_ws s = c # y \<Longrightarrow> \<not> is_ws c \<Longrightarrow> \<exists>t. trim s = c # t"
  by (cases "list_all is_ws (rev y)")
    (auto simp: trim_def trim_left_def trim_right_def list_all_iff dropWhile_append
      intro: exI [of _ "rev (dropWhile is_ws (rev y))"])

lemma split_on_one: "d \<notin> set x \<Longrightarrow> split_on d x = [x]"
  by (induction x) auto

lemma split_on_two: "d \<notin> set x \<Longrightarrow> split_on d (x @ d # y) = x # split_on d y"
  by (induction x) auto

text \<open>A body that begins with \<open>ignore\<close> names no other directive.\<close>

lemma other_word:
  assumes "starts_with (c # s) (drop i (v @ 105 # z))" "blanks (take i (v @ 105 # z))" "blanks v" "\<not> is_ws c" "c \<noteq> 105"
  shows False
proof -
  obtain r where r: "drop i (v @ 105 # z) = c # r" using assms(1) by (auto simp: starts_with_iff)
  have "\<not> is_ws 105" by (simp add: is_ws_def)
  have "i \<le> List.length v"
  proof (rule ccontr)
    assume "\<not> i \<le> List.length v"
    then have "105 \<in> set (take i (v @ 105 # z))" by (cases "i - List.length v") auto
    then show False using assms(2) \<open>\<not> is_ws 105\<close> by (auto simp: list_all_iff)
  qed
  moreover have "c \<in> set v" if "i < List.length v"
  proof -
    have "drop i v = v ! i # drop (Suc i) v" using that by (rule Cons_nth_drop_Suc [symmetric])
    then show ?thesis using r that by auto
  qed
  ultimately have "c \<in> set v \<or> c = 105" using r by (cases "i = List.length v") auto
  then show False using assms(3-5) by (auto simp: list_all_iff)
qed

lemma other_special:
  assumes "c_body C = v @ 105 # z" "v = 32 # w" "blanks v" "\<not> c_special C" "str \<in> set (tl specials)"
  shows "special_step str C = C"
proof -
  obtain c s where s: "js str = c # s" "\<not> is_ws c" "c \<noteq> 105"
    using assms(5) by (auto simp: specials_def js_def is_ws_def)
  note no = other_word [where v = v and z = z, OF _ _ assms(3) s(2,3), where s = s, folded s(1)]
  have len: "List.length str = List.length (js str)" by simp
  have "substr (c_body C) 0 (List.length str) \<noteq> js str"
    using no [of 0] assms(1) by (auto simp: substr_def starts_with_def)
  moreover have "substr (c_body C) 1 (List.length str) \<noteq> js str"
    using no [of 1] assms(1,2) by (auto simp: substr_def starts_with_def is_ws_def)
  moreover have "trim (substr (c_body C) 0 i) \<noteq> []" if "index_of (js str) (c_body C) = Some i" for i
    using no [of i] trim_Nil [of "substr (c_body C) 0 i"] index_of_Some_starts [OF that] unfolding substr_def assms(1) by auto
  ultimately have "match_special str C = C"
    by (auto simp: match_special_def Let_def split: option.split)
  then show ?thesis using assms(4) by (simp add: special_step_def)
qed

definition ignore_word :: "bool \<Rightarrow> jstr" where
  "ignore_word on = js (if on then ''start'' else ''end'')"

definition ignore_rest :: "bool \<Rightarrow> jstr \<Rightarrow> jstr \<Rightarrow> jstr \<Rightarrow> jstr \<Rightarrow> jstr" where
  "ignore_rest on w1 w2 w3 w4 = 32 # w1 @ js ''ignore'' @ w2 @ 58 # w3 @ ignore_word on @ w4"

lemma ignore_options:
  assumes "blanks (w1 @ w2 @ w3 @ w4)"
  shows "map trim (split_on 58 (ignore_rest on w1 w2 w3 w4)) = [js ''ignore'', ignore_word on]"
proof -
  have b: "blanks w1" "blanks w2" "blanks w3" "blanks w4" using assms by simp_all
  have "58 \<notin> set w" if "blanks w" for w using that by (auto simp: list_all_iff is_ws_def)
  then have n: "58 \<notin> set (32 # w1 @ js ''ignore'' @ w2)" "58 \<notin> set (w3 @ ignore_word on @ w4)"
    using b by (simp_all add: ignore_word_def js_def)
  have "split_on 58 (ignore_rest on w1 w2 w3 w4) = [32 # w1 @ js ''ignore'' @ w2, w3 @ ignore_word on @ w4]"
    using split_on_two [OF n(1)] split_on_one [OF n(2)] by (simp add: ignore_rest_def)
  moreover have "trim ((32 # w1) @ js ''ignore'' @ w2) = js ''ignore''"
    by (rule trim_word [where c = 105 and y = "tl (js ''ignore'')"]) (use b in \<open>simp_all add: js_def is_ws_def\<close>)
  moreover have "trim (w3 @ ignore_word on @ w4) = ignore_word on"
    by (rule trim_word [where c = "hd (ignore_word on)" and y = "tl (ignore_word on)"])
      (use b in \<open>simp_all add: ignore_word_def js_def is_ws_def\<close>)
  ultimately show ?thesis by simp
qed

lemma ignore_step:
  assumes "blanks (w1 @ w2 @ w3 @ w4)" "w0 = [] \<or> w0 = [32]"
  shows "special_step ''jshint'' \<lparr>c_label = l, c_body = w0 @ js ''jshint'' @ ignore_rest on w1 w2 w3 w4,
      c_type = ty, c_special = False, c_ignoring = x\<rparr> =
   \<lparr>c_label = l @ w0 @ js ''jshint'', c_body = ignore_rest on w1 w2 w3 w4, c_type = js ''jshint'',
    c_special = False, c_ignoring = on\<rparr>"
proof -
  let ?b = "ignore_rest on w1 w2 w3 w4"
  have hd: "?b = 32 # tl ?b" by (simp add: ignore_rest_def)
  have "match_special ''jshint'' \<lparr>c_label = l, c_body = w0 @ js ''jshint'' @ ?b, c_type = ty, c_special = False, c_ignoring = x\<rparr> =
    \<lparr>c_label = l @ w0 @ js ''jshint'', c_body = ?b, c_type = ty, c_special = True, c_ignoring = x\<rparr>"
    using assms(2) by (subst (1 2) hd, elim disjE)
      (simp_all add: match_special_def Let_def substr_def js_def)
  moreover have "apply_special ''jshint'' \<lparr>c_label = l', c_body = ?b, c_type = ty, c_special = True, c_ignoring = x\<rparr> =
    \<lparr>c_label = l', c_body = ?b, c_type = js ''jshint'', c_special = False, c_ignoring = on\<rparr>" for l'
    using ignore_options [OF assms(1), of on] by (simp add: apply_special_def Let_def ignore_word_def)
  ultimately show ?thesis by (simp add: special_step_def)
qed

text \<open>
  C29: The comments \<open>jshint ignore:start\<close> and \<open>jshint ignore:end\<close>, with any blanks around their words, at
  most one of them before the first, make the lexer ignore the lines that follow and end that, in both kinds
  of comments, and neither is passed on to the parser as a directive.
\<close>

theorem ignore_directive:
  assumes "l = js ''/*'' \<or> l = js ''//''" "w0 = [] \<or> w0 = [32]"
    and "list_all is_ws (w1 @ w2 @ w3 @ w4)"
    and "body = w0 @ js ''jshint'' @ [32] @ w1 @ js ''ignore'' @ w2 @ js '':'' @ w3 @ js (if on then ''start'' else ''end'') @ w4"
  shows "\<exists>t b. commentToken l body m f L =
    (RComment (js ''jshint'') t b False f, L\<lparr>ignoringLinterErrors := on\<rparr>)"
proof -
  define n :: "jstr \<Rightarrow> jstr" where "n = map (\<lambda>c. if c = 10 then 32 else c)"
  have blank: "blanks (n w)" if "blanks w" for w using that by (auto simp: n_def list_all_iff is_ws_def)
  have b: "blanks (n w1 @ n w2 @ n w3 @ n w4)" using assms(3) blank by simp
  let ?r = "ignore_rest on (n w1) (n w2) (n w3) (n w4)"
  have body: "map (\<lambda>c. if c = 10 then 32 else c) body = w0 @ js ''jshint'' @ ?r"
    using assms(2) by (auto simp: assms(4) n_def ignore_rest_def ignore_word_def js_def)
  have no_fall: "\<not> fallsThrough (w0 @ js ''jshint'' @ ?r)"
  proof -
    let ?t = "trim (w0 @ js ''jshint'' @ ?r)"
    have "dropWhile is_ws (w0 @ js ''jshint'' @ ?r) = 106 # tl (js ''jshint'') @ ?r"
      using assms(2) by (auto simp: js_def is_ws_def)
    moreover have "\<not> is_ws 106" by (simp add: is_ws_def)
    ultimately obtain t where "?t = 106 # t" using trim_begins by blast
    then have "\<not> starts_with (js ''fall'') ?t" by (simp add: starts_with_def js_def)
    then show ?thesis by (simp add: fallsThrough_def Let_def)
  qed
  have v: "?r = (32 # n w1) @ 105 # tl (js ''ignore'') @ n w2 @ 58 # n w3 @ ignore_word on @ n w4"
    by (simp add: ignore_rest_def js_def)
  have rest: "fold special_step ss C = C"
    if "set ss \<subseteq> set (tl specials)" "c_body C = ?r" "\<not> c_special C" for ss C
    using that
  proof (induction ss)
    case (Cons s ss)
    have "special_step s C = C"
      by (rule other_special [OF Cons.prems(2) [unfolded v] refl _ Cons.prems(3)]) (use b Cons.prems(1) in \<open>simp_all add: is_ws_def\<close>)
    with Cons show ?case by simp
  qed simp
  have spec: "specials = ''jshint'' # tl specials" by (simp add: specials_def)
  have "fold special_step specials \<lparr>c_label = l, c_body = w0 @ js ''jshint'' @ ?r, c_type = js ''plain'',
      c_special = False, c_ignoring = x\<rparr> =
    \<lparr>c_label = l @ w0 @ js ''jshint'', c_body = ?r, c_type = js ''jshint'', c_special = False, c_ignoring = on\<rparr>" for x
    by (subst spec) (simp only: fold_simps ignore_step [OF b assms(2)], rule rest, simp_all)
  then show ?thesis
    unfolding commentToken_def body Let_def using no_fall by simp
qed

theorem ignore_directive_witness:
  "\<exists>t b. commentToken (js ''/*'') (js ''jshint ignore:start '') True False (at_line []) =
    (RComment (js ''jshint'') t b False False, (at_line [])\<lparr>ignoringLinterErrors := True\<rparr>)"
  using ignore_directive [of "js ''/*''" "[]" "[]" "[]" "[]" "[32]" "js ''jshint ignore:start ''" True True False "at_line []"]
  by (simp add: js_def is_ws_def)

end
