(* ===== verification/NameStack.thy ===== *)
theory NameStack
  imports JsString
begin

text \<open>
  \<^verbatim>\<open>name-stack.js\<close>: the inference of function names. A stack entry is \<open>null\<close> or a
  token; of a token the class reads its \<open>type\<close>, its \<open>accessorType\<close> (undefined or \<open>get\<close> /
  \<open>set\<close>) and its \<open>value\<close>. The array's end is the top of the stack and the head of the
  model's list.
\<close>

record name_token =
  nt_type :: jstr
  nt_accessorType :: "jstr option"
  nt_value :: jstr

text \<open>
  \<open>ns_items\<close> are the elements of \<open>_stack\<close>. \<open>set\<close> on an empty array writes the property
  \<open>-1\<close>, which is no element but is what \<open>infer\<close> reads as \<open>_stack[length - 1]\<close> of an empty
  array and as \<open>_stack[length - 2]\<close> of an array of one element: \<open>ns_neg\<close> is that property.
\<close>

record name_stack =
  ns_items :: "name_token option list"
  ns_neg :: "name_token option"

definition new_NameStack :: name_stack where
  "new_NameStack = \<lparr>ns_items = [], ns_neg = None\<rparr>"

definition ns_length :: "name_stack \<Rightarrow> nat" where
  "ns_length s = length (ns_items s)"

definition ns_push :: "name_stack \<Rightarrow> name_stack" where
  "ns_push s = s\<lparr>ns_items := None # ns_items s\<rparr>"

text \<open>\<open>Array.prototype.pop\<close> on an empty array changes nothing.\<close>

definition ns_pop :: "name_stack \<Rightarrow> name_stack" where
  "ns_pop s = s\<lparr>ns_items := (case ns_items s of [] \<Rightarrow> [] | _ # r \<Rightarrow> r)\<rparr>"

definition ns_set :: "name_token \<Rightarrow> name_stack \<Rightarrow> name_stack" where
  "ns_set tok s =
     (case ns_items s of
        [] \<Rightarrow> s\<lparr>ns_neg := Some tok\<rparr>
      | _ # r \<Rightarrow> s\<lparr>ns_items := Some tok # r\<rparr>)"

definition infer_token :: "name_stack \<Rightarrow> name_token option" where
  "infer_token s =
     (let top = (case ns_items s of [] \<Rightarrow> ns_neg s | t # _ \<Rightarrow> t);
          below = (case ns_items s of [] \<Rightarrow> None | [_] \<Rightarrow> ns_neg s | _ # t # _ \<Rightarrow> t)
      in case top of
           None \<Rightarrow> below
         | Some t \<Rightarrow> if nt_type t = js ''class'' then below else Some t)"

definition ns_infer :: "name_stack \<Rightarrow> jstr" where
  "ns_infer s =
     (case infer_token s of
        None \<Rightarrow> js ''(empty)''
      | Some t \<Rightarrow>
          (if nt_type t \<noteq> js ''(string)'' \<and> nt_type t \<noteq> js ''(number)'' \<and>
              nt_type t \<noteq> js ''(identifier)'' \<and> nt_type t \<noteq> js ''default''
           then js ''(expression)''
           else (case nt_accessorType t of
                   None \<Rightarrow> []
                 | Some a \<Rightarrow> if a = [] then [] else a @ js '' '') @ nt_value t))"

end
