(* ===== verification/Scope.thy ===== *)
theory Scope
  imports LintState
begin

text \<open>
  The data of the scope manager (\<^verbatim>\<open>scope-manager.js\<close>): tokens, bindings, usages and scopes, the
  manager itself, and the lookups that do not change it.

  Scopes and tokens are objects the source compares by identity and mutates in place. A scope
  has a number (\<open>sc_id\<close>) by which \<open>_currentFunctBody\<close> and the \<open>(function)\<close> fields refer to it;
  it lives in the list \<open>g_scopes\<close>, whose head is the top of \<open>_scopeStack\<close> and is \<open>_current\<close>.
  Tokens live in the store \<open>g_toks\<close>. A binding object and a usage object belong to one scope at
  a time (they are moved when a scope is left), and are values of its tables.

  The workarounds for environments that do not enumerate the name \<open>__proto__\<close> are left out:
  in the tables, which have no prototype, it is a name like any other.
\<close>

section \<open>Tokens, bindings, usages, scopes\<close>

record stoken =
  t_line :: nat
  t_from :: nat
  t_end :: bool
  t_raw_text :: "jstr option"
  t_function :: "nat option"
  t_forgiveUndef :: bool
  t_ignoreUndef :: bool
  t_ignoreW020 :: bool
  t_ignoreW021 :: bool

text \<open>The token an unused number stands for.\<close>

definition undefined_token :: stoken where
  "undefined_token = \<lparr>t_line = 0, t_from = 0, t_end = False, t_raw_text = None, t_function = None,
     t_forgiveUndef = False, t_ignoreUndef = False, t_ignoreW020 = False, t_ignoreW021 = False\<rparr>"

record binding =
  b_type :: string
  b_token :: nat
  b_unused :: bool
  b_initialized :: bool
  b_blockscoped :: bool
  b_function :: "nat option"
  b_outside :: bool
  b_duplicated :: bool

record usage =
  u_modified :: "nat list"
  u_reassigned :: "nat list"
  u_tokens :: "nat list"
  u_onlySub :: bool

record scope =
  sc_id :: nat
  sc_parent :: "nat option"
  sc_type :: "string option"
  sc_bindings :: "(jstr, binding) obj"
  sc_usages :: "(jstr, usage) obj"
  sc_labels :: "(jstr, nat) obj"
  sc_params :: "jstr list option"
  sc_isFuncBody :: bool

text \<open>
  What the manager emits, in order: the warnings (a token, a position or nothing), and the
  names it adds to \<open>(outerMutables)\<close> of the current functor.
\<close>

datatype token_ref = Tok nat | Pos nat nat | NoTok

datatype scope_event =
    SWarning string token_ref "jstr list"
  | SOuterMutable jstr

text \<open>
  The manager: the variables of the factory function. \<open>g_crashed\<close> says that the source has
  thrown a \<open>TypeError\<close> (a field of \<open>undefined\<close> was used).
\<close>

record manager =
  g_scopes :: "scope list"
  g_functBody :: "nat option"
  g_next :: nat
  g_toks :: "nat \<Rightarrow> stoken"
  g_predefined :: "(jstr, jsval) obj"
  g_exported :: "(jstr, bool) obj"
  g_declared :: "(jstr, nat) obj"
  g_used :: "(jstr, unit) obj"
  g_implied :: "(jstr, nat list) obj"
  g_unuseds :: "(jstr \<times> nat \<times> nat) list"
  g_modExports :: "jstr list"
  g_events :: "scope_event list"
  g_crashed :: bool

text \<open>
  What the manager reads of the global \<open>state\<close>: the linter state, of the current functor the
  fields \<open>(unusedOption)\<close>, \<open>(hasSimpleParams)\<close> and \<open>(method)\<close>, and the token \<open>state.tokens.next\<close>.
\<close>

record scope_env =
  e_state :: lstate
  e_unusedOption :: jsval
  e_simpleParams :: bool
  e_method :: bool
  e_next :: nat

section \<open>Small steps\<close>

definition emit :: "scope_event \<Rightarrow> manager \<Rightarrow> manager" where
  "emit e G = G\<lparr>g_events := g_events G @ [e]\<rparr>"

abbreviation warn :: "string \<Rightarrow> nat \<Rightarrow> jstr list \<Rightarrow> manager \<Rightarrow> manager" where
  "warn code t data \<equiv> emit (SWarning code (Tok t) data)"

definition crash :: "manager \<Rightarrow> manager" where
  "crash G = G\<lparr>g_crashed := True\<rparr>"

definition new_scope :: "string option \<Rightarrow> nat \<Rightarrow> nat option \<Rightarrow> scope" where
  "new_scope ty i p =
     \<lparr>sc_id = i, sc_parent = p, sc_type = ty, sc_bindings = [], sc_usages = [], sc_labels = [],
      sc_params = (if ty = Some ''functionparams'' \<or> ty = Some ''catchparams'' then Some [] else None),
      sc_isFuncBody = False\<rparr>"

definition newScope :: "string option \<Rightarrow> manager \<Rightarrow> manager" where
  "newScope ty G =
     (let p = (case g_scopes G of [] \<Rightarrow> None | c # _ \<Rightarrow> Some (sc_id c)) in
      G\<lparr>g_scopes := new_scope ty (g_next G) p # g_scopes G, g_next := Suc (g_next G)\<rparr>)"

definition scopeManager ::
  "(jstr, jsval) obj \<Rightarrow> (jstr, bool) obj \<Rightarrow> (jstr, nat) obj \<Rightarrow> (nat \<Rightarrow> stoken) \<Rightarrow> manager" where
  "scopeManager predefined exported declared toks =
     (newScope (Some ''global'')
        \<lparr>g_scopes = [], g_functBody = None, g_next = 0, g_toks = toks, g_predefined = predefined,
         g_exported = exported, g_declared = declared, g_used = [], g_implied = [],
         g_unuseds = [], g_modExports = [], g_events = [], g_crashed = False\<rparr>)
       \<lparr>g_functBody := Some 0\<rparr>"

text \<open>An update of the current scope, and an operation that needs one.\<close>

definition upd_cur :: "(scope \<Rightarrow> scope) \<Rightarrow> manager \<Rightarrow> manager" where
  "upd_cur f G = (case g_scopes G of [] \<Rightarrow> crash G | c # r \<Rightarrow> G\<lparr>g_scopes := f c # r\<rparr>)"

definition upd_binding :: "jstr \<Rightarrow> (binding \<Rightarrow> binding) \<Rightarrow> scope \<Rightarrow> scope" where
  "upd_binding name f c = c\<lparr>sc_bindings := obj_upd (sc_bindings c) name f\<rparr>"

definition upd_usage :: "jstr \<Rightarrow> (usage \<Rightarrow> usage) \<Rightarrow> scope \<Rightarrow> scope" where
  "upd_usage name f c = c\<lparr>sc_usages := obj_upd (sc_usages c) name f\<rparr>"

definition upd_tok :: "nat \<Rightarrow> (stoken \<Rightarrow> stoken) \<Rightarrow> manager \<Rightarrow> manager" where
  "upd_tok t f G = G\<lparr>g_toks := (g_toks G)(t := f (g_toks G t))\<rparr>"

definition empty_usage :: usage where
  "empty_usage = \<lparr>u_modified = [], u_reassigned = [], u_tokens = [], u_onlySub = False\<rparr>"

definition setupUsages :: "jstr \<Rightarrow> scope \<Rightarrow> scope" where
  "setupUsages name c =
     (if obj_has (sc_usages c) name then c
      else c\<lparr>sc_usages := obj_put (sc_usages c) name empty_usage\<rparr>)"

section \<open>Lookups\<close>

definition binds :: "jstr \<Rightarrow> scope \<Rightarrow> bool" where
  "binds name c = obj_has (sc_bindings c) name"

fun getBinding :: "jstr \<Rightarrow> scope list \<Rightarrow> binding option" where
  "getBinding name [] = None"
| "getBinding name (c # r) =
     (case obj_get (sc_bindings c) name of Some b \<Rightarrow> Some b | None \<Rightarrow> getBinding name r)"

definition has :: "jstr \<Rightarrow> manager \<Rightarrow> bool" where
  "has name G \<longleftrightarrow> getBinding name (g_scopes G) \<noteq> None"

definition bindingtype :: "jstr \<Rightarrow> manager \<Rightarrow> string option" where
  "bindingtype name G = map_option b_type (getBinding name (g_scopes G))"

definition isPredefined :: "jstr \<Rightarrow> manager \<Rightarrow> bool" where
  "isPredefined name G \<longleftrightarrow> \<not> has name G \<and> obj_has (g_predefined G) name"

text \<open>\<open>_currentFunctBody\<close> and its parent.\<close>

definition scope_by_id :: "nat option \<Rightarrow> scope list \<Rightarrow> scope option" where
  "scope_by_id i cs = (case i of None \<Rightarrow> None | Some n \<Rightarrow> find (\<lambda>c. sc_id c = n) cs)"

definition body_scope :: "manager \<Rightarrow> scope option" where
  "body_scope G = scope_by_id (g_functBody G) (g_scopes G)"

definition param_scope :: "manager \<Rightarrow> scope option" where
  "param_scope G =
     (case body_scope G of None \<Rightarrow> None | Some b \<Rightarrow> scope_by_id (sc_parent b) (g_scopes G))"

definition body_is_global :: "manager \<Rightarrow> bool" where
  "body_is_global G \<longleftrightarrow> (case body_scope G of None \<Rightarrow> False | Some b \<Rightarrow> sc_type b = Some ''global'')"

definition is_params :: "scope \<Rightarrow> bool" where
  "is_params c \<longleftrightarrow> sc_type c = Some ''functionparams''"

text \<open>\<open>usedSoFarInCurrentFunction\<close> as a condition: down to the function's body, inclusively.\<close>

fun usedSoFar :: "nat option \<Rightarrow> jstr \<Rightarrow> scope list \<Rightarrow> bool" where
  "usedSoFar body name [] = False"
| "usedSoFar body name (c # r) =
     (if obj_has (sc_usages c) name then True
      else if body = Some (sc_id c) then False
      else usedSoFar body name r)"

text \<open>
  \<open>funct.bindingtype\<close> from the given scopes on: the search stops at the parameters of the
  function, which \<open>excludeParams\<close> leaves out.
\<close>

fun funct_bindingtype :: "bool \<Rightarrow> bool \<Rightarrow> jstr \<Rightarrow> scope list \<Rightarrow> string option" where
  "funct_bindingtype onlyBlockscoped excludeParams name [] = None"
| "funct_bindingtype onlyBlockscoped excludeParams name (c # r) =
     (case obj_get (sc_bindings c) name of
        Some b \<Rightarrow>
          if \<not> onlyBlockscoped \<or> b_blockscoped b then Some (b_type b)
          else if (if excludeParams then (case r of [] \<Rightarrow> False | d # _ \<Rightarrow> is_params d) else is_params c)
            then None
          else funct_bindingtype onlyBlockscoped excludeParams name r
      | None \<Rightarrow>
          if (if excludeParams then (case r of [] \<Rightarrow> False | d # _ \<Rightarrow> is_params d) else is_params c)
            then None
          else funct_bindingtype onlyBlockscoped excludeParams name r)"

definition funct_has :: "bool \<Rightarrow> bool \<Rightarrow> jstr \<Rightarrow> scope list \<Rightarrow> bool" where
  "funct_has onlyBlockscoped excludeParams name cs \<longleftrightarrow>
     funct_bindingtype onlyBlockscoped excludeParams name cs \<noteq> None"

fun hasLabel :: "jstr \<Rightarrow> scope list \<Rightarrow> bool" where
  "hasLabel label [] = False"
| "hasLabel label (c # r) =
     (if obj_has (sc_labels c) label then True
      else if is_params c then False
      else hasLabel label r)"

definition isGlobal :: "manager \<Rightarrow> bool" where
  "isGlobal G = (case g_scopes G of [] \<Rightarrow> False | c # _ \<Rightarrow> sc_type c = Some ''global'')"

text \<open>The results of the run.\<close>

definition getUsedOrDefinedGlobals :: "manager \<Rightarrow> jstr list" where
  "getUsedOrDefinedGlobals G = obj_keys (g_used G)"

definition getImpliedGlobals :: "manager \<Rightarrow> (jstr \<times> nat list) list" where
  "getImpliedGlobals G = g_implied G"

definition getUnuseds :: "manager \<Rightarrow> (jstr \<times> nat \<times> nat) list" where
  "getUnuseds G = g_unuseds G"

end
