(* ===== verification/ScopeOps.thy ===== *)
theory ScopeOps
  imports Scope
begin

text \<open>
  The operations of the scope manager that change it (\<^verbatim>\<open>scope-manager.js\<close>), one definition per
  function of the source; the longer functions are split at their comments.
\<close>

section \<open>Reports\<close>

definition getUnusedOption :: "scope_env \<Rightarrow> jsval \<Rightarrow> jsval" where
  "getUnusedOption E opt =
     (let o1 = (if opt = JUndef then option (e_state E) ''unused'' else opt) in
      if o1 = JBool True then JStr (js ''last-param'') else o1)"

text \<open>\<open>warnable_types[unused_opt].indexOf(type) !== -1\<close>.\<close>

definition warnable :: "jsval \<Rightarrow> string \<Rightarrow> bool" where
  "warnable opt type \<longleftrightarrow>
     (opt = JStr (js ''vars'') \<and> type = ''var'') \<or>
     (opt = JStr (js ''last-param'') \<and> (type = ''var'' \<or> type = ''param'')) \<or>
     (opt = JStr (js ''strict'') \<and> (type = ''var'' \<or> type = ''param'' \<or> type = ''last-param''))"

definition warnUnused :: "scope_env \<Rightarrow> jstr \<Rightarrow> nat \<Rightarrow> string \<Rightarrow> jsval \<Rightarrow> manager \<Rightarrow> manager" where
  "warnUnused E name t type opt G =
     (let tkn = g_toks G t; u = getUnusedOption E opt;
          raw = (case t_raw_text tkn of Some (c # s) \<Rightarrow> c # s | _ \<Rightarrow> name);
          G1 = (if truthy u \<and> warnable u type
                then emit (SWarning ''W098'' (Pos (t_line tkn) (t_from tkn)) [raw]) G else G)
      in if truthy u \<or> type = ''var''
         then G1\<lparr>g_unuseds := g_unuseds G1 @ [(name, t_line tkn, t_from tkn)]\<rparr> else G1)"

text \<open>The parameters, from the last one to the first.\<close>

fun unused_params :: "scope_env \<Rightarrow> (jstr, binding) obj \<Rightarrow> jstr list \<Rightarrow> manager \<Rightarrow> manager" where
  "unused_params E bs [] G = G"
| "unused_params E bs (p # ps) G =
     (if p = [] \<or> p = js ''undefined'' then G
      else
        (case obj_get bs p of
           None \<Rightarrow> crash G
         | Some b \<Rightarrow>
             if b_unused b
             then unused_params E bs ps (warnUnused E p (b_token b) ''param'' (e_unusedOption E) G)
             else if getUnusedOption E (e_unusedOption E) = JStr (js ''last-param'') then G
             else unused_params E bs ps G))"

definition unused_binding :: "scope_env \<Rightarrow> (jstr \<times> binding) \<Rightarrow> manager \<Rightarrow> manager" where
  "unused_binding E nb G =
     (case nb of (name, b) \<Rightarrow>
        if b_type b \<noteq> ''exception'' \<and> b_unused b
        then warnUnused E name (b_token b) ''var'' JUndef G else G)"

definition checkForUnused :: "scope_env \<Rightarrow> manager \<Rightarrow> manager" where
  "checkForUnused E G =
     (case g_scopes G of
        [] \<Rightarrow> crash G
      | c # _ \<Rightarrow>
          if \<not> is_params c then fold (unused_binding E) (sc_bindings c) G
          else
            (case sc_params c of
               None \<Rightarrow> crash G
             | Some ps \<Rightarrow> unused_params E (sc_bindings c) (rev ps) G))"

text \<open>The loop of \<open>_checkOuterShadow\<close> over the scopes, the outermost first.\<close>

fun outer_shadow ::
  "bool \<Rightarrow> nat option \<Rightarrow> bool \<Rightarrow> jstr \<Rightarrow> nat \<Rightarrow> scope list \<Rightarrow> manager \<Rightarrow> manager" where
  "outer_shadow isNewFunction body outside name t [] G = G"
| "outer_shadow isNewFunction body outside name t (c # r) G =
     (let outside1 = (if \<not> isNewFunction \<and> r \<noteq> [] \<and> body = Some (sc_id (hd r)) then False else outside);
          G1 = (if outside1 \<and> binds name c then warn ''W123'' t [name] G else G);
          G2 = (if obj_has (sc_labels c) name then warn ''W123'' t [name] G1 else G1)
      in outer_shadow isNewFunction body outside1 name t r G2)"

definition checkOuterShadow :: "scope_env \<Rightarrow> jstr \<Rightarrow> nat \<Rightarrow> manager \<Rightarrow> manager" where
  "checkOuterShadow E name t G =
     (if option (e_state E) ''shadow'' \<noteq> JStr (js ''outer'') then G
      else
        (case g_scopes G of
           [] \<Rightarrow> crash G
         | c # _ \<Rightarrow>
             outer_shadow (is_params c) (g_functBody G) (\<not> body_is_global G) name t
               (rev (g_scopes G)) G))"

definition latedefWarning :: "scope_env \<Rightarrow> string \<Rightarrow> jstr \<Rightarrow> nat \<Rightarrow> manager \<Rightarrow> manager" where
  "latedefWarning E type name t G =
     (let o1 = option (e_state E) ''latedef'';
          isFunction = (type = ''function'' \<or> type = ''generator function'' \<or> type = ''async function'')
      in if truthy o1 \<and> ((o1 = JBool True \<and> isFunction) \<or> \<not> isFunction)
         then warn ''W003'' t [name] G else G)"

section \<open>Entering a scope\<close>

definition stack :: "string option \<Rightarrow> manager \<Rightarrow> manager" where
  "stack ty G =
     (case g_scopes G of
        [] \<Rightarrow> (if ty = None then crash (newScope ty G) else newScope ty G)
      | previous # _ \<Rightarrow>
          (let G1 = newScope ty G in
           if ty = None \<and> is_params previous
           then (upd_cur (\<lambda>c. c\<lparr>sc_isFuncBody := True\<rparr>) G1)\<lparr>g_functBody := Some (g_next G)\<rparr>
           else G1))"

section \<open>Leaving a scope\<close>

text \<open>A name that was used in the current scope \<open>c\<close> and is bound there.\<close>

definition out_of_scope :: "scope_env \<Rightarrow> jstr \<Rightarrow> binding \<Rightarrow> usage \<Rightarrow> manager \<Rightarrow> manager" where
  "out_of_scope E name b u G =
     (if b_outside b \<and> \<not> opt_on (e_state E) ''funcscope''
      then fold (\<lambda>t G. if b_function b = t_function (g_toks G t) then warn ''W038'' t [name] G else G)
             (u_tokens u) G
      else G)"

definition is_function_type :: "string \<Rightarrow> bool" where
  "is_function_type type \<longleftrightarrow>
     type = ''function'' \<or> type = ''generator function'' \<or> type = ''async function''"

definition used_local :: "scope_env \<Rightarrow> jstr \<Rightarrow> binding \<Rightarrow> usage \<Rightarrow> manager \<Rightarrow> manager" where
  "used_local E name b u G =
     (let G1 = out_of_scope E name b u G;
          G2 = upd_cur (upd_binding name (\<lambda>b. b\<lparr>b_unused := False\<rparr>)) G1;
          G3 = (if b_type b = ''const'' \<or> b_type b = ''import''
                then fold (\<lambda>t. warn ''E013'' t [name]) (u_modified u) G2 else G2)
      in if is_function_type (b_type b) \<or> b_type b = ''class''
         then fold (\<lambda>t G. if \<not> t_ignoreW021 (g_toks G t)
                          then warn ''W021'' t [name, js (b_type b)] G else G) (u_reassigned u) G3
         else G3)"

text \<open>A name that is not bound in the current scope is handed to the enclosing one.\<close>

definition merge_usage :: "bool \<Rightarrow> jstr \<Rightarrow> usage \<Rightarrow> scope \<Rightarrow> scope" where
  "merge_usage isBody name u s =
     (case obj_get (sc_usages s) name of
        None \<Rightarrow>
          s\<lparr>sc_usages := obj_put (sc_usages s) name (if isBody then u\<lparr>u_onlySub := True\<rparr> else u)\<rparr>
      | Some v \<Rightarrow>
          s\<lparr>sc_usages := obj_put (sc_usages s) name
             (v\<lparr>u_modified := u_modified v @ u_modified u, u_tokens := u_tokens v @ u_tokens u,
                u_reassigned := u_reassigned v @ u_reassigned u\<rparr>)\<rparr>)"

definition used_enclosing :: "bool \<Rightarrow> bool \<Rightarrow> jstr \<Rightarrow> usage \<Rightarrow> manager \<Rightarrow> manager" where
  "used_enclosing isBody isOuter name u G =
     (let bt = bindingtype name G;
          isImmutable = (bt = Some ''const'' \<or>
            (bt = None \<and> obj_get (g_predefined G) name = Some (JBool False)));
          G1 = (if isOuter \<and> \<not> isImmutable then emit (SOuterMutable name) G else G)
      in case g_scopes G1 of
           c # s # r \<Rightarrow> G1\<lparr>g_scopes := c # merge_usage isBody name u s # r\<rparr>
         | _ \<Rightarrow> G1)"

text \<open>A name that is not bound when the global scope is left.\<close>

definition report_undefined :: "scope_env \<Rightarrow> jstr \<Rightarrow> nat \<Rightarrow> manager \<Rightarrow> manager" where
  "report_undefined E name t G =
     (let tkn = g_toks G t in
      if t_forgiveUndef tkn then G
      else
        (let G1 = (if opt_on (e_state E) ''undef'' \<and> \<not> t_ignoreUndef tkn
                   then warn ''W117'' t [name] G else G)
         in G1\<lparr>g_implied := obj_put (g_implied G1) name
              ((case obj_get (g_implied G1) name of None \<Rightarrow> [] | Some ls \<Rightarrow> ls) @ [t_line tkn])\<rparr>))"

definition used_global :: "scope_env \<Rightarrow> jstr \<Rightarrow> usage \<Rightarrow> manager \<Rightarrow> manager" where
  "used_global E name u G =
     (case obj_get (g_predefined G) name of
        Some (JBool b) \<Rightarrow>
          (let G1 = G\<lparr>g_declared := obj_del (g_declared G) name, g_used := obj_put (g_used G) name ()\<rparr>
           in if \<not> b
              then fold (\<lambda>t G. if \<not> t_ignoreW020 (g_toks G t) then warn ''W020'' t [] G else G)
                     (u_reassigned u) G1
              else G1)
      | _ \<Rightarrow> fold (report_undefined E name) (u_tokens u) G)"

definition unstack_usage :: "scope_env \<Rightarrow> bool \<Rightarrow> bool \<Rightarrow> jstr \<Rightarrow> manager \<Rightarrow> manager" where
  "unstack_usage E isBody isOuter name G =
     (case g_scopes G of
        [] \<Rightarrow> G
      | c # r \<Rightarrow>
          (case obj_get (sc_usages c) name of
             None \<Rightarrow> G
           | Some u \<Rightarrow>
               (case obj_get (sc_bindings c) name of
                  Some b \<Rightarrow> used_local E name b u G
                | None \<Rightarrow>
                    if r \<noteq> [] then used_enclosing isBody isOuter name u G
                    else used_global E name u G)))"

definition unused_declared :: "scope_env \<Rightarrow> jstr \<Rightarrow> manager \<Rightarrow> manager" where
  "unused_declared E name G =
     (case obj_get (g_declared G) name of
        None \<Rightarrow> G | Some t \<Rightarrow> warnUnused E name t ''var'' JUndef G)"

text \<open>The hoisting of a binding into the enclosing block.\<close>

definition hoist :: "jstr \<Rightarrow> manager \<Rightarrow> manager" where
  "hoist name G =
     (case g_scopes G of
        c # s # r \<Rightarrow>
          (case obj_get (sc_bindings c) name of
             None \<Rightarrow> G
           | Some d \<Rightarrow>
               if b_blockscoped d \<or> b_type d = ''exception'' then G
               else
                 (let s1 = (case obj_get (sc_bindings s) name of
                        Some v \<Rightarrow> upd_binding name (\<lambda>v. v\<lparr>b_unused := b_unused v \<and> b_unused d\<rparr>) s
                      | None \<Rightarrow>
                          s\<lparr>sc_bindings := obj_put (sc_bindings s) name
                             (d\<lparr>b_outside := \<not> body_is_global G \<and> \<not> funct_has False False name (s # r)\<rparr>)\<rparr>)
                  in G\<lparr>g_scopes := c\<lparr>sc_bindings := obj_del (sc_bindings c) name\<rparr> # s1 # r\<rparr>))
      | _ \<Rightarrow> G)"

text \<open>The body of a function, or the global scope.\<close>

definition is_body :: "scope \<Rightarrow> bool" where
  "is_body c \<longleftrightarrow> sc_isFuncBody c \<or> sc_type c = Some ''global''"

definition leave_scope :: "bool \<Rightarrow> manager \<Rightarrow> manager" where
  "leave_scope isBody G =
     (let r = tl (g_scopes G) in
      G\<lparr>g_scopes := r,
        g_functBody := (if isBody
          then map_option sc_id (find is_body r)
          else g_functBody G)\<rparr>)"

definition unstack :: "scope_env \<Rightarrow> manager \<Rightarrow> manager" where
  "unstack E G =
     (case g_scopes G of
        [] \<Rightarrow> crash G
      | c # r \<Rightarrow>
          (let isBody = (g_functBody G = Some (sc_id c));
               isOuter = (sc_type c = Some ''functionouter'');
               G1 = fold (unstack_usage E isBody isOuter) (obj_keys (sc_usages c)) G;
               G2 = (if r = [] then fold (unused_declared E) (obj_keys (g_declared G1)) G1 else G1);
               G3 = (if r \<noteq> [] \<and> \<not> isBody \<and> \<not> is_params c \<and> \<not> isOuter
                     then fold hoist (obj_keys (sc_bindings c)) G2 else G2)
           in leave_scope isBody (checkForUnused E G3)))"

end
