(* ===== verification/ScopeDecl.thy ===== *)
theory ScopeDecl
  imports ScopeOps
begin

text \<open>
  The operations of the scope manager that declare and use names (\<^verbatim>\<open>scope-manager.js\<close>), and
  its interface: the calls that change it.
\<close>

section \<open>Using names\<close>

definition body_binding :: "nat option \<Rightarrow> jstr \<Rightarrow> (binding \<Rightarrow> binding) \<Rightarrow> manager \<Rightarrow> manager" where
  "body_binding i name f G =
     G\<lparr>g_scopes := map (\<lambda>c. if i = Some (sc_id c) then upd_binding name f c else c) (g_scopes G)\<rparr>"

text \<open>The part of \<open>block.use\<close> about the parameters of the current function.\<close>

definition use_param :: "jstr \<Rightarrow> manager \<Rightarrow> manager" where
  "use_param name G =
     (case param_scope G of
        None \<Rightarrow> G
      | Some p \<Rightarrow>
          (case obj_get (sc_bindings p) name of
             None \<Rightarrow> G
           | Some b \<Rightarrow>
               if b_type b = ''param'' \<and> \<not> funct_has True True name (g_scopes G)
               then body_binding (Some (sc_id p)) name (\<lambda>b. b\<lparr>b_unused := False\<rparr>) G
               else G))"

definition tok_ref :: "nat option \<Rightarrow> token_ref" where
  "tok_ref t = (case t of None \<Rightarrow> NoTok | Some n \<Rightarrow> Tok n)"

text \<open>The temporal dead zone: a block-scoped binding used before it is initialized.\<close>

definition check_tdz :: "jstr \<Rightarrow> nat option \<Rightarrow> manager \<Rightarrow> manager" where
  "check_tdz name t G =
     (case g_scopes G of
        [] \<Rightarrow> G
      | c # _ \<Rightarrow>
          (case obj_get (sc_bindings c) name of
             None \<Rightarrow> G
           | Some b \<Rightarrow>
               if b_blockscoped b \<and> \<not> b_initialized b
               then emit (SWarning ''E056'' (tok_ref t) [name, js (b_type b)]) G else G))"

definition block_use :: "scope_env \<Rightarrow> jstr \<Rightarrow> nat option \<Rightarrow> manager \<Rightarrow> manager" where
  "block_use E name t G =
     (let G1 = use_param name G;
          G2 = (case t of
                  Some n \<Rightarrow>
                    (if ignored (e_state E) ''W117'' \<or> option (e_state E) ''undef'' = JBool False
                     then upd_tok n (\<lambda>k. k\<lparr>t_ignoreUndef := True\<rparr>) G1 else G1)
                | None \<Rightarrow> G1);
          G3 = upd_cur (\<lambda>c. upd_usage name (\<lambda>u. u\<lparr>u_onlySub := False\<rparr>) (setupUsages name c)) G2;
          G4 = (case t of
                  Some n \<Rightarrow>
                    upd_cur (upd_usage name (\<lambda>u. u\<lparr>u_tokens := u_tokens u @ [n]\<rparr>))
                      (upd_tok n (\<lambda>k. k\<lparr>t_function := g_functBody G3\<rparr>) G3)
                | None \<Rightarrow> G3)
      in check_tdz name t G4)"

definition block_modify :: "jstr \<Rightarrow> nat \<Rightarrow> manager \<Rightarrow> manager" where
  "block_modify name t G =
     upd_cur (\<lambda>c. upd_usage name (\<lambda>u. u\<lparr>u_onlySub := False, u_modified := u_modified u @ [t]\<rparr>)
                   (setupUsages name c)) G"

definition block_reassign :: "scope_env \<Rightarrow> jstr \<Rightarrow> nat \<Rightarrow> manager \<Rightarrow> manager" where
  "block_reassign E name t G =
     (let G1 = upd_tok t (\<lambda>k. k\<lparr>t_ignoreW020 := ignored (e_state E) ''W020'',
                                t_ignoreW021 := ignored (e_state E) ''W021''\<rparr>) G
      in upd_cur (upd_usage name (\<lambda>u. u\<lparr>u_reassigned := u_reassigned u @ [t]\<rparr>))
           (block_modify name t G1))"

section \<open>Declaring names\<close>

definition put_binding :: "jstr \<Rightarrow> binding \<Rightarrow> scope \<Rightarrow> scope" where
  "put_binding name b c = c\<lparr>sc_bindings := obj_put (sc_bindings c) name b\<rparr>"

definition funct_add :: "jstr \<Rightarrow> string \<Rightarrow> nat \<Rightarrow> bool \<Rightarrow> manager \<Rightarrow> manager" where
  "funct_add name type t unused G =
     upd_cur (put_binding name
       \<lparr>b_type = type, b_token = t, b_unused = unused, b_initialized = False, b_blockscoped = False,
        b_function = g_functBody G, b_outside = False, b_duplicated = False\<rparr>) G"

definition block_add :: "jstr \<Rightarrow> string \<Rightarrow> nat \<Rightarrow> bool \<Rightarrow> bool \<Rightarrow> manager \<Rightarrow> manager" where
  "block_add name type t unused initialized G =
     upd_cur (put_binding name
       \<lparr>b_type = type, b_token = t, b_unused = unused, b_initialized = initialized,
        b_blockscoped = True, b_function = None, b_outside = False, b_duplicated = False\<rparr>) G"

definition is_restricted :: "jstr \<Rightarrow> bool" where
  "is_restricted name \<longleftrightarrow> name = js ''arguments'' \<or> name = js ''eval''"

text \<open>The checks \<open>addParam\<close> makes for the parameter of a \<open>catch\<close>.\<close>

definition check_exception :: "scope_env \<Rightarrow> jstr \<Rightarrow> nat \<Rightarrow> manager \<Rightarrow> manager" where
  "check_exception E name t G =
     (let earlier = funct_bindingtype False False name (g_scopes G);
          G1 = (if earlier \<noteq> None \<and> earlier \<noteq> Some ''exception'' \<and> \<not> opt_on (e_state E) ''node''
                then warn ''W002'' (e_next E) [name] G else G)
      in if isStrict (e_state E) \<and> is_restricted name then warn ''E008'' t [] G1 else G1)"

definition declare_param :: "scope_env \<Rightarrow> jstr \<Rightarrow> nat \<Rightarrow> string \<Rightarrow> manager \<Rightarrow> manager" where
  "declare_param E name t type G =
     (case g_scopes G of
        [] \<Rightarrow> crash G
      | c # _ \<Rightarrow>
          if binds name c then upd_cur (upd_binding name (\<lambda>b. b\<lparr>b_duplicated := True\<rparr>)) G
          else
            (let G1 = upd_cur (put_binding name
                   \<lparr>b_type = type, b_token = t, b_unused = True, b_initialized = False,
                    b_blockscoped = False, b_function = None, b_outside = False,
                    b_duplicated = False\<rparr>) (checkOuterShadow E name t G)
             in case sc_params c of
                  None \<Rightarrow> crash G1
                | Some ps \<Rightarrow> upd_cur (\<lambda>c. c\<lparr>sc_params := Some (ps @ [name])\<rparr>) G1))"

definition addParam :: "scope_env \<Rightarrow> jstr \<Rightarrow> nat \<Rightarrow> string option \<Rightarrow> manager \<Rightarrow> manager" where
  "addParam E name t type0 G =
     (let type = (case type0 of None \<Rightarrow> ''param'' | Some ty \<Rightarrow> ty);
          G1 = (if type = ''exception'' then check_exception E name t G else G);
          G2 = declare_param E name t type G1
      in case g_scopes G2 of
           [] \<Rightarrow> crash G2
         | c # _ \<Rightarrow>
             (case obj_get (sc_usages c) name of
                None \<Rightarrow> G2
              | Some u \<Rightarrow>
                  if u_onlySub u then latedefWarning E type name t G2
                  else warn ''W003'' t [name] G2))"

definition validate_param :: "scope_env \<Rightarrow> bool \<Rightarrow> (jstr, binding) obj \<Rightarrow> jstr \<Rightarrow> manager \<Rightarrow> manager" where
  "validate_param E isArrow bs name G =
     (case obj_get bs name of
        None \<Rightarrow> crash G
      | Some b \<Rightarrow>
          (let G1 = (if b_duplicated b then
                 (if isStrict (e_state E) \<or> isArrow \<or> e_method E \<or> \<not> e_simpleParams E
                  then warn ''E011'' (b_token b) [name] G
                  else if option (e_state E) ''shadow'' \<noteq> JBool True
                  then warn ''W004'' (b_token b) [name] G
                  else G)
               else G)
           in if isStrict (e_state E) \<and> is_restricted name then warn ''E008'' (b_token b) [] G1 else G1))"

definition validateParams :: "scope_env \<Rightarrow> bool \<Rightarrow> manager \<Rightarrow> manager" where
  "validateParams E isArrow G =
     (case param_scope G of
        None \<Rightarrow> crash G
      | Some p \<Rightarrow>
          (case sc_params p of
             None \<Rightarrow> G
           | Some ps \<Rightarrow> fold (validate_param E isArrow (sc_bindings p)) ps G))"

text \<open>The loop of \<open>addExported\<close> over the blocks above the global scope, the outermost first.\<close>

fun exported_block :: "jstr \<Rightarrow> scope list \<Rightarrow> nat option" where
  "exported_block name [] = None"
| "exported_block name (c # r) =
     (if sc_type c = None then
        (case obj_get (sc_bindings c) name of
           Some b \<Rightarrow> if \<not> b_blockscoped b then Some (sc_id c) else exported_block name r
         | None \<Rightarrow> exported_block name r)
      else None)"

definition addExported :: "jstr \<Rightarrow> manager \<Rightarrow> manager" where
  "addExported name G =
     (case rev (g_scopes G) of
        [] \<Rightarrow> crash G
      | global # rest \<Rightarrow>
          if obj_has (g_declared G) name then G\<lparr>g_declared := obj_del (g_declared G) name\<rparr>
          else if binds name global
            then body_binding (Some (sc_id global)) name (\<lambda>b. b\<lparr>b_unused := False\<rparr>) G
          else
            (case exported_block name rest of
               Some i \<Rightarrow> body_binding (Some i) name (\<lambda>b. b\<lparr>b_unused := False\<rparr>) G
             | None \<Rightarrow> G\<lparr>g_exported := obj_put (g_exported G) name True\<rparr>))"

text \<open>The arguments of \<open>setExported\<close> are tokens (a value and the token) or \<open>null\<close>.\<close>

definition setExported ::
  "scope_env \<Rightarrow> (jstr \<times> nat) option \<Rightarrow> (jstr \<times> nat) option \<Rightarrow> manager \<Rightarrow> manager" where
  "setExported E localName exportName G =
     (let G1 = (case exportName of
            None \<Rightarrow> G
          | Some (v, t) \<Rightarrow>
              (let G0 = (if List.member (g_modExports G) v then warn ''E069'' t [v] G else G)
               in G0\<lparr>g_modExports := g_modExports G0 @ [v]\<rparr>))
      in case localName of None \<Rightarrow> G1 | Some (v, t) \<Rightarrow> block_use E v (Some t) G1)"

definition initialize :: "jstr \<Rightarrow> manager \<Rightarrow> manager" where
  "initialize name G = upd_cur (upd_binding name (\<lambda>b. b\<lparr>b_initialized := True\<rparr>)) G"

definition is_blockscoped :: "string \<Rightarrow> bool" where
  "is_blockscoped type \<longleftrightarrow>
     type = ''let'' \<or> type = ''const'' \<or> type = ''class'' \<or> type = ''import'' \<or>
     type = ''generator function'' \<or> type = ''async function'' \<or> type = ''async generator function''"

definition is_hoisted :: "string \<Rightarrow> bool" where
  "is_hoisted type \<longleftrightarrow>
     type = ''function'' \<or> type = ''generator function'' \<or> type = ''async function'' \<or> type = ''import''"

text \<open>\<open>declaredInCurrentScope\<close>; \<open>None\<close> when the source throws.\<close>

definition declaredInCurrentScope :: "jstr \<Rightarrow> scope \<Rightarrow> manager \<Rightarrow> bool option" where
  "declaredInCurrentScope name c G =
     (if binds name c then Some True
      else if g_functBody G = Some (sc_id c) \<and> sc_type c \<noteq> Some ''global'' then
        (case param_scope G of None \<Rightarrow> None | Some p \<Rightarrow> Some (binds name p))
      else Some False)"

definition addbinding_block ::
  "scope_env \<Rightarrow> jstr \<Rightarrow> string \<Rightarrow> nat \<Rightarrow> bool \<Rightarrow> bool \<Rightarrow> manager \<Rightarrow> manager" where
  "addbinding_block E name type t initialized isexported G =
     (case g_scopes G of
        [] \<Rightarrow> crash G
      | c # _ \<Rightarrow>
          (case declaredInCurrentScope name c G of
             None \<Rightarrow> crash G
           | Some declared \<Rightarrow>
               (let ishoisted = is_hoisted type;
                    G1 = (case obj_get (sc_usages c) name of
                        Some u \<Rightarrow>
                          if declared then G
                          else if u_onlySub u \<or> ishoisted then latedefWarning E type name t G
                          else warn ''E056'' t [name, js type] G
                      | None \<Rightarrow> G);
                    G2 = (if declared \<and> (\<not> ishoisted \<or> sc_type c \<noteq> Some ''global'' \<or> type = ''import'')
                          then warn ''E011'' t [name] G1
                          else if option (e_state E) ''shadow'' = JStr (js ''outer'') \<and>
                                  funct_has False False name (g_scopes G)
                          then warn ''W004'' t [name] G1 else G1)
                in block_add name type t (\<not> isexported) initialized G2)))"

definition addbinding_funct :: "scope_env \<Rightarrow> jstr \<Rightarrow> string \<Rightarrow> nat \<Rightarrow> bool \<Rightarrow> manager \<Rightarrow> manager" where
  "addbinding_funct E name type t isexported G =
     (let declared = funct_has False False name (g_scopes G);
          G1 = (if \<not> declared \<and> usedSoFar (g_functBody G) name (g_scopes G)
                then latedefWarning E type name t G else G);
          G2 = (if funct_has True False name (g_scopes G) then warn ''E011'' t [name] G1
                else if option (e_state E) ''shadow'' \<noteq> JBool True \<and> declared \<and>
                        name \<noteq> js ''__proto__'' \<and> \<not> body_is_global G
                then warn ''W004'' t [name] G1 else G1);
          G3 = funct_add name type t (\<not> isexported) G2
      in if body_is_global G \<and> \<not> impliedClosure (e_state E)
         then G3\<lparr>g_used := obj_put (g_used G3) name ()\<rparr> else G3)"

definition addbinding :: "scope_env \<Rightarrow> jstr \<Rightarrow> string \<Rightarrow> nat \<Rightarrow> bool \<Rightarrow> manager \<Rightarrow> manager" where
  "addbinding E name type t initialized G =
     (let isblock = is_blockscoped type;
          isexported = ((if isblock then isGlobal G else body_is_global G) \<and> obj_has (g_exported G) name);
          G1 = checkOuterShadow E name t G;
          G2 = (if isStrict (e_state E) \<and> is_restricted name then warn ''E008'' t [] G1 else G1)
      in if isblock then addbinding_block E name type t initialized isexported G2
         else addbinding_funct E name type t isexported G2)"

definition addLabel :: "scope_env \<Rightarrow> jstr \<Rightarrow> nat \<Rightarrow> manager \<Rightarrow> manager" where
  "addLabel E label t G =
     (let G1 = (if hasLabel label (g_scopes G) then warn ''E011'' t [label] G
                else if option (e_state E) ''shadow'' = JStr (js ''outer'') then
                  (if funct_has False False label (g_scopes G) then warn ''W004'' t [label] G
                   else checkOuterShadow E label t G)
                else G)
      in upd_cur (\<lambda>c. c\<lparr>sc_labels := obj_put (sc_labels c) label t\<rparr>) G1)"

section \<open>The interface of the manager\<close>

text \<open>
  Everything that changes the manager: the functions of the object \<open>scopeManager\<close> returns, with those
  of its \<open>block\<close> and \<open>funct\<close>, the flag the parser sets on the operand of \<open>typeof\<close> and \<open>delete\<close>,
  and the globals that directives in comments add.
\<close>

datatype manager_call =
    OStack "string option"
  | OUnstack
  | OAddParam jstr nat "string option"
  | OValidateParams bool
  | OAddExported jstr
  | OSetExported "(jstr \<times> nat) option" "(jstr \<times> nat) option"
  | OInitialize jstr
  | OAddbinding jstr string nat bool
  | OFunctAdd jstr string nat bool
  | OBlockAdd jstr string nat bool bool
  | OUse jstr "nat option"
  | OReassign jstr nat
  | OModify jstr nat
  | OAddLabel jstr nat
  | OForgive nat
  | OPredefine jstr jsval
  | ODeclare jstr nat

fun scope_step :: "scope_env \<Rightarrow> manager_call \<Rightarrow> manager \<Rightarrow> manager" where
  "scope_step E (OStack ty) G = stack ty G"
| "scope_step E OUnstack G = unstack E G"
| "scope_step E (OAddParam name t ty) G = addParam E name t ty G"
| "scope_step E (OValidateParams a) G = validateParams E a G"
| "scope_step E (OAddExported name) G = addExported name G"
| "scope_step E (OSetExported l x) G = setExported E l x G"
| "scope_step E (OInitialize name) G = initialize name G"
| "scope_step E (OAddbinding name ty t i) G = addbinding E name ty t i G"
| "scope_step E (OFunctAdd name ty t u) G = funct_add name ty t u G"
| "scope_step E (OBlockAdd name ty t u i) G = block_add name ty t u i G"
| "scope_step E (OUse name t) G = block_use E name t G"
| "scope_step E (OReassign name t) G = block_reassign E name t G"
| "scope_step E (OModify name t) G = block_modify name t G"
| "scope_step E (OAddLabel label t) G = addLabel E label t G"
| "scope_step E (OForgive t) G = upd_tok t (\<lambda>k. k\<lparr>t_forgiveUndef := True\<rparr>) G"
| "scope_step E (OPredefine name v) G = G\<lparr>g_predefined := obj_put (g_predefined G) name v\<rparr>"
| "scope_step E (ODeclare name t) G = G\<lparr>g_declared := obj_put (g_declared G) name t\<rparr>"

end
