(* ===== verification/ScopeInv.thy ===== *)
theory ScopeInv
  imports ScopeDecl
begin

text \<open>
  The well-formedness of the scope stack (the scopes are linked to their parents, and
  \<open>_currentFunctBody\<close> is the innermost function body or the global scope), and the locale
  \<open>scope_relation\<close> for the operations that only fill the tables of the scopes that are there:
  every such operation relates each scope to its successor.
\<close>

section \<open>Well-formed managers\<close>

text \<open>
  A scope has a list of parameters exactly in the two parameter scopes, and binds those of a
  function; a function's body has no type; the tables have no name twice.
\<close>

definition scope_ok :: "scope \<Rightarrow> bool" where
  "scope_ok c \<longleftrightarrow>
     (sc_params c \<noteq> None \<longleftrightarrow> sc_type c = Some ''functionparams'' \<or> sc_type c = Some ''catchparams'') \<and>
     (sc_isFuncBody c \<longrightarrow> sc_type c = None) \<and> obj_ok (sc_bindings c) \<and> obj_ok (sc_usages c) \<and>
     (is_params c \<longrightarrow> (case sc_params c of None \<Rightarrow> False | Some ps \<Rightarrow> list_all (\<lambda>p. binds p c) ps))"

text \<open>The stack from its top: every scope is linked to the next, the last one is the global scope.\<close>

fun chain_ok :: "scope list \<Rightarrow> bool" where
  "chain_ok [] = False"
| "chain_ok [g] = (sc_type g = Some ''global'' \<and> sc_parent g = None \<and> \<not> sc_isFuncBody g)"
| "chain_ok (c # d # r) =
     (sc_parent c = Some (sc_id d) \<and> sc_type c \<noteq> Some ''global'' \<and>
      (sc_isFuncBody c \<longrightarrow> is_params d) \<and> chain_ok (d # r))"

definition wf_manager :: "manager \<Rightarrow> bool" where
  "wf_manager G \<longleftrightarrow> \<not> g_crashed G \<and> chain_ok (g_scopes G) \<and> list_all scope_ok (g_scopes G) \<and>
     distinct (map sc_id (g_scopes G)) \<and> list_all (\<lambda>c. sc_id c < g_next G) (g_scopes G) \<and>
     g_functBody G = map_option sc_id (find is_body (g_scopes G))"

lemma chain_not_Nil: "chain_ok cs \<Longrightarrow> cs \<noteq> []"
  by auto

lemma wf_not_Nil: "wf_manager G \<Longrightarrow> g_scopes G \<noteq> []"
  by (auto simp: wf_manager_def)

section \<open>Operations that keep the stack\<close>

text \<open>
  Most operations only fill the tables of scopes that are already there. \<open>same_scope\<close> relates
  such a scope before and after, \<open>lifts\<close> extends a relation of scopes to the managers.
\<close>

definition same_scope :: "scope \<Rightarrow> scope \<Rightarrow> bool" where
  "same_scope c c' \<longleftrightarrow> sc_id c' = sc_id c \<and> sc_parent c' = sc_parent c \<and> sc_type c' = sc_type c \<and>
     sc_isFuncBody c' = sc_isFuncBody c \<and> (scope_ok c \<longrightarrow> scope_ok c')"

definition lifts :: "(scope \<Rightarrow> scope \<Rightarrow> bool) \<Rightarrow> manager \<Rightarrow> manager \<Rightarrow> bool" where
  "lifts R G G' \<longleftrightarrow> list_all2 R (g_scopes G) (g_scopes G') \<and>
     g_functBody G' = g_functBody G \<and> g_next G' = g_next G \<and> g_crashed G' = g_crashed G"

abbreviation keeps :: "manager \<Rightarrow> manager \<Rightarrow> bool" where
  "keeps \<equiv> lifts same_scope"

lemma same_scope_refl [simp]: "same_scope c c"
  by (simp add: same_scope_def)

lemma same_scope_trans: "same_scope a b \<Longrightarrow> same_scope b c \<Longrightarrow> same_scope a c"
  by (auto simp: same_scope_def)

lemma same_scopeD:
  "same_scope c c' \<Longrightarrow> sc_id c' = sc_id c" "same_scope c c' \<Longrightarrow> sc_type c' = sc_type c"
  "same_scope c c' \<Longrightarrow> is_params c' = is_params c" "same_scope c c' \<Longrightarrow> is_body c' = is_body c"
  by (auto simp: same_scope_def is_params_def is_body_def)

lemma chain_ok_same: "chain_ok cs \<Longrightarrow> list_all2 same_scope cs cs' \<Longrightarrow> chain_ok cs'"
proof (induction cs arbitrary: cs' rule: chain_ok.induct)
  case (3 c d r)
  from "3.prems"(2) obtain c' d' r' where cs': "cs' = c' # d' # r'" and s: "same_scope c c'" "same_scope d d'"
    and r: "list_all2 same_scope (d # r) (d' # r')"
    by (auto simp: list_all2_Cons1)
  from "3.prems"(1) "3.IH" [OF _ r] s show ?case
    by (auto simp: cs' same_scope_def is_params_def)
qed (auto simp: list_all2_Cons1 same_scope_def)

lemma list_same_fields:
  "list_all2 same_scope cs cs' \<Longrightarrow> map sc_id cs' = map sc_id cs"
  "list_all2 same_scope cs cs' \<Longrightarrow> list_all scope_ok cs \<Longrightarrow> list_all scope_ok cs'"
  "list_all2 same_scope cs cs' \<Longrightarrow> map_option sc_id (find is_body cs') = map_option sc_id (find is_body cs)"
  by (induction rule: list_all2_induct) (auto simp: same_scope_def is_body_def)

lemma wf_keeps:
  assumes "wf_manager G" "keeps G G'"
  shows "wf_manager G'"
proof -
  have l: "list_all2 same_scope (g_scopes G) (g_scopes G')" using assms(2) by (simp add: lifts_def)
  have ids: "list_all (\<lambda>c. sc_id c < n) cs = list_all (\<lambda>i. i < n) (map sc_id cs)" for n cs
    by (simp add: list_all_iff)
  show ?thesis
    using assms list_same_fields [OF l] chain_ok_same [OF _ l]
    by (simp add: wf_manager_def lifts_def ids)
qed

text \<open>Updates of fields that \<open>lifts\<close> does not look at.\<close>

lemma lifts_fields [simp]:
  "lifts R G (emit e G') \<longleftrightarrow> lifts R G G'"
  "lifts R G (upd_tok t f G') \<longleftrightarrow> lifts R G G'"
  "lifts R G (G'\<lparr>g_unuseds := us\<rparr>) \<longleftrightarrow> lifts R G G'"
  "lifts R G (G'\<lparr>g_implied := im\<rparr>) \<longleftrightarrow> lifts R G G'"
  "lifts R G (G'\<lparr>g_used := ud\<rparr>) \<longleftrightarrow> lifts R G G'"
  "lifts R G (G'\<lparr>g_declared := d\<rparr>) \<longleftrightarrow> lifts R G G'"
  "lifts R G (G'\<lparr>g_declared := d, g_used := ud\<rparr>) \<longleftrightarrow> lifts R G G'"
  "lifts R G (G'\<lparr>g_exported := x\<rparr>) \<longleftrightarrow> lifts R G G'"
  "lifts R G (G'\<lparr>g_predefined := p\<rparr>) \<longleftrightarrow> lifts R G G'"
  "lifts R G (G'\<lparr>g_modExports := m\<rparr>) \<longleftrightarrow> lifts R G G'"
  by (simp_all add: lifts_def emit_def upd_tok_def)

lemma lifts_toks [simp]:
  "lifts R G (G'\<lparr>g_toks := ts\<rparr>) \<longleftrightarrow> lifts R G G'"
  "lifts R G (G'\<lparr>g_events := es\<rparr>) \<longleftrightarrow> lifts R G G'"
  by (simp_all add: lifts_def)

lemma emit_scopes [simp]:
  "g_scopes (emit e G) = g_scopes G" "g_toks (emit e G) = g_toks G"
  "g_functBody (emit e G) = g_functBody G" "g_predefined (emit e G) = g_predefined G"
  "g_crashed (emit e G) = g_crashed G" "g_events (emit e G) = g_events G @ [e]"
  "g_declared (emit e G) = g_declared G" "g_implied (emit e G) = g_implied G"
  "g_used (emit e G) = g_used G" "g_unuseds (emit e G) = g_unuseds G" "g_next (emit e G) = g_next G"
  "g_exported (emit e G) = g_exported G" "g_modExports (emit e G) = g_modExports G"
  by (simp_all add: emit_def)

lemma upd_tok_scopes [simp]:
  "g_scopes (upd_tok t f G) = g_scopes G" "g_functBody (upd_tok t f G) = g_functBody G"
  "g_events (upd_tok t f G) = g_events G" "g_crashed (upd_tok t f G) = g_crashed G"
  "g_predefined (upd_tok t f G) = g_predefined G" "g_next (upd_tok t f G) = g_next G"
  by (simp_all add: upd_tok_def)

lemma lifts_not_Nil: "lifts R G G' \<Longrightarrow> g_scopes G' = [] \<longleftrightarrow> g_scopes G = []"
  by (auto simp: lifts_def)

lemma lifts_Cons:
  assumes "lifts R G G'" "g_scopes G = c # r"
  obtains c' r' where "g_scopes G' = c' # r'" "R c c'" "list_all2 R r r'"
  using assms by (auto simp: lifts_def list_all2_Cons1)

text \<open>Tables that gain entries keep a scope in order.\<close>

lemma same_scope_bindings:
  "(\<And>n. binds n c \<Longrightarrow> obj_has bs n) \<Longrightarrow> (obj_ok (sc_bindings c) \<Longrightarrow> obj_ok bs) \<Longrightarrow>
     same_scope c (c\<lparr>sc_bindings := bs\<rparr>)"
  by (auto simp: same_scope_def scope_ok_def is_params_def binds_def list_all_iff split: option.splits)

lemma same_scope_usages:
  "(obj_ok (sc_usages c) \<Longrightarrow> obj_ok us) \<Longrightarrow> same_scope c (c\<lparr>sc_usages := us\<rparr>)"
  by (auto simp: same_scope_def scope_ok_def is_params_def binds_def split: option.splits)

lemma same_scope_simps [simp]:
  "same_scope c (upd_binding name f c)" "same_scope c (put_binding name b c)"
  "same_scope c (c\<lparr>sc_usages := obj_put (sc_usages c) name u\<rparr>)" "same_scope c (c\<lparr>sc_labels := ls\<rparr>)"
  by (auto simp: upd_binding_def put_binding_def binds_def obj.inv_put
      intro!: same_scope_bindings same_scope_usages)
    (auto simp: same_scope_def scope_ok_def is_params_def binds_def split: option.splits)

section \<open>The current function\<close>

text \<open>In a well-formed stack the scope below a function's body is its parameter scope.\<close>

lemma find_body_chain:
  "chain_ok cs \<Longrightarrow> find is_body cs = Some b \<Longrightarrow> sc_type b \<noteq> Some ''global'' \<Longrightarrow>
     \<exists>p. p \<in> set cs \<and> sc_parent b = Some (sc_id p) \<and> is_params p"
proof (induction cs rule: chain_ok.induct)
  case (3 c d r)
  then show ?case by (auto simp: is_body_def split: if_splits)
qed (auto simp: is_body_def split: if_splits)

lemma find_id:
  "distinct (map sc_id cs) \<Longrightarrow> p \<in> set cs \<Longrightarrow> find (\<lambda>c. sc_id c = sc_id p) cs = Some p"
  by (induction cs) (auto simp: image_iff)

lemma chain_has_body: "chain_ok cs \<Longrightarrow> find is_body cs \<noteq> None"
  by (induction cs rule: chain_ok.induct) (auto simp: is_body_def)

lemma body_scope_wf:
  assumes "wf_manager G"
  obtains b where "find is_body (g_scopes G) = Some b" "body_scope G = Some b" "b \<in> set (g_scopes G)"
proof -
  from assms chain_has_body obtain b where b: "find is_body (g_scopes G) = Some b"
    by (auto simp: wf_manager_def)
  then have mem: "b \<in> set (g_scopes G)" by (auto simp: find_Some_iff)
  have "body_scope G = Some b"
    using assms b find_id [OF _ mem] by (simp add: wf_manager_def body_scope_def scope_by_id_def)
  with b mem show ?thesis using that by blast
qed

lemma param_scope_wf:
  assumes "wf_manager G" "\<not> body_is_global G"
  obtains p where "param_scope G = Some p" "p \<in> set (g_scopes G)" "is_params p" "scope_ok p"
proof -
  obtain b where b: "find is_body (g_scopes G) = Some b" "body_scope G = Some b"
    using body_scope_wf [OF assms(1)] .
  with assms(2) have "sc_type b \<noteq> Some ''global''" by (simp add: body_is_global_def)
  with b assms(1) obtain p where p: "p \<in> set (g_scopes G)" "sc_parent b = Some (sc_id p)" "is_params p"
    using find_body_chain by (auto simp: wf_manager_def)
  have "param_scope G = Some p"
    using b p find_id [OF _ p(1)] assms(1)
    by (simp add: param_scope_def scope_by_id_def wf_manager_def)
  with p assms(1) show ?thesis by (auto simp: wf_manager_def list_all_iff intro: that)
qed

text \<open>\<open>_checkOuterShadow\<close> only reports: its effect on the manager is a list of warnings.\<close>

lemma outer_shadow_events:
  "\<exists>es. outer_shadow nf body outside name t cs G = G\<lparr>g_events := g_events G @ es\<rparr>"
proof (induction cs arbitrary: outside G)
  case Nil
  show ?case by (simp add: exI [of _ "[]"])
next
  case (Cons c r)
  define o1 where "o1 = (if \<not> nf \<and> r \<noteq> [] \<and> body = Some (sc_id (hd r)) then False else outside)"
  define es where "es = (if o1 \<and> binds name c then [SWarning ''W123'' (Tok t) [name]] else []) @
    (if obj_has (sc_labels c) name then [SWarning ''W123'' (Tok t) [name]] else [])"
  have "outer_shadow nf body outside name t (c # r) G =
      outer_shadow nf body o1 name t r (G\<lparr>g_events := g_events G @ es\<rparr>)"
    by (simp add: Let_def emit_def o1_def es_def)
  moreover obtain fs where "outer_shadow nf body o1 name t r (G\<lparr>g_events := g_events G @ es\<rparr>) =
      G\<lparr>g_events := (g_events G @ es) @ fs\<rparr>"
    using Cons.IH [of o1 "G\<lparr>g_events := g_events G @ es\<rparr>"] by auto
  ultimately show ?case by auto
qed

lemma outer_shadow_scopes [simp]: "g_scopes (outer_shadow nf body outside name t cs G) = g_scopes G"
  using outer_shadow_events [of nf body outside name t cs G] by auto

section \<open>Operations that keep the stack\<close>

text \<open>
  What such an operation does to a scope: it changes neither the names it binds nor their types,
  stores usages and labels, and marks bindings as used or initialized.
\<close>

locale scope_relation =
  fixes R :: "scope \<Rightarrow> scope \<Rightarrow> bool"
  assumes R_refl: "R c c"
    and R_trans: "R a b \<Longrightarrow> R b c \<Longrightarrow> R a c"
    and R_same: "R c c' \<Longrightarrow> same_scope c c'"
    and R_mark: "(\<And>b. b_type (f b) = b_type b \<and> b_blockscoped (f b) = b_blockscoped b) \<Longrightarrow>
        R c (upd_binding name f c)"
    and R_usage: "R c (c\<lparr>sc_usages := obj_put (sc_usages c) name u\<rparr>)"
    and R_label: "R c (c\<lparr>sc_labels := ls\<rparr>)"
begin

lemma R_upd_usage: "R c (upd_usage name f c)"
  using R_refl R_usage by (simp add: upd_usage_def obj_upd_def split: option.splits)

lemma R_setup: "R c (setupUsages name c)"
  using R_refl R_usage by (simp add: setupUsages_def)

lemma R_upd_setup: "R c (upd_usage name f (setupUsages name c))"
  by (rule R_trans [OF R_setup R_upd_usage])

lemma R_merge: "R s (merge_usage isBody name u s)"
  using R_usage by (simp add: merge_usage_def split: option.splits)

lemmas R_steps [simp] = R_refl R_mark R_label R_upd_usage R_setup R_upd_setup R_merge

lemma lifted_refl [simp]: "lifts R G G"
  by (simp add: lifts_def list_all2_refl R_refl)

lemma lifted_trans [trans]: "lifts R G G' \<Longrightarrow> lifts R G' G'' \<Longrightarrow> lifts R G G''"
  by (auto simp: lifts_def intro: list_all2_trans [OF R_trans])

lemma lifted_keeps: "lifts R G G' \<Longrightarrow> keeps G G'"
  by (auto simp: lifts_def intro: list_all2_mono R_same)

lemma lifted_upd_cur:
  assumes "g_scopes G \<noteq> []" "\<And>c. R c (f c)"
  shows "lifts R G (upd_cur f G)"
  using assms by (auto simp: lifts_def upd_cur_def list_all2_refl R_steps split: list.splits)

lemma lifted_upd_cur' [intro]:
  "lifts R G G' \<Longrightarrow> g_scopes G \<noteq> [] \<Longrightarrow> (\<And>c. R c (f c)) \<Longrightarrow> lifts R G (upd_cur f G')"
  using lifted_upd_cur [of G' f] lifts_not_Nil [of R G G'] by (auto intro: lifted_trans)

lemma lifted_map:
  assumes "\<And>c. R c (f c)"
  shows "lifts R G (G\<lparr>g_scopes := map f (g_scopes G)\<rparr>)"
  using assms by (simp add: lifts_def list_all2_map2 list_all2_refl R_steps)

lemma lifted_body_binding [simp]:
  "(\<And>b. b_type (f b) = b_type b \<and> b_blockscoped (f b) = b_blockscoped b) \<Longrightarrow>
     lifts R G (body_binding i name f G)"
  unfolding body_binding_def by (rule lifted_map) (simp add: R_steps)

lemma lifted_fold:
  assumes "\<And>x G. lifts R G (f x G)"
  shows "lifts R G (fold f xs G)"
  by (induction xs arbitrary: G) (auto intro: lifted_trans assms)

lemma lifted_fold_ne:
  assumes "\<And>x G. g_scopes G \<noteq> [] \<Longrightarrow> lifts R G (f x G)" "g_scopes G \<noteq> []"
  shows "lifts R G (fold f xs G)"
  using assms(2)
proof (induction xs arbitrary: G)
  case (Cons x xs)
  then have "lifts R G (f x G)" using assms(1) by blast
  with Cons show ?case using lifts_not_Nil by (auto intro: lifted_trans)
qed simp

subsection \<open>Reports\<close>

lemma lifted_warnUnused [simp]: "lifts R G (warnUnused E name t ty u G)"
  by (simp add: warnUnused_def Let_def)

lemma lifted_unused_binding [simp]: "lifts R G (unused_binding E nb G)"
  by (simp add: unused_binding_def split: prod.splits)

lemma lifted_latedef [simp]: "lifts R G (latedefWarning E ty name t G)"
  by (simp add: latedefWarning_def Let_def)

lemma lifted_outer_shadow: "lifts R G (outer_shadow nf body outside name t cs G)"
  using outer_shadow_events [of nf body outside name t cs G] by auto

lemma lifted_checkOuterShadow: "g_scopes G \<noteq> [] \<Longrightarrow> lifts R G (checkOuterShadow E name t G)"
  by (auto simp: checkOuterShadow_def lifted_outer_shadow split: list.splits)

lemma lifted_unused_params:
  "list_all (\<lambda>p. obj_has bs p) ps \<Longrightarrow> lifts R G (unused_params E bs ps G)"
proof (induction E bs ps G rule: unused_params.induct)
  case (2 E bs p ps G)
  then obtain b where "obj_get bs p = Some b" by (auto simp: obj_has_def)
  with 2 show ?case by (auto intro: lifted_trans [OF lifted_warnUnused])
qed simp

lemma lifted_checkForUnused:
  assumes "g_scopes G \<noteq> []" "list_all scope_ok (g_scopes G)"
  shows "lifts R G (checkForUnused E G)"
proof -
  from assms(1) obtain c r where c: "g_scopes G = c # r" by (cases "g_scopes G") auto
  show ?thesis
  proof (cases "is_params c")
    case True
    with assms(2) c obtain ps where "sc_params c = Some ps" "list_all (\<lambda>p. binds p c) ps"
      by (auto simp: scope_ok_def split: option.splits)
    with c True show ?thesis
      by (auto simp: checkForUnused_def binds_def intro!: lifted_unused_params)
  next
    case False
    with c show ?thesis
      by (auto simp: checkForUnused_def intro: lifted_fold)
  qed
qed

subsection \<open>Uses\<close>

lemma lifted_use_param [simp]: "lifts R G (use_param name G)"
  by (auto simp: use_param_def split: option.splits)

lemma lifted_check_tdz [simp]: "lifts R G (check_tdz name t G)"
  by (auto simp: check_tdz_def split: option.splits list.splits)

lemma lifted_block_use: "g_scopes G \<noteq> [] \<Longrightarrow> lifts R G (block_use E name t G)"
  unfolding block_use_def Let_def
  by (rule lifted_trans [OF _ lifted_check_tdz]) (auto split: option.splits intro!: lifted_upd_cur')

lemma lifted_block_modify: "g_scopes G \<noteq> [] \<Longrightarrow> lifts R G (block_modify name t G)"
  unfolding block_modify_def by (rule lifted_upd_cur) simp_all

lemma lifted_block_reassign: "g_scopes G \<noteq> [] \<Longrightarrow> lifts R G (block_reassign E name t G)"
  unfolding block_reassign_def Let_def
  by (rule lifted_upd_cur' [OF lifted_trans [OF _ lifted_block_modify]]) auto

subsection \<open>Marks and checks\<close>

lemma lifted_initialize: "g_scopes G \<noteq> [] \<Longrightarrow> lifts R G (initialize name G)"
  unfolding initialize_def by (rule lifted_upd_cur) simp_all

lemma lifted_check_exception [simp]: "lifts R G (check_exception E name t G)"
  by (simp add: check_exception_def Let_def)

lemma lifted_then:
  "lifts R G G' \<Longrightarrow> g_scopes G \<noteq> [] \<Longrightarrow> (\<And>H. g_scopes H \<noteq> [] \<Longrightarrow> lifts R H (f H)) \<Longrightarrow> lifts R G (f G')"
  using lifts_not_Nil [of R G G'] by (auto intro: lifted_trans)

lemma lifted_if: "(b \<Longrightarrow> lifts R G A) \<Longrightarrow> (\<not> b \<Longrightarrow> lifts R G B) \<Longrightarrow> lifts R G (if b then A else B)"
  by simp

lemma lifted_latedef' : "lifts R G G' \<Longrightarrow> lifts R G (latedefWarning E ty name t G')"
  by (rule lifted_trans [OF _ lifted_latedef])

lemma lifted_validateParams:
  assumes "wf_manager G" "\<not> body_is_global G"
  shows "lifts R G (validateParams E a G)"
proof -
  obtain p where p: "param_scope G = Some p" "is_params p" "scope_ok p"
    using param_scope_wf [OF assms] .
  then obtain ps where ps: "sc_params p = Some ps" "list_all (\<lambda>q. binds q p) ps"
    by (auto simp: scope_ok_def split: option.splits)
  have "lifts R H (fold (validate_param E a (sc_bindings p)) qs H)"
    if "list_all (\<lambda>q. binds q p) qs" for qs H
    using that
  proof (induction qs arbitrary: H)
    case (Cons q qs)
    then have "lifts R H (validate_param E a (sc_bindings p) q H)"
      by (auto simp: validate_param_def binds_def obj_has_def Let_def)
    with Cons show ?case by (auto intro: lifted_trans)
  qed simp
  with p ps show ?thesis by (simp add: validateParams_def)
qed

lemma lifted_addExported: "g_scopes G \<noteq> [] \<Longrightarrow> lifts R G (addExported name G)"
  by (auto simp: addExported_def split: list.splits option.splits)

lemma lifted_setExported: "g_scopes G \<noteq> [] \<Longrightarrow> lifts R G (setExported E l x G)"
  unfolding setExported_def Let_def
  by (auto split: option.splits intro: lifted_then [OF _ _ lifted_block_use] lifted_block_use)

lemma lifted_addLabel: "g_scopes G \<noteq> [] \<Longrightarrow> lifts R G (addLabel E label t G)"
  unfolding addLabel_def Let_def
  by (rule lifted_upd_cur') (auto intro: lifted_checkOuterShadow)

subsection \<open>The usages at the end of a scope\<close>

lemma lifted_out_of_scope [simp]: "lifts R G (out_of_scope E name b u G)"
  by (auto simp: out_of_scope_def intro: lifted_fold)

lemma lifted_used_local:
  assumes "g_scopes G \<noteq> []"
  shows "lifts R G (used_local E name b u G)"
proof -
  define G1 where "G1 = out_of_scope E name b u G"
  define G2 where "G2 = upd_cur (upd_binding name (\<lambda>b. b\<lparr>b_unused := False\<rparr>)) G1"
  have k1: "lifts R G G1" by (simp add: G1_def)
  have k2: "lifts R G G2" unfolding G2_def using k1 assms by (rule lifted_upd_cur') simp
  define G3 where "G3 = (if b_type b = ''const'' \<or> b_type b = ''import''
      then fold (\<lambda>t. warn ''E013'' t [name]) (u_modified u) G2 else G2)"
  have "lifts R G2 (fold (\<lambda>t. warn ''E013'' t [name]) ts G2)" for ts by (rule lifted_fold) simp
  with k2 have k3: "lifts R G G3" by (auto simp: G3_def intro: lifted_trans)
  have "lifts R G3 (fold (\<lambda>t G. if \<not> t_ignoreW021 (g_toks G t)
                          then warn ''W021'' t [name, js (b_type b)] G else G) ts G3)" for ts
    by (rule lifted_fold) simp
  with k3 show ?thesis
    unfolding used_local_def Let_def G1_def [symmetric] G2_def [symmetric] G3_def [symmetric]
    by (auto intro: lifted_trans)
qed

lemma lifted_used_enclosing: "lifts R G (used_enclosing isBody isOuter name u G)"
  by (auto simp: used_enclosing_def Let_def lifts_def list_all2_refl R_steps split: list.splits)

lemma lifted_report_undefined [simp]: "lifts R G (report_undefined E name t G)"
  by (simp add: report_undefined_def Let_def)

lemma lifted_used_global: "lifts R G (used_global E name u G)"
proof -
  have f1: "lifts R H (fold (\<lambda>t G. if \<not> t_ignoreW020 (g_toks G t) then warn ''W020'' t [] G else G) ts H)"
    for ts H by (rule lifted_fold) simp
  have f2: "lifts R G (fold (report_undefined E name) ts G)" for ts by (rule lifted_fold) simp
  show ?thesis
    unfolding used_global_def Let_def
    by (auto simp: f2 intro: lifted_trans [OF _ f1] split: option.splits jsval.splits)
qed

lemma lifted_unstack_usage: "g_scopes G \<noteq> [] \<Longrightarrow> lifts R G (unstack_usage E isBody isOuter name G)"
  by (auto simp: unstack_usage_def lifted_used_local lifted_used_enclosing lifted_used_global
      split: list.splits option.splits)

lemma lifted_unused_declared [simp]: "lifts R G (unused_declared E name G)"
  by (simp add: unused_declared_def split: option.splits)

end

text \<open>
  Both relations of scopes that matter are of this kind. The names of a scope: their types and
  whether they are block scoped.
\<close>

type_synonym names = "jstr \<Rightarrow> (string \<times> bool) option"

definition decl_of :: "binding \<Rightarrow> string \<times> bool" where
  "decl_of b = (b_type b, b_blockscoped b)"

definition names_of :: "scope \<Rightarrow> names" where
  "names_of c = (\<lambda>n. map_option decl_of (obj_get (sc_bindings c) n))"

definition same_names :: "scope \<Rightarrow> scope \<Rightarrow> bool" where
  "same_names c c' \<longleftrightarrow> same_scope c c' \<and> names_of c' = names_of c"

interpretation kept: scope_relation same_scope
  by unfold_locales (auto intro: same_scope_trans)

interpretation quiet: scope_relation same_names
  by unfold_locales (auto simp: same_names_def names_of_def decl_of_def [abs_def] upd_binding_def option.map_comp comp_def fun_eq_iff
      intro: same_scope_trans same_scope_simps [unfolded upd_binding_def])

end
