(* ===== verification/ScopeSteps.thy ===== *)
theory ScopeSteps
  imports ScopeInv
begin

text \<open>
  When an operation throws, and that every operation that does not keeps the manager well formed:
  declarations, entering and leaving a scope.
\<close>

section \<open>Declarations\<close>

lemma keeps_funct_add: "g_scopes G \<noteq> [] \<Longrightarrow> keeps G (funct_add name ty t u G)"
  unfolding funct_add_def by (rule kept.lifted_upd_cur) simp_all

lemma keeps_block_add: "g_scopes G \<noteq> [] \<Longrightarrow> keeps G (block_add name ty t u i G)"
  unfolding block_add_def by (rule kept.lifted_upd_cur) simp_all

lemma same_scope_param:
  "same_scope c ((put_binding name b c)\<lparr>sc_params := map_option (\<lambda>ps. ps @ [name]) (sc_params c)\<rparr>)"
  by (auto simp: same_scope_def scope_ok_def put_binding_def is_params_def binds_def list_all_iff obj.inv_put
      split: option.splits)

lemma keeps_declare_param:
  assumes "g_scopes G = c # r" "sc_params c \<noteq> None \<or> binds name c"
  shows "keeps G (declare_param E name t ty G)"
proof (cases "binds name c")
  case True
  with assms(1) show ?thesis by (auto simp: declare_param_def intro!: kept.lifted_upd_cur)
next
  case False
  let ?b = "\<lparr>b_type = ty, b_token = t, b_unused = True, b_initialized = False,
     b_blockscoped = False, b_function = None, b_outside = False, b_duplicated = False\<rparr>"
  let ?G1 = "checkOuterShadow E name t G"
  have s1: "g_scopes ?G1 = c # r"
    using assms(1) by (simp add: checkOuterShadow_def)
  from assms(2) False obtain ps where ps: "sc_params c = Some ps" by auto
  have "declare_param E name t ty G =
      upd_cur (\<lambda>c. c\<lparr>sc_params := Some (ps @ [name])\<rparr>) (upd_cur (put_binding name ?b) ?G1)"
    using False assms(1) ps by (simp add: declare_param_def Let_def)
  also have "\<dots> = ?G1\<lparr>g_scopes := (put_binding name ?b c)\<lparr>sc_params := Some (ps @ [name])\<rparr> # r\<rparr>"
    by (simp add: upd_cur_def s1)
  also have "keeps ?G1 \<dots>"
    using same_scope_param [of c name ?b] ps s1 by (simp add: lifts_def list_all2_refl)
  finally show ?thesis
    using kept.lifted_checkOuterShadow [of G E name t] assms(1) by (auto intro: kept.lifted_trans)
qed

lemma keeps_addParam:
  assumes "g_scopes G = c # r" "sc_params c \<noteq> None \<or> binds name c"
  shows "keeps G (addParam E name t ty G)"
proof -
  define ty' where "ty' = (case ty of None \<Rightarrow> ''param'' | Some y \<Rightarrow> y)"
  define G1 where "G1 = (if ty' = ''exception'' then check_exception E name t G else G)"
  define G2 where "G2 = declare_param E name t ty' G1"
  have s1: "g_scopes G1 = c # r" using assms(1) by (simp add: G1_def check_exception_def Let_def)
  have k1: "keeps G G1" by (simp add: G1_def)
  have k2: "keeps G G2" unfolding G2_def
    using k1 keeps_declare_param [OF s1 assms(2)] by (rule kept.lifted_trans)
  have "addParam E name t ty G = (case g_scopes G2 of
           [] \<Rightarrow> crash G2
         | c # _ \<Rightarrow>
             (case obj_get (sc_usages c) name of
                None \<Rightarrow> G2
              | Some u \<Rightarrow>
                  if u_onlySub u then latedefWarning E ty' name t G2 else warn ''W003'' t [name] G2))"
    by (simp only: addParam_def Let_def ty'_def G1_def G2_def)
  with k2 lifts_not_Nil [OF k2] assms(1) show ?thesis
    by (auto split: list.splits option.splits intro: kept.lifted_latedef')
qed

lemma keeps_addbinding_funct: "g_scopes G \<noteq> [] \<Longrightarrow> keeps G (addbinding_funct E name ty t x G)"
  unfolding addbinding_funct_def Let_def
  by (auto intro!: kept.lifted_then [OF _ _ keeps_funct_add])

lemma declared_total:
  assumes "wf_manager G" "g_scopes G = c # r"
  shows "\<exists>d. declaredInCurrentScope name c G = Some d"
proof (cases "g_functBody G = Some (sc_id c) \<and> sc_type c \<noteq> Some ''global''")
  case True
  obtain b where b: "find is_body (g_scopes G) = Some b" "body_scope G = Some b" "b \<in> set (g_scopes G)"
    using body_scope_wf [OF assms(1)] .
  have "scope_by_id (Some (sc_id c)) (g_scopes G) = Some b"
    using True b(2) by (simp add: body_scope_def)
  then have "b = c" by (simp add: scope_by_id_def assms(2))
  then have "sc_type b \<noteq> Some ''global''" using True by simp
  with b(2) have "\<not> body_is_global G" by (simp add: body_is_global_def)
  then obtain p where "param_scope G = Some p" by (rule param_scope_wf [OF assms(1)])
  then show ?thesis by (simp add: declaredInCurrentScope_def ex_bool_eq)
next
  case False
  then show ?thesis by (auto simp: declaredInCurrentScope_def)
qed

lemma keeps_addbinding_block:
  assumes "wf_manager G"
  shows "keeps G (addbinding_block E name ty t i x G)"
proof -
  from assms obtain c r where c: "g_scopes G = c # r" by (cases "g_scopes G") (auto dest: wf_not_Nil)
  obtain d where d: "declaredInCurrentScope name c G = Some d" using declared_total [OF assms c] by blast
  show ?thesis
    unfolding addbinding_block_def c d Let_def list.case option.case
    by (rule kept.lifted_then [OF _ _ keeps_block_add]) (auto simp: c split: option.splits)
qed

lemma keeps_addbinding:
  assumes "wf_manager G"
  shows "keeps G (addbinding E name ty t i G)"
proof -
  define G1 where "G1 = checkOuterShadow E name t G"
  define G2 where "G2 = (if isStrict (e_state E) \<and> is_restricted name then warn ''E008'' t [] G1 else G1)"
  have "keeps G G2"
    using kept.lifted_checkOuterShadow [OF wf_not_Nil [OF assms]] by (simp add: G2_def G1_def)
  moreover have wf2: "wf_manager G2" using assms calculation by (rule wf_keeps)
  ultimately show ?thesis
    unfolding addbinding_def Let_def G1_def [symmetric] G2_def [symmetric]
    by (auto intro: kept.lifted_trans [OF _ keeps_addbinding_block] kept.lifted_trans [OF _ keeps_addbinding_funct [OF wf_not_Nil]])
qed

section \<open>Entering and leaving a scope\<close>

lemma scope_ok_new:
  "scope_ok (new_scope ty i p)" "ty = None \<Longrightarrow> scope_ok ((new_scope ty i p)\<lparr>sc_isFuncBody := True\<rparr>)"
  by (auto simp: scope_ok_def new_scope_def is_params_def obj.inv_new)

lemma list_all_less_Suc: "list_all (\<lambda>c. sc_id c < n) cs \<Longrightarrow> list_all (\<lambda>c. sc_id c < Suc n) cs"
  by (auto simp: list_all_iff)

lemma wf_new:
  assumes "wf_manager G" "g_scopes G = c # r"
  shows "list_all (\<lambda>c. sc_id c < Suc (g_next G)) (g_scopes G)" "g_next G \<notin> sc_id ` set (g_scopes G)"
    "\<not> g_crashed G" "chain_ok (c # r)" "list_all scope_ok (c # r)" "distinct (map sc_id (c # r))"
    "g_functBody G = map_option sc_id (find is_body (c # r))"
  using assms list_all_less_Suc by (auto simp: wf_manager_def list_all_iff)

lemma wf_newScope:
  assumes "wf_manager G" "ty \<noteq> Some ''global''"
  shows "wf_manager (newScope ty G)"
proof -
  from assms(1) obtain c r where c: "g_scopes G = c # r" by (cases "g_scopes G") (auto dest: wf_not_Nil)
  let ?n = "new_scope ty (g_next G) (Some (sc_id c))"
  have "newScope ty G = G\<lparr>g_scopes := ?n # c # r, g_next := Suc (g_next G)\<rparr>"
    by (simp add: newScope_def c)
  moreover have "\<not> is_body ?n" "sc_id ?n = g_next G" "sc_parent ?n = Some (sc_id c)" "sc_type ?n = ty"
    "\<not> sc_isFuncBody ?n"
    using assms(2) by (simp_all add: is_body_def new_scope_def)
  ultimately show ?thesis
    using wf_new [OF assms(1) c] scope_ok_new(1) assms(2) c
    by (simp add: wf_manager_def del: find.simps, simp)
qed

lemma wf_stack:
  assumes "wf_manager G" "ty \<noteq> Some ''global''"
  shows "wf_manager (stack ty G)"
proof -
  from assms(1) obtain c r where c: "g_scopes G = c # r" by (cases "g_scopes G") (auto dest: wf_not_Nil)
  show ?thesis
  proof (cases "ty = None \<and> is_params c")
    case True
    let ?n = "(new_scope ty (g_next G) (Some (sc_id c)))\<lparr>sc_isFuncBody := True\<rparr>"
    have eq: "stack ty G = G\<lparr>g_scopes := ?n # c # r, g_next := Suc (g_next G), g_functBody := Some (g_next G)\<rparr>"
      using True c by (simp add: stack_def Let_def upd_cur_def newScope_def)
    have "is_body ?n" "sc_id ?n = g_next G" "sc_parent ?n = Some (sc_id c)" "sc_type ?n = None"
      using True by (simp_all add: is_body_def new_scope_def)
    then show ?thesis
      using True wf_new [OF assms(1) c] scope_ok_new(2) c unfolding eq by (simp add: wf_manager_def)
  next
    case False
    then have "stack ty G = newScope ty G" using c by (auto simp: stack_def Let_def)
    then show ?thesis using wf_newScope [OF assms] by simp
  qed
qed

subsection \<open>The steps of \<open>unstack\<close>\<close>

lemma same_scope_unparam:
  "\<not> is_params c \<Longrightarrow> (obj_ok (sc_bindings c) \<Longrightarrow> obj_ok bs) \<Longrightarrow> same_scope c (c\<lparr>sc_bindings := bs\<rparr>)"
  by (auto simp: same_scope_def scope_ok_def is_params_def)

lemma keeps_hoist:
  assumes "g_scopes G = c # r" "\<not> is_params c"
  shows "keeps G (hoist name G)"
proof (cases r)
  case Nil
  with assms(1) show ?thesis by (simp add: hoist_def)
next
  case (Cons s q)
  have "same_scope s (s\<lparr>sc_bindings := obj_put (sc_bindings s) name d\<rparr>)" for d
    by (rule same_scope_bindings) (simp_all add: binds_def obj.inv_put)
  then show ?thesis
    using assms Cons
    by (auto simp: hoist_def lifts_def Let_def list_all2_refl same_scope_unparam obj.inv_del split: option.splits)
qed

lemma keeps_hoists:
  assumes "g_scopes G = c # r" "\<not> is_params c"
  shows "keeps G (fold hoist ns G)"
  using assms
proof (induction ns arbitrary: G c r)
  case (Cons n ns)
  have k: "keeps G (hoist n G)" using keeps_hoist [OF Cons.prems] .
  then obtain c' r' where "g_scopes (hoist n G) = c' # r'" "same_scope c c'"
    using Cons.prems(1) by (auto simp: lifts_def list_all2_Cons1)
  then have "keeps (hoist n G) (fold hoist ns (hoist n G))"
    using Cons.IH Cons.prems(2) same_scopeD(3) by blast
  with k show ?case by (auto intro: kept.lifted_trans)
qed simp

text \<open>\<open>unstack\<close> without its last step.\<close>

definition settle :: "scope_env \<Rightarrow> scope \<Rightarrow> scope list \<Rightarrow> manager \<Rightarrow> manager" where
  "settle E c r G =
     (let isBody = (g_functBody G = Some (sc_id c));
          isOuter = (sc_type c = Some ''functionouter'');
          G1 = fold (unstack_usage E isBody isOuter) (obj_keys (sc_usages c)) G;
          G2 = (if r = [] then fold (unused_declared E) (obj_keys (g_declared G1)) G1 else G1);
          G3 = (if r \<noteq> [] \<and> \<not> isBody \<and> \<not> is_params c \<and> \<not> isOuter
                then fold hoist (obj_keys (sc_bindings c)) G2 else G2)
      in checkForUnused E G3)"

lemma unstack_settle:
  "g_scopes G = c # r \<Longrightarrow> unstack E G = leave_scope (g_functBody G = Some (sc_id c)) (settle E c r G)"
  by (simp add: unstack_def settle_def Let_def)

lemma keeps_settle:
  assumes "wf_manager G" "g_scopes G = c # r"
  shows "keeps G (settle E c r G)"
proof -
  define isBody where "isBody = (g_functBody G = Some (sc_id c))"
  define isOuter where "isOuter = (sc_type c = Some ''functionouter'')"
  define G1 where "G1 = fold (unstack_usage E isBody isOuter) (obj_keys (sc_usages c)) G"
  define G2 where "G2 = (if r = [] then fold (unused_declared E) (obj_keys (g_declared G1)) G1 else G1)"
  define G3 where "G3 = (if r \<noteq> [] \<and> \<not> isBody \<and> \<not> is_params c \<and> \<not> isOuter
                then fold hoist (obj_keys (sc_bindings c)) G2 else G2)"
  have k1: "keeps G G1" unfolding G1_def
    by (rule kept.lifted_fold_ne) (auto simp: assms(2) intro: kept.lifted_unstack_usage)
  have k2: "keeps G G2" unfolding G2_def
    using kept.lifted_trans [OF k1 kept.lifted_fold, of "unused_declared E"] k1 by simp
  then obtain c' r' where c': "g_scopes G2 = c' # r'" "same_scope c c'"
    using assms(2) by (auto simp: lifts_def list_all2_Cons1)
  have k3: "keeps G G3"
    using kept.lifted_trans [OF k2 keeps_hoists [OF c'(1)]] k2 c'(2)
    using same_scopeD(3) by (simp add: G3_def)
  have "keeps G3 (checkForUnused E G3)"
    using wf_keeps [OF assms(1) k3] by (auto simp: wf_manager_def intro!: kept.lifted_checkForUnused)
  with k3 show ?thesis
    unfolding settle_def Let_def isBody_def [symmetric] isOuter_def [symmetric] G1_def [symmetric]
      G2_def [symmetric] G3_def [symmetric]
    by (rule kept.lifted_trans)
qed

lemma body_iff:
  assumes "wf_manager G" "g_scopes G = c # r"
  shows "g_functBody G = Some (sc_id c) \<longleftrightarrow> is_body c"
proof (cases "is_body c")
  case True
  with assms show ?thesis by (simp add: wf_manager_def)
next
  case False
  have "b \<in> set r" if "find is_body r = Some b" for b
    using that by (metis find_Some_iff nth_mem)
  moreover have "sc_id c \<notin> sc_id ` set r" using assms by (simp add: wf_manager_def)
  ultimately have "map_option sc_id (find is_body r) \<noteq> Some (sc_id c)"
    by (cases "find is_body r") (auto simp: image_iff)
  with False assms show ?thesis by (simp add: wf_manager_def)
qed

lemma wf_leave_scope:
  assumes "wf_manager G" "g_scopes G = c # d # r" "isBody = (g_functBody G = Some (sc_id c))"
  shows "wf_manager (leave_scope isBody G)"
proof -
  have fb: "g_functBody G = map_option sc_id (find is_body (c # d # r))"
    using assms(1,2) by (simp add: wf_manager_def)
  have "isBody = is_body c" using body_iff [OF assms(1,2)] assms(3) by simp
  then have "g_functBody (leave_scope isBody G) = map_option sc_id (find is_body (d # r))"
    using assms(2) fb by (cases isBody) (simp_all add: leave_scope_def Let_def del: find.simps, simp)
  then show ?thesis
    using assms(1,2) by (simp add: wf_manager_def leave_scope_def Let_def del: find.simps)
qed

lemma wf_unstack:
  assumes "wf_manager G" "1 < List.length (g_scopes G)"
  shows "wf_manager (unstack E G)"
proof -
  from assms(2) obtain c d r where c: "g_scopes G = c # d # r"
    by (cases "g_scopes G"; cases "tl (g_scopes G)") auto
  have k: "keeps G (settle E c (d # r) G)" using keeps_settle [OF assms(1) c] .
  then obtain c' d' r' where "g_scopes (settle E c (d # r) G) = c' # d' # r'" "same_scope c c'"
    using c by (auto simp: lifts_def list_all2_Cons1)
  moreover from calculation k
  have "(g_functBody G = Some (sc_id c)) = (g_functBody (settle E c (d # r) G) = Some (sc_id c'))"
    by (simp add: lifts_def same_scope_def)
  ultimately show ?thesis
    using wf_leave_scope [OF wf_keeps [OF assms(1) k]] unstack_settle [OF c] by simp
qed

section \<open>Operations that throw\<close>

text \<open>
  The calls that use a field of \<open>undefined\<close>: a new parameter where the current scope has no list of
  parameters, and the check of the parameters outside of every function.
\<close>

fun throws :: "manager_call \<Rightarrow> manager \<Rightarrow> bool" where
  "throws (OAddParam name t ty) G =
     (case g_scopes G of [] \<Rightarrow> True | c # _ \<Rightarrow> sc_params c = None \<and> \<not> binds name c)"
| "throws (OValidateParams a) G = body_is_global G"
| "throws _ G = False"

lemma addParam_crashes:
  assumes "g_scopes G = c # r" "sc_params c = None" "\<not> binds name c"
  shows "g_crashed (addParam E name t ty G)"
proof -
  define ty' where "ty' = (case ty of None \<Rightarrow> ''param'' | Some y \<Rightarrow> y)"
  define G1 where "G1 = (if ty' = ''exception'' then check_exception E name t G else G)"
  define G2 where "G2 = declare_param E name t ty' G1"
  have "g_scopes G1 = c # r" using assms(1) by (simp add: G1_def check_exception_def Let_def)
  then have "g_crashed G2" using assms(2,3) by (simp add: G2_def declare_param_def Let_def crash_def)
  moreover have "g_crashed (latedefWarning E ty' name t G2)" using calculation by (simp add: latedefWarning_def Let_def)
  ultimately show ?thesis
    unfolding addParam_def Let_def ty'_def [symmetric] G1_def [symmetric] G2_def [symmetric]
    by (simp add: crash_def split: list.splits option.splits)
qed

lemma validateParams_crashes: "body_is_global G \<Longrightarrow> wf_manager G \<Longrightarrow> g_crashed (validateParams E a G)"
proof -
  assume g: "body_is_global G" and wf: "wf_manager G"
  obtain b where b: "body_scope G = Some b" "b \<in> set (g_scopes G)" using body_scope_wf [OF wf] by blast
  have "sc_type c = Some ''global'' \<Longrightarrow> c \<in> set cs \<Longrightarrow> sc_parent c = None" if "chain_ok cs" for c cs
    using that by (induction cs rule: chain_ok.induct) auto
  from this [of "g_scopes G" b] have "sc_parent b = None" using b g wf by (simp add: body_is_global_def wf_manager_def)
  then show ?thesis using b by (simp add: validateParams_def param_scope_def scope_by_id_def crash_def)
qed

text \<open>Leaving the last scope throws nothing either.\<close>

lemma unstack_last:
  assumes "wf_manager G"
  shows "\<not> g_crashed (unstack E G)"
proof -
  from assms obtain c r where c: "g_scopes G = c # r" by (cases "g_scopes G") (auto dest: wf_not_Nil)
  have "keeps G (settle E c r G)" using keeps_settle [OF assms c] .
  with assms show ?thesis
    by (simp add: unstack_settle [OF c] leave_scope_def Let_def lifts_def wf_manager_def)
qed

lemma unstack_scopes: "wf_manager G \<Longrightarrow> List.length (g_scopes (unstack E G)) = List.length (g_scopes G) - 1"
proof -
  assume wf: "wf_manager G"
  obtain c r where c: "g_scopes G = c # r" using wf by (cases "g_scopes G") (auto dest: wf_not_Nil)
  have "keeps G (settle E c r G)" using keeps_settle [OF wf c] .
  then have "List.length (g_scopes (settle E c r G)) = List.length (g_scopes G)"
    by (auto simp: lifts_def dest: list_all2_lengthD)
  then show ?thesis by (simp add: unstack_settle [OF c] leave_scope_def Let_def)
qed

section \<open>Every other operation keeps the manager well formed\<close>

text \<open>
  The exceptions are a second global scope, which no code opens, and the end, when the global scope
  is left.
\<close>

fun allowed :: "manager_call \<Rightarrow> manager \<Rightarrow> bool" where
  "allowed (OStack ty) G = (ty \<noteq> Some ''global'')"
| "allowed OUnstack G = (1 < List.length (g_scopes G))"
| "allowed op G = (\<not> throws op G)"

lemma wf_scope_step:
  assumes "wf_manager G" "allowed op G"
  shows "wf_manager (scope_step E op G)"
proof -
  note ne = wf_not_Nil [OF assms(1)]
  show ?thesis
  proof (cases op)
    case (OStack ty)
    with assms show ?thesis by (simp add: wf_stack)
  next
    case OUnstack
    with assms show ?thesis by (simp add: wf_unstack)
  next
    case (OAddParam name t ty)
    with assms(2) obtain c r where "g_scopes G = c # r" "sc_params c \<noteq> None \<or> binds name c"
      by (auto split: list.splits)
    then show ?thesis
      using OAddParam wf_keeps [OF assms(1) keeps_addParam] by simp
  next
    case (OValidateParams a)
    with assms show ?thesis by (auto intro: wf_keeps kept.lifted_validateParams)
  qed (use assms(1) ne in \<open>auto intro!: wf_keeps [OF assms(1)] intro: kept.lifted_addExported kept.lifted_setExported
      kept.lifted_initialize keeps_addbinding keeps_funct_add keeps_block_add kept.lifted_block_use
      kept.lifted_block_reassign kept.lifted_block_modify kept.lifted_addLabel\<close>)
qed

lemma step_crashes:
  assumes "wf_manager G"
  shows "g_crashed (scope_step E op G) \<longleftrightarrow> throws op G"
proof (cases "throws op G")
  case True
  note ne = wf_not_Nil [OF assms]
  from True ne assms have "g_crashed (scope_step E op G)"
    by (cases op) (auto simp: validateParams_crashes addParam_crashes split: list.splits)
  with True show ?thesis by simp
next
  case False
  have "\<not> g_crashed (scope_step E op G)"
  proof (cases "allowed op G")
    case True
    with wf_scope_step [OF assms] show ?thesis by (simp add: wf_manager_def)
  next
    case n: False
    show ?thesis
    proof (cases op)
      case (OStack ty)
      with n wf_not_Nil [OF assms] assms show ?thesis
        by (auto simp: stack_def newScope_def Let_def wf_manager_def split: list.splits)
    qed (use n False unstack_last [OF assms] in \<open>simp_all\<close>)
  qed
  with False show ?thesis by simp
qed

lemma wf_scopeManager: "wf_manager (scopeManager p x d ts)"
  by (simp add: scopeManager_def newScope_def new_scope_def wf_manager_def scope_ok_def is_params_def
      is_body_def obj.inv_new)

end
