(* ===== verification/ScopeSpec.thy ===== *)
theory ScopeSpec
  imports ScopeSteps
begin

text \<open>
  What the scope manager promises about names: the block structure of JavaScript. The abstract
  state is a stack of levels, each a kind and a map from names to a declaration (its type, and
  whether it is block scoped). Leaving a plain block hoists its function-scoped declarations;
  leaving any other level forgets its names. \<open>spec_step\<close> is the effect of an operation on that
  state, and \<open>env\<close> maps a manager to it.
\<close>

section \<open>The abstract block structure\<close>

datatype level_kind = LBlock | LParams | LBody | LOuter

type_synonym level = "level_kind \<times> names"

definition level_enter :: "string option \<Rightarrow> level_kind \<Rightarrow> level_kind" where
  "level_enter ty k =
     (case ty of
        None \<Rightarrow> if k = LParams then LBody else LBlock
      | Some y \<Rightarrow>
          if y = ''functionparams'' then LParams else if y = ''functionouter'' then LOuter else LBlock)"

definition hoist_into :: "names \<Rightarrow> names \<Rightarrow> names" where
  "hoist_into m m' =
     (\<lambda>n. case m' n of
        Some d \<Rightarrow> Some d
      | None \<Rightarrow> (case m n of None \<Rightarrow> None
               | Some (ty, bs) \<Rightarrow> if bs \<or> ty = ''exception'' then None else Some (ty, bs)))"

fun spec_enter :: "string option \<Rightarrow> level list \<Rightarrow> level list" where
  "spec_enter ty [] = []"
| "spec_enter ty ((k, m) # r) = (level_enter ty k, Map.empty) # (k, m) # r"

fun spec_leave :: "level list \<Rightarrow> level list" where
  "spec_leave ((k, m) # (k', m') # r) = (k', if k = LBlock then hoist_into m m' else m') # r"
| "spec_leave ls = []"

fun spec_declare :: "jstr \<Rightarrow> string \<times> bool \<Rightarrow> level list \<Rightarrow> level list" where
  "spec_declare n d [] = []"
| "spec_declare n d ((k, m) # r) = (k, m(n \<mapsto> d)) # r"

fun spec_param :: "jstr \<Rightarrow> string \<times> bool \<Rightarrow> level list \<Rightarrow> level list" where
  "spec_param n d [] = []"
| "spec_param n d ((k, m) # r) = (k, if m n = None then m(n \<mapsto> d) else m) # r"

fun spec_step :: "manager_call \<Rightarrow> level list \<Rightarrow> level list" where
  "spec_step (OStack ty) ls = spec_enter ty ls"
| "spec_step OUnstack ls = spec_leave ls"
| "spec_step (OAddParam n t ty) ls =
     spec_param n (case ty of None \<Rightarrow> ''param'' | Some y \<Rightarrow> y, False) ls"
| "spec_step (OAddbinding n ty t i) ls = spec_declare n (ty, is_blockscoped ty) ls"
| "spec_step (OFunctAdd n ty t u) ls = spec_declare n (ty, False) ls"
| "spec_step (OBlockAdd n ty t u i) ls = spec_declare n (ty, True) ls"
| "spec_step _ ls = ls"

text \<open>The declaration a name resolves to: the innermost one.\<close>

fun resolve :: "jstr \<Rightarrow> level list \<Rightarrow> (string \<times> bool) option" where
  "resolve n [] = None"
| "resolve n ((k, m) # r) = (case m n of Some d \<Rightarrow> Some d | None \<Rightarrow> resolve n r)"

section \<open>The abstraction\<close>

definition kind_of :: "scope \<Rightarrow> level_kind" where
  "kind_of c =
     (if is_params c then LParams
      else if sc_type c = Some ''functionouter'' then LOuter
      else if sc_isFuncBody c then LBody else LBlock)"

definition level_of :: "scope \<Rightarrow> level" where
  "level_of c = (kind_of c, names_of c)"

definition env :: "manager \<Rightarrow> level list" where
  "env G = map level_of (g_scopes G)"

lemma bindingtype_resolve: "bindingtype n G = map_option fst (resolve n (env G))"
proof -
  have "map_option b_type (getBinding n cs) = map_option fst (resolve n (map level_of cs))" for cs
    by (induction cs) (auto simp: level_of_def names_of_def decl_of_def split: option.splits)
  then show ?thesis by (simp add: bindingtype_def env_def)
qed

section \<open>The simulation\<close>

lemma level_same_names: "same_names c c' \<Longrightarrow> level_of c' = level_of c"
  by (simp add: same_names_def same_scope_def level_of_def kind_of_def is_params_def)

lemma env_quiet: "lifts same_names G G' \<Longrightarrow> env G' = env G"
proof -
  assume "lifts same_names G G'"
  then have "list_all2 same_names (g_scopes G) (g_scopes G')" by (simp add: lifts_def)
  then have "map level_of (g_scopes G') = map level_of (g_scopes G)"
    by (induction rule: list_all2_induct) (auto simp: level_same_names)
  then show ?thesis by (simp add: env_def)
qed

lemma env_Cons: "g_scopes G = c # r \<Longrightarrow> env G = level_of c # map level_of r"
  by (simp add: env_def)

lemma level_put [simp]:
  "level_of (put_binding n b c) = (kind_of c, (names_of c)(n \<mapsto> decl_of b))"
  by (auto simp: level_of_def kind_of_def names_of_def put_binding_def is_params_def)

lemma level_params [simp]: "level_of (c\<lparr>sc_params := ps\<rparr>) = level_of c"
  by (simp add: level_of_def kind_of_def names_of_def is_params_def)

lemma env_add [simp]:
  "g_scopes G \<noteq> [] \<Longrightarrow> env (funct_add n ty t u G) = spec_declare n (ty, False) (env G)"
  "g_scopes G \<noteq> [] \<Longrightarrow> env (block_add n ty t u i G) = spec_declare n (ty, True) (env G)"
  unfolding env_def funct_add_def block_add_def upd_cur_def
  by (cases "g_scopes G", simp, simp add: decl_of_def, simp add: level_of_def)
    (cases "g_scopes G", simp, simp add: decl_of_def, simp add: level_of_def)

lemma env_fields [simp]:
  "env (G\<lparr>g_used := u\<rparr>) = env G" "env (emit e G) = env G" "env (upd_tok t f G) = env G"
  "env (G\<lparr>g_predefined := p\<rparr>) = env G" "env (G\<lparr>g_declared := d\<rparr>) = env G"
  by (simp_all add: env_def)

lemma env_shadow: "g_scopes G \<noteq> [] \<Longrightarrow> env (checkOuterShadow E n t G) = env G"
  by (rule env_quiet [OF quiet.lifted_checkOuterShadow])

lemma env_latedef [simp]: "env (latedefWarning E ty n t G) = env G"
  by (simp add: latedefWarning_def Let_def)

subsection \<open>Declarations\<close>

lemma env_addbinding_funct:
  assumes "g_scopes G \<noteq> []"
  shows "env (addbinding_funct E n ty t x G) = spec_declare n (ty, False) (env G)"
  using assms by (simp add: addbinding_funct_def Let_def latedefWarning_def)

lemma env_addbinding_block:
  assumes "wf_manager G"
  shows "env (addbinding_block E n ty t i x G) = spec_declare n (ty, True) (env G)"
proof -
  obtain c r where c: "g_scopes G = c # r" using assms by (cases "g_scopes G") (auto dest: wf_not_Nil)
  obtain d where d: "declaredInCurrentScope n c G = Some d" using declared_total [OF assms c] by blast
  have s: "g_scopes (latedefWarning E ty n t G) = c # r" by (simp add: latedefWarning_def c Let_def)
  show ?thesis
    by (simp add: addbinding_block_def c d Let_def s split: option.splits)
qed

lemma env_addbinding:
  assumes "wf_manager G"
  shows "env (addbinding E n ty t i G) = spec_declare n (ty, is_blockscoped ty) (env G)"
proof -
  define G1 where "G1 = checkOuterShadow E n t G"
  define G2 where "G2 = (if isStrict (e_state E) \<and> is_restricted n then warn ''E008'' t [] G1 else G1)"
  have k: "lifts same_names G G2"
    using quiet.lifted_checkOuterShadow [OF wf_not_Nil [OF assms]] by (simp add: G2_def G1_def)
  have wf2: "wf_manager G2" by (rule wf_keeps [OF assms quiet.lifted_keeps [OF k]])
  show ?thesis
    unfolding addbinding_def Let_def G1_def [symmetric] G2_def [symmetric]
    using env_addbinding_block [OF wf2] env_addbinding_funct [OF wf_not_Nil [OF wf2]] env_quiet [OF k]
    by simp
qed

lemma env_declare_param:
  assumes "g_scopes G = c # r" "sc_params c \<noteq> None \<or> binds n c"
  shows "env (declare_param E n t ty G) = spec_param n (ty, False) (env G)"
proof (cases "binds n c")
  case True
  then have "lifts same_names G (declare_param E n t ty G)"
    using assms(1) by (auto simp: declare_param_def intro!: quiet.lifted_upd_cur)
  from env_quiet [OF this] True show ?thesis
    using assms(1) by (auto simp: env_Cons level_of_def names_of_def binds_def obj_has_def)
next
  case False
  have s: "g_scopes (checkOuterShadow E n t G) = c # r"
    using assms(1) by (simp add: checkOuterShadow_def)
  from False assms obtain ps where "sc_params c = Some ps" by auto
  with False assms(1) s show ?thesis
    by (auto simp: declare_param_def Let_def upd_cur_def env_Cons decl_of_def)
      (simp add: level_of_def names_of_def binds_def obj_has_def)
qed

lemma env_addParam:
  assumes "g_scopes G = c # r" "sc_params c \<noteq> None \<or> binds n c"
  shows "env (addParam E n t ty G) = spec_step (OAddParam n t ty) (env G)"
proof -
  define ty' where "ty' = (case ty of None \<Rightarrow> ''param'' | Some y \<Rightarrow> y)"
  define G1 where "G1 = (if ty' = ''exception'' then check_exception E n t G else G)"
  define G2 where "G2 = declare_param E n t ty' G1"
  have s1: "g_scopes G1 = c # r" using assms(1) by (simp add: G1_def check_exception_def Let_def)
  have e1: "env G1 = env G" using assms(1) s1 by (simp add: env_def)
  have e2: "env G2 = spec_param n (ty', False) (env G)"
    using env_declare_param [OF s1 assms(2)] e1 by (simp add: G2_def)
  have "g_scopes G2 \<noteq> []"
    using keeps_declare_param [OF s1 assms(2), of E t ty'] s1 by (auto simp: lifts_def G2_def)
  then have "env (addParam E n t ty G) = env G2"
    unfolding addParam_def Let_def ty'_def [symmetric] G1_def [symmetric] G2_def [symmetric]
    by (auto split: list.splits option.splits)
  with e2 show ?thesis by (simp add: ty'_def)
qed

subsection \<open>Entering and leaving\<close>

lemma env_stack:
  assumes "g_scopes G = c # r"
  shows "env (stack ty G) = spec_enter ty (env G)"
  using assms
  by (auto simp: env_def stack_def newScope_def new_scope_def upd_cur_def level_of_def kind_of_def
      names_of_def is_params_def level_enter_def Let_def split: option.splits)

text \<open>One name hoisted, then all names of the scope.\<close>

lemma hoist_one:
  assumes "g_scopes G = c # s # r"
  shows "\<exists>c' s'. g_scopes (hoist n G) = c' # s' # r \<and> kind_of s' = kind_of s \<and>
     names_of s' = (names_of s)(n := hoist_into (names_of c) (names_of s) n) \<and>
     (\<forall>k. k \<noteq> n \<longrightarrow> names_of c' k = names_of c k)"
proof (cases "obj_get (sc_bindings c) n")
  case None
  then have "hoist_into (names_of c) (names_of s) n = names_of s n"
    by (simp add: hoist_into_def names_of_def split: option.splits)
  with None assms show ?thesis by (simp add: hoist_def)
next
  case (Some d)
  show ?thesis
  proof (cases "b_blockscoped d \<or> b_type d = ''exception''")
    case True
    with Some have "hoist_into (names_of c) (names_of s) n = names_of s n"
      by (auto simp: hoist_into_def names_of_def decl_of_def split: option.splits)
    with Some True assms show ?thesis by (auto simp: hoist_def)
  next
    case False
    with Some assms show ?thesis
      by (auto simp: hoist_def Let_def hoist_into_def names_of_def decl_of_def [abs_def] kind_of_def
          is_params_def upd_binding_def fun_eq_iff split: option.splits)
  qed
qed

lemma hoist_all:
  assumes "g_scopes G = c # s # r" "distinct ns"
  shows "\<exists>c' s'. g_scopes (fold hoist ns G) = c' # s' # r \<and> kind_of s' = kind_of s \<and>
     names_of s' = (\<lambda>k. if k \<in> set ns then hoist_into (names_of c) (names_of s) k else names_of s k)"
  using assms
proof (induction ns arbitrary: G c s)
  case (Cons n ns)
  from hoist_one [OF Cons.prems(1), of n]
  obtain c1 s1 where one: "g_scopes (hoist n G) = c1 # s1 # r" "kind_of s1 = kind_of s"
    "names_of s1 = (names_of s)(n := hoist_into (names_of c) (names_of s) n)"
    "\<And>k. k \<noteq> n \<Longrightarrow> names_of c1 k = names_of c k" by blast
  from Cons.IH [OF one(1)] Cons.prems(2) obtain c' s' where
    all: "g_scopes (fold hoist ns (hoist n G)) = c' # s' # r" "kind_of s' = kind_of s1"
    "names_of s' = (\<lambda>k. if k \<in> set ns then hoist_into (names_of c1) (names_of s1) k else names_of s1 k)"
    by auto
  have "names_of s' = (\<lambda>k. if k \<in> set (n # ns) then hoist_into (names_of c) (names_of s) k else names_of s k)"
  proof
    fix k
    show "names_of s' k = (if k \<in> set (n # ns) then hoist_into (names_of c) (names_of s) k else names_of s k)"
      using Cons.prems(2) one(4) [of k]
      by (auto simp: all(3) one(3) hoist_into_def split: option.splits)
  qed
  with all one(2) show ?case by auto
qed simp

lemma hoist_level:
  assumes "g_scopes G = c # s # r" "distinct ns" "\<And>k. k \<notin> set ns \<Longrightarrow> names_of c k = None"
  shows "\<exists>c' s'. g_scopes (fold hoist ns G) = c' # s' # r \<and>
     level_of s' = (kind_of s, hoist_into (names_of c) (names_of s))"
proof -
  have "(\<lambda>k. if k \<in> set ns then hoist_into (names_of c) (names_of s) k else names_of s k) =
      hoist_into (names_of c) (names_of s)"
    using assms(3) by (auto simp: hoist_into_def fun_eq_iff split: option.splits)
  with hoist_all [OF assms(1,2)] show ?thesis by (auto simp: level_of_def)
qed

text \<open>The levels after \<open>settle\<close>: those below the second are as they were.\<close>

lemma env_settle:
  assumes "wf_manager G" "g_scopes G = c # s # r"
  shows "tl (env (settle E c (s # r) G)) = spec_leave (env G)"
proof -
  define isBody where "isBody = (g_functBody G = Some (sc_id c))"
  define isOuter where "isOuter = (sc_type c = Some ''functionouter'')"
  define G1 where "G1 = fold (unstack_usage E isBody isOuter) (obj_keys (sc_usages c)) G"
  define G3 where "G3 = (if \<not> isBody \<and> \<not> is_params c \<and> \<not> isOuter
                then fold hoist (obj_keys (sc_bindings c)) G1 else G1)"
  have settle: "settle E c (s # r) G = checkForUnused E G3"
    by (simp add: settle_def Let_def isBody_def isOuter_def G1_def G3_def)
  have quiet1: "lifts same_names G G1" unfolding G1_def
    by (rule quiet.lifted_fold_ne) (auto simp: assms(2) intro: quiet.lifted_unstack_usage)
  have wf1: "wf_manager G1" using wf_keeps [OF assms(1) quiet.lifted_keeps [OF quiet1]] .
  obtain c1 s1 r1 where g1: "g_scopes G1 = c1 # s1 # r1" "same_names c c1" "same_names s s1"
      "list_all2 same_names r r1"
    using quiet1 assms(2) by (auto simp: lifts_def list_all2_Cons1)
  have r1: "map level_of r1 = map level_of r"
    using g1(4) by (induction rule: list_all2_induct) (auto simp: level_same_names)
  have s1: "level_of s1 = level_of s" "names_of c1 = names_of c"
    using g1 level_same_names by (auto simp: same_names_def)
  have ids: "sc_id c \<notin> sc_id ` set (s # r)" using assms by (simp add: wf_manager_def)
  have body: "isBody \<longleftrightarrow> is_body c" unfolding isBody_def by (rule body_iff [OF assms])
  have glob: "sc_type c \<noteq> Some ''global''" using assms by (simp add: wf_manager_def)
  have wf3: "wf_manager G3 \<and> tl (env G3) = spec_leave (env G)"
  proof (cases "\<not> isBody \<and> \<not> is_params c \<and> \<not> isOuter")
    case True
    have ok: "distinct (obj_keys (sc_bindings c))"
      using assms by (auto simp: wf_manager_def scope_ok_def intro: obj.inv_keys)
    have "\<And>k. k \<notin> set (obj_keys (sc_bindings c)) \<Longrightarrow> names_of c1 k = None"
      unfolding s1(2) by (simp add: names_of_def obj.set_keys)
    from hoist_level [OF g1(1) ok this] obtain c' s' where
      h: "g_scopes G3 = c' # s' # r1" "level_of s' = (kind_of s1, hoist_into (names_of c1) (names_of s1))"
      using True by (auto simp: G3_def)
    have "is_params c1 = is_params c" using g1(2) by (simp add: same_names_def same_scopeD)
    with True keeps_hoists [OF g1(1)] have "wf_manager G3"
      by (auto simp: G3_def intro: wf_keeps [OF wf1])
    moreover have "kind_of c = LBlock"
      using True body glob by (auto simp: kind_of_def isOuter_def is_body_def)
    ultimately show ?thesis
      using h s1 r1 by (simp add: env_def assms(2) level_of_def)
  next
    case False
    then have "kind_of c \<noteq> LBlock"
      using body glob by (auto simp: kind_of_def isOuter_def is_body_def)
    moreover have "G3 = G1" using False by (auto simp: G3_def)
    ultimately show ?thesis
      using wf1 env_quiet [OF quiet1] by (simp add: env_def assms(2) level_of_def)
  qed
  have "lifts same_names G3 (checkForUnused E G3)"
    using wf3 by (auto simp: wf_manager_def intro!: quiet.lifted_checkForUnused)
  then show ?thesis using env_quiet wf3 settle by simp
qed

lemma env_unstack:
  assumes "wf_manager G" "g_scopes G = c # s # r"
  shows "env (unstack E G) = spec_leave (env G)"
proof -
  have "env (unstack E G) = tl (env (settle E c (s # r) G))"
    unfolding unstack_settle [OF assms(2)] by (simp add: env_def leave_scope_def Let_def map_tl)
  then show ?thesis using env_settle [OF assms] by simp
qed

lemma env_unstack_last:
  assumes "wf_manager G" "g_scopes G = [c]"
  shows "env (unstack E G) = spec_leave (env G)"
  using unstack_scopes [OF assms(1), of E] assms(2) by (simp add: env_def level_of_def)

section \<open>Every operation refines its specification\<close>

lemma env_step:
  assumes "wf_manager G" "\<not> throws op G"
  shows "env (scope_step E op G) = spec_step op (env G)"
proof -
  note ne = wf_not_Nil [OF assms(1)]
  then obtain c r where c: "g_scopes G = c # r" by (cases "g_scopes G") auto
  show ?thesis
  proof (cases op)
    case (OStack ty)
    with env_stack [OF c] show ?thesis by simp
  next
    case OUnstack
    with c env_unstack [OF assms(1)] env_unstack_last [OF assms(1)] show ?thesis by (cases r) simp_all
  next
    case (OAddParam name t ty)
    with assms c have "sc_params c \<noteq> None \<or> binds name c" by simp
    with OAddParam env_addParam [OF c] show ?thesis by simp
  next
    case (OAddbinding name ty t i)
    with env_addbinding [OF assms(1)] show ?thesis by simp
  next
    case (OValidateParams a)
    with assms show ?thesis by (simp add: env_quiet [OF quiet.lifted_validateParams])
  qed (use ne in \<open>simp_all add: env_quiet quiet.lifted_addExported quiet.lifted_setExported
      quiet.lifted_initialize quiet.lifted_block_use quiet.lifted_block_reassign
      quiet.lifted_block_modify quiet.lifted_addLabel\<close>)
qed

end
