(* ===== verification/ScopeUse.thy ===== *)
theory ScopeUse
  imports ScopeSpec
begin

text \<open>
  The effect of leaving a scope on usages and reports: what \<open>unstack\<close> hands to the enclosing
  scope, and which warnings it adds. The locale \<open>scope_view\<close> collects, once for every such
  observation, the steps that do not change it.
\<close>

section \<open>Observations\<close>

definition code_of :: "scope_event \<Rightarrow> string option" where
  "code_of e = (case e of SWarning code r d \<Rightarrow> Some code | SOuterMutable n \<Rightarrow> None)"

locale scope_view =
  fixes view :: "manager \<Rightarrow> 'a"
    and hidden :: "string option \<Rightarrow> bool"
  assumes view_emit: "hidden (code_of e) \<Longrightarrow> view (emit e G) = view G"
    and view_scopes [simp]: "view (G\<lparr>g_scopes := cs\<rparr>) = view G"
    and view_body [simp]: "view (G\<lparr>g_functBody := b\<rparr>) = view G"
    and view_unuseds [simp]: "view (G\<lparr>g_unuseds := us\<rparr>) = view G"
    and view_implied [simp]: "view (G\<lparr>g_implied := im\<rparr>) = view G"
    and view_used [simp]: "view (G\<lparr>g_used := ud\<rparr>) = view G"
    and view_declared [simp]: "view (G\<lparr>g_declared := d\<rparr>) = view G"
    and view_crashed [simp]: "view (G\<lparr>g_crashed := b'\<rparr>) = view G"
begin

lemma view_warning [simp]: "hidden (Some code) \<Longrightarrow> view (emit (SWarning code r d) G) = view G"
  by (simp add: view_emit code_of_def)

lemma view_fold: "(\<And>x G. view (f x G) = view G) \<Longrightarrow> view (fold f xs G) = view G"
  by (induction xs arbitrary: G) simp_all

lemma view_upd_cur [simp]: "view (upd_cur f G) = view G"
  by (simp add: upd_cur_def crash_def split: list.splits)

lemma view_warnUnused [simp]: "hidden (Some ''W098'') \<Longrightarrow> view (warnUnused E n t ty u G) = view G"
  by (simp add: warnUnused_def Let_def)

lemma view_unused_params:
  "hidden (Some ''W098'') \<Longrightarrow> view (unused_params E bs ps G) = view G"
  by (induction E bs ps G rule: unused_params.induct) (auto simp: crash_def split: option.splits)

lemma view_checkForUnused:
  "hidden (Some ''W098'') \<Longrightarrow> view (checkForUnused E G) = view G"
  by (auto simp: checkForUnused_def unused_binding_def crash_def view_unused_params
      intro!: view_fold split: list.splits option.splits)

lemma view_unused_declared:
  "hidden (Some ''W098'') \<Longrightarrow> view (unused_declared E n G) = view G"
  by (simp add: unused_declared_def split: option.splits)

lemma view_out_of_scope:
  "hidden (Some ''W038'') \<Longrightarrow> view (out_of_scope E n b u G) = view G"
  by (simp add: out_of_scope_def view_fold)

lemma view_used_enclosing:
  "hidden None \<Longrightarrow> view (used_enclosing isBody isOuter n u G) = view G"
  by (auto simp: used_enclosing_def Let_def view_emit code_of_def split: list.splits)

lemma view_hoist: "view (hoist n G) = view G"
  by (simp add: hoist_def Let_def split: list.splits option.splits)

lemma view_leave [simp]: "view (leave_scope b G) = view G"
  by (simp add: leave_scope_def Let_def)

lemma view_used_local:
  assumes "hidden (Some ''W038'')" "hidden (Some ''E013'')" "hidden (Some ''W021'')"
  shows "view (used_local E n b u G) = view G"
proof -
  have e: "view (fold (\<lambda>t. warn ''E013'' t [n]) ts H) = view H" for ts H
    by (rule view_fold) (simp add: assms)
  have w: "view (fold (\<lambda>t G. if \<not> t_ignoreW021 (g_toks G t)
      then warn ''W021'' t [n, js (b_type b)] G else G) ts H) = view H" for ts H
    by (rule view_fold) (simp add: assms)
  show ?thesis by (simp add: used_local_def Let_def e w view_out_of_scope assms)
qed

lemma view_report_undefined:
  "hidden (Some ''W117'') \<Longrightarrow> view (report_undefined E n t G) = view G"
  by (simp add: report_undefined_def Let_def)

lemma view_used_global_declared:
  assumes "hidden (Some ''W020'')" "obj_get (g_predefined G) n = Some (JBool b)"
  shows "view (used_global E n u G) = view G"
proof -
  have w: "view (fold (\<lambda>t G. if \<not> t_ignoreW020 (g_toks G t) then warn ''W020'' t [] G else G) ts H) = view H"
    for ts H by (rule view_fold) (simp add: assms)
  show ?thesis
    using assms(2) by (simp add: used_global_def Let_def w)
qed

lemma view_used_global:
  assumes "hidden (Some ''W020'')" "hidden (Some ''W117'')"
  shows "view (used_global E n u G) = view G"
proof (cases "\<exists>b. obj_get (g_predefined G) n = Some (JBool b)")
  case True
  with view_used_global_declared [OF assms(1)] show ?thesis by auto
next
  case False
  then have "used_global E n u G = fold (report_undefined E n) (u_tokens u) G"
    by (auto simp: used_global_def split: option.splits jsval.splits)
  then show ?thesis by (simp add: view_fold view_report_undefined assms)
qed

end

text \<open>The warnings of one code, in the order of the reports.\<close>

definition reports :: "string \<Rightarrow> manager \<Rightarrow> scope_event list" where
  "reports code G = filter (\<lambda>e. code_of e = Some code) (g_events G)"

lemma reports_emit:
  "reports code (emit e G) = reports code G @ (if code_of e = Some code then [e] else [])"
  by (simp add: reports_def)

interpretation toks: scope_view g_toks "\<lambda>_. True"
  by unfold_locales simp_all

interpretation predef: scope_view g_predefined "\<lambda>_. True"
  by unfold_locales simp_all

interpretation rep: scope_view "reports code" "\<lambda>c. c \<noteq> Some code" for code
  by unfold_locales (simp_all add: reports_emit, simp_all add: reports_def)

section \<open>The scopes while a scope is left\<close>

lemma warnUnused_scopes [simp]: "g_scopes (warnUnused E n t ty u G) = g_scopes G"
  by (simp add: warnUnused_def Let_def)

lemma fold_scopes: "(\<And>x G. g_scopes (f x G) = g_scopes G) \<Longrightarrow> g_scopes (fold f xs G) = g_scopes G"
  by (induction xs arbitrary: G) simp_all

lemma unused_params_scopes: "g_scopes (unused_params E bs ps G) = g_scopes G"
  by (induction E bs ps G rule: unused_params.induct) (auto simp: crash_def split: option.splits)

lemma unused_binding_scopes: "g_scopes (unused_binding E nb G) = g_scopes G"
  by (simp add: unused_binding_def split: prod.splits)

lemma checkForUnused_scopes [simp]: "g_scopes (checkForUnused E G) = g_scopes G"
  by (simp add: checkForUnused_def crash_def unused_params_scopes fold_scopes [OF unused_binding_scopes]
      split: list.splits option.splits)

lemma out_of_scope_scopes: "g_scopes (out_of_scope E n b u G) = g_scopes G"
  by (simp add: out_of_scope_def fold_scopes)

lemma used_local_scopes:
  assumes "g_scopes G = c # r"
  shows "g_scopes (used_local E n b u G) = upd_binding n (\<lambda>b. b\<lparr>b_unused := False\<rparr>) c # r"
proof -
  have e: "g_scopes (fold (\<lambda>t. warn ''E013'' t [n]) ts H) = g_scopes H" for ts H
    by (rule fold_scopes) simp
  have w: "g_scopes (fold (\<lambda>t G. if \<not> t_ignoreW021 (g_toks G t)
      then warn ''W021'' t [n, js (b_type b)] G else G) ts H) = g_scopes H" for ts H
    by (rule fold_scopes) simp
  show ?thesis
    by (simp add: used_local_def Let_def e w out_of_scope_scopes upd_cur_def assms)
qed

text \<open>What a scope has noted about a name: the tokens that use, modify or reassign it.\<close>

definition noted :: "(usage \<Rightarrow> nat list) \<Rightarrow> scope \<Rightarrow> jstr \<Rightarrow> nat list" where
  "noted f c n = (case obj_get (sc_usages c) n of None \<Rightarrow> [] | Some u \<Rightarrow> f u)"

definition is_note :: "(usage \<Rightarrow> nat list) \<Rightarrow> bool" where
  "is_note f \<longleftrightarrow> f = u_tokens \<or> f = u_modified \<or> f = u_reassigned"

lemma noted_merge:
  assumes "is_note f"
  shows "noted f (merge_usage isBody n u s) k = (if k = n then noted f s n @ f u else noted f s k)"
  using assms by (auto simp: noted_def merge_usage_def is_note_def split: option.splits)

lemma noted_same_usages: "sc_usages c' = sc_usages c \<Longrightarrow> noted f c' n = noted f c n"
  by (simp add: noted_def)

lemma upd_binding_usages [simp]:
  "sc_usages (upd_binding n f c) = sc_usages c" "binds k (upd_binding n f c) = binds k c"
  by (simp_all add: upd_binding_def binds_def)

text \<open>One name, then all names of the scope.\<close>

lemma unstack_usage_one:
  assumes "g_scopes G = c # d # r"
  shows "\<exists>c' d'. g_scopes (unstack_usage E isBody isOuter n G) = c' # d' # r \<and>
     sc_usages c' = sc_usages c \<and> (\<forall>k. binds k c' = binds k c) \<and>
     (\<forall>f k. is_note f \<longrightarrow> noted f d' k = noted f d k @ (if k = n \<and> \<not> binds n c then noted f c n else []))"
proof (cases "obj_get (sc_usages c) n")
  case None
  with assms show ?thesis by (simp add: unstack_usage_def noted_def)
next
  case (Some u)
  show ?thesis
  proof (cases "obj_get (sc_bindings c) n")
    case (Some b)
    have "unstack_usage E isBody isOuter n G = used_local E n b u G"
      using assms Some \<open>obj_get (sc_usages c) n = Some u\<close> by (simp add: unstack_usage_def)
    moreover have "binds n c" using Some by (simp add: binds_def obj_has_def)
    ultimately show ?thesis
      by (simp add: used_local_scopes [OF assms])
  next
    case None
    then have "g_scopes (unstack_usage E isBody isOuter n G) = c # merge_usage isBody n u d # r"
      using assms Some by (simp add: unstack_usage_def used_enclosing_def Let_def)
    moreover have "noted f (merge_usage isBody n u d) k =
        noted f d k @ (if k = n \<and> \<not> binds n c then noted f c n else [])" if "is_note f" for f k
      unfolding noted_merge [OF that] using Some None by (simp add: binds_def obj_has_def noted_def)
    ultimately show ?thesis by auto
  qed
qed

lemma unstack_usage_all:
  assumes "g_scopes G = c # d # r" "distinct ns"
  shows "\<exists>c' d'. g_scopes (fold (unstack_usage E isBody isOuter) ns G) = c' # d' # r \<and>
     (\<forall>k. binds k c' = binds k c) \<and>
     (\<forall>f k. is_note f \<longrightarrow>
        noted f d' k = noted f d k @ (if k \<in> set ns \<and> \<not> binds k c then noted f c k else []))"
  using assms
proof (induction ns arbitrary: G c d)
  case (Cons n ns)
  obtain c1 d1 where one: "g_scopes (unstack_usage E isBody isOuter n G) = c1 # d1 # r"
    "sc_usages c1 = sc_usages c" "\<And>k. binds k c1 = binds k c"
    "\<And>f k. is_note f \<Longrightarrow> noted f d1 k = noted f d k @ (if k = n \<and> \<not> binds n c then noted f c n else [])"
    using unstack_usage_one [OF Cons.prems(1), of E isBody isOuter n] by blast
  from Cons.IH [OF one(1)] Cons.prems(2) obtain c' d' where all:
    "g_scopes (fold (unstack_usage E isBody isOuter) (n # ns) G) = c' # d' # r"
    "\<And>k. binds k c' = binds k c1"
    "\<And>f k. is_note f \<Longrightarrow>
        noted f d' k = noted f d1 k @ (if k \<in> set ns \<and> \<not> binds k c1 then noted f c1 k else [])"
    by auto
  have "noted f d' k = noted f d k @ (if k \<in> set (n # ns) \<and> \<not> binds k c then noted f c k else [])"
    if "is_note f" for f k
    using Cons.prems(2) one(3) noted_same_usages [OF one(2)]
    by (auto simp: all(3) [OF that] one(4) [OF that])
  with all one(3) show ?case by auto
qed simp

lemma hoist_usages:
  assumes "g_scopes G = c # s # r"
  shows "\<exists>c' s'. g_scopes (hoist n G) = c' # s' # r \<and> sc_usages s' = sc_usages s"
  using assms by (auto simp: hoist_def Let_def upd_binding_def split: option.splits)

lemma hoists_usages:
  assumes "g_scopes G = c # s # r"
  shows "\<exists>c' s'. g_scopes (fold hoist ns G) = c' # s' # r \<and> sc_usages s' = sc_usages s"
  using assms
proof (induction ns arbitrary: G c s)
  case (Cons n ns)
  with hoist_usages [OF Cons.prems, of n] show ?case by (metis fold_simps(2))
qed auto

lemma unstack_noted:
  assumes "wf_manager G" "g_scopes G = c # d # r"
  shows "\<exists>d'. g_scopes (unstack E G) = d' # r \<and>
     (\<forall>f n. is_note f \<longrightarrow> noted f d' n = noted f d n @ (if binds n c then [] else noted f c n))"
proof -
  define isBody where "isBody = (g_functBody G = Some (sc_id c))"
  define isOuter where "isOuter = (sc_type c = Some ''functionouter'')"
  define G1 where "G1 = fold (unstack_usage E isBody isOuter) (obj_keys (sc_usages c)) G"
  define G3 where "G3 = (if \<not> isBody \<and> \<not> is_params c \<and> \<not> isOuter
                then fold hoist (obj_keys (sc_bindings c)) G1 else G1)"
  have keys: "distinct (obj_keys (sc_usages c))"
    using assms by (auto simp: wf_manager_def scope_ok_def intro: obj.inv_keys)
  have absent: "k \<notin> set (obj_keys (sc_usages c)) \<Longrightarrow> noted f c k = []" for f k
    by (simp add: noted_def obj.set_keys)
  obtain c1 d1 where g1: "g_scopes G1 = c1 # d1 # r"
    "\<And>f k. is_note f \<Longrightarrow> noted f d1 k = noted f d k @ (if binds k c then [] else noted f c k)"
    using unstack_usage_all [OF assms(2) keys, of E isBody isOuter] absent
    by (fastforce simp: G1_def [symmetric] intro: that)
  obtain c' d' where g3: "g_scopes G3 = c' # d' # r" "sc_usages d' = sc_usages d1"
    using hoists_usages [OF g1(1), of "obj_keys (sc_bindings c)"] g1(1)
    by (cases "\<not> isBody \<and> \<not> is_params c \<and> \<not> isOuter") (auto simp: G3_def intro: that)
  have "settle E c (d # r) G = checkForUnused E G3"
    by (simp add: settle_def Let_def isBody_def isOuter_def G1_def G3_def)
  then have "g_scopes (unstack E G) = d' # r"
    using g3(1) by (simp add: unstack_settle [OF assms(2)] leave_scope_def Let_def)
  with g1(2) noted_same_usages [OF g3(2)] show ?thesis by auto
qed

section \<open>Undeclared names\<close>

text \<open>The uses of \<open>n\<close> the global scope \<open>c\<close> reports as undeclared.\<close>

definition undeclared :: "scope_env \<Rightarrow> manager \<Rightarrow> scope \<Rightarrow> jstr \<Rightarrow> scope_event list" where
  "undeclared E G c n =
     (if binds n c \<or> (\<exists>b. obj_get (g_predefined G) n = Some (JBool b)) \<or> \<not> opt_on (e_state E) ''undef''
      then []
      else map (\<lambda>t. SWarning ''W117'' (Tok t) [n])
             (filter (\<lambda>t. \<not> t_forgiveUndef (g_toks G t) \<and> \<not> t_ignoreUndef (g_toks G t))
               (noted u_tokens c n)))"

lemma reports_report_undefined:
  "reports ''W117'' (report_undefined E n t G) = reports ''W117'' G @
     (if \<not> t_forgiveUndef (g_toks G t) \<and> opt_on (e_state E) ''undef'' \<and> \<not> t_ignoreUndef (g_toks G t)
      then [SWarning ''W117'' (Tok t) [n]] else [])"
  by (simp add: report_undefined_def Let_def reports_emit code_of_def)

lemma reports_report_undefineds:
  "reports ''W117'' (fold (report_undefined E n) ts G) = reports ''W117'' G @
     (if opt_on (e_state E) ''undef''
      then map (\<lambda>t. SWarning ''W117'' (Tok t) [n])
             (filter (\<lambda>t. \<not> t_forgiveUndef (g_toks G t) \<and> \<not> t_ignoreUndef (g_toks G t)) ts)
      else [])"
proof (induction ts arbitrary: G)
  case (Cons t ts)
  have "g_toks (report_undefined E n t G) = g_toks G" by (rule toks.view_report_undefined) simp
  with Cons show ?case by (auto simp: reports_report_undefined)
qed simp

lemma reports_used_global:
  assumes "g_scopes G = [c]" "obj_get (sc_usages c) n = Some u" "\<not> binds n c"
  shows "reports ''W117'' (used_global E n u G) = reports ''W117'' G @ undeclared E G c n"
proof (cases "\<exists>b. obj_get (g_predefined G) n = Some (JBool b)")
  case True
  then obtain b where "obj_get (g_predefined G) n = Some (JBool b)" by blast
  from rep.view_used_global_declared [OF _ this, of "''W117''"] show ?thesis
    using True by (simp add: undeclared_def)
next
  case False
  then have "used_global E n u G = fold (report_undefined E n) (u_tokens u) G"
    by (auto simp: used_global_def split: option.splits jsval.splits)
  with False assms show ?thesis
    by (simp add: reports_report_undefineds undeclared_def noted_def)
qed

lemma used_global_scopes: "g_scopes (used_global E n u G) = g_scopes G"
proof -
  have w: "g_scopes (fold (\<lambda>t G. if \<not> t_ignoreW020 (g_toks G t) then warn ''W020'' t [] G else G) ts H) = g_scopes H"
    for ts H by (rule fold_scopes) simp
  have "g_scopes (report_undefined E n t H) = g_scopes H" for t H
    by (simp add: report_undefined_def Let_def)
  then show ?thesis
    by (auto simp: used_global_def Let_def w fold_scopes split: option.splits jsval.splits)
qed

text \<open>One name of the global scope, then all of them.\<close>

lemma unstack_usage_global:
  assumes "g_scopes G = [c]"
  shows "\<exists>c'. g_scopes (unstack_usage E isBody isOuter n G) = [c'] \<and> sc_usages c' = sc_usages c \<and>
     (\<forall>k. binds k c' = binds k c) \<and>
     reports ''W117'' (unstack_usage E isBody isOuter n G) = reports ''W117'' G @ undeclared E G c n"
proof (cases "obj_get (sc_usages c) n")
  case None
  with assms show ?thesis by (simp add: unstack_usage_def undeclared_def noted_def)
next
  case (Some u)
  show ?thesis
  proof (cases "obj_get (sc_bindings c) n")
    case None
    then have "unstack_usage E isBody isOuter n G = used_global E n u G"
      using assms Some by (simp add: unstack_usage_def)
    then show ?thesis
      using None Some assms reports_used_global [OF assms Some]
      by (simp add: used_global_scopes binds_def obj_has_def)
  next
    case (Some b)
    then have "unstack_usage E isBody isOuter n G = used_local E n b u G"
      using assms \<open>obj_get (sc_usages c) n = Some u\<close> by (simp add: unstack_usage_def)
    moreover have "undeclared E G c n = []" using Some by (simp add: undeclared_def binds_def obj_has_def)
    ultimately show ?thesis
      using rep.view_used_local [of "''W117''" E n b u G] by (simp add: used_local_scopes [OF assms])
  qed
qed

lemma unstack_usage_views:
  "g_toks (unstack_usage E a b n G) = g_toks G"
  "g_predefined (unstack_usage E a b n G) = g_predefined G"
  by (auto simp: unstack_usage_def toks.view_used_local toks.view_used_enclosing toks.view_used_global
      predef.view_used_local predef.view_used_enclosing predef.view_used_global
      split: list.splits option.splits)

lemma undeclared_cong:
  assumes "g_toks G' = g_toks G" "g_predefined G' = g_predefined G" "sc_usages c' = sc_usages c"
    "\<And>k. binds k c' = binds k c"
  shows "undeclared E G' c' n = undeclared E G c n"
  using assms by (simp add: undeclared_def noted_def)

lemma unstack_usages_global:
  assumes "g_scopes G = [c]"
  shows "reports ''W117'' (fold (unstack_usage E isBody isOuter) ns G) =
     reports ''W117'' G @ List.concat (map (undeclared E G c) ns)"
  using assms
proof (induction ns arbitrary: G c)
  case (Cons n ns)
  obtain c' where one: "g_scopes (unstack_usage E isBody isOuter n G) = [c']"
    "sc_usages c' = sc_usages c" "\<And>k. binds k c' = binds k c"
    "reports ''W117'' (unstack_usage E isBody isOuter n G) = reports ''W117'' G @ undeclared E G c n"
    using unstack_usage_global [OF Cons.prems, of E isBody isOuter n] by blast
  have "undeclared E (unstack_usage E isBody isOuter n G) c' = undeclared E G c"
    using undeclared_cong [OF unstack_usage_views one(2,3)] by blast
  with Cons.IH [OF one(1)] one(4) show ?case by simp
qed simp

lemma reports_unstack:
  assumes "wf_manager G" "g_scopes G = c # r"
  shows "reports ''W117'' (unstack E G) = reports ''W117'' G @
     (if r = [] then List.concat (map (undeclared E G c) (obj_keys (sc_usages c))) else [])"
proof (cases r)
  case Nil
  have d: "reports ''W117'' (fold (unused_declared E) ns H) = reports ''W117'' H" for ns H
    by (rule rep.view_fold) (simp add: rep.view_unused_declared)
  show ?thesis
    using unstack_usages_global [of G c E "g_functBody G = Some (sc_id c)"
        "sc_type c = Some ''functionouter''"] assms Nil
    by (simp add: unstack_settle [OF assms(2)] settle_def Let_def rep.view_checkForUnused d)
next
  case (Cons d q)
  have u: "reports ''W117'' (fold (unstack_usage E a b) ns H) = reports ''W117'' H"
    if "1 < List.length (g_scopes H)" for ns H a b
    using that
  proof (induction ns arbitrary: H)
    case (Cons n ns)
    then obtain c1 d1 q1 where s: "g_scopes H = c1 # d1 # q1"
      by (cases "g_scopes H"; cases "tl (g_scopes H)") auto
    have "reports ''W117'' (unstack_usage E a b n H) = reports ''W117'' H"
      by (simp add: unstack_usage_def s rep.view_used_local rep.view_used_enclosing split: option.splits)
    moreover have "1 < List.length (g_scopes (unstack_usage E a b n H))"
      using unstack_usage_one [OF s, of E a b n] by auto
    ultimately show ?case using Cons.IH by simp
  qed simp
  have h: "reports ''W117'' (fold hoist ns H) = reports ''W117'' H" for ns H
    by (rule rep.view_fold) (rule rep.view_hoist)
  show ?thesis
    using Cons assms(2)
    by (simp add: unstack_settle [OF assms(2)] settle_def Let_def rep.view_checkForUnused h u)
qed

end
