(* ===== verification/ScopeReports.thy ===== *)
theory ScopeReports
  imports ScopeUse
begin

text \<open>
  The other reports of the scope manager, computed exactly: modified constants (E013), unused
  variables and parameters (W098) and conflicting declarations (E011).
\<close>

section \<open>Modified constants\<close>

definition constant_mods :: "scope \<Rightarrow> jstr \<Rightarrow> scope_event list" where
  "constant_mods c n =
     (case obj_get (sc_bindings c) n of
        Some b \<Rightarrow>
          if b_type b = ''const'' \<or> b_type b = ''import''
          then map (\<lambda>t. SWarning ''E013'' (Tok t) [n]) (noted u_modified c n) else []
      | None \<Rightarrow> [])"

lemma reports_warns:
  "reports code (fold (\<lambda>t. warn code t d) ts G) = reports code G @ map (\<lambda>t. SWarning code (Tok t) d) ts"
  by (induction ts arbitrary: G) (simp_all add: reports_emit code_of_def)

lemma reports_used_local:
  "reports ''E013'' (used_local E n b u G) = reports ''E013'' G @
     (if b_type b = ''const'' \<or> b_type b = ''import''
      then map (\<lambda>t. SWarning ''E013'' (Tok t) [n]) (u_modified u) else [])"
proof -
  have w: "reports ''E013'' (fold (\<lambda>t G. if \<not> t_ignoreW021 (g_toks G t)
      then warn ''W021'' t [n, js (b_type b)] G else G) ts H) = reports ''E013'' H" for ts H
    by (rule rep.view_fold) simp
  show ?thesis
    by (simp add: used_local_def Let_def w reports_warns rep.view_out_of_scope)
qed

text \<open>What a step for one name keeps of the scope that is left: its usages and the types it binds.\<close>

definition same_decls :: "scope \<Rightarrow> scope \<Rightarrow> bool" where
  "same_decls c c' \<longleftrightarrow> sc_usages c' = sc_usages c \<and> names_of c' = names_of c"

lemma same_decls_refl [simp]: "same_decls c c"
  by (simp add: same_decls_def)

lemma same_decls_trans: "same_decls a b \<Longrightarrow> same_decls b c \<Longrightarrow> same_decls a c"
  by (simp add: same_decls_def)

lemma same_decls_unused [simp]: "same_decls c (upd_binding n (\<lambda>b. b\<lparr>b_unused := u\<rparr>) c)"
  by (auto simp: same_decls_def names_of_def decl_of_def [abs_def] upd_binding_def fun_eq_iff
      option.map_comp comp_def)

lemma unstack_usage_head:
  assumes "g_scopes G = c # r"
  shows "\<exists>c' r'. g_scopes (unstack_usage E a b n G) = c' # r' \<and> same_decls c c'"
  using assms
  by (auto simp: unstack_usage_def used_local_scopes [OF assms] used_global_scopes used_enclosing_def
      Let_def split: option.splits list.splits)

lemma names_type: "map_option b_type (obj_get (sc_bindings c) n) = map_option fst (names_of c n)"
  by (simp add: names_of_def decl_of_def option.map_comp comp_def)

lemma constant_mods_cong:
  assumes "same_decls c c'"
  shows "constant_mods c' = constant_mods c"
proof
  fix n
  have "map_option b_type (obj_get (sc_bindings c') n) = map_option b_type (obj_get (sc_bindings c) n)"
    using assms by (simp add: names_type same_decls_def)
  moreover have "noted u_modified c' n = noted u_modified c n"
    using assms by (simp add: same_decls_def noted_def)
  ultimately show "constant_mods c' n = constant_mods c n"
    by (auto simp: constant_mods_def map_option_case split: option.splits)
qed

lemma reports_unstack_usage_E013:
  assumes "g_scopes G = c # r"
  shows "reports ''E013'' (unstack_usage E a b n G) = reports ''E013'' G @ constant_mods c n"
  using assms
  by (auto simp: unstack_usage_def constant_mods_def noted_def reports_used_local
      rep.view_used_enclosing rep.view_used_global split: option.splits)

lemma reports_unstack_usages_E013:
  assumes "g_scopes G = c # r"
  shows "reports ''E013'' (fold (unstack_usage E a b) ns G) =
     reports ''E013'' G @ List.concat (map (constant_mods c) ns)"
  using assms
proof (induction ns arbitrary: G c r)
  case (Cons n ns)
  obtain c' r' where "g_scopes (unstack_usage E a b n G) = c' # r'" "same_decls c c'"
    using unstack_usage_head [OF Cons.prems] by blast
  with Cons.IH reports_unstack_usage_E013 [OF Cons.prems] constant_mods_cong show ?case by simp
qed simp

lemma reports_E013_unstack:
  assumes "g_scopes G = c # r"
  shows "reports ''E013'' (unstack E G) =
     reports ''E013'' G @ List.concat (map (constant_mods c) (obj_keys (sc_usages c)))"
proof -
  have d: "reports ''E013'' (fold (unused_declared E) ns H) = reports ''E013'' H" for ns H
    by (rule rep.view_fold) (simp add: rep.view_unused_declared)
  have h: "reports ''E013'' (fold hoist ns H) = reports ''E013'' H" for ns H
    by (rule rep.view_fold) (rule rep.view_hoist)
  show ?thesis
    by (simp add: unstack_settle [OF assms] settle_def Let_def rep.view_checkForUnused d h
        reports_unstack_usages_E013 [OF assms])
qed

section \<open>Unused variables\<close>

lemma obj_upd_map:
  "obj_ok ob \<Longrightarrow> obj_upd ob n f = map (\<lambda>(k, v). (k, if k = n then f v else v)) ob"
proof (induction ob)
  case (Cons kv ob)
  obtain k v where kv: "kv = (k, v)" by force
  have IH: "obj_upd ob n f = map (\<lambda>(k, v). (k, if k = n then f v else v)) ob"
    using Cons by (simp add: obj_ok_def)
  show ?case
  proof (cases "k = n")
    case True
    then have "n \<notin> fst ` set ob" using Cons.prems kv by (simp add: obj_ok_def)
    then have "map (\<lambda>(k, v). (k, if k = n then f v else v)) ob = ob"
      by (intro map_idI) (auto simp: image_iff)
    with True kv show ?thesis by (simp add: obj_upd_def obj_get_def obj_put_def)
  next
    case False
    with IH kv show ?thesis
      by (auto simp: obj_upd_def obj_get_def obj_put_def split: option.splits)
  qed
qed (simp add: obj_upd_def)

text \<open>The bindings once the usages are settled: those used are no longer unused.\<close>

definition settled :: "jstr list \<Rightarrow> (jstr, binding) obj \<Rightarrow> (jstr, binding) obj" where
  "settled ns bs = map (\<lambda>(k, b). (k, if k \<in> set ns then b\<lparr>b_unused := False\<rparr> else b)) bs"

lemma obj_ok_settled: "obj_ok bs \<Longrightarrow> obj_ok (settled ns bs)"
  by (simp add: obj_ok_def settled_def comp_def case_prod_beta)

lemma unstack_usage_bindings:
  assumes "g_scopes G = c # r" "obj_ok (sc_bindings c)" "obj_has (sc_usages c) n"
  shows "\<exists>c' r'. g_scopes (unstack_usage E a b n G) = c' # r' \<and> sc_usages c' = sc_usages c \<and>
     sc_type c' = sc_type c \<and> obj_ok (sc_bindings c') \<and> sc_bindings c' = settled [n] (sc_bindings c)"
proof -
  from assms(3) obtain u where u: "obj_get (sc_usages c) n = Some u" by (auto simp: obj_has_def)
  show ?thesis
  proof (cases "obj_get (sc_bindings c) n")
    case (Some b')
    then have "unstack_usage E a b n G = used_local E n b' u G"
      using assms(1) u by (simp add: unstack_usage_def)
    then show ?thesis
      using assms(2) obj_ok_settled [OF assms(2), of "[n]"]
      by (simp add: used_local_scopes [OF assms(1)] upd_binding_def settled_def obj_upd_map)
  next
    case None
    then have "settled [n] (sc_bindings c) = sc_bindings c"
      by (force simp: settled_def obj_get_def map_of_eq_None_iff intro!: map_idI)
    then show ?thesis
      using assms(1,2) None u
      by (auto simp: unstack_usage_def used_global_scopes used_enclosing_def Let_def split: list.splits)
  qed
qed

lemma unstack_usages_bindings:
  assumes "g_scopes G = c # r" "obj_ok (sc_bindings c)" "list_all (obj_has (sc_usages c)) ns"
  shows "\<exists>c' r'. g_scopes (fold (unstack_usage E a b) ns G) = c' # r' \<and> sc_type c' = sc_type c \<and>
     sc_bindings c' = settled ns (sc_bindings c)"
  using assms
proof (induction ns arbitrary: G c r)
  case (Cons n ns)
  obtain c1 r1 where one: "g_scopes (unstack_usage E a b n G) = c1 # r1" "sc_usages c1 = sc_usages c"
    "sc_type c1 = sc_type c" "obj_ok (sc_bindings c1)" "sc_bindings c1 = settled [n] (sc_bindings c)"
    using unstack_usage_bindings [OF Cons.prems(1,2), of n E a b] Cons.prems(3) by auto
  have "settled ns (settled [n] (sc_bindings c)) = settled (n # ns) (sc_bindings c)"
    by (auto simp: settled_def)
  with Cons.IH [OF one(1,4)] one Cons.prems(3) show ?case by auto
qed (auto simp: settled_def)

text \<open>The report for one variable, and for all of them.\<close>

definition unused_report :: "scope_env \<Rightarrow> (nat \<Rightarrow> stoken) \<Rightarrow> string \<Rightarrow> jsval \<Rightarrow> jstr \<Rightarrow> nat \<Rightarrow> scope_event list" where
  "unused_report E ts ty opt n t =
     (let u = getUnusedOption E opt in
      if truthy u \<and> warnable u ty
      then [SWarning ''W098'' (Pos (t_line (ts t)) (t_from (ts t)))
              [case t_raw_text (ts t) of Some (c # s) \<Rightarrow> c # s | _ \<Rightarrow> n]]
      else [])"

lemma reports_warnUnused:
  "reports ''W098'' (warnUnused E n t ty opt G) =
     reports ''W098'' G @ unused_report E (g_toks G) ty opt n t"
  by (simp add: warnUnused_def unused_report_def Let_def reports_def emit_def code_of_def)

lemma warnUnused_toks [simp]: "g_toks (warnUnused E n t ty opt G) = g_toks G"
  by (rule toks.view_warnUnused) simp

lemma reports_unused_bindings:
  assumes "g_toks G = ts"
  shows "reports ''W098'' (fold (unused_binding E) bs G) = reports ''W098'' G @
     List.concat (map (\<lambda>(n, b). if b_type b \<noteq> ''exception'' \<and> b_unused b
        then unused_report E ts ''var'' JUndef n (b_token b) else []) bs)"
  using assms
  by (induction bs arbitrary: G) (auto simp: unused_binding_def reports_warnUnused split: prod.splits)

text \<open>Leaving the body of a function: its unused variables are those that no usage names.\<close>

definition unused_vars :: "scope_env \<Rightarrow> (nat \<Rightarrow> stoken) \<Rightarrow> scope \<Rightarrow> scope_event list" where
  "unused_vars E ts c =
     List.concat (map (\<lambda>(n, b).
        if b_type b \<noteq> ''exception'' \<and> b_unused b \<and> \<not> obj_has (sc_usages c) n
        then unused_report E ts ''var'' JUndef n (b_token b) else []) (sc_bindings c))"

lemma view_unstack_usage_W098:
  "reports ''W098'' (unstack_usage E a b n G) = reports ''W098'' G"
  by (simp add: unstack_usage_def rep.view_used_local rep.view_used_enclosing rep.view_used_global
      split: list.splits option.splits)

lemma unstack_usages_toks: "g_toks (fold (unstack_usage E a b) ns G) = g_toks G"
  by (rule toks.view_fold) (rule unstack_usage_views)

lemma settled_reports:
  "List.concat (map (\<lambda>(n, b). if b_type b \<noteq> ''exception'' \<and> b_unused b then f n b else [])
     (settled ns bs)) =
   List.concat (map (\<lambda>(n, b). if b_type b \<noteq> ''exception'' \<and> b_unused b \<and> n \<notin> set ns then f n b else []) bs)"
  if "\<And>n b u. f n (b\<lparr>b_unused := u\<rparr>) = f n b"
  by (induction bs) (auto simp: settled_def that)

lemma reports_W098_body:
  assumes "wf_manager G" "g_scopes G = c # d # r" "sc_isFuncBody c"
  shows "reports ''W098'' (unstack E G) = reports ''W098'' G @ unused_vars E (g_toks G) c"
proof -
  have body: "g_functBody G = Some (sc_id c)"
    using body_iff [OF assms(1,2)] assms(3) by (simp add: is_body_def)
  have ok: "obj_ok (sc_bindings c)" "\<not> is_params c"
    using assms by (auto simp: wf_manager_def scope_ok_def is_params_def)
  have has: "list_all (obj_has (sc_usages c)) (obj_keys (sc_usages c))"
    by (simp add: list_all_iff obj_keys_has)
  define G1 where "G1 = fold (unstack_usage E True (sc_type c = Some ''functionouter'')) (obj_keys (sc_usages c)) G"
  obtain c' r' where c': "g_scopes G1 = c' # r'" "sc_type c' = sc_type c"
    "sc_bindings c' = settled (obj_keys (sc_usages c)) (sc_bindings c)"
    using unstack_usages_bindings [OF assms(2) ok(1) has] unfolding G1_def by blast
  have "unstack E G = leave_scope True (checkForUnused E G1)"
    by (simp add: unstack_settle [OF assms(2)] settle_def Let_def body G1_def)
  moreover have "reports ''W098'' (checkForUnused E G1) = reports ''W098'' G1 @
      List.concat (map (\<lambda>(n, b). if b_type b \<noteq> ''exception'' \<and> b_unused b
        then unused_report E (g_toks G) ''var'' JUndef n (b_token b) else []) (sc_bindings c'))"
    using c' ok(2) unstack_usages_toks
    by (simp add: checkForUnused_def is_params_def reports_unused_bindings G1_def)
  moreover have "reports ''W098'' G1 = reports ''W098'' G"
    unfolding G1_def by (rule rep.view_fold) (rule view_unstack_usage_W098)
  ultimately show ?thesis
    by (simp add: c'(3) settled_reports unused_vars_def obj_keys_has)
qed

section \<open>Unused parameters\<close>

text \<open>
  Which parameters, the last one first, are reported: with \<open>last-param\<close> those after the last
  one that is used, with \<open>strict\<close> all that are unused, otherwise none.
\<close>

definition reported_params :: "jsval \<Rightarrow> (jstr \<Rightarrow> bool) \<Rightarrow> jstr list \<Rightarrow> jstr list" where
  "reported_params u unused ps =
     (if u = JStr (js ''last-param'') then takeWhile unused ps
      else if u = JStr (js ''strict'') then filter unused ps else [])"

definition param_unused :: "(jstr, binding) obj \<Rightarrow> jstr \<Rightarrow> bool" where
  "param_unused bs p \<longleftrightarrow> (case obj_get bs p of None \<Rightarrow> False | Some b \<Rightarrow> b_unused b)"

definition param_token :: "(jstr, binding) obj \<Rightarrow> jstr \<Rightarrow> nat" where
  "param_token bs p = (case obj_get bs p of None \<Rightarrow> 0 | Some b \<Rightarrow> b_token b)"

lemma param_report_none:
  assumes "getUnusedOption E opt \<noteq> JStr (js ''last-param'')" "getUnusedOption E opt \<noteq> JStr (js ''strict'')"
  shows "unused_report E ts ''param'' opt n t = []"
  using assms by (simp add: unused_report_def warnable_def)

text \<open>The check ends at a parameter named \<open>undefined\<close>, and at one without a name.\<close>

abbreviation checked_name :: "jstr \<Rightarrow> bool" where
  "checked_name p \<equiv> p \<noteq> [] \<and> p \<noteq> js ''undefined''"

lemma reports_unused_params:
  assumes "list_all (\<lambda>p. obj_has bs p) ps" "g_toks G = ts"
  shows "reports ''W098'' (unused_params E bs ps G) = reports ''W098'' G @
     List.concat (map (\<lambda>p. unused_report E ts ''param'' (e_unusedOption E) p (param_token bs p))
      (reported_params (getUnusedOption E (e_unusedOption E)) (param_unused bs) (takeWhile checked_name ps)))"
  using assms
proof (induction ps arbitrary: G)
  case (Cons p ps)
  then obtain b where b: "obj_get bs p = Some b" by (auto simp: obj_has_def)
  show ?case
    using Cons b
    by (auto simp: reported_params_def param_unused_def param_token_def reports_warnUnused
        param_report_none)
qed (simp add: reported_params_def)

section \<open>Conflicting declarations\<close>

text \<open>
  The abstract rule. A block-scoped name may not be declared twice in one level, nor repeat a
  parameter in the body of the function; a function-scoped name may not meet a block-scoped
  one between its block and the parameters.
\<close>

fun let_conflict :: "jstr \<Rightarrow> level list \<Rightarrow> bool" where
  "let_conflict n [] = False"
| "let_conflict n ((k, m) # r) =
     (m n \<noteq> None \<or> (k = LBody \<and> (case r of [] \<Rightarrow> False | (k', m') # _ \<Rightarrow> m' n \<noteq> None)))"

fun var_conflict :: "jstr \<Rightarrow> level list \<Rightarrow> bool" where
  "var_conflict n [] = False"
| "var_conflict n ((k, m) # r) =
     ((case m n of None \<Rightarrow> False | Some (ty, bs) \<Rightarrow> bs) \<or> (k \<noteq> LParams \<and> var_conflict n r))"

definition conflict :: "jstr \<Rightarrow> string \<Rightarrow> bool \<Rightarrow> level list \<Rightarrow> bool" where
  "conflict n ty glob ls =
     (if is_blockscoped ty
      then let_conflict n ls \<and> (\<not> is_hoisted ty \<or> \<not> glob \<or> ty = ''import'')
      else var_conflict n ls)"

lemma names_of_None: "names_of c n = None \<longleftrightarrow> \<not> binds n c"
  by (simp add: names_of_def binds_def obj_has_def)

lemma kind_params [simp]: "kind_of c = LParams \<longleftrightarrow> is_params c"
  by (simp add: kind_of_def)

lemma funct_has_var_conflict: "funct_has True False n cs = var_conflict n (map level_of cs)"
  unfolding funct_has_def
  by (induction cs) (auto simp: level_of_def names_of_def decl_of_def split: option.splits)

lemma declared_let_conflict:
  assumes "wf_manager G" "g_scopes G = c # r"
  shows "declaredInCurrentScope n c G = Some (let_conflict n (env G))"
proof (cases "sc_isFuncBody c")
  case True
  then have c: "sc_type c = None" "kind_of c = LBody"
    using assms by (auto simp: wf_manager_def scope_ok_def kind_of_def is_params_def)
  then obtain d q where r: "r = d # q" "sc_parent c = Some (sc_id d)"
    using assms True by (cases r) (auto simp: wf_manager_def)
  have fb: "g_functBody G = Some (sc_id c)"
    using body_iff [OF assms] True by (simp add: is_body_def)
  have "sc_id c \<noteq> sc_id d" using assms r by (simp add: wf_manager_def)
  then have "param_scope G = Some d"
    using assms(2) r fb by (simp add: param_scope_def body_scope_def scope_by_id_def)
  then show ?thesis
    using c fb assms(2) r
    by (simp add: declaredInCurrentScope_def env_def level_of_def names_of_None del: not_None_eq)
next
  case False
  then have "kind_of c \<noteq> LBody" by (simp add: kind_of_def)
  moreover have "\<not> (g_functBody G = Some (sc_id c) \<and> sc_type c \<noteq> Some ''global'')"
    using body_iff [OF assms] False by (simp add: is_body_def)
  ultimately show ?thesis
    using assms(2) by (auto simp: declaredInCurrentScope_def env_def level_of_def names_of_None)
qed

context scope_view
begin

lemma view_latedef [simp]: "hidden (Some ''W003'') \<Longrightarrow> view (latedefWarning E ty n t G) = view G"
  by (simp add: latedefWarning_def Let_def)

lemma view_outer_shadow [simp]:
  "hidden (Some ''W123'') \<Longrightarrow> view (outer_shadow nf body outside n t cs G) = view G"
  by (induction cs arbitrary: outside G) (simp_all add: Let_def)

lemma view_checkOuterShadow [simp]:
  "hidden (Some ''W123'') \<Longrightarrow> view (checkOuterShadow E n t G) = view G"
  by (simp add: checkOuterShadow_def crash_def split: list.splits)

lemma view_add [simp]:
  "view (block_add n ty t u i G) = view G" "view (funct_add n ty t u G) = view G"
  by (simp_all add: block_add_def funct_add_def)

end

lemma reports_addbinding_block:
  assumes "wf_manager G"
  shows "reports ''E011'' (addbinding_block E n ty t i x G) = reports ''E011'' G @
     (if let_conflict n (env G) \<and> (\<not> is_hoisted ty \<or> \<not> isGlobal G \<or> ty = ''import'')
      then [SWarning ''E011'' (Tok t) [n]] else [])"
proof -
  obtain c r where c: "g_scopes G = c # r" using assms by (cases "g_scopes G") (auto dest: wf_not_Nil)
  show ?thesis
    by (simp add: addbinding_block_def c declared_let_conflict [OF assms c] Let_def reports_emit
        code_of_def isGlobal_def rep.view_latedef split: option.splits)
qed

lemma reports_addbinding_funct:
  "reports ''E011'' (addbinding_funct E n ty t x G) = reports ''E011'' G @
     (if var_conflict n (env G) then [SWarning ''E011'' (Tok t) [n]] else [])"
  by (simp add: addbinding_funct_def Let_def funct_has_var_conflict env_def [symmetric] reports_emit
      code_of_def)

lemma reports_addbinding:
  assumes "wf_manager G"
  shows "reports ''E011'' (addbinding E n ty t i G) = reports ''E011'' G @
     (if conflict n ty (isGlobal G) (env G) then [SWarning ''E011'' (Tok t) [n]] else [])"
proof -
  define G1 where "G1 = checkOuterShadow E n t G"
  define G2 where "G2 = (if isStrict (e_state E) \<and> is_restricted n then warn ''E008'' t [] G1 else G1)"
  have q: "lifts same_names G G2"
    using quiet.lifted_checkOuterShadow [OF wf_not_Nil [OF assms]] by (simp add: G2_def G1_def)
  have wf2: "wf_manager G2" by (rule wf_keeps [OF assms quiet.lifted_keeps [OF q]])
  have "g_scopes G2 = g_scopes G"
    by (simp add: G2_def G1_def checkOuterShadow_def crash_def split: list.splits)
  then have g: "isGlobal G2 = isGlobal G" by (simp add: isGlobal_def)
  have "reports ''E011'' G2 = reports ''E011'' G" by (simp add: G2_def G1_def)
  then show ?thesis
    unfolding addbinding_def Let_def G1_def [symmetric] G2_def [symmetric]
    by (simp add: reports_addbinding_block [OF wf2] reports_addbinding_funct env_quiet [OF q] g conflict_def)
qed

section \<open>The temporal dead zone\<close>

text \<open>Whether a use of the name in the current scope comes before its initialization.\<close>

definition dead_in :: "jstr \<Rightarrow> scope \<Rightarrow> string option" where
  "dead_in n c =
     (case obj_get (sc_bindings c) n of
        None \<Rightarrow> None
      | Some b \<Rightarrow> if b_blockscoped b \<and> \<not> b_initialized b then Some (b_type b) else None)"

definition dead :: "jstr \<Rightarrow> manager \<Rightarrow> string option" where
  "dead n G = (case g_scopes G of [] \<Rightarrow> None | c # _ \<Rightarrow> dead_in n c)"

lemma dead_in_unused [simp]: "dead_in n (upd_binding m (\<lambda>b. b\<lparr>b_unused := u\<rparr>) c) = dead_in n c"
  by (simp add: dead_in_def upd_binding_def split: option.splits)

lemma dead_after_add:
  assumes "g_scopes G \<noteq> []"
  shows "dead n (block_add n ty t u i G) = (if i then None else Some ty)"
    "dead n (funct_add n ty t u G) = None"
  using assms by (cases "g_scopes G"; simp add: dead_def dead_in_def block_add_def funct_add_def upd_cur_def put_binding_def)+

lemma dead_after_initialize:
  "g_scopes G \<noteq> [] \<Longrightarrow> dead n (initialize m G) = (if m = n then None else dead n G)"
  by (cases "g_scopes G")
    (auto simp: dead_def dead_in_def initialize_def upd_cur_def upd_binding_def split: option.splits)

lemma reports_upd_tok [simp]: "reports code (upd_tok t f G) = reports code G"
  by (simp add: reports_def)

lemma reports_use_param: "reports code (use_param n G) = reports code G"
  by (simp add: use_param_def body_binding_def split: option.splits)

lemma reports_check_tdz:
  "reports ''E056'' (check_tdz n t G) = reports ''E056'' G @
     (case dead n G of None \<Rightarrow> [] | Some ty \<Rightarrow> [SWarning ''E056'' (tok_ref t) [n, js ty]])"
  by (simp add: check_tdz_def dead_def dead_in_def reports_emit code_of_def split: list.splits option.splits)

lemma dead_usages:
  "dead n (upd_cur (upd_usage m f) G) = dead n G" "dead n (upd_tok t g G) = dead n G"
  "dead n (upd_cur (\<lambda>c. upd_usage m f (setupUsages m c)) G) = dead n G"
  by (simp_all add: dead_def dead_in_def upd_cur_def crash_def upd_usage_def setupUsages_def split: list.splits)

lemma dead_use_param: "dead n (use_param m G) = dead n G"
  by (cases "g_scopes G") (simp_all add: use_param_def body_binding_def dead_def split: option.splits)

lemma reports_use:
  "reports ''E056'' (block_use E n t G) = reports ''E056'' G @
     (case dead n G of None \<Rightarrow> [] | Some ty \<Rightarrow> [SWarning ''E056'' (tok_ref t) [n, js ty]])"
  unfolding block_use_def Let_def reports_check_tdz
  by (cases t) (simp_all add: dead_usages dead_use_param reports_use_param)

end
