(* ===== verification/ScopeTheorems.thy ===== *)
theory ScopeTheorems
  imports ScopeReports
begin

text \<open>
  The properties of the scope manager: when it throws, its tables are the block structure of
  the language, no use of a name is lost, and its reports are exactly the faults they name.
\<close>

section \<open>Concrete runs\<close>

text \<open>
  The witnesses run the manager with the options \<open>undef\<close> and \<open>unused\<close> on, from an empty
  environment that predefines nothing.
\<close>

definition demo_env :: scope_env where
  "demo_env =
     \<lparr>e_state = reset_state\<lparr>option := (\<lambda>o'. if o' = ''undef'' \<or> o' = ''unused'' then JBool True else JUndef)\<rparr>,
      e_unusedOption = JUndef, e_simpleParams = True, e_method = False, e_next = 0\<rparr>"

definition demo_tok :: stoken where
  "demo_tok = \<lparr>t_line = 1, t_from = 0, t_end = False, t_raw_text = None, t_function = None, t_forgiveUndef = False,
     t_ignoreUndef = False, t_ignoreW020 = False, t_ignoreW021 = False\<rparr>"

definition demo_manager :: manager where
  "demo_manager = scopeManager [] [] [] (\<lambda>_. demo_tok)"

lemma wf_demo: "wf_manager demo_manager"
  by (simp add: demo_manager_def wf_scopeManager)

fun scope_run :: "scope_env \<Rightarrow> manager_call list \<Rightarrow> manager \<Rightarrow> manager" where
  "scope_run E [] G = G"
| "scope_run E (op # ops) G = scope_run E ops (scope_step E op G)"

fun runs_ok :: "scope_env \<Rightarrow> manager_call list \<Rightarrow> manager \<Rightarrow> bool" where
  "runs_ok E [] G = True"
| "runs_ok E (op # ops) G = (allowed op G \<and> runs_ok E ops (scope_step E op G))"

lemma wf_run: "wf_manager G \<Longrightarrow> runs_ok E ops G \<Longrightarrow> wf_manager (scope_run E ops G)"
  by (induction E ops G rule: scope_run.induct) (auto intro: wf_scope_step)

text \<open>A function with a local \<open>let\<close> and a parameter, left open in its body.\<close>

definition demo_ops :: "manager_call list" where
  "demo_ops = [OStack (Some ''functionouter''), OStack (Some ''functionparams''),
     OAddParam (js ''p'') 1 None, OStack None, OAddbinding (js ''x'') ''let'' 2 False,
     OUse (js ''y'') (Some 3)]"

lemma demo_ops_ok: "runs_ok demo_env demo_ops demo_manager"
  by code_simp

lemma wf_demo_run: "wf_manager (scope_run demo_env demo_ops demo_manager)"
  by (rule wf_run [OF wf_demo demo_ops_ok])

section \<open>When the manager throws\<close>

text \<open>
  C5: From any well-formed state, a call of the manager throws exactly when it adds a new parameter where
  the current scope has no list of parameters or validates the parameters outside of every function. A call
  that does not throw leaves the manager well formed (its scopes linked to their parents down to the global
  scope, \<open>_currentFunctBody\<close> the innermost function's body), unless it leaves the global scope.
\<close>

theorem scope_manager_throws:
  assumes "wf_manager G" "op \<noteq> OStack (Some ''global'')"
  shows "(g_crashed (scope_step E op G) \<longleftrightarrow> throws op G) \<and>
    (\<not> throws op G \<longrightarrow> wf_manager (scope_step E op G) \<or> op = OUnstack \<and> g_scopes (scope_step E op G) = [])"
proof -
  have "g_scopes (unstack E G) = []" if "\<not> 1 < List.length (g_scopes G)"
    using that unstack_scopes [OF assms(1), of E] by (metis diff_is_0_eq length_0_conv not_less)
  moreover have "\<not> throws op G \<Longrightarrow> allowed op G \<or> op = OUnstack \<and> \<not> 1 < List.length (g_scopes G)"
    using assms(2) by (cases op) auto
  ultimately show ?thesis
    using step_crashes [OF assms(1)] wf_scope_step [OF assms(1)] by auto
qed

theorem scope_manager_throws_witness:
  "g_crashed (scope_step demo_env (OAddParam (js ''q'') 4 None) (scope_run demo_env demo_ops demo_manager)) \<and>
   wf_manager (scope_step demo_env (OAddParam (js ''q'') 4 None)
     (scope_step demo_env (OStack (Some ''functionparams'')) (scope_run demo_env demo_ops demo_manager)))"
proof -
  let ?G = "scope_run demo_env demo_ops demo_manager"
  let ?H = "scope_step demo_env (OStack (Some ''functionparams'')) ?G"
  have t: "throws (OAddParam (js ''q'') 4 None) ?G" "\<not> throws (OAddParam (js ''q'') 4 None) ?H" by code_simp+
  have "wf_manager ?H" using wf_scope_step [OF wf_demo_run, of "OStack (Some ''functionparams'')"] by simp
  then show ?thesis
    using t scope_manager_throws [OF wf_demo_run, of "OAddParam (js ''q'') 4 None" demo_env]
      scope_manager_throws [of ?H "OAddParam (js ''q'') 4 None" demo_env] by blast
qed

section \<open>Lookup is lexical scoping\<close>

text \<open>
  C4: From any well-formed state, every call that changes the manager and does not throw has, on the names
  the scopes bind, exactly the effect of the abstract block structure, and the type found for a name is that
  of its innermost declaration.
\<close>

theorem scope_refines_block_structure:
  assumes "wf_manager G" "\<not> throws op G"
  shows "env (scope_step E op G) = spec_step op (env G) \<and>
    bindingtype n (scope_step E op G) = map_option fst (resolve n (spec_step op (env G)))"
  using env_step [OF assms] by (simp add: bindingtype_resolve)

theorem scope_refines_block_structure_witness:
  "bindingtype (js ''p'') (scope_step demo_env OUnstack (scope_run demo_env demo_ops demo_manager)) =
     map_option fst (resolve (js ''p'') (spec_leave (env (scope_run demo_env demo_ops demo_manager))))"
  using scope_refines_block_structure [OF wf_demo_run, of OUnstack demo_env] by simp

section \<open>No use is lost\<close>

text \<open>
  C17: Leaving an inner scope hands every use, modification and reassignment of a name it does not
  bind to the scope below, after those noted there, and touches no other scope's notes.
\<close>

theorem usages_handed_down:
  assumes "wf_manager G" "g_scopes G = c # d # r"
  shows "\<exists>d'. g_scopes (unstack E G) = d' # r \<and>
    (\<forall>f n. is_note f \<longrightarrow> noted f d' n = noted f d n @ (if binds n c then [] else noted f c n))"
  by (rule unstack_noted [OF assms])

lemma demo_top:
  "\<exists>c d r. g_scopes (scope_run demo_env demo_ops demo_manager) = c # d # r \<and>
     noted u_tokens c (js ''y'') = [3] \<and> noted u_tokens d (js ''y'') = [] \<and> \<not> binds (js ''y'') c"
proof -
  have "1 < List.length (g_scopes (scope_run demo_env demo_ops demo_manager)) \<and>
    noted u_tokens (hd (g_scopes (scope_run demo_env demo_ops demo_manager))) (js ''y'') = [3] \<and>
    noted u_tokens (hd (tl (g_scopes (scope_run demo_env demo_ops demo_manager)))) (js ''y'') = [] \<and>
    \<not> binds (js ''y'') (hd (g_scopes (scope_run demo_env demo_ops demo_manager)))"
    by code_simp
  then show ?thesis
    by (cases "g_scopes (scope_run demo_env demo_ops demo_manager)";
        cases "tl (g_scopes (scope_run demo_env demo_ops demo_manager))") auto
qed

theorem usages_handed_down_witness:
  "\<exists>d' r. g_scopes (unstack demo_env (scope_run demo_env demo_ops demo_manager)) = d' # r \<and>
     noted u_tokens d' (js ''y'') = [3]"
proof -
  obtain c d r where "g_scopes (scope_run demo_env demo_ops demo_manager) = c # d # r"
    "noted u_tokens c (js ''y'') = [3]" "noted u_tokens d (js ''y'') = []" "\<not> binds (js ''y'') c"
    using demo_top by blast
  with usages_handed_down [OF wf_demo_run, of c d r demo_env] show ?thesis
    by (auto simp: is_note_def)
qed

section \<open>Undeclared names\<close>

text \<open>
  C18: Undeclared names (W117) are reported when the global scope is left and at no other time:
  for every name noted there that is neither bound nor predefined, each use that is not excused, in order.
\<close>

theorem undeclared_uses_reported:
  assumes "wf_manager G" "g_scopes G = c # r"
  shows "reports ''W117'' (unstack E G) = reports ''W117'' G @
     (if r = [] then List.concat (map (undeclared E G c) (obj_keys (sc_usages c))) else [])"
  by (rule reports_unstack [OF assms])

theorem undeclared_uses_reported_witness:
  "reports ''W117'' (unstack demo_env (scope_step demo_env (OUse (js ''y'') (Some 7)) demo_manager)) =
     [SWarning ''W117'' (Tok 7) [js ''y'']]"
proof -
  let ?G = "scope_step demo_env (OUse (js ''y'') (Some 7)) demo_manager"
  have wf: "wf_manager ?G" by (rule wf_scope_step [OF wf_demo]) simp
  have "List.length (g_scopes ?G) = 1 \<and> reports ''W117'' ?G = [] \<and>
    List.concat (map (undeclared demo_env ?G (hd (g_scopes ?G))) (obj_keys (sc_usages (hd (g_scopes ?G))))) =
      [SWarning ''W117'' (Tok 7) [js ''y'']]"
    by code_simp
  then obtain c where "g_scopes ?G = [c]" "reports ''W117'' ?G = []"
    "List.concat (map (undeclared demo_env ?G c) (obj_keys (sc_usages c))) = [SWarning ''W117'' (Tok 7) [js ''y'']]"
    by (cases "g_scopes ?G") auto
  with undeclared_uses_reported [OF wf, of c "[]" demo_env] show ?thesis by simp
qed

section \<open>Modified constants\<close>

text \<open>
  C31: When a scope is left, every modification noted there of a name it binds as a constant or an
  import is reported (E013), and nothing else is.
\<close>

theorem constant_modifications_reported:
  assumes "g_scopes G = c # r"
  shows "reports ''E013'' (unstack E G) =
    reports ''E013'' G @ List.concat (map (constant_mods c) (obj_keys (sc_usages c)))"
  by (rule reports_E013_unstack [OF assms])

theorem constant_modifications_reported_witness:
  "reports ''E013'' (unstack demo_env (scope_run demo_env
      [OAddbinding (js ''k'') ''const'' 1 True, OModify (js ''k'') 5] demo_manager)) =
   [SWarning ''E013'' (Tok 5) [js ''k'']]"
proof -
  let ?G = "scope_run demo_env [OAddbinding (js ''k'') ''const'' 1 True, OModify (js ''k'') 5] demo_manager"
  have "g_scopes ?G \<noteq> [] \<and> reports ''E013'' ?G = [] \<and>
    List.concat (map (constant_mods (hd (g_scopes ?G))) (obj_keys (sc_usages (hd (g_scopes ?G))))) =
      [SWarning ''E013'' (Tok 5) [js ''k'']]"
    by code_simp
  then show ?thesis
    using constant_modifications_reported [of ?G "hd (g_scopes ?G)" "tl (g_scopes ?G)" demo_env] by simp
qed

section \<open>Unused variables and parameters\<close>

text \<open>
  C32: When the body of a function is left, the variables reported as unused (W098) are exactly those
  declared unused that no usage noted in the body names, under the option that is in force.
\<close>

theorem unused_variables_reported:
  assumes "wf_manager G" "g_scopes G = c # d # r" "sc_isFuncBody c"
  shows "reports ''W098'' (unstack E G) = reports ''W098'' G @ unused_vars E (g_toks G) c"
  by (rule reports_W098_body [OF assms])

theorem unused_variables_reported_witness:
  "reports ''W098'' (unstack demo_env (scope_run demo_env demo_ops demo_manager)) =
     [SWarning ''W098'' (Pos 1 0) [js ''x'']]"
proof -
  let ?G = "scope_run demo_env demo_ops demo_manager"
  have "1 < List.length (g_scopes ?G) \<and> reports ''W098'' ?G = [] \<and> sc_isFuncBody (hd (g_scopes ?G)) \<and>
    unused_vars demo_env (g_toks ?G) (hd (g_scopes ?G)) = [SWarning ''W098'' (Pos 1 0) [js ''x'']]"
    by code_simp
  then show ?thesis
    using unused_variables_reported [OF wf_demo_run, of "hd (g_scopes ?G)" "hd (tl (g_scopes ?G))"
        "tl (tl (g_scopes ?G))" demo_env]
    by (cases "g_scopes ?G"; cases "tl (g_scopes ?G)") auto
qed

text \<open>
  C33: The parameters reported as unused (W098) when their scope is checked, from the last one back to the
  first that is named \<open>undefined\<close>: with \<open>last-param\<close> those after the last one that is used, with \<open>strict\<close> every
  unused one, with any other setting none.
\<close>

theorem unused_parameters_reported:
  assumes "wf_manager G" "g_scopes G = c # r" "is_params c" "sc_params c = Some ps"
  shows "reports ''W098'' (checkForUnused E G) = reports ''W098'' G @
    List.concat (map (\<lambda>p. unused_report E (g_toks G) ''param'' (e_unusedOption E) p
        (param_token (sc_bindings c) p))
      (reported_params (getUnusedOption E (e_unusedOption E)) (param_unused (sc_bindings c))
        (takeWhile (\<lambda>p. p \<noteq> [] \<and> p \<noteq> js ''undefined'') (rev ps))))"
proof -
  have "list_all (\<lambda>p. obj_has (sc_bindings c) p) (rev ps)"
    using assms by (simp add: wf_manager_def scope_ok_def binds_def)
  then show ?thesis
    using assms reports_unused_params [of "sc_bindings c" "rev ps" G "g_toks G" E] by (simp add: checkForUnused_def)
qed

theorem unused_parameters_reported_witness:
  "reports ''W098'' (checkForUnused demo_env (scope_run demo_env
      [OStack (Some ''functionparams''), OAddParam (js ''undefined'') 1 None, OAddParam (js ''a'') 2 None,
       OAddParam (js ''b'') 3 None] demo_manager)) =
   [SWarning ''W098'' (Pos 1 0) [js ''b''], SWarning ''W098'' (Pos 1 0) [js ''a'']]"
proof -
  let ?ops = "[OStack (Some ''functionparams''), OAddParam (js ''undefined'') 1 None, OAddParam (js ''a'') 2 None,
    OAddParam (js ''b'') 3 None]"
  let ?G = "scope_run demo_env ?ops demo_manager"
  let ?c = "hd (g_scopes ?G)"
  have "runs_ok demo_env ?ops demo_manager" by code_simp
  then have wf: "wf_manager ?G" by (rule wf_run [OF wf_demo])
  have "g_scopes ?G \<noteq> [] \<and> is_params ?c \<and> sc_params ?c = Some [js ''undefined'', js ''a'', js ''b''] \<and>
    reports ''W098'' ?G = [] \<and>
    List.concat (map (\<lambda>p. unused_report demo_env (g_toks ?G) ''param'' (e_unusedOption demo_env) p
        (param_token (sc_bindings ?c) p))
      (reported_params (getUnusedOption demo_env (e_unusedOption demo_env)) (param_unused (sc_bindings ?c))
        (takeWhile (\<lambda>p. p \<noteq> [] \<and> p \<noteq> js ''undefined'') (rev [js ''undefined'', js ''a'', js ''b''])))) =
    [SWarning ''W098'' (Pos 1 0) [js ''b''], SWarning ''W098'' (Pos 1 0) [js ''a'']]"
    by code_simp
  then show ?thesis
    using unused_parameters_reported [OF wf, of ?c "tl (g_scopes ?G)" "[js ''undefined'', js ''a'', js ''b'']" demo_env]
    by simp
qed

section \<open>Conflicting declarations\<close>

text \<open>
  C34: A declaration is reported as a redefinition (E011) exactly when the block structure makes it
  one: a block-scoped name declared twice in a level or repeating a parameter in the function's
  body, or a function-scoped name that meets a block-scoped one on its way out to the parameters.
\<close>

theorem redefinition_reported:
  assumes "wf_manager G"
  shows "reports ''E011'' (addbinding E n ty t i G) = reports ''E011'' G @
    (if conflict n ty (isGlobal G) (env G) then [SWarning ''E011'' (Tok t) [n]] else [])"
  by (rule reports_addbinding [OF assms])

theorem redefinition_reported_witness:
  "reports ''E011'' (addbinding demo_env (js ''p'') ''let'' 9 False (scope_run demo_env demo_ops demo_manager)) =
     [SWarning ''E011'' (Tok 9) [js ''p'']]"
proof -
  let ?G = "scope_run demo_env demo_ops demo_manager"
  have "reports ''E011'' ?G = [] \<and> conflict (js ''p'') ''let'' (isGlobal ?G) (env ?G)" by code_simp
  then show ?thesis
    using redefinition_reported [OF wf_demo_run, of demo_env "js ''p''" "''let''" 9 False] by simp
qed

section \<open>The temporal dead zone\<close>

lemma dead_block_binding:
  assumes "wf_manager G"
  shows "dead n (addbinding_block E n ty t i x G) = (if i then None else Some ty)"
proof -
  obtain c r where c: "g_scopes G = c # r" using assms by (cases "g_scopes G") (auto dest: wf_not_Nil)
  have s: "g_scopes (latedefWarning E ty n t G) = c # r" by (simp add: latedefWarning_def c Let_def)
  show ?thesis
    by (simp add: addbinding_block_def c declared_let_conflict [OF assms c] Let_def dead_after_add s
        split: option.splits)
qed

lemma dead_funct_binding:
  assumes "g_scopes G \<noteq> []"
  shows "dead n (addbinding_funct E n ty t x G) = None"
proof -
  have u: "dead n (H\<lparr>g_used := ud\<rparr>) = dead n H" for H ud by (simp add: dead_def)
  show ?thesis
    using assms by (simp add: addbinding_funct_def Let_def u dead_after_add latedefWarning_def)
qed

lemma dead_addbinding:
  assumes "wf_manager G"
  shows "dead n (addbinding E n ty t i G) = (if is_blockscoped ty \<and> \<not> i then Some ty else None)"
proof -
  define G1 where "G1 = checkOuterShadow E n t G"
  define G2 where "G2 = (if isStrict (e_state E) \<and> is_restricted n then warn ''E008'' t [] G1 else G1)"
  have k: "keeps G G2"
    using kept.lifted_checkOuterShadow [OF wf_not_Nil [OF assms]] by (simp add: G2_def G1_def)
  have wf2: "wf_manager G2" by (rule wf_keeps [OF assms k])
  show ?thesis
    unfolding addbinding_def Let_def G1_def [symmetric] G2_def [symmetric]
    by (simp add: dead_block_binding [OF wf2] dead_funct_binding [OF wf_not_Nil [OF wf2]])
qed

text \<open>
  C35: A use of a name right after its declaration in the current scope is reported (E056) exactly
  when the declaration is block scoped and not yet initialized; initializing the name clears it.
\<close>

theorem use_before_initialization:
  assumes "wf_manager G"
  shows "reports ''E056'' (block_use E n (Some u) (addbinding E n ty t i G)) =
      reports ''E056'' (addbinding E n ty t i G) @
        (if is_blockscoped ty \<and> \<not> i then [SWarning ''E056'' (Tok u) [n, js ty]] else []) \<and>
    reports ''E056'' (block_use E n (Some u) (initialize n (addbinding E n ty t i G))) =
      reports ''E056'' (initialize n (addbinding E n ty t i G))"
proof -
  have ne: "g_scopes (addbinding E n ty t i G) \<noteq> []"
    using wf_not_Nil [OF wf_keeps [OF assms keeps_addbinding [OF assms]]] .
  then show ?thesis
    by (simp add: reports_use tok_ref_def dead_after_initialize [OF ne] dead_addbinding [OF assms])
qed

theorem use_before_initialization_witness:
  "reports ''E056'' (block_use demo_env (js ''z'') (Some 2) (addbinding demo_env (js ''z'') ''let'' 1 False demo_manager)) =
     [SWarning ''E056'' (Tok 2) [js ''z'', js ''let'']]"
proof -
  have "reports ''E056'' (addbinding demo_env (js ''z'') ''let'' 1 False demo_manager) = []" by code_simp
  then show ?thesis
    using use_before_initialization [OF wf_demo, of demo_env "js ''z''" 2 "''let''" 1 False]
    by (simp add: is_blockscoped_def)
qed

end
