(* ===== verification/Messages.thy ===== *)
theory Messages
  imports JsString
begin

text \<open>
  The messages of \<^verbatim>\<open>messages.js\<close>: the tables of errors, warnings and notes by code. \<open>None\<close> is a
  message that is \<open>null\<close> in the source. The lookup of a code nobody defined has no message.
\<close>

definition errors_table :: "(string \<times> string option) list" where
  "errors_table =
   [
    (''E001'', Some ''Bad {a}option: '{b}'.''), (''E002'', Some ''Bad option value.''),
    (''E003'', Some ''Expected a JSON value.''),
    (''E004'', Some ''Input is neither a string nor an array of strings.''),
    (''E005'', Some ''Input is empty.''), (''E006'', Some ''Unexpected early end of program.''),
    (''E007'', Some ''Missing \"use strict\" statement.''),
    (''E008'', Some ''Strict violation.''),
    (''E009'', Some ''Option 'validthis' can't be used in a global scope.''),
    (''E010'', Some '''with' is not allowed in strict mode.''),
    (''E011'', Some '''{a}' has already been declared.''),
    (''E012'', Some ''const '{a}' is initialized to 'undefined'.''),
    (''E013'', Some ''Attempting to override '{a}' which is a constant.''),
    (''E014'', Some ''A regular expression literal can be confused with '/='.''),
    (''E015'', Some ''Unclosed regular expression.''),
    (''E016'', Some ''Invalid regular expression.''), (''E017'', Some ''Unclosed comment.''),
    (''E018'', Some ''Unbegun comment.''), (''E019'', Some ''Unmatched '{a}'.''),
    (''E020'', Some ''Expected '{a}' to match '{b}' from line {c} and instead saw '{d}'.''),
    (''E021'', Some ''Expected '{a}' and instead saw '{b}'.''),
    (''E022'', Some ''Line breaking error '{a}'.''), (''E023'', Some ''Missing '{a}'.''),
    (''E024'', Some ''Unexpected '{a}'.''), (''E025'', Some ''Missing ':' on a case clause.''),
    (''E026'', Some ''Missing '}' to match '{' from line {a}.''),
    (''E027'', Some ''Missing ']' to match '[' from line {a}.''),
    (''E028'', Some ''Illegal comma.''), (''E029'', Some ''Unclosed string.''),
    (''E030'', Some ''Expected an identifier and instead saw '{a}'.''),
    (''E031'', Some ''Bad assignment.''),
    (''E032'', Some ''Expected a small integer or 'false' and instead saw '{a}'.''),
    (''E033'', Some ''Expected an operator and instead saw '{a}'.''),
    (''E034'', Some ''get/set are ES5 features.''), (''E035'', Some ''Missing property name.''),
    (''E036'', Some ''Expected to see a statement and instead saw a block.''), (''E037'', None),
    (''E038'', None),
    (''E039'', Some ''Function declarations are not invocable. Wrap the whole function invocation in parens.''),
    (''E040'', Some ''Each value should have its own case label.''),
    (''E041'', Some ''Unrecoverable syntax error.''), (''E042'', Some ''Stopping.''),
    (''E043'', Some ''Too many errors.''), (''E044'', None),
    (''E045'', Some ''Invalid for each loop.''),
    (''E046'', Some ''Yield expressions may only occur within generator functions.''),
    (''E047'', None), (''E048'', Some ''{a} declaration not directly within block.''),
    (''E049'', Some ''A {a} cannot be named '{b}'.''),
    (''E050'', Some ''Mozilla requires the yield expression to be parenthesized here.''),
    (''E051'', None), (''E052'', Some ''Unclosed template literal.''),
    (''E053'', Some ''{a} declarations are only allowed at the top level of module scope.''),
    (''E054'', Some ''Class properties must be methods. Expected '(' but instead saw '{a}'.''),
    (''E055'', Some ''The '{a}' option cannot be set after any executable code.''),
    (''E056'', Some '''{a}' was used before it was declared, which is illegal for '{b}' variables.''),
    (''E057'', Some ''Invalid meta property: '{a}.{b}'.''),
    (''E058'', Some ''Missing semicolon.''),
    (''E059'', Some ''Incompatible values for the '{a}' and '{b}' linting options.''),
    (''E060'', Some ''Non-callable values cannot be used as the second operand to instanceof.''),
    (''E061'', Some ''Invalid position for 'yield' expression (consider wrapping in parenthesis).''),
    (''E062'', Some ''Rest parameter does not a support default value.''),
    (''E063'', Some ''Super property may only be used within method bodies.''),
    (''E064'', Some ''Super call may only be used within class method bodies.''),
    (''E065'', Some ''Functions defined outside of strict mode with non-simple parameter lists may not enable strict mode.''),
    (''E066'', Some ''Asynchronous iteration is only available with for-of loops.''),
    (''E067'', Some ''Malformed numeric literal: '{a}'.''),
    (''E068'', Some ''Decimals with leading zeros are not allowed in strict mode.''),
    (''E069'', Some ''Duplicate exported binding: '{a}'.''),
    (''E070'', Some ''import.meta may only be used in module code.'')]"

definition warnings_table_a :: "(string \<times> string option) list" where
  "warnings_table_a =
   [
    (''W001'', Some '''hasOwnProperty' is a really bad name.''),
    (''W002'', Some ''Value of '{a}' may be overwritten in IE 8 and earlier.''),
    (''W003'', Some '''{a}' was used before it was defined.''),
    (''W004'', Some '''{a}' is already defined.''),
    (''W005'', Some ''A dot following a number can be confused with a decimal point.''),
    (''W006'', Some ''Confusing minuses.''), (''W007'', Some ''Confusing plusses.''),
    (''W008'', Some ''A leading decimal point can be confused with a dot: '{a}'.''),
    (''W009'', Some ''The array literal notation [] is preferable.''),
    (''W010'', Some ''The object literal notation {} is preferable.''), (''W011'', None),
    (''W012'', None), (''W013'', None),
    (''W014'', Some ''Misleading line break before '{a}'; readers may interpret this as an expression boundary.''),
    (''W015'', None), (''W016'', Some ''Unexpected use of '{a}'.''),
    (''W017'', Some ''Bad operand.''), (''W018'', Some ''Confusing use of '{a}'.''),
    (''W019'', Some ''Use the isNaN function to compare with NaN.''),
    (''W020'', Some ''Read only.''),
    (''W021'', Some ''Reassignment of '{a}', which is a {b}. Use 'var' or 'let' to declare bindings that may change.''),
    (''W022'', Some ''Do not assign to the exception parameter.''), (''W023'', None),
    (''W024'', Some ''Expected an identifier and instead saw '{a}' (a reserved word).''),
    (''W025'', Some ''Missing name in function declaration.''),
    (''W026'', Some ''Inner functions should be listed at the top of the outer function.''),
    (''W027'', Some ''Unreachable '{a}' after '{b}'.''),
    (''W028'', Some ''Label '{a}' on {b} statement.''),
    (''W030'', Some ''Expected an assignment or function call and instead saw an expression.''),
    (''W031'', Some ''Do not use 'new' for side effects.''),
    (''W032'', Some ''Unnecessary semicolon.''), (''W033'', Some ''Missing semicolon.''),
    (''W034'', Some ''Unnecessary directive \"{a}\".''), (''W035'', Some ''Empty block.''),
    (''W036'', Some ''Unexpected /*member '{a}'.''),
    (''W037'', Some '''{a}' is a statement label.''),
    (''W038'', Some '''{a}' used out of scope.''), (''W039'', None),
    (''W040'', Some ''If a strict mode function is executed using function invocation, its 'this' value will be undefined.''),
    (''W041'', None), (''W042'', Some ''Avoid EOL escaping.''),
    (''W043'', Some ''Bad escaping of EOL. Use option multistr if needed.''),
    (''W044'', Some ''Bad or unnecessary escaping.''),
    (''W045'', Some ''Value described by numeric literal cannot be accurately represented with a number value: '{a}'.''),
    (''W046'', Some ''Don't use extra leading zeros '{a}'.''),
    (''W047'', Some ''A trailing decimal point can be confused with a dot: '{a}'.''),
    (''W048'', Some ''Unexpected control character in regular expression.''),
    (''W049'', Some ''Unexpected escaped character '{a}' in regular expression.''),
    (''W050'', Some ''JavaScript URL.''), (''W051'', Some ''Variables should not be deleted.''),
    (''W052'', Some ''Unexpected '{a}'.''), (''W053'', Some ''Do not use {a} as a constructor.''),
    (''W054'', Some ''The Function constructor is a form of eval.''),
    (''W055'', Some ''A constructor name should start with an uppercase letter.''),
    (''W056'', Some ''Bad constructor.''),
    (''W057'', Some ''Weird construction. Is 'new' necessary?''),
    (''W058'', Some ''Missing '()' invoking a constructor.''),
    (''W059'', Some ''Avoid arguments.{a}.''),
    (''W060'', Some ''document.write can be a form of eval.''),
    (''W061'', Some ''eval can be harmful.''),
    (''W062'', Some ''Wrap an immediate function invocation in parens to assist the reader in understanding that the expression is the result of a function, and not the function itself.''),
    (''W063'', Some ''Math is not a function.''),
    (''W064'', Some ''Missing 'new' prefix when invoking a constructor.''),
    (''W065'', Some ''Missing radix parameter.''),
    (''W066'', Some ''Implied eval. Consider passing a function instead of a string.''),
    (''W067'', Some ''Unorthodox function invocation.''),
    (''W068'', Some ''Wrapping non-IIFE function literals in parens is unnecessary.''),
    (''W069'', Some ''['{a}'] is better written in dot notation.''),
    (''W070'', Some ''Extra comma. (it breaks older versions of IE)''),
    (''W071'', Some ''This function has too many statements. ({a})''),
    (''W072'', Some ''This function has too many parameters. ({a})''),
    (''W073'', Some ''Blocks are nested too deeply. ({a})''),
    (''W074'', Some ''This function's cyclomatic complexity is too high. ({a})''),
    (''W075'', Some ''Duplicate {a} '{b}'.''),
    (''W076'', Some ''Unexpected parameter '{a}' in get {b} function.''),
    (''W077'', Some ''Expected a single parameter in set {a} function.''),
    (''W078'', Some ''Setter is defined without getter.''),
    (''W079'', Some ''Redefinition of '{a}'.''),
    (''W080'', Some ''It's not necessary to initialize '{a}' to 'undefined'.''), (''W081'', None),
    (''W082'', Some ''Function declarations should not be placed in blocks. Use a function expression or move the statement to the top of the outer function.''),
    (''W083'', Some ''Functions declared within loops referencing an outer scoped variable may lead to confusing semantics. ({a})''),
    (''W084'', Some ''Expected a conditional expression and instead saw an assignment.''),
    (''W085'', Some ''Don't use 'with'.''),
    (''W086'', Some ''Expected a 'break' statement before '{a}'.''),
    (''W087'', Some ''Forgotten 'debugger' statement?''),
    (''W088'', Some ''Creating global 'for' variable. Should be 'for (var {a} ...'.''),
    (''W089'', Some ''The body of a for in should be wrapped in an if statement to filter unwanted properties from the prototype.''),
    (''W090'', Some '''{a}' is not a statement label.''), (''W091'', None),
    (''W093'', Some ''Did you mean to return a conditional instead of an assignment?''),
    (''W094'', Some ''Unexpected comma.''),
    (''W095'', Some ''Expected a string and instead saw {a}.''),
    (''W096'', Some ''The '{a}' key may produce unexpected results.''),
    (''W097'', Some ''Use the function form of \"use strict\".''),
    (''W098'', Some '''{a}' is defined but never used.''), (''W099'', None), (''W100'', None),
    (''W101'', Some ''Line is too long.''), (''W102'', None),
    (''W103'', Some ''The '{a}' property is deprecated.''),
    (''W104'', Some '''{a}' is available in ES{b} (use 'esversion: {b}') or Mozilla JS extensions (use moz).''),
    (''W105'', None), (''W106'', Some ''Identifier '{a}' is not in camel case.''),
    (''W107'', Some ''Script URL.''), (''W108'', Some ''Strings must use doublequote.''),
    (''W109'', Some ''Strings must use singlequote.''),
    (''W110'', Some ''Mixed double and single quotes.''), (''W112'', Some ''Unclosed string.''),
    (''W113'', Some ''Control character in string: {a}.''), (''W114'', Some ''Avoid {a}.''),
    (''W115'', Some ''Octal literals are not allowed in strict mode.''),
    (''W116'', Some ''Expected '{a}' and instead saw '{b}'.''),
    (''W117'', Some '''{a}' is not defined.''),
    (''W118'', Some '''{a}' is only available in Mozilla JavaScript extensions (use moz option).''),
    (''W119'', Some '''{a}' is only available in ES{b} (use 'esversion: {b}').''),
    (''W120'', Some ''You might be leaking a variable ({a}) here.''),
    (''W121'', Some ''Extending prototype of native object: '{a}'.''),
    (''W122'', Some (''Invalid typeof value '{a}'' @ [CHR 0x27])),
    (''W123'', Some '''{a}' is already defined in outer scope.''),
    (''W124'', Some ''A generator function should contain at least one yield expression.''),
    (''W125'', Some ''This line contains non-breaking spaces: http://jshint.com/docs/options/#nonbsp''),
    (''W126'', Some ''Unnecessary grouping operator.''),
    (''W127'', Some ''Unexpected use of a comma operator.''),
    (''W128'', Some ''Empty array elements require elision=true.''),
    (''W129'', Some '''{a}' is defined in a future version of JavaScript. Use a different variable name to avoid migration issues.''),
    (''W130'', Some ''Invalid element after rest element.''),
    (''W131'', Some ''Invalid parameter after rest parameter.''),
    (''W132'', Some ''`var` declarations are forbidden. Use `let` or `const` instead.'')]"

definition warnings_table_b :: "(string \<times> string option) list" where
  "warnings_table_b =
   [
    (''W133'', Some ''Invalid for-{a} loop left-hand-side: {b}.''),
    (''W134'', Some ''The '{a}' option is only available when linting ECMAScript {b} code.''),
    (''W135'', Some ''{a} may not be supported by non-browser environments.''),
    (''W136'', Some '''{a}' must be in function scope.''),
    (''W137'', Some ''Empty destructuring: this is unnecessary and can be removed.''),
    (''W138'', Some ''Regular parameters should not come after default parameters.''),
    (''W139'', Some ''Function expressions should not be used as the second operand to instanceof.''),
    (''W140'', Some ''Missing comma.''),
    (''W141'', Some ''Empty {a}: this is unnecessary and can be removed.''),
    (''W142'', Some ''Empty {a}: consider replacing with `import '{b}';`.''),
    (''W143'', Some ''Assignment to properties of a mapped arguments object may cause unexpected changes to formal parameters.''),
    (''W144'', Some '''{a}' is a non-standard language feature. Enable it using the '{b}' unstable option.''),
    (''W145'', Some ''Superfluous 'case' clause.''),
    (''W146'', Some ''Unnecessary `await` expression.''),
    (''W147'', Some ''Regular expressions should include the 'u' flag.''),
    (''W148'', Some ''Unnecessary RegExp 's' flag.'')]"

definition warnings_table :: "(string \<times> string option) list" where
  "warnings_table = warnings_table_a @ warnings_table_b"

definition info_table :: "(string \<times> string option) list" where
  "info_table =
   [
    (''I001'', Some ''Comma warnings can be turned off with 'laxcomma'.''), (''I002'', None),
    (''I003'', Some ''ES5 option is now set per default'')]"

end
