(* ===== verification/Report.thy ===== *)
theory Report
  imports Messages Scope
begin

text \<open>
  The reporting of \<^verbatim>\<open>jshint.js\<close>: how a message's template is filled (\<open>supplant\<close>), how a
  warning enters the list of results (\<open>warning\<close>), how results on ignored lines leave it
  (\<open>removeIgnoredMessages\<close>), and how the run is given up (\<open>quit\<close>).

  The variables of the enclosing function that these operations share are the record \<open>linter\<close>.
  A thrown exception is the value \<open>l_thrown\<close>: the \<open>JSHintError\<close> of \<open>quit\<close>, or a fault, a
  \<open>TypeError\<close> of the engine. Once it is set nothing more happens until the run's end handles it.
\<close>

section \<open>Numbers as text\<close>

fun show_digits :: "nat \<Rightarrow> nat \<Rightarrow> jstr" where
  "show_digits 0 n = []"
| "show_digits (Suc f) n = (if n < 10 then [48 + n] else show_digits f (n div 10) @ [48 + n mod 10])"

text \<open>A number has at most as many digits as its value plus one.\<close>

definition show_nat :: "nat \<Rightarrow> jstr" where
  "show_nat n = show_digits (Suc n) n"

definition show_int :: "int \<Rightarrow> jstr" where
  "show_int i = (if i < 0 then js ''-'' @ show_nat (nat (- i)) else show_nat (nat i))"

lemma show_digits_enough: "n < f \<Longrightarrow> show_digits f n = show_digits (Suc n) n"
proof (induction n arbitrary: f rule: less_induct)
  case (less n)
  then obtain g where f: "f = Suc g" by (cases f) auto
  show ?case
  proof (cases "n < 10")
    case True
    then show ?thesis by (simp add: f)
  next
    case False
    then have "n div 10 < n" "n div 10 < g" using less.prems f by auto
    then have "show_digits g (n div 10) = show_digits (Suc (n div 10)) (n div 10)"
      and "show_digits n (n div 10) = show_digits (Suc (n div 10)) (n div 10)"
      using less.IH by blast+
    with False f show ?thesis by simp
  qed
qed

lemma show_nat_rec: "show_nat n = (if n < 10 then [48 + n] else show_nat (n div 10) @ [48 + n mod 10])"
  using show_digits_enough [of "n div 10" n] by (simp add: show_nat_def)

text \<open>The text of a number reads back as the number.\<close>

lemma dec_nat_append: "dec_nat (s @ [c]) = 10 * dec_nat s + (c - 48)"
  by (simp add: dec_nat_def)

lemma dec_show_nat: "dec_nat (show_nat n) = n"
proof (induction n rule: less_induct)
  case (less n)
  show ?case
  proof (cases "n < 10")
    case True
    then show ?thesis by (subst show_nat_rec) (simp add: dec_nat_def)
  next
    case False
    then have "dec_nat (show_nat (n div 10)) = n div 10" using less by simp
    with False show ?thesis by (subst show_nat_rec) (simp add: dec_nat_append)
  qed
qed

lemma show_nat_digits: "list_all is_dec_digit (show_nat n)"
proof (induction n rule: less_induct)
  case (less n)
  show ?case
  proof (cases "n < 10")
    case True
    then show ?thesis by (subst show_nat_rec) (simp add: is_dec_digit_def)
  next
    case False
    then have "list_all is_dec_digit (show_nat (n div 10))" using less by simp
    with False show ?thesis by (subst show_nat_rec) (simp add: is_dec_digit_def)
  qed
qed

section \<open>Percentages\<close>

text \<open>
  \<open>Math.floor((a / b) * 100)\<close> in double arithmetic. A positive double is \<open>m * 2 ^ t / 2 ^ s\<close>
  with a mantissa \<open>m\<close> of 53 bits; \<open>round_double p q\<close> rounds \<open>p / q\<close> to the nearest one, a tie
  to the even mantissa.
\<close>

fun bit_length :: "nat \<Rightarrow> nat \<Rightarrow> nat" where
  "bit_length 0 n = 0"
| "bit_length (Suc f) n = (if n = 0 then 0 else Suc (bit_length f (n div 2)))"

definition round_div :: "nat \<Rightarrow> nat \<Rightarrow> nat" where
  "round_div p q =
     (let d = p div q; r = p mod q in if q < 2 * r \<or> (2 * r = q \<and> odd d) then d + 1 else d)"

definition round_double :: "nat \<Rightarrow> nat \<Rightarrow> nat \<times> nat" where
  "round_double p q =
     (let s = 53 + bit_length 1100 q;
          t = bit_length 2200 (p * 2 ^ s div q) - 53
      in (round_div (p * 2 ^ s) (q * 2 ^ t) * 2 ^ t, 2 ^ s))"

definition double_percent :: "nat \<Rightarrow> nat \<Rightarrow> nat" where
  "double_percent a b =
     (if a = 0 then 0
      else (case round_double a b of
              (p, q) \<Rightarrow> (case round_double (p * 100) q of (p', q') \<Rightarrow> p' div q')))"

text \<open>The percentage as it is printed; a missing line gives \<open>NaN\<close>.\<close>

definition percentage :: "nat option \<Rightarrow> nat \<Rightarrow> jstr" where
  "percentage l n =
     (case l of
        None \<Rightarrow> js ''NaN''
      | Some a \<Rightarrow>
          if n = 0 then (if a = 0 then js ''NaN'' else js ''Infinity'')
          else show_nat (double_percent a n))"

section \<open>Templates\<close>

definition arg_text :: "jsval \<Rightarrow> jstr option" where
  "arg_text v = (case v of JStr s \<Rightarrow> Some s | JNum n \<Rightarrow> Some (show_int n) | _ \<Rightarrow> None)"

text \<open>
  \<open>supplant\<close>: every \<open>{name}\<close> without braces in between is replaced by the field of that name
  when it is a string or a number, and left alone otherwise.
\<close>

definition is_brace :: "jchar \<Rightarrow> bool" where
  "is_brace c \<longleftrightarrow> c = 123 \<or> c = 125"

definition hole :: "jstr \<Rightarrow> jstr option" where
  "hole s =
     (if dropWhile (\<lambda>c. \<not> is_brace c) s \<noteq> [] \<and> hd (dropWhile (\<lambda>c. \<not> is_brace c) s) = 125
      then Some (takeWhile (\<lambda>c. \<not> is_brace c) s) else None)"

definition fill :: "(jstr \<Rightarrow> jsval) \<Rightarrow> jstr \<Rightarrow> jstr" where
  "fill data name = (case arg_text (data name) of Some t \<Rightarrow> t | None \<Rightarrow> [123] @ name @ [125])"

function supplant :: "(jstr \<Rightarrow> jsval) \<Rightarrow> jstr \<Rightarrow> jstr" where
  "supplant data [] = []"
| "supplant data (c # cs) =
     (case (if c = 123 then hole cs else None) of
        Some name \<Rightarrow> fill data name @ supplant data (drop (List.length name + 1) cs)
      | None \<Rightarrow> c # supplant data cs)"
  by pat_completeness auto
termination by (relation "measure (\<lambda>(_, s). List.length s)") auto

section \<open>The linter\<close>

record report =
  r_code :: string
  r_raw :: string
  r_reason :: jstr
  r_evidence :: jstr
  r_line :: "nat option"
  r_character :: "nat option"
  r_scope :: jstr
  r_args :: "jsval list"

text \<open>What a report reads of a token: its line, its start, and whether it is the \<open>(end)\<close>.\<close>

record place =
  p_line :: "nat option"
  p_from :: "nat option"
  p_end :: bool

datatype thrown = Quit report | Fault

record linter =
  l_errors :: "report list"
  l_blacklist :: "(jstr, jstr) obj"
  l_scope :: jstr
  l_state :: lstate
  l_lines :: "jstr list"
  l_predefined :: "(jstr, jsval) obj"
  l_declared :: "(jstr, nat) obj"
  l_mgr :: manager
  l_members :: "(jstr, bool) obj option"
  l_global :: bool
  l_verb :: bool
  l_curr :: place
  l_next :: place
  l_thrown :: "thrown option"

text \<open>
  \<open>l_predefined\<close> and \<open>l_declared\<close> are the objects the scope manager \<open>l_mgr\<close> shares; \<open>l_global\<close> and
  \<open>l_verb\<close> say whether \<open>state.funct\<close> is the global functor and has a \<open>(verb)\<close>.
\<close>

text \<open>A step that is taken unless something was thrown.\<close>

definition unless_thrown :: "(linter \<Rightarrow> linter) \<Rightarrow> linter \<Rightarrow> linter" where
  "unless_thrown f S = (if l_thrown S = None then f S else S)"

definition fault :: "linter \<Rightarrow> linter" where
  "fault S = S\<lparr>l_thrown := Some Fault\<rparr>"

text \<open>The tests \<open>/^W\d{3}$/\<close>, \<open>/E\d{3}/\<close> and \<open>/I\d{3}/\<close> on a code.\<close>

definition is_digit_char :: "char \<Rightarrow> bool" where
  "is_digit_char c \<longleftrightarrow> is_dec_digit (ch c)"

definition code_W :: "string \<Rightarrow> bool" where
  "code_W s \<longleftrightarrow> List.length s = 4 \<and> hd s = CHR ''W'' \<and> list_all is_digit_char (tl s)"

fun code_has :: "char \<Rightarrow> string \<Rightarrow> bool" where
  "code_has k [] = False"
| "code_has k (c # cs) =
     ((c = k \<and> 3 \<le> List.length cs \<and> list_all is_digit_char (take 3 cs)) \<or> code_has k cs)"

text \<open>The template of a code; \<open>None\<close> when the source would read a field of \<open>undefined\<close> or \<open>null\<close>.\<close>

definition template_of :: "string \<Rightarrow> string option" where
  "template_of code =
     (let tbl = (if code_W code then warnings_table
                 else if code_has CHR ''E'' code then errors_table
                 else if code_has CHR ''I'' code then info_table else [])
      in case map_of tbl code of Some (Some d) \<Rightarrow> Some d | _ \<Rightarrow> None)"

text \<open>The fields of a report that a template may name.\<close>

definition arg :: "jsval list \<Rightarrow> nat \<Rightarrow> jsval" where
  "arg args i = (if i < List.length args then args ! i else JUndef)"

definition opt_num :: "nat option \<Rightarrow> jsval" where
  "opt_num n = (case n of None \<Rightarrow> JUndef | Some k \<Rightarrow> JNum (int k))"

definition report_data :: "report \<Rightarrow> jstr \<Rightarrow> jsval" where
  "report_data r name =
     (if name = js ''a'' then arg (r_args r) 0
      else if name = js ''b'' then arg (r_args r) 1
      else if name = js ''c'' then arg (r_args r) 2
      else if name = js ''d'' then arg (r_args r) 3
      else if name = js ''id'' then JStr (js ''(error)'')
      else if name = js ''raw'' then JStr (js (r_raw r))
      else if name = js ''code'' then JStr (js (r_code r))
      else if name = js ''evidence'' then JStr (r_evidence r)
      else if name = js ''line'' then opt_num (r_line r)
      else if name = js ''character'' then opt_num (r_character r)
      else if name = js ''scope'' then JStr (r_scope r)
      else JUndef)"

text \<open>\<open>state.lines[l - 1] || ""\<close>.\<close>

definition evidence_at :: "jstr list \<Rightarrow> nat option \<Rightarrow> jstr" where
  "evidence_at ls l =
     (case l of Some (Suc k) \<Rightarrow> (if k < List.length ls then ls ! k else []) | _ \<Rightarrow> [])"

section \<open>Giving up\<close>

definition quit_data :: "jstr \<Rightarrow> report \<Rightarrow> jstr \<Rightarrow> jsval" where
  "quit_data message r name =
     (if name = js ''a'' then arg (r_args r) 0
      else if name = js ''b'' then arg (r_args r) 1
      else if name = js ''name'' then JStr (js ''JSHintError'')
      else if name = js ''line'' then opt_num (r_line r)
      else if name = js ''character'' then opt_num (r_character r)
      else if name = js ''message'' then JStr message
      else if name = js ''raw'' then JStr (js (r_raw r))
      else if name = js ''code'' then JStr (js (r_code r))
      else JUndef)"

text \<open>The exception is recorded as the report the end of the run makes of it.\<close>

definition quit :: "string \<Rightarrow> place \<Rightarrow> jsval list \<Rightarrow> linter \<Rightarrow> linter" where
  "quit code t args S =
     (case template_of code of
        None \<Rightarrow> fault S
      | Some m \<Rightarrow>
          (let scanned = js '' ('' @ percentage (p_line t) (List.length (l_lines S)) @ js ''% scanned).'';
               x = \<lparr>r_code = code, r_raw = m, r_reason = [], r_evidence = [], r_line = p_line t,
                    r_character = p_from t, r_scope = js ''(main)'', r_args = args\<rparr>
           in S\<lparr>l_thrown := Some (Quit (x\<lparr>r_reason :=
                  supplant (quit_data (js m @ scanned) x) (js m) @ scanned\<rparr>))\<rparr>))"

section \<open>Warnings\<close>

definition on_ignored :: "lstate \<Rightarrow> report \<Rightarrow> bool" where
  "on_ignored st r \<longleftrightarrow> (case r_line r of None \<Rightarrow> False | Some l \<Rightarrow> ignoredLines st l)"

definition removeIgnoredMessages :: "linter \<Rightarrow> linter" where
  "removeIgnoredMessages S = S\<lparr>l_errors := filter (\<lambda>r. \<not> on_ignored (l_state S) r) (l_errors S)\<rparr>"

definition js_le :: "jsval \<Rightarrow> int \<Rightarrow> bool" where
  "js_le v n = (case toNumber v of None \<Rightarrow> False | Some k \<Rightarrow> k \<le> n)"

definition count_errors :: "report list \<Rightarrow> nat" where
  "count_errors rs = List.length (filter (\<lambda>r. code_has CHR ''E'' (r_code r)) rs)"

text \<open>The token a report is about: the one given, else the next; the last one read for \<open>(end)\<close>.\<close>

definition report_place :: "place option \<Rightarrow> linter \<Rightarrow> place" where
  "report_place t S =
     (let t1 = (case t of None \<Rightarrow> l_next S | Some p \<Rightarrow> p) in if p_end t1 then l_curr S else t1)"

definition make_report :: "string \<Rightarrow> string \<Rightarrow> place \<Rightarrow> jsval list \<Rightarrow> linter \<Rightarrow> report" where
  "make_report code m t args S =
     (let w = \<lparr>r_code = code, r_raw = m, r_reason = [], r_evidence = evidence_at (l_lines S) (p_line t),
               r_line = p_line t, r_character = p_from t, r_scope = l_scope S, r_args = args\<rparr>
      in w\<lparr>r_reason := supplant (report_data w) (js m)\<rparr>)"

definition add_report :: "report \<Rightarrow> place \<Rightarrow> linter \<Rightarrow> linter" where
  "add_report w t S =
     (let S1 = removeIgnoredMessages (S\<lparr>l_errors := l_errors S @ [w]\<rparr>)
      in if js_le (option (l_state S1) ''maxerr'') (int (count_errors (l_errors S1)))
         then quit ''E043'' t [] S1 else S1)"

definition warning :: "string \<Rightarrow> place option \<Rightarrow> jsval list \<Rightarrow> linter \<Rightarrow> linter" where
  "warning code t args =
     unless_thrown (\<lambda>S.
       if code_W code \<and> ignored (l_state S) code then S
       else
         (case template_of code of
            None \<Rightarrow> fault S
          | Some m \<Rightarrow>
              (let p = report_place t S in add_report (make_report code m p args S) p S)))"

definition warningAt :: "string \<Rightarrow> nat option \<Rightarrow> nat option \<Rightarrow> jsval list \<Rightarrow> linter \<Rightarrow> linter" where
  "warningAt code l c args = warning code (Some \<lparr>p_line = l, p_from = c, p_end = False\<rparr>) args"

end
