(* ===== verification/OptionTables.thy ===== *)
theory OptionTables
  imports JsString
begin

text \<open>
  The tables of \<^verbatim>\<open>options.js\<close>: the names of the linter's options by kind, and those that were
  renamed, inverted or removed. The values of \<open>bool\<close> and \<open>val\<close> are not read by the linter.
\<close>

definition enforcing :: "string list" where
  "enforcing =
   [
    ''bitwise'', ''freeze'', ''camelcase'', ''curly'', ''eqeqeq'', ''futurehostile'', ''es3'',
    ''es5'', ''forin'', ''immed'', ''leanswitch'', ''newcap'', ''noarg'', ''nocomma'',
    ''noempty'', ''nonbsp'', ''nonew'', ''noreturnawait'', ''regexpu'', ''undef'',
    ''singleGroups'', ''varstmt'', ''enforceall'', ''trailingcomma'']"

definition relaxing :: "string list" where
  "relaxing =
   [
    ''asi'', ''multistr'', ''debug'', ''boss'', ''evil'', ''funcscope'', ''globalstrict'',
    ''iterator'', ''notypeof'', ''plusplus'', ''proto'', ''scripturl'', ''sub'', ''supernew'',
    ''laxbreak'', ''laxcomma'', ''validthis'', ''withstmt'', ''moz'', ''noyield'', ''eqnull'',
    ''lastsemic'', ''loopfunc'', ''expr'', ''esnext'', ''elision'']"

definition environments :: "string list" where
  "environments =
   [
    ''mootools'', ''couch'', ''jasmine'', ''jquery'', ''node'', ''qunit'', ''rhino'', ''shelljs'',
    ''prototypejs'', ''yui'', ''mocha'', ''module'', ''wsh'', ''worker'', ''nonstandard'',
    ''browser'', ''browserify'', ''devel'', ''dojo'', ''typed'', ''phantom'']"

definition obsolete_options :: "string list" where
  "obsolete_options =
   [
    ''onecase'', ''regexp'', ''regexdash'']"

definition val_options :: "string list" where
  "val_options =
   [
    ''maxlen'', ''indent'', ''maxerr'', ''predef'', ''globals'', ''quotmark'', ''scope'',
    ''maxstatements'', ''maxdepth'', ''maxparams'', ''maxcomplexity'', ''shadow'', ''strict'',
    ''unused'', ''latedef'', ''ignore'', ''ignoreDelimiters'', ''esversion'']"

definition inverted :: "string list" where
  "inverted = [''bitwise'', ''forin'', ''newcap'', ''plusplus'', ''regexp'', ''undef'', ''eqeqeq'', ''strict'']"

definition removed :: "string list" where
  "removed = [''nomen'', ''onevar'', ''passfail'', ''white'', ''gcl'', ''smarttabs'', ''trailing'']"

definition noenforceall :: "string list" where
  "noenforceall = [''varstmt'', ''strict'', ''regexpu'']"

definition renamed :: "(string \<times> string) list" where
  "renamed = [(''eqeq'', ''eqeqeq''), (''windows'', ''wsh''), (''sloppy'', ''strict'')]"

definition validNames :: "string list" where
  "validNames = val_options @ relaxing @ enforcing @ obsolete_options @ environments @ [''unstable'']"

definition unstableNames :: "string list" where
  "unstableNames = []"

end
