(* ===== verification/VarTables.thy ===== *)
theory VarTables
  imports LintState
begin

text \<open>
  The tables of \<^verbatim>\<open>vars.js\<close>: the global names of the language editions and of the environments an
  option can name. A name maps to \<open>true\<close> when the program may assign it. The long table of the
  browser is in parts, in the order of the source.
\<close>

definition readonly :: "string list \<Rightarrow> (jstr, jsval) obj" where
  "readonly ns = map (\<lambda>n. (js n, JBool False)) ns"

definition entries :: "(string \<times> bool) list \<Rightarrow> (jstr, jsval) obj" where
  "entries es = map (\<lambda>(n, b). (js n, JBool b)) es"

definition reservedVars :: "(jstr, jsval) obj" where
  "reservedVars = readonly
   [
    ''NaN'', ''undefined'']"

definition ecma3 :: "(jstr, jsval) obj" where
  "ecma3 = readonly
   [
    ''Array'', ''Boolean'', ''Date'', ''decodeURI'', ''decodeURIComponent'', ''encodeURI'',
    ''encodeURIComponent'', ''Error'', ''eval'', ''EvalError'', ''Function'', ''hasOwnProperty'',
    ''Infinity'', ''isFinite'', ''isNaN'', ''Math'', ''Number'', ''Object'', ''parseInt'',
    ''parseFloat'', ''RangeError'', ''ReferenceError'', ''RegExp'', ''String'', ''SyntaxError'',
    ''TypeError'', ''URIError'']"

definition ecma5 :: "(jstr, jsval) obj" where
  "ecma5 = readonly
   [
    ''JSON'']"

definition ecma6 :: "(jstr, jsval) obj" where
  "ecma6 = readonly
   [
    ''ArrayBuffer'', ''DataView'', ''Float32Array'', ''Float64Array'', ''Int8Array'',
    ''Int16Array'', ''Int32Array'', ''Map'', ''Promise'', ''Proxy'', ''Reflect'', ''Set'',
    ''Symbol'', ''Uint8Array'', ''Uint16Array'', ''Uint32Array'', ''Uint8ClampedArray'',
    ''WeakMap'', ''WeakSet'']"

definition ecma8 :: "(jstr, jsval) obj" where
  "ecma8 = readonly
   [
    ''Atomics'', ''SharedArrayBuffer'']"

definition ecma11 :: "(jstr, jsval) obj" where
  "ecma11 = readonly
   [
    ''BigInt'', ''globalThis'']"

definition browser_a :: "(jstr, jsval) obj" where
  "browser_a = readonly
   [
    ''Audio'', ''Blob'', ''addEventListener'', ''applicationCache'', ''atob'', ''blur'', ''btoa'',
    ''cancelAnimationFrame'', ''CanvasGradient'', ''CanvasPattern'', ''CanvasRenderingContext2D'',
    ''CSS'', ''CSSImportRule'', ''CSSGroupingRule'', ''CSSMarginRule'', ''CSSMediaRule'',
    ''CSSNamespaceRule'', ''CSSPageRule'', ''CSSRule'', ''CSSRuleList'', ''CSSStyleDeclaration'',
    ''CSSStyleRule'', ''CSSStyleSheet'', ''clearInterval'', ''clearTimeout'', ''close'',
    ''closed'', ''Comment'', ''CompositionEvent'', ''createImageBitmap'', ''CustomEvent'',
    ''DOMParser'', ''defaultStatus'', ''dispatchEvent'', ''Document'', ''document'',
    ''DocumentFragment'', ''Element'', ''ElementTimeControl'', ''Event'', ''event'', ''fetch'',
    ''File'', ''FileList'', ''FileReader'', ''FormData'', ''focus'', ''frames'',
    ''getComputedStyle'', ''Headers'', ''HTMLAnchorElement'', ''HTMLAreaElement'',
    ''HTMLAudioElement'', ''HTMLBaseElement'', ''HTMLBlockquoteElement'', ''HTMLBodyElement'',
    ''HTMLBRElement'', ''HTMLButtonElement'', ''HTMLCanvasElement'', ''HTMLCollection'',
    ''HTMLDataElement'', ''HTMLDataListElement'', ''HTMLDetailsElement'', ''HTMLDialogElement'',
    ''HTMLDirectoryElement'', ''HTMLDivElement'', ''HTMLDListElement'', ''HTMLElement'',
    ''HTMLEmbedElement'', ''HTMLFieldSetElement'', ''HTMLFontElement'', ''HTMLFormElement'',
    ''HTMLFrameElement'', ''HTMLFrameSetElement'', ''HTMLHeadElement'', ''HTMLHeadingElement'',
    ''HTMLHRElement'', ''HTMLHtmlElement'', ''HTMLIFrameElement'', ''HTMLImageElement'',
    ''HTMLInputElement'', ''HTMLIsIndexElement'', ''HTMLLabelElement'', ''HTMLLayerElement'',
    ''HTMLLegendElement'', ''HTMLLIElement'', ''HTMLLinkElement'', ''HTMLMapElement'',
    ''HTMLMarqueeElement'', ''HTMLMediaElement'', ''HTMLMenuElement'', ''HTMLMetaElement'',
    ''HTMLMeterElement'', ''HTMLModElement'', ''HTMLObjectElement'', ''HTMLOListElement'',
    ''HTMLOptGroupElement'', ''HTMLOptionElement'', ''HTMLParagraphElement'',
    ''HTMLParamElement'', ''HTMLPictureElement'', ''HTMLPreElement'', ''HTMLProgressElement'',
    ''HTMLQuoteElement'', ''HTMLScriptElement'', ''HTMLSelectElement'', ''HTMLSlotElement'',
    ''HTMLSourceElement'', ''HTMLStyleElement'', ''HTMLTableCaptionElement'',
    ''HTMLTableCellElement'', ''HTMLTableColElement'', ''HTMLTableElement'',
    ''HTMLTableRowElement'', ''HTMLTableSectionElement'', ''HTMLTemplateElement'',
    ''HTMLTextAreaElement'', ''HTMLTimeElement'', ''HTMLTitleElement'', ''HTMLTrackElement'',
    ''HTMLUListElement'', ''HTMLVideoElement'', ''history'', ''Image'', ''IntersectionObserver'',
    ''Intl'', ''length'', ''localStorage'', ''location'', ''matchMedia'', ''MediaList'',
    ''MediaRecorder'']"

definition browser_b :: "(jstr, jsval) obj" where
  "browser_b = entries
   [
    (''MessageChannel'', False), (''MessageEvent'', False), (''MessagePort'', False),
    (''MouseEvent'', False), (''moveBy'', False), (''moveTo'', False),
    (''MutationObserver'', False), (''name'', False), (''Node'', False), (''NodeFilter'', False),
    (''NodeList'', False), (''Notification'', False), (''navigator'', False),
    (''onbeforeunload'', True), (''onblur'', True), (''onerror'', True), (''onfocus'', True),
    (''onload'', True), (''onresize'', True), (''onunload'', True), (''open'', False),
    (''openDatabase'', False), (''opener'', False), (''Option'', False), (''origin'', False),
    (''parent'', False), (''performance'', False), (''print'', False),
    (''queueMicrotask'', False), (''Range'', False), (''requestAnimationFrame'', False),
    (''removeEventListener'', False), (''Request'', False), (''resizeBy'', False),
    (''resizeTo'', False), (''Response'', False), (''screen'', False), (''scroll'', False),
    (''scrollBy'', False), (''scrollTo'', False), (''sessionStorage'', False),
    (''setInterval'', False), (''setTimeout'', False), (''SharedWorker'', False),
    (''status'', False), (''Storage'', False), (''StyleSheet'', False), (''SVGAElement'', False),
    (''SVGAltGlyphDefElement'', False), (''SVGAltGlyphElement'', False),
    (''SVGAltGlyphItemElement'', False), (''SVGAngle'', False),
    (''SVGAnimateColorElement'', False), (''SVGAnimateElement'', False),
    (''SVGAnimateMotionElement'', False), (''SVGAnimateTransformElement'', False),
    (''SVGAnimatedAngle'', False), (''SVGAnimatedBoolean'', False),
    (''SVGAnimatedEnumeration'', False), (''SVGAnimatedInteger'', False),
    (''SVGAnimatedLength'', False), (''SVGAnimatedLengthList'', False),
    (''SVGAnimatedNumber'', False), (''SVGAnimatedNumberList'', False),
    (''SVGAnimatedPathData'', False), (''SVGAnimatedPoints'', False),
    (''SVGAnimatedPreserveAspectRatio'', False), (''SVGAnimatedRect'', False),
    (''SVGAnimatedString'', False), (''SVGAnimatedTransformList'', False),
    (''SVGAnimationElement'', False), (''SVGCSSRule'', False), (''SVGCircleElement'', False),
    (''SVGClipPathElement'', False), (''SVGColor'', False), (''SVGColorProfileElement'', False),
    (''SVGColorProfileRule'', False), (''SVGComponentTransferFunctionElement'', False),
    (''SVGCursorElement'', False), (''SVGDefsElement'', False), (''SVGDescElement'', False),
    (''SVGDocument'', False), (''SVGElement'', False), (''SVGElementInstance'', False),
    (''SVGElementInstanceList'', False), (''SVGEllipseElement'', False),
    (''SVGExternalResourcesRequired'', False), (''SVGFEBlendElement'', False),
    (''SVGFEColorMatrixElement'', False), (''SVGFEComponentTransferElement'', False),
    (''SVGFECompositeElement'', False), (''SVGFEConvolveMatrixElement'', False),
    (''SVGFEDiffuseLightingElement'', False), (''SVGFEDisplacementMapElement'', False),
    (''SVGFEDistantLightElement'', False), (''SVGFEFloodElement'', False),
    (''SVGFEFuncAElement'', False), (''SVGFEFuncBElement'', False),
    (''SVGFEFuncGElement'', False), (''SVGFEFuncRElement'', False),
    (''SVGFEGaussianBlurElement'', False), (''SVGFEImageElement'', False),
    (''SVGFEMergeElement'', False), (''SVGFEMergeNodeElement'', False),
    (''SVGFEMorphologyElement'', False), (''SVGFEOffsetElement'', False),
    (''SVGFEPointLightElement'', False), (''SVGFESpecularLightingElement'', False),
    (''SVGFESpotLightElement'', False), (''SVGFETileElement'', False),
    (''SVGFETurbulenceElement'', False), (''SVGFilterElement'', False),
    (''SVGFilterPrimitiveStandardAttributes'', False), (''SVGFitToViewBox'', False),
    (''SVGFontElement'', False), (''SVGFontFaceElement'', False),
    (''SVGFontFaceFormatElement'', False), (''SVGFontFaceNameElement'', False),
    (''SVGFontFaceSrcElement'', False), (''SVGFontFaceUriElement'', False),
    (''SVGForeignObjectElement'', False), (''SVGGElement'', False), (''SVGGlyphElement'', False),
    (''SVGGlyphRefElement'', False), (''SVGGradientElement'', False),
    (''SVGHKernElement'', False), (''SVGICCColor'', False), (''SVGImageElement'', False),
    (''SVGLangSpace'', False), (''SVGLength'', False), (''SVGLengthList'', False),
    (''SVGLineElement'', False), (''SVGLinearGradientElement'', False), (''SVGLocatable'', False),
    (''SVGMPathElement'', False), (''SVGMarkerElement'', False), (''SVGMaskElement'', False),
    (''SVGMatrix'', False), (''SVGMetadataElement'', False), (''SVGMissingGlyphElement'', False)]"

definition browser_c :: "(jstr, jsval) obj" where
  "browser_c = readonly
   [
    ''SVGNumber'', ''SVGNumberList'', ''SVGPaint'', ''SVGPathElement'', ''SVGPathSeg'',
    ''SVGPathSegArcAbs'', ''SVGPathSegArcRel'', ''SVGPathSegClosePath'',
    ''SVGPathSegCurvetoCubicAbs'', ''SVGPathSegCurvetoCubicRel'',
    ''SVGPathSegCurvetoCubicSmoothAbs'', ''SVGPathSegCurvetoCubicSmoothRel'',
    ''SVGPathSegCurvetoQuadraticAbs'', ''SVGPathSegCurvetoQuadraticRel'',
    ''SVGPathSegCurvetoQuadraticSmoothAbs'', ''SVGPathSegCurvetoQuadraticSmoothRel'',
    ''SVGPathSegLinetoAbs'', ''SVGPathSegLinetoHorizontalAbs'', ''SVGPathSegLinetoHorizontalRel'',
    ''SVGPathSegLinetoRel'', ''SVGPathSegLinetoVerticalAbs'', ''SVGPathSegLinetoVerticalRel'',
    ''SVGPathSegList'', ''SVGPathSegMovetoAbs'', ''SVGPathSegMovetoRel'', ''SVGPatternElement'',
    ''SVGPoint'', ''SVGPointList'', ''SVGPolygonElement'', ''SVGPolylineElement'',
    ''SVGPreserveAspectRatio'', ''SVGRadialGradientElement'', ''SVGRect'', ''SVGRectElement'',
    ''SVGRenderingIntent'', ''SVGSVGElement'', ''SVGScriptElement'', ''SVGSetElement'',
    ''SVGStopElement'', ''SVGStringList'', ''SVGStylable'', ''SVGStyleElement'',
    ''SVGSwitchElement'', ''SVGSymbolElement'', ''SVGTRefElement'', ''SVGTSpanElement'',
    ''SVGTests'', ''SVGTextContentElement'', ''SVGTextElement'', ''SVGTextPathElement'',
    ''SVGTextPositioningElement'', ''SVGTitleElement'', ''SVGTransform'', ''SVGTransformList'',
    ''SVGTransformable'', ''SVGURIReference'', ''SVGUnitTypes'', ''SVGUseElement'',
    ''SVGVKernElement'', ''SVGViewElement'', ''SVGViewSpec'', ''SVGZoomAndPan'', ''Text'',
    ''TextDecoder'', ''TextEncoder'', ''TimeEvent'', ''top'', ''URL'', ''URLSearchParams'',
    ''WebGLActiveInfo'', ''WebGLBuffer'', ''WebGLContextEvent'', ''WebGLFramebuffer'',
    ''WebGLProgram'', ''WebGLRenderbuffer'', ''WebGLRenderingContext'', ''WebGLShader'',
    ''WebGLShaderPrecisionFormat'', ''WebGLTexture'', ''WebGLUniformLocation'', ''WebSocket'',
    ''window'', ''Window'', ''Worker'', ''XDomainRequest'', ''XMLDocument'', ''XMLHttpRequest'',
    ''XMLSerializer'', ''XPathEvaluator'', ''XPathException'', ''XPathExpression'',
    ''XPathNamespace'', ''XPathNSResolver'', ''XPathResult'']"

definition browser :: "(jstr, jsval) obj" where
  "browser = browser_a @ browser_b @ browser_c"

definition devel :: "(jstr, jsval) obj" where
  "devel = readonly
   [
    ''alert'', ''confirm'', ''console'', ''Debug'', ''opera'', ''prompt'']"

definition worker :: "(jstr, jsval) obj" where
  "worker = entries
   [
    (''addEventListener'', True), (''atob'', True), (''btoa'', True), (''clearInterval'', True),
    (''clearTimeout'', True), (''createImageBitmap'', True), (''dispatchEvent'', True),
    (''importScripts'', True), (''onmessage'', True), (''origin'', True), (''postMessage'', True),
    (''queueMicrotask'', True), (''removeEventListener'', True), (''self'', True),
    (''setInterval'', True), (''setTimeout'', True), (''FileReaderSync'', True)]"

definition nonstandard :: "(jstr, jsval) obj" where
  "nonstandard = readonly
   [
    ''escape'', ''unescape'']"

definition couch :: "(jstr, jsval) obj" where
  "couch = readonly
   [
    ''require'', ''respond'', ''getRow'', ''emit'', ''send'', ''start'', ''sum'', ''log'',
    ''exports'', ''module'', ''provides'']"

definition node :: "(jstr, jsval) obj" where
  "node = entries
   [
    (''__filename'', False), (''__dirname'', False), (''arguments'', False), (''GLOBAL'', False),
    (''global'', False), (''module'', False), (''require'', False), (''Intl'', False),
    (''Buffer'', True), (''console'', True), (''exports'', True), (''process'', True),
    (''setTimeout'', True), (''clearTimeout'', True), (''setInterval'', True),
    (''clearInterval'', True), (''setImmediate'', True), (''clearImmediate'', True),
    (''URL'', True), (''URLSearchParams'', True)]"

definition browserify :: "(jstr, jsval) obj" where
  "browserify = entries
   [
    (''__filename'', False), (''__dirname'', False), (''global'', False), (''module'', False),
    (''require'', False), (''Buffer'', True), (''exports'', True), (''process'', True)]"

definition phantom :: "(jstr, jsval) obj" where
  "phantom = entries
   [
    (''phantom'', True), (''require'', True), (''WebPage'', True), (''console'', True),
    (''exports'', True)]"

definition qunit :: "(jstr, jsval) obj" where
  "qunit = readonly
   [
    ''asyncTest'', ''deepEqual'', ''equal'', ''expect'', ''module'', ''notDeepEqual'',
    ''notEqual'', ''notOk'', ''notPropEqual'', ''notStrictEqual'', ''ok'', ''propEqual'',
    ''QUnit'', ''raises'', ''start'', ''stop'', ''strictEqual'', ''test'', ''throws'']"

definition rhino :: "(jstr, jsval) obj" where
  "rhino = readonly
   [
    ''arguments'', ''defineClass'', ''deserialize'', ''gc'', ''help'', ''importClass'',
    ''importPackage'', ''java'', ''load'', ''loadClass'', ''Packages'', ''print'', ''quit'',
    ''readFile'', ''readUrl'', ''runCommand'', ''seal'', ''serialize'', ''spawn'', ''sync'',
    ''toint32'', ''version'']"

definition shelljs :: "(jstr, jsval) obj" where
  "shelljs = readonly
   [
    ''target'', ''echo'', ''exit'', ''cd'', ''pwd'', ''ls'', ''find'', ''cp'', ''rm'', ''mv'',
    ''mkdir'', ''test'', ''cat'', ''sed'', ''grep'', ''which'', ''dirs'', ''pushd'', ''popd'',
    ''env'', ''exec'', ''chmod'', ''config'', ''error'', ''tempdir'']"

definition typed :: "(jstr, jsval) obj" where
  "typed = readonly
   [
    ''ArrayBuffer'', ''ArrayBufferView'', ''DataView'', ''Float32Array'', ''Float64Array'',
    ''Int16Array'', ''Int32Array'', ''Int8Array'', ''Uint16Array'', ''Uint32Array'',
    ''Uint8Array'', ''Uint8ClampedArray'']"

definition wsh :: "(jstr, jsval) obj" where
  "wsh = entries
   [
    (''ActiveXObject'', True), (''Enumerator'', True), (''GetObject'', True),
    (''ScriptEngine'', True), (''ScriptEngineBuildVersion'', True),
    (''ScriptEngineMajorVersion'', True), (''ScriptEngineMinorVersion'', True),
    (''VBArray'', True), (''WSH'', True), (''WScript'', True), (''XDomainRequest'', True)]"

definition dojo :: "(jstr, jsval) obj" where
  "dojo = readonly
   [
    ''dojo'', ''dijit'', ''dojox'', ''define'', ''require'']"

definition jquery :: "(jstr, jsval) obj" where
  "jquery = readonly
   [
    ''$'', ''jQuery'']"

definition mootools :: "(jstr, jsval) obj" where
  "mootools = readonly
   [
    ''$'', ''$$'', ''Asset'', ''Browser'', ''Chain'', ''Class'', ''Color'', ''Cookie'', ''Core'',
    ''Document'', ''DomReady'', ''DOMEvent'', ''DOMReady'', ''Drag'', ''Element'', ''Elements'',
    ''Event'', ''Events'', ''Fx'', ''Group'', ''Hash'', ''HtmlTable'', ''IFrame'', ''IframeShim'',
    ''InputValidator'', ''instanceOf'', ''Keyboard'', ''Locale'', ''Mask'', ''MooTools'',
    ''Native'', ''Options'', ''OverText'', ''Request'', ''Scroller'', ''Slick'', ''Slider'',
    ''Sortables'', ''Spinner'', ''Swiff'', ''Tips'', ''Type'', ''typeOf'', ''URI'', ''Window'']"

definition prototypejs :: "(jstr, jsval) obj" where
  "prototypejs = readonly
   [
    ''$'', ''$$'', ''$A'', ''$F'', ''$H'', ''$R'', ''$break'', ''$continue'', ''$w'',
    ''Abstract'', ''Ajax'', ''Class'', ''Enumerable'', ''Element'', ''Event'', ''Field'',
    ''Form'', ''Hash'', ''Insertion'', ''ObjectRange'', ''PeriodicalExecuter'', ''Position'',
    ''Prototype'', ''Selector'', ''Template'', ''Toggle'', ''Try'', ''Autocompleter'',
    ''Builder'', ''Control'', ''Draggable'', ''Draggables'', ''Droppables'', ''Effect'',
    ''Sortable'', ''SortableObserver'', ''Sound'', ''Scriptaculous'']"

definition yui :: "(jstr, jsval) obj" where
  "yui = readonly
   [
    ''YUI'', ''Y'', ''YUI_config'']"

definition mocha :: "(jstr, jsval) obj" where
  "mocha = readonly
   [
    ''mocha'', ''describe'', ''xdescribe'', ''context'', ''xcontext'', ''it'', ''xit'',
    ''specify'', ''xspecify'', ''before'', ''after'', ''beforeEach'', ''afterEach'', ''suite'',
    ''test'', ''setup'', ''teardown'', ''suiteSetup'', ''suiteTeardown'']"

definition jasmine :: "(jstr, jsval) obj" where
  "jasmine = readonly
   [
    ''jasmine'', ''describe'', ''xdescribe'', ''it'', ''xit'', ''beforeEach'', ''afterEach'',
    ''setFixtures'', ''loadFixtures'', ''spyOn'', ''expect'', ''runs'', ''waitsFor'', ''waits'',
    ''beforeAll'', ''afterAll'', ''fail'', ''fdescribe'', ''fit'', ''pending'', ''spyOnProperty'']"

end
