(* ===== verification/Directive.thy ===== *)
theory Directive
  imports Report OptionTables VarTables ScopeDecl
begin

text \<open>
  The options of a run (\<^verbatim>\<open>jshint.js\<close>): the check of an option's name, the globals the options
  bring (\<open>applyOptions\<close>), and the comments that set options, declare globals or export names
  (\<open>lintingDirective\<close>).
\<close>

section \<open>Option names and tables\<close>

definition named :: "jstr \<Rightarrow> string list \<Rightarrow> bool" where
  "named name ns \<longleftrightarrow> list_ex (\<lambda>n. js n = name) ns"

text \<open>\<open>/^[+-]W\d{3}$/\<close>; the sign and the code.\<close>

definition warning_switch :: "jstr \<Rightarrow> (bool \<times> string) option" where
  "warning_switch s =
     (if List.length s = 5 \<and> (hd s = ch CHR ''+'' \<or> hd s = ch CHR ''-'') \<and> s ! 1 = ch CHR ''W'' \<and>
         list_all is_dec_digit (drop 2 s)
      then Some (hd s = ch CHR ''-'', map char_of (tl s)) else None)"

definition checkOption :: "jstr \<Rightarrow> bool \<Rightarrow> string \<Rightarrow> place \<Rightarrow> linter \<Rightarrow> bool \<times> linter" where
  "checkOption name0 isStable toktype t S =
     (let name = trim name0;
          type = (if isStable then [] else js ''unstable '');
          valid = (if isStable then validNames else unstableNames)
      in if warning_switch name \<noteq> None then (True, S)
         else if \<not> named name valid \<and> toktype \<noteq> ''jslint'' \<and> \<not> named name removed
         then (False, warning ''E001'' (Some t) [JStr type, JStr name] S)
         else (True, S))"

definition combine :: "(jstr, jstr) obj \<Rightarrow> (jstr, jsval) obj \<Rightarrow> (jstr, jsval) obj \<Rightarrow> (jstr, jsval) obj" where
  "combine blacklist src dest =
     fold (\<lambda>(n, v) d. if obj_has blacklist n then d else obj_put d n v) src dest"

definition set_option :: "string \<Rightarrow> jsval \<Rightarrow> linter \<Rightarrow> linter" where
  "set_option n v S = S\<lparr>l_state := (l_state S)\<lparr>option := (option (l_state S))(n := v)\<rparr>\<rparr>"

text \<open>
  A store of a string or a boolean in an object literal: under the name \<open>__proto__\<close> it has no effect.
\<close>

definition plain_put :: "(jstr, 'v) obj \<Rightarrow> jstr \<Rightarrow> 'v \<Rightarrow> (jstr, 'v) obj" where
  "plain_put ob k v = (if k = js ''__proto__'' then ob else obj_put ob k v)"

text \<open>
  An option whose name comes from a comment. The names that are read are ASCII; a store under
  another name is never seen.
\<close>

definition set_named :: "jstr \<Rightarrow> jsval \<Rightarrow> linter \<Rightarrow> linter" where
  "set_named n v S = (if list_all (\<lambda>c. c < 128) n then set_option (map char_of n) v S else S)"

section \<open>\<open>applyOptions\<close>\<close>

definition enforce :: "string \<Rightarrow> lstate \<Rightarrow> lstate" where
  "enforce n st =
     (if option st n = JUndef \<and> \<not> List.member noenforceall n
      then st\<lparr>option := (option st)(n := JBool True)\<rparr> else st)"

definition relax :: "string \<Rightarrow> lstate \<Rightarrow> lstate" where
  "relax n st = (if option st n = JUndef then st\<lparr>option := (option st)(n := JBool False)\<rparr> else st)"

definition processenforceall :: "linter \<Rightarrow> linter" where
  "processenforceall S =
     (if opt_on (l_state S) ''enforceall''
      then S\<lparr>l_state := fold relax relaxing (fold enforce enforcing (l_state S))\<rparr> else S)"

definition add_globals :: "(jstr, jsval) obj \<Rightarrow> linter \<Rightarrow> linter" where
  "add_globals tbl S = S\<lparr>l_predefined := combine (l_blacklist S) tbl (l_predefined S)\<rparr>"

text \<open>The editions, and the environments in the order of the source.\<close>

definition edition_globals :: "linter \<Rightarrow> linter" where
  "edition_globals S =
     (let st = l_state S in
      fold add_globals
        ((if inES5 st then [ecma5] else []) @ (if inES6 st False then [ecma6] else []) @
         (if inES8 st then [ecma8] else []) @ (if inES11 st then [ecma11] else [])) S)"

definition environment_tables :: "(string \<times> (jstr, jsval) obj list) list" where
  "environment_tables =
     [(''couch'', [couch]), (''qunit'', [qunit]), (''rhino'', [rhino]), (''shelljs'', [shelljs, node]),
      (''typed'', [typed]), (''phantom'', [phantom]), (''prototypejs'', [prototypejs]),
      (''node'', [node, typed]), (''devel'', [devel]), (''dojo'', [dojo]),
      (''browser'', [browser, typed]), (''browserify'', [browser, typed, browserify]),
      (''nonstandard'', [nonstandard]), (''jasmine'', [jasmine]), (''jquery'', [jquery]),
      (''mootools'', [mootools]), (''worker'', [worker]), (''wsh'', [wsh]), (''yui'', [yui]),
      (''mocha'', [mocha])]"

definition environment_globals :: "linter \<Rightarrow> linter" where
  "environment_globals S =
     fold (\<lambda>(n, tabs) S. if opt_on (l_state S) n then fold add_globals tabs S else S)
       environment_tables S"

text \<open>The options that need a newer edition.\<close>

definition needs_es6 :: "string \<Rightarrow> linter \<Rightarrow> linter" where
  "needs_es6 n S =
     (if opt_on (l_state S) n \<and> \<not> inES6 (l_state S) False
      then warning ''W134'' (Some (l_next S)) [JStr (js n), JNum 6] S else S)"

definition infer_edition :: "linter \<Rightarrow> linter" where
  "infer_edition S =
     (case inferEsVersion (l_state S) of
        (Some bad, st) \<Rightarrow>
          quit ''E059'' (l_next S) [JStr (js ''esversion''), JStr (js bad)] (S\<lparr>l_state := st\<rparr>)
      | (None, st) \<Rightarrow> S\<lparr>l_state := st\<rparr>)"

text \<open>An option that has a value, \<open>true\<close> or \<open>false\<close>, is \<open>in\<close> the options.\<close>

definition strict_conflict :: "linter \<Rightarrow> linter" where
  "strict_conflict S =
     (if option (l_state S) ''strict'' = JStr (js ''global'') \<and> option (l_state S) ''globalstrict'' \<noteq> JUndef
      then quit ''E059'' (l_next S) [JStr (js ''strict''), JStr (js ''globalstrict'')] S else S)"

definition applyOptions :: "linter \<Rightarrow> linter" where
  "applyOptions S =
     unless_thrown environment_globals
       (unless_thrown (needs_es6 ''regexpu'')
         (unless_thrown (needs_es6 ''module'')
           (unless_thrown strict_conflict
             (unless_thrown edition_globals
               (unless_thrown infer_edition
                 (unless_thrown processenforceall S))))))"

section \<open>Values of options in comments\<close>

text \<open>
  \<open>+val\<close> when it is a positive integer, for a text without blanks at its ends: a decimal literal
  with an optional sign, fraction and exponent, rounded to a double, or a literal with a prefix
  for its base.
\<close>

definition based_digits :: "nat \<Rightarrow> jstr \<Rightarrow> nat option" where
  "based_digits b s =
     (if s \<noteq> [] \<and> list_all (\<lambda>c. is_hex_char c \<and> hex_val c < b) s
      then Some (foldl (\<lambda>n c. b * n + hex_val c) 0 s) else None)"

definition exact_integer :: "nat \<Rightarrow> nat \<Rightarrow> nat option" where
  "exact_integer p q =
     (if p = 0 then None
      else (case round_double p q of (p', q') \<Rightarrow> if p' \<noteq> 0 \<and> q' dvd p' then Some (p' div q') else None))"

definition decimal_integer :: "jstr \<Rightarrow> nat option" where
  "decimal_integer s0 =
     (let s = (if starts_with (js ''+'') s0 then drop 1 s0 else s0);
          ip = takeWhile is_dec_digit s;
          r1 = dropWhile is_dec_digit s;
          dot = starts_with (js ''.'') r1;
          fp = (if dot then takeWhile is_dec_digit (drop 1 r1) else []);
          r2 = (if dot then dropWhile is_dec_digit (drop 1 r1) else r1);
          ex = starts_with (js ''e'') r2 \<or> starts_with (js ''E'') r2;
          r3 = (if ex then drop 1 r2 else r2);
          neg = starts_with (js ''-'') r3;
          r4 = (if ex \<and> (neg \<or> starts_with (js ''+'') r3) then drop 1 r3 else r3);
          e = (if ex then (if neg then - int (dec_nat r4) else int (dec_nat r4)) else 0);
          m = dec_nat (ip @ fp);
          k = e - int (List.length fp)
      in if ip @ fp = [] \<or> (ex \<and> (r4 = [] \<or> \<not> list_all is_dec_digit r4)) \<or> (\<not> ex \<and> r4 \<noteq> []) \<or>
            \<not> decimal_isFinite s then None
         else if 0 \<le> k then exact_integer (m * 10 ^ nat k) 1
         else exact_integer m (10 ^ nat (- k)))"

definition positive_integer :: "jstr \<Rightarrow> nat option" where
  "positive_integer s =
     (if starts_with (js ''0x'') s \<or> starts_with (js ''0X'') s
        then (case based_digits 16 (drop 2 s) of None \<Rightarrow> None | Some n \<Rightarrow> exact_integer n 1)
      else if starts_with (js ''0o'') s \<or> starts_with (js ''0O'') s
        then (case based_digits 8 (drop 2 s) of None \<Rightarrow> None | Some n \<Rightarrow> exact_integer n 1)
      else if starts_with (js ''0b'') s \<or> starts_with (js ''0B'') s
        then (case based_digits 2 (drop 2 s) of None \<Rightarrow> None | Some n \<Rightarrow> exact_integer n 1)
      else decimal_integer s)"

definition numvals :: "string list" where
  "numvals = [''maxstatements'', ''maxparams'', ''maxdepth'', ''maxcomplexity'', ''maxerr'', ''maxlen'',
     ''indent'']"

text \<open>The options with a fixed choice of values: the value a text stands for.\<close>

definition choices :: "(string \<times> (string \<times> jsval) list) list" where
  "choices =
     [(''quotmark'', [(''true'', JBool True), (''false'', JBool False),
         (''double'', JStr (js ''double'')), (''single'', JStr (js ''single''))]),
      (''shadow'', [(''true'', JBool True), (''outer'', JStr (js ''outer'')),
         (''false'', JStr (js ''inner'')), (''inner'', JStr (js ''inner''))]),
      (''unused'', [(''true'', JBool True), (''false'', JBool False), (''vars'', JStr (js ''vars'')),
         (''strict'', JStr (js ''strict''))]),
      (''latedef'', [(''true'', JBool True), (''false'', JBool False),
         (''nofunc'', JStr (js ''nofunc''))]),
      (''strict'', [(''true'', JBool True), (''false'', JBool False), (''global'', JStr (js ''global'')),
         (''implied'', JStr (js ''implied''))])]"

definition editions :: "(string \<times> int) list" where
  "editions =
     [(''3'', 3), (''5'', 5), (''6'', 6), (''7'', 7), (''8'', 8), (''9'', 9), (''10'', 10), (''11'', 11),
      (''2015'', 6), (''2016'', 7), (''2017'', 8), (''2018'', 9), (''2019'', 10), (''2020'', 11)]"

definition find_js :: "jstr \<Rightarrow> (string \<times> 'a) list \<Rightarrow> 'a option" where
  "find_js s tbl = map_of (map (\<lambda>(n, v). (js n, v)) tbl) s"

section \<open>The scope manager and the linter\<close>

text \<open>
  The manager shares the objects of the predefined and the declared names with the linter, and
  its warnings are results of the run; they are delivered once its operation is done.
\<close>

definition place_of :: "(nat \<Rightarrow> stoken) \<Rightarrow> token_ref \<Rightarrow> place option" where
  "place_of ts r =
     (case r of
        Tok t \<Rightarrow> Some \<lparr>p_line = Some (t_line (ts t)), p_from = Some (t_from (ts t)), p_end = t_end (ts t)\<rparr>
      | Pos l c \<Rightarrow> Some \<lparr>p_line = Some l, p_from = Some c, p_end = False\<rparr>
      | NoTok \<Rightarrow> None)"

definition deliver :: "(nat \<Rightarrow> stoken) \<Rightarrow> scope_event \<Rightarrow> linter \<Rightarrow> linter" where
  "deliver ts e S =
     (case e of
        SWarning code r data \<Rightarrow> warning code (place_of ts r) (map JStr data) S
      | SOuterMutable n \<Rightarrow> S)"

definition with_scope :: "(manager \<Rightarrow> manager) \<Rightarrow> linter \<Rightarrow> linter" where
  "with_scope f =
     unless_thrown (\<lambda>S.
       let G0 = (l_mgr S)\<lparr>g_predefined := l_predefined S, g_declared := l_declared S\<rparr>;
           G = f G0;
           S1 = S\<lparr>l_mgr := G, l_predefined := g_predefined G, l_declared := g_declared G\<rparr>
       in fold (deliver (g_toks G)) (drop (List.length (g_events G0)) (g_events G)) S1)"

section \<open>Directives\<close>

text \<open>
  A comment that carries a directive: its type, its text, its place, and the token's number under
  which \<open>declared\<close> refers to it.
\<close>

record directive_token =
  d_type :: string
  d_body :: jstr
  d_place :: place
  d_token :: nat

definition trailing :: "nat \<Rightarrow> nat \<Rightarrow> bool" where
  "trailing idx n \<longleftrightarrow> 0 < idx \<and> idx = n - 1"

definition part :: "jstr list \<Rightarrow> nat \<Rightarrow> jstr" where
  "part ps i = (if i < List.length ps then trim (ps ! i) else [])"

text \<open>\<open>globals\<close>: an item adds a name to the table, or takes one away for good.\<close>

definition global_item ::
  "directive_token \<Rightarrow> nat \<Rightarrow> nat \<times> jstr \<Rightarrow> (jstr, jsval) obj \<times> linter \<Rightarrow> (jstr, jsval) obj \<times> linter" where
  "global_item D n x PS =
     (case x of (idx, item) \<Rightarrow> case PS of (predef, S) \<Rightarrow>
        if l_thrown S \<noteq> None then (predef, S)
        else
          (let parts = split_on (ch CHR '':'') item; key = part parts 0 in
           if key = js ''-'' \<or> key = [] then
             (if trailing idx n then (predef, S) else (predef, warning ''E002'' (Some (d_place D)) [] S))
           else if hd key = ch CHR ''-'' then
             (predef, S\<lparr>l_blacklist := plain_put (l_blacklist S) (tl key) (tl key),
                        l_predefined := obj_del (l_predefined S) (tl key)\<rparr>)
           else (plain_put predef key (JBool (part parts 1 = js ''true'')), S)))"

definition globals_directive :: "directive_token \<Rightarrow> jstr list \<Rightarrow> linter \<Rightarrow> linter" where
  "globals_directive D body S =
     (case fold (global_item D (List.length body)) (enumerate 0 body) ([], S) of
        (predef, S1) \<Rightarrow>
          unless_thrown (\<lambda>S1.
            (add_globals predef S1)
              \<lparr>l_declared := fold (\<lambda>k d. obj_put d k (d_token D)) (obj_keys predef) (l_declared S1)\<rparr>) S1)"

definition exported_item :: "directive_token \<Rightarrow> nat \<Rightarrow> nat \<times> jstr \<Rightarrow> linter \<Rightarrow> linter" where
  "exported_item D n x =
     (case x of (idx, e) \<Rightarrow>
        unless_thrown (\<lambda>S.
          if e = [] then
            (if trailing idx n then S else warning ''E002'' (Some (d_place D)) [] S)
          else with_scope (addExported e) S))"

text \<open>\<open>members\<close>: the quotes around a name are taken off, and the first escaped quote in it unescaped.\<close>

definition unescape_quote :: "jstr \<Rightarrow> jstr" where
  "unescape_quote m =
     (case index_of [92, 34] m of None \<Rightarrow> m | Some i \<Rightarrow> take i m @ [34] @ drop (i + 2) m)"

definition member_name :: "jstr \<Rightarrow> jstr" where
  "member_name m =
     (if m \<noteq> [] \<and> hd m = last m \<and> (hd m = 34 \<or> hd m = 39)
      then unescape_quote (take (List.length m - 2) (tl m)) else m)"

definition members_directive :: "jstr list \<Rightarrow> linter \<Rightarrow> linter" where
  "members_directive body S =
     S\<lparr>l_members := Some (fold (\<lambda>m d. plain_put d (member_name m) False) body
        (case l_members S of None \<Rightarrow> [] | Some d \<Rightarrow> d))\<rparr>"

subsection \<open>Options\<close>

definition hasParsedCode :: "linter \<Rightarrow> bool" where
  "hasParsedCode S \<longleftrightarrow> l_global S \<and> \<not> l_verb S"

definition number_option :: "directive_token \<Rightarrow> jstr \<Rightarrow> jstr \<Rightarrow> linter \<Rightarrow> linter" where
  "number_option D key val S =
     (if val \<noteq> js ''false'' then
        (case positive_integer val of
           None \<Rightarrow> warning ''E032'' (Some (d_place D)) [JStr val] S
         | Some n \<Rightarrow> set_named key (JNum (int n)) S)
      else set_named key (if key = js ''indent'' then JNum 4 else JBool False) S)"

definition choice_option ::
  "directive_token \<Rightarrow> jstr \<Rightarrow> (string \<times> jsval) list \<Rightarrow> jstr \<Rightarrow> linter \<Rightarrow> linter" where
  "choice_option D key vals val S =
     (case find_js val vals of
        None \<Rightarrow> warning ''E002'' (Some (d_place D)) [] S
      | Some v \<Rightarrow> set_named key v S)"

definition validthis_option :: "jstr \<Rightarrow> directive_token \<Rightarrow> linter \<Rightarrow> linter" where
  "validthis_option val D S =
     (if l_global S then warning ''E009'' None [] S
      else if val \<noteq> js ''true'' \<and> val \<noteq> js ''false'' then warning ''E002'' (Some (d_place D)) [] S
      else set_option ''validthis'' (JBool (val = js ''true'')) S)"

definition ignore_option :: "jstr \<Rightarrow> directive_token \<Rightarrow> linter \<Rightarrow> linter" where
  "ignore_option val D S =
     (if val = js ''line'' then
        (case p_line (d_place D) of
           None \<Rightarrow> removeIgnoredMessages S
         | Some l \<Rightarrow> removeIgnoredMessages
             (S\<lparr>l_state := (l_state S)\<lparr>ignoredLines := (ignoredLines (l_state S))(l := True)\<rparr>\<rparr>))
      else warning ''E002'' (Some (d_place D)) [] S)"

definition esversion_option :: "jstr \<Rightarrow> directive_token \<Rightarrow> linter \<Rightarrow> linter" where
  "esversion_option val D S =
     (let S1 = (case find_js val editions of
            None \<Rightarrow> warning ''E002'' (Some (d_place D)) [] S
          | Some n \<Rightarrow> set_option ''esversion'' (JNum n) (set_option ''moz'' (JBool False) S))
      in if \<not> hasParsedCode S1 then warning ''E055'' (Some (d_place D)) [JStr (js ''esversion'')] S1 else S1)"

definition switch_warning :: "bool \<Rightarrow> string \<Rightarrow> linter \<Rightarrow> linter" where
  "switch_warning off code S =
     S\<lparr>l_state := (l_state S)\<lparr>ignored := (ignored (l_state S))(code := off)\<rparr>\<rparr>"

definition renamed_key :: "jstr \<Rightarrow> jstr" where
  "renamed_key key = (case find_js key renamed of None \<Rightarrow> key | Some n \<Rightarrow> js n)"

definition boolean_option :: "directive_token \<Rightarrow> jstr \<Rightarrow> jstr \<Rightarrow> linter \<Rightarrow> linter" where
  "boolean_option D key val S =
     (let on = (val = js ''true'') in
      if \<not> on \<and> val \<noteq> js ''false'' then warning ''E002'' (Some (d_place D)) [] S
      else if d_type D = ''jslint'' then
        set_named (renamed_key key) (JBool (if named (renamed_key key) inverted then \<not> on else on)) S
      else if d_type D = ''jshint.unstable'' then
        (if list_all (\<lambda>c. c < 128) key
         then S\<lparr>l_state := (l_state S)\<lparr>unstable := (unstable (l_state S))(map char_of key := JBool on)\<rparr>\<rparr>
         else S)
      else set_named key (JBool on) S)"

text \<open>\<open>module\<close> is checked for its place and then set like any other boolean option.\<close>

definition module_check :: "directive_token \<Rightarrow> jstr \<Rightarrow> linter \<Rightarrow> linter" where
  "module_check D key S =
     (if key = js ''module'' \<and> \<not> hasParsedCode S
      then warning ''E055'' (Some (d_place D)) [JStr (js ''module'')] S else S)"

definition option_value :: "directive_token \<Rightarrow> jstr \<Rightarrow> jstr \<Rightarrow> linter \<Rightarrow> linter" where
  "option_value D key val S =
     (if named key numvals then number_option D key val S
      else if key = js ''validthis'' then validthis_option val D S
      else
        (case find_js key choices of
           Some vals \<Rightarrow> choice_option D key vals val S
         | None \<Rightarrow>
             if key = js ''ignore'' then ignore_option val D S
             else if key = js ''esversion'' then esversion_option val D S
             else
               (case warning_switch key of
                  Some (off, code) \<Rightarrow> switch_warning off code S
                | None \<Rightarrow> unless_thrown (boolean_option D key val) (module_check D key S))))"

definition option_item :: "directive_token \<Rightarrow> jstr \<Rightarrow> linter \<Rightarrow> linter" where
  "option_item D item =
     unless_thrown (\<lambda>S.
       let parts = split_on (ch CHR '':'') item; key = part parts 0; val = part parts 1
       in case checkOption key (d_type D \<noteq> ''jshint.unstable'') (d_type D) (d_place D) S of
            (valid, S1) \<Rightarrow> if valid then option_value D key val S1 else S1)"

text \<open>
  \<open>lintingDirective\<close>. Whether the preceding token is marked as falling through is the second
  result. A type is at most one of those tested, so the tests are alternatives.
\<close>

definition lintingDirective :: "directive_token \<Rightarrow> linter \<Rightarrow> linter \<times> bool" where
  "lintingDirective D S =
     (let body = map trim (split_on (ch CHR '','') (d_body D)) in
      if d_type D = ''falls through'' then (S, True)
      else if d_type D = ''globals'' then (globals_directive D body S, False)
      else if d_type D = ''exported''
        then (fold (exported_item D (List.length body)) (enumerate 0 body) S, False)
      else if d_type D = ''members'' then (members_directive body S, False)
      else if d_type D = ''jshint'' \<or> d_type D = ''jslint'' \<or> d_type D = ''jshint.unstable''
        then (unless_thrown applyOptions (fold (option_item D) body S), False)
      else (S, False))"

end
