(* ===== verification/Style.thy ===== *)
theory Style
  imports Directive LexCore
begin

text \<open>
  The listeners of the lexer's events (\<^verbatim>\<open>jshint.js\<close>): warnings and errors become results,
  identifiers, strings and numbers go to the checks of \<^verbatim>\<open>style.js\<close>.
\<close>

section \<open>The interface the checks use\<close>

text \<open>\<open>linter.getOption(name)\<close> as a condition and as a value, and \<open>linter.warn\<close>.\<close>

definition getOption :: "linter \<Rightarrow> string \<Rightarrow> jsval" where
  "getOption S n = (if truthy (option (l_state S) n) then option (l_state S) n else JNull)"

definition style_warn :: "string \<Rightarrow> nat \<Rightarrow> nat \<Rightarrow> jstr list \<Rightarrow> linter \<Rightarrow> linter" where
  "style_warn code l c data S = warningAt code (Some l) (Some c) (map JStr data) S"

section \<open>Identifiers\<close>

definition style_scanProto :: "nat \<Rightarrow> nat \<Rightarrow> jstr \<Rightarrow> linter \<Rightarrow> linter" where
  "style_scanProto l c name =
     unless_thrown (\<lambda>S.
       if truthy (getOption S ''proto'') then S
       else if name = js ''__proto__'' then style_warn ''W103'' l c [name, js ''6''] S else S)"

definition style_scanIterator :: "nat \<Rightarrow> nat \<Rightarrow> jstr \<Rightarrow> linter \<Rightarrow> linter" where
  "style_scanIterator l c name =
     unless_thrown (\<lambda>S.
       if truthy (getOption S ''iterator'') then S
       else if name = js ''__iterator__'' then style_warn ''W103'' l c [name] S else S)"

definition strip_underscores :: "jstr \<Rightarrow> jstr" where
  "strip_underscores s = rev (dropWhile (\<lambda>c. c = 95) (rev (dropWhile (\<lambda>c. c = 95) s)))"

definition is_constant_name :: "jstr \<Rightarrow> bool" where
  "is_constant_name s \<longleftrightarrow> list_all (\<lambda>c. (65 \<le> c \<and> c \<le> 90) \<or> is_dec_digit c \<or> c = 95) s"

definition style_scanCamelCase :: "nat \<Rightarrow> nat \<Rightarrow> jstr \<Rightarrow> linter \<Rightarrow> linter" where
  "style_scanCamelCase l c name =
     unless_thrown (\<lambda>S.
       if \<not> truthy (getOption S ''camelcase'') then S
       else if List.member (strip_underscores name) 95 \<and> \<not> is_constant_name name
       then style_warn ''W106'' l c [name] S else S)"

section \<open>Strings and numbers\<close>

definition quote_code :: "jsval \<Rightarrow> jchar \<Rightarrow> linter \<Rightarrow> string option \<times> linter" where
  "quote_code quotmark quote S =
     (let c1 = (if quotmark = JStr (js ''single'') \<and> quote \<noteq> 39 then Some ''W109'' else None);
          c2 = (if quotmark = JStr (js ''double'') \<and> quote \<noteq> 34 then Some ''W108'' else c1)
      in if quotmark = JBool True then
           (let st = l_state S;
                st1 = (if truthy (cache st ''quotmark'') then st
                       else st\<lparr>cache := (cache st)(''quotmark'' := JStr [quote])\<rparr>)
            in (if cache st1 ''quotmark'' \<noteq> JStr [quote] then Some ''W110'' else c2, S\<lparr>l_state := st1\<rparr>))
         else (c2, S))"

definition style_scanQuotes :: "nat \<Rightarrow> nat \<Rightarrow> jchar \<Rightarrow> linter \<Rightarrow> linter" where
  "style_scanQuotes l c quote =
     unless_thrown (\<lambda>S.
       if \<not> truthy (getOption S ''quotmark'') then S
       else
         (case quote_code (getOption S ''quotmark'') quote S of
            (None, S1) \<Rightarrow> S1
          | (Some code, S1) \<Rightarrow> style_warn code l c [] S1))"

definition style_scanNumbers :: "nat \<Rightarrow> nat \<Rightarrow> jstr \<Rightarrow> linter \<Rightarrow> linter" where
  "style_scanNumbers l c v S =
     (let S1 = (if char_at v 0 = Some 46 then style_warn ''W008'' l c [v] S else S);
          S2 = (if v \<noteq> [] \<and> last v = 46 then style_warn ''W047'' l c [v] S1 else S1)
      in if starts_with (js ''00'') v then style_warn ''W046'' l c [v] S2 else S2)"

definition lower_ascii :: "jchar \<Rightarrow> jchar" where
  "lower_ascii c = (if 65 \<le> c \<and> c \<le> 90 then c + 32 else c)"

definition script_url :: "jstr \<Rightarrow> bool" where
  "script_url s \<longleftrightarrow>
     list_ex (\<lambda>p. starts_with (js p) (map lower_ascii s) \<and>
                (let r = dropWhile is_ws (drop (List.length p) s) in r \<noteq> [] \<and> hd r = 58))
       [''javascript'', ''jscript'', ''ecmascript'', ''vbscript'', ''livescript'']"

definition style_scanJavaScriptURLs :: "nat \<Rightarrow> nat \<Rightarrow> jstr \<Rightarrow> linter \<Rightarrow> linter" where
  "style_scanJavaScriptURLs l c v =
     unless_thrown (\<lambda>S.
       if truthy (getOption S ''scripturl'') then S
       else if script_url v then style_warn ''W107'' l c [] S else S)"

section \<open>The listeners\<close>

text \<open>\<open>register\<close>: the listeners of an event run in the order they were added.\<close>

definition lex_listener :: "lex_event \<Rightarrow> linter \<Rightarrow> linter" where
  "lex_listener ev S =
     (case ev of
        EvDiag k code l c data \<Rightarrow> warningAt code (Some l) (Some c) (map JStr data) S
      | EvFatal l c \<Rightarrow>
          unless_thrown (quit ''E041'' \<lparr>p_line = Some l, p_from = Some c, p_end = False\<rparr> []) S
      | EvIdentifier l c f name raw p \<Rightarrow>
          style_scanCamelCase l c name (style_scanIterator l c name (style_scanProto l c name S))
      | EvString l c f sl sc v q \<Rightarrow> style_scanJavaScriptURLs l c v (style_scanQuotes l c q S)
      | EvNumber l c f v b m \<Rightarrow> style_scanNumbers l c v S
      | EvTemplate k l c f sl sc v \<Rightarrow> S)"

definition lex_listeners :: "lex_event list \<Rightarrow> linter \<Rightarrow> linter" where
  "lex_listeners evs S = fold lex_listener evs S"

end
