(* ===== verification/Lint.thy ===== *)
theory Lint
  imports Style "HOL-Library.Code_Target_Nat"
begin

text \<open>
  The beginning and the end of a run: how the options and the globals a caller passes set up the
  linter (the function \<open>itself\<close> of \<^verbatim>\<open>jshint.js\<close>, up to the parse), how an exception becomes the
  last result, the results of evaluated strings, the summary (\<open>data\<close>, here \<open>lint_data\<close>), and the wrapper
  \<^verbatim>\<open>jshint_wrapper.js\<close> cwltool calls. The parse itself lies between \<open>start_run\<close> and \<open>finish_run\<close>.
\<close>

section \<open>The options of a call\<close>

text \<open>
  \<open>predef\<close> and \<open>globals\<close> are arrays of names or objects with them as keys, \<open>exported\<close> likewise;
  the other options have plain values.
\<close>

datatype name_dict = NArray "jstr list" | NObject "(jstr, jsval) obj"

record call_options =
  c_predef :: "name_dict option"
  c_globals :: "name_dict option"
  c_exported :: "name_dict option"
  c_scope :: "jstr option"
  c_options :: "(jstr, jsval) obj"

definition dict_names :: "name_dict option \<Rightarrow> jstr list" where
  "dict_names d =
     (case d of None \<Rightarrow> [] | Some (NArray ns) \<Rightarrow> ns | Some (NObject ob) \<Rightarrow> obj_keys ob)"

text \<open>
  \<open>prop ? prop.value : false\<close>; an array has properties under its indices and \<open>length\<close>.
\<close>

definition array_index :: "jstr list \<Rightarrow> jstr \<Rightarrow> nat option" where
  "array_index ns n =
     (if n \<noteq> [] \<and> list_all is_dec_digit n \<and> show_nat (dec_nat n) = n \<and> dec_nat n < List.length ns
      then Some (dec_nat n) else None)"

definition dict_value :: "name_dict \<Rightarrow> jstr \<Rightarrow> jsval" where
  "dict_value d n =
     (case d of
        NObject ob \<Rightarrow> (case obj_get ob n of Some v \<Rightarrow> v | None \<Rightarrow> JBool False)
      | NArray ns \<Rightarrow>
          (if n = js ''length'' then JNum (int (List.length ns))
           else case array_index ns n of Some i \<Rightarrow> JStr (ns ! i) | None \<Rightarrow> JBool False))"

text \<open>The first unit of a name; an empty name is neither.\<close>

definition pass_name :: "name_dict \<Rightarrow> jstr \<Rightarrow> linter \<Rightarrow> linter" where
  "pass_name d n S =
     (if n \<noteq> [] \<and> hd n = ch CHR ''-'' then
        S\<lparr>l_blacklist := plain_put (l_blacklist S) (tl n) (tl n),
          l_predefined := obj_del (l_predefined S) (tl n)\<rparr>
      else S\<lparr>l_predefined := obj_put (l_predefined S) n (dict_value d n)\<rparr>)"

definition pass_dict :: "name_dict option \<Rightarrow> linter \<Rightarrow> linter" where
  "pass_dict d S =
     (case d of None \<Rightarrow> S | Some d' \<Rightarrow> fold (pass_name d') (dict_names d) S)"

text \<open>\<open>/^-W\d{3}$/\<close> switches a warning off; any other key is an option.\<close>

definition pass_option :: "jstr \<times> jsval \<Rightarrow> linter \<Rightarrow> linter" where
  "pass_option kv S =
     (case kv of (k, v) \<Rightarrow>
        (case warning_switch k of
           Some (True, code) \<Rightarrow> switch_warning True code S
         | _ \<Rightarrow> set_named k v S))"

definition default_option :: "string \<Rightarrow> int \<Rightarrow> linter \<Rightarrow> linter" where
  "default_option n v S = (if opt_on (l_state S) n then S else set_option n (JNum v) S)"

section \<open>The beginning of a run\<close>

text \<open>
  A run that names no scope starts with no results; a run for an evaluated string goes on with those there are. The tables of the edition 3 and of the reserved
  variables come first.
\<close>

definition new_results :: "jstr option \<Rightarrow> linter \<Rightarrow> linter" where
  "new_results scope S =
     (case scope of
        Some (c # cs) \<Rightarrow> S\<lparr>l_scope := c # cs\<rparr>
      | _ \<Rightarrow> S\<lparr>l_errors := [], l_blacklist := [], l_scope := js ''(main)''\<rparr>)"

definition base_globals :: "linter \<Rightarrow> linter" where
  "base_globals S = add_globals reservedVars (add_globals ecma3 (S\<lparr>l_predefined := []\<rparr>))"

definition begin_place :: place where
  "begin_place = \<lparr>p_line = None, p_from = None, p_end = False\<rparr>"

definition set_up :: "call_options \<Rightarrow> linter \<Rightarrow> linter" where
  "set_up o' S0 =
     (let S1 = base_globals (new_results (c_scope o') (S0\<lparr>l_state := reset_state, l_thrown := None\<rparr>));
          S2 = pass_dict (c_globals o') (pass_dict (c_predef o') (S1\<lparr>l_declared := []\<rparr>));
          S3 = default_option ''maxerr'' 50 (default_option ''indent'' 4 (fold pass_option (c_options o') S2));
          ex = fold (\<lambda>n d. obj_put d n True) (dict_names (c_exported o')) []
      in S3\<lparr>l_mgr := scopeManager (l_predefined S3) ex (l_declared S3) (\<lambda>_. undefined_token),
            l_members := None, l_global := True, l_verb := False,
            l_curr := begin_place, l_next := begin_place\<rparr>)"

text \<open>
  The names of the options are checked before the part of the run whose exceptions are handled:
  what is thrown here leaves \<open>JSHINT\<close>. The names in the object of the option \<open>unstable\<close> are checked by a loop
  of their own, which is left out: an option is a plain value here.
\<close>

definition check_names :: "call_options \<Rightarrow> linter \<Rightarrow> linter" where
  "check_names o' S = fold (\<lambda>(k, v) S. snd (checkOption k True [] (l_curr S) S)) (c_options o') S"

definition uncaught :: "linter \<Rightarrow> linter" where
  "uncaught S = (if l_thrown S = None then S else fault S)"

text \<open>Then the options are applied, and the globals of the call are added.\<close>

definition start_run ::
  "call_options \<Rightarrow> (jstr, jsval) obj \<Rightarrow> jstr \<Rightarrow> linter \<Rightarrow> lexer \<times> linter" where
  "start_run o' g source S0 =
     (let S1 = set_up o' S0 in
      case new_Lexer (source_lines source) (l_state S1) of
        (lx, st) \<Rightarrow>
          (lx, unless_thrown (add_globals g) (unless_thrown applyOptions
                 (uncaught (check_names o' (S1\<lparr>l_lines := lines lx, l_state := st\<rparr>))))))"

section \<open>The end of a run\<close>

definition or_num :: "nat option \<Rightarrow> nat option \<Rightarrow> nat option" where
  "or_num a b = (case a of Some (Suc n) \<Rightarrow> Some (Suc n) | _ \<Rightarrow> b)"

text \<open>A \<open>JSHintError\<close> becomes the last result; any other exception is thrown again.\<close>

definition finish_run :: "linter \<Rightarrow> linter" where
  "finish_run S =
     (case l_thrown S of
        Some (Quit r) \<Rightarrow>
          S\<lparr>l_errors := l_errors S @
              [r\<lparr>r_line := or_num (r_line r) (p_line (l_next S)),
                 r_character := or_num (r_character r) (p_from (l_next S))\<rparr>],
            l_thrown := None\<rparr>
      | _ \<Rightarrow> S)"

text \<open>
  \<open>lintEvalCode\<close> moves the results a run for an evaluated string added, \<open>n\<close> before it, to
  the line of the string.
\<close>

definition shift_lines :: "nat \<Rightarrow> nat \<Rightarrow> linter \<Rightarrow> linter" where
  "shift_lines n l S =
     S\<lparr>l_errors := take n (l_errors S) @
        map (\<lambda>r. r\<lparr>r_line := map_option (\<lambda>k. k + l - 1) (r_line r)\<rparr>) (drop n (l_errors S))\<rparr>"

definition succeeded :: "linter \<Rightarrow> bool" where
  "succeeded S \<longleftrightarrow> l_errors S = []"

section \<open>The summary\<close>

text \<open>A property that is only set when there is something to tell is \<open>None\<close> otherwise.\<close>

record summary =
  s_errors :: "report list option"
  s_json :: bool
  s_implieds :: "(jstr \<times> nat list) list option"
  s_globals :: "jstr list option"
  s_unused :: "(jstr \<times> nat \<times> nat) list option"

definition if_any :: "'a list \<Rightarrow> 'a list option" where
  "if_any xs = (if xs = [] then None else Some xs)"

definition lint_data :: "linter \<Rightarrow> summary" where
  "lint_data S =
     \<lparr>s_errors = if_any (l_errors S), s_json = jsonMode (l_state S),
      s_implieds = if_any (getImpliedGlobals (l_mgr S)),
      s_globals = if_any (getUsedOrDefinedGlobals (l_mgr S)),
      s_unused = if_any (getUnuseds (l_mgr S))\<rparr>"

section \<open>The wrapper\<close>

text \<open>\<open>reason.slice(0, -n)\<close> for a positive \<open>n\<close>.\<close>

definition slice_off :: "nat \<Rightarrow> jstr \<Rightarrow> jstr" where
  "slice_off n s = take (List.length s - n) s"

definition jslint_suffix :: "string \<Rightarrow> jstr" where
  "jslint_suffix code =
     (if code = ''W104'' then js '' (use 'esversion: 6') or Mozilla JS extensions (use moz).''
      else js '' (use 'esversion: 6')'')"

definition rewrite_reason :: "report \<Rightarrow> report" where
  "rewrite_reason r =
     (if r_code r = ''W104'' \<or> r_code r = ''W119''
      then r\<lparr>r_reason := slice_off (List.length (jslint_suffix (r_code r)) + 1) (r_reason r) @
                js ''. CWL only supports ES5.1''\<rparr>
      else r)"

definition keep_report :: "string list option \<Rightarrow> report \<Rightarrow> bool" where
  "keep_report includewarnings r =
     (case includewarnings of
        None \<Rightarrow> True
      | Some codes \<Rightarrow> List.member codes (r_code r) \<or> (r_code r \<noteq> [] \<and> hd (r_code r) = CHR ''E''))"

definition wrap_data :: "string list option \<Rightarrow> summary \<Rightarrow> summary" where
  "wrap_data includewarnings d =
     d\<lparr>s_errors := map_option (\<lambda>rs. map rewrite_reason (filter (keep_report includewarnings) rs))
        (s_errors d)\<rparr>"

text \<open>The globals of the input as the table \<open>JSHINT\<close> is given.\<close>

definition globals_table :: "jstr list \<Rightarrow> (jstr, jsval) obj" where
  "globals_table ns = fold (\<lambda>n d. plain_put d n (JBool True)) ns []"

end
