(* ===== verification/ReportTheorems.thy ===== *)
theory ReportTheorems
  imports Lint
begin

text \<open>
  The properties of the reporting and of the directives.
\<close>

section \<open>Templates\<close>

text \<open>A template in parts: text without braces, and the name of a field in braces.\<close>

datatype segment = Text jstr | Hole jstr

fun seg_ok :: "segment \<Rightarrow> bool" where
  "seg_ok (Text s) = list_all (\<lambda>c. \<not> is_brace c) s"
| "seg_ok (Hole n) = list_all (\<lambda>c. \<not> is_brace c) n"

fun seg_text :: "segment \<Rightarrow> jstr" where
  "seg_text (Text s) = s"
| "seg_text (Hole n) = [123] @ n @ [125]"

fun seg_fill :: "(jstr \<Rightarrow> jsval) \<Rightarrow> segment \<Rightarrow> jstr" where
  "seg_fill data (Text s) = s"
| "seg_fill data (Hole n) = fill data n"

lemma supplant_text: "list_all (\<lambda>c. \<not> is_brace c) s \<Longrightarrow> supplant data (s @ r) = s @ supplant data r"
  by (induction s) (auto simp: is_brace_def)

lemma hole_name: "list_all (\<lambda>c. \<not> is_brace c) n \<Longrightarrow> hole (n @ 125 # r) = Some n"
  by (induction n) (auto simp: hole_def is_brace_def split: if_splits)

lemma supplant_hole:
  "list_all (\<lambda>c. \<not> is_brace c) n \<Longrightarrow> supplant data (123 # n @ 125 # r) = fill data n @ supplant data r"
  by (simp add: hole_name)

lemma supplant_segments:
  "list_all seg_ok segs \<Longrightarrow>
     supplant data (List.concat (map seg_text segs) @ r) = List.concat (map (seg_fill data) segs) @ supplant data r"
proof (induction segs)
  case (Cons s segs)
  then show ?case
    by (cases s) (simp_all add: supplant_text supplant_hole del: supplant.simps)
qed simp

text \<open>
  C36: A message is its template with every field in braces replaced by the field's text, and all
  other text as it is.
\<close>

theorem supplant_fills_template:
  assumes "list_all seg_ok segs"
  shows "supplant data (List.concat (map seg_text segs)) = List.concat (map (seg_fill data) segs)"
  using supplant_segments [OF assms, of data "[]"] by simp

theorem supplant_fills_template_witness:
  "supplant (\<lambda>n. if n = js ''a'' then JStr (js ''x'') else JUndef) (js ''Bad {a} and {b}.'') =
     js ''Bad x and {b}.''"
proof -
  define segs where "segs = [Text (js ''Bad ''), Hole (js ''a''), Text (js '' and ''), Hole (js ''b''), Text (js ''.'')]"
  have "list_all seg_ok segs" by (simp add: segs_def js_def is_brace_def)
  from supplant_fills_template [OF this, of "\<lambda>n. if n = js ''a'' then JStr (js ''x'') else JUndef"]
  show ?thesis by (simp add: segs_def fill_def arg_text_def js_def)
qed

section \<open>The limit on errors\<close>

definition limit_ok :: "nat \<Rightarrow> linter \<Rightarrow> bool" where
  "limit_ok k S \<longleftrightarrow> option (l_state S) ''maxerr'' = JNum (int k) \<and>
     count_errors (l_errors S) \<le> k \<and> (l_thrown S = None \<longrightarrow> count_errors (l_errors S) < k)"

lemma filter_count: "count_errors (filter P rs) \<le> count_errors rs"
  by (induction rs) (auto simp: count_errors_def)

lemma quit_fields [simp]:
  "l_errors (quit code t args S) = l_errors S" "l_state (quit code t args S) = l_state S"
  "l_thrown (quit code t args S) \<noteq> None"
  by (auto simp: quit_def fault_def Let_def split: option.splits)

lemma remove_fields [simp]:
  "l_state (removeIgnoredMessages S) = l_state S" "l_thrown (removeIgnoredMessages S) = l_thrown S"
  by (simp_all add: removeIgnoredMessages_def)

lemma add_report_state [simp]: "l_state (add_report w p S) = l_state S"
  by (simp add: add_report_def Let_def)

lemma add_report_limit:
  assumes "limit_ok k S" "l_thrown S = None"
  shows "limit_ok k (add_report w p S)"
proof -
  let ?R = "removeIgnoredMessages (S\<lparr>l_errors := l_errors S @ [w]\<rparr>)"
  have "count_errors (l_errors ?R) \<le> count_errors (l_errors S @ [w])"
    by (simp add: removeIgnoredMessages_def filter_count del: filter_append)
  also have "\<dots> \<le> Suc (count_errors (l_errors S))" by (simp add: count_errors_def)
  finally have "count_errors (l_errors ?R) \<le> k" using assms by (simp add: limit_ok_def)
  then show ?thesis
    using assms by (auto simp: add_report_def Let_def limit_ok_def js_le_def)
qed

text \<open>The cases of a warning: suppressed or too late, without a template, or a report.\<close>

lemma warning_cases:
  "warning code t args S = S \<or> warning code t args S = fault S \<or>
   (l_thrown S = None \<and> (\<exists>w p. warning code t args S = add_report w p S))"
  by (auto simp: warning_def unless_thrown_def Let_def split: option.splits)

lemma limit_fault: "limit_ok k S \<Longrightarrow> limit_ok k (fault S)"
  by (simp add: limit_ok_def fault_def)

lemma warning_limit: "limit_ok k S \<Longrightarrow> limit_ok k (warning code t args S)"
  using warning_cases [of code t args S] by (auto simp: limit_fault add_report_limit)

lemma warning_state [simp]: "l_state (warning code t args S) = l_state S"
  using warning_cases [of code t args S] by (auto simp: fault_def)

definition warnings :: "(string \<times> place option \<times> jsval list) list \<Rightarrow> linter \<Rightarrow> linter" where
  "warnings ws S = fold (\<lambda>(code, t, args). warning code t args) ws S"

lemma warnings_limit: "limit_ok k S \<Longrightarrow> limit_ok k (warnings ws S)"
  unfolding warnings_def by (induction ws arbitrary: S) (auto simp: warning_limit)

text \<open>
  C15: However many warnings are raised, a run lists at most as many errors as the option \<open>maxerr\<close>
  allows, and when it lists that many it is given up. (The end of a run then adds the error that
  says so.)
\<close>

theorem errors_within_limit:
  assumes "option (l_state S) ''maxerr'' = JNum (int k)" "l_thrown S = None"
    and "count_errors (l_errors S) < k"
  shows "count_errors (l_errors (warnings ws S)) \<le> k \<and>
    (count_errors (l_errors (warnings ws S)) = k \<longrightarrow> l_thrown (warnings ws S) \<noteq> None)"
proof -
  have "limit_ok k S" using assms by (simp add: limit_ok_def)
  from warnings_limit [OF this] show ?thesis by (auto simp: limit_ok_def)
qed

definition demo_linter :: linter where
  "demo_linter =
     \<lparr>l_errors = [], l_blacklist = [], l_scope = js ''(main)'',
      l_state = reset_state\<lparr>option := (\<lambda>n. if n = ''maxerr'' then JNum 2 else JUndef)\<rparr>,
      l_lines = [js ''first'', js ''second''], l_predefined = [], l_declared = [],
      l_mgr = scopeManager [] [] [] (\<lambda>_. undefined_token), l_members = None, l_global = True, l_verb = False,
      l_curr = begin_place, l_next = begin_place, l_thrown = None\<rparr>"

definition place_at :: "nat \<Rightarrow> place" where
  "place_at l = \<lparr>p_line = Some l, p_from = Some 1, p_end = False\<rparr>"

theorem errors_within_limit_witness:
  "count_errors (l_errors (warnings [(''E002'', Some (place_at 1), []), (''E003'', Some (place_at 1), []),
      (''E006'', Some (place_at 2), [])] demo_linter)) \<le> 2"
  using errors_within_limit [of demo_linter 2 "[(''E002'', Some (place_at 1), []), (''E003'', Some (place_at 1), []),
      (''E006'', Some (place_at 2), [])]"]
  by (simp add: demo_linter_def count_errors_def)

section \<open>Ignored lines\<close>

definition silent :: "linter \<Rightarrow> bool" where
  "silent S \<longleftrightarrow> list_all (\<lambda>r. \<not> on_ignored (l_state S) r) (l_errors S)"

lemma silent_remove: "silent (removeIgnoredMessages S)"
  by (simp add: silent_def removeIgnoredMessages_def list_all_iff)

lemma silent_add: "silent (add_report w p S)"
  using silent_remove [of "S\<lparr>l_errors := l_errors S @ [w]\<rparr>"]
  by (simp add: add_report_def Let_def silent_def)

lemma silent_warning: "silent S \<Longrightarrow> silent (warning code t args S)"
  using warning_cases [of code t args S] by (auto simp: silent_add) (simp add: silent_def fault_def)

text \<open>
  A comment that ignores its line takes the results on that line out of the list, and no warning
  raised later brings one back.
\<close>

theorem ignored_line_stays_silent:
  assumes "p_line (d_place D) = Some l"
  shows "list_all (\<lambda>r. r_line r \<noteq> Some l) (l_errors (warnings ws (ignore_option (js ''line'') D S)))"
proof -
  let ?S = "ignore_option (js ''line'') D S"
  have "silent ?S" "ignoredLines (l_state ?S) l"
    using silent_remove assms by (simp_all add: ignore_option_def)
  then have "silent (warnings ws ?S) \<and> ignoredLines (l_state (warnings ws ?S)) l"
    unfolding warnings_def by (induction ws rule: rev_induct) (auto simp: silent_warning)
  then show ?thesis by (auto simp: silent_def on_ignored_def list_all_iff)
qed

theorem ignored_line_stays_silent_witness:
  "list_all (\<lambda>r. r_line r \<noteq> Some 1) (l_errors (warnings [(''W099'', Some (place_at 1), []), (''W098'', Some (place_at 2), [])]
      (ignore_option (js ''line'') \<lparr>d_type = ''jshint'', d_body = js ''ignore:line'', d_place = place_at 1, d_token = 0\<rparr> demo_linter)))"
  by (rule ignored_line_stays_silent) (simp add: place_at_def)

section \<open>Removed names\<close>

text \<open>A name the user removed is not predefined.\<close>

definition honours :: "linter \<Rightarrow> bool" where
  "honours S \<longleftrightarrow> (\<forall>n. obj_has (l_blacklist S) n \<longrightarrow> \<not> obj_has (l_predefined S) n)"

lemma combine_has:
  "obj_has (combine bl src dest) n \<longleftrightarrow> obj_has dest n \<or> (n \<in> set (obj_keys src) \<and> \<not> obj_has bl n)"
proof (induction src arbitrary: dest)
  case (Cons kv src)
  then show ?case by (cases kv) (auto simp: combine_def obj_keys_def)
qed (simp add: combine_def obj_keys_def)

lemma honours_add_globals [simp]: "honours S \<Longrightarrow> honours (add_globals tbl S)"
  by (simp add: honours_def add_globals_def combine_has)

lemma honours_fold: "(\<And>x S. honours S \<Longrightarrow> honours (f x S)) \<Longrightarrow> honours S \<Longrightarrow> honours (fold f xs S)"
  by (induction xs arbitrary: S) auto

lemma honours_unless: "(honours S \<Longrightarrow> honours (f S)) \<Longrightarrow> honours S \<Longrightarrow> honours (unless_thrown f S)"
  by (simp add: unless_thrown_def)

text \<open>Operations that leave both tables alone.\<close>

lemma tables_warning [simp]:
  "l_blacklist (warning code t args S) = l_blacklist S" "l_predefined (warning code t args S) = l_predefined S"
proof -
  have q: "l_blacklist (quit c p a S) = l_blacklist S" "l_predefined (quit c p a S) = l_predefined S" for c p a S
    by (auto simp: quit_def fault_def Let_def split: option.splits)
  show "l_blacklist (warning code t args S) = l_blacklist S" "l_predefined (warning code t args S) = l_predefined S"
    by (auto simp: warning_def unless_thrown_def add_report_def removeIgnoredMessages_def fault_def Let_def q
        split: option.splits)
qed

lemma honours_same:
  "l_blacklist S' = l_blacklist S \<Longrightarrow> l_predefined S' = l_predefined S \<Longrightarrow> honours S \<Longrightarrow> honours S'"
  by (simp add: honours_def)

lemma honours_warning [simp]: "honours S \<Longrightarrow> honours (warning code t args S)"
  by (rule honours_same [of _ S]) simp_all

lemma honours_quit [simp]: "honours S \<Longrightarrow> honours (quit code t args S)"
  by (rule honours_same [of _ S]) (auto simp: quit_def fault_def Let_def split: option.splits)

lemma honours_state [simp]: "honours (S\<lparr>l_state := st\<rparr>) = honours S"
  by (simp add: honours_def)

lemma honours_set_option [simp]: "honours (set_option n v S) = honours S"
  by (simp add: set_option_def)

lemma honours_set_named [simp]: "honours (set_named n v S) = honours S"
  by (simp add: set_named_def)

lemma honours_applyOptions: "honours S \<Longrightarrow> honours (applyOptions S)"
proof -
  have env: "honours H \<Longrightarrow> honours (environment_globals H)" for H
    unfolding environment_globals_def
    by (rule honours_fold) (auto intro!: honours_fold [of add_globals])
  have ed: "honours H \<Longrightarrow> honours (edition_globals H)" for H
    unfolding edition_globals_def Let_def by (rule honours_fold) auto
  have other: "honours H \<Longrightarrow> honours (processenforceall H)" "honours H \<Longrightarrow> honours (infer_edition H)"
    "honours H \<Longrightarrow> honours (strict_conflict H)" "honours H \<Longrightarrow> honours (needs_es6 n H)" for H n
    by (simp_all add: processenforceall_def infer_edition_def strict_conflict_def needs_es6_def
        split: prod.splits option.splits)
  show "honours S \<Longrightarrow> honours (applyOptions S)"
    unfolding applyOptions_def by (intro honours_unless env ed other)
qed

lemma honours_checkOption: "honours S \<Longrightarrow> honours (snd (checkOption k b y t S))"
  by (simp add: checkOption_def Let_def)

lemma honours_remove [simp]: "honours (removeIgnoredMessages S) = honours S"
  by (simp add: honours_def removeIgnoredMessages_def)

lemma honours_values:
  assumes "honours S"
  shows "honours (number_option D key v S)" "honours (choice_option D key vals v S)"
    "honours (validthis_option v D S)" "honours (ignore_option v D S)" "honours (esversion_option v D S)"
    "honours (switch_warning off code S)" "honours (module_check D key S)" "honours (boolean_option D key v S)"
  using assms
  by (simp_all add: number_option_def choice_option_def validthis_option_def ignore_option_def
      esversion_option_def switch_warning_def module_check_def boolean_option_def Let_def
      split: option.splits)

lemma honours_option_value:
  assumes "honours S"
  shows "honours (option_value D key v S)"
proof -
  have "honours (unless_thrown (boolean_option D key v) (module_check D key S))"
    using assms by (intro honours_unless honours_values)
  then show ?thesis
    using honours_values [OF assms] by (simp add: option_value_def split: option.splits prod.splits)
qed

lemma honours_option_item: "honours S \<Longrightarrow> honours (option_item D item S)"
  unfolding option_item_def
  by (rule honours_unless)
    (simp add: Let_def split_beta honours_option_value honours_checkOption)

text \<open>The manager's exports do not touch the predefined names.\<close>

lemma honours_deliver: "honours S \<Longrightarrow> honours (deliver ts e S)"
  by (simp add: deliver_def split: scope_event.splits)

lemma addExported_predefined [simp]: "g_predefined (addExported n G) = g_predefined G"
  by (auto simp: addExported_def crash_def body_binding_def split: list.splits option.splits)

lemma honours_exported:
  assumes "honours S"
  shows "honours (with_scope (addExported n) S)"
proof -
  have "honours (S\<lparr>l_mgr := G, l_predefined := l_predefined S, l_declared := d\<rparr>)" for G d
    using assms by (simp add: honours_def)
  then show ?thesis
    unfolding with_scope_def Let_def using assms
    by (auto intro!: honours_unless honours_fold [of "deliver ts" for ts] honours_deliver)
qed

lemma honours_exported_item: "honours S \<Longrightarrow> honours (exported_item D n x S)"
  by (cases x) (auto simp: exported_item_def honours_exported intro!: honours_unless)

lemma honours_global_item:
  "honours (snd PS) \<Longrightarrow> honours (snd (global_item D n x PS))"
proof -
  have bl: "honours S \<Longrightarrow> honours (S\<lparr>l_blacklist := plain_put (l_blacklist S) k k,
      l_predefined := obj_del (l_predefined S) k\<rparr>)" for S k
    by (simp add: honours_def plain_put_def)
  show "honours (snd PS) \<Longrightarrow> honours (snd (global_item D n x PS))"
    by (cases x; cases PS) (simp add: global_item_def Let_def bl)
qed

lemma honours_globals: "honours S \<Longrightarrow> honours (globals_directive D body S)"
proof -
  assume S: "honours S"
  have "honours (snd PS) \<Longrightarrow> honours (snd (fold (global_item D n) xs PS))" for n xs PS
  proof (induction xs arbitrary: PS)
    case (Cons x xs)
    then show ?case using honours_global_item [of PS D n x] by simp
  qed simp
  from this [of "([], S)" "List.length body" "enumerate 0 body"] S
  have "honours (snd (fold (global_item D (List.length body)) (enumerate 0 body) ([], S)))" by simp
  moreover have "honours (H\<lparr>l_declared := d\<rparr>) = honours H" for H d by (simp add: honours_def)
  ultimately show ?thesis
    by (auto simp: globals_directive_def unless_thrown_def split: prod.splits)
qed

text \<open>
  A name the user took out of the predefined ones stays out: no directive in a comment, and no
  option with its tables of names, brings it back.
\<close>

theorem removed_names_stay_removed:
  assumes "\<forall>n. obj_has (l_blacklist S) n \<longrightarrow> \<not> obj_has (l_predefined S) n"
    and "obj_has (l_blacklist (fst (lintingDirective D S))) n"
  shows "\<not> obj_has (l_predefined (fst (lintingDirective D S))) n"
proof -
  have "honours S" using assms(1) by (simp add: honours_def)
  then have "honours (fst (lintingDirective D S))"
    unfolding lintingDirective_def Let_def
    by (auto simp: members_directive_def intro!: honours_globals honours_fold honours_unless
        honours_applyOptions intro: honours_exported_item honours_option_item)
      (simp add: honours_def)
  with assms(2) show ?thesis by (simp add: honours_def)
qed

definition jquery_comment :: directive_token where
  "jquery_comment = \<lparr>d_type = ''jshint'', d_body = js ''jquery:true'', d_place = place_at 1, d_token = 0\<rparr>"

theorem removed_names_stay_removed_witness:
  "\<not> obj_has (l_predefined (fst (lintingDirective jquery_comment
      (demo_linter\<lparr>l_blacklist := [(js ''jQuery'', js ''jQuery'')]\<rparr>)))) (js ''jQuery'')"
proof -
  have "obj_has (l_blacklist (fst (lintingDirective jquery_comment
      (demo_linter\<lparr>l_blacklist := [(js ''jQuery'', js ''jQuery'')]\<rparr>)))) (js ''jQuery'')"
    by code_simp
  then show ?thesis
    by (intro removed_names_stay_removed) (simp_all add: demo_linter_def)
qed

end
