(* ===== verification/RunTheorems.thy ===== *)
theory RunTheorems
  imports ReportTheorems
begin

text \<open>
  The properties of a run's beginning and end, of the wrapper and of the checks of style.
\<close>

section \<open>The messages the wrapper rewrites\<close>

text \<open>The templates of W104 and W119 in parts; the code of the apostrophe is 39.\<close>

definition feature_head :: "string \<Rightarrow> segment list" where
  "feature_head code =
     [Text [39], Hole (js ''a''),
      Text (39 # js (if code = ''W104'' then '' is available in ES'' else '' is only available in ES'')),
      Hole (js ''b'')]"

definition feature_tail :: "string \<Rightarrow> segment list" where
  "feature_tail code =
     [Text (js '' (use '' @ [39] @ js ''esversion: ''), Hole (js ''b''),
      Text (39 # js (if code = ''W104'' then '') or Mozilla JS extensions (use moz).'' else '').''))]"

lemma feature_template:
  assumes "template_of code = Some m" "code = ''W104'' \<or> code = ''W119''"
  shows "js m = List.concat (map seg_text (feature_head code @ feature_tail code))"
    "list_all seg_ok (feature_head code @ feature_tail code)"
proof -
  have "js (the (template_of ''W104'')) = List.concat (map seg_text (feature_head ''W104'' @ feature_tail ''W104'')) \<and>
     list_all seg_ok (feature_head ''W104'' @ feature_tail ''W104'')"
    by code_simp
  moreover have "js (the (template_of ''W119'')) = List.concat (map seg_text (feature_head ''W119'' @ feature_tail ''W119'')) \<and>
     list_all seg_ok (feature_head ''W119'' @ feature_tail ''W119'')"
    by code_simp
  ultimately show "js m = List.concat (map seg_text (feature_head code @ feature_tail code))"
    "list_all seg_ok (feature_head code @ feature_tail code)"
    using assms by auto
qed

definition feature_text :: "string \<Rightarrow> jstr \<Rightarrow> jstr \<Rightarrow> jstr" where
  "feature_text code a b =
     [39] @ a @ 39 # js (if code = ''W104'' then '' is available in ES'' else '' is only available in ES'') @ b"

definition feature_advice :: "string \<Rightarrow> jstr \<Rightarrow> jstr" where
  "feature_advice code b =
     js '' (use '' @ [39] @ js ''esversion: '' @ b @
     39 # js (if code = ''W104'' then '') or Mozilla JS extensions (use moz).'' else '').'')"

lemma supplant_fills_template_aux:
  "list_all seg_ok segs \<Longrightarrow> supplant d (List.concat (map seg_text segs)) = List.concat (map (seg_fill d) segs)"
  using supplant_segments [of segs d "[]"] by simp

lemma feature_filled:
  assumes "D (js ''a'') = JStr a" "D (js ''b'') = JStr b"
  shows "List.concat (map (seg_fill D) (feature_head code @ feature_tail code)) =
    feature_text code a b @ feature_advice code b"
  using assms
  by (simp add: feature_head_def feature_tail_def feature_text_def feature_advice_def fill_def arg_text_def)

lemma feature_reason:
  assumes "template_of code = Some m" "code = ''W104'' \<or> code = ''W119''"
  shows "r_reason (make_report code m t [JStr a, JStr b] S) = feature_text code a b @ feature_advice code b"
proof -
  define w where "w = \<lparr>r_code = code, r_raw = m, r_reason = [], r_evidence = evidence_at (l_lines S) (p_line t),
      r_line = p_line t, r_character = p_from t, r_scope = l_scope S, r_args = [JStr a, JStr b]\<rparr>"
  have "report_data w (js ''a'') = JStr a" "report_data w (js ''b'') = JStr b"
    by (simp_all add: report_data_def arg_def w_def js_def)
  from feature_filled [where D = "report_data w", OF this]
  have "supplant (report_data w) (js m) = feature_text code a b @ feature_advice code b"
    unfolding feature_template(1) [OF assms] by (simp only: supplant_fills_template_aux [OF feature_template(2) [OF assms]])
  then show ?thesis by (simp add: make_report_def Let_def w_def)
qed

lemma feature_suffix:
  "List.length (jslint_suffix ''W104'') = 57" "List.length (jslint_suffix ''W119'') = 21"
  "List.length (feature_advice ''W104'' b) = 56 + List.length b"
  "List.length (feature_advice ''W119'' b) = 21 + List.length b"
  by (simp_all add: jslint_suffix_def feature_advice_def js_def)

lemma report_code [simp]: "r_code (make_report code m t args S) = code"
  by (simp add: make_report_def Let_def)

text \<open>
  C37: The wrapper turns the warning W119 about a feature of an edition with one digit into the sentence
  without its advice: the feature, its edition, and that only ES5.1 is supported.
\<close>

theorem wrapper_cuts_advice:
  assumes "template_of ''W119'' = Some m" "List.length b = 1"
  shows "r_reason (rewrite_reason (make_report ''W119'' m t [JStr a, JStr b] S)) =
    [39] @ a @ 39 # js '' is only available in ES'' @ b @ js ''. CWL only supports ES5.1''"
  using assms
  by (simp add: rewrite_reason_def slice_off_def feature_reason feature_suffix) (simp add: feature_text_def)

text \<open>
  The wrapper cuts one character too many from W104, so the edition of the feature is lost, and
  one too few from W119 when the edition has two digits, which leaves a space before the full stop.
\<close>

theorem wrapper_miscuts_advice:
  assumes "template_of ''W104'' = Some m" "List.length b = 1"
    and "template_of ''W119'' = Some m'" "List.length d = 2"
  shows "r_reason (rewrite_reason (make_report ''W104'' m t [JStr a, JStr b] S)) =
      [39] @ a @ 39 # js '' is available in ES'' @ js ''. CWL only supports ES5.1'' \<and>
    r_reason (rewrite_reason (make_report ''W119'' m' t [JStr a, JStr d] S)) =
      [39] @ a @ 39 # js '' is only available in ES'' @ d @ js '' . CWL only supports ES5.1''"
proof -
  obtain b0 where b: "b = [b0]" using assms(2) by (cases b) auto
  have "r_reason (rewrite_reason (make_report ''W104'' m t [JStr a, JStr b] S)) =
      [39] @ a @ 39 # js '' is available in ES'' @ js ''. CWL only supports ES5.1''"
    using assms
    by (simp add: rewrite_reason_def slice_off_def feature_reason feature_suffix)
      (simp add: feature_text_def b)
  moreover have "r_reason (rewrite_reason (make_report ''W119'' m' t [JStr a, JStr d] S)) =
      [39] @ a @ 39 # js '' is only available in ES'' @ d @ js '' . CWL only supports ES5.1''"
    using assms
    by (simp add: rewrite_reason_def slice_off_def feature_reason feature_suffix)
      (simp add: feature_text_def feature_advice_def js_def)
  ultimately show ?thesis by blast
qed

lemma feature_templates:
  "template_of ''W104'' = Some (the (template_of ''W104''))"
  "template_of ''W119'' = Some (the (template_of ''W119''))"
  by code_simp+

theorem wrapper_cuts_advice_witness:
  "r_reason (rewrite_reason (make_report ''W119'' (the (template_of ''W119'')) (place_at 1)
      [JStr (js ''class''), JStr (js ''6'')] demo_linter)) =
    [39] @ js ''class'' @ 39 # js '' is only available in ES6. CWL only supports ES5.1''"
  using wrapper_cuts_advice [OF feature_templates(2), of "js ''6''" "place_at 1" "js ''class''" demo_linter]
  by (simp add: js_def)

theorem wrapper_miscuts_advice_witness:
  "r_reason (rewrite_reason (make_report ''W104'' (the (template_of ''W104'')) (place_at 1)
      [JStr (js ''let''), JStr (js ''6'')] demo_linter)) =
    [39] @ js ''let'' @ 39 # js '' is available in ES. CWL only supports ES5.1''"
  using wrapper_miscuts_advice [OF feature_templates(1) _ feature_templates(2),
      of "js ''6''" "js ''11''" "place_at 1" "js ''let''" demo_linter]
  by (simp add: js_def)

section \<open>Options and exceptions\<close>

text \<open>A call's option that no table of options knows.\<close>

definition unknown_option :: "jstr \<Rightarrow> bool" where
  "unknown_option n \<longleftrightarrow> warning_switch (trim n) = None \<and> \<not> named (trim n) validNames \<and>
     \<not> named (trim n) removed"

definition counting :: "nat \<Rightarrow> nat \<Rightarrow> linter \<Rightarrow> bool" where
  "counting k m S \<longleftrightarrow> l_thrown S \<noteq> None \<or>
     (option (l_state S) ''maxerr'' = JNum (int k) \<and> (\<forall>l. \<not> ignoredLines (l_state S) l) \<and>
      m \<le> count_errors (l_errors S) \<and> (m = 0 \<or> count_errors (l_errors S) < k))"

lemma quit_thrown: "\<exists>y. l_thrown (quit code t args S) = Some y"
  unfolding not_None_eq [symmetric] by (rule quit_fields(3))

lemma counting_error:
  assumes "counting k m S" "template_of code = Some d" "code_has CHR ''E'' code" "\<not> code_W code"
  shows "counting k (Suc m) (warning code t args S)"
proof (cases "l_thrown S")
  case None
  define p where "p = report_place t S"
  define w where "w = make_report code d p args S"
  have S: "option (l_state S) ''maxerr'' = JNum (int k)" "\<forall>l. \<not> ignoredLines (l_state S) l"
    "m \<le> count_errors (l_errors S)"
    using assms(1) None by (auto simp: counting_def)
  have "removeIgnoredMessages (S\<lparr>l_errors := l_errors S @ [w]\<rparr>) = S\<lparr>l_errors := l_errors S @ [w]\<rparr>"
    using S(2) by (simp add: removeIgnoredMessages_def on_ignored_def split: option.splits)
  moreover have "count_errors (l_errors S @ [w]) = Suc (count_errors (l_errors S))"
    using assms(3) by (simp add: count_errors_def w_def)
  ultimately show ?thesis
    using None S assms(2,4)
    by (auto simp: warning_def unless_thrown_def counting_def add_report_def Let_def js_le_def
        simp flip: p_def w_def intro!: quit_thrown)
next
  case (Some x)
  then show ?thesis by (simp add: warning_def unless_thrown_def counting_def)
qed

lemma E001: "template_of ''E001'' = Some (the (template_of ''E001''))" "code_has CHR ''E'' ''E001''"
  "\<not> code_W ''E001''"
  by code_simp+

lemma counting_check:
  assumes "counting k m S"
  shows "counting k (m + (if unknown_option n then 1 else 0)) (snd (checkOption n True [] t S))"
  using counting_error [OF assms E001, of "Some t"] assms
  by (auto simp: checkOption_def unknown_option_def Let_def)

lemma counting_names:
  "counting k m S \<Longrightarrow>
     counting k (m + List.length (filter (\<lambda>(n, v). unknown_option n) ops))
       (fold (\<lambda>(n, v) S. snd (checkOption n True [] (l_curr S) S)) ops S)"
proof (induction ops arbitrary: m S)
  case (Cons o' ops)
  obtain n v where o': "o' = (n, v)" by (cases o')
  from Cons.IH [OF counting_check [OF Cons.prems, of n "l_curr S"]]
  show ?case by (cases "unknown_option n") (simp_all add: o')
qed simp

text \<open>What \<open>set_up\<close> leaves of the beginning.\<close>

definition fresh_run :: "linter \<Rightarrow> bool" where
  "fresh_run S \<longleftrightarrow> l_errors S = [] \<and> l_thrown S = None \<and> (\<forall>l. \<not> ignoredLines (l_state S) l)"

lemma fresh_fold: "(\<And>x S. fresh_run S \<Longrightarrow> fresh_run (f x S)) \<Longrightarrow> fresh_run S \<Longrightarrow> fresh_run (fold f xs S)"
  by (induction xs arbitrary: S) auto

lemma fresh_set_option [simp]: "fresh_run S \<Longrightarrow> fresh_run (set_option n v S)"
  by (simp add: fresh_run_def set_option_def)

lemma fresh_pass:
  "fresh_run S \<Longrightarrow> fresh_run (pass_name d n S)" "fresh_run S \<Longrightarrow> fresh_run (pass_option kv S)"
  "fresh_run S \<Longrightarrow> fresh_run (default_option nm x S)"
  by (auto simp: pass_name_def pass_option_def default_option_def fresh_run_def set_option_def set_named_def
      switch_warning_def split: prod.splits option.splits bool.splits)

lemma fresh_pass_dict: "fresh_run S \<Longrightarrow> fresh_run (pass_dict d S)"
  by (auto simp: pass_dict_def fresh_pass intro: fresh_fold split: option.splits)

lemma fresh_set_up:
  assumes "c_scope o' = None"
  shows "fresh_run (set_up o' S0)"
proof -
  have same: "fresh_run (S\<lparr>l_mgr := g, l_members := None, l_global := True, l_verb := False,
      l_curr := begin_place, l_next := begin_place\<rparr>) = fresh_run S"
    "fresh_run (S\<lparr>l_declared := []\<rparr>) = fresh_run S" for S g
    by (simp_all add: fresh_run_def)
  have "fresh_run (base_globals (new_results (c_scope o') (S0\<lparr>l_state := reset_state, l_thrown := None\<rparr>)))"
    using assms by (simp add: fresh_run_def base_globals_def add_globals_def new_results_def reset_state_def)
  then show ?thesis
    unfolding set_up_def Let_def same
    by (intro fresh_pass(3) fresh_fold [of pass_option] fresh_pass(2) fresh_pass_dict iffD2 [OF same(2)])
qed

lemma new_Lexer_keeps:
  "new_Lexer ls st = (lx, st') \<Longrightarrow> option st' ''maxerr'' = option st ''maxerr'' \<and> ignoredLines st' = ignoredLines st"
  by (auto simp: new_Lexer_def Let_def split: if_splits)

lemma bad_options_throw:
  assumes "c_scope o' = None"
    and "option (l_state (set_up o' S0)) ''maxerr'' = JNum (int k)" "0 < k"
    and "k \<le> List.length (filter (\<lambda>(n, v). unknown_option n) (c_options o'))"
  shows "l_thrown (snd (start_run o' g source S0)) = Some Fault"
proof -
  obtain lx st where lx: "new_Lexer (source_lines source) (l_state (set_up o' S0)) = (lx, st)"
    by fastforce
  define S where "S = (set_up o' S0)\<lparr>l_lines := lines lx, l_state := st\<rparr>"
  have "counting k 0 S"
    using fresh_set_up [OF assms(1), of S0] new_Lexer_keeps [OF lx] assms(2)
    by (simp add: counting_def S_def fresh_run_def)
  from counting_names [OF this, of "c_options o'"] assms(3,4)
  have "l_thrown (check_names o' S) \<noteq> None" by (auto simp: counting_def check_names_def)
  then have "l_thrown (uncaught (check_names o' S)) = Some Fault" by (simp add: uncaught_def fault_def)
  then show ?thesis by (simp add: start_run_def Let_def lx S_def unless_thrown_def)
qed

text \<open>
  C40: The names of the options are checked outside the part of the run that handles exceptions: as
  soon as a call names as many unknown options as the limit on errors allows, the run throws an
  exception instead of giving a result.
\<close>

theorem unknown_options_throw:
  assumes "c_scope o' = None"
    and "option (l_state (set_up o' S0)) ''maxerr'' = JNum (int k)" "0 < k"
    and "k \<le> List.length (filter (\<lambda>(n, v). unknown_option n) (c_options o'))"
  shows "l_thrown (finish_run (snd (start_run o' g source S0))) = Some Fault"
  using bad_options_throw [OF assms] by (simp add: finish_run_def)

lemma named_js: "named (js s) ns \<longleftrightarrow> s \<in> set ns"
  by (auto simp: named_def list_ex_iff)

definition bad_call :: call_options where
  "bad_call = \<lparr>c_predef = None, c_globals = None, c_exported = None, c_scope = None,
     c_options = [(js ''maxerr'', JNum 1), (js ''nosuch'', JBool True)]\<rparr>"

lemma bad_call_options:
  "option (l_state (set_up bad_call demo_linter)) ''maxerr'' = JNum (int 1)"
  "1 \<le> List.length (filter (\<lambda>(n, v). unknown_option n) (c_options bad_call))"
proof -
  have k: "warning_switch (js ''maxerr'') = None" "warning_switch (js ''nosuch'') = None"
    "list_all (\<lambda>c. c < 128) (js ''maxerr'')" "list_all (\<lambda>c. c < 128) (js ''nosuch'')"
    "map char_of (js ''maxerr'') = ''maxerr''" "map char_of (js ''nosuch'') = ''nosuch''"
    by code_simp+
  show "option (l_state (set_up bad_call demo_linter)) ''maxerr'' = JNum (int 1)"
    by (simp add: set_up_def Let_def bad_call_def pass_option_def k set_named_def default_option_def
        set_option_def pass_dict_def opt_on_def)
  have "trim (js ''nosuch'') = js ''nosuch''" by code_simp
  then have "unknown_option (js ''nosuch'')"
    by (simp add: unknown_option_def k named_js validNames_def val_options_def relaxing_def enforcing_def
        obsolete_options_def environments_def removed_def)
  then show "1 \<le> List.length (filter (\<lambda>(n, v). unknown_option n) (c_options bad_call))"
    by (simp add: bad_call_def)
qed

theorem unknown_options_throw_witness:
  "l_thrown (finish_run (snd (start_run bad_call [] (js ''1;'') demo_linter))) = Some Fault"
  by (rule unknown_options_throw [OF _ bad_call_options(1) _ bad_call_options(2)]) (simp_all add: bad_call_def)

section \<open>All enforcing options at once\<close>

lemma relax_keeps: "option st n \<noteq> JUndef \<Longrightarrow> option (fold relax ns st) n = option st n"
  by (induction ns arbitrary: st) (auto simp: relax_def)

lemma enforce_keeps: "option st n \<noteq> JUndef \<Longrightarrow> option (fold enforce ns st) n = option st n"
  by (induction ns arbitrary: st) (auto simp: enforce_def)

lemma enforce_sets:
  "option st n = JUndef \<Longrightarrow> n \<in> set ns \<Longrightarrow> n \<notin> set noenforceall \<Longrightarrow> option (fold enforce ns st) n = JBool True"
proof (induction ns arbitrary: st)
  case (Cons k ns)
  show ?case
  proof (cases "k = n")
    case True
    then have "option (enforce k st) n = JBool True" using Cons.prems by (simp add: enforce_def)
    then show ?thesis by (simp add: enforce_keeps)
  next
    case False
    then have "option (enforce k st) n = JUndef" "n \<in> set ns" using Cons.prems by (auto simp: enforce_def)
    then show ?thesis using Cons.IH Cons.prems(3) by simp
  qed
qed simp

text \<open>
  The option \<open>enforceall\<close> also sets \<open>es3\<close>, so together with any \<open>esversion\<close> it makes the run
  give up with E059, a conflict of options the user never wrote.
\<close>

theorem enforceall_excludes_esversion:
  assumes "opt_on (l_state S) ''enforceall''" "opt_on (l_state S) ''esversion''"
    and "option (l_state S) ''es3'' = JUndef" "l_thrown S = None"
  shows "applyOptions S =
    quit ''E059'' (l_next S) [JStr (js ''esversion''), JStr (js ''es3'')] (processenforceall S)"
proof -
  define st where "st = fold enforce enforcing (l_state S)"
  have "option st ''es3'' = JBool True" "option st ''esversion'' = option (l_state S) ''esversion''"
  proof -
    have "''es3'' \<in> set enforcing" "''es3'' \<notin> set noenforceall"
      by (simp_all add: enforcing_def noenforceall_def)
    with assms(3) show "option st ''es3'' = JBool True" by (simp add: st_def enforce_sets)
    show "option st ''esversion'' = option (l_state S) ''esversion''"
      unfolding st_def using assms(2) by (intro enforce_keeps) (auto simp: opt_on_def)
  qed
  then have "opt_on (fold relax relaxing st) ''es3''" "opt_on (fold relax relaxing st) ''esversion''"
  proof -
    have "truthy JUndef = False" by simp
    then have "option st ''esversion'' \<noteq> JUndef" "truthy (option st ''esversion'')"
      using assms(2) \<open>option st ''esversion'' = _\<close> by (auto simp: opt_on_def)
    then show "opt_on (fold relax relaxing st) ''esversion''" by (simp add: opt_on_def relax_keeps)
    show "opt_on (fold relax relaxing st) ''es3''"
      using \<open>option st ''es3'' = _\<close> by (simp add: opt_on_def relax_keeps)
  qed
  then have "infer_edition (processenforceall S) =
      quit ''E059'' (l_next S) [JStr (js ''esversion''), JStr (js ''es3'')] (processenforceall S)"
    using assms(1) by (simp add: infer_edition_def processenforceall_def inferEsVersion_def st_def)
  moreover have "l_thrown (processenforceall S) = None"
    using assms(4) by (simp add: processenforceall_def)
  ultimately show ?thesis
    by (simp add: applyOptions_def unless_thrown_def assms(4))
qed

definition strict_linter :: linter where
  "strict_linter = demo_linter\<lparr>l_state := reset_state\<lparr>option :=
     (\<lambda>n. if n = ''enforceall'' then JBool True else if n = ''esversion'' then JNum 6 else JUndef)\<rparr>\<rparr>"

theorem enforceall_excludes_esversion_witness:
  "l_thrown (applyOptions strict_linter) \<noteq> None"
proof -
  have "applyOptions strict_linter =
    quit ''E059'' (l_next strict_linter) [JStr (js ''esversion''), JStr (js ''es3'')] (processenforceall strict_linter)"
    by (rule enforceall_excludes_esversion) (simp_all add: strict_linter_def demo_linter_def opt_on_def)
  then show ?thesis by simp
qed

section \<open>Percentages\<close>

lemma bit_length_exact:
  "2 ^ k \<le> n \<Longrightarrow> n < 2 ^ Suc k \<Longrightarrow> k < f \<Longrightarrow> bit_length f n = Suc k"
proof (induction k arbitrary: n f)
  case 0
  then obtain g where "f = Suc g" by (cases f) auto
  moreover have "n = 1" using 0 by simp
  ultimately show ?case by (cases g) auto
next
  case (Suc k)
  then obtain g where f: "f = Suc g" by (cases f) auto
  have "2 ^ k \<le> n div 2" "n div 2 < 2 ^ Suc k" "n \<noteq> 0" using Suc.prems by auto
  with Suc.IH [of "n div 2" g] Suc.prems f show ?case by simp
qed

lemma rounded_29: "round_double 29 100 = (5224175567749775 * 2 ^ 6, 2 ^ 60)"
  by (simp add: round_double_def Let_def round_div_def bit_length_exact [of 6 100] bit_length_exact [of 58])

lemma rounded_2900:
  "round_double 33434723633598560000 1152921504606846976 = (602306435590039931122561279351324672,
  20769187434139310514121985316880384)"
  by (simp add: round_double_def Let_def round_div_def bit_length_exact [of 60] bit_length_exact [of 118])
text \<open>\<open>29 / 100 * 100\<close> is below 29 in double arithmetic, so line 29 of 100 is 28 percent.\<close>

lemma percentage_rounds_down: "percentage (Some 29) 100 = js ''28''"
  by (simp add: percentage_def double_percent_def rounded_29 rounded_2900 show_nat_rec js_def)
section \<open>Quotation marks\<close>

definition with_quote :: "jchar \<Rightarrow> linter \<Rightarrow> linter" where
  "with_quote q S = S\<lparr>l_state := (l_state S)\<lparr>cache := (cache (l_state S))(''quotmark'' := JStr [q])\<rparr>\<rparr>"

lemma getOption_true: "option (l_state S) n = JBool True \<Longrightarrow> getOption S n = JBool True"
  by (simp add: getOption_def)

text \<open>
  With the option \<open>quotmark\<close> set to \<open>true\<close> the first string decides the quotation mark: it is not
  reported, and a later string gets W110 exactly when its mark is another one.
\<close>

theorem first_quote_decides:
  assumes "option (l_state S) ''quotmark'' = JBool True" "cache (l_state S) ''quotmark'' = JUndef"
    and "l_thrown S = None"
  shows "style_scanQuotes l c q S = with_quote q S \<and>
    style_scanQuotes l' c' q' (with_quote q S) =
      (if q' = q then with_quote q S else warningAt ''W110'' (Some l') (Some c') [] (with_quote q S))"
proof -
  have "getOption S ''quotmark'' = JBool True" "getOption (with_quote q S) ''quotmark'' = JBool True"
    using assms(1) by (simp_all add: getOption_true with_quote_def)
  then show ?thesis
    using assms
    by (simp_all add: style_scanQuotes_def unless_thrown_def quote_code_def Let_def with_quote_def
        style_warn_def fun_upd_idem)
qed

definition quote_linter :: linter where
  "quote_linter = demo_linter\<lparr>l_state := reset_state\<lparr>option := (\<lambda>n. if n = ''quotmark'' then JBool True else JUndef)\<rparr>\<rparr>"

theorem first_quote_decides_witness:
  "l_errors (style_scanQuotes 1 1 39 quote_linter) = [] \<and>
   style_scanQuotes 2 1 34 (with_quote 39 quote_linter) =
     warningAt ''W110'' (Some 2) (Some 1) [] (with_quote 39 quote_linter)"
proof -
  have "option (l_state quote_linter) ''quotmark'' = JBool True"
    "cache (l_state quote_linter) ''quotmark'' = JUndef" "l_thrown quote_linter = None"
    by (simp_all add: quote_linter_def demo_linter_def reset_state_def)
  note q = first_quote_decides [OF this]
  show ?thesis by (simp add: q) (simp add: with_quote_def quote_linter_def demo_linter_def)
qed

end
