(* ===== verification/ParserState.thy ===== *)
theory ParserState
  imports Lint LexToken NameStack ScopeOps "HOL-Library.State_Monad"
begin

text \<open>
  The state of the parser of \<^verbatim>\<open>jshint.js\<close> and the operations all its functions are made of.

  The parser is written in the state monad of the library: a function of the source that may
  report, read tokens or change what is shared has the type \<open>'a parser\<close>. An exception is the field
  \<open>l_thrown\<close> of the linter: every step that changes the state goes through \<open>upd\<close>, which does nothing
  once something was thrown, so the rest of the run has no effect, as in the source.

  Tokens, and the symbols and plain objects the parser uses like tokens, are objects that are
  compared by identity and written to: they live in the store \<open>p_store\<close> under numbers. The scope
  manager keeps its own fields of a token under the same number.
\<close>

section \<open>Tokens\<close>

text \<open>The values of the fields \<open>left\<close>, \<open>right\<close> and \<open>first\<close>: a token, a name, or a list of expressions.\<close>

datatype tok_val = VNone | VTok nat | VName jstr | VList "nat option list"

record tok =
  k_proto :: string
  k_sym :: symbol
  k_type :: string
  k_value :: "jstr option"
  k_line :: "nat option"
  k_startLine :: "nat option"
  k_character :: "nat option"
  k_from :: "nat option"
  k_identifier :: bool
  k_context :: "lex_context option"
  k_depth :: "nat option"
  k_isUnclosed :: bool
  k_isProperty :: bool
  k_raw_text :: "jstr option"
  k_checks :: "check list"
  k_special :: "jstr option"
  k_left :: tok_val
  k_right :: tok_val
  k_first :: tok_val
  k_tag :: bool
  k_paren :: bool
  k_unary :: bool
  k_beginsStmt :: bool
  k_immed :: bool
  k_caseFallsThrough :: bool
  k_isMetaProperty :: bool
  k_destructAssign :: bool
  k_hasInitializer :: bool
  k_hasComma :: bool
  k_inBracelessBlock :: bool
  k_accessorType :: "jstr option"
  k_name :: "nat option"

text \<open>
  \<open>k_proto\<close> is the name of the symbol whose denotations the token has; \<open>k_unary\<close> says that its
  \<open>arity\<close> is \<open>unary\<close>; \<open>k_special\<close> is the body of a comment with a directive. A token inherits the
  fields of its symbol: \<open>k_sym\<close> are those, with what was written over them in this token.
\<close>

abbreviation k_id :: "tok \<Rightarrow> string option" where "k_id k \<equiv> s_id (k_sym k)"
abbreviation k_lbp :: "tok \<Rightarrow> int option" where "k_lbp k \<equiv> s_lbp (k_sym k)"
abbreviation k_rbp :: "tok \<Rightarrow> int option" where "k_rbp k \<equiv> s_rbp (k_sym k)"
abbreviation k_reach :: "tok \<Rightarrow> bool" where "k_reach k \<equiv> s_reach (k_sym k)"
abbreviation k_exps :: "tok \<Rightarrow> bool" where "k_exps k \<equiv> s_exps (k_sym k)"
abbreviation k_block :: "tok \<Rightarrow> bool" where "k_block k \<equiv> s_block (k_sym k)"
abbreviation k_infix :: "tok \<Rightarrow> bool" where "k_infix k \<equiv> s_infix (k_sym k)"

definition symbol_of :: "string \<Rightarrow> symbol" where
  "symbol_of p = (case decls_for p all_decls None of Some x \<Rightarrow> x | None \<Rightarrow> empty_symbol)"

definition symbol_tok :: "string \<Rightarrow> tok" where
  "symbol_tok p =
     (let x = symbol_of p in
      \<lparr>k_proto = p, k_sym = x, k_type = (case s_type x of Some t \<Rightarrow> t | None \<Rightarrow> []),
       k_value = map_option js (s_value x), k_line = None,
       k_startLine = None, k_character = None, k_from = None, k_identifier = s_identifier x,
       k_context = None, k_depth = None, k_isUnclosed = False,
       k_isProperty = False, k_raw_text = None, k_checks = [], k_special = None, k_left = VNone,
       k_right = VNone, k_first = VNone, k_tag = False, k_paren = False, k_unary = False,
       k_beginsStmt = False, k_immed = False, k_caseFallsThrough = False, k_isMetaProperty = False,
       k_destructAssign = False, k_hasInitializer = False, k_hasComma = False,
       k_inBracelessBlock = False, k_accessorType = None, k_name = None\<rparr>)"

text \<open>An object without any field, and the token \<open>(begin)\<close>.\<close>

definition plain_tok :: tok where
  "plain_tok = symbol_tok []"

definition begin_tok :: tok where
  "begin_tok = (symbol_tok ''(begin)'')\<lparr>k_line := Some 0, k_from := Some 0\<rparr>"

definition token_tok :: "token \<Rightarrow> tok" where
  "token_tok T =
     (symbol_tok (tk_proto T))
       \<lparr>k_type := tk_type T, k_value := Some (tk_value T), k_line := Some (tk_line T),
        k_startLine := tk_startLine T, k_character := Some (tk_character T),
        k_from := Some (tk_from T),
        k_identifier := tk_identifier T \<or> s_identifier (symbol_of (tk_proto T)),
        k_context := tk_context T, k_depth := tk_depth T, k_isUnclosed := tk_isUnclosed T,
        k_isProperty := tk_isProperty T, k_raw_text := tk_raw_text T, k_checks := tk_checks T\<rparr>"

definition item_tok :: "lex_item \<Rightarrow> tok" where
  "item_tok x =
     (case x of
        LexToken T \<Rightarrow> token_tok T
      | LexComment v body ty l c f \<Rightarrow>
          plain_tok\<lparr>k_sym := empty_symbol\<lparr>s_id := Some ''(comment)''\<rparr>, k_type := map char_of ty, k_value := Some v,
            k_special := Some body, k_line := Some l, k_character := Some c, k_from := Some f\<rparr>)"

definition has_id :: "string \<Rightarrow> tok \<Rightarrow> bool" where
  "has_id s k \<longleftrightarrow> k_id k = Some s"

definition has_value :: "string \<Rightarrow> tok \<Rightarrow> bool" where
  "has_value s k \<longleftrightarrow> k_value k = Some (js s)"

definition tok_place :: "tok \<Rightarrow> place" where
  "tok_place k = \<lparr>p_line = k_line k, p_from = k_from k, p_end = has_id ''(end)'' k\<rparr>"

definition scope_tok :: "tok \<Rightarrow> stoken" where
  "scope_tok k =
     undefined_token\<lparr>t_line := (case k_line k of Some l \<Rightarrow> l | None \<Rightarrow> 0),
       t_from := (case k_from k of Some f \<Rightarrow> f | None \<Rightarrow> 0), t_end := has_id ''(end)'' k,
       t_raw_text := k_raw_text k\<rparr>"

text \<open>The arguments \<open>t.value\<close> and \<open>t.id\<close> of a report.\<close>

definition value_arg :: "tok \<Rightarrow> jsval" where
  "value_arg k = (case k_value k of Some v \<Rightarrow> JStr v | None \<Rightarrow> JUndef)"

definition id_arg :: "tok \<Rightarrow> jsval" where
  "id_arg k = (case k_id k of Some s \<Rightarrow> JStr (js s) | None \<Rightarrow> JUndef)"

abbreviation str_arg :: "string \<Rightarrow> jsval" where
  "str_arg s \<equiv> JStr (js s)"

section \<open>Functors\<close>

text \<open>
  The object a function is tracked with (\<open>functor\<close>), with the counters of \<open>createMetrics\<close>. The
  field \<open>(isStrict)\<close> is only used as a condition; its first value \<open>"unknown"\<close> is true. A method with a
  computed name has the token of that name instead of a text: \<open>f_name\<close> is \<open>None\<close> then.
\<close>

record funct =
  f_name :: "jstr option"
  f_global :: bool
  f_verb :: "jstr option"
  f_breakage :: int
  f_loopage :: int
  f_isStrict :: bool
  f_line :: "nat option"
  f_character :: "nat option"
  f_start :: "nat option"
  f_statements :: nat
  f_nestedBlockDepth :: int
  f_complexity :: nat
  f_arity :: nat
  f_statement :: "nat option"
  f_context :: "nat option"
  f_yielded :: bool
  f_arrow :: bool
  f_async :: bool
  f_method :: bool
  f_params :: "jstr list option"
  f_simpleParams :: "bool option"
  f_unusedOption :: jsval
  f_last :: "nat option"
  f_lastcharacter :: "nat option"
  f_outerMutables :: "jstr list option"

definition functor_of :: "jstr option \<Rightarrow> (nat \<times> tok) option \<Rightarrow> funct" where
  "functor_of name t =
     \<lparr>f_name = name, f_global = False, f_verb = None, f_breakage = 0, f_loopage = 0,
      f_isStrict = True,
      f_line = (case t of None \<Rightarrow> None | Some (n, k) \<Rightarrow> k_line k),
      f_character = (case t of None \<Rightarrow> None | Some (n, k) \<Rightarrow> k_character k),
      f_start = map_option fst t,
      f_statements = 0, f_nestedBlockDepth = - 1, f_complexity = 1, f_arity = 0,
      f_statement = None, f_context = None, f_yielded = False, f_arrow = False, f_async = False,
      f_method = False, f_params = None, f_simpleParams = None, f_unusedOption = JUndef,
      f_last = None, f_lastcharacter = None, f_outerMutables = None\<rparr>"

definition global_functor :: funct where
  "global_functor = (functor_of (Some (js ''(global)'')) None)\<lparr>f_global := True\<rparr>"

section \<open>The state\<close>

text \<open>The array comprehensions of Mozilla's dialect: a mode, and the variables seen.\<close>

record comp_var =
  v_token :: nat
  v_value :: jstr
  v_undef :: bool
  v_unused :: bool

record comp_array =
  c_mode :: string
  c_vars :: "comp_var list"

record pst =
  p_lint :: linter
  p_lexer :: lexer
  p_re :: "jstr \<Rightarrow> jstr \<Rightarrow> jstr option"
  p_store :: "nat \<Rightarrow> tok"
  p_fresh :: nat
  p_prev :: nat
  p_curr :: nat
  p_next :: nat
  p_look :: "nat list"
  p_functs :: "nat \<Rightarrow> funct"
  p_functions :: nat
  p_funct :: nat
  p_names :: name_stack
  p_indent :: int
  p_inblock :: bool
  p_member :: "(jstr, nat) obj"
  p_internals :: "(jstr \<times> nat \<times> jstr) list"
  p_firstComma :: bool
  p_comp :: "comp_array list"
  p_forinneeded :: bool
  p_forinchecks :: "string list"
  p_plainDirectives :: bool
  p_stuck :: bool

text \<open>
  \<open>p_re\<close> is the engine's \<open>RegExp\<close>; \<open>p_functions\<close> is the number of functors made, \<open>p_plainDirectives\<close> says
  that \<open>state.directive\<close> is an object literal, whose names of \<open>Object.prototype\<close> are set; \<open>p_stuck\<close> that
  the run was cut off by its fuel.
\<close>

type_synonym 'a parser = "(pst, 'a) state"

definition stopped :: "pst \<Rightarrow> bool" where
  "stopped S \<longleftrightarrow> l_thrown (p_lint S) \<noteq> None \<or> p_stuck S"

abbreviation ret :: "'a \<Rightarrow> 'a parser" where
  "ret \<equiv> State_Monad.return"

definition gets :: "(pst \<Rightarrow> 'a) \<Rightarrow> 'a parser" where
  "gets f = State (\<lambda>S. (f S, S))"

definition upd :: "(pst \<Rightarrow> pst) \<Rightarrow> unit parser" where
  "upd f = State (\<lambda>S. ((), if stopped S then S else f S))"

definition provided :: "bool \<Rightarrow> unit parser \<Rightarrow> unit parser" where
  "provided b m = (if b then m else ret ())"

lemma run_gets [simp]: "run_state (gets f) S = (f S, S)"
  by (simp add: gets_def)

lemma run_upd [simp]: "run_state (upd f) S = ((), if stopped S then S else f S)"
  by (simp add: upd_def)

lemma provided_simps [simp]: "provided True m = m" "provided False m = ret ()"
  by (simp_all add: provided_def)

text \<open>A loop over a list, and the end of the fuel.\<close>

primrec for_each :: "('a \<Rightarrow> unit parser) \<Rightarrow> 'a list \<Rightarrow> unit parser" where
  "for_each f [] = ret ()"
| "for_each f (x # xs) = do { f x; for_each f xs }"

definition out_of_fuel :: "unit parser" where
  "out_of_fuel = upd (\<lambda>S. S\<lparr>p_stuck := True\<rparr>)"

text \<open>
  \<open>while_loop n c m\<close> repeats \<open>m\<close> as long as it is told to go on and nothing was thrown; it has the
  fuel \<open>n\<close>.
\<close>

primrec while_loop :: "nat \<Rightarrow> bool parser \<Rightarrow> unit parser" where
  "while_loop 0 m = out_of_fuel"
| "while_loop (Suc n) m = do {
     more \<leftarrow> m;
     halt \<leftarrow> gets stopped;
     if more \<and> \<not> halt then while_loop n m else ret ()
   }"

section \<open>Access to the state\<close>

definition tok_at :: "nat \<Rightarrow> tok parser" where
  "tok_at t = gets (\<lambda>S. p_store S t)"

definition next_ref :: "nat parser" where
  "next_ref = gets p_next"

definition curr_ref :: "nat parser" where
  "curr_ref = gets p_curr"

definition prev_ref :: "nat parser" where
  "prev_ref = gets p_prev"

definition next_tok :: "tok parser" where
  "next_tok = gets (\<lambda>S. p_store S (p_next S))"

definition curr_tok :: "tok parser" where
  "curr_tok = gets (\<lambda>S. p_store S (p_curr S))"

definition prev_tok :: "tok parser" where
  "prev_tok = gets (\<lambda>S. p_store S (p_prev S))"

definition upd_token :: "nat \<Rightarrow> (tok \<Rightarrow> tok) \<Rightarrow> unit parser" where
  "upd_token t f = upd (\<lambda>S. S\<lparr>p_store := (p_store S)(t := f (p_store S t))\<rparr>)"

definition upd_symbol :: "nat \<Rightarrow> (symbol \<Rightarrow> symbol) \<Rightarrow> unit parser" where
  "upd_symbol t f = upd_token t (\<lambda>k. k\<lparr>k_sym := f (k_sym k)\<rparr>)"

definition lint_state :: "(lstate \<Rightarrow> 'a) \<Rightarrow> 'a parser" where
  "lint_state f = gets (\<lambda>S. f (l_state (p_lint S)))"

definition opt :: "string \<Rightarrow> bool parser" where
  "opt n = lint_state (\<lambda>st. opt_on st n)"

definition opt_value :: "string \<Rightarrow> jsval parser" where
  "opt_value n = lint_state (\<lambda>st. option st n)"

definition upd_lstate :: "(lstate \<Rightarrow> lstate) \<Rightarrow> unit parser" where
  "upd_lstate f =
     upd (\<lambda>S. S\<lparr>p_lint := (p_lint S)\<lparr>l_state := f (l_state (p_lint S))\<rparr>\<rparr>)"

definition set_opt :: "string \<Rightarrow> jsval \<Rightarrow> unit parser" where
  "set_opt n v = upd_lstate (\<lambda>st. st\<lparr>option := (option st)(n := v)\<rparr>)"

definition cur_funct :: "pst \<Rightarrow> funct" where
  "cur_funct S = p_functs S (p_funct S)"

definition funct_get :: "(funct \<Rightarrow> 'a) \<Rightarrow> 'a parser" where
  "funct_get f = gets (\<lambda>S. f (cur_funct S))"

definition upd_funct :: "(funct \<Rightarrow> funct) \<Rightarrow> unit parser" where
  "upd_funct f = upd (\<lambda>S. S\<lparr>p_functs := (p_functs S)(p_funct S := f (cur_funct S))\<rparr>)"

definition set_verb :: "jstr option \<Rightarrow> unit parser" where
  "set_verb v = upd_funct (\<lambda>F. F\<lparr>f_verb := v\<rparr>)"

definition alloc :: "tok \<Rightarrow> nat parser" where
  "alloc k = do {
     t \<leftarrow> gets p_fresh;
     upd (\<lambda>S. S\<lparr>p_store := (p_store S)(t := k), p_fresh := Suc t,
       p_lint := (p_lint S)\<lparr>l_mgr := upd_tok t (\<lambda>_. scope_tok k) (l_mgr (p_lint S))\<rparr>\<rparr>);
     ret t
   }"

text \<open>\<open>state.nameStack\<close>; the name of a token is read from its fields when it is inferred.\<close>

definition name_token_of :: "tok \<Rightarrow> name_token" where
  "name_token_of k =
     \<lparr>nt_type = js (k_type k), nt_accessorType = k_accessorType k,
      nt_value = (case k_value k of Some v \<Rightarrow> v | None \<Rightarrow> js ''undefined'')\<rparr>"

definition names_push :: "unit parser" where
  "names_push = upd (\<lambda>S. S\<lparr>p_names := ns_push (p_names S)\<rparr>)"

definition names_pop :: "unit parser" where
  "names_pop = upd (\<lambda>S. S\<lparr>p_names := ns_pop (p_names S)\<rparr>)"

definition names_set :: "nat \<Rightarrow> unit parser" where
  "names_set t = upd (\<lambda>S. S\<lparr>p_names := ns_set (name_token_of (p_store S t)) (p_names S)\<rparr>)"

definition names_set_opt :: "nat option \<Rightarrow> unit parser" where
  "names_set_opt t =
     (case t of
        Some n \<Rightarrow> names_set n
      | None \<Rightarrow> upd (\<lambda>S. S\<lparr>p_names := (case ns_items (p_names S) of
            [] \<Rightarrow> (p_names S)\<lparr>ns_neg := None\<rparr>
          | _ # r \<Rightarrow> (p_names S)\<lparr>ns_items := None # r\<rparr>)\<rparr>))"

definition names_infer :: "jstr parser" where
  "names_infer = gets (\<lambda>S. ns_infer (p_names S))"

section \<open>Reports\<close>

text \<open>
  The linter with what it reads of the parser: the places of the last and of the next token, the
  name of the last one, and whether code has been parsed.
\<close>

definition synced :: "pst \<Rightarrow> linter" where
  "synced S =
     (p_lint S)\<lparr>l_curr := tok_place (p_store S (p_curr S)), l_next := tok_place (p_store S (p_next S)),
       l_global := f_global (cur_funct S),
       l_verb := (case f_verb (cur_funct S) of Some (c # cs) \<Rightarrow> True | _ \<Rightarrow> False),
       l_state := (l_state (p_lint S))
         \<lparr>curr_id := (case k_id (p_store S (p_curr S)) of Some s \<Rightarrow> js s | None \<Rightarrow> [])\<rparr>\<rparr>"

definition lint :: "(linter \<Rightarrow> linter) \<Rightarrow> unit parser" where
  "lint f = upd (\<lambda>S. S\<lparr>p_lint := f (synced S)\<rparr>)"

definition lint_get :: "(linter \<Rightarrow> linter \<times> 'a) \<Rightarrow> 'a parser" where
  "lint_get f =
     State (\<lambda>S. case f (synced S) of (L, x) \<Rightarrow> (x, if stopped S then S else S\<lparr>p_lint := L\<rparr>))"

definition report_tok :: "string \<Rightarrow> nat \<Rightarrow> jsval list \<Rightarrow> unit parser" where
  "report_tok code t args = do {
     k \<leftarrow> tok_at t;
     lint (warning code (Some (tok_place k)) args)
   }"

definition report_here :: "string \<Rightarrow> jsval list \<Rightarrow> unit parser" where
  "report_here code args = lint (warning code None args)"

definition report_next :: "string \<Rightarrow> jsval list \<Rightarrow> unit parser" where
  "report_next code args = do { t \<leftarrow> next_ref; report_tok code t args }"

definition report_curr :: "string \<Rightarrow> jsval list \<Rightarrow> unit parser" where
  "report_curr code args = do { t \<leftarrow> curr_ref; report_tok code t args }"

definition report_prev :: "string \<Rightarrow> jsval list \<Rightarrow> unit parser" where
  "report_prev code args = do { t \<leftarrow> prev_ref; report_tok code t args }"

definition report_at :: "string \<Rightarrow> nat option \<Rightarrow> nat option \<Rightarrow> jsval list \<Rightarrow> unit parser" where
  "report_at code l c args = lint (warningAt code l c args)"

definition quit_tok :: "string \<Rightarrow> nat \<Rightarrow> unit parser" where
  "quit_tok code t = do {
     k \<leftarrow> tok_at t;
     lint (quit code (tok_place k) [])
   }"

text \<open>A field of \<open>undefined\<close> was read.\<close>

definition type_error :: "unit parser" where
  "type_error = lint fault"

section \<open>The scope manager\<close>

definition scope_env_of :: "pst \<Rightarrow> scope_env" where
  "scope_env_of S =
     \<lparr>e_state = l_state (p_lint S), e_unusedOption = f_unusedOption (cur_funct S),
      e_simpleParams = (f_simpleParams (cur_funct S) = Some True),
      e_method = f_method (cur_funct S), e_next = p_next S\<rparr>"

definition add_outer :: "jstr \<Rightarrow> pst \<Rightarrow> pst" where
  "add_outer n S =
     S\<lparr>p_functs := (p_functs S)(p_funct S := (cur_funct S)
        \<lparr>f_outerMutables := Some ((case f_outerMutables (cur_funct S) of None \<Rightarrow> [] | Some ns \<Rightarrow> ns) @ [n])\<rparr>)\<rparr>"

definition outer_name :: "scope_event \<Rightarrow> jstr option" where
  "outer_name e = (case e of SOuterMutable n \<Rightarrow> Some n | SWarning c r d \<Rightarrow> None)"

text \<open>
  A call of an operation of the manager: its reports become results, its other events names of
  the functor, and a \<open>TypeError\<close> of the manager is one of the run.
\<close>

definition scope_op :: "(scope_env \<Rightarrow> manager \<Rightarrow> manager) \<Rightarrow> unit parser" where
  "scope_op f =
     upd (\<lambda>S.
       let L = with_scope (f (scope_env_of S)) (synced S);
           evs = drop (List.length (g_events (l_mgr (p_lint S)))) (g_events (l_mgr L));
           S1 = fold add_outer (List.map_filter outer_name evs) (S\<lparr>p_lint := L\<rparr>)
       in if g_crashed (l_mgr L) then S1\<lparr>p_lint := unless_thrown fault L\<rparr> else S1)"

definition scope_get :: "(manager \<Rightarrow> 'a) \<Rightarrow> 'a parser" where
  "scope_get f = gets (\<lambda>S. f ((l_mgr (p_lint S))
     \<lparr>g_predefined := l_predefined (p_lint S), g_declared := l_declared (p_lint S)\<rparr>))"

definition scope_stack :: "string option \<Rightarrow> unit parser" where
  "scope_stack ty = scope_op (\<lambda>E. stack ty)"

definition scope_unstack :: "unit parser" where
  "scope_unstack = scope_op unstack"

definition scope_use :: "jstr \<Rightarrow> nat \<Rightarrow> unit parser" where
  "scope_use v t = scope_op (\<lambda>E. block_use E v (Some t))"

definition scope_addbinding :: "jstr \<Rightarrow> string \<Rightarrow> nat \<Rightarrow> bool \<Rightarrow> unit parser" where
  "scope_addbinding v ty t initialized = scope_op (\<lambda>E. addbinding E v ty t initialized)"

definition scope_initialize :: "jstr \<Rightarrow> unit parser" where
  "scope_initialize v = scope_op (\<lambda>E. initialize v)"

definition scope_addParam :: "jstr \<Rightarrow> nat \<Rightarrow> string option \<Rightarrow> unit parser" where
  "scope_addParam v t ty = scope_op (\<lambda>E. addParam E v t ty)"

end
