(* ===== verification/TokenStream.thy ===== *)
theory TokenStream
  imports ParserState
begin

text \<open>
  The parser's view of the tokens (\<^verbatim>\<open>jshint.js\<close>): \<open>peek\<close> (here \<open>peek_token\<close>) and \<open>advance\<close>, and the
  small functions that test, check or consume a token.
\<close>

section \<open>Reading from the lexer\<close>

text \<open>
  \<open>lex.token()\<close>: the lexer runs under the state of this moment, its events go to their listeners,
  and what it returns becomes an object of the store.
\<close>

definition read_token :: "pst \<Rightarrow> nat option \<times> pst" where
  "read_token S =
     (case lex_token (p_re S) (l_state (synced S)) ((p_lexer S)\<lparr>events := []\<rparr>) of
        (x, L) \<Rightarrow>
          let S1 = S\<lparr>p_lexer := L, p_lint := lex_listeners (events L) (synced S)\<rparr> in
          (case x of
             None \<Rightarrow> (None, S1)
           | Some it \<Rightarrow> (case run_state (alloc (item_tok it)) S1 of (t, S2) \<Rightarrow> (Some t, S2))))"

text \<open>\<open>lookahead.shift() || lex.token()\<close>.\<close>

definition shift_token :: "pst \<Rightarrow> nat option \<times> pst" where
  "shift_token S = (case p_look S of t # r \<Rightarrow> (Some t, S\<lparr>p_look := r\<rparr>) | [] \<Rightarrow> read_token S)"

text \<open>What is left to read: of the source, then of the tokens read ahead.\<close>

definition left_rel :: "(pst \<times> pst) set" where
  "left_rel = measures
     [\<lambda>S. List.length (lines (p_lexer S)) - line (p_lexer S), \<lambda>S. List.length (input (p_lexer S)),
      \<lambda>S. if exhausted (p_lexer S) then 0 else 1, \<lambda>S. List.length (p_look S)]"

lemma wf_left_rel [simp, intro]: "wf left_rel"
  by (simp add: left_rel_def)

lemma alloc_left:
  assumes "run_state (alloc k) S = (t, S')"
  shows "p_lexer S' = p_lexer S" "p_look S' = p_look S"
  using assms by (auto simp: alloc_def split: if_splits)

lemma read_token_left:
  assumes "read_token S = (Some t, S')" "p_look S' = p_look S' "
  shows "(S', S) \<in> left_rel"
proof -
  obtain x L where x: "lex_token (p_re S) (l_state (synced S)) ((p_lexer S)\<lparr>events := []\<rparr>) = (x, L)"
    by fastforce
  with assms obtain it where it: "x = Some it" by (auto simp: read_token_def Let_def split: option.splits)
  have L: "p_lexer S' = L" "p_look S' = p_look S"
    using assms(1) alloc_left [of "item_tok it" "S\<lparr>p_lexer := L, p_lint := lex_listeners (events L) (synced S)\<rparr>"]
    by (auto simp: read_token_def Let_def x it split: prod.splits)
  from lex_token_moves [OF x [unfolded it]] show ?thesis
    by (auto simp: left_rel_def L advanced_def finished_def lex_left_iff)
qed

lemma shift_token_left: "shift_token S = (Some t, S') \<Longrightarrow> (S', S) \<in> left_rel"
  using read_token_left [of S t S']
  by (auto simp: shift_token_def split: list.splits) (simp add: left_rel_def)

text \<open>The postponed checks of a token run once, when it becomes the next one.\<close>

definition run_token_checks :: "nat \<Rightarrow> unit parser" where
  "run_token_checks t = do {
     k \<leftarrow> tok_at t;
     lint (\<lambda>L. lex_listeners (fst (run_checks (l_state L) (k_checks k))) L);
     upd_token t (\<lambda>k. k\<lparr>k_checks := []\<rparr>)
   }"

text \<open>The comment \<open>t\<close> with a directive, after the token \<open>p_curr\<close>.\<close>

definition apply_directive :: "nat \<Rightarrow> unit parser" where
  "apply_directive t = do {
     k \<leftarrow> tok_at t;
     let D = \<lparr>d_type = k_type k, d_body = (case k_special k of Some b \<Rightarrow> b | None \<Rightarrow> []),
              d_place = tok_place k, d_token = t\<rparr>;
     falls \<leftarrow> lint_get (lintingDirective D);
     c \<leftarrow> curr_ref;
     provided falls (upd_token c (\<lambda>k. k\<lparr>k_caseFallsThrough := True\<rparr>))
   }"

lemma upd_left:
  assumes "run_state (upd f) S = (x, S')" "\<And>S. p_lexer (f S) = p_lexer S" "\<And>S. p_look (f S) = p_look S"
  shows "p_lexer S' = p_lexer S" "p_look S' = p_look S"
  using assms by (auto split: if_splits)

lemma checks_left [simp]:
  "p_lexer (snd (run_state (run_token_checks t) S)) = p_lexer S"
  "p_look (snd (run_state (run_token_checks t) S)) = p_look S"
  by (simp_all add: run_token_checks_def tok_at_def lint_def upd_token_def)

lemma directive_left [simp]:
  "p_lexer (snd (run_state (apply_directive t) S)) = p_lexer S"
  "p_look (snd (run_state (apply_directive t) S)) = p_look S"
  by (auto simp: apply_directive_def tok_at_def lint_get_def upd_token_def curr_ref_def Let_def provided_def
      split: prod.splits)

lemma left_rel_same:
  "p_lexer S2 = p_lexer S1 \<Longrightarrow> p_look S2 = p_look S1 \<Longrightarrow> (S1, S) \<in> left_rel \<Longrightarrow> (S2, S) \<in> left_rel"
  by (simp add: left_rel_def)

text \<open>
  The loop of \<open>advance\<close>: it skips the ends of lines, and applies the comments with directives. A
  lexer with nothing left makes \<open>state.tokens.next\<close> \<open>null\<close>, which the model shows as a token without
  fields.
\<close>

function advance_loop :: "pst \<Rightarrow> pst" where
  "advance_loop S =
     (if stopped S then S
      else
        (case shift_token S of
           (None, S1) \<Rightarrow>
             snd (run_state (quit_tok ''E041'' (p_curr S1)) (S1\<lparr>p_next := p_fresh S1\<rparr>))
         | (Some t, S1) \<Rightarrow>
             (if stopped S1 then S1
              else
                (let S2 = S1\<lparr>p_next := t\<rparr>; k = p_store S2 t in
                 if has_id ''(end)'' k \<or> has_id ''(error)'' k then S2
                 else
                   (let S3 = snd (run_state (run_token_checks t) S2) in
                    if k_special k \<noteq> None then advance_loop (snd (run_state (apply_directive t) S3))
                    else if has_id ''(endline)'' k then advance_loop S3
                    else S3)))))"
  by pat_completeness auto
termination
proof (relation left_rel, goal_cases)
  case (2 S x S1 t S2 k S3)
  then have "(S1, S) \<in> left_rel" using shift_token_left by metis
  then show ?case by (rule left_rel_same [rotated 2]) (simp_all add: 2)
next
  case (3 S x S1 t S2 k S3)
  then have "(S1, S) \<in> left_rel" using shift_token_left by metis
  then show ?case by (rule left_rel_same [rotated 2]) (simp_all add: 3)
qed simp

declare advance_loop.simps [simp del]

section \<open>Tests on tokens\<close>

definition checkPunctuators :: "tok \<Rightarrow> string list \<Rightarrow> bool" where
  "checkPunctuators k vs \<longleftrightarrow>
     k_type k = ''(punctuator)'' \<and> (case k_value k of None \<Rightarrow> False | Some v \<Rightarrow> list_ex (\<lambda>s. js s = v) vs)"

definition checkPunctuator :: "tok \<Rightarrow> string \<Rightarrow> bool" where
  "checkPunctuator k v \<longleftrightarrow> k_type k = ''(punctuator)'' \<and> has_value v k"

definition isIdentifier :: "tok option \<Rightarrow> string \<Rightarrow> bool" where
  "isIdentifier t v = (case t of None \<Rightarrow> False | Some k \<Rightarrow> k_identifier k \<and> has_value v k)"

text \<open>\<open>first.line === (second.startLine || second.line)\<close>.\<close>

definition sameLine :: "tok \<Rightarrow> tok \<Rightarrow> bool" where
  "sameLine a b \<longleftrightarrow> k_line a = (case k_startLine b of Some (Suc l) \<Rightarrow> Some (Suc l) | _ \<Rightarrow> k_line b)"

definition val_set :: "tok_val \<Rightarrow> bool" where
  "val_set v = (case v of VNone \<Rightarrow> False | VTok t \<Rightarrow> True | VName n \<Rightarrow> n \<noteq> [] | VList ts \<Rightarrow> True)"

definition isOperator :: "tok \<Rightarrow> bool" where
  "isOperator k \<longleftrightarrow> val_set (k_first k) \<or> val_set (k_right k) \<or> val_set (k_left k) \<or>
     has_id ''yield'' k \<or> has_id ''await'' k"

definition beginsUnaryExpression :: "tok \<Rightarrow> bool" where
  "beginsUnaryExpression k \<longleftrightarrow> k_unary k \<and> \<not> has_id ''++'' k \<and> \<not> has_id ''--'' k"

definition less_power :: "int option \<Rightarrow> int option \<Rightarrow> bool" where
  "less_power a b = (case (a, b) of (Some x, Some y) \<Rightarrow> x < y | _ \<Rightarrow> False)"

text \<open>\<open>isEndOfExpr\<close> for the given tokens.\<close>

definition end_of_expr :: "nat \<Rightarrow> tok \<Rightarrow> tok \<Rightarrow> bool" where
  "end_of_expr context c n \<longleftrightarrow>
     (if has_id ''in'' n \<and> ctx_has context ctx_noin then True
      else if has_id '';'' n \<or> has_id ''}'' n \<or> has_id '':'' n then True
      else if k_infix n = k_infix c \<or>
              (has_id ''yield'' c \<and> less_power (k_rbp c) (k_rbp n))
        then \<not> sameLine c n
      else False)"

definition isEndOfExpr :: "nat \<Rightarrow> bool parser" where
  "isEndOfExpr context = do {
     c \<leftarrow> curr_tok;
     n \<leftarrow> next_tok;
     ret (end_of_expr context c n)
   }"

text \<open>\<open>isReserved\<close>, whose argument may be a token or a symbol.\<close>

definition is_reserved :: "lstate \<Rightarrow> nat \<Rightarrow> tok \<Rightarrow> bool" where
  "is_reserved st context k =
     (if \<not> s_reserved (k_sym k) then False
      else
        (let meta = s_meta (k_sym k);
             future = (case meta of Some m \<Rightarrow> m_isFutureReservedWord m | None \<Rightarrow> False);
             es5 = (case meta of Some m \<Rightarrow> m_es5 m | None \<Rightarrow> False);
             strictOnly = (case meta of Some m \<Rightarrow> m_strictOnly m | None \<Rightarrow> False)
         in if future \<and> inES5 st \<and> (\<not> es5 \<or> k_isProperty k) then False
            else if \<not> future \<and> es5 \<and> \<not> inES5 st then False
            else if strictOnly \<and> inES5 st \<and> \<not> opt_on st ''strict'' \<and> \<not> isStrict st then False
            else if has_id ''await'' k \<and> \<not> ctx_has context ctx_async \<and> \<not> opt_on st ''module'' then False
            else if has_id ''yield'' k \<and> \<not> ctx_has context ctx_yield then isStrict st
            else True))"

definition isReserved :: "nat \<Rightarrow> tok \<Rightarrow> bool parser" where
  "isReserved context k = lint_state (\<lambda>st. is_reserved st context k)"

section \<open>Reading ahead\<close>

text \<open>\<open>peek(i)\<close> with \<open>n\<close> tokens to be read; a lexer with nothing left gives the last token again.\<close>

primrec fill_lookahead :: "nat \<Rightarrow> nat parser" where
  "fill_lookahead 0 = next_ref"
| "fill_lookahead (Suc n) = do {
     x \<leftarrow> State (\<lambda>S. if stopped S then (None, S) else read_token S);
     (case x of
        None \<Rightarrow> do { ts \<leftarrow> gets p_look; if ts = [] then next_ref else ret (last ts) }
      | Some t \<Rightarrow> do {
          upd (\<lambda>S. S\<lparr>p_look := p_look S @ [t]\<rparr>);
          if n = 0 then ret t else fill_lookahead n
        })
   }"

definition peek_token :: "nat \<Rightarrow> nat parser" where
  "peek_token i = do {
     ts \<leftarrow> gets p_look;
     if i < List.length ts then ret (ts ! i) else fill_lookahead (i + 1 - List.length ts)
   }"

definition peeked :: "nat \<Rightarrow> tok parser" where
  "peeked i = do { t \<leftarrow> peek_token i; tok_at t }"

text \<open>\<open>peekIgnoreEOL\<close> from the \<open>i\<close>-th token on, with fuel.\<close>

primrec peekIgnoreEOL :: "nat \<Rightarrow> nat \<Rightarrow> nat parser" where
  "peekIgnoreEOL 0 i = do { out_of_fuel; next_ref }"
| "peekIgnoreEOL (Suc n) i = do {
     t \<leftarrow> peek_token i;
     k \<leftarrow> tok_at t;
     halt \<leftarrow> gets stopped;
     if has_id ''(endline)'' k \<and> \<not> halt then peekIgnoreEOL n (Suc i) else ret t
   }"

section \<open>\<open>advance\<close>\<close>

definition unexpected_token :: "string \<Rightarrow> nat option \<Rightarrow> unit parser" where
  "unexpected_token expected related = do {
     n \<leftarrow> next_ref;
     k \<leftarrow> tok_at n;
     (case related of
        Some r \<Rightarrow> do {
          rk \<leftarrow> tok_at r;
          if has_id ''(end)'' k then report_tok ''E019'' r [id_arg rk]
          else report_tok ''E020'' n [str_arg expected, id_arg rk, opt_num (k_line rk), value_arg k]
        }
      | None \<Rightarrow>
          provided (k_type k \<noteq> ''(identifier)'' \<or> \<not> has_value expected k)
            (report_tok ''E021'' n [str_arg expected, value_arg k]))
   }"

definition advance_to :: "string option \<Rightarrow> nat option \<Rightarrow> unit parser" where
  "advance_to expected related = do {
     k \<leftarrow> next_tok;
     (case expected of
        None \<Rightarrow> ret ()
      | Some s \<Rightarrow> provided (\<not> has_id s k) (unexpected_token s related));
     upd (\<lambda>S. S\<lparr>p_prev := p_curr S, p_curr := p_next S\<rparr>);
     State (\<lambda>S. ((), advance_loop S))
   }"

abbreviation advance :: "unit parser" where
  "advance \<equiv> advance_to None None"

abbreviation advance_id :: "string \<Rightarrow> unit parser" where
  "advance_id s \<equiv> advance_to (Some s) None"

section \<open>Line breaks and commas\<close>

definition nobreaknonadjacent :: "tok \<Rightarrow> nat \<Rightarrow> unit parser" where
  "nobreaknonadjacent left right = do {
     k \<leftarrow> tok_at right;
     lax \<leftarrow> opt ''laxbreak'';
     provided (\<not> lax \<and> \<not> sameLine left k) (report_tok ''W014'' right [value_arg k])
   }"

text \<open>The call on the last two tokens, which most denotations start with.\<close>

definition no_break_before :: "unit parser" where
  "no_break_before = do { l \<leftarrow> prev_tok; r \<leftarrow> curr_ref; nobreaknonadjacent l r }"

definition nolinebreak :: "nat \<Rightarrow> unit parser" where
  "nolinebreak t = do {
     k \<leftarrow> tok_at t;
     n \<leftarrow> next_tok;
     provided (\<not> sameLine k n) (report_tok ''E022'' t [value_arg k])
   }"

definition no_comma_before :: "string list" where
  "no_comma_before =
     [''break'', ''case'', ''catch'', ''continue'', ''default'', ''do'', ''else'', ''finally'', ''for'',
      ''if'', ''in'', ''instanceof'', ''return'', ''switch'', ''throw'', ''try'', ''var'', ''let'',
      ''while'', ''with'']"

definition comma_break :: "unit parser" where
  "comma_break = do {
     p \<leftarrow> prev_ref;
     pk \<leftarrow> prev_tok;
     c \<leftarrow> curr_ref;
     ck \<leftarrow> curr_tok;
     lax \<leftarrow> opt ''laxcomma'';
     first \<leftarrow> gets p_firstComma;
     provided (\<not> sameLine pk ck \<and> \<not> lax) (do {
       provided first (do {
         report_tok ''I001'' c [];
         upd (\<lambda>S. S\<lparr>p_firstComma := False\<rparr>)
       });
       report_tok ''W014'' p [value_arg ck]
     })
   }"

definition checkComma :: "bool \<Rightarrow> bool \<Rightarrow> bool parser" where
  "checkComma property allowTrailing = do {
     comma_break;
     n \<leftarrow> next_ref;
     k \<leftarrow> next_tok;
     es5 \<leftarrow> lint_state inES5;
     if k_identifier k \<and> \<not> (property \<and> es5) \<and> list_ex (\<lambda>s. has_value s k) no_comma_before then do {
       report_tok ''E024'' n [value_arg k];
       ret False
     }
     else if checkPunctuators k [''}'', '']'', '','', '')''] then
       (if allowTrailing then ret True
        else do { report_tok ''E024'' n [value_arg k]; ret False })
     else ret True
   }"

section \<open>Identifiers\<close>

definition optionalidentifier :: "nat \<Rightarrow> bool \<Rightarrow> jstr option parser" where
  "optionalidentifier context isName = do {
     n \<leftarrow> next_tok;
     if \<not> k_identifier n then ret None
     else do {
       advance;
       c \<leftarrow> curr_ref;
       k \<leftarrow> curr_tok;
       res \<leftarrow> isReserved context k;
       es5 \<leftarrow> lint_state inES5;
       provided (res \<and> \<not> (isName \<and> es5)) (report_tok ''W024'' c [id_arg k]);
       ret (k_value k)
     }
   }"

text \<open>An empty name is no name.\<close>

definition nonempty :: "jstr option \<Rightarrow> jstr option" where
  "nonempty v = (case v of Some (c # s) \<Rightarrow> Some (c # s) | _ \<Rightarrow> None)"

definition parse_identifier :: "nat \<Rightarrow> bool \<Rightarrow> jstr option parser" where
  "parse_identifier context isName = do {
     i \<leftarrow> optionalidentifier context isName;
     (case nonempty i of
        Some v \<Rightarrow> ret (Some v)
      | None \<Rightarrow> do {
          n \<leftarrow> next_ref;
          k \<leftarrow> next_tok;
          report_tok ''E030'' n [value_arg k];
          provided (\<not> has_id '';'' k) advance;
          ret None
        })
   }"

text \<open>\<open>spreadrest\<close>; repeated operators are consumed by a loop with fuel.\<close>

definition spreadrest :: "nat \<Rightarrow> string \<Rightarrow> bool parser" where
  "spreadrest n operation = do {
     k \<leftarrow> next_tok;
     if \<not> checkPunctuator k ''...'' then ret False
     else do {
       es6 \<leftarrow> lint_state (\<lambda>st. inES6 st True);
       provided (\<not> es6) (report_next ''W119'' [JStr (js operation @ js '' operator''), str_arg ''6'']);
       advance;
       k2 \<leftarrow> next_tok;
       provided (checkPunctuator k2 ''...'') (do {
         report_next ''E024'' [str_arg ''...''];
         while_loop n (do {
           k3 \<leftarrow> next_tok;
           if checkPunctuator k3 ''...'' then do { advance; ret True } else ret False
         })
       });
       ret True
     }
   }"

section \<open>Ends of statements\<close>

text \<open>The search of \<open>reachable\<close> through the tokens after a semicolon.\<close>

primrec reachable_from :: "nat \<Rightarrow> nat \<Rightarrow> jsval \<Rightarrow> unit parser" where
  "reachable_from 0 i v = out_of_fuel"
| "reachable_from (Suc n) i v = do {
     t \<leftarrow> peek_token i;
     k \<leftarrow> tok_at t;
     halt \<leftarrow> gets stopped;
     if halt \<or> k_reach k then ret ()
     else if has_id ''(comment)'' k \<or> has_id ''(endline)'' k then reachable_from n (Suc i) v
     else do {
       k1 \<leftarrow> (if has_id ''async'' k then peeked (Suc i) else ret k);
       if has_id ''function'' k \<or> (has_id ''async'' k \<and> has_id ''function'' k1) then do {
         l \<leftarrow> opt_value ''latedef'';
         provided (l = JBool True) (report_tok ''W026'' t [])
       }
       else report_tok ''W027'' t [value_arg k, v]
     }
   }"

definition reachable :: "nat \<Rightarrow> nat \<Rightarrow> unit parser" where
  "reachable n controlToken = do {
     k \<leftarrow> next_tok;
     c \<leftarrow> tok_at controlToken;
     if \<not> has_id '';'' k \<or> k_inBracelessBlock c then ret ()
     else reachable_from n 0 (value_arg c)
   }"

definition parseFinalSemicolon :: "nat \<Rightarrow> unit parser" where
  "parseFinalSemicolon t = do {
     k \<leftarrow> next_tok;
     if has_id '';'' k then advance_id '';''
     else if k_isUnclosed k then advance
     else do {
       c \<leftarrow> curr_tok;
       s \<leftarrow> tok_at t;
       es6 \<leftarrow> lint_state (\<lambda>st. inES6 st True);
       asi \<leftarrow> opt ''asi'';
       lastsemic \<leftarrow> opt ''lastsemic'';
       let isSameLine = (sameLine c k \<and> \<not> has_id ''(end)'' k);
       let blockEnd = checkPunctuator k ''}'';
       if isSameLine \<and> \<not> blockEnd \<and> \<not> (has_id ''do'' s \<and> es6)
       then report_at ''E058'' (k_line c) (k_character c) []
       else provided (\<not> asi \<and> \<not> (blockEnd \<and> isSameLine \<and> lastsemic))
              (report_at ''W033'' (k_line c) (k_character c) [])
     }
   }"

text \<open>The end of the balanced parentheses, \<open>parens\<close> of which are open before the next token.\<close>

primrec peek_through :: "nat \<Rightarrow> nat \<Rightarrow> int \<Rightarrow> nat \<Rightarrow> nat parser" where
  "peek_through 0 i parens pn = do { out_of_fuel; ret pn }"
| "peek_through (Suc n) i parens pn = do {
     k \<leftarrow> tok_at pn;
     let parens1 = (if has_value ''('' k then parens + 1
                    else if has_value '')'' k then parens - 1 else parens);
     t \<leftarrow> peek_token i;
     tk \<leftarrow> tok_at t;
     halt \<leftarrow> gets stopped;
     if \<not> (parens1 = 0 \<and> has_value '')'' k) \<and> k_type tk \<noteq> ''(end)'' \<and> \<not> halt
     then peek_through n (Suc i) parens1 t else ret t
   }"

definition peekThroughParens :: "nat \<Rightarrow> int \<Rightarrow> nat parser" where
  "peekThroughParens n parens = do { t \<leftarrow> next_ref; peek_through n 0 parens t }"

text \<open>
  \<open>lookupBlockType\<close>: \<open>i\<close> is the number of tokens looked at beyond the next one, \<open>prev\<close> and \<open>pn\<close> the
  last two looked at.
\<close>

record block_type =
  bt_isCompArray :: bool
  bt_isDestAssign :: bool
  bt_notJson :: bool

primrec block_type_from :: "nat \<Rightarrow> nat \<Rightarrow> int \<Rightarrow> tok \<Rightarrow> tok \<Rightarrow> bool \<Rightarrow> block_type parser" where
  "block_type_from 0 i depth prev pn notJson =
     do { out_of_fuel; ret \<lparr>bt_isCompArray = False, bt_isDestAssign = False, bt_notJson = notJson\<rparr> }"
| "block_type_from (Suc n) i depth prev pn notJson = do {
     pn1 \<leftarrow> peeked i;
     halt \<leftarrow> gets stopped;
     let d = (if checkPunctuators pn [''['', ''{''] then depth + 1
              else if checkPunctuators pn ['']'', ''}''] then depth - 1 else depth);
     if d = 1 \<and> k_identifier pn \<and> has_value ''for'' pn \<and> \<not> checkPunctuator prev ''.''
     then ret \<lparr>bt_isCompArray = True, bt_isDestAssign = False, bt_notJson = True\<rparr>
     else if d = 0 \<and> checkPunctuators pn [''}'', '']''] \<and> has_value ''='' pn1
     then ret \<lparr>bt_isCompArray = False, bt_isDestAssign = True, bt_notJson = True\<rparr>
     else if d = 0 \<and> checkPunctuators pn [''}'', '']''] \<and> has_value ''.'' pn1
     then ret \<lparr>bt_isCompArray = False, bt_isDestAssign = False, bt_notJson = True\<rparr>
     else
       (let notJson1 = (notJson \<or> checkPunctuator pn '';'') in
        if 0 < d \<and> \<not> has_id ''(end)'' pn \<and> \<not> halt
        then block_type_from n (Suc i) d pn pn1 notJson1
        else ret \<lparr>bt_isCompArray = False, bt_isDestAssign = False, bt_notJson = notJson1\<rparr>)
   }"

definition lookupBlockType :: "nat \<Rightarrow> block_type parser" where
  "lookupBlockType n = do {
     c \<leftarrow> curr_tok;
     k \<leftarrow> next_tok;
     block_type_from n 0 (if checkPunctuators c [''['', ''{''] then 1 else 0) c k False
   }"

end
