(* ===== verification/ParseOps.thy ===== *)
theory ParseOps
  imports TokenStream
begin

text \<open>
  The denotations of the operators of \<^verbatim>\<open>jshint.js\<close>, and what they share: the checks of an assignment's
  target, of comparisons with \<open>typeof\<close>, of property names.

  The functions of the parser call each other through \<open>expression\<close>, \<open>statement\<close> and
  \<open>destructuringPatternRecursive\<close>. A denotation is a definition over these three, the record \<open>recs\<close>,
  which also has the fuel of its loops; \<open>Parser\<close> ties the knot.
\<close>

section \<open>The recursive functions\<close>

record recs =
  r_fuel :: nat
  r_expr :: "nat \<Rightarrow> int \<Rightarrow> nat option parser"
  r_stmt :: "nat \<Rightarrow> nat option parser"
  r_pat :: "nat \<Rightarrow> bool \<Rightarrow> bool \<Rightarrow> (jstr option \<times> nat) list parser"

text \<open>\<open>context | flag\<close> and \<open>context & ~flag\<close>.\<close>

definition ctx_with :: "nat \<Rightarrow> nat \<Rightarrow> nat" where
  "ctx_with c f = (if ctx_has c f then c else c + f)"

definition ctx_without :: "nat \<Rightarrow> nat \<Rightarrow> nat" where
  "ctx_without c f = (if ctx_has c f then c - f else c)"

section \<open>Small helpers\<close>

definition tok_opt :: "nat option \<Rightarrow> tok option parser" where
  "tok_opt t = gets (\<lambda>S. map_option (p_store S) t)"

definition val_of :: "nat option \<Rightarrow> tok_val" where
  "val_of t = (case t of None \<Rightarrow> VNone | Some n \<Rightarrow> VTok n)"

definition set_left :: "nat \<Rightarrow> nat \<Rightarrow> unit parser" where
  "set_left t l = upd_token t (\<lambda>k. k\<lparr>k_left := VTok l\<rparr>)"

definition set_right :: "nat \<Rightarrow> nat option \<Rightarrow> unit parser" where
  "set_right t r = upd_token t (\<lambda>k. k\<lparr>k_right := val_of r\<rparr>)"

definition set_first :: "nat \<Rightarrow> nat option \<Rightarrow> unit parser" where
  "set_first t r = upd_token t (\<lambda>k. k\<lparr>k_first := val_of r\<rparr>)"

definition set_unary :: "nat \<Rightarrow> unit parser" where
  "set_unary t = upd_token t (\<lambda>k. k\<lparr>k_unary := True\<rparr>)"

text \<open>A report about a token that may be \<open>undefined\<close>.\<close>

definition report_opt :: "string \<Rightarrow> nat option \<Rightarrow> jsval list \<Rightarrow> unit parser" where
  "report_opt code t args =
     (case t of Some n \<Rightarrow> report_tok code n args | None \<Rightarrow> report_here code args)"

definition id_in :: "string list \<Rightarrow> tok \<Rightarrow> bool" where
  "id_in ss k \<longleftrightarrow> (case k_id k of None \<Rightarrow> False | Some s \<Rightarrow> List.member ss s)"

definition value_in :: "string list \<Rightarrow> tok \<Rightarrow> bool" where
  "value_in ss k \<longleftrightarrow> list_ex (\<lambda>s. has_value s k) ss"

definition is_type :: "string \<Rightarrow> tok \<Rightarrow> bool" where
  "is_type s k \<longleftrightarrow> k_type k = s"

definition increaseComplexityCount :: "unit parser" where
  "increaseComplexityCount = upd_funct (\<lambda>F. F\<lparr>f_complexity := Suc (f_complexity F)\<rparr>)"

text \<open>\<open>warning("W119", token, feature, edition)\<close> unless the edition allows the feature.\<close>

definition needs :: "(lstate \<Rightarrow> bool) \<Rightarrow> unit parser \<Rightarrow> unit parser" where
  "needs allowed report = do { b \<leftarrow> lint_state allowed; provided (\<not> b) report }"

section \<open>Targets of assignments\<close>

definition natives :: "string list" where
  "natives =
     [''Array'', ''ArrayBuffer'', ''Boolean'', ''Collator'', ''DataView'', ''Date'', ''DateTimeFormat'',
      ''Error'', ''EvalError'', ''Float32Array'', ''Float64Array'', ''Function'', ''Infinity'', ''Intl'',
      ''Int16Array'', ''Int32Array'', ''Int8Array'', ''Iterator'', ''Number'', ''NumberFormat'', ''Object'',
      ''RangeError'', ''ReferenceError'', ''RegExp'', ''StopIteration'', ''String'', ''SyntaxError'',
      ''TypeError'', ''Uint16Array'', ''Uint32Array'', ''Uint8Array'', ''Uint8ClampedArray'', ''URIError'']"

text \<open>
  \<open>walkPrototype\<close> and \<open>walkNative\<close> follow the left operands; a chain of them has no more tokens than
  were made.
\<close>

fun walkPrototype :: "nat \<Rightarrow> (nat \<Rightarrow> tok) \<Rightarrow> nat \<Rightarrow> nat option" where
  "walkPrototype 0 st t = None"
| "walkPrototype (Suc n) st t =
     (if k_right (st t) = VName (js ''prototype'') then Some t
      else case k_left (st t) of VTok l \<Rightarrow> walkPrototype n st l | _ \<Rightarrow> None)"

fun walkNative :: "nat \<Rightarrow> (nat \<Rightarrow> tok) \<Rightarrow> nat \<Rightarrow> nat" where
  "walkNative 0 st t = t"
| "walkNative (Suc n) st t =
     (if k_identifier (st t) then t
      else case k_left (st t) of VTok l \<Rightarrow> walkNative n st l | _ \<Rightarrow> t)"

definition findNativePrototype :: "nat \<Rightarrow> jstr option parser" where
  "findNativePrototype left = do {
     p \<leftarrow> gets (\<lambda>S. walkPrototype (Suc (p_fresh S)) (p_store S) left);
     (case p of
        None \<Rightarrow> ret None
      | Some t \<Rightarrow> do {
          k \<leftarrow> gets (\<lambda>S. p_store S (walkNative (Suc (p_fresh S)) (p_store S) t));
          pre \<leftarrow> scope_get (\<lambda>G. case k_value k of Some v \<Rightarrow> isPredefined v G | None \<Rightarrow> False);
          ret (if k_identifier k \<and> value_in natives k \<and> pre then k_value k else None)
        })
   }"

definition freeze_check :: "nat \<Rightarrow> unit parser" where
  "freeze_check left = do {
     on \<leftarrow> opt ''freeze'';
     provided on (do {
       n \<leftarrow> findNativePrototype left;
       (case n of Some v \<Rightarrow> report_tok ''W121'' left [JStr v] | None \<Rightarrow> ret ())
     })
   }"

text \<open>The target is a property, an array element, a pattern or a call of \<open>[\<close>.\<close>

definition assign_member :: "tok \<Rightarrow> nat \<Rightarrow> bool parser" where
  "assign_member k assignToken = do {
     l \<leftarrow> tok_opt (case k_left k of VTok l \<Rightarrow> Some l | _ \<Rightarrow> None);
     strict \<leftarrow> lint_state isStrict;
     provided (case l of None \<Rightarrow> True | Some lk \<Rightarrow> has_value ''arguments'' lk \<and> \<not> strict)
       (report_tok ''W143'' assignToken []);
     p \<leftarrow> prev_ref;
     names_set p;
     ret True
   }"

definition assign_pattern :: "tok \<Rightarrow> nat \<Rightarrow> bool \<Rightarrow> bool parser" where
  "assign_pattern k assignToken allowDestructuring = do {
     l \<leftarrow> tok_opt (case k_left k of VTok l \<Rightarrow> Some l | _ \<Rightarrow> None);
     strict \<leftarrow> lint_state isStrict;
     provided (\<not> allowDestructuring \<or> \<not> k_destructAssign k)
       (if has_id ''{'' k then report_tok ''E031'' assignToken []
        else
          (case l of
             None \<Rightarrow> report_tok ''E031'' assignToken []
           | Some lk \<Rightarrow>
               provided (has_value ''arguments'' lk \<and> \<not> strict) (report_tok ''W143'' assignToken [])));
     provided (has_id ''['' k) (names_set_opt (case k_right k of VTok r \<Rightarrow> Some r | _ \<Rightarrow> None));
     ret True
   }"

definition assign_name :: "nat \<Rightarrow> tok \<Rightarrow> nat \<Rightarrow> bool parser" where
  "assign_name left k assignToken = do {
     bt \<leftarrow> scope_get (case k_value k of Some v \<Rightarrow> bindingtype v | None \<Rightarrow> (\<lambda>G. None));
     provided (bt = Some ''exception'') (report_tok ''W022'' left []);
     strict \<leftarrow> lint_state isStrict;
     if has_value ''eval'' k \<and> strict then do { report_tok ''E031'' assignToken []; ret False }
     else if has_value ''arguments'' k \<and> strict then do { report_tok ''E031'' assignToken []; ret False }
     else do {
       provided (has_value ''arguments'' k) (report_tok ''W143'' assignToken []);
       names_set left;
       ret True
     }
   }"

definition checkLeftSideAssign :: "nat \<Rightarrow> nat \<Rightarrow> nat \<Rightarrow> bool \<Rightarrow> bool parser" where
  "checkLeftSideAssign context left assignToken allowDestructuring = do {
     freeze_check left;
     k \<leftarrow> tok_at left;
     provided (k_identifier k \<and> \<not> k_isMetaProperty k)
       (scope_op (\<lambda>E. block_reassign E (case k_value k of Some v \<Rightarrow> v | None \<Rightarrow> js ''undefined'') left));
     res \<leftarrow> isReserved context k;
     if has_id ''.'' k then assign_member k assignToken
     else if has_id ''{'' k \<or> has_id ''['' k then assign_pattern k assignToken allowDestructuring
     else if k_identifier k \<and> \<not> res \<and> \<not> k_isMetaProperty k then assign_name left k assignToken
     else do { report_tok ''E031'' assignToken []; ret False }
   }"

section \<open>Left denotations\<close>

text \<open>The start of the \<open>led\<close> of \<open>infix\<close>: \<open>w\<close> leaves out the test for a line break.\<close>

definition infix_start :: "bool \<Rightarrow> unit parser" where
  "infix_start w = provided (\<not> w) no_break_before"

definition not_operand :: "nat \<Rightarrow> unit parser" where
  "not_operand t = do {
     k \<leftarrow> tok_at t;
     provided (has_id ''!'' k) (report_tok ''W018'' t [str_arg ''!''])
   }"

text \<open>An operator with nothing but its operands, for \<open>infix\<close> and \<open>bitwise\<close>.\<close>

definition binary_led :: "recs \<Rightarrow> nat \<Rightarrow> int \<Rightarrow> nat \<Rightarrow> nat \<Rightarrow> nat option parser" where
  "binary_led R context p t left = do {
     set_left t left;
     r \<leftarrow> r_expr R context p;
     set_right t r;
     ret (Some t)
   }"

definition plain_led :: "recs \<Rightarrow> nat \<Rightarrow> int \<Rightarrow> nat \<Rightarrow> nat \<Rightarrow> nat option parser" where
  "plain_led R context p t left = do { infix_start False; binary_led R context p t left }"

definition in_led :: "recs \<Rightarrow> nat \<Rightarrow> nat \<Rightarrow> nat \<Rightarrow> nat option parser" where
  "in_led R context t left = do {
     infix_start False;
     not_operand left;
     binary_led R context 120 t left
   }"

definition bitwise_led :: "recs \<Rightarrow> nat \<Rightarrow> int \<Rightarrow> nat \<Rightarrow> nat \<Rightarrow> nat option parser" where
  "bitwise_led R context p t left = do {
     on \<leftarrow> opt ''bitwise'';
     k \<leftarrow> tok_at t;
     provided on (report_tok ''W016'' t [id_arg k]);
     binary_led R context p t left
   }"

definition assign_led :: "recs \<Rightarrow> nat \<Rightarrow> nat \<Rightarrow> nat \<Rightarrow> nat option parser" where
  "assign_led R context t left = do {
     infix_start False;
     set_left t left;
     checkLeftSideAssign context left t True;
     r \<leftarrow> r_expr R context 10;
     set_right t r;
     ret (Some t)
   }"

definition bitwise_assign_led :: "recs \<Rightarrow> nat \<Rightarrow> nat \<Rightarrow> nat \<Rightarrow> nat option parser" where
  "bitwise_assign_led R context t left = do {
     infix_start False;
     on \<leftarrow> opt ''bitwise'';
     k \<leftarrow> tok_at t;
     provided on (report_tok ''W016'' t [id_arg k]);
     checkLeftSideAssign context left t False;
     r \<leftarrow> r_expr R context 10;
     set_right t r;
     ret (Some t)
   }"

definition power_assign_led :: "recs \<Rightarrow> nat \<Rightarrow> nat \<Rightarrow> nat \<Rightarrow> nat option parser" where
  "power_assign_led R context t left = do {
     infix_start False;
     needs inES7 (report_tok ''W119'' t [str_arg ''Exponentiation operator'', str_arg ''7'']);
     set_left t left;
     checkLeftSideAssign context left t False;
     r \<leftarrow> r_expr R context 10;
     set_right t r;
     ret (Some t)
   }"

definition suffix_led :: "nat \<Rightarrow> nat \<Rightarrow> nat \<Rightarrow> nat option parser" where
  "suffix_led context t left = do {
     on \<leftarrow> opt ''plusplus'';
     k \<leftarrow> tok_at t;
     provided on (report_tok ''W016'' t [id_arg k]);
     checkLeftSideAssign context left t False;
     set_left t left;
     ret (Some t)
   }"

definition comma_led :: "recs \<Rightarrow> nat \<Rightarrow> nat \<Rightarrow> nat \<Rightarrow> nat option parser" where
  "comma_led R context t left = do {
     on \<leftarrow> opt ''nocomma'';
     provided on (report_tok ''W127'' t []);
     set_left t left;
     ok \<leftarrow> checkComma False False;
     r \<leftarrow> (if ok then r_expr R context 10 else ret None);
     set_right t r;
     ret (Some t)
   }"

definition conditional_led :: "recs \<Rightarrow> nat \<Rightarrow> nat \<Rightarrow> nat \<Rightarrow> nat option parser" where
  "conditional_led R context t left = do {
     infix_start False;
     increaseComplexityCount;
     set_left t left;
     r \<leftarrow> r_expr R (ctx_without context ctx_noin) 10;
     set_right t r;
     advance_id '':'';
     r_expr R context 10;
     ret (Some t)
   }"

text \<open>\<open>||\<close> and \<open>&&\<close>.\<close>

definition logical_led :: "recs \<Rightarrow> nat \<Rightarrow> int \<Rightarrow> nat \<Rightarrow> nat \<Rightarrow> nat option parser" where
  "logical_led R context p t left = do {
     infix_start False;
     increaseComplexityCount;
     binary_led R context p t left
   }"

definition nullish_led :: "recs \<Rightarrow> nat \<Rightarrow> nat \<Rightarrow> nat \<Rightarrow> nat option parser" where
  "nullish_led R context t left = do {
     infix_start False;
     lk \<leftarrow> tok_at left;
     provided (\<not> k_paren lk \<and> id_in [''||'', ''&&''] lk) (report_tok ''E024'' t [str_arg ''??'']);
     needs inES11 (report_tok ''W119'' t [str_arg ''nullish coalescing'', str_arg ''11'']);
     increaseComplexityCount;
     set_left t left;
     r \<leftarrow> r_expr R context 39;
     set_right t r;
     (case r of
        None \<Rightarrow> do { n \<leftarrow> next_ref; k \<leftarrow> next_tok; report_tok ''E024'' n [id_arg k] }
      | Some x \<Rightarrow> do {
          k \<leftarrow> tok_at x;
          provided (\<not> k_paren k \<and> id_in [''||'', ''&&''] k) (report_tok ''E024'' x [id_arg k])
        });
     ret (Some t)
   }"

definition power_led :: "recs \<Rightarrow> nat \<Rightarrow> nat \<Rightarrow> nat \<Rightarrow> nat option parser" where
  "power_led R context t left = do {
     infix_start False;
     needs inES7 (report_tok ''W119'' t [str_arg ''Exponentiation operator'', str_arg ''7'']);
     lk \<leftarrow> tok_at left;
     provided (\<not> k_paren lk \<and> beginsUnaryExpression lk) (report_tok ''E024'' t [str_arg ''**'']);
     k \<leftarrow> tok_at t;
     binary_led R context (case k_rbp k of Some p \<Rightarrow> p | None \<Rightarrow> 0) t left
   }"

section \<open>Relations\<close>

definition typeofValues_es3 :: "string list" where
  "typeofValues_es3 =
     [''undefined'', ''boolean'', ''number'', ''string'', ''function'', ''object'', ''xml'', ''unknown'']"

definition typeofValues_es6 :: "string list" where
  "typeofValues_es6 = typeofValues_es3 @ [''symbol'', ''bigint'']"

definition isTypoTypeof :: "nat option \<Rightarrow> nat option \<Rightarrow> bool parser" where
  "isTypoTypeof left right = do {
     off \<leftarrow> opt ''notypeof'';
     l \<leftarrow> tok_opt left;
     r \<leftarrow> tok_opt right;
     es6 \<leftarrow> lint_state (\<lambda>st. inES6 st False);
     (case (left, l, r) of
        (Some lt, Some lk, Some rk) \<Rightarrow>
          if \<not> off \<and> is_type ''(identifier)'' rk \<and> has_value ''typeof'' rk \<and> is_type ''(string)'' lk then
            (if has_value ''bigint'' lk then do {
               needs inES11 (report_tok ''W119'' lt [str_arg ''BigInt'', str_arg ''11'']);
               ret False
             }
             else ret (\<not> value_in (if es6 then typeofValues_es6 else typeofValues_es3) lk))
          else ret False
      | _ \<Rightarrow> ret False)
   }"

definition opt_value_arg :: "tok option \<Rightarrow> jsval" where
  "opt_value_arg k = (case k of Some x \<Rightarrow> value_arg x | None \<Rightarrow> JUndef)"

definition typo_typeof :: "nat \<Rightarrow> nat option \<Rightarrow> nat option \<Rightarrow> unit parser" where
  "typo_typeof t left right = do {
     lk \<leftarrow> tok_opt left;
     rk \<leftarrow> tok_opt right;
     typo \<leftarrow> isTypoTypeof right left;
     if typo then report_tok ''W122'' t [opt_value_arg rk]
     else do {
       typo2 \<leftarrow> isTypoTypeof left right;
       provided typo2 (report_tok ''W122'' t [opt_value_arg lk])
     }
   }"

text \<open>
  \<open>==\<close> and \<open>!=\<close>. The former compares the value of the option \<open>eqeqeq\<close> with \<open>true\<close>, the latter tests
  it.
\<close>

definition loose_equality :: "string \<Rightarrow> (jsval \<Rightarrow> bool) \<Rightarrow> nat \<Rightarrow> nat option \<Rightarrow> nat option \<Rightarrow> unit parser" where
  "loose_equality strictOp on t left right = do {
     eqnull \<leftarrow> opt ''eqnull'';
     eqeqeq \<leftarrow> opt_value ''eqeqeq'';
     lk \<leftarrow> tok_opt left;
     rk \<leftarrow> tok_opt right;
     k \<leftarrow> tok_at t;
     let isNull = (\<lambda>x. case x of Some y \<Rightarrow> has_value ''null'' y | None \<Rightarrow> False);
     if \<not> (eqnull \<and> (isNull lk \<or> isNull rk)) \<and> on eqeqeq then do {
       upd_token t (\<lambda>k. k\<lparr>k_from := k_character k\<rparr>);
       report_tok ''W116'' t [str_arg strictOp, id_arg k]
     }
     else typo_typeof t left right
   }"

definition relation_check :: "string \<Rightarrow> nat \<Rightarrow> nat option \<Rightarrow> nat option \<Rightarrow> unit parser" where
  "relation_check s t left right =
     (if s = ''=='' then loose_equality ''==='' (\<lambda>v. v = JBool True) t left right
      else if s = ''!='' then loose_equality ''!=='' truthy t left right
      else if s = ''==='' \<or> s = ''!=='' then typo_typeof t left right
      else ret ())"

definition relation_led :: "recs \<Rightarrow> nat \<Rightarrow> nat \<Rightarrow> nat \<Rightarrow> nat option parser" where
  "relation_led R context t left = do {
     no_break_before;
     set_left t left;
     r \<leftarrow> r_expr R context 100;
     set_right t r;
     k \<leftarrow> tok_at t;
     lk \<leftarrow> tok_at left;
     rk \<leftarrow> tok_opt r;
     (if isIdentifier (Some lk) ''NaN'' \<or> isIdentifier rk ''NaN'' then report_tok ''W019'' t []
      else relation_check (case k_id k of Some s \<Rightarrow> s | None \<Rightarrow> []) t (Some left) r);
     (case r of
        None \<Rightarrow> do { c \<leftarrow> curr_ref; quit_tok ''E041'' c }
      | Some x \<Rightarrow> do { not_operand left; not_operand x });
     ret (Some t)
   }"

definition instanceof_led :: "recs \<Rightarrow> nat \<Rightarrow> nat \<Rightarrow> nat \<Rightarrow> nat option parser" where
  "instanceof_led R context t left = do {
     infix_start False;
     not_operand left;
     set_left t left;
     r \<leftarrow> r_expr R context 120;
     set_right t r;
     rk \<leftarrow> tok_opt r;
     (case rk of
        None \<Rightarrow> ret ()
      | Some k \<Rightarrow> do {
          undef \<leftarrow> scope_get (has (js ''undefined''));
          provided (id_in [''(number)'', ''(string)'', ''{'', ''(regexp)''] k \<or> has_value ''null'' k \<or>
              (has_value ''undefined'' k \<and> \<not> undef) \<or> k_unary k \<or>
              (has_id ''['' k \<and> \<not> val_set (k_right k)) \<or> (has_id ''(template)'' k \<and> \<not> k_tag k))
            (report_here ''E060'' []);
          provided (has_id ''function'' k) (report_here ''W139'' [])
        });
     ret (Some t)
   }"

section \<open>Arithmetic\<close>

definition plus_led :: "recs \<Rightarrow> nat \<Rightarrow> nat \<Rightarrow> nat \<Rightarrow> nat option parser" where
  "plus_led R context t left = do {
     infix_start False;
     n \<leftarrow> next_tok;
     set_left t left;
     r \<leftarrow> r_expr R context 130;
     set_right t r;
     lk \<leftarrow> tok_at left;
     rk \<leftarrow> tok_opt r;
     (case rk of
        Some k \<Rightarrow>
          if has_id ''(string)'' lk \<and> has_id ''(string)'' k then do {
            let v = (case k_value lk of Some a \<Rightarrow> a | None \<Rightarrow> []) @ (case k_value k of Some b \<Rightarrow> b | None \<Rightarrow> []);
            upd_token left (\<lambda>x. x\<lparr>k_value := Some v, k_character := k_character k\<rparr>);
            on \<leftarrow> opt ''scripturl'';
            provided (\<not> on \<and> script_url v) (report_tok ''W050'' left []);
            ret (Some left)
          }
          else do {
            provided (id_in [''+'', ''++''] n) (report_opt ''W007'' r []);
            ret (Some t)
          }
      | None \<Rightarrow> do {
          provided (id_in [''+'', ''++''] n) (report_opt ''W007'' r []);
          ret (Some t)
        })
   }"

definition minus_led :: "recs \<Rightarrow> nat \<Rightarrow> nat \<Rightarrow> nat \<Rightarrow> nat option parser" where
  "minus_led R context t left = do {
     infix_start False;
     n \<leftarrow> next_tok;
     set_left t left;
     r \<leftarrow> r_expr R context 130;
     set_right t r;
     provided (id_in [''-'', ''--''] n) (report_opt ''W006'' r []);
     ret (Some t)
   }"

section \<open>Prefix operators\<close>

text \<open>The default of \<open>prefix\<close>: \<open>++\<close>, \<open>--\<close> and \<open>void\<close>.\<close>

definition prefix_nud :: "recs \<Rightarrow> nat \<Rightarrow> nat \<Rightarrow> nat option parser" where
  "prefix_nud R context t = do {
     set_unary t;
     r \<leftarrow> r_expr R context 150;
     set_right t r;
     k \<leftarrow> tok_at t;
     provided (id_in [''++'', ''--''] k) (do {
       on \<leftarrow> opt ''plusplus'';
       provided on (report_tok ''W016'' t [id_arg k]);
       (case r of Some x \<Rightarrow> do { checkLeftSideAssign context x t False; ret () } | None \<Rightarrow> ret ())
     });
     ret (Some t)
   }"

text \<open>\<open>+\<close> and \<open>-\<close>, which are confusing before another sign.\<close>

definition sign_nud :: "recs \<Rightarrow> string list \<Rightarrow> string \<Rightarrow> nat \<Rightarrow> nat \<Rightarrow> nat option parser" where
  "sign_nud R signs code context t = do {
     n \<leftarrow> next_tok;
     set_unary t;
     r \<leftarrow> r_expr R context 150;
     set_right t r;
     provided (id_in signs n) (report_opt code r []);
     ret (Some t)
   }"

definition forgive :: "nat \<Rightarrow> unit parser" where
  "forgive t = scope_op (\<lambda>E. upd_tok t (\<lambda>k. k\<lparr>t_forgiveUndef := True\<rparr>))"

definition delete_nud :: "recs \<Rightarrow> nat \<Rightarrow> nat \<Rightarrow> nat option parser" where
  "delete_nud R context t = do {
     set_unary t;
     p \<leftarrow> r_expr R context 150;
     pk \<leftarrow> tok_opt p;
     (case (p, pk) of
        (Some x, Some k) \<Rightarrow> do {
          provided (\<not> id_in [''.'', ''[''] k) (report_here ''W051'' []);
          set_first t p;
          strict \<leftarrow> lint_state isStrict;
          provided (k_identifier k \<and> \<not> strict) (forgive x)
        }
      | _ \<Rightarrow> ret ());
     ret (Some t)
   }"

definition tilde_nud :: "recs \<Rightarrow> nat \<Rightarrow> nat \<Rightarrow> nat option parser" where
  "tilde_nud R context t = do {
     on \<leftarrow> opt ''bitwise'';
     provided on (report_tok ''W016'' t [str_arg ''~'']);
     set_unary t;
     r \<leftarrow> r_expr R context 150;
     set_right t r;
     ret (Some t)
   }"

definition bang :: "string list" where
  "bang = [''<'', ''<='', ''=='', ''==='', ''!=='', ''!='', ''>'', ''>='', ''+'', ''-'', ''*'', ''/'', ''%'']"

definition not_nud :: "recs \<Rightarrow> nat \<Rightarrow> nat \<Rightarrow> nat option parser" where
  "not_nud R context t = do {
     set_unary t;
     r \<leftarrow> r_expr R context 150;
     set_right t r;
     rk \<leftarrow> tok_opt r;
     (case rk of
        None \<Rightarrow> quit_tok ''E041'' t
      | Some k \<Rightarrow> provided (id_in bang k) (report_tok ''W018'' t [str_arg ''!'']));
     ret (Some t)
   }"

definition typeof_nud :: "recs \<Rightarrow> nat \<Rightarrow> nat \<Rightarrow> nat option parser" where
  "typeof_nud R context t = do {
     set_unary t;
     p \<leftarrow> r_expr R context 150;
     set_first t p;
     set_right t p;
     pk \<leftarrow> tok_opt p;
     (case (p, pk) of
        (Some x, Some k) \<Rightarrow> provided (k_identifier k) (forgive x)
      | _ \<Rightarrow> quit_tok ''E041'' t);
     ret (Some t)
   }"

end
