(* ===== verification/ParsePattern.thy ===== *)
theory ParsePattern
  imports ParseOps
begin

text \<open>
  Destructuring patterns (\<^verbatim>\<open>jshint.js\<close>): \<open>destructuringPattern\<close> and its recursive part, with the inner
  functions \<open>nextInnerDE\<close> and \<open>assignmentProperty\<close>, and \<open>destructuringPatternMatch\<close>.

  A pattern is parsed for a declaration or for an assignment; the result lists the names it binds,
  each with its token. The place left out in \<open>[, a]\<close> has no name.
\<close>

type_synonym pattern_ids = "(jstr option \<times> nat) list"

section \<open>Elements\<close>

definition assignment_target :: "recs \<Rightarrow> nat \<Rightarrow> pattern_ids parser" where
  "assignment_target R context = do {
     t \<leftarrow> r_expr R context 20;
     (case t of
        None \<Rightarrow> ret []
      | Some x \<Rightarrow> do {
          checkLeftSideAssign context x x False;
          k \<leftarrow> tok_at x;
          c \<leftarrow> curr_ref;
          ret (case (if k_identifier k then nonempty (k_value k) else None) of
                 Some v \<Rightarrow> [(Some v, c)]
               | None \<Rightarrow> [])
        })
   }"

definition binding_target :: "nat \<Rightarrow> pattern_ids parser" where
  "binding_target context = do {
     ident \<leftarrow> parse_identifier context False;
     c \<leftarrow> curr_ref;
     ret (case ident of Some v \<Rightarrow> [(Some v, c)] | None \<Rightarrow> [])
   }"

primrec nextInnerDE :: "nat \<Rightarrow> recs \<Rightarrow> nat \<Rightarrow> bool \<Rightarrow> pattern_ids parser" where
  "nextInnerDE 0 R context isAssignment = do { out_of_fuel; ret [] }"
| "nextInnerDE (Suc n) R context isAssignment = do {
     k \<leftarrow> next_tok;
     if checkPunctuators k [''['', ''{''] then r_pat R context False isAssignment
     else if checkPunctuator k '','' then do { c \<leftarrow> curr_ref; ret [(None, c)] }
     else if checkPunctuator k ''('' then do {
       advance_id ''('';
       ids \<leftarrow> nextInnerDE n R context isAssignment;
       advance_id '')'';
       ret ids
     }
     else if isAssignment then assignment_target R context
     else binding_target context
   }"

section \<open>Properties\<close>

text \<open>The name of a property, which after the rest operator may be an expression.\<close>

definition rest_name :: "recs \<Rightarrow> nat \<Rightarrow> jstr option parser" where
  "rest_name R context = do {
     needs inES9 (report_next ''W119'' [str_arg ''object rest property'', str_arg ''9'']);
     k \<leftarrow> next_tok;
     if is_type ''(identifier)'' k then parse_identifier context False
     else do {
       e \<leftarrow> r_expr R context 10;
       (case e of
          None \<Rightarrow> type_error
        | Some x \<Rightarrow> do { xk \<leftarrow> tok_at x; report_tok ''E030'' x [value_arg xk] });
       ret None
     }
   }"

definition named_property :: "recs \<Rightarrow> nat \<Rightarrow> bool \<Rightarrow> pattern_ids parser" where
  "named_property R context isAssignment = do {
     isRest \<leftarrow> spreadrest (r_fuel R) ''rest'';
     name \<leftarrow> (if isRest then rest_name R context else parse_identifier context False);
     k \<leftarrow> next_tok;
     ids \<leftarrow> (if \<not> isRest \<and> checkPunctuator k '':'' then do {
              advance_id '':'';
              nextInnerDE (r_fuel R) R context isAssignment
            }
            else (case name of
                    None \<Rightarrow> ret []
                  | Some v \<Rightarrow> do {
                      c \<leftarrow> curr_ref;
                      provided isAssignment (do { checkLeftSideAssign context c c False; ret () });
                      ret [(Some v, c)]
                    }));
     k2 \<leftarrow> next_tok;
     provided (isRest \<and> checkPunctuator k2 '','') (report_next ''W130'' []);
     ret ids
   }"

definition assignmentProperty :: "recs \<Rightarrow> nat \<Rightarrow> bool \<Rightarrow> pattern_ids parser" where
  "assignmentProperty R context isAssignment = do {
     k \<leftarrow> next_tok;
     if checkPunctuator k ''['' then do {
       advance_id ''['';
       r_expr R context 10;
       advance_id '']'';
       advance_id '':'';
       nextInnerDE (r_fuel R) R context isAssignment
     }
     else if has_id ''(string)'' k \<or> has_id ''(number)'' k then do {
       advance;
       advance_id '':'';
       nextInnerDE (r_fuel R) R context isAssignment
     }
     else named_property R context isAssignment
   }"

section \<open>Patterns\<close>

text \<open>A default value, after its \<open>=\<close>.\<close>

definition report_undefined_value :: "nat \<Rightarrow> nat option \<Rightarrow> unit parser" where
  "report_undefined_value opTok v = do {
     vk \<leftarrow> tok_opt v;
     opk \<leftarrow> tok_at opTok;
     provided (isIdentifier vk ''undefined'') (report_tok ''W080'' opTok [value_arg opk])
   }"

definition pattern_default :: "recs \<Rightarrow> nat \<Rightarrow> unit parser" where
  "pattern_default R context = do {
     opTok \<leftarrow> prev_ref;
     v \<leftarrow> r_expr R context 10;
     report_undefined_value opTok v
   }"

primrec array_pattern :: "nat \<Rightarrow> recs \<Rightarrow> nat \<Rightarrow> bool \<Rightarrow> bool \<Rightarrow> pattern_ids \<Rightarrow> pattern_ids parser" where
  "array_pattern 0 R context isAssignment afterRest ids = do { out_of_fuel; ret ids }"
| "array_pattern (Suc n) R context isAssignment afterRest ids = do {
     k \<leftarrow> next_tok;
     halt \<leftarrow> gets stopped;
     if halt \<or> checkPunctuator k '']'' then ret ids
     else do {
       isRest \<leftarrow> spreadrest (r_fuel R) ''rest'';
       new \<leftarrow> nextInnerDE (r_fuel R) R context isAssignment;
       k1 \<leftarrow> next_tok;
       let w = (isRest \<and> \<not> afterRest \<and> checkPunctuator k1 '','');
       provided w (report_next ''W130'' []);
       provided (\<not> isRest \<and> checkPunctuator k1 ''='') (do {
         p \<leftarrow> prev_tok;
         (if checkPunctuator p ''...'' then advance_id '']'' else advance_id ''='');
         pattern_default R context
       });
       k2 \<leftarrow> next_tok;
       provided (\<not> checkPunctuator k2 '']'') (advance_id '','');
       array_pattern n R context isAssignment (afterRest \<or> w) (ids @ new)
     }
   }"

primrec object_pattern :: "nat \<Rightarrow> recs \<Rightarrow> nat \<Rightarrow> bool \<Rightarrow> pattern_ids \<Rightarrow> pattern_ids parser" where
  "object_pattern 0 R context isAssignment ids = do { out_of_fuel; ret ids }"
| "object_pattern (Suc n) R context isAssignment ids = do {
     k \<leftarrow> next_tok;
     halt \<leftarrow> gets stopped;
     if halt \<or> checkPunctuator k ''}'' then ret ids
     else do {
       new \<leftarrow> assignmentProperty R context isAssignment;
       k1 \<leftarrow> next_tok;
       provided (checkPunctuator k1 ''='') (do { advance_id ''=''; pattern_default R context });
       k2 \<leftarrow> next_tok;
       provided (\<not> checkPunctuator k2 ''}'') (advance_id '','');
       object_pattern n R context isAssignment (ids @ new)
     }
   }"

text \<open>
  \<open>destructuringPatternRecursive\<close>. After a trailing comma the loop ends at its head, where the source
  leaves it.
\<close>

definition destructuringPatternRecursive :: "recs \<Rightarrow> nat \<Rightarrow> bool \<Rightarrow> bool \<Rightarrow> pattern_ids parser" where
  "destructuringPatternRecursive R context openingParsed isAssignment = do {
     first \<leftarrow> (if openingParsed then curr_tok else next_tok);
     if checkPunctuator first ''['' then do {
       provided (\<not> openingParsed) (advance_id ''['');
       k \<leftarrow> next_tok;
       provided (checkPunctuator k '']'') (report_curr ''W137'' []);
       ids \<leftarrow> array_pattern (r_fuel R) R context isAssignment False [];
       advance_id '']'';
       ret ids
     }
     else if checkPunctuator first ''{'' then do {
       provided (\<not> openingParsed) (advance_id ''{'');
       k \<leftarrow> next_tok;
       provided (checkPunctuator k ''}'') (report_curr ''W137'' []);
       ids \<leftarrow> object_pattern (r_fuel R) R context isAssignment [];
       advance_id ''}'';
       ret ids
     }
     else ret []
   }"

definition destructuringPattern :: "recs \<Rightarrow> nat \<Rightarrow> bool \<Rightarrow> bool \<Rightarrow> pattern_ids parser" where
  "destructuringPattern R context openingParsed isAssignment = do {
     needs (\<lambda>st. inES6 st False) (report_curr ''W104''
       [str_arg (if isAssignment then ''destructuring assignment'' else ''destructuring binding''), str_arg ''6'']);
     destructuringPatternRecursive R (ctx_without context ctx_noin) openingParsed isAssignment
   }"

section \<open>Names and values\<close>

text \<open>\<open>value.first\<close> as an array; \<open>None\<close> if there is none.\<close>

definition first_values :: "tok \<Rightarrow> nat option list option" where
  "first_values k =
     (case k_first k of VTok t \<Rightarrow> Some [Some t] | VList ts \<Rightarrow> Some ts | _ \<Rightarrow> None)"

primrec match_names :: "nat list \<Rightarrow> nat option list \<Rightarrow> unit parser" where
  "match_names [] vs = ret ()"
| "match_names (t # ts) vs = do {
     k \<leftarrow> tok_at t;
     (case (vs, k_first k) of
        (Some v # _, _) \<Rightarrow> set_first t (Some v)
      | (_, VTok f) \<Rightarrow> do { fk \<leftarrow> tok_at f; report_tok ''W080'' f [value_arg fk] }
      | _ \<Rightarrow> ret ());
     match_names ts (tl vs)
   }"

definition destructuringPatternMatch :: "nat list \<Rightarrow> nat \<Rightarrow> unit parser" where
  "destructuringPatternMatch ts v = do {
     k \<leftarrow> tok_at v;
     (case first_values k of None \<Rightarrow> ret () | Some vs \<Rightarrow> match_names ts vs)
   }"

end
