(* ===== verification/ParseBlock.thy ===== *)
theory ParseBlock
  imports ParsePattern
begin

text \<open>
  Statements, directive prologues and blocks (\<^verbatim>\<open>jshint.js\<close>): \<open>statement\<close>, \<open>statements\<close>, \<open>directives\<close>,
  \<open>block\<close> and the checks of the metrics.
\<close>

section \<open>Indentation\<close>

text \<open>
  \<open>state.option.indent\<close> as the number it is added as. A directive and the default give a number; a
  caller who passes a text would have it appended, which is left out.
\<close>

definition indent_step :: "int parser" where
  "indent_step = do {
     v \<leftarrow> opt_value ''indent'';
     ret (case v of JNum n \<Rightarrow> n | JBool True \<Rightarrow> 1 | _ \<Rightarrow> 0)
   }"

definition indent_by :: "int \<Rightarrow> unit parser" where
  "indent_by d = upd (\<lambda>S. S\<lparr>p_indent := p_indent S + d\<rparr>)"

definition indent_more :: "unit parser" where
  "indent_more = do { d \<leftarrow> indent_step; indent_by d }"

definition indent_less :: "unit parser" where
  "indent_less = do { d \<leftarrow> indent_step; indent_by (- d) }"

definition right_of_indent :: "int \<Rightarrow> tok \<Rightarrow> bool" where
  "right_of_indent i k = (case k_from k of None \<Rightarrow> False | Some f \<Rightarrow> i < int f)"

text \<open>
  The number of columns from the indentation to the next token: as many steps are enough for the loop if
  the option is positive. Otherwise it does not end.
\<close>

definition indent_gap :: "pst \<Rightarrow> nat" where
  "indent_gap S = (case k_from (p_store S (p_next S)) of None \<Rightarrow> 0 | Some f \<Rightarrow> nat (int f - p_indent S))"

definition indent_deeper :: "unit parser" where
  "indent_deeper = do {
     n \<leftarrow> gets indent_gap;
     while_loop (Suc n) (do {
       i \<leftarrow> gets p_indent;
       k \<leftarrow> next_tok;
       (if right_of_indent i k then do { indent_more; ret True } else ret False)
     })
   }"

section \<open>Metrics\<close>

definition over :: "jsval \<Rightarrow> nat \<Rightarrow> bool" where
  "over v n \<longleftrightarrow> js_less v (int n)"

definition verifyMaxStatementsPerFunction :: "unit parser" where
  "verifyMaxStatementsPerFunction = do {
     v \<leftarrow> opt_value ''maxstatements'';
     F \<leftarrow> funct_get (\<lambda>F. F);
     provided (truthy v \<and> over v (f_statements F))
       (report_opt ''W071'' (f_start F) [JNum (int (f_statements F))])
   }"

definition verifyMaxParametersPerFunction :: "unit parser" where
  "verifyMaxParametersPerFunction = do {
     v \<leftarrow> opt_value ''maxparams'';
     F \<leftarrow> funct_get (\<lambda>F. F);
     provided (case v of JNum m \<Rightarrow> m < int (f_arity F) | _ \<Rightarrow> False)
       (report_opt ''W072'' (f_start F) [JNum (int (f_arity F))])
   }"

text \<open>\<open>maxdepth + 1\<close> compared by \<open>===\<close>.\<close>

definition depth_limit :: "jsval \<Rightarrow> int option" where
  "depth_limit v = (case v of JNum m \<Rightarrow> Some (m + 1) | JBool b \<Rightarrow> Some (if b then 2 else 1) | _ \<Rightarrow> None)"

definition verifyMaxNestedBlockDepthPerFunction :: "unit parser" where
  "verifyMaxNestedBlockDepthPerFunction = do {
     v \<leftarrow> opt_value ''maxdepth'';
     d \<leftarrow> funct_get f_nestedBlockDepth;
     provided (truthy v \<and> 0 < d \<and> depth_limit v = Some d) (report_here ''W073'' [JNum d])
   }"

definition verifyMaxComplexityPerFunction :: "unit parser" where
  "verifyMaxComplexityPerFunction = do {
     v \<leftarrow> opt_value ''maxcomplexity'';
     F \<leftarrow> funct_get (\<lambda>F. F);
     provided (truthy v \<and> over v (f_complexity F))
       (report_opt ''W074'' (f_start F) [JNum (int (f_complexity F))])
   }"

section \<open>Directive prologues\<close>

text \<open>
  The names every object literal inherits. The table of directives is one once a function has been
  left; a store under \<open>__proto__\<close> in it is left out.
\<close>

definition object_prototype :: "string list" where
  "object_prototype =
     [''constructor'', ''__defineGetter__'', ''__defineSetter__'', ''hasOwnProperty'',
      ''__lookupGetter__'', ''__lookupSetter__'', ''isPrototypeOf'', ''propertyIsEnumerable'',
      ''toString'', ''valueOf'', ''__proto__'', ''toLocaleString'']"

definition has_directive :: "jstr \<Rightarrow> bool parser" where
  "has_directive d = gets (\<lambda>S. obj_has (directive (l_state (p_lint S))) d \<or>
     (p_plainDirectives S \<and> named d object_prototype))"

definition put_directive :: "jstr \<Rightarrow> nat \<Rightarrow> unit parser" where
  "put_directive d t = do {
     plain \<leftarrow> gets p_plainDirectives;
     upd_lstate (\<lambda>st. st\<lparr>directive := (if plain then plain_put else obj_put) (directive st) d t\<rparr>)
   }"

definition use_strict :: jstr where
  "use_strict = js ''use strict''"

text \<open>The directive that has just been read.\<close>

definition note_directive :: "unit parser" where
  "note_directive = do {
     c \<leftarrow> curr_ref;
     k \<leftarrow> curr_tok;
     let d = (case k_value k of Some v \<Rightarrow> v | None \<Rightarrow> js ''undefined'');
     seen \<leftarrow> has_directive d;
     strict \<leftarrow> opt_value ''strict'';
     provided (seen \<or> (d = use_strict \<and> strict = JStr (js ''implied''))) (report_tok ''W034'' c [JStr d]);
     es7 \<leftarrow> lint_state inES7;
     F \<leftarrow> funct_get (\<lambda>F. F);
     provided (d = use_strict \<and> es7 \<and> \<not> f_global F \<and> f_simpleParams F = Some False)
       (report_tok ''E065'' c []);
     put_directive d c
   }"

primrec directives_from :: "nat \<Rightarrow> recs \<Rightarrow> nat \<Rightarrow> unit parser" where
  "directives_from 0 R current = out_of_fuel"
| "directives_from (Suc n) R current = do {
     k \<leftarrow> next_tok;
     halt \<leftarrow> gets stopped;
     if halt \<or> \<not> has_id ''(string)'' k then ret ()
     else do {
       following \<leftarrow> peekIgnoreEOL (r_fuel R) 0;
       fk \<leftarrow> tok_at following;
       ck \<leftarrow> tok_at current;
       if \<not> end_of_expr 0 ck fk then ret ()
       else do {
         advance;
         note_directive;
         parseFinalSemicolon following;
         directives_from n R following
       }
     }
   }"

definition directives :: "recs \<Rightarrow> unit parser" where
  "directives R = do {
     n \<leftarrow> next_ref;
     directives_from (r_fuel R) R n;
     strict \<leftarrow> lint_state isStrict;
     provided strict (set_opt ''undef'' (JBool True))
   }"

section \<open>Series of statements\<close>

primrec statements_from :: "nat \<Rightarrow> recs \<Rightarrow> nat \<Rightarrow> nat option list \<Rightarrow> nat option list parser" where
  "statements_from 0 R context xs = do { out_of_fuel; ret xs }"
| "statements_from (Suc n) R context xs = do {
     k \<leftarrow> next_tok;
     halt \<leftarrow> gets stopped;
     if halt \<or> k_reach k \<or> has_id ''(end)'' k then ret xs
     else if has_id '';'' k then do {
       p \<leftarrow> peeked 0;
       provided (\<not> id_in [''('', ''[''] p) (report_here ''W032'' []);
       advance_id '';'';
       statements_from n R context xs
     }
     else do {
       x \<leftarrow> r_stmt R context;
       statements_from n R context (xs @ [x])
     }
   }"

definition statements :: "recs \<Rightarrow> nat \<Rightarrow> nat option list parser" where
  "statements R context = statements_from (r_fuel R) R context []"

section \<open>Blocks\<close>

text \<open>\<open>state.funct["(context)"]["(global)"]\<close>; every function but the global one has a context.\<close>

definition in_global_function :: "bool parser" where
  "in_global_function =
     gets (\<lambda>S. case f_context (cur_funct S) of None \<Rightarrow> False | Some c \<Rightarrow> f_global (p_functs S c))"

definition set_isStrict :: "unit parser" where
  "set_isStrict = do {
     strict \<leftarrow> lint_state isStrict;
     upd_funct (\<lambda>F. F\<lparr>f_isStrict := strict\<rparr>)
   }"

text \<open>The prologue of a function with statements; the result is the copy of the directives.\<close>

definition function_prologue :: "recs \<Rightarrow> (jstr, nat) obj parser" where
  "function_prologue R = do {
     saved \<leftarrow> lint_state directive;
     directives R;
     set_isStrict;
     on \<leftarrow> opt ''strict'';
     outer \<leftarrow> in_global_function;
     strict \<leftarrow> lint_state isStrict;
     provided (on \<and> outer \<and> \<not> obj_has saved use_strict \<and> \<not> strict) (report_here ''E007'' []);
     ret saved
   }"

definition restore_directives :: "(jstr, nat) obj option \<Rightarrow> unit parser" where
  "restore_directives saved =
     (case saved of
        None \<Rightarrow> ret ()
      | Some d \<Rightarrow> do {
          upd_lstate (\<lambda>st. st\<lparr>directive := d\<rparr>);
          upd (\<lambda>S. S\<lparr>p_plainDirectives := True\<rparr>)
        })"

text \<open>What is between the braces: the statements, if there are any, and the copy.\<close>

definition block_body ::
  "recs \<Rightarrow> nat \<Rightarrow> bool \<Rightarrow> bool \<Rightarrow> (nat option list option \<times> (jstr, nat) obj option) parser" where
  "block_body R context ordinary isfunc = do {
     k \<leftarrow> next_tok;
     if \<not> has_id ''}'' k then do {
       indent_more;
       provided (\<not> ordinary) indent_deeper;
       saved \<leftarrow> (if isfunc then do { d \<leftarrow> function_prologue R; ret (Some d) } else ret None);
       xs \<leftarrow> statements R context;
       upd_funct (\<lambda>F. F\<lparr>f_statements := f_statements F + List.length xs\<rparr>);
       indent_less;
       ret (Some xs, saved)
     }
     else do {
       provided isfunc set_isStrict;
       ret (None, None)
     }
   }"

definition braced_block ::
  "recs \<Rightarrow> nat \<Rightarrow> bool \<Rightarrow> bool \<Rightarrow> bool \<Rightarrow> nat option list option parser" where
  "braced_block R context ordinary isfunc isfatarrow = do {
     t \<leftarrow> next_ref;
     old_indent \<leftarrow> gets p_indent;
     advance_id ''{'';
     scope_stack None;
     (xs, saved) \<leftarrow> block_body R context ordinary isfunc;
     advance_to (Some ''}'') (Some t);
     provided isfunc (do {
       scope_op (\<lambda>E. validateParams E isfatarrow);
       restore_directives saved
     });
     scope_unstack;
     upd (\<lambda>S. S\<lparr>p_indent := old_indent\<rparr>);
     ret xs
   }"

text \<open>An expression as the body of a function.\<close>

definition check_return_await :: "nat option \<Rightarrow> unit parser" where
  "check_return_await e = do {
     k \<leftarrow> tok_opt e;
     (case e of
        None \<Rightarrow> type_error
      | Some x \<Rightarrow> provided (isIdentifier k ''await'') (report_tok ''W146'' x []))
   }"

definition expression_block :: "recs \<Rightarrow> nat \<Rightarrow> bool \<Rightarrow> bool \<Rightarrow> unit parser" where
  "expression_block R context stmt' isfatarrow = do {
     scope_stack None;
     moz \<leftarrow> lint_state inMoz;
     provided (stmt' \<and> \<not> isfatarrow \<and> \<not> moz)
       (report_curr ''W118'' [str_arg ''function closure expressions'']);
     provided isfatarrow (scope_op (\<lambda>E. validateParams E True));
     e \<leftarrow> r_expr R context 10;
     on \<leftarrow> opt ''noreturnawait'';
     provided (on \<and> ctx_has context ctx_async) (check_return_await e);
     strictOption \<leftarrow> opt ''strict'';
     outer \<leftarrow> in_global_function;
     strict \<leftarrow> lint_state isStrict;
     provided (strictOption \<and> outer \<and> \<not> strict) (report_here ''E007'' []);
     scope_unstack
   }"

text \<open>A single statement in the place of a block.\<close>

definition capitalised :: "string \<Rightarrow> jstr" where
  "capitalised s =
     (case js s of [] \<Rightarrow> [] | c # r \<Rightarrow> (if 97 \<le> c \<and> c \<le> 122 then c - 32 else c) # r)"

definition check_declaration :: "bool \<Rightarrow> nat option \<Rightarrow> unit parser" where
  "check_declaration supportsFnDecl t =
     (case t of
        None \<Rightarrow> ret ()
      | Some x \<Rightarrow> do {
          k \<leftarrow> tok_at x;
          provided (s_declaration (k_sym k) \<and> \<not> (supportsFnDecl \<and> has_id ''function'' k))
            (report_tok ''E048'' x [JStr (capitalised (case k_id k of Some s \<Rightarrow> s | None \<Rightarrow> []))])
        })"

definition braceless_block :: "recs \<Rightarrow> nat \<Rightarrow> bool \<Rightarrow> nat option list option parser" where
  "braceless_block R context stmt' = do {
     scope_stack None;
     curly \<leftarrow> opt ''curly'';
     n \<leftarrow> next_ref;
     k \<leftarrow> next_tok;
     provided (\<not> stmt' \<or> curly) (report_tok ''W116'' n [str_arg ''{'', value_arg k]);
     verb \<leftarrow> funct_get f_verb;
     c \<leftarrow> curr_tok;
     upd_token n (\<lambda>k. k\<lparr>k_inBracelessBlock := True\<rparr>);
     indent_more;
     x \<leftarrow> r_stmt R context;
     indent_less;
     check_declaration (verb = Some (js ''if'') \<or> has_id ''else'' c) x;
     scope_unstack;
     ret (Some [x])
   }"

definition leaving_verbs :: "string list" where
  "leaving_verbs = [''break'', ''continue'', ''return'', ''throw'']"

definition verb_in :: "string list \<Rightarrow> jstr option \<Rightarrow> bool" where
  "verb_in vs v = (case v of None \<Rightarrow> False | Some s \<Rightarrow> named s vs)"

definition block ::
  "recs \<Rightarrow> nat \<Rightarrow> bool \<Rightarrow> bool \<Rightarrow> bool \<Rightarrow> bool \<Rightarrow> bool \<Rightarrow> nat option list option parser" where
  "block R context ordinary stmt' isfunc isfatarrow iscase = do {
     b \<leftarrow> gets p_inblock;
     upd (\<lambda>S. S\<lparr>p_inblock := ordinary\<rparr>);
     upd_funct (\<lambda>F. F\<lparr>f_nestedBlockDepth := f_nestedBlockDepth F + 1\<rparr>);
     verifyMaxNestedBlockDepthPerFunction;
     k \<leftarrow> next_tok;
     xs \<leftarrow> (if has_id ''{'' k then braced_block R context ordinary isfunc isfatarrow
            else if \<not> ordinary then do {
              (if isfunc then expression_block R context stmt' isfatarrow
               else report_next ''E021'' [str_arg ''{'', value_arg k]);
              ret None
            }
            else braceless_block R context stmt');
     verb \<leftarrow> funct_get f_verb;
     provided (\<not> (verb_in leaving_verbs verb \<and> iscase)) (set_verb None);
     upd (\<lambda>S. S\<lparr>p_inblock := b\<rparr>);
     noempty \<leftarrow> opt ''noempty'';
     provided (ordinary \<and> noempty \<and> (xs = None \<or> xs = Some [])) (report_prev ''W035'' []);
     upd_funct (\<lambda>F. F\<lparr>f_nestedBlockDepth := f_nestedBlockDepth F - 1\<rparr>);
     ret xs
   }"

text \<open>The block of a statement: an ordinary one, or a single statement.\<close>

definition stmt_block :: "recs \<Rightarrow> nat \<Rightarrow> nat option list option parser" where
  "stmt_block R context = block R context True True False False False"

section \<open>A statement\<close>

text \<open>A label: the token of the statement after it.\<close>

definition parse_label :: "nat \<Rightarrow> nat parser" where
  "parse_label t = do {
     k \<leftarrow> tok_at t;
     advance;
     advance_id '':'';
     scope_stack None;
     c \<leftarrow> curr_ref;
     scope_op (\<lambda>E. addLabel E (case k_value k of Some v \<Rightarrow> v | None \<Rightarrow> js ''undefined'') c);
     n \<leftarrow> next_ref;
     nk \<leftarrow> next_tok;
     provided (\<not> s_labelled (k_sym nk) \<and> \<not> has_value ''{'' nk)
       (report_tok ''W028'' n [value_arg k, value_arg nk]);
     ret n
   }"

text \<open>Whether the statement lacks a strict mode directive.\<close>

definition is_function_name :: "tok option \<Rightarrow> bool" where
  "is_function_name k = isIdentifier k ''function''"

definition left_of :: "tok \<Rightarrow> nat option" where
  "left_of k = (case k_left k of VTok l \<Rightarrow> Some l | _ \<Rightarrow> None)"

definition check_missing_strict :: "nat option \<Rightarrow> unit parser" where
  "check_missing_strict r = do {
     rk \<leftarrow> tok_opt r;
     (case rk of
        None \<Rightarrow> ret ()
      | Some k \<Rightarrow> do {
          lk \<leftarrow> tok_opt (left_of k);
          strict \<leftarrow> lint_state isStrict;
          missing \<leftarrow> lint_state stmtMissingStrict;
          provided (\<not> is_function_name rk \<and> \<not> (is_type ''(punctuator)'' k \<and> is_function_name lk) \<and>
              \<not> strict \<and> missing) (report_here ''E007'' [])
        })
   }"

text \<open>The end of an expression statement.\<close>

definition end_statement :: "recs \<Rightarrow> nat \<Rightarrow> nat option \<Rightarrow> unit parser" where
  "end_statement R t r = do {
     rk \<leftarrow> tok_opt r;
     lk \<leftarrow> tok_opt (case rk of Some k \<Rightarrow> left_of k | None \<Rightarrow> None);
     expr \<leftarrow> opt ''expr'';
     nonew \<leftarrow> opt ''nonew'';
     (if \<not> expr \<and> (case rk of Some k \<Rightarrow> \<not> k_exps k | None \<Rightarrow> True) then report_curr ''W030'' []
      else provided (nonew \<and> (case (rk, lk) of (Some k, Some l) \<Rightarrow> has_id ''('' k \<and> has_id ''new'' l | _ \<Rightarrow> False))
             (report_tok ''W031'' t []));
     parseFinalSemicolon t
   }"

definition unlabelled_statement :: "recs \<Rightarrow> nat \<Rightarrow> nat \<Rightarrow> int \<Rightarrow> nat option parser" where
  "unlabelled_statement R context t i = do {
     r \<leftarrow> r_expr R context 0;
     check_missing_strict r;
     k \<leftarrow> tok_at t;
     provided (\<not> k_block k) (end_statement R t r);
     upd (\<lambda>S. S\<lparr>p_indent := i\<rparr>);
     ret r
   }"

definition future_word :: "tok \<Rightarrow> bool" where
  "future_word k = (case s_meta (k_sym k) of Some m \<Rightarrow> m_isFutureReservedWord m | None \<Rightarrow> False)"

definition statement :: "recs \<Rightarrow> nat \<Rightarrow> nat option parser" where
  "statement R context0 = do {
     let context = ctx_with context0 ctx_initial;
     i \<leftarrow> gets p_indent;
     t0 \<leftarrow> next_ref;
     k0 \<leftarrow> next_tok;
     if has_id '';'' k0 then do { advance_id '';''; ret None }
     else do {
       res \<leftarrow> isReserved context k0;
       let tolerated = (res \<and> future_word k0 \<and> \<not> s_fud (k_sym k0));
       provided tolerated (report_tok ''W024'' t0 [id_arg k0]);
       labelled \<leftarrow> (if k_identifier k0 \<and> (\<not> res \<or> tolerated)
                    then do { p \<leftarrow> peeked 0; ret (has_id '':'' p) } else ret False);
       t \<leftarrow> (if labelled then parse_label t0 else ret t0);
       k \<leftarrow> tok_at t;
       r \<leftarrow> (if has_id ''{'' k then do {
              verb \<leftarrow> funct_get f_verb;
              c \<leftarrow> curr_tok;
              block R context True True False False (verb = Some (js ''case'') \<and> has_value '':'' c);
              ret None
            }
            else unlabelled_statement R context t i);
       provided labelled scope_unstack;
       ret r
     }
   }"

end
