(* ===== verification/ParseFunction.thy ===== *)
theory ParseFunction
  imports ParseBlock
begin

text \<open>
  Functions (\<^verbatim>\<open>jshint.js\<close>): the parameters (\<open>functionparams\<close>), and \<open>doFunction\<close>, which makes the functor
  of a function, opens its scopes, and parses its parameters and its body.
\<close>

section \<open>Parameters\<close>

text \<open>
  A name a caller gives: none, a text, or the expression of a computed property name. No caller
  gives \<open>classExprBinding\<close>.
\<close>

datatype prop_name = NoName | TextName jstr | ComputedName nat

record fun_options =
  o_name :: prop_name
  o_statement :: "nat option"
  o_generator :: bool
  o_arrow :: bool
  o_isMethod :: bool
  o_ignoreLoopFunc :: bool
  o_loneArg :: "nat option"
  o_parsedOpening :: bool

definition no_options :: fun_options where
  "no_options =
     \<lparr>o_name = NoName, o_statement = None, o_generator = False, o_arrow = False, o_isMethod = False,
      o_ignoreLoopFunc = False, o_loneArg = None, o_parsedOpening = False\<rparr>"

record params_info =
  pi_arity :: nat
  pi_params :: "jstr list"
  pi_isSimple :: bool

text \<open>The names one parameter binds, with their tokens, and whether it is a pattern.\<close>

definition skip_parameter :: "nat \<Rightarrow> unit parser" where
  "skip_parameter n = while_loop n (do {
     k \<leftarrow> next_tok;
     (if checkPunctuators k ['','', '')''] then ret False else do { advance; ret True })
   })"

definition param_names :: "recs \<Rightarrow> nat \<Rightarrow> ((jstr \<times> nat) list \<times> bool) parser" where
  "param_names R context = do {
     k \<leftarrow> next_tok;
     if id_in [''{'', ''[''] k then do {
       ids \<leftarrow> destructuringPattern R context False False;
       ret (List.map_filter (\<lambda>(v, t). case nonempty v of Some s \<Rightarrow> Some (s, t) | None \<Rightarrow> None) ids, True)
     }
     else do {
       ident \<leftarrow> parse_identifier context False;
       c \<leftarrow> curr_ref;
       (case ident of
          Some v \<Rightarrow> ret ([(v, c)], False)
        | None \<Rightarrow> do { skip_parameter (r_fuel R); ret ([], False) })
     }
   }"

definition param_default :: "recs \<Rightarrow> nat \<Rightarrow> bool \<Rightarrow> bool \<Rightarrow> bool parser" where
  "param_default R context pastDefault pastRest = do {
     k \<leftarrow> next_tok;
     provided (pastDefault \<and> \<not> has_id ''='' k) (report_curr ''W138'' []);
     if has_id ''='' k then do {
       needs (\<lambda>st. inES6 st False) (report_next ''W119'' [str_arg ''default parameters'', str_arg ''6'']);
       provided pastRest (report_next ''E062'' []);
       advance_id ''='';
       r_expr R context 10;
       ret True
     }
     else ret pastDefault
   }"

definition param_comma :: "bool \<Rightarrow> unit parser" where
  "param_comma pastRest = do {
     k \<leftarrow> next_tok;
     provided (has_id '','' k) (do {
       provided pastRest (report_next ''W131'' []);
       advance_id '','';
       checkComma False True;
       ret ()
     })
   }"

text \<open>The loop over the parameters; \<open>patterns\<close>: some parameter was a pattern.\<close>

primrec params_from ::
  "nat \<Rightarrow> recs \<Rightarrow> nat \<Rightarrow> nat \<Rightarrow> jstr list \<Rightarrow> bool \<Rightarrow> bool \<Rightarrow> nat \<Rightarrow> params_info option parser" where
  "params_from 0 R context arity ids patterns pastDefault opening = do { out_of_fuel; ret None }"
| "params_from (Suc n) R context arity ids patterns pastDefault opening = do {
     pastRest \<leftarrow> spreadrest (r_fuel R) ''rest'';
     (new, isPattern) \<leftarrow> param_names R context;
     pastDefault1 \<leftarrow> param_default R context pastDefault pastRest;
     for_each (\<lambda>(v, t). scope_addParam v t None) new;
     param_comma pastRest;
     k \<leftarrow> next_tok;
     halt \<leftarrow> gets stopped;
     if halt then ret None
     else if has_id '')'' k then do {
       ck \<leftarrow> curr_tok;
       provided (has_id '','' ck) (needs inES8 (report_curr ''W119''
         [str_arg ''Trailing comma in function parameters'', str_arg ''8'']));
       advance_to (Some '')'') (Some opening);
       ret (Some \<lparr>pi_arity = Suc arity, pi_params = ids @ map fst new,
         pi_isSimple = (\<not> (patterns \<or> isPattern) \<and> \<not> pastRest \<and> \<not> pastDefault1)\<rparr>)
     }
     else params_from n R context (Suc arity) (ids @ map fst new) (patterns \<or> isPattern) pastDefault1 opening
   }"

definition all_params :: "recs \<Rightarrow> nat \<Rightarrow> bool \<Rightarrow> params_info option parser" where
  "all_params R context parsedOpening = do {
     opening \<leftarrow> next_ref;
     provided (\<not> parsedOpening) (advance_id ''('');
     k \<leftarrow> next_tok;
     (if has_id '')'' k then do { advance_id '')''; ret None }
      else params_from (r_fuel R) R context 0 [] False False opening)
   }"

definition functionparams :: "recs \<Rightarrow> nat \<Rightarrow> fun_options \<Rightarrow> params_info option parser" where
  "functionparams R context opts = do {
     lone \<leftarrow> tok_opt (o_loneArg opts);
     (case (o_loneArg opts, lone) of
        (Some t, Some k) \<Rightarrow>
          (if k_identifier k then do {
             let v = (case k_value k of Some v \<Rightarrow> v | None \<Rightarrow> js ''undefined'');
             scope_addParam v t None;
             ret (Some \<lparr>pi_arity = 1, pi_params = [v], pi_isSimple = True\<rparr>)
           }
           else all_params R context (o_parsedOpening opts))
      | _ \<Rightarrow> all_params R context (o_parsedOpening opts))
   }"

section \<open>Functions\<close>

definition function_context :: "bool \<Rightarrow> fun_options \<Rightarrow> nat \<Rightarrow> nat" where
  "function_context isAsync opts context =
     (let c1 = ctx_without (ctx_without context ctx_noin) ctx_tryClause;
          c2 = (if isAsync then ctx_with c1 ctx_async else ctx_without c1 ctx_async);
          c3 = (if o_generator opts then ctx_with c2 ctx_yield
                else if \<not> o_arrow opts then ctx_without c2 ctx_yield else c2)
      in ctx_without c3 ctx_preAsync)"

text \<open>A new functor becomes \<open>state.funct\<close>; the result is its number and that of its context.\<close>

definition enter_function :: "bool \<Rightarrow> fun_options \<Rightarrow> (nat \<times> nat) parser" where
  "enter_function isAsync opts = do {
     inferred \<leftarrow> names_infer;
     n \<leftarrow> next_ref;
     k \<leftarrow> next_tok;
     parent \<leftarrow> gets p_funct;
     f \<leftarrow> gets p_functions;
     let name = (case o_name opts of
            ComputedName t \<Rightarrow> None
          | TextName (c # s) \<Rightarrow> Some (c # s)
          | _ \<Rightarrow> Some inferred);
     upd (\<lambda>S. S\<lparr>p_functs := (p_functs S)(f := (functor_of name (Some (n, k)))
            \<lparr>f_statement := o_statement opts, f_context := Some parent, f_arrow := o_arrow opts,
             f_method := o_isMethod opts, f_async := isAsync\<rparr>),
       p_functions := Suc f, p_funct := f\<rparr>);
     ret (f, parent)
   }"

definition function_scopes :: "fun_options \<Rightarrow> unit parser" where
  "function_scopes opts = do {
     c \<leftarrow> curr_ref;
     scope_stack (Some ''functionouter'');
     (case o_name opts of
        TextName (x # s) \<Rightarrow>
          provided (\<not> o_isMethod opts) (scope_op (\<lambda>E. block_add (x # s) ''function'' c False False))
      | _ \<Rightarrow> ret ());
     provided (\<not> o_arrow opts) (scope_op (\<lambda>E. funct_add (js ''arguments'') ''var'' c False));
     scope_stack (Some ''functionparams'')
   }"

definition note_params :: "params_info option \<Rightarrow> unit parser" where
  "note_params i =
     (case i of
        Some p \<Rightarrow> do {
          upd_funct (\<lambda>F. F\<lparr>f_params := Some (pi_params p), f_simpleParams := Some (pi_isSimple p),
            f_arity := pi_arity p\<rparr>);
          verifyMaxParametersPerFunction
        }
      | None \<Rightarrow> upd_funct (\<lambda>F. F\<lparr>f_params := Some [], f_arity := 0, f_simpleParams := Some True\<rparr>))"

definition join_comma :: "jstr list \<Rightarrow> jstr" where
  "join_comma ns = (case ns of [] \<Rightarrow> [] | n # r \<Rightarrow> n @ concat (map (\<lambda>s. js '', '' @ s) r))"

text \<open>The functor is left: its checks, the options of the surroundings, its scopes.\<close>

definition leave_function ::
  "(string \<Rightarrow> jsval) \<Rightarrow> (string \<Rightarrow> bool) \<Rightarrow> fun_options \<Rightarrow> unit parser" where
  "leave_function oldOption oldIgnored opts = do {
     noyield \<leftarrow> opt ''noyield'';
     F \<leftarrow> funct_get (\<lambda>F. F);
     provided (\<not> noyield \<and> o_generator opts \<and> \<not> f_yielded F) (report_curr ''W124'' []);
     verifyMaxStatementsPerFunction;
     verifyMaxComplexityPerFunction;
     u \<leftarrow> opt_value ''unused'';
     upd_funct (\<lambda>F. F\<lparr>f_unusedOption := u\<rparr>);
     upd_lstate (\<lambda>st. st\<lparr>option := oldOption, ignored := oldIgnored\<rparr>);
     k \<leftarrow> curr_tok;
     upd_funct (\<lambda>F. F\<lparr>f_last := k_line k, f_lastcharacter := k_character k\<rparr>);
     scope_unstack;
     scope_unstack
   }"

text \<open>A function in a loop that uses variables of the surroundings.\<close>

definition check_loop_function :: "nat \<Rightarrow> nat \<Rightarrow> fun_options \<Rightarrow> unit parser" where
  "check_loop_function f token opts = do {
     loopfunc \<leftarrow> opt ''loopfunc'';
     loopage \<leftarrow> funct_get f_loopage;
     outer \<leftarrow> gets (\<lambda>S. f_outerMutables (p_functs S f));
     provided (\<not> o_ignoreLoopFunc opts \<and> \<not> loopfunc \<and> loopage \<noteq> 0)
       (case outer of None \<Rightarrow> ret () | Some ns \<Rightarrow> report_tok ''W083'' token [JStr (join_comma ns)])
   }"

text \<open>The parameters and the body, between their scopes.\<close>

definition function_parts :: "recs \<Rightarrow> nat \<Rightarrow> fun_options \<Rightarrow> unit parser" where
  "function_parts R context opts = do {
     function_scopes opts;
     info \<leftarrow> functionparams R context opts;
     note_params info;
     provided (o_arrow opts) (do {
       needs (\<lambda>st. inES6 st True)
         (report_curr ''W119'' [str_arg ''arrow function syntax (=>)'', str_arg ''6'']);
       provided (o_loneArg opts = None) (advance_id ''=>'')
     });
     block R (if o_arrow opts then ctx_without context ctx_yield else context) False True True (o_arrow opts) False;
     ret ()
   }"

text \<open>
  \<open>doFunction\<close>; the result is the number of the functor. The new objects for the options and the
  ignored warnings inherit from the old ones, which are put back at the end.
\<close>

definition doFunction :: "recs \<Rightarrow> nat \<Rightarrow> fun_options \<Rightarrow> nat parser" where
  "doFunction R context0 opts = do {
     oldOption \<leftarrow> lint_state option;
     oldIgnored \<leftarrow> lint_state ignored;
     let isAsync = ctx_has context0 ctx_preAsync;
     (f, parent) \<leftarrow> enter_function isAsync opts;
     token \<leftarrow> curr_ref;
     function_parts R (function_context isAsync opts context0) opts;
     leave_function oldOption oldIgnored opts;
     upd (\<lambda>S. S\<lparr>p_funct := parent\<rparr>);
     check_loop_function f token opts;
     ret f
   }"

end
