(* ===== verification/ParseObject.thy ===== *)
theory ParseObject
  imports ParseFunction
begin

text \<open>
  Property names, object literals and class bodies (\<^verbatim>\<open>jshint.js\<close>): \<open>propertyName\<close>,
  \<open>computedPropertyName\<close>, \<open>saveProperty\<close>, \<open>saveAccessor\<close>, \<open>checkProperties\<close>, \<open>countMember\<close>, the
  denotation of the opening brace, \<open>classBody\<close>, \<open>doMethod\<close> and the two denotations of \<open>class\<close>.
\<close>

section \<open>Names of properties\<close>

definition name_of_value :: "jstr option \<Rightarrow> prop_name" where
  "name_of_value v = (case v of None \<Rightarrow> NoName | Some s \<Rightarrow> TextName s)"

text \<open>A name as a condition, as a key of a table, and as the argument of a report.\<close>

definition has_name :: "prop_name \<Rightarrow> bool" where
  "has_name n = (case n of NoName \<Rightarrow> False | TextName s \<Rightarrow> s \<noteq> [] | ComputedName t \<Rightarrow> True)"

definition name_key :: "prop_name \<Rightarrow> jstr" where
  "name_key n =
     (case n of NoName \<Rightarrow> js ''undefined'' | TextName s \<Rightarrow> s | ComputedName t \<Rightarrow> js ''[object Object]'')"

definition name_arg :: "prop_name \<Rightarrow> jsval" where
  "name_arg n = (case n of TextName s \<Rightarrow> JStr s | _ \<Rightarrow> JUndef)"

definition propertyName :: "nat \<Rightarrow> jstr option parser" where
  "propertyName context = do {
     i \<leftarrow> optionalidentifier context True;
     k \<leftarrow> next_tok;
     v \<leftarrow> (case nonempty i of
            Some s \<Rightarrow> ret (Some s)
          | None \<Rightarrow>
              if has_id ''(string)'' k \<or> has_id ''(number)'' k then do { advance; ret (k_value k) }
              else ret i);
     provided (v = Some (js ''hasOwnProperty'')) (report_here ''W001'' []);
     ret v
   }"

definition computedPropertyName :: "recs \<Rightarrow> nat \<Rightarrow> nat option parser" where
  "computedPropertyName R context = do {
     advance_id ''['';
     c \<leftarrow> curr_ref;
     upd_symbol c (\<lambda>x. x\<lparr>s_delim := True, s_lbp := Some 0\<rparr>);
     needs (\<lambda>st. inES6 st False) (report_tok ''W119'' c [str_arg ''computed property names'', str_arg ''6'']);
     v \<leftarrow> r_expr R (ctx_without context ctx_noin) 10;
     advance_id '']'';
     ret v
   }"

definition name_of_token :: "nat option \<Rightarrow> prop_name" where
  "name_of_token t = (case t of None \<Rightarrow> NoName | Some n \<Rightarrow> ComputedName n)"

text \<open>\<open>member\<close> is an object literal, \<open>membersOnly\<close> the table of a directive.\<close>

definition countMember :: "prop_name \<Rightarrow> unit parser" where
  "countMember m = do {
     only \<leftarrow> gets (\<lambda>S. l_members (p_lint S));
     provided (case only of None \<Rightarrow> False | Some d \<Rightarrow> \<not> obj_has d (name_key m))
       (report_curr ''W036'' [name_arg m]);
     upd (\<lambda>S. S\<lparr>p_member := plain_put (p_member S) (name_key m)
       (case obj_get (p_member S) (name_key m) of Some n \<Rightarrow> Suc n | None \<Rightarrow> 1)\<rparr>)
   }"

section \<open>Properties that have been seen\<close>

record prop_info =
  pr_basic :: bool
  pr_getter :: "nat option"
  pr_setter :: "nat option"
  pr_static :: bool

definition new_prop :: prop_info where
  "new_prop = \<lparr>pr_basic = False, pr_getter = None, pr_setter = None, pr_static = False\<rparr>"

type_synonym props = "(jstr, prop_info) obj"

definition static_key :: "bool \<Rightarrow> jstr \<Rightarrow> jstr" where
  "static_key isStatic k = (if isStatic then js ''static '' @ k else k)"

text \<open>\<open>props[key]\<close>, made when it is not there, and changed.\<close>

definition prop_update :: "jstr \<Rightarrow> (prop_info \<Rightarrow> prop_info) \<Rightarrow> props \<Rightarrow> props" where
  "prop_update key f ps =
     obj_put ps key (f (case obj_get ps key of Some p \<Rightarrow> p | None \<Rightarrow> new_prop))"

definition duplicate_kind :: "bool \<Rightarrow> bool \<Rightarrow> string" where
  "duplicate_kind isClass isStatic =
     (if isClass \<and> isStatic then ''static class method'' else if isClass \<or> isStatic then ''class method'' else ''key'')"

text \<open>
  \<open>saveProperty\<close>. A duplicate that is reported keeps its entry, any other store starts a new one.
  No caller passes \<open>isComputed\<close>.
\<close>

definition saveProperty :: "props \<Rightarrow> prop_name \<Rightarrow> nat \<Rightarrow> bool \<Rightarrow> bool \<Rightarrow> props parser" where
  "saveProperty ps name0 t isClass isStatic = do {
     k \<leftarrow> tok_at t;
     let name = (if k_identifier k then name_of_value (k_value k) else name0);
     let key = static_key (isClass \<and> isStatic) (name_key name);
     if obj_has ps key \<and> name \<noteq> TextName (js ''__proto__'') then do {
       report_next ''W075'' [str_arg (duplicate_kind isClass isStatic), name_arg name];
       ret (prop_update key (\<lambda>p. p\<lparr>pr_basic := True\<rparr>) ps)
     }
     else ret (obj_put ps key (new_prop\<lparr>pr_basic := True\<rparr>))
   }"

definition accessor_kind :: "bool \<Rightarrow> bool \<Rightarrow> bool \<Rightarrow> jstr" where
  "accessor_kind isGet isClass isStatic =
     (if isClass then (if isStatic then js ''static '' else []) @
        js (if isGet then ''getter method'' else ''setter method'')
      else js ''key'')"

definition saveAccessor :: "bool \<Rightarrow> props \<Rightarrow> prop_name \<Rightarrow> nat \<Rightarrow> bool \<Rightarrow> bool \<Rightarrow> props parser" where
  "saveAccessor isGet ps name t isClass isStatic = do {
     c \<leftarrow> curr_ref;
     upd_token c (\<lambda>k. k\<lparr>k_accessorType := Some (js (if isGet then ''get'' else ''set''))\<rparr>);
     names_set t;
     let key = static_key (isClass \<and> isStatic) (name_key name);
     provided (case obj_get ps key of
         None \<Rightarrow> False
       | Some p \<Rightarrow> (pr_basic p \<or> (if isGet then pr_getter p else pr_setter p) \<noteq> None) \<and>
           name \<noteq> TextName (js ''__proto__''))
       (report_next ''W075'' [JStr (accessor_kind isGet isClass isStatic), name_arg name]);
     ret (prop_update key (\<lambda>p. (if isGet then p\<lparr>pr_getter := Some t\<rparr> else p\<lparr>pr_setter := Some t\<rparr>)
            \<lparr>pr_static := (pr_static p \<or> isStatic)\<rparr>) ps)
   }"

definition checkProperties :: "props \<Rightarrow> unit parser" where
  "checkProperties ps = do {
     es5 \<leftarrow> lint_state inES5;
     provided es5 (for_each (\<lambda>(n, p).
       case pr_setter p of
         Some t \<Rightarrow> provided (pr_getter p = None \<and> \<not> pr_static p) (report_tok ''W078'' t [])
       | None \<Rightarrow> ret ()) ps)
   }"

section \<open>Object literals\<close>

text \<open>A property in shorthand: an expression that is its own name.\<close>

definition short_property :: "recs \<Rightarrow> nat \<Rightarrow> props \<Rightarrow> (prop_name \<times> props) parser" where
  "short_property R context ps = do {
     needs (\<lambda>st. inES6 st False)
       (report_next ''W104'' [str_arg ''object short notation'', str_arg ''6'']);
     t \<leftarrow> r_expr R context 10;
     (case t of
        None \<Rightarrow> ret (NoName, ps)
      | Some x \<Rightarrow> do {
          k \<leftarrow> tok_at x;
          ps1 \<leftarrow> saveProperty ps (name_of_value (k_value k)) x False False;
          ret (name_of_value (k_value k), ps1)
        })
   }"

text \<open>A getter or a setter.\<close>

definition accessor_property :: "recs \<Rightarrow> nat \<Rightarrow> bool \<Rightarrow> props \<Rightarrow> (prop_name \<times> props) parser" where
  "accessor_property R context isGet ps = do {
     advance_id (if isGet then ''get'' else ''set'');
     needs inES5 (report_here ''E034'' []);
     k \<leftarrow> next_tok;
     i \<leftarrow> (if has_id ''['' k then do { v \<leftarrow> computedPropertyName R context; ret (name_of_token v) }
          else do {
            v \<leftarrow> propertyName context;
            es6 \<leftarrow> lint_state (\<lambda>st. inES6 st False);
            provided (\<not> has_name (name_of_value v) \<and> \<not> es6) (report_here ''E035'' []);
            ret (name_of_value v)
          });
     c \<leftarrow> curr_ref;
     ps1 \<leftarrow> (if has_name i then saveAccessor isGet ps i c False False else ret ps);
     t \<leftarrow> next_ref;
     f \<leftarrow> doFunction R context (no_options\<lparr>o_isMethod := True\<rparr>);
     F \<leftarrow> gets (\<lambda>S. p_functs S f);
     (case f_params F of
        Some (p # r) \<Rightarrow> provided (isGet \<and> has_name i) (report_tok ''W076'' t [JStr p, name_arg i])
      | _ \<Rightarrow> ret ());
     provided (\<not> isGet \<and> has_name i \<and> f_arity F \<noteq> 1) (report_tok ''W077'' t [name_arg i]);
     ret (i, ps1)
   }"

text \<open>\<open>async\<close> and \<open>*\<close> before the name of a method.\<close>

definition async_prefix :: "bool parser" where
  "async_prefix = do {
     k \<leftarrow> next_tok;
     p \<leftarrow> (if has_id ''async'' k then peeked 0 else ret k);
     if has_id ''async'' k \<and> \<not> checkPunctuators p [''('', '':''] then do {
       needs inES8 (report_next ''W119'' [str_arg ''async functions'', str_arg ''8'']);
       advance;
       c \<leftarrow> curr_ref;
       nolinebreak c;
       ret True
     }
     else ret False
   }"

definition generator_prefix :: "bool \<Rightarrow> bool parser" where
  "generator_prefix isAsync = do {
     k \<leftarrow> next_tok;
     if checkPunctuator k ''*'' then do {
       es9 \<leftarrow> lint_state inES9;
       (if isAsync \<and> \<not> es9 then report_next ''W119'' [str_arg ''async generators'', str_arg ''9'']
        else needs (\<lambda>st. inES6 st False)
               (report_next ''W104'' [str_arg ''generator functions'', str_arg ''6'']));
       advance_id ''*'';
       ret True
     }
     else ret False
   }"

text \<open>Any other property; the third result says whether the literal ends here.\<close>

definition property_value :: "recs \<Rightarrow> nat \<Rightarrow> bool \<Rightarrow> bool \<Rightarrow> unit parser" where
  "property_value R context isAsync isGenerator = do {
     k \<leftarrow> next_tok;
     if has_value ''('' k then do {
       needs (\<lambda>st. inES6 st False) (report_curr ''W104'' [str_arg ''concise methods'', str_arg ''6'']);
       doFunction R (if isAsync then ctx_with context ctx_preAsync else context)
         (no_options\<lparr>o_isMethod := True, o_generator := isGenerator\<rparr>);
       ret ()
     }
     else do { advance_id '':''; r_expr R context 10; ret () }
   }"

definition plain_property :: "recs \<Rightarrow> nat \<Rightarrow> props \<Rightarrow> (prop_name \<times> props \<times> bool) parser" where
  "plain_property R context ps = do {
     isAsync \<leftarrow> async_prefix;
     isGenerator \<leftarrow> generator_prefix isAsync;
     k \<leftarrow> next_tok;
     if has_id ''['' k then do {
       v \<leftarrow> computedPropertyName R context;
       names_set_opt v;
       property_value R context isAsync isGenerator;
       ret (name_of_token v, ps, False)
     }
     else do {
       n \<leftarrow> next_ref;
       names_set n;
       v \<leftarrow> propertyName context;
       n1 \<leftarrow> next_ref;
       ps1 \<leftarrow> saveProperty ps (name_of_value v) n1 False False;
       (if v = None then ret (NoName, ps1, True)
        else do {
          property_value R context isAsync isGenerator;
          ret (name_of_value v, ps1, False)
        })
     }
   }"

text \<open>One property. The name of the property before, \<open>i\<close>, is kept by a spread.\<close>

definition spread_property :: "recs \<Rightarrow> nat \<Rightarrow> unit parser" where
  "spread_property R context = do {
     needs inES9 (report_next ''W119'' [str_arg ''object spread property'', str_arg ''9'']);
     r_expr R context 10;
     ret ()
   }"

definition object_property ::
  "recs \<Rightarrow> nat \<Rightarrow> prop_name \<Rightarrow> props \<Rightarrow> (prop_name \<times> props \<times> bool) parser" where
  "object_property R context i ps = do {
     k \<leftarrow> next_tok;
     short \<leftarrow> (if k_identifier k then do {
                t \<leftarrow> peekIgnoreEOL (r_fuel R) 0;
                p \<leftarrow> tok_at t;
                ret (id_in ['','', ''}''] p)
              } else ret False);
     if short then do { (j, ps1) \<leftarrow> short_property R context ps; ret (j, ps1, False) }
     else do {
       p \<leftarrow> peeked 0;
       if \<not> has_id '':'' p \<and> (has_value ''get'' k \<or> has_value ''set'' k) then do {
         (j, ps1) \<leftarrow> accessor_property R context (has_value ''get'' k) ps;
         ret (j, ps1, False)
       }
       else do {
         isSpread \<leftarrow> spreadrest (r_fuel R) ''spread'';
         if isSpread then do { spread_property R context; ret (i, ps, False) }
         else plain_property R context ps
       }
     }
   }"

text \<open>The comma after a property; whether there is one.\<close>

definition property_comma :: "bool parser" where
  "property_comma = do {
     k \<leftarrow> next_tok;
     if has_id '','' k then do {
       advance_id '','';
       checkComma True True;
       k1 \<leftarrow> next_tok;
       es5 \<leftarrow> lint_state inES5;
       provided (has_id '','' k1 \<or> (has_id ''}'' k1 \<and> \<not> es5)) (report_curr ''W070'' []);
       ret True
     }
     else do {
       trailing \<leftarrow> opt ''trailingcomma'';
       es5 \<leftarrow> lint_state inES5;
       c \<leftarrow> curr_tok;
       provided (trailing \<and> es5) (report_at ''W140'' (k_line c) (k_character c) []);
       ret False
     }
   }"

primrec object_properties :: "nat \<Rightarrow> recs \<Rightarrow> nat \<Rightarrow> prop_name \<Rightarrow> props \<Rightarrow> props parser" where
  "object_properties 0 R context i ps = do { out_of_fuel; ret ps }"
| "object_properties (Suc n) R context i ps = do {
     k \<leftarrow> next_tok;
     halt \<leftarrow> gets stopped;
     if halt \<or> has_id ''}'' k then ret ps
     else do {
       (j, ps1, done) \<leftarrow> object_property R context i ps;
       if done then ret ps1
       else do {
         countMember j;
         more \<leftarrow> property_comma;
         if more then object_properties n R context j ps1 else ret ps1
       }
     }
   }"

text \<open>The brackets of a literal that begins at the end of a line.\<close>

definition literal_indent :: "bool parser" where
  "literal_indent = do {
     c \<leftarrow> curr_tok;
     k \<leftarrow> next_tok;
     let b = (\<not> sameLine c k);
     provided b (do {
       indent_more;
       i \<leftarrow> gets p_indent;
       d \<leftarrow> indent_step;
       provided (case k_from k of None \<Rightarrow> False | Some f \<Rightarrow> int f = i + d) indent_more
     });
     ret b
   }"

text \<open>The array of a destructuring assignment is always true as a condition.\<close>

definition destructuring_nud :: "recs \<Rightarrow> nat \<Rightarrow> nat \<Rightarrow> nat option parser" where
  "destructuring_nud R context t = do {
     destructuringPattern R context True True;
     upd_token t (\<lambda>k. k\<lparr>k_destructAssign := True\<rparr>);
     ret (Some t)
   }"

definition object_nud :: "recs \<Rightarrow> nat \<Rightarrow> nat \<Rightarrow> nat option parser" where
  "object_nud R context t = do {
     b \<leftarrow> literal_indent;
     bt \<leftarrow> lookupBlockType (r_fuel R);
     if bt_isDestAssign bt then destructuring_nud R context t
     else do {
       ps \<leftarrow> object_properties (r_fuel R) R context NoName [];
       provided b indent_less;
       advance_to (Some ''}'') (Some t);
       checkProperties ps;
       ret (Some t)
     }
   }"

end
