(* ===== verification/ParseClass.thy ===== *)
theory ParseClass
  imports ParseObject
begin

text \<open>
  Classes (\<^verbatim>\<open>jshint.js\<close>): the declaration, the expression, \<open>classBody\<close> with its members, and
  \<open>doMethod\<close>.
\<close>

section \<open>Methods\<close>

definition method_options :: "nat \<Rightarrow> prop_name \<Rightarrow> bool \<Rightarrow> fun_options" where
  "method_options classToken name generator =
     no_options\<lparr>o_name := name, o_generator := generator, o_isMethod := True,
       o_statement := Some classToken\<rparr>"

text \<open>What is done when no parameters follow; whether the method is given up.\<close>

definition recover_method :: "recs \<Rightarrow> nat \<Rightarrow> bool parser" where
  "recover_method R context = do {
     k \<leftarrow> next_tok;
     report_next ''E054'' [value_arg k];
     advance;
     k1 \<leftarrow> next_tok;
     if has_value ''{'' k1 then do {
       advance;
       k2 \<leftarrow> next_tok;
       provided (has_value ''}'' k2) (do {
         report_next ''W116'' [str_arg ''('', value_arg k2];
         advance;
         parse_identifier context False;
         advance
       });
       ret True
     }
     else do {
       while_loop (r_fuel R) (do {
         k2 \<leftarrow> next_tok;
         (if has_value ''('' k2 then ret False else do { advance; ret True })
       });
       ret False
     }
   }"

definition doMethod :: "recs \<Rightarrow> nat \<Rightarrow> nat \<Rightarrow> prop_name \<Rightarrow> bool \<Rightarrow> unit parser" where
  "doMethod R classToken context name generator = do {
     provided generator (needs (\<lambda>st. inES6 st False)
       (report_curr ''W119'' [str_arg ''function*'', str_arg ''6'']));
     k \<leftarrow> next_tok;
     givenUp \<leftarrow> (if has_value ''('' k then ret False else recover_method R context);
     provided (\<not> givenUp) (do { doFunction R context (method_options classToken name generator); ret () })
   }"

section \<open>Members\<close>

text \<open>\<open>static\<close>, \<open>async\<close> and \<open>*\<close> before a member.\<close>

definition static_prefix :: "bool parser" where
  "static_prefix = do {
     k \<leftarrow> next_tok;
     p \<leftarrow> (if has_value ''static'' k then peeked 0 else ret k);
     if has_value ''static'' k \<and> \<not> checkPunctuator p ''('' then do { advance; ret True } else ret False
   }"

text \<open>The context and whether a star has been read.\<close>

definition class_async_prefix :: "nat \<Rightarrow> (nat \<times> bool) parser" where
  "class_async_prefix context = do {
     k \<leftarrow> next_tok;
     p \<leftarrow> (if has_value ''async'' k then peeked 0 else ret k);
     if has_value ''async'' k \<and> \<not> checkPunctuator p ''('' then do {
       advance;
       c \<leftarrow> curr_ref;
       nolinebreak c;
       k1 \<leftarrow> next_tok;
       let star = checkPunctuator k1 ''*'';
       provided star (do {
         advance_id ''*'';
         needs inES9 (report_next ''W119'' [str_arg ''async generators'', str_arg ''9''])
       });
       needs inES8 (report_curr ''W119'' [str_arg ''async functions'', str_arg ''8'']);
       ret (ctx_with context ctx_preAsync, star)
     }
     else ret (context, False)
   }"

definition star_prefix :: "bool \<Rightarrow> bool parser" where
  "star_prefix seen = do {
     k \<leftarrow> next_tok;
     if has_value ''*'' k then do { advance; ret True } else ret seen
   }"

text \<open>\<open>get\<close> and \<open>set\<close>: \<open>Some True\<close> and \<open>Some False\<close>.\<close>

definition accessor_prefix :: "bool \<Rightarrow> bool \<Rightarrow> bool option parser" where
  "accessor_prefix isStatic inGenerator = do {
     t \<leftarrow> next_ref;
     k \<leftarrow> next_tok;
     let isAccessor = (has_value ''set'' k \<or> has_value ''get'' k);
     p \<leftarrow> (if isAccessor then peeked 0 else ret k);
     if isAccessor \<and> \<not> checkPunctuator p ''('' then do {
       provided inGenerator (report_tok ''E024'' t [value_arg k]);
       let isGet = has_value ''get'' k;
       advance;
       k1 \<leftarrow> next_tok;
       let kind = (if isGet then ''getter method'' else ''setter method'');
       (if \<not> isStatic \<and> has_value ''constructor'' k1
          then report_next ''E049'' [str_arg (''class '' @ kind), value_arg k1]
        else provided (isStatic \<and> has_value ''prototype'' k1)
               (report_next ''E049'' [str_arg (''static class '' @ kind), value_arg k1]));
       ret (Some isGet)
     }
     else ret None
   }"

text \<open>A constructor; whether one has been seen is passed on.\<close>

definition class_constructor ::
  "recs \<Rightarrow> nat \<Rightarrow> nat \<Rightarrow> bool \<Rightarrow> bool option \<Rightarrow> bool \<Rightarrow> bool parser" where
  "class_constructor R classToken context inGenerator accessor seen = do {
     k \<leftarrow> next_tok;
     let bad = (inGenerator \<or> ctx_has context ctx_preAsync \<or> seen);
     provided bad (report_next ''E024'' [value_arg k]);
     advance;
     name \<leftarrow> names_infer;
     doMethod R classToken context (TextName name) False;
     ret (if bad then seen else accessor = None)
   }"

definition static_constructor ::
  "recs \<Rightarrow> nat \<Rightarrow> nat \<Rightarrow> bool \<Rightarrow> props \<Rightarrow> props parser" where
  "static_constructor R classToken context inGenerator ps = do {
     t \<leftarrow> next_ref;
     name \<leftarrow> propertyName context;
     ps1 \<leftarrow> saveProperty ps (name_of_value name) t True True;
     doMethod R classToken context (name_of_value name) inGenerator;
     ret ps1
   }"

definition named_member ::
  "recs \<Rightarrow> nat \<Rightarrow> nat \<Rightarrow> bool \<Rightarrow> bool \<Rightarrow> bool option \<Rightarrow> props \<Rightarrow> props parser" where
  "named_member R classToken context isStatic inGenerator accessor ps = do {
     t \<leftarrow> next_ref;
     k \<leftarrow> next_tok;
     v \<leftarrow> propertyName context;
     (case v of
        None \<Rightarrow> do { report_tok ''E024'' t [value_arg k]; advance; ret ps }
      | Some s \<Rightarrow>
          (case accessor of
             Some isGet \<Rightarrow> do {
               ps1 \<leftarrow> saveAccessor isGet ps (TextName s) t True isStatic;
               name \<leftarrow> names_infer;
               doMethod R classToken context (TextName name) inGenerator;
               ret ps1
             }
           | None \<Rightarrow> do {
               provided (isStatic \<and> s = js ''prototype'')
                 (report_tok ''E049'' t [str_arg ''static class method'', JStr s]);
               ps1 \<leftarrow> saveProperty ps (TextName s) t True isStatic;
               doMethod R classToken context (TextName s) inGenerator;
               ret ps1
             }))
   }"

definition class_member :: "recs \<Rightarrow> nat \<Rightarrow> nat \<Rightarrow> props \<Rightarrow> bool \<Rightarrow> (props \<times> bool) parser" where
  "class_member R classToken context0 ps seen = do {
     isStatic \<leftarrow> static_prefix;
     (context, star) \<leftarrow> class_async_prefix (ctx_without context0 ctx_preAsync);
     inGenerator \<leftarrow> star_prefix star;
     accessor \<leftarrow> accessor_prefix isStatic inGenerator;
     k \<leftarrow> next_tok;
     if has_value '';'' k then do { report_next ''W032'' []; advance; ret (ps, seen) }
     else if has_value ''constructor'' k then
       (if isStatic then do {
          ps1 \<leftarrow> static_constructor R classToken context inGenerator ps;
          ret (ps1, seen)
        }
        else do {
          seen1 \<leftarrow> class_constructor R classToken context inGenerator accessor seen;
          ret (ps, seen1)
        })
     else if has_value ''['' k then do {
       v \<leftarrow> computedPropertyName R context;
       doMethod R classToken context (name_of_token v) inGenerator;
       ret (ps, seen)
     }
     else do {
       ps1 \<leftarrow> named_member R classToken context isStatic inGenerator accessor ps;
       ret (ps1, seen)
     }
   }"

section \<open>Bodies\<close>

primrec class_members :: "nat \<Rightarrow> recs \<Rightarrow> nat \<Rightarrow> nat \<Rightarrow> props \<Rightarrow> bool \<Rightarrow> props parser" where
  "class_members 0 R classToken context ps seen = do { out_of_fuel; ret ps }"
| "class_members (Suc n) R classToken context ps seen = do {
     k \<leftarrow> next_tok;
     halt \<leftarrow> gets stopped;
     if halt \<or> has_value ''}'' k then ret ps
     else do {
       (ps1, seen1) \<leftarrow> class_member R classToken context ps seen;
       class_members n R classToken context ps1 seen1
     }
   }"

definition type_arg :: "tok \<Rightarrow> jsval" where
  "type_arg k = (if k_type k = [] then JUndef else str_arg (k_type k))"

definition set_inClassBody :: "bool \<Rightarrow> unit parser" where
  "set_inClassBody b = upd_lstate (\<lambda>st. st\<lparr>inClassBody := b\<rparr>)"

definition classBody :: "recs \<Rightarrow> nat \<Rightarrow> nat \<Rightarrow> unit parser" where
  "classBody R classToken context = do {
     k \<leftarrow> next_tok;
     (if has_value ''{'' k then advance_id ''{''
      else do {
        report_curr ''W116'' [str_arg ''identifier'', type_arg k];
        advance
      });
     ps \<leftarrow> class_members (r_fuel R) R classToken context [] False;
     advance_id ''}'';
     checkProperties ps;
     set_inClassBody False;
     scope_unstack
   }"

section \<open>Class declarations and expressions\<close>

text \<open>The name of a class, as its token.\<close>

definition class_name :: "nat \<Rightarrow> nat option parser" where
  "class_name context = do {
     t \<leftarrow> next_ref;
     k \<leftarrow> next_tok;
     if k_identifier k \<and> \<not> has_value ''extends'' k then do {
       parse_identifier context False;
       ret (Some t)
     }
     else ret None
   }"

definition class_heritage :: "recs \<Rightarrow> nat \<Rightarrow> unit parser" where
  "class_heritage R context = do {
     k \<leftarrow> next_tok;
     provided (has_value ''extends'' k) (do { advance_id ''extends''; r_expr R context 0; ret () })
   }"

definition value_text :: "nat \<Rightarrow> jstr parser" where
  "value_text t = do {
     k \<leftarrow> tok_at t;
     ret (case k_value k of Some v \<Rightarrow> v | None \<Rightarrow> js ''undefined'')
   }"

definition set_name :: "nat \<Rightarrow> nat option \<Rightarrow> unit parser" where
  "set_name t n = upd_token t (\<lambda>k. k\<lparr>k_name := n\<rparr>)"

definition enter_class :: "unit parser" where
  "enter_class = do {
     needs (\<lambda>st. inES6 st False) (report_curr ''W104'' [str_arg ''class'', str_arg ''6'']);
     set_inClassBody True
   }"

definition class_fud :: "recs \<Rightarrow> nat \<Rightarrow> nat \<Rightarrow> nat option parser" where
  "class_fud R context t = do {
     enter_class;
     name \<leftarrow> class_name context;
     (case name of
        Some n \<Rightarrow> do { v \<leftarrow> value_text n; scope_addbinding v ''class'' n False }
      | None \<Rightarrow> ret ());
     class_heritage R context;
     set_name t name;
     (case name of
        Some n \<Rightarrow> do { v \<leftarrow> value_text n; scope_initialize v }
      | None \<Rightarrow> ret ());
     scope_stack None;
     classBody R t context;
     ret (Some t)
   }"

definition class_nud :: "recs \<Rightarrow> nat \<Rightarrow> nat \<Rightarrow> nat option parser" where
  "class_nud R context t = do {
     enter_class;
     name \<leftarrow> class_name context;
     class_heritage R context;
     scope_stack None;
     set_name t name;
     (case name of
        Some n \<Rightarrow> do {
          v \<leftarrow> value_text n;
          scope_addbinding v ''class'' n True;
          scope_use v n
        }
      | None \<Rightarrow> ret ());
     classBody R t context;
     ret (Some t)
   }"

end
