(* ===== verification/ParseDecl.thy ===== *)
theory ParseDecl
  imports ParseClass
begin

text \<open>
  Declarations (\<^verbatim>\<open>jshint.js\<close>): \<open>const\<close> and \<open>let\<close> (\<open>blockVariableStatement\<close>), \<open>var\<close>, and the two
  denotations of \<open>function\<close>.
\<close>

section \<open>Names in a list of declarations\<close>

text \<open>
  \<open>t.id\<close> as the key of a table: it is \<open>undefined\<close> where a name is missing, \<open>null\<close> for a place that is
  left out of a pattern.
\<close>

definition id_key :: "bool \<Rightarrow> jstr option \<Rightarrow> jstr" where
  "id_key lone v = (case v of Some s \<Rightarrow> s | None \<Rightarrow> js (if lone then ''undefined'' else ''null''))"

definition id_text :: "jstr option \<Rightarrow> jsval" where
  "id_text v = (case v of Some s \<Rightarrow> JStr s | None \<Rightarrow> JUndef)"

definition is_false :: "(jstr, jsval) obj \<Rightarrow> jstr \<Rightarrow> bool" where
  "is_false d k \<longleftrightarrow> obj_get d k = Some (JBool False)"

definition bound_tokens :: "pattern_ids \<Rightarrow> nat list" where
  "bound_tokens ids = map snd (filter (\<lambda>(v, t). nonempty v \<noteq> None) ids)"

text \<open>\<open>this.first.concat(names)\<close>.\<close>

definition add_first :: "nat \<Rightarrow> nat list \<Rightarrow> unit parser" where
  "add_first t ns = upd_token t (\<lambda>k. k\<lparr>k_first :=
     VList ((case k_first k of VList xs \<Rightarrow> xs | _ \<Rightarrow> []) @ map Some ns)\<rparr>)"

definition pattern_follows :: "tok \<Rightarrow> bool" where
  "pattern_follows k = value_in [''{'', ''[''] k"

text \<open>The comma after a declaration; whether there is one.\<close>

definition declaration_comma :: "nat \<Rightarrow> bool parser" where
  "declaration_comma t = do {
     k \<leftarrow> next_tok;
     if has_id '','' k then do {
       upd_token t (\<lambda>k. k\<lparr>k_hasComma := True\<rparr>);
       advance_id '','';
       checkComma False False;
       ret True
     }
     else ret False
   }"

text \<open>Another assignment in an initializer: whether the next two tokens are a name and \<open>=\<close>.\<close>

definition chained_assignment :: "bool parser" where
  "chained_assignment = do {
     p \<leftarrow> peeked 0;
     k \<leftarrow> next_tok;
     ret (has_id ''='' p \<and> k_identifier k)
   }"

section \<open>\<open>const\<close> and \<open>let\<close>\<close>

definition declare_let :: "string \<Rightarrow> bool \<Rightarrow> jstr option \<times> nat \<Rightarrow> unit parser" where
  "declare_let ty lone x = (case x of (v, t) \<Rightarrow> do {
     provided (v = Some (js ''let'')) (report_tok ''W024'' t [id_text v]);
     atTop \<leftarrow> scope_get isGlobal;
     pre \<leftarrow> gets (\<lambda>S. is_false (l_predefined (p_lint S)) (id_key lone v));
     provided (atTop \<and> pre) (report_tok ''W079'' t [id_text v]);
     (case nonempty v of Some s \<Rightarrow> scope_addbinding s ty t False | None \<Rightarrow> ret ())
   })"

definition let_targets :: "recs \<Rightarrow> nat \<Rightarrow> (pattern_ids \<times> bool) parser" where
  "let_targets R context = do {
     k \<leftarrow> next_tok;
     if pattern_follows k then do {
       ids \<leftarrow> destructuringPattern R context False False;
       ret (ids, False)
     }
     else do {
       v \<leftarrow> parse_identifier context False;
       c \<leftarrow> curr_ref;
       ret ([(v, c)], True)
     }
   }"

definition let_initializer :: "recs \<Rightarrow> nat \<Rightarrow> nat \<Rightarrow> bool \<Rightarrow> nat list \<Rightarrow> unit parser" where
  "let_initializer R context t lone names = do {
     upd_token t (\<lambda>k. k\<lparr>k_hasInitializer := True\<rparr>);
     advance_id ''='';
     chained \<leftarrow> (if ctx_has context ctx_noin then ret False else chained_assignment);
     k \<leftarrow> next_tok;
     provided chained (report_next ''W120'' [value_arg k]);
     opTok \<leftarrow> prev_ref;
     v \<leftarrow> r_expr R context 10;
     (case v of
        None \<Rightarrow> ret ()
      | Some x \<Rightarrow> do {
          report_undefined_value opTok v;
          provided (\<not> lone) (destructuringPatternMatch names x)
        })
   }"

text \<open>One declaration of the list.\<close>

definition let_declaration :: "recs \<Rightarrow> string \<Rightarrow> nat \<Rightarrow> nat \<Rightarrow> unit parser" where
  "let_declaration R ty context t = do {
     (ids, lone) \<leftarrow> let_targets R context;
     k \<leftarrow> next_tok;
     ck \<leftarrow> curr_tok;
     provided (\<not> ctx_has context ctx_noin \<and> ty = ''const'' \<and> \<not> has_id ''='' k)
       (report_curr ''E012'' [value_arg ck]);
     for_each (declare_let ty lone) ids;
     let names = bound_tokens ids;
     provided (has_id ''='' k) (let_initializer R context t lone names);
     k1 \<leftarrow> next_tok;
     provided (\<not> value_in [''in'', ''of''] k1) (for_each (\<lambda>(v, u). scope_initialize (id_key lone v)) ids);
     add_first t names
   }"

primrec let_declarations :: "nat \<Rightarrow> recs \<Rightarrow> string \<Rightarrow> nat \<Rightarrow> nat \<Rightarrow> unit parser" where
  "let_declarations 0 R ty context t = out_of_fuel"
| "let_declarations (Suc n) R ty context t = do {
     let_declaration R ty context t;
     more \<leftarrow> declaration_comma t;
     halt \<leftarrow> gets stopped;
     if more \<and> \<not> halt then let_declarations n R ty context t else ret ()
   }"

definition isMozillaLet :: "bool parser" where
  "isMozillaLet = do {
     k \<leftarrow> next_tok;
     moz \<leftarrow> lint_state inMoz;
     ret (has_id ''('' k \<and> moz)
   }"

definition blockVariableStatement :: "recs \<Rightarrow> string \<Rightarrow> nat \<Rightarrow> nat \<Rightarrow> nat option parser" where
  "blockVariableStatement R ty context t = do {
     needs (\<lambda>st. inES6 st False) (report_curr ''W104'' [str_arg ty, str_arg ''6'']);
     moz \<leftarrow> isMozillaLet;
     let letblock = (ty = ''let'' \<and> moz);
     provided letblock (do {
       advance_id ''('';
       scope_stack None;
       upd_symbol t (\<lambda>x. x\<lparr>s_declaration := False\<rparr>)
     });
     upd_token t (\<lambda>k. k\<lparr>k_first := VList []\<rparr>);
     let_declarations (r_fuel R) R ty context t;
     provided letblock (do {
       advance_id '')'';
       stmt_block R context;
       upd_symbol t (\<lambda>x. x\<lparr>s_block := True\<rparr>);
       scope_unstack
     });
     ret (Some t)
   }"

text \<open>\<open>letstatement.useFud\<close>: whether a \<open>let\<close> begins a declaration.\<close>

definition let_useFud :: "nat \<Rightarrow> nat \<Rightarrow> bool parser" where
  "let_useFud context t = do {
     k \<leftarrow> tok_at t;
     n \<leftarrow> next_tok;
     es6 \<leftarrow> lint_state (\<lambda>st. inES6 st False);
     res \<leftarrow> isReserved context n;
     moz \<leftarrow> isMozillaLet;
     ret (if k_line k \<noteq> k_line n \<and> \<not> es6 then False
          else (k_identifier n \<and> (\<not> res \<or> has_id ''let'' n)) \<or> checkPunctuators n [''{'', ''[''] \<or> moz)
   }"

section \<open>\<open>var\<close>\<close>

definition var_targets :: "recs \<Rightarrow> nat \<Rightarrow> (pattern_ids \<times> bool) parser" where
  "var_targets R context = do {
     k \<leftarrow> next_tok;
     if pattern_follows k then do {
       ids \<leftarrow> destructuringPattern R context False False;
       ret (ids, False)
     }
     else do {
       ids \<leftarrow> binding_target context;
       ret (ids, True)
     }
   }"

text \<open>A name of a later edition.\<close>

definition future_hostile :: "lstate \<Rightarrow> jstr \<Rightarrow> bool" where
  "future_hostile st n \<longleftrightarrow>
     option st ''futurehostile'' = JBool False \<and>
     ((\<not> inES5 st \<and> is_false ecma5 n) \<or> (\<not> inES6 st False \<and> is_false ecma6 n))"

definition declare_var :: "jstr option \<times> nat \<Rightarrow> unit parser" where
  "declare_var x = (case x of (v, t) \<Rightarrow> do {
     glob \<leftarrow> funct_get f_global;
     closure \<leftarrow> lint_state impliedClosure;
     pre \<leftarrow> gets (\<lambda>S. is_false (l_predefined (p_lint S)) (id_key False v));
     hostile \<leftarrow> lint_state (\<lambda>st. future_hostile st (id_key False v));
     provided (glob \<and> \<not> closure)
       (if pre then report_tok ''W079'' t [id_text v]
        else provided hostile (report_tok ''W129'' t [id_text v]));
     (case nonempty v of Some s \<Rightarrow> scope_addbinding s ''var'' t False | None \<Rightarrow> ret ())
   })"

text \<open>
  The condition \<open>!noin && !params || params.indexOf(name) === -1\<close> reads a field of \<open>null\<close> in the head of
  a \<open>for\<close> where there are no parameters.
\<close>

definition check_chained :: "nat \<Rightarrow> unit parser" where
  "check_chained context = do {
     chained \<leftarrow> chained_assignment;
     k \<leftarrow> next_tok;
     params \<leftarrow> funct_get f_params;
     provided chained
       (case params of
          None \<Rightarrow> if ctx_has context ctx_noin then type_error else report_next ''W120'' [value_arg k]
        | Some ps \<Rightarrow>
            provided (case k_value k of Some v \<Rightarrow> \<not> List.member ps v | None \<Rightarrow> True)
              (report_next ''W120'' [value_arg k]))
   }"

definition var_initializer :: "recs \<Rightarrow> nat \<Rightarrow> nat \<Rightarrow> bool \<Rightarrow> nat list \<Rightarrow> unit parser" where
  "var_initializer R context t lone names = do {
     upd_token t (\<lambda>k. k\<lparr>k_hasInitializer := True\<rparr>);
     c \<leftarrow> curr_ref;
     names_set c;
     advance_id ''='';
     check_chained context;
     opTok \<leftarrow> prev_ref;
     v \<leftarrow> r_expr R context 10;
     loopage \<leftarrow> funct_get f_loopage;
     (case v of
        None \<Rightarrow> ret ()
      | Some x \<Rightarrow> do {
          provided (loopage = 0) (report_undefined_value opTok v);
          provided (\<not> lone) (destructuringPatternMatch names x)
        })
   }"

definition var_declaration :: "recs \<Rightarrow> nat \<Rightarrow> nat \<Rightarrow> unit parser" where
  "var_declaration R context t = do {
     (ids, lone) \<leftarrow> var_targets R context;
     varstmt \<leftarrow> opt ''varstmt'';
     provided varstmt (report_tok ''W132'' t []);
     for_each declare_var ids;
     let names = bound_tokens ids;
     k \<leftarrow> next_tok;
     provided (has_id ''='' k) (var_initializer R context t lone names);
     add_first t names
   }"

primrec var_declarations :: "nat \<Rightarrow> recs \<Rightarrow> nat \<Rightarrow> nat \<Rightarrow> unit parser" where
  "var_declarations 0 R context t = out_of_fuel"
| "var_declarations (Suc n) R context t = do {
     var_declaration R context t;
     more \<leftarrow> declaration_comma t;
     halt \<leftarrow> gets stopped;
     if more \<and> \<not> halt then var_declarations n R context t else ret ()
   }"

definition var_fud :: "recs \<Rightarrow> nat \<Rightarrow> nat \<Rightarrow> nat option parser" where
  "var_fud R context t = do {
     upd_token t (\<lambda>k. k\<lparr>k_first := VList []\<rparr>);
     var_declarations (r_fuel R) R context t;
     ret (Some t)
   }"

section \<open>\<open>function\<close>\<close>

text \<open>The star of a generator; \<open>place\<close> is where its edition is reported.\<close>

definition function_star :: "bool \<Rightarrow> (string \<Rightarrow> jsval list \<Rightarrow> unit parser) \<Rightarrow> bool parser" where
  "function_star isAsync place = do {
     k \<leftarrow> next_tok;
     if has_value ''*'' k then do {
       es9 \<leftarrow> lint_state inES9;
       es6 \<leftarrow> lint_state (\<lambda>st. inES6 st True);
       (if isAsync \<and> \<not> es9 then report_prev ''W119'' [str_arg ''async generators'', str_arg ''9'']
        else provided (\<not> isAsync \<and> \<not> es6) (place ''W119'' [str_arg ''function*'', str_arg ''6'']));
       advance_id ''*'';
       ret True
     }
     else ret False
   }"

definition function_name_token :: "nat \<Rightarrow> nat option parser" where
  "function_name_token context = do {
     v \<leftarrow> optionalidentifier context False;
     c \<leftarrow> curr_ref;
     ret (if nonempty v = None then None else Some c)
   }"

definition token_name :: "nat option \<Rightarrow> prop_name parser" where
  "token_name t = do {
     k \<leftarrow> tok_opt t;
     ret (case k of None \<Rightarrow> NoName | Some x \<Rightarrow> (case k_value x of None \<Rightarrow> NoName | Some v \<Rightarrow> TextName v))
   }"

definition restricted_function :: "funct \<Rightarrow> bool" where
  "restricted_function F \<longleftrightarrow> (case f_name F of None \<Rightarrow> False | Some n \<Rightarrow> is_restricted n)"

text \<open>A call that follows a declaration at once, \<open>function f() {}()\<close>.\<close>

definition check_called_declaration :: "unit parser" where
  "check_called_declaration = do {
     k \<leftarrow> next_tok;
     c \<leftarrow> curr_tok;
     called \<leftarrow> (if has_id ''('' k then do {
                  p \<leftarrow> peeked 0;
                  (if has_id '')'' p then do { q \<leftarrow> peeked 1; ret (\<not> has_id ''=>'' q) } else ret False)
                } else ret False);
     provided (called \<and> k_line k = k_line c) (report_here ''E039'' [])
   }"

definition label_type :: "bool \<Rightarrow> bool \<Rightarrow> string" where
  "label_type isAsync generator =
     (if isAsync then ''async '' else []) @ (if generator then ''generator '' else []) @ ''function''"

definition function_fud :: "recs \<Rightarrow> nat \<Rightarrow> nat \<Rightarrow> nat option parser" where
  "function_fud R context t = do {
     let isAsync = ctx_has context ctx_preAsync;
     generator \<leftarrow> function_star isAsync report_next;
     inb \<leftarrow> gets p_inblock;
     provided inb (report_curr ''W082'' []);
     name \<leftarrow> function_name_token context;
     set_name t name;
     (case name of
        None \<Rightarrow> provided (\<not> ctx_has context ctx_export) (report_here ''W025'' [])
      | Some n \<Rightarrow> do { v \<leftarrow> value_text n; scope_addbinding v (label_type isAsync generator) n True });
     v \<leftarrow> token_name name;
     f \<leftarrow> doFunction R context (no_options\<lparr>o_name := v, o_statement := Some t, o_generator := generator,
            o_ignoreLoopFunc := inb\<rparr>);
     F \<leftarrow> gets (\<lambda>S. p_functs S f);
     strict \<leftarrow> lint_state isStrict;
     (case name of
        None \<Rightarrow> ret ()
      | Some n \<Rightarrow> provided (restricted_function F \<and> f_isStrict F \<and> \<not> strict) (report_tok ''E008'' n []));
     check_called_declaration;
     ret (Some t)
   }"

definition function_nud :: "recs \<Rightarrow> nat \<Rightarrow> nat \<Rightarrow> nat option parser" where
  "function_nud R context t = do {
     let isAsync = ctx_has context ctx_preAsync;
     generator \<leftarrow> function_star isAsync report_curr;
     name \<leftarrow> function_name_token (if isAsync then ctx_with context ctx_async else context);
     set_name t name;
     v \<leftarrow> token_name name;
     f \<leftarrow> doFunction R context (no_options\<lparr>o_name := v, o_generator := generator\<rparr>);
     F \<leftarrow> gets (\<lambda>S. p_functs S f);
     nk \<leftarrow> tok_opt name;
     (case (name, nk) of
        (Some n, Some k) \<Rightarrow> do {
          provided (generator \<and> has_value ''yield'' k) (report_tok ''E024'' n [str_arg ''yield'']);
          provided (restricted_function F \<and> f_isStrict F) (report_tok ''E008'' n [])
        }
      | _ \<Rightarrow> ret ());
     ret (Some t)
   }"

end
