(* ===== verification/ParseExpr.thy ===== *)
theory ParseExpr
  imports ParseDecl
begin

text \<open>
  The denotations of names, members, calls, groups, arrays, templates and of the words that begin an
  expression (\<^verbatim>\<open>jshint.js\<close>), and the array comprehensions of Mozilla's dialect.
\<close>

section \<open>Array comprehensions\<close>

text \<open>The variables seen: \<open>declare\<close> and \<open>use\<close> change those of the name, and tell whether there are any.\<close>

definition comp_upd :: "(comp_array \<Rightarrow> comp_array) \<Rightarrow> unit parser" where
  "comp_upd f = upd (\<lambda>S. S\<lparr>p_comp := (case p_comp S of [] \<Rightarrow> [] | c # r \<Rightarrow> f c # r)\<rparr>)"

definition comp_add :: "jstr \<Rightarrow> nat \<Rightarrow> bool \<Rightarrow> bool \<Rightarrow> unit parser" where
  "comp_add v t undef unused =
     comp_upd (\<lambda>c. c\<lparr>c_vars := c_vars c @ [\<lparr>v_token = t, v_value = v, v_undef = undef, v_unused = unused\<rparr>]\<rparr>)"

definition comp_declare :: "jstr \<Rightarrow> comp_array \<Rightarrow> bool parser" where
  "comp_declare v x = do {
     comp_upd (\<lambda>c. c\<lparr>c_vars := map (\<lambda>e. if v_value e = v then e\<lparr>v_undef := False\<rparr> else e) (c_vars c)\<rparr>);
     ret (list_ex (\<lambda>e. v_value e = v) (c_vars x))
   }"

text \<open>\<open>use\<close> is true when the variable has not been defined.\<close>

definition comp_use :: "jstr \<Rightarrow> comp_array \<Rightarrow> bool parser" where
  "comp_use v x = do {
     comp_upd (\<lambda>c. c\<lparr>c_vars := map (\<lambda>e. if v_value e = v \<and> \<not> v_undef e then e\<lparr>v_unused := False\<rparr> else e) (c_vars c)\<rparr>);
     ret (\<not> list_ex (\<lambda>e. v_value e = v \<and> \<not> v_undef e) (c_vars x))
   }"

definition comp_check :: "jstr \<Rightarrow> bool parser" where
  "comp_check v = do {
     cs \<leftarrow> gets p_comp;
     t \<leftarrow> curr_ref;
     (case cs of
        [] \<Rightarrow> ret False
      | x # r \<Rightarrow>
          if c_mode x = ''use'' then do {
            new \<leftarrow> comp_use v x;
            provided new (comp_add v t True False);
            ret True
          }
          else if c_mode x = ''define'' then do {
            old \<leftarrow> comp_declare v x;
            provided (\<not> old) (comp_add v t False True);
            ret True
          }
          else if c_mode x = ''generate'' then do { scope_use v t; ret True }
          else if c_mode x = ''filter'' then do {
            new \<leftarrow> comp_use v x;
            provided new (scope_use v t);
            ret True
          }
          else ret False)
   }"

definition comp_stack :: "unit parser" where
  "comp_stack = upd (\<lambda>S. S\<lparr>p_comp := \<lparr>c_mode = ''use'', c_vars = []\<rparr> # p_comp S\<rparr>)"

definition comp_setState :: "string \<Rightarrow> unit parser" where
  "comp_setState m = comp_upd (\<lambda>c. c\<lparr>c_mode := m\<rparr>)"

definition comp_leave_var :: "comp_var \<Rightarrow> unit parser" where
  "comp_leave_var e = do {
     k \<leftarrow> tok_at (v_token e);
     provided (v_unused e) (report_tok ''W098'' (v_token e)
       [JStr (case nonempty (k_raw_text k) of Some s \<Rightarrow> s | None \<Rightarrow> v_value e)]);
     provided (v_undef e) (scope_use (v_value e) (v_token e))
   }"

definition comp_unstack :: "unit parser" where
  "comp_unstack = do {
     cs \<leftarrow> gets p_comp;
     (case cs of [] \<Rightarrow> type_error | x # r \<Rightarrow> for_each comp_leave_var (c_vars x));
     upd (\<lambda>S. S\<lparr>p_comp := tl (p_comp S)\<rparr>)
   }"

text \<open>The filter of a comprehension, and its generating expression.\<close>

definition comp_filter :: "recs \<Rightarrow> nat \<Rightarrow> unit parser" where
  "comp_filter R context = do {
     k \<leftarrow> next_tok;
     provided (has_value ''if'' k) (do {
       advance_id ''if'';
       advance_id ''('';
       comp_setState ''filter'';
       r_expr R context 10;
       advance_id '')''
     })
   }"

definition comp_generate :: "recs \<Rightarrow> nat \<Rightarrow> nat option parser" where
  "comp_generate R context = do {
     advance_id ''for'';
     k \<leftarrow> next_tok;
     provided (has_value ''each'' k) (do {
       advance_id ''each'';
       needs inMoz (report_curr ''W118'' [str_arg ''for each''])
     });
     advance_id ''('';
     comp_setState ''define'';
     l \<leftarrow> r_expr R context 130;
     k1 \<leftarrow> next_tok;
     (if value_in [''in'', ''of''] k1 then advance else report_curr ''E045'' []);
     comp_setState ''generate'';
     r_expr R context 10;
     advance_id '')'';
     ret l
   }"

definition comprehensiveArrayExpression :: "recs \<Rightarrow> nat \<Rightarrow> nat option parser" where
  "comprehensiveArrayExpression R context = do {
     res \<leftarrow> alloc (plain_tok\<lparr>k_sym := empty_symbol\<lparr>s_exps := True\<rparr>\<rparr>);
     comp_stack;
     k \<leftarrow> next_tok;
     let reversed = (\<not> has_value ''for'' k);
     provided reversed (do {
       needs inMoz (report_next ''W116'' [str_arg ''for'', value_arg k]);
       comp_setState ''use'';
       r \<leftarrow> r_expr R context 10;
       set_right res r
     });
     l \<leftarrow> comp_generate R context;
     upd_token res (\<lambda>k. k\<lparr>k_left := val_of l\<rparr>);
     comp_filter R context;
     provided (\<not> reversed) (do {
       comp_setState ''use'';
       r \<leftarrow> r_expr R context 10;
       set_right res r
     });
     advance_id '']'';
     comp_unstack;
     ret (Some res)
   }"

section \<open>Names and literals\<close>

definition number_nud :: "nat \<Rightarrow> nat option parser" where
  "number_nud t = do {
     k \<leftarrow> next_tok;
     provided (has_id ''.'' k) (report_tok ''W005'' t []);
     ret (Some t)
   }"

definition identifier_nud :: "nat \<Rightarrow> nat \<Rightarrow> nat option parser" where
  "identifier_nud context t = do {
     k \<leftarrow> tok_at t;
     n \<leftarrow> next_tok;
     res \<leftarrow> isReserved context k;
     v \<leftarrow> value_text t;
     (if res then report_tok ''W024'' t [value_arg k]
      else provided (\<not> has_id ''=>'' n) (do {
        seen \<leftarrow> comp_check v;
        c \<leftarrow> curr_ref;
        provided (\<not> seen) (scope_use v c)
      }));
     ret (Some t)
   }"

definition identifier_led :: "nat option parser" where
  "identifier_led = do {
     k \<leftarrow> next_tok;
     report_next ''E033'' [value_arg k];
     ret None
   }"

text \<open>A method that has a computed name is no plain function.\<close>

definition capital_after_Z :: "funct \<Rightarrow> bool" where
  "capital_after_Z F = (case f_name F of Some (c # s) \<Rightarrow> 90 < c | _ \<Rightarrow> False)"

definition this_nud :: "nat \<Rightarrow> nat option parser" where
  "this_nud t = do {
     strict \<leftarrow> lint_state isStrict;
     validthis \<leftarrow> opt ''validthis'';
     F \<leftarrow> funct_get (\<lambda>F. F);
     provided (strict \<and> \<not> f_method F \<and> \<not> validthis \<and>
         ((f_statement F \<noteq> None \<and> capital_after_Z F) \<or> f_global F))
       (report_tok ''W040'' t []);
     ret (Some t)
   }"

text \<open>
  \<open>supportsSuper\<close>, through the contexts of arrow functions: \<open>None\<close> when the walk has not ended after as many
  steps as there is fuel. The global functor, which has no context, is no arrow function.
\<close>

fun supportsSuper :: "nat \<Rightarrow> bool \<Rightarrow> pst \<Rightarrow> nat \<Rightarrow> bool option" where
  "supportsSuper 0 isCall S f = None"
| "supportsSuper (Suc n) isCall S f =
     (let F = p_functs S f in
      if isCall \<and> f_async F then Some False
      else if \<not> isCall \<and> f_method F then Some True
      else if isCall \<and> (case f_statement F of Some t \<Rightarrow> has_id ''class'' (p_store S t) | None \<Rightarrow> False) then Some True
      else if f_arrow F then
        (case f_context F of Some c \<Rightarrow> supportsSuper n isCall S c | None \<Rightarrow> Some False)
      else Some False)"

definition super_nud :: "nat \<Rightarrow> nat option parser" where
  "super_nud t = do {
     k \<leftarrow> next_tok;
     property \<leftarrow> gets (\<lambda>S. supportsSuper (Suc (p_functions S)) False S (p_funct S) = Some True);
     call \<leftarrow> gets (\<lambda>S. supportsSuper (Suc (p_functions S)) True S (p_funct S) = Some True);
     (if checkPunctuators k [''['', ''.''] then provided (\<not> property) (report_curr ''E063'' [])
      else if checkPunctuator k ''('' then provided (\<not> call) (report_curr ''E064'' [])
      else report_next ''E024'' [if nonempty (k_value k) = None then id_arg k else value_arg k]);
     ret (Some t)
   }"

section \<open>Meta properties and \<open>new\<close>\<close>

text \<open>\<open>metaProperty\<close>: the property, when there is a dot; \<open>m\<close> checks the expected one.\<close>

definition metaProperty :: "nat \<Rightarrow> string \<Rightarrow> unit parser \<Rightarrow> nat option parser" where
  "metaProperty context name m = do {
     k \<leftarrow> next_tok;
     if \<not> checkPunctuator k ''.'' then ret None
     else do {
       l \<leftarrow> curr_tok;
       advance_id ''.'';
       v \<leftarrow> parse_identifier context False;
       c \<leftarrow> curr_ref;
       upd_token c (\<lambda>k. k\<lparr>k_isMetaProperty := True\<rparr>);
       (if v \<noteq> Some (js name) then report_prev ''E057'' [id_arg l, id_text v] else m);
       ret (Some c)
     }
   }"

text \<open>Whether \<open>new.target\<close> is in a function, arrow functions aside; \<open>None\<close> as above.\<close>

fun target_in_function :: "nat \<Rightarrow> pst \<Rightarrow> nat \<Rightarrow> bool option" where
  "target_in_function 0 S f = None"
| "target_in_function (Suc n) S f =
     (let F = p_functs S f in
      if \<not> f_arrow F then Some (\<not> f_global F)
      else (case f_context F of Some c \<Rightarrow> target_in_function n S c | None \<Rightarrow> Some (\<not> f_global F)))"

definition check_new_target :: "unit parser" where
  "check_new_target = do {
     needs (\<lambda>st. inES6 st True) (report_prev ''W119'' [str_arg ''new.target'', str_arg ''6'']);
     b \<leftarrow> gets (\<lambda>S. target_in_function (Suc (p_functions S)) S (p_funct S) = Some True);
     provided (\<not> b) (report_prev ''W136'' [str_arg ''new.target''])
   }"

definition constructors_of_primitives :: "string list" where
  "constructors_of_primitives = [''Number'', ''String'', ''Boolean'', ''Math'', ''JSON'']"

definition starts_upper :: "jstr \<Rightarrow> bool" where
  "starts_upper v = (case v of [] \<Rightarrow> False | c # s \<Rightarrow> 65 \<le> c \<and> c \<le> 90)"

text \<open>The name of the constructor.\<close>

definition check_new_name :: "tok \<Rightarrow> unit parser" where
  "check_new_name k = do {
     es6 \<leftarrow> lint_state (\<lambda>st. inES6 st False);
     evil \<leftarrow> opt ''evil'';
     newcap \<leftarrow> opt ''newcap'';
     let v = (case k_value k of Some v \<Rightarrow> v | None \<Rightarrow> js ''undefined'');
     pre \<leftarrow> scope_get (isPredefined v);
     (if named v constructors_of_primitives then report_prev ''W053'' [JStr v]
      else if v = js ''Symbol'' then provided es6 (report_prev ''W053'' [JStr v])
      else if v = js ''Function'' then provided (\<not> evil) (report_here ''W054'' [])
      else if named v [''Date'', ''RegExp'', ''this''] then ret ()
      else provided (newcap \<and> \<not> starts_upper v \<and> \<not> pre) (report_curr ''W055'' []))
   }"

definition check_constructor :: "nat \<Rightarrow> nat \<Rightarrow> unit parser" where
  "check_constructor t c = do {
     k \<leftarrow> tok_at c;
     supernew \<leftarrow> opt ''supernew'';
     (if has_id ''function'' k then provided (\<not> supernew) (report_tok ''W057'' t [])
      else if k_identifier k then check_new_name k
      else if has_id ''?.'' k \<and> \<not> k_paren k then report_tok ''E024'' c [str_arg ''?.'']
      else provided (\<not> id_in [''.'', ''['', ''(''] k) (report_curr ''W056'' []));
     n \<leftarrow> next_tok;
     ck \<leftarrow> curr_tok;
     provided (\<not> has_id ''('' n \<and> \<not> supernew) (report_curr ''W058'' [value_arg ck])
   }"

definition above :: "int option \<Rightarrow> int \<Rightarrow> bool" where
  "above p n = (case p of Some x \<Rightarrow> n < x | None \<Rightarrow> False)"

definition new_nud :: "recs \<Rightarrow> nat \<Rightarrow> nat \<Rightarrow> nat option parser" where
  "new_nud R context t = do {
     mp \<leftarrow> metaProperty context ''target'' check_new_target;
     (case mp of
        Some m \<Rightarrow> ret (Some m)
      | None \<Rightarrow> do {
          opening \<leftarrow> next_ref;
          ok \<leftarrow> next_tok;
          c \<leftarrow> r_expr R context 155;
          (case c of
             None \<Rightarrow> ret (Some t)
           | Some x \<Rightarrow> do {
               k \<leftarrow> tok_at x;
               provided (\<not> k_paren k \<and> above (k_rbp k) 160) (report_tok ''E024'' opening [value_arg ok]);
               check_constructor t x;
               set_first t c;
               set_right t c;
               ret (Some t)
             })
        })
   }"

section \<open>Members\<close>

definition isGlobalEval :: "tok \<Rightarrow> bool parser" where
  "isGlobalEval k = do {
     node' \<leftarrow> opt ''node'';
     browser' \<leftarrow> opt ''browser'';
     top \<leftarrow> funct_get (\<lambda>F. f_context F = None);
     ret (if is_type ''this'' k \<and> top then True
          else is_type ''(identifier)'' k \<and>
            ((node' \<and> has_value ''global'' k) \<or> (browser' \<and> value_in [''window'', ''document''] k)))
   }"

definition evil_names :: "string list" where
  "evil_names = [''eval'', ''execScript'']"

definition check_global_eval :: "tok \<Rightarrow> jstr option \<Rightarrow> unit parser" where
  "check_global_eval lk m = do {
     evil \<leftarrow> opt ''evil'';
     glob \<leftarrow> isGlobalEval lk;
     provided (\<not> evil \<and> (case m of Some v \<Rightarrow> named v evil_names | None \<Rightarrow> False) \<and> glob) (report_here ''W061'' [])
   }"

definition check_hasOwnProperty :: "jstr option \<Rightarrow> unit parser" where
  "check_hasOwnProperty m = do {
     k \<leftarrow> next_tok;
     provided (m = Some (js ''hasOwnProperty'') \<and> has_value ''='' k) (report_here ''W001'' [])
   }"

text \<open>\<open>arguments.callee\<close> and \<open>document.write\<close>.\<close>

definition check_member_names :: "nat \<Rightarrow> tok \<Rightarrow> jstr option \<Rightarrow> unit parser" where
  "check_member_names left lk m = do {
     noarg \<leftarrow> opt ''noarg'';
     evil \<leftarrow> opt ''evil'';
     strict \<leftarrow> lint_state isStrict;
     let is = (\<lambda>ns. case m of Some v \<Rightarrow> named v ns | None \<Rightarrow> False);
     (if has_value ''arguments'' lk \<and> is [''callee'', ''caller''] then
        (if noarg then report_tok ''W059'' left [id_text m]
         else provided strict (report_here ''E008'' []))
      else provided (\<not> evil \<and> has_value ''document'' lk \<and> is [''write'', ''writeln'']) (report_tok ''W060'' left []))
   }"

definition dot_led :: "recs \<Rightarrow> nat \<Rightarrow> nat \<Rightarrow> nat \<Rightarrow> nat option parser" where
  "dot_led R context t left = do {
     m \<leftarrow> parse_identifier context True;
     (case m of Some v \<Rightarrow> countMember (TextName v) | None \<Rightarrow> ret ());
     set_left t left;
     upd_token t (\<lambda>k. k\<lparr>k_right := (case m of Some v \<Rightarrow> VName v | None \<Rightarrow> VNone)\<rparr>);
     lk \<leftarrow> tok_at left;
     check_hasOwnProperty m;
     check_member_names left lk m;
     check_global_eval lk m;
     ret (Some t)
   }"

text \<open>\<open>/^([a-zA-Z_$][a-zA-Z0-9_$]*)$/\<close>.\<close>

definition is_word_unit :: "jchar \<Rightarrow> bool" where
  "is_word_unit c \<longleftrightarrow> (97 \<le> c \<and> c \<le> 122) \<or> (65 \<le> c \<and> c \<le> 90) \<or> c = 95 \<or> c = 36"

definition reg_identifier :: "jstr \<Rightarrow> bool" where
  "reg_identifier s =
     (case s of [] \<Rightarrow> False | c # r \<Rightarrow> is_word_unit c \<and> list_all (\<lambda>d. is_word_unit d \<or> is_dec_digit d) r)"

text \<open>Whether a property may be written with a dot: an entry of the symbol table may be reserved.\<close>

definition symbol_name :: "jstr \<Rightarrow> string option" where
  "symbol_name v = find (\<lambda>s. js s = v) sym_names"

definition canUseDot :: "nat \<Rightarrow> jstr \<Rightarrow> bool parser" where
  "canUseDot context v =
     (case symbol_name v of
        Some s \<Rightarrow> do { res \<leftarrow> isReserved context (symbol_tok s); ret (\<not> res) }
      | None \<Rightarrow> ret (v \<noteq> js ''eval'' \<and> v \<noteq> js ''arguments''))"

text \<open>A line break before a bracket that is not the start of a statement.\<close>

definition check_asi_bracket :: "unit parser" where
  "check_asi_bracket = do {
     asi \<leftarrow> opt ''asi'';
     p \<leftarrow> prev_tok;
     c \<leftarrow> curr_tok;
     provided (asi \<and> checkPunctuators p ['')'', '']''] \<and> \<not> sameLine p c) (report_curr ''W014'' [id_arg c])
   }"

definition check_text_member :: "nat \<Rightarrow> tok \<Rightarrow> jstr \<Rightarrow> unit parser" where
  "check_text_member context lk v = do {
     check_global_eval lk (Some v);
     countMember (TextName v);
     sub \<leftarrow> opt ''sub'';
     provided (\<not> sub \<and> reg_identifier v) (do {
       dot \<leftarrow> canUseDot context v;
       provided dot (report_prev ''W069'' [JStr v])
     })
   }"

definition bracket_led :: "recs \<Rightarrow> nat \<Rightarrow> nat \<Rightarrow> nat \<Rightarrow> nat option parser" where
  "bracket_led R context t left = do {
     check_asi_bracket;
     e \<leftarrow> r_expr R (ctx_without context ctx_noin) 0;
     ek \<leftarrow> tok_opt e;
     lk \<leftarrow> tok_at left;
     (case ek of
        Some k \<Rightarrow> provided (is_type ''(string)'' k)
          (check_text_member context lk (case k_value k of Some v \<Rightarrow> v | None \<Rightarrow> []))
      | None \<Rightarrow> ret ());
     advance_to (Some '']'') (Some t);
     check_hasOwnProperty (case ek of Some k \<Rightarrow> k_value k | None \<Rightarrow> None);
     set_left t left;
     set_right t e;
     ret (Some t)
   }"

section \<open>Calls\<close>

text \<open>
  \<open>addEvalCode\<close>: an \<open>\n\<close> after an odd number of backslashes, and the backslashes before it, are
  replaced by a line feed.
\<close>

fun unescape_newlines :: "jstr \<Rightarrow> jstr" where
  "unescape_newlines [] = []"
| "unescape_newlines (c # s) =
     (let bs = takeWhile (\<lambda>d. d = 92) s; r = dropWhile (\<lambda>d. d = 92) s in
      if c \<noteq> 92 \<and> odd (List.length bs) \<and> r \<noteq> [] \<and> hd r = 110
      then c # 10 # unescape_newlines (drop (Suc (List.length bs)) s)
      else c # unescape_newlines s)"

definition addEvalCode :: "tok \<Rightarrow> tok \<Rightarrow> unit parser" where
  "addEvalCode elem k =
     upd (\<lambda>S. S\<lparr>p_internals := p_internals S @
       [(case k_value elem of Some v \<Rightarrow> v | None \<Rightarrow> [], case k_line k of Some l \<Rightarrow> l | None \<Rightarrow> 0,
         unescape_newlines (case k_value k of Some v \<Rightarrow> v | None \<Rightarrow> []))]\<rparr>)"

text \<open>\<open>/^[A-Z]([A-Z0-9_$]*[a-z][A-Za-z0-9_$]*)?$/\<close>.\<close>

definition newcapRe :: "jstr \<Rightarrow> bool" where
  "newcapRe s =
     (case s of
        [] \<Rightarrow> False
      | c # r \<Rightarrow> 65 \<le> c \<and> c \<le> 90 \<and>
          (r = [] \<or> (list_all (\<lambda>d. is_word_unit d \<or> is_dec_digit d) r \<and> list_ex (\<lambda>d. 97 \<le> d \<and> d \<le> 122) r)))"

definition newcapIgnore :: "string list" where
  "newcapIgnore = [''Array'', ''Boolean'', ''Date'', ''Error'', ''Function'', ''Number'', ''Object'', ''RegExp'',
     ''String'', ''Symbol'']"

definition check_called_name :: "nat \<Rightarrow> tok \<Rightarrow> unit parser" where
  "check_called_name left lk = do {
     newcap \<leftarrow> opt ''newcap'';
     let v = (case k_value lk of Some v \<Rightarrow> v | None \<Rightarrow> js ''undefined'');
     provided (is_type ''(identifier)'' lk \<and> newcapRe v \<and> \<not> named v newcapIgnore)
       (if v = js ''Math'' then report_tok ''W063'' left []
        else provided newcap (report_tok ''W064'' left []))
   }"

text \<open>The arguments: the first one and their number.\<close>

primrec call_arguments :: "nat \<Rightarrow> recs \<Rightarrow> nat \<Rightarrow> nat option list \<Rightarrow> nat option list parser" where
  "call_arguments 0 R context ps = do { out_of_fuel; ret ps }"
| "call_arguments (Suc n) R context ps = do {
     spreadrest (r_fuel R) ''spread'';
     p \<leftarrow> r_expr R context 10;
     k \<leftarrow> next_tok;
     halt \<leftarrow> gets stopped;
     if halt \<or> \<not> has_id '','' k then ret (ps @ [p])
     else do {
       advance_id '','';
       checkComma False True;
       k1 \<leftarrow> next_tok;
       if has_id '')'' k1 then do {
         needs inES8 (report_curr ''W119'' [str_arg ''Trailing comma in arguments lists'', str_arg ''8'']);
         ret (ps @ [p])
       }
       else call_arguments n R context (ps @ [p])
     }
   }"

text \<open>
  Code that is evaluated. The test of \<open>window.setTimeout\<close> reads the left operand of whatever has
  the value \<open>.\<close>, also of a string, which has none.
\<close>

definition timer_names :: "string list" where
  "timer_names = [''setTimeout'', ''setInterval'']"

definition check_timer_member :: "nat \<Rightarrow> tok \<Rightarrow> tok \<Rightarrow> unit parser" where
  "check_timer_member left lk pk = do {
     llk \<leftarrow> tok_opt (left_of lk);
     (case llk of
        None \<Rightarrow> type_error
      | Some l \<Rightarrow>
          provided (has_value ''window'' l \<and> (case k_right lk of VName n \<Rightarrow> named n timer_names | _ \<Rightarrow> False))
            (do { report_tok ''W066'' left []; addEvalCode lk pk }))
   }"

definition check_evaluated :: "nat \<Rightarrow> tok \<Rightarrow> tok option \<Rightarrow> unit parser" where
  "check_evaluated left lk pk =
     (if value_in [''eval'', ''Function'', ''execScript''] lk then report_tok ''W061'' left []
      else
        (case pk of
           None \<Rightarrow> ret ()
         | Some k \<Rightarrow>
             provided (has_id ''(string)'' k)
               (if value_in timer_names lk then do { report_tok ''W066'' left []; addEvalCode lk k }
                else provided (has_value ''.'' lk) (check_timer_member left lk k))))"

definition isTypicalCallExpression :: "tok \<Rightarrow> bool" where
  "isTypicalCallExpression k \<longleftrightarrow>
     k_identifier k \<or> id_in [''.'', ''['', ''=>'', ''('', ''&&'', ''||'', ''?'', ''async'', ''?.''] k"

definition call_led :: "recs \<Rightarrow> nat \<Rightarrow> nat \<Rightarrow> nat \<Rightarrow> nat option parser" where
  "call_led R context t left = do {
     immed \<leftarrow> opt ''immed'';
     lk0 \<leftarrow> tok_at left;
     provided (immed \<and> \<not> k_immed lk0 \<and> has_id ''function'' lk0) (report_here ''W062'' []);
     check_asi_bracket;
     check_called_name left lk0;
     k \<leftarrow> next_tok;
     ps \<leftarrow> (if has_id '')'' k then ret [] else call_arguments (r_fuel R) R context []);
     advance_id '')'';
     lk \<leftarrow> tok_at left;
     es5 \<leftarrow> lint_state inES5;
     provided (\<not> es5 \<and> has_value ''parseInt'' lk \<and> List.length ps = 1) (report_curr ''W065'' []);
     evil \<leftarrow> opt ''evil'';
     pk \<leftarrow> tok_opt (case ps of p # r \<Rightarrow> p | [] \<Rightarrow> None);
     provided (\<not> evil) (check_evaluated left lk pk);
     provided (\<not> isTypicalCallExpression lk) (report_tok ''W067'' t []);
     set_left t left;
     ret (Some t)
   }"

text \<open>\<open>?.\<close>: the bracket and the call are those of the next token.\<close>

definition optional_led :: "recs \<Rightarrow> nat \<Rightarrow> nat \<Rightarrow> nat \<Rightarrow> nat option parser" where
  "optional_led R context t left = do {
     needs inES11 (report_curr ''W119'' [str_arg ''Optional chaining'', str_arg ''11'']);
     k \<leftarrow> next_tok;
     (if checkPunctuator k ''['' then do {
        set_left t left;
        advance;
        c \<leftarrow> curr_ref;
        r \<leftarrow> bracket_led R context c left;
        set_right t r
      }
      else if checkPunctuator k ''('' then do {
        set_left t left;
        advance;
        c \<leftarrow> curr_ref;
        r \<leftarrow> call_led R context c left;
        set_right t r;
        upd_symbol t (\<lambda>x. x\<lparr>s_exps := True\<rparr>)
      }
      else do { dot_led R context t left; ret () });
     k1 \<leftarrow> next_tok;
     provided (is_type ''(template)'' k1) (report_next ''E024'' [str_arg [CHR 0x60]]);
     ret (Some t)
   }"

text \<open>Arrow functions with a single parameter without parentheses.\<close>

definition arrow_led :: "recs \<Rightarrow> nat \<Rightarrow> nat \<Rightarrow> nat \<Rightarrow> nat option parser" where
  "arrow_led R context t left = do {
     no_break_before;
     set_left t left;
     doFunction R context (no_options\<lparr>o_arrow := True, o_loneArg := Some left\<rparr>);
     ret (Some t)
   }"

end
