(* ===== verification/ParseGroup.thy ===== *)
theory ParseGroup
  imports ParseExpr
begin

text \<open>
  The grouping operator, array literals, template literals, and the words \<open>let\<close>, \<open>await\<close>, \<open>async\<close>,
  \<open>yield\<close> and \<open>import\<close> at the start of an expression (\<^verbatim>\<open>jshint.js\<close>).
\<close>

section \<open>Groups\<close>

text \<open>The first operand of a list of expressions.\<close>

fun first_operand :: "nat \<Rightarrow> (nat \<Rightarrow> tok) \<Rightarrow> nat \<Rightarrow> nat" where
  "first_operand 0 st t = t"
| "first_operand (Suc n) st t =
     (if has_id '','' (st t) then (case k_left (st t) of VTok l \<Rightarrow> first_operand n st l | _ \<Rightarrow> t) else t)"

text \<open>\<open>first\<close> and \<open>last\<close>, which may be \<open>undefined\<close>.\<close>

definition group_ends :: "nat \<Rightarrow> (nat \<times> nat option) parser" where
  "group_ends r = do {
     k \<leftarrow> tok_at r;
     f \<leftarrow> gets (\<lambda>S. first_operand (Suc (p_fresh S)) (p_store S) r);
     ret (if has_id '','' k then (f, case k_right k of VTok l \<Rightarrow> Some l | _ \<Rightarrow> None) else (r, Some r))
   }"

definition is_digits :: "jstr option \<Rightarrow> bool" where
  "is_digits v = (case v of Some (c # s) \<Rightarrow> list_all is_dec_digit (c # s) | _ \<Rightarrow> False)"

text \<open>
  Whether the parentheses around a single expression are needed for a reason other than binding
  powers: \<open>op\<close> is the opening parenthesis, \<open>pre\<close> the token before it, \<open>pn\<close> the one after the group,
  \<open>fn\<close> says that the group begins with a function.
\<close>

definition group_needed :: "tok \<Rightarrow> tok \<Rightarrow> tok \<Rightarrow> bool \<Rightarrow> tok \<Rightarrow> bool parser" where
  "group_needed op pre pn fn0 k = do {
     n \<leftarrow> next_tok;
     p \<leftarrow> prev_tok;
     ends \<leftarrow> isEndOfExpr 0;
     lk \<leftarrow> tok_opt (left_of k);
     let fn = (fn0 \<or> has_id ''async'' k);
     ret ((k_beginsStmt op \<and> (has_id ''{'' k \<or> fn)) \<or>
          (fn \<and> (\<not> ends \<or> \<not> has_id ''}'' p)) \<or>
          (has_id ''=>'' k \<and> \<not> ends) \<or>
          (has_id ''{'' k \<and> has_id ''=>'' pre) \<or>
          (beginsUnaryExpression k \<and> has_id ''**'' n) \<or>
          (has_id ''??'' pre \<and> id_in [''&&'', ''||''] k) \<or>
          (is_type ''(number)'' k \<and> checkPunctuator pn ''.'' \<and> is_digits (k_value k)) \<or>
          (k_beginsStmt op \<and> has_id ''='' k \<and> (case lk of Some l \<Rightarrow> has_id ''{'' l | None \<Rightarrow> False)) \<or>
          (has_id ''?.'' k \<and> (has_id ''new'' pre \<or> is_type ''(template)'' n)))
   }"

text \<open>Whether they are needed to override binding powers.\<close>

definition overrides_powers :: "int \<Rightarrow> nat \<Rightarrow> nat option \<Rightarrow> bool parser" where
  "overrides_powers rbp f l = do {
     fk \<leftarrow> tok_at f;
     lk \<leftarrow> tok_opt l;
     n \<leftarrow> next_tok;
     ends \<leftarrow> isEndOfExpr 0;
     if \<not> (isOperator fk \<or> l \<noteq> Some f) then ret False
     else if less_power (k_lbp fk) (Some rbp) \<or> (0 < rbp \<and> k_lbp fk = Some rbp) then ret True
     else if ends then ret False
     else
       (case lk of
          None \<Rightarrow> do { type_error; ret False }
        | Some k \<Rightarrow> ret (less_power (k_rbp k) (k_lbp n)))
   }"

definition check_group :: "nat \<Rightarrow> tok \<Rightarrow> tok \<Rightarrow> tok \<Rightarrow> bool \<Rightarrow> int \<Rightarrow> nat \<Rightarrow> unit parser" where
  "check_group opening op pre pn fn rbp r = do {
     k \<leftarrow> tok_at r;
     (f, l) \<leftarrow> group_ends r;
     needed \<leftarrow> (if has_id '','' k then ret False else group_needed op pre pn fn k);
     overrides \<leftarrow> (if needed then ret True else overrides_powers rbp f l);
     provided (\<not> overrides) (report_tok ''W126'' opening [])
   }"

definition check_immediate :: "nat \<Rightarrow> tok \<Rightarrow> unit parser" where
  "check_immediate t k = do {
     immed \<leftarrow> opt ''immed'';
     n \<leftarrow> next_tok;
     provided (immed \<and> has_id ''function'' k \<and> \<not> id_in [''('', ''.'', ''[''] n) (report_tok ''W068'' t [])
   }"

definition group_nud :: "recs \<Rightarrow> nat \<Rightarrow> int \<Rightarrow> nat \<Rightarrow> nat option parser" where
  "group_nud R context rbp t = do {
     opening \<leftarrow> curr_ref;
     op \<leftarrow> curr_tok;
     pre \<leftarrow> prev_tok;
     singleGroups \<leftarrow> opt ''singleGroups'';
     pn \<leftarrow> peekThroughParens (r_fuel R) 1;
     pk \<leftarrow> tok_at pn;
     n \<leftarrow> next_ref;
     k \<leftarrow> next_tok;
     let fn = has_id ''function'' k;
     provided fn (upd_token n (\<lambda>k. k\<lparr>k_immed := True\<rparr>));
     if has_value ''=>'' pk then do {
       doFunction R context (no_options\<lparr>o_arrow := True, o_parsedOpening := True\<rparr>);
       ret (Some pn)
     }
     else if has_id '')'' k then do { advance_id '')''; ret None }
     else do {
       r \<leftarrow> r_expr R context 0;
       advance_to (Some '')'') (Some t);
       (case r of
          None \<Rightarrow> ret None
        | Some x \<Rightarrow> do {
            upd_token x (\<lambda>k. k\<lparr>k_paren := True\<rparr>);
            xk \<leftarrow> tok_at x;
            check_immediate t xk;
            provided singleGroups (check_group opening op pre pk fn rbp x);
            ret (Some x)
          })
     }
   }"

section \<open>Array literals\<close>

text \<open>
  The commas before an element. Without \<open>elision\<close> a run of them is reported once, or, in edition 3,
  each of them.
\<close>

primrec skip_commas :: "nat \<Rightarrow> unit parser" where
  "skip_commas 0 = out_of_fuel"
| "skip_commas (Suc n) = do {
     k \<leftarrow> next_tok;
     halt \<leftarrow> gets stopped;
     elision \<leftarrow> opt ''elision'';
     es5 \<leftarrow> lint_state inES5;
     if halt \<or> \<not> has_id '','' k then ret ()
     else if elision then do { advance_id '',''; skip_commas n }
     else if \<not> es5 then do { report_here ''W070'' []; advance_id '',''; skip_commas n }
     else do {
       report_here ''W128'' [];
       while_loop n (do {
         advance_id '','';
         k1 \<leftarrow> next_tok;
         ret (has_id '','' k1)
       });
       skip_commas n
     }
   }"

text \<open>The comma after an element; whether there is another element.\<close>

definition element_comma :: "bool parser" where
  "element_comma = do {
     k \<leftarrow> next_tok;
     es5 \<leftarrow> lint_state inES5;
     if has_id '','' k then do {
       advance_id '','';
       checkComma False True;
       k1 \<leftarrow> next_tok;
       es5' \<leftarrow> lint_state inES5;
       if has_id '']'' k1 \<and> \<not> es5' then do { report_curr ''W070'' []; ret False } else ret True
     }
     else do {
       trailing \<leftarrow> opt ''trailingcomma'';
       c \<leftarrow> curr_tok;
       provided (trailing \<and> es5) (report_at ''W140'' (k_line c) (k_character c) []);
       ret False
     }
   }"

definition push_first :: "nat \<Rightarrow> nat option \<Rightarrow> unit parser" where
  "push_first t e = upd_token t (\<lambda>k. k\<lparr>k_first :=
     VList ((case k_first k of VList xs \<Rightarrow> xs | _ \<Rightarrow> []) @ [e])\<rparr>)"

primrec array_elements :: "nat \<Rightarrow> recs \<Rightarrow> nat \<Rightarrow> nat \<Rightarrow> unit parser" where
  "array_elements 0 R context t = out_of_fuel"
| "array_elements (Suc n) R context t = do {
     k0 \<leftarrow> next_tok;
     halt \<leftarrow> gets stopped;
     if halt \<or> has_id ''(end)'' k0 then ret ()
     else do {
       skip_commas (r_fuel R);
       k \<leftarrow> next_tok;
       if has_id '']'' k then ret ()
       else do {
         spreadrest (r_fuel R) ''spread'';
         e \<leftarrow> r_expr R context 10;
         push_first t e;
         more \<leftarrow> element_comma;
         if more then array_elements n R context t else ret ()
       }
     }
   }"

definition array_nud :: "recs \<Rightarrow> nat \<Rightarrow> nat \<Rightarrow> nat option parser" where
  "array_nud R context t = do {
     bt \<leftarrow> lookupBlockType (r_fuel R);
     if bt_isCompArray bt then do {
       esnext \<leftarrow> opt ''esnext'';
       moz \<leftarrow> lint_state inMoz;
       provided (\<not> esnext \<and> \<not> moz) (report_curr ''W118'' [str_arg ''array comprehension'']);
       comprehensiveArrayExpression R context
     }
     else if bt_isDestAssign bt then destructuring_nud R context t
     else do {
       upd_token t (\<lambda>k. k\<lparr>k_first := VList []\<rparr>);
       b \<leftarrow> literal_indent;
       array_elements (r_fuel R) R context t;
       provided b indent_less;
       advance_to (Some '']'') (Some t);
       ret (Some t)
     }
   }"

section \<open>Template literals\<close>

text \<open>The inner function \<open>end\<close>: whether the template of context \<open>ctx\<close> is complete.\<close>

definition template_complete :: "lex_context option \<Rightarrow> bool parser" where
  "template_complete ctx = do {
     c \<leftarrow> curr_tok;
     n \<leftarrow> next_tok;
     let last = (\<lambda>k. s_template (k_sym k) \<and> s_tail (k_sym k) \<and> k_context k = ctx);
     if last c then ret True
     else do {
       provided (last n) advance;
       n1 \<leftarrow> next_tok;
       ret (last n \<or> k_isUnclosed n1)
     }
   }"

definition deeper :: "nat option \<Rightarrow> nat option \<Rightarrow> bool" where
  "deeper a b = (case (a, b) of (Some x, Some y) \<Rightarrow> y < x | _ \<Rightarrow> False)"

primrec template_parts ::
  "nat \<Rightarrow> recs \<Rightarrow> nat \<Rightarrow> lex_context option \<Rightarrow> nat option \<Rightarrow> unit parser" where
  "template_parts 0 R context ctx depth = out_of_fuel"
| "template_parts (Suc n) R context ctx depth = do {
     done \<leftarrow> template_complete ctx;
     halt \<leftarrow> gets stopped;
     if halt \<or> done then ret ()
     else do {
       k \<leftarrow> next_tok;
       (if \<not> s_template (k_sym k) \<or> deeper (k_depth k) depth then do { r_expr R context 0; ret () } else advance);
       template_parts n R context ctx depth
     }
   }"

definition doTemplateLiteral :: "recs \<Rightarrow> nat \<Rightarrow> nat \<Rightarrow> nat option \<Rightarrow> nat option parser" where
  "doTemplateLiteral R context t tag = do {
     k \<leftarrow> tok_at t;
     provided (\<not> s_noSubst (k_sym k)) (template_parts (r_fuel R) R context (k_context k) (k_depth k));
     x \<leftarrow> alloc (plain_tok\<lparr>k_sym := empty_symbol\<lparr>s_id := Some ''(template)''\<rparr>, k_type := ''(template)'',
            k_tag := (tag \<noteq> None)\<rparr>);
     ret (Some x)
   }"

section \<open>Words that may be names\<close>

definition no_exps :: "nat \<Rightarrow> unit parser" where
  "no_exps t = upd_symbol t (\<lambda>x. x\<lparr>s_exps := False\<rparr>)"

text \<open>The expression with a block of declarations of Mozilla's dialect has no value.\<close>

definition let_nud :: "recs \<Rightarrow> nat \<Rightarrow> int \<Rightarrow> nat \<Rightarrow> nat option parser" where
  "let_nud R context rbp t = do {
     moz \<leftarrow> isMozillaLet;
     if moz then do {
       scope_stack None;
       advance_id ''('';
       p \<leftarrow> prev_ref;
       blockVariableStatement R ''let'' context p;
       advance_id '')'';
       r_expr R context rbp;
       scope_unstack;
       ret None
     }
     else do { no_exps t; identifier_nud context t }
   }"

definition await_nud :: "recs \<Rightarrow> nat \<Rightarrow> nat \<Rightarrow> nat option parser" where
  "await_nud R context t = do {
     if ctx_has context ctx_async then do {
       params \<leftarrow> funct_get f_params;
       provided (params = None) (report_tok ''E024'' t [str_arg ''await'']);
       r_expr R context 10;
       ret (Some t)
     }
     else do { no_exps t; identifier_nud context t }
   }"

text \<open>\<open>isFunc\<close>: whether \<open>async\<close> begins a function.\<close>

definition async_isFunc :: "recs \<Rightarrow> nat \<Rightarrow> bool parser" where
  "async_isFunc R t = do {
     k \<leftarrow> tok_at t;
     n \<leftarrow> next_tok;
     if k_line k \<noteq> k_line n then ret False
     else if has_id ''function'' n then ret True
     else if has_id ''('' n then do {
       a \<leftarrow> peekThroughParens (r_fuel R) 0;
       ak \<leftarrow> tok_at a;
       ret (has_id ''=>'' ak)
     }
     else if k_identifier n then do { p \<leftarrow> peeked 0; ret (has_id ''=>'' p) }
     else ret False
   }"

definition needs_async :: "nat \<Rightarrow> unit parser" where
  "needs_async t = needs inES8 (report_tok ''W119'' t [str_arg ''async functions'', str_arg ''8''])"

text \<open>The function is an expression statement; its fields are read.\<close>

definition async_fud :: "recs \<Rightarrow> nat \<Rightarrow> nat \<Rightarrow> nat option parser" where
  "async_fud R context t = do {
     needs_async t;
     f \<leftarrow> r_expr R (ctx_with (ctx_with context ctx_preAsync) ctx_initial) 0;
     fk \<leftarrow> tok_opt f;
     (case fk of
        None \<Rightarrow> type_error
      | Some k \<Rightarrow> upd_symbol t (\<lambda>x. x\<lparr>s_block := k_block k, s_exps := k_exps k\<rparr>));
     ret (Some t)
   }"

definition async_nud :: "recs \<Rightarrow> nat \<Rightarrow> int \<Rightarrow> nat \<Rightarrow> nat option parser" where
  "async_nud R context rbp t = do {
     isFunc \<leftarrow> async_isFunc R t;
     if isFunc then do {
       needs_async t;
       r_expr R (ctx_with context ctx_preAsync) rbp;
       upd_token t (\<lambda>k. k\<lparr>k_identifier := False\<rparr>);
       ret (Some t)
     }
     else do { no_exps t; identifier_nud context t }
   }"

text \<open>The operand of \<open>yield\<close>, which must have a value.\<close>

definition yield_operand :: "recs \<Rightarrow> nat \<Rightarrow> nat \<Rightarrow> unit parser" where
  "yield_operand R context t = do {
     c \<leftarrow> curr_tok;
     n \<leftarrow> next_ref;
     nobreaknonadjacent c n;
     e \<leftarrow> r_expr R context 10;
     set_first t e;
     boss \<leftarrow> opt ''boss'';
     ek \<leftarrow> tok_opt e;
     (case (e, ek) of
        (Some x, Some k) \<Rightarrow>
          provided (checkPunctuator k ''='' \<and> \<not> k_paren k \<and> \<not> boss) (report_tok ''W093'' x [])
      | _ \<Rightarrow> type_error)
   }"

definition yield_star :: "bool parser" where
  "yield_star = do {
     k \<leftarrow> next_tok;
     if has_value ''*'' k then do { advance_id ''*''; ret True } else ret False
   }"

definition has_nud :: "tok \<Rightarrow> bool" where
  "has_nud k = s_nud (k_sym k)"

definition mozYield :: "recs \<Rightarrow> nat \<Rightarrow> nat \<Rightarrow> nat option parser" where
  "mozYield R context t = do {
     p \<leftarrow> prev_tok;
     es6 \<leftarrow> lint_state (\<lambda>st. inES6 st True);
     provided (es6 \<and> \<not> ctx_has context ctx_yield) (report_curr ''E046'' [str_arg ''yield'']);
     upd_funct (\<lambda>F. F\<lparr>f_yielded := True\<rparr>);
     delegating \<leftarrow> yield_star;
     k \<leftarrow> tok_at t;
     n \<leftarrow> next_tok;
     asi \<leftarrow> opt ''asi'';
     (if sameLine k n then do {
        provided (delegating \<or> (\<not> has_id '';'' n \<and> \<not> asi \<and> \<not> k_reach n \<and> has_nud n)) (yield_operand R context t);
        n1 \<leftarrow> next_tok;
        ends \<leftarrow> isEndOfExpr 0;
        provided (\<not> has_id '')'' n1 \<and> (above (k_lbp p) 30 \<or> (\<not> s_assign (k_sym p) \<and> \<not> ends)))
          (report_tok ''E050'' t [])
      }
      else provided (\<not> asi) (nolinebreak t));
     ret (Some t)
   }"

text \<open>\<open>yield\<close> in a generator, after the tests of its place.\<close>

definition check_yield :: "nat \<Rightarrow> unit parser" where
  "check_yield t = do {
     p \<leftarrow> prev_tok;
     k \<leftarrow> tok_at t;
     params \<leftarrow> funct_get f_params;
     provided (params = None) (report_tok ''E024'' t [str_arg ''yield'']);
     provided (\<not> k_beginsStmt k \<and> above (k_lbp p) 30 \<and> \<not> checkPunctuators p [''(''])
       (report_tok ''E061'' t []);
     needs (\<lambda>st. inES6 st False) (report_curr ''W104'' [str_arg ''yield'', str_arg ''6'']);
     upd_funct (\<lambda>F. F\<lparr>f_yielded := True\<rparr>)
   }"

definition yield_nud :: "recs \<Rightarrow> nat \<Rightarrow> nat \<Rightarrow> nat option parser" where
  "yield_nud R context t = do {
     moz \<leftarrow> lint_state inMoz;
     if moz then mozYield R context t
     else if \<not> ctx_has context ctx_yield then do { no_exps t; identifier_nud context t }
     else do {
       check_yield t;
       yield_star;
       c \<leftarrow> curr_tok;
       n \<leftarrow> next_tok;
       provided (has_value ''*'' c \<or> sameLine c n)
         (if has_nud n then yield_operand R context t
          else provided (s_led (k_sym n) \<and> \<not> has_id '','' n) (report_next ''W017'' []));
       ret (Some t)
     }
   }"

definition check_import_meta :: "unit parser" where
  "check_import_meta = do {
     needs inES11 (report_prev ''W119'' [str_arg ''import.meta'', str_arg ''11'']);
     m \<leftarrow> opt ''module'';
     provided (\<not> m) (report_prev ''E070'' [])
   }"

definition import_nud :: "recs \<Rightarrow> nat \<Rightarrow> nat \<Rightarrow> nat option parser" where
  "import_nud R context t = do {
     mp \<leftarrow> metaProperty context ''meta'' check_import_meta;
     k \<leftarrow> next_tok;
     (case mp of
        Some m \<Rightarrow> ret (Some m)
      | None \<Rightarrow>
          if \<not> checkPunctuator k ''('' then identifier_nud context t
          else do {
            needs inES11 (report_curr ''W119'' [str_arg ''dynamic import'', str_arg ''11'']);
            advance_id ''('';
            r_expr R context 10;
            advance_id '')'';
            ret (Some t)
          })
   }"

end
