(* ===== verification/ParseStmt.thy ===== *)
theory ParseStmt
  imports ParseGroup
begin

text \<open>
  The statements of \<^verbatim>\<open>jshint.js\<close> other than declarations and modules: conditions, loops, \<open>switch\<close>,
  \<open>try\<close>, and the statements that leave a block.
\<close>

section \<open>Conditions\<close>

text \<open>The last expression of a list.\<close>

fun last_operand :: "nat \<Rightarrow> (nat \<Rightarrow> tok) \<Rightarrow> nat \<Rightarrow> nat option" where
  "last_operand 0 st t = None"
| "last_operand (Suc n) st t =
     (if k_paren (st t) then None
      else if has_id '','' (st t) then (case k_right (st t) of VTok r \<Rightarrow> last_operand n st r | _ \<Rightarrow> None)
      else Some t)"

definition assignment_ids :: "string list" where
  "assignment_ids = [''='', ''+='', ''-='', ''*='', ''%='', ''&='', ''|='', ''^='', ''/='']"

definition checkCondAssignment :: "nat option \<Rightarrow> unit parser" where
  "checkCondAssignment t = do {
     boss \<leftarrow> opt ''boss'';
     r \<leftarrow> gets (\<lambda>S. case t of None \<Rightarrow> None | Some x \<Rightarrow> last_operand (Suc (p_fresh S)) (p_store S) x);
     k \<leftarrow> tok_opt r;
     (case (r, k) of
        (Some x, Some xk) \<Rightarrow> provided (id_in assignment_ids xk \<and> \<not> boss) (report_tok ''W084'' x [])
      | _ \<Rightarrow> ret ())
   }"

text \<open>An expression in parentheses, after its keyword; the result is the expression.\<close>

definition condition :: "recs \<Rightarrow> nat \<Rightarrow> nat option parser" where
  "condition R context = do {
     t \<leftarrow> next_ref;
     advance_id ''('';
     e \<leftarrow> r_expr R context 0;
     checkCondAssignment e;
     advance_to (Some '')'') (Some t);
     ret e
   }"

definition breakage :: "int \<Rightarrow> unit parser" where
  "breakage d = upd_funct (\<lambda>F. F\<lparr>f_breakage := f_breakage F + d\<rparr>)"

definition loopage :: "int \<Rightarrow> unit parser" where
  "loopage d = upd_funct (\<lambda>F. F\<lparr>f_loopage := f_loopage F + d\<rparr>)"

section \<open>\<open>if\<close>\<close>

text \<open>
  The first \<open>if\<close> in a \<open>for in\<close> loop: the entry of \<open>forinifchecks\<close> it belongs to, by its number.
\<close>

definition set_forin :: "nat \<Rightarrow> string \<Rightarrow> unit parser" where
  "set_forin i s = upd (\<lambda>S. S\<lparr>p_forinchecks := (p_forinchecks S)[i := s]\<rparr>)"

definition forin_if :: "tok option \<Rightarrow> nat option parser" where
  "forin_if k = do {
     on \<leftarrow> opt ''forin'';
     needed \<leftarrow> gets p_forinneeded;
     cs \<leftarrow> gets p_forinchecks;
     if \<not> (on \<and> needed) then ret None
     else do {
       upd (\<lambda>S. S\<lparr>p_forinneeded := False\<rparr>);
       (if cs = [] then type_error
        else set_forin (List.length cs - 1)
               (case k of Some x \<Rightarrow> if checkPunctuator x ''!'' then ''(negative)'' else ''(positive)''
                        | None \<Rightarrow> ''(positive)''));
       ret (if cs = [] then None else Some (List.length cs - 1))
     }
   }"

definition forin_body :: "nat option \<Rightarrow> nat option list option \<Rightarrow> unit parser" where
  "forin_body i xs = do {
     cs \<leftarrow> gets p_forinchecks;
     k \<leftarrow> tok_opt (case xs of Some (Some x # r) \<Rightarrow> Some x | _ \<Rightarrow> None);
     (case i of
        None \<Rightarrow> ret ()
      | Some n \<Rightarrow>
          provided (n < List.length cs \<and> cs ! n = ''(negative)'' \<and>
              (case k of Some x \<Rightarrow> is_type ''(identifier)'' x \<and> has_value ''continue'' x | None \<Rightarrow> False))
            (set_forin n ''(negative-with-continue)''))
   }"

definition else_branch :: "recs \<Rightarrow> nat \<Rightarrow> unit parser" where
  "else_branch R context = do {
     k \<leftarrow> next_tok;
     provided (has_id ''else'' k) (do {
       advance_id ''else'';
       k1 \<leftarrow> next_tok;
       (if id_in [''if'', ''switch''] k1 then do { r_stmt R context; ret () }
        else do { stmt_block R context; ret () })
     })
   }"

definition if_fud :: "recs \<Rightarrow> nat \<Rightarrow> nat \<Rightarrow> nat option parser" where
  "if_fud R context t = do {
     opening \<leftarrow> next_ref;
     increaseComplexityCount;
     advance_id ''('';
     e \<leftarrow> r_expr R context 0;
     provided (e = None) (quit_tok ''E041'' t);
     checkCondAssignment e;
     k \<leftarrow> tok_opt e;
     i \<leftarrow> forin_if k;
     advance_to (Some '')'') (Some opening);
     xs \<leftarrow> stmt_block R context;
     forin_body i xs;
     else_branch R context;
     ret (Some t)
   }"

section \<open>\<open>try\<close>\<close>

definition catchParameter :: "recs \<Rightarrow> nat \<Rightarrow> unit parser" where
  "catchParameter R context = do {
     advance_id ''('';
     k \<leftarrow> next_tok;
     (if checkPunctuators k [''['', ''{''] then do {
        ids \<leftarrow> destructuringPattern R context False False;
        for_each (\<lambda>(v, t). case nonempty v of
            Some s \<Rightarrow> scope_addParam s t (Some ''exception'') | None \<Rightarrow> ret ()) ids
      }
      else if \<not> is_type ''(identifier)'' k then report_next ''E030'' [value_arg k]
      else do {
        v \<leftarrow> parse_identifier context False;
        c \<leftarrow> curr_ref;
        scope_addParam (case v of Some s \<Rightarrow> s | None \<Rightarrow> js ''undefined'') c (Some ''exception'')
      });
     k1 \<leftarrow> next_tok;
     provided (has_value ''if'' k1) (do {
       needs inMoz (report_curr ''W118'' [str_arg ''catch filter'']);
       advance_id ''if'';
       r_expr R context 0;
       ret ()
     });
     advance_id '')''
   }"

definition catch_clause :: "recs \<Rightarrow> nat \<Rightarrow> bool \<Rightarrow> unit parser" where
  "catch_clause R context again = do {
     increaseComplexityCount;
     provided again (needs inMoz (report_next ''W118'' [str_arg ''multiple catch blocks'']));
     advance_id ''catch'';
     k \<leftarrow> next_tok;
     let parameter = (\<not> has_id ''{'' k);
     (if parameter then do { scope_stack (Some ''catchparams''); catchParameter R context }
      else needs inES10 (report_curr ''W119'' [str_arg ''optional catch binding'', str_arg ''10'']));
     block R context False False False False False;
     provided parameter scope_unstack
   }"

text \<open>The clauses; whether there is any.\<close>

primrec catch_clauses :: "nat \<Rightarrow> recs \<Rightarrow> nat \<Rightarrow> bool \<Rightarrow> bool parser" where
  "catch_clauses 0 R context again = do { out_of_fuel; ret again }"
| "catch_clauses (Suc n) R context again = do {
     k \<leftarrow> next_tok;
     halt \<leftarrow> gets stopped;
     if halt \<or> \<not> has_id ''catch'' k then ret again
     else do {
       catch_clause R context again;
       catch_clauses n R context True
     }
   }"

definition try_fud :: "recs \<Rightarrow> nat \<Rightarrow> nat \<Rightarrow> nat option parser" where
  "try_fud R context t = do {
     block R (ctx_with context ctx_tryClause) True False False False False;
     caught \<leftarrow> catch_clauses (r_fuel R) R context False;
     k \<leftarrow> next_tok;
     if has_id ''finally'' k then do {
       advance_id ''finally'';
       block R context True False False False False;
       ret None
     }
     else do {
       provided (\<not> caught) (report_next ''E021'' [str_arg ''catch'', value_arg k]);
       ret (Some t)
     }
   }"

section \<open>\<open>while\<close>, \<open>with\<close>, \<open>do\<close>, \<open>debugger\<close>\<close>

definition while_fud :: "recs \<Rightarrow> nat \<Rightarrow> nat \<Rightarrow> nat option parser" where
  "while_fud R context t = do {
     breakage 1;
     loopage 1;
     increaseComplexityCount;
     condition R context;
     stmt_block R context;
     breakage (- 1);
     loopage (- 1);
     ret (Some t)
   }"

definition with_fud :: "recs \<Rightarrow> nat \<Rightarrow> nat \<Rightarrow> nat option parser" where
  "with_fud R context t = do {
     opening \<leftarrow> next_ref;
     strict \<leftarrow> lint_state isStrict;
     on \<leftarrow> opt ''withstmt'';
     (if strict then report_curr ''E010'' [] else provided (\<not> on) (report_curr ''W085'' []));
     advance_id ''('';
     r_expr R context 0;
     advance_to (Some '')'') (Some opening);
     stmt_block R context;
     ret (Some t)
   }"

definition do_fud :: "recs \<Rightarrow> nat \<Rightarrow> nat \<Rightarrow> nat option parser" where
  "do_fud R context t = do {
     breakage 1;
     loopage 1;
     increaseComplexityCount;
     xs \<leftarrow> stmt_block R context;
     upd_token t (\<lambda>k. k\<lparr>k_first := (case xs of Some ys \<Rightarrow> VList ys | None \<Rightarrow> VNone)\<rparr>);
     advance_id ''while'';
     condition R context;
     breakage (- 1);
     loopage (- 1);
     ret (Some t)
   }"

definition debugger_fud :: "nat \<Rightarrow> nat option parser" where
  "debugger_fud t = do {
     on \<leftarrow> opt ''debug'';
     provided (\<not> on) (report_tok ''W087'' t []);
     ret (Some t)
   }"

section \<open>\<open>switch\<close>\<close>

definition after_leaving :: "string list" where
  "after_leaving = [''yield'', ''break'', ''continue'', ''return'', ''throw'']"

text \<open>A \<open>case\<close>: the statement before it should have left the switch.\<close>

definition case_clause :: "recs \<Rightarrow> nat \<Rightarrow> unit parser" where
  "case_clause R context = do {
     verb \<leftarrow> funct_get f_verb;
     lean \<leftarrow> opt ''leanswitch'';
     c \<leftarrow> curr_tok;
     (if verb_in (after_leaving @ [''case'', ''switch'']) verb then ret ()
      else if verb_in [''default''] verb then provided lean (report_next ''W145'' [])
      else provided (\<not> k_caseFallsThrough c) (report_curr ''W086'' [str_arg ''case'']));
     advance_id ''case'';
     r_expr R context 0;
     increaseComplexityCount;
     advance_id '':'';
     set_verb (Some (js ''case''))
   }"

definition default_clause :: "bool \<Rightarrow> unit parser" where
  "default_clause seenCase = do {
     verb \<leftarrow> funct_get f_verb;
     lean \<leftarrow> opt ''leanswitch'';
     c \<leftarrow> curr_tok;
     (if verb_in after_leaving verb then ret ()
      else if verb_in [''case''] verb then provided lean (report_curr ''W145'' [])
      else provided (seenCase \<and> \<not> k_caseFallsThrough c) (report_curr ''W086'' [str_arg ''default'']));
     advance_id ''default'';
     advance_id '':'';
     set_verb (Some (js ''default''))
   }"

definition end_switch :: "nat \<Rightarrow> bool \<Rightarrow> unit parser" where
  "end_switch t noindent = do {
     provided (\<not> noindent) indent_less;
     advance_to (Some ''}'') (Some t);
     scope_unstack;
     breakage (- 1);
     set_verb None
   }"

text \<open>The statements of a clause; whether the switch goes on.\<close>

definition clause_statements :: "recs \<Rightarrow> nat \<Rightarrow> bool \<Rightarrow> bool parser" where
  "clause_statements R context g = do {
     indent_more;
     c \<leftarrow> curr_tok;
     k \<leftarrow> next_tok;
     goes_on \<leftarrow>
       (if g then
          (if has_id '','' c then do { report_here ''E040'' []; ret False }
           else if has_id '':'' c then do { statements R context; ret True }
           else do { report_curr ''E025'' []; ret False })
        else if has_id '':'' c then do {
          advance_id '':'';
          report_curr ''E024'' [str_arg '':''];
          statements R context;
          ret True
        }
        else do { report_next ''E021'' [str_arg ''case'', value_arg k]; ret False });
     provided goes_on indent_less;
     ret goes_on
   }"

text \<open>
  The loop over the clauses: \<open>g\<close> says that one has just begun. The early ends leave the scope, and
  the counter of the switch, behind.
\<close>

primrec switch_clauses :: "nat \<Rightarrow> recs \<Rightarrow> nat \<Rightarrow> nat \<Rightarrow> bool \<Rightarrow> bool \<Rightarrow> bool \<Rightarrow> unit parser" where
  "switch_clauses 0 R context t noindent g seenCase = out_of_fuel"
| "switch_clauses (Suc n) R context t noindent g seenCase = do {
     k \<leftarrow> next_tok;
     halt \<leftarrow> gets stopped;
     if halt then ret ()
     else if has_id ''case'' k then do {
       case_clause R context;
       switch_clauses n R context t noindent True True
     }
     else if has_id ''default'' k then do {
       default_clause seenCase;
       switch_clauses n R context t noindent True seenCase
     }
     else if has_id ''}'' k then end_switch t noindent
     else if has_id ''(end)'' k then report_next ''E023'' [str_arg ''}'']
     else do {
       goes_on \<leftarrow> clause_statements R context g;
       if goes_on then switch_clauses n R context t noindent False seenCase else ret ()
     }
   }"

definition switch_fud :: "recs \<Rightarrow> nat \<Rightarrow> nat \<Rightarrow> nat option parser" where
  "switch_fud R context t = do {
     breakage 1;
     condition R context;
     opening \<leftarrow> next_ref;
     advance_id ''{'';
     scope_stack None;
     k \<leftarrow> next_tok;
     i \<leftarrow> gets p_indent;
     let noindent = (map_option int (k_from k) = Some i);
     provided (\<not> noindent) indent_more;
     switch_clauses (r_fuel R) R context opening noindent False False;
     ret None
   }"

section \<open>Leaving a block\<close>

definition label_operand :: "nat \<Rightarrow> unit parser" where
  "label_operand t = do {
     n \<leftarrow> next_ref;
     v \<leftarrow> value_text n;
     known \<leftarrow> scope_get (\<lambda>G. hasLabel v (g_scopes G));
     provided (\<not> known) (report_tok ''W090'' n [JStr v]);
     set_first t (Some n);
     advance
   }"

definition break_fud :: "recs \<Rightarrow> nat \<Rightarrow> nat option parser" where
  "break_fud R t = do {
     c \<leftarrow> curr_tok;
     k \<leftarrow> next_tok;
     tk \<leftarrow> tok_at t;
     b \<leftarrow> funct_get f_breakage;
     (if k_identifier k \<and> sameLine c k then label_operand t
      else provided (b = 0) (report_next ''W052'' [value_arg tk]));
     reachable (r_fuel R) t;
     ret (Some t)
   }"

definition continue_fud :: "recs \<Rightarrow> nat \<Rightarrow> nat option parser" where
  "continue_fud R t = do {
     c \<leftarrow> curr_tok;
     k \<leftarrow> next_tok;
     tk \<leftarrow> tok_at t;
     b \<leftarrow> funct_get f_breakage;
     l \<leftarrow> funct_get f_loopage;
     provided (b = 0 \<or> l = 0) (report_next ''W052'' [value_arg tk]);
     provided (k_identifier k \<and> sameLine c k) (label_operand t);
     reachable (r_fuel R) t;
     ret (Some t)
   }"

definition return_value :: "recs \<Rightarrow> nat \<Rightarrow> nat \<Rightarrow> unit parser" where
  "return_value R context t = do {
     e \<leftarrow> r_expr R context 0;
     set_first t e;
     boss \<leftarrow> opt ''boss'';
     ek \<leftarrow> tok_opt e;
     (case (e, ek) of
        (Some x, Some k) \<Rightarrow>
          provided (checkPunctuator k ''='' \<and> \<not> k_paren k \<and> \<not> boss) (report_tok ''W093'' x [])
      | _ \<Rightarrow> ret ());
     on \<leftarrow> opt ''noreturnawait'';
     provided (on \<and> ctx_has context ctx_async \<and> \<not> ctx_has context ctx_tryClause) (check_return_await e)
   }"

definition return_fud :: "recs \<Rightarrow> nat \<Rightarrow> nat \<Rightarrow> nat option parser" where
  "return_fud R context t = do {
     tk \<leftarrow> tok_at t;
     k \<leftarrow> next_tok;
     (if sameLine tk k then provided (\<not> has_id '';'' k \<and> \<not> k_reach k) (return_value R context t)
      else provided (checkPunctuators k [''['', ''{'', ''+'', ''-'']) (nolinebreak t));
     reachable (r_fuel R) t;
     ret (Some t)
   }"

definition throw_fud :: "recs \<Rightarrow> nat \<Rightarrow> nat \<Rightarrow> nat option parser" where
  "throw_fud R context t = do {
     nolinebreak t;
     e \<leftarrow> r_expr R context 20;
     set_first t e;
     reachable (r_fuel R) t;
     ret (Some t)
   }"

end
