(* ===== verification/ParseLoop.thy ===== *)
theory ParseLoop
  imports ParseStmt
begin

text \<open>
  The statement \<open>for\<close> (\<^verbatim>\<open>jshint.js\<close>): its head, the three kinds of loops, and the check of the first
  \<open>if\<close> in a \<open>for in\<close> loop.
\<close>

section \<open>The head\<close>

text \<open>
  What the head leaves: the first comma and the first initializer at the top level, the target of an
  assignment, the declaration, and whether a scope was opened.
\<close>

record for_head =
  h_comma :: "nat option"
  h_initializer :: "nat option"
  h_target :: "nat option"
  h_decl :: "nat option"
  h_letscope :: bool

definition empty_head :: for_head where
  "empty_head = \<lparr>h_comma = None, h_initializer = None, h_target = None, h_decl = None, h_letscope = False\<rparr>"

definition each_prefix :: "nat option parser" where
  "each_prefix = do {
     t \<leftarrow> next_ref;
     k \<leftarrow> next_tok;
     if has_value ''each'' k then do {
       advance_id ''each'';
       needs inMoz (report_curr ''W118'' [str_arg ''for each'']);
       ret (Some t)
     }
     else ret None
   }"

definition for_await :: "nat \<Rightarrow> bool parser" where
  "for_await context = do {
     k \<leftarrow> next_tok;
     if isIdentifier (Some k) ''await'' then do {
       advance_id ''await'';
       (if \<not> ctx_has context ctx_async then report_curr ''E024'' [str_arg ''await'']
        else needs inES9 (report_curr ''W119'' [str_arg ''asynchronous iteration'', str_arg ''9'']));
       ret True
     }
     else ret False
   }"

text \<open>A declaration in the head: \<open>kind\<close> is its keyword.\<close>

definition declaration_head :: "nat option \<Rightarrow> bool \<Rightarrow> for_head parser" where
  "declaration_head d letscope = do {
     k \<leftarrow> tok_opt d;
     ret \<lparr>h_comma = (case k of Some x \<Rightarrow> if k_hasComma x then d else None | None \<Rightarrow> None),
          h_initializer = (case k of Some x \<Rightarrow> if k_hasInitializer x then d else None | None \<Rightarrow> None),
          h_target = None, h_decl = d, h_letscope = letscope\<rparr>
   }"

definition var_head :: "recs \<Rightarrow> nat \<Rightarrow> for_head parser" where
  "var_head R context = do {
     advance_id ''var'';
     c \<leftarrow> curr_ref;
     d \<leftarrow> var_fud R context c;
     declaration_head d False
   }"

definition let_head :: "recs \<Rightarrow> string \<Rightarrow> nat \<Rightarrow> for_head parser" where
  "let_head R ty context = do {
     advance_id ty;
     scope_stack None;
     c \<leftarrow> curr_ref;
     d \<leftarrow> blockVariableStatement R ty context c;
     declaration_head d True
   }"

text \<open>A head without a declaration: the targets and what has been seen so far.\<close>

definition pattern_target :: "recs \<Rightarrow> nat \<Rightarrow> nat list \<times> for_head \<Rightarrow> (nat list \<times> for_head) parser" where
  "pattern_target R context x = (case x of (ts, h) \<Rightarrow> do {
     ids \<leftarrow> destructuringPattern R context False True;
     k \<leftarrow> next_tok;
     if checkPunctuator k ''='' then do {
       advance_id ''='';
       c \<leftarrow> curr_ref;
       r_expr R context 10;
       ret (ts @ map snd ids, h\<lparr>h_initializer := Some c\<rparr>)
     }
     else ret (ts @ map snd ids, h)
   })"

definition expression_target :: "recs \<Rightarrow> nat \<Rightarrow> nat list \<times> for_head \<Rightarrow> (nat list \<times> for_head) parser" where
  "expression_target R context x = (case x of (ts, h) \<Rightarrow> do {
     e \<leftarrow> r_expr R context 10;
     k \<leftarrow> tok_opt e;
     (case (e, k) of
        (Some t, Some tk) \<Rightarrow>
          ret (if is_type ''(identifier)'' tk then (ts @ [t], h\<lparr>h_target := e\<rparr>)
               else if checkPunctuator tk ''='' then (ts @ [t], h\<lparr>h_target := e, h_initializer := e\<rparr>)
               else (ts, h\<lparr>h_target := e\<rparr>))
      | _ \<Rightarrow> ret (ts, h\<lparr>h_target := None\<rparr>))
   })"

definition target_comma :: "for_head \<Rightarrow> for_head parser" where
  "target_comma h = do {
     k \<leftarrow> next_tok;
     if checkPunctuator k '','' then do {
       advance_id '','';
       c \<leftarrow> curr_ref;
       ret (if h_comma h = None then h\<lparr>h_comma := Some c\<rparr> else h)
     }
     else ret h
   }"

primrec head_targets :: "nat \<Rightarrow> recs \<Rightarrow> nat \<Rightarrow> nat list \<times> for_head \<Rightarrow> (nat list \<times> for_head) parser" where
  "head_targets 0 R context x = do { out_of_fuel; ret x }"
| "head_targets (Suc n) R context x = do {
     k \<leftarrow> next_tok;
     halt \<leftarrow> gets stopped;
     if halt \<or> value_in [''in'', ''of''] k \<or> checkPunctuator k '';'' then ret x
     else do {
       (ts, h) \<leftarrow> (if checkPunctuators k [''{'', ''[''] then pattern_target R context x
                  else expression_target R context x);
       h1 \<leftarrow> target_comma h;
       head_targets n R context (ts, h1)
     }
   }"

definition check_implicit :: "nat \<Rightarrow> unit parser" where
  "check_implicit t = do {
     k \<leftarrow> tok_at t;
     v \<leftarrow> value_text t;
     known \<leftarrow> scope_get (has v);
     provided (\<not> known) (report_tok ''W088'' t [value_arg k])
   }"

definition plain_head :: "recs \<Rightarrow> nat \<Rightarrow> for_head parser" where
  "plain_head R context = do {
     (ts, h) \<leftarrow> head_targets (r_fuel R) R context ([], empty_head);
     provided (h_initializer h = None \<and> h_comma h = None) (for_each check_implicit ts);
     ret h
   }"

definition parse_head :: "recs \<Rightarrow> nat \<Rightarrow> for_head parser" where
  "parse_head R context = do {
     after \<leftarrow> peeked 0;
     k \<leftarrow> next_tok;
     if has_id ''var'' k then var_head R context
     else if has_id ''const'' k then let_head R ''const'' context
     else if has_id ''let'' k \<and>
         ((k_identifier after \<and> \<not> has_id ''in'' after) \<or> checkPunctuators after [''{'', ''[''])
       then let_head R ''let'' context
     else if \<not> checkPunctuator k '';'' then plain_head R context
     else ret empty_head
   }"

section \<open>\<open>for in\<close> and \<open>for of\<close>\<close>

definition push_forin :: "unit parser" where
  "push_forin =
     upd (\<lambda>S. S\<lparr>p_forinneeded := True, p_forinchecks := p_forinchecks S @ [''(none)'']\<rparr>)"

text \<open>Whether the body of a \<open>for in\<close> loop, \<open>xs\<close>, lacks the filter; \<open>None\<close> where the source throws.\<close>

definition unfiltered :: "nat option list option \<Rightarrow> tok option \<Rightarrow> string \<Rightarrow> bool option" where
  "unfiltered xs first ty =
     (if (case xs of Some (x # r) \<Rightarrow> (case first of Some k \<Rightarrow> \<not> has_value ''if'' k | None \<Rightarrow> True) | _ \<Rightarrow> False)
      then Some True
      else if ty = ''(positive)'' then
        (case xs of None \<Rightarrow> None | Some ys \<Rightarrow> Some (1 < List.length ys))
      else Some (ty = ''(negative)''))"

definition check_forin :: "nat \<Rightarrow> nat option list option \<Rightarrow> unit parser" where
  "check_forin t xs = do {
     cs \<leftarrow> gets p_forinchecks;
     k \<leftarrow> tok_opt (case xs of Some (x # r) \<Rightarrow> x | _ \<Rightarrow> None);
     provided (cs \<noteq> []) (do {
       upd (\<lambda>S. S\<lparr>p_forinchecks := butlast (p_forinchecks S)\<rparr>);
       (case unfiltered xs k (last cs) of
          None \<Rightarrow> type_error
        | Some b \<Rightarrow> provided b (report_tok ''W089'' t []))
     });
     upd (\<lambda>S. S\<lparr>p_forinneeded := False\<rparr>)
   }"

definition check_iteration_head :: "nat \<Rightarrow> for_head \<Rightarrow> nat \<Rightarrow> unit parser" where
  "check_iteration_head context h nextop = do {
     k \<leftarrow> tok_at nextop;
     provided (has_value ''of'' k) (needs (\<lambda>st. inES6 st False)
       (report_tok ''W104'' nextop [str_arg ''for of'', str_arg ''6'']));
     (case h_comma h of
        Some c \<Rightarrow> report_tok ''W133'' c [value_arg k, str_arg ''more than one ForBinding'']
      | None \<Rightarrow> ret ());
     (case h_initializer h of
        Some i \<Rightarrow> report_tok ''W133'' i [value_arg k, str_arg ''initializer is forbidden'']
      | None \<Rightarrow> ret ());
     (case h_target h of
        Some x \<Rightarrow> provided (h_comma h = None \<and> h_initializer h = None)
          (do { checkLeftSideAssign context x nextop False; ret () })
      | None \<Rightarrow> ret ())
   }"

definition iteration :: "recs \<Rightarrow> nat \<Rightarrow> nat \<Rightarrow> for_head \<Rightarrow> nat \<Rightarrow> nat \<Rightarrow> unit parser" where
  "iteration R context t h nextop opening = do {
     k \<leftarrow> tok_at nextop;
     let isIn = has_value ''in'' k;
     check_iteration_head context h nextop;
     advance_id (if isIn then ''in'' else ''of'');
     r_expr R context (if isIn then 0 else 20);
     advance_to (Some '')'') (Some opening);
     on \<leftarrow> opt ''forin'';
     provided (isIn \<and> on) push_forin;
     breakage 1;
     loopage 1;
     xs \<leftarrow> stmt_block R context;
     on1 \<leftarrow> opt ''forin'';
     provided (isIn \<and> on1) (check_forin t xs);
     breakage (- 1);
     loopage (- 1)
   }"

section \<open>\<open>for (;;)\<close>\<close>

definition initialize_names :: "nat \<Rightarrow> unit parser" where
  "initialize_names d = do {
     k \<leftarrow> tok_at d;
     (case k_first k of
        VList (Some x # r) \<Rightarrow> do {
          v \<leftarrow> tok_at x;
          provided (has_value ''const'' k \<and> \<not> k_hasInitializer k) (report_tok ''E012'' d [value_arg v]);
          for_each (\<lambda>n. case n of Some y \<Rightarrow> do { s \<leftarrow> value_text y; scope_initialize s } | None \<Rightarrow> ret ())
            (Some x # r)
        }
      | _ \<Rightarrow> ret ())
   }"

primrec increments :: "nat \<Rightarrow> recs \<Rightarrow> nat \<Rightarrow> unit parser" where
  "increments 0 R context = out_of_fuel"
| "increments (Suc n) R context = do {
     r_expr R context 0;
     k \<leftarrow> next_tok;
     halt \<leftarrow> gets stopped;
     if halt \<or> \<not> has_id '','' k then ret ()
     else do {
       advance_id '','';
       checkComma False False;
       increments n R context
     }
   }"

definition counting_loop :: "recs \<Rightarrow> nat \<Rightarrow> for_head \<Rightarrow> nat option \<Rightarrow> nat \<Rightarrow> unit parser" where
  "counting_loop R context h foreachtok opening = do {
     (case foreachtok of Some f \<Rightarrow> report_tok ''E045'' f [] | None \<Rightarrow> ret ());
     advance_id '';'';
     (case h_decl h of Some d \<Rightarrow> initialize_names d | None \<Rightarrow> ret ());
     loopage 1;
     k \<leftarrow> next_tok;
     provided (\<not> has_id '';'' k) (do { e \<leftarrow> r_expr R context 0; checkCondAssignment e });
     advance_id '';'';
     k1 \<leftarrow> next_tok;
     provided (has_id '';'' k1) (report_next ''E021'' [str_arg '')'', str_arg '';'']);
     provided (\<not> has_id '')'' k1) (increments (r_fuel R) R context);
     advance_to (Some '')'') (Some opening);
     breakage 1;
     stmt_block R context;
     breakage (- 1);
     loopage (- 1)
   }"

section \<open>The statement\<close>

definition for_fud :: "recs \<Rightarrow> nat \<Rightarrow> nat \<Rightarrow> nat option parser" where
  "for_fud R context t = do {
     opening \<leftarrow> next_ref;
     foreachtok \<leftarrow> each_prefix;
     isAsync \<leftarrow> for_await context;
     increaseComplexityCount;
     advance_id ''('';
     h \<leftarrow> parse_head R (ctx_with context ctx_noin);
     nextop \<leftarrow> next_ref;
     k \<leftarrow> next_tok;
     provided (isAsync \<and> \<not> has_value ''of'' k) (report_tok ''E066'' nextop []);
     (if value_in [''in'', ''of''] k then iteration R context t h nextop opening
      else counting_loop R context h foreachtok opening);
     provided (h_letscope h) scope_unstack;
     ret (Some t)
   }"

end
