(* ===== verification/ParseModule.thy ===== *)
theory ParseModule
  imports ParseLoop
begin

text \<open>
  The statements \<open>import\<close> and \<open>export\<close> (\<^verbatim>\<open>jshint.js\<close>). A binding whose name is missing is entered
  under the text \<open>undefined\<close>, as in the source.
\<close>

section \<open>\<open>import\<close>\<close>

definition import_binding :: "jstr option \<Rightarrow> unit parser" where
  "import_binding name = do {
     c \<leftarrow> curr_ref;
     scope_addbinding (case name of Some v \<Rightarrow> v | None \<Rightarrow> js ''undefined'') ''import'' c True
   }"

text \<open>A default binding; whether other bindings follow.\<close>

definition import_default :: "nat \<Rightarrow> bool parser" where
  "import_default context = do {
     name \<leftarrow> parse_identifier context False;
     import_binding name;
     k \<leftarrow> next_tok;
     if has_value '','' k then do { advance_id '',''; ret True } else ret False
   }"

definition import_namespace :: "nat \<Rightarrow> unit parser" where
  "import_namespace context = do {
     advance_id ''*'';
     advance_id ''as'';
     k \<leftarrow> next_tok;
     provided (k_identifier k) (do { name \<leftarrow> parse_identifier context False; import_binding name })
   }"

definition import_name :: "nat \<Rightarrow> jstr option parser" where
  "import_name context = do {
     p \<leftarrow> peeked 0;
     if has_value ''as'' p then do {
       parse_identifier context True;
       advance_id ''as'';
       parse_identifier context False
     }
     else parse_identifier context False
   }"

primrec import_names :: "nat \<Rightarrow> nat \<Rightarrow> unit parser" where
  "import_names 0 context = out_of_fuel"
| "import_names (Suc n) context = do {
     k \<leftarrow> next_tok;
     if has_value ''}'' k then advance_id ''}''
     else do {
       name \<leftarrow> import_name context;
       import_binding name;
       k1 \<leftarrow> next_tok;
       halt \<leftarrow> gets stopped;
       if halt then ret ()
       else if has_value '','' k1 then do { advance_id '',''; import_names n context }
       else if has_value ''}'' k1 then advance_id ''}''
       else report_next ''E024'' [value_arg k1]
     }
   }"

definition from_clause :: "unit parser" where
  "from_clause = do { advance_id ''from''; advance_id ''(string)'' }"

definition import_bindings :: "recs \<Rightarrow> nat \<Rightarrow> unit parser" where
  "import_bindings R context = do {
     k \<leftarrow> next_tok;
     (if has_id ''*'' k then import_namespace context
      else do { advance_id ''{''; import_names (r_fuel R) context });
     from_clause
   }"

definition import_fud :: "recs \<Rightarrow> nat \<Rightarrow> nat \<Rightarrow> nat option parser" where
  "import_fud R context t = do {
     atTop \<leftarrow> scope_get isGlobal;
     provided (\<not> atTop) (report_curr ''E053'' [str_arg ''Import'']);
     needs (\<lambda>st. inES6 st False) (report_curr ''W119'' [str_arg ''import'', str_arg ''6'']);
     k \<leftarrow> next_tok;
     (if is_type ''(string)'' k then advance_id ''(string)''
      else do {
        more \<leftarrow> (if k_identifier k then import_default context else ret True);
        (if more then import_bindings R context else from_clause)
      });
     ret (Some t)
   }"

definition import_useFud :: "bool parser" where
  "import_useFud = do { k \<leftarrow> next_tok; ret (\<not> checkPunctuators k [''.'', ''('']) }"

section \<open>\<open>export\<close>\<close>

definition name_pair :: "nat \<Rightarrow> (jstr \<times> nat) parser" where
  "name_pair t = do { v \<leftarrow> value_text t; ret (v, t) }"

definition name_pair_opt :: "nat option \<Rightarrow> (jstr \<times> nat) option parser" where
  "name_pair_opt t =
     (case t of None \<Rightarrow> ret None | Some n \<Rightarrow> do { p \<leftarrow> name_pair n; ret (Some p) })"

definition set_exported :: "nat option \<Rightarrow> nat option \<Rightarrow> unit parser" where
  "set_exported l e = do {
     lp \<leftarrow> name_pair_opt l;
     ep \<leftarrow> name_pair_opt e;
     scope_op (\<lambda>E. setExported E lp ep)
   }"

definition export_all :: "nat \<Rightarrow> unit parser" where
  "export_all context = do {
     advance_id ''*'';
     k \<leftarrow> next_tok;
     provided (has_value ''as'' k) (do {
       needs inES11 (report_curr ''W119'' [str_arg ''export * as ns from'', str_arg ''11'']);
       advance_id ''as'';
       parse_identifier context True;
       c \<leftarrow> curr_ref;
       set_exported None (Some c)
     });
     from_clause
   }"

text \<open>
  A function or a class that is exported: the denotation of the symbol is called, on the symbol
  itself, whose field \<open>name\<close> is then the name that was read.
\<close>

definition declared_name :: "string \<Rightarrow> (nat \<Rightarrow> nat option parser) \<Rightarrow> nat option parser" where
  "declared_name s fud = do {
     x \<leftarrow> alloc (symbol_tok s);
     fud x;
     k \<leftarrow> tok_at x;
     ret (k_name k)
   }"

definition mark_block :: "nat \<Rightarrow> unit parser" where
  "mark_block t = upd_symbol t (\<lambda>x. x\<lparr>s_block := True\<rparr>)"

definition export_function :: "recs \<Rightarrow> nat \<Rightarrow> nat \<Rightarrow> nat option parser" where
  "export_function R context t = do {
     mark_block t;
     advance_id ''function'';
     declared_name ''function'' (function_fud R context)
   }"

definition export_async :: "recs \<Rightarrow> nat \<Rightarrow> nat \<Rightarrow> nat option parser" where
  "export_async R context t = do {
     mark_block t;
     advance_id ''async'';
     advance_id ''function'';
     declared_name ''function'' (function_fud R (ctx_with context ctx_preAsync))
   }"

definition export_class :: "recs \<Rightarrow> nat \<Rightarrow> nat \<Rightarrow> nat option parser" where
  "export_class R context t = do {
     mark_block t;
     advance_id ''class'';
     declared_name ''class'' (class_fud R context)
   }"

text \<open>Whether the next tokens are \<open>async function\<close>.\<close>

definition async_function_follows :: "bool parser" where
  "async_function_follows = do {
     k \<leftarrow> next_tok;
     if has_id ''async'' k then do { p \<leftarrow> peeked 0; ret (has_id ''function'' p) } else ret False
   }"

definition export_default :: "recs \<Rightarrow> nat \<Rightarrow> nat \<Rightarrow> unit parser" where
  "export_default R context t = do {
     n \<leftarrow> next_ref;
     names_set n;
     advance_id ''default'';
     def \<leftarrow> curr_ref;
     k \<leftarrow> next_tok;
     isAsync \<leftarrow> async_function_follows;
     name \<leftarrow> (if has_id ''function'' k then export_function R context t
             else if isAsync then export_async R context t
             else if has_id ''class'' k then export_class R context t
             else do { r_expr R context 10; ret None });
     set_exported name (Some def)
   }"

text \<open>The names in braces, with the tokens they are exported as.\<close>

definition export_name :: "(nat \<times> nat) parser" where
  "export_name = do {
     k \<leftarrow> next_tok;
     provided (\<not> k_identifier k) (report_next ''E030'' [value_arg k]);
     advance;
     k1 \<leftarrow> next_tok;
     if has_value ''as'' k1 then do {
       advance_id ''as'';
       k2 \<leftarrow> next_tok;
       provided (\<not> k_identifier k2) (report_next ''E030'' [value_arg k2]);
       p \<leftarrow> prev_ref;
       n \<leftarrow> next_ref;
       advance;
       ret (p, n)
     }
     else do { c \<leftarrow> curr_ref; ret (c, c) }
   }"

primrec export_names :: "nat \<Rightarrow> (nat \<times> nat) list \<Rightarrow> (nat \<times> nat) list parser" where
  "export_names 0 xs = do { out_of_fuel; ret xs }"
| "export_names (Suc n) xs = do {
     k \<leftarrow> next_tok;
     halt \<leftarrow> gets stopped;
     if halt \<or> checkPunctuator k ''}'' then ret xs
     else do {
       x \<leftarrow> export_name;
       k1 \<leftarrow> next_tok;
       provided (\<not> checkPunctuator k1 ''}'') (advance_id '','');
       export_names n (xs @ [x])
     }
   }"

definition export_clause :: "recs \<Rightarrow> bool \<Rightarrow> nat \<Rightarrow> unit parser" where
  "export_clause R ok t = do {
     advance_id ''{'';
     xs \<leftarrow> export_names (r_fuel R) [];
     advance_id ''}'';
     k \<leftarrow> next_tok;
     specifier \<leftarrow> (if has_value ''from'' k then do {
                    advance_id ''from'';
                    m \<leftarrow> next_tok;
                    advance_id ''(string)'';
                    ret (Some m)
                  }
                  else do {
                    provided ok (for_each (\<lambda>(l, e). set_exported (Some l) (Some e)) xs);
                    ret None
                  });
     provided (xs = [])
       (case specifier of
          Some m \<Rightarrow> report_tok ''W142'' t [str_arg ''export'', value_arg m]
        | None \<Rightarrow> report_tok ''W141'' t [str_arg ''export''])
   }"

text \<open>The names a declaration of variables binds.\<close>

definition export_bindings :: "nat option \<Rightarrow> unit parser" where
  "export_bindings d = do {
     k \<leftarrow> tok_opt d;
     (case k of
        Some x \<Rightarrow> (case k_first x of
            VList ts \<Rightarrow> for_each (\<lambda>b. set_exported b b) ts
          | _ \<Rightarrow> type_error)
      | None \<Rightarrow> type_error)
   }"

definition export_variables :: "recs \<Rightarrow> nat \<Rightarrow> string \<Rightarrow> unit parser" where
  "export_variables R context ty = do {
     advance_id ty;
     c \<leftarrow> curr_ref;
     d \<leftarrow> (if ty = ''var'' then var_fud R context c else blockVariableStatement R ty context c);
     export_bindings d
   }"

definition export_declaration :: "recs \<Rightarrow> nat \<Rightarrow> nat \<Rightarrow> unit parser" where
  "export_declaration R context t = do {
     k \<leftarrow> next_tok;
     isAsync \<leftarrow> async_function_follows;
     if has_id ''var'' k then export_variables R context ''var''
     else if has_id ''let'' k then export_variables R context ''let''
     else if has_id ''const'' k then export_variables R context ''const''
     else if has_id ''function'' k then do { n \<leftarrow> export_function R context t; set_exported n n }
     else if isAsync then do { n \<leftarrow> export_async R context t; set_exported n n }
     else if has_id ''class'' k then do { n \<leftarrow> export_class R context t; set_exported n n }
     else report_next ''E024'' [value_arg k]
   }"

definition export_fud :: "recs \<Rightarrow> nat \<Rightarrow> nat \<Rightarrow> nat option parser" where
  "export_fud R context0 t = do {
     let context = ctx_with context0 ctx_export;
     es6 \<leftarrow> lint_state (\<lambda>st. inES6 st False);
     provided (\<not> es6) (report_curr ''W119'' [str_arg ''export'', str_arg ''6'']);
     atTop \<leftarrow> scope_get isGlobal;
     provided (\<not> atTop) (report_curr ''E053'' [str_arg ''Export'']);
     k \<leftarrow> next_tok;
     (if has_value ''*'' k then export_all context
      else if is_type ''default'' k then export_default R context t
      else if has_value ''{'' k then export_clause R (es6 \<and> atTop) t
      else export_declaration R context t);
     ret (Some t)
   }"

end
