(* ===== verification/ParseJson.thy ===== *)
theory ParseJson
  imports TokenStream
begin

text \<open>
  The JSON mode of \<^verbatim>\<open>jshint.js\<close>: \<open>jsonValue\<close> with its inner functions \<open>jsonObject\<close> and \<open>jsonArray\<close>,
  which parse a source that begins with a brace or a bracket and is no block and no pattern.

  The functions call each other; they are written with fuel, and cut when something was thrown.
  \<open>JsonEnds\<close> proves that some fuel is always enough.
\<close>

section \<open>Objects\<close>

text \<open>The token where a name is expected; whether it ends the object.\<close>

definition json_key_token :: "nat option \<Rightarrow> bool parser" where
  "json_key_token start_line = do {
     c \<leftarrow> curr_ref;
     n \<leftarrow> next_ref;
     k \<leftarrow> next_tok;
     if has_id ''(end)'' k then do { report_tok ''E026'' n [opt_num start_line]; ret False }
     else if has_id ''}'' k then do { report_tok ''W094'' c []; ret True }
     else if has_id '','' k then do { report_tok ''E028'' n []; ret False }
     else if \<not> has_id ''(string)'' k then do { report_tok ''W095'' n [value_arg k]; ret False }
     else ret False
   }"

definition key_text :: "tok \<Rightarrow> jstr" where
  "key_text k = (case k_value k of Some v \<Rightarrow> v | None \<Rightarrow> js ''undefined'')"

text \<open>The names seen so far are the keys of an object literal.\<close>

definition json_key :: "(jstr, unit) obj \<Rightarrow> (jstr, unit) obj parser" where
  "json_key seen = do {
     n \<leftarrow> next_ref;
     k \<leftarrow> next_tok;
     proto \<leftarrow> opt ''proto'';
     iterator \<leftarrow> opt ''iterator'';
     if obj_has seen (key_text k) then do {
       report_tok ''W075'' n [str_arg ''key'', value_arg k];
       ret seen
     }
     else if (has_value ''__proto__'' k \<and> \<not> proto) \<or> (has_value ''__iterator__'' k \<and> \<not> iterator) then do {
       report_tok ''W096'' n [value_arg k];
       ret seen
     }
     else ret (plain_put seen (key_text k) ())
   }"

primrec json_members :: "unit parser \<Rightarrow> nat \<Rightarrow> nat option \<Rightarrow> (jstr, unit) obj \<Rightarrow> unit parser" where
  "json_members v 0 start_line seen = out_of_fuel"
| "json_members v (Suc n) start_line seen = do {
     stop \<leftarrow> json_key_token start_line;
     if stop then ret ()
     else do {
       seen1 \<leftarrow> json_key seen;
       advance;
       advance_id '':'';
       v;
       k \<leftarrow> next_tok;
       if \<not> has_id '','' k then ret ()
       else do {
         advance_id '','';
         halt \<leftarrow> gets stopped;
         if halt then ret () else json_members v n start_line seen1
       }
     }
   }"

definition json_object :: "unit parser \<Rightarrow> nat \<Rightarrow> unit parser" where
  "json_object v n = do {
     t \<leftarrow> next_tok;
     advance_id ''{'';
     k \<leftarrow> next_tok;
     provided (\<not> has_id ''}'' k) (json_members v n (k_line t) []);
     advance_id ''}''
   }"

section \<open>Arrays\<close>

definition json_element_token :: "nat option \<Rightarrow> bool parser" where
  "json_element_token start_line = do {
     c \<leftarrow> curr_ref;
     n \<leftarrow> next_ref;
     k \<leftarrow> next_tok;
     if has_id ''(end)'' k then do { report_tok ''E027'' n [opt_num start_line]; ret False }
     else if has_id '']'' k then do { report_tok ''W094'' c []; ret True }
     else if has_id '','' k then do { report_tok ''E028'' n []; ret False }
     else ret False
   }"

primrec json_elements :: "unit parser \<Rightarrow> nat \<Rightarrow> nat option \<Rightarrow> unit parser" where
  "json_elements v 0 start_line = out_of_fuel"
| "json_elements v (Suc n) start_line = do {
     stop \<leftarrow> json_element_token start_line;
     if stop then ret ()
     else do {
       v;
       k \<leftarrow> next_tok;
       if \<not> has_id '','' k then ret ()
       else do {
         advance_id '','';
         halt \<leftarrow> gets stopped;
         if halt then ret () else json_elements v n start_line
       }
     }
   }"

definition json_array :: "unit parser \<Rightarrow> nat \<Rightarrow> unit parser" where
  "json_array v n = do {
     t \<leftarrow> next_tok;
     advance_id ''['';
     k \<leftarrow> next_tok;
     provided (\<not> has_id '']'' k) (json_elements v n (k_line t));
     advance_id '']''
   }"

section \<open>Values\<close>

definition json_literals :: "string list" where
  "json_literals = [''true'', ''false'', ''null'', ''(number)'', ''(string)'']"

primrec json_value :: "nat \<Rightarrow> unit parser" where
  "json_value 0 = out_of_fuel"
| "json_value (Suc n) = do {
     t \<leftarrow> next_ref;
     k \<leftarrow> next_tok;
     halt \<leftarrow> gets stopped;
     if halt then ret ()
     else if has_id ''{'' k then json_object (json_value n) n
     else if has_id ''['' k then json_array (json_value n) n
     else if list_ex (\<lambda>s. has_id s k) json_literals then advance
     else if has_id ''-'' k then do { advance_id ''-''; advance_id ''(number)'' }
     else report_tok ''E003'' t []
   }"

end
