(* ===== verification/Parser.thy ===== *)
theory Parser
  imports ParseModule ParseJson
begin

text \<open>
  The Pratt parser of \<^verbatim>\<open>jshint.js\<close>: the tables of denotations, \<open>expression\<close>, and the knot of the
  recursive functions.

  A token has a denotation when its symbol has one (\<open>s_nud\<close>, \<open>s_led\<close>, \<open>s_fud\<close>); which one is decided by
  the name of the symbol, \<open>k_proto\<close>.
\<close>

section \<open>Null denotations\<close>

text \<open>The literals whose denotation is the token itself.\<close>

definition literal_symbols :: "string list" where
  "literal_symbols = [''(string)'', ''(regexp)'', ''true'', ''false'', ''null'']"

definition nud_table :: "recs \<Rightarrow> nat \<Rightarrow> int \<Rightarrow> nat \<Rightarrow> (string \<times> nat option parser) list" where
  "nud_table R context rbp t =
     [(''(number)'', number_nud t), (''(identifier)'', identifier_nud context t),
      (''(template)'', doTemplateLiteral R context t None),
      (''(no subst template)'', doTemplateLiteral R context t None),
      (''this'', this_nud t), (''super'', super_nud t),
      (''/='', do { report_here ''E014'' []; ret None }),
      (''+'', sign_nud R [''+'', ''++''] ''W007'' context t),
      (''-'', sign_nud R [''-'', ''--''] ''W006'' context t),
      (''++'', prefix_nud R context t), (''--'', prefix_nud R context t),
      (''delete'', delete_nud R context t), (''~'', tilde_nud R context t), (''!'', not_nud R context t),
      (''typeof'', typeof_nud R context t), (''new'', new_nud R context t),
      (''class'', class_nud R context t), (''void'', prefix_nud R context t),
      (''('', group_nud R context rbp t), (''['', array_nud R context t),
      (''{'', object_nud R context t), (''let'', let_nud R context rbp t),
      (''function'', function_nud R context t), (''await'', await_nud R context t),
      (''async'', async_nud R context rbp t), (''yield'', yield_nud R context t),
      (''import'', import_nud R context t)]"

text \<open>The words that are reserved for later editions are names.\<close>

definition nud :: "recs \<Rightarrow> nat \<Rightarrow> int \<Rightarrow> string \<Rightarrow> nat \<Rightarrow> nat option parser" where
  "nud R context rbp p t =
     (if List.member literal_symbols p then ret (Some t)
      else case map_of (nud_table R context rbp t) p of
             Some m \<Rightarrow> m
           | None \<Rightarrow> identifier_nud context t)"

section \<open>Left denotations\<close>

definition led_table :: "recs \<Rightarrow> nat \<Rightarrow> nat \<Rightarrow> nat \<Rightarrow> (string \<times> nat option parser) list" where
  "led_table R context t left =
     [(''(identifier)'', identifier_led),
      (''(template)'', doTemplateLiteral R context t (Some left)),
      (''(no subst template)'', doTemplateLiteral R context t (Some left)),
      (''**='', power_assign_led R context t left),
      ('','', comma_led R context t left), (''?'', conditional_led R context t left),
      (''||'', logical_led R context 40 t left), (''&&'', logical_led R context 50 t left),
      (''??'', nullish_led R context t left), (''**'', power_led R context t left),
      (''|'', bitwise_led R context 70 t left), (''^'', bitwise_led R context 80 t left),
      (''&'', bitwise_led R context 90 t left),
      (''<<'', bitwise_led R context 120 t left), (''>>'', bitwise_led R context 120 t left),
      (''>>>'', bitwise_led R context 120 t left),
      (''in'', in_led R context t left), (''instanceof'', instanceof_led R context t left),
      (''+'', plus_led R context t left), (''-'', minus_led R context t left),
      (''*'', plain_led R context 140 t left), (''/'', plain_led R context 140 t left),
      (''%'', plain_led R context 140 t left),
      (''++'', suffix_led context t left), (''--'', suffix_led context t left),
      (''.'', dot_led R context t left), (''?.'', optional_led R context t left),
      (''('', call_led R context t left), (''=>'', arrow_led R context t left),
      (''['', bracket_led R context t left)]"

definition assign_symbols :: "string list" where
  "assign_symbols = [''='', ''+='', ''-='', ''*='', ''/='', ''%='']"

definition bitwise_assign_symbols :: "string list" where
  "bitwise_assign_symbols = [''&='', ''|='', ''^='', ''<<='', ''>>='', ''>>>='']"

definition relation_symbols :: "string list" where
  "relation_symbols = [''=='', ''==='', ''!='', ''!=='', ''<'', ''>'', ''<='', ''>='']"

text \<open>
  The symbol \<open>...\<close> has a denotation too, but no binding power: it is never the operator of an
  expression.
\<close>

definition led :: "recs \<Rightarrow> nat \<Rightarrow> string \<Rightarrow> nat \<Rightarrow> nat \<Rightarrow> nat option parser" where
  "led R context p t left =
     (if List.member assign_symbols p then assign_led R context t left
      else if List.member bitwise_assign_symbols p then bitwise_assign_led R context t left
      else if List.member relation_symbols p then relation_led R context t left
      else case map_of (led_table R context t left) p of
             Some m \<Rightarrow> m
           | None \<Rightarrow> ret None)"

section \<open>Statement denotations\<close>

definition fud_table :: "recs \<Rightarrow> nat \<Rightarrow> nat \<Rightarrow> (string \<times> nat option parser) list" where
  "fud_table R context t =
     [(''class'', class_fud R context t), (''{'', do { report_curr ''E036'' []; ret None }),
      (''const'', blockVariableStatement R ''const'' context t),
      (''let'', blockVariableStatement R ''let'' context t),
      (''var'', var_fud R context t), (''function'', function_fud R context t),
      (''if'', if_fud R context t), (''try'', try_fud R context t), (''while'', while_fud R context t),
      (''with'', with_fud R context t), (''switch'', switch_fud R context t),
      (''debugger'', debugger_fud t), (''do'', do_fud R context t), (''for'', for_fud R context t),
      (''break'', break_fud R t), (''continue'', continue_fud R t),
      (''return'', return_fud R context t), (''throw'', throw_fud R context t),
      (''async'', async_fud R context t), (''import'', import_fud R context t),
      (''export'', export_fud R context t)]"

definition fud :: "recs \<Rightarrow> nat \<Rightarrow> string \<Rightarrow> nat \<Rightarrow> nat option parser" where
  "fud R context p t =
     (case map_of (fud_table R context t) p of Some m \<Rightarrow> m | None \<Rightarrow> ret None)"

definition useFud :: "recs \<Rightarrow> nat \<Rightarrow> string \<Rightarrow> nat \<Rightarrow> bool parser" where
  "useFud R context p t =
     (if p = ''let'' then let_useFud context t
      else if p = ''async'' then async_isFunc R t
      else if p = ''import'' then import_useFud
      else ret True)"

section \<open>\<open>expression\<close>\<close>

text \<open>The test for \<open>new Array()\<close> and \<open>new Object()\<close>: what is before the parenthesis.\<close>

definition value_of :: "tok option \<Rightarrow> jstr option" where
  "value_of k = (case k of Some x \<Rightarrow> nonempty (k_value x) | None \<Rightarrow> None)"

definition constructed :: "nat option \<Rightarrow> (bool \<times> bool) parser" where
  "constructed left = do {
     c \<leftarrow> curr_tok;
     lk \<leftarrow> tok_opt left;
     fk \<leftarrow> tok_opt (case lk of Some k \<Rightarrow> (case k_first k of VTok f \<Rightarrow> Some f | _ \<Rightarrow> None) | None \<Rightarrow> None);
     let lv = (case lk of Some k \<Rightarrow> k_value k | None \<Rightarrow> None);
     let safe = ((value_of lk \<noteq> None \<or> value_of fk \<noteq> None) \<and>
                 (lv \<noteq> Some (js ''new'') \<or> value_of fk = Some (js ''.'')));
     ret (has_value ''Array'' c \<and> \<not> safe, has_value ''Object'' c \<and> \<not> (safe \<and> lv \<noteq> k_value c))
   }"

definition apply_led :: "recs \<Rightarrow> nat \<Rightarrow> nat option \<Rightarrow> nat option parser" where
  "apply_led R context left = do {
     c \<leftarrow> curr_ref;
     k \<leftarrow> curr_tok;
     (case left of
        Some l \<Rightarrow>
          if s_led (k_sym k) then led R context (k_proto k) c l
          else do { report_tok ''E033'' c [id_arg k]; ret left }
      | None \<Rightarrow> do { report_tok ''E033'' c [id_arg k]; ret left })
   }"

primrec operators :: "nat \<Rightarrow> recs \<Rightarrow> nat \<Rightarrow> int \<Rightarrow> nat option \<Rightarrow> nat option parser" where
  "operators 0 R context rbp left = do { out_of_fuel; ret left }"
| "operators (Suc n) R context rbp left = do {
     k \<leftarrow> next_tok;
     ends \<leftarrow> isEndOfExpr context;
     halt \<leftarrow> gets stopped;
     if halt \<or> \<not> above (k_lbp k) rbp \<or> ends then ret left
     else do {
       (isArray, isObject) \<leftarrow> constructed left;
       advance;
       c \<leftarrow> curr_tok;
       nk \<leftarrow> next_tok;
       provided (isArray \<and> has_id ''('' c \<and> has_id '')'' nk) (report_curr ''W009'' []);
       provided (isObject \<and> has_id ''('' c \<and> has_id '')'' nk) (report_curr ''W010'' []);
       left1 \<leftarrow> apply_led R context left;
       operators n R context rbp left1
     }
   }"

definition operand :: "recs \<Rightarrow> nat \<Rightarrow> int \<Rightarrow> nat option parser" where
  "operand R context rbp = do {
     c \<leftarrow> curr_ref;
     k \<leftarrow> curr_tok;
     left \<leftarrow> (if s_nud (k_sym k) then nud R context rbp (k_proto k) c
             else do { report_tok ''E030'' c [id_arg k]; ret None });
     operators (r_fuel R) R context rbp left
   }"

definition begin_statement :: "unit parser" where
  "begin_statement = do {
     c \<leftarrow> curr_ref;
     k \<leftarrow> curr_tok;
     set_verb (k_value k);
     upd_token c (\<lambda>k. k\<lparr>k_beginsStmt := True\<rparr>)
   }"

definition expression :: "recs \<Rightarrow> nat \<Rightarrow> int \<Rightarrow> nat option parser" where
  "expression R context0 rbp = do {
     let isInitial = ctx_has context0 ctx_initial;
     let context = ctx_without context0 ctx_initial;
     names_push;
     n \<leftarrow> next_tok;
     provided (has_id ''(end)'' n) (report_curr ''E006'' []);
     advance;
     provided isInitial begin_statement;
     c \<leftarrow> curr_ref;
     k \<leftarrow> curr_tok;
     asFud \<leftarrow> (if isInitial \<and> s_fud (k_sym k) then useFud R context (k_proto k) c else ret False);
     left \<leftarrow> (if asFud then fud R context (k_proto k) c else operand R context rbp);
     names_pop;
     ret left
   }"

section \<open>The knot\<close>

text \<open>
  \<open>parser_recs N n\<close>: the recursive functions with depth \<open>n\<close>, the loops with fuel \<open>N\<close>. After an exception
  nothing is called any more.
\<close>

definition unless_stopped :: "'a \<Rightarrow> 'a parser \<Rightarrow> 'a parser" where
  "unless_stopped x m = do { halt \<leftarrow> gets stopped; if halt then ret x else m }"

primrec parser_recs :: "nat \<Rightarrow> nat \<Rightarrow> recs" where
  "parser_recs N 0 =
     \<lparr>r_fuel = N, r_expr = (\<lambda>c p. do { out_of_fuel; ret None }),
      r_stmt = (\<lambda>c. do { out_of_fuel; ret None }),
      r_pat = (\<lambda>c b a. do { out_of_fuel; ret [] })\<rparr>"
| "parser_recs N (Suc n) =
     \<lparr>r_fuel = N, r_expr = (\<lambda>c p. unless_stopped None (expression (parser_recs N n) c p)),
      r_stmt = (\<lambda>c. unless_stopped None (statement (parser_recs N n) c)),
      r_pat = (\<lambda>c b a. unless_stopped [] (destructuringPatternRecursive (parser_recs N n) c b a))\<rparr>"

section \<open>Programs\<close>

text \<open>A source that begins with a brace or a bracket: a block, or a text in JSON.\<close>

definition destructuringAssignOrJsonValue :: "recs \<Rightarrow> nat \<Rightarrow> unit parser" where
  "destructuringAssignOrJsonValue R context = do {
     bt \<leftarrow> lookupBlockType (r_fuel R);
     if bt_notJson bt then do {
       es6 \<leftarrow> lint_state (\<lambda>st. inES6 st False);
       provided (\<not> es6 \<and> bt_isDestAssign bt)
         (report_curr ''W104'' [str_arg ''destructuring assignment'', str_arg ''6'']);
       statements R context;
       ret ()
     }
     else do {
       set_opt ''laxbreak'' (JBool True);
       upd_lstate (\<lambda>st. st\<lparr>jsonMode := True\<rparr>);
       json_value (r_fuel R)
     }
   }"

definition check_global_strict :: "unit parser" where
  "check_global_strict = do {
     d \<leftarrow> lint_state (\<lambda>st. obj_get (directive st) use_strict);
     allowed \<leftarrow> lint_state allowsGlobalUsd;
     (case d of Some t \<Rightarrow> provided (\<not> allowed) (report_tok ''W097'' t []) | None \<Rightarrow> ret ())
   }"

definition parse_program :: "recs \<Rightarrow> unit parser" where
  "parse_program R = do {
     advance;
     k \<leftarrow> next_tok;
     (if id_in [''{'', ''[''] k then destructuringAssignOrJsonValue R 0
      else do {
        directives R;
        check_global_strict;
        statements R 0;
        ret ()
      });
     k1 \<leftarrow> next_tok;
     c \<leftarrow> curr_ref;
     provided (\<not> has_id ''(end)'' k1) (quit_tok ''E041'' c);
     scope_unstack
   }"

end
