(* ===== verification/ParseRun.thy ===== *)
theory ParseRun
  imports Parser
begin

text \<open>
  A whole run (\<open>itself\<close> of \<^verbatim>\<open>jshint.js\<close>): the state the parser starts in, the parse between the
  beginning and the end of a run, the runs for strings that are evaluated (\<open>lintEvalCode\<close>), the
  summary with its functions and members, and the wrapper around all of it.
\<close>

section \<open>One run\<close>

text \<open>
  \<open>re\<close> is the engine's \<open>RegExp\<close>. The checks of the loops over properties are part of the global state
  that no run resets.
\<close>

definition initial_pst :: "(jstr \<Rightarrow> jstr \<Rightarrow> jstr option) \<Rightarrow> bool \<times> string list \<Rightarrow> lexer \<Rightarrow> linter \<Rightarrow> pst" where
  "initial_pst re forin lx L =
     \<lparr>p_lint = L, p_lexer = lx, p_re = re, p_store = (\<lambda>_. plain_tok)(0 := begin_tok), p_fresh = 1,
      p_prev = 0, p_curr = 0, p_next = 0, p_look = [], p_functs = (\<lambda>_. global_functor),
      p_functions = 1, p_funct = 0, p_names = new_NameStack, p_indent = 1, p_inblock = False,
      p_member = [], p_internals = [], p_firstComma = True, p_comp = [],
      p_forinneeded = fst forin, p_forinchecks = snd forin, p_plainDirectives = False, p_stuck = False\<rparr>"

text \<open>The fuel \<open>n\<close> bounds the depth of the recursion and the length of the loops.\<close>

definition the_parser :: "nat \<Rightarrow> recs" where
  "the_parser n = parser_recs n n"

definition run_parser :: "nat \<Rightarrow> pst \<Rightarrow> pst" where
  "run_parser n S = snd (run_state (parse_program (the_parser n)) S)"

definition parse_source ::
  "nat \<Rightarrow> (jstr \<Rightarrow> jstr \<Rightarrow> jstr option) \<Rightarrow> bool \<times> string list \<Rightarrow> call_options \<Rightarrow> (jstr, jsval) obj \<Rightarrow>
   jstr \<Rightarrow> linter \<Rightarrow> pst" where
  "parse_source n re forin o' g source L0 =
     (case start_run o' g source L0 of (lx, L) \<Rightarrow> run_parser n (initial_pst re forin lx L))"

text \<open>The state after the exceptions of the parse have been handled.\<close>

definition finish_parse :: "pst \<Rightarrow> pst" where
  "finish_parse S = S\<lparr>p_lint := finish_run (synced S)\<rparr>"

definition lint_once ::
  "nat \<Rightarrow> (jstr \<Rightarrow> jstr \<Rightarrow> jstr option) \<Rightarrow> bool \<times> string list \<Rightarrow> call_options \<Rightarrow> (jstr, jsval) obj \<Rightarrow>
   jstr \<Rightarrow> linter \<Rightarrow> pst" where
  "lint_once n re forin o' g source L0 = finish_parse (parse_source n re forin o' g source L0)"

section \<open>Evaluated strings\<close>

text \<open>
  The options of a run for an evaluated string: what the first run has deleted is gone, and the
  scope is the token of the function that is called, shown by its value.
\<close>

definition eval_options :: "jstr \<Rightarrow> call_options \<Rightarrow> call_options" where
  "eval_options elem o' = o'\<lparr>c_predef := None, c_exported := None, c_scope := Some elem\<rparr>"

text \<open>
  \<open>lintEvalCode\<close> goes through a list that the runs it makes append to. A run that ends with an
  exception that is no result ends the loop.
\<close>

primrec lintEvalCode ::
  "nat \<Rightarrow> nat \<Rightarrow> (jstr \<Rightarrow> jstr \<Rightarrow> jstr option) \<Rightarrow> call_options \<Rightarrow> (jstr, jsval) obj \<Rightarrow>
   (jstr \<times> nat \<times> jstr) list \<Rightarrow> pst \<Rightarrow> pst" where
  "lintEvalCode 0 n re o' g xs S = (if xs = [] then S else S\<lparr>p_stuck := True\<rparr>)"
| "lintEvalCode (Suc m) n re o' g xs S =
     (case xs of
        [] \<Rightarrow> S
      | (elem, l, code) # r \<Rightarrow>
          if stopped S then S
          else
            (let S1 = lint_once n re (p_forinneeded S, p_forinchecks S) (eval_options elem o') g code (p_lint S);
                 S2 = S1\<lparr>p_lint := shift_lines (List.length (l_errors (p_lint S))) l (p_lint S1)\<rparr>
             in lintEvalCode m n re o' g (r @ p_internals S1) S2))"

text \<open>\<open>JSHINT(source, options, globals)\<close>, the first call after the program was loaded.\<close>

definition jshint ::
  "nat \<Rightarrow> (jstr \<Rightarrow> jstr \<Rightarrow> jstr option) \<Rightarrow> call_options \<Rightarrow> (jstr, jsval) obj \<Rightarrow> jstr \<Rightarrow> linter \<Rightarrow> pst" where
  "jshint n re o' g source L0 =
     (let S = lint_once n re (False, []) o' g source L0 in
      if stopped S \<or> l_scope (p_lint S) \<noteq> js ''(main)'' then S
      else lintEvalCode n n re o' g (p_internals S) S)"

section \<open>The summary\<close>

record function_data =
  fd_name :: "jstr option"
  fd_param :: "jstr list option"
  fd_line :: "nat option"
  fd_character :: "nat option"
  fd_last :: "nat option"
  fd_lastcharacter :: "nat option"
  fd_complexity :: nat
  fd_parameters :: nat
  fd_statements :: nat

definition function_data_of :: "funct \<Rightarrow> function_data" where
  "function_data_of F =
     \<lparr>fd_name = f_name F, fd_param = f_params F, fd_line = f_line F, fd_character = f_character F,
      fd_last = f_last F, fd_lastcharacter = f_lastcharacter F, fd_complexity = f_complexity F,
      fd_parameters = f_arity F, fd_statements = f_statements F\<rparr>"

definition data_functions :: "pst \<Rightarrow> function_data list" where
  "data_functions S = map (\<lambda>i. function_data_of (p_functs S i)) [1..<p_functions S]"

definition data_member :: "pst \<Rightarrow> (jstr, nat) obj option" where
  "data_member S = (if p_member S = [] then None else Some (p_member S))"

section \<open>The wrapper\<close>

text \<open>
  \<open>validateJS\<close>: the input's code, options and globals; \<open>None\<close> when an exception leaves \<open>JSHINT\<close>.
\<close>

definition validateJS ::
  "nat \<Rightarrow> (jstr \<Rightarrow> jstr \<Rightarrow> jstr option) \<Rightarrow> jstr \<Rightarrow> call_options \<Rightarrow> string list option \<Rightarrow> jstr list \<Rightarrow> linter \<Rightarrow>
   summary option" where
  "validateJS n re code o' includewarnings globals L0 =
     (let S = jshint n re o' (globals_table globals) code L0 in
      if l_thrown (p_lint S) \<noteq> None then None
      else Some (wrap_data includewarnings (lint_data (p_lint S))))"

end
