(* ===== verification/ScopeFrame.thy ===== *)
theory ScopeFrame
  imports ScopeUse
begin

text \<open>
  No operation of the scope manager the parser calls touches the predefined names: those belong to
  the options and the directives.
\<close>

declare predef.view_upd_cur [simp]

lemma predefined_crash [simp]: "g_predefined (crash G) = g_predefined G"
  by (simp add: crash_def)

lemma predefined_entering [simp]: "g_predefined (stack ty G) = g_predefined G"
  by (simp add: stack_def newScope_def Let_def split: list.splits)

lemma predefined_unstack [simp]: "g_predefined (unstack E G) = g_predefined G"
proof (cases "g_scopes G")
  case (Cons c r)
  then show ?thesis
    by (auto simp: unstack_settle [OF Cons] settle_def Let_def predef.view_checkForUnused unstack_usage_views
        predef.view_unused_declared predef.view_hoist predef.view_fold split: list.splits)
qed (simp add: unstack_def)

lemma predefined_outer_shadow [simp]: "g_predefined (outer_shadow f body outside n t cs G) = g_predefined G"
  by (induction f body outside n t cs G rule: outer_shadow.induct) (simp_all add: Let_def)

lemma predefined_checks [simp]:
  "g_predefined (checkOuterShadow E n t G) = g_predefined G" "g_predefined (latedefWarning E ty n t G) = g_predefined G"
  by (simp_all add: checkOuterShadow_def latedefWarning_def Let_def split: list.splits)

lemma predefined_adding [simp]:
  "g_predefined (funct_add n ty t u G) = g_predefined G" "g_predefined (block_add n ty t u i G) = g_predefined G"
  by (simp_all add: funct_add_def block_add_def)

lemma predefined_addbinding [simp]: "g_predefined (addbinding E n ty t i G) = g_predefined G"
proof -
  have "g_predefined (addbinding_block E n ty t i x G) = g_predefined G" for x G
    by (simp add: addbinding_block_def Let_def split: list.split option.split)
  moreover have "g_predefined (addbinding_funct E n ty t x G) = g_predefined G" for x G
    by (simp add: addbinding_funct_def Let_def)
  ultimately show ?thesis by (simp add: addbinding_def Let_def)
qed

lemma predefined_params [simp]:
  "g_predefined (addParam E n t ot G) = g_predefined G" "g_predefined (validateParams E b G) = g_predefined G"
proof -
  have "g_predefined (declare_param E n t ty G) = g_predefined G" for ty G
    by (simp add: declare_param_def Let_def split: list.splits option.splits)
  moreover have "g_predefined (check_exception E n t G) = g_predefined G"
    by (simp add: check_exception_def Let_def)
  ultimately show "g_predefined (addParam E n t ot G) = g_predefined G"
    by (simp add: addParam_def Let_def split: list.splits option.splits)
  have "g_predefined (validate_param E b bs m H) = g_predefined H" for bs m H
    by (simp add: validate_param_def Let_def split: option.splits)
  then show "g_predefined (validateParams E b G) = g_predefined G"
    by (simp add: validateParams_def predef.view_fold split: option.splits)
qed

lemma predefined_using [simp]:
  "g_predefined (block_use E n ot G) = g_predefined G" "g_predefined (block_reassign E n t G) = g_predefined G"
  "g_predefined (initialize n G) = g_predefined G" "g_predefined (addLabel E n t G) = g_predefined G"
  "g_predefined (setExported E l x G) = g_predefined G"
proof -
  have p: "g_predefined (use_param n G) = g_predefined G" for n G
    by (simp add: use_param_def body_binding_def split: option.splits)
  show u: "g_predefined (block_use E n ot G) = g_predefined G" for n ot G
    by (simp add: block_use_def Let_def p check_tdz_def split: list.splits option.splits)
  show "g_predefined (block_reassign E n t G) = g_predefined G" "g_predefined (initialize n G) = g_predefined G"
    "g_predefined (addLabel E n t G) = g_predefined G"
    by (simp_all add: block_reassign_def block_modify_def initialize_def addLabel_def Let_def)
  show "g_predefined (setExported E l x G) = g_predefined G"
    by (simp add: setExported_def Let_def u split: option.splits)
qed
end
