(* ===== verification/ScopeHistory.thy ===== *)
theory ScopeHistory
  imports ScopeFrame
begin

text \<open>
  The history of a manager: the calls the parser makes, and what else changes it, the tables it shares with
  the options and the directives, and the tokens.
\<close>

section \<open>Calls\<close>

text \<open>
  The calls of the parser. It opens no second global scope; the names that are predefined or declared by
  comments are stored in the shared tables.
\<close>

definition called :: "manager_call \<Rightarrow> bool" where
  "called op \<longleftrightarrow> (case op of OStack ty \<Rightarrow> ty \<noteq> Some ''global'' | OPredefine n v \<Rightarrow> False | ODeclare n t \<Rightarrow> False | _ \<Rightarrow> True)"

definition is_call :: "scope_env \<Rightarrow> (manager \<Rightarrow> manager) \<Rightarrow> bool" where
  "is_call E f \<longleftrightarrow> (\<exists>op. called op \<and> f = scope_step E op)"

lemma step_functions:
  "scope_step E (OStack ty) = stack ty" "scope_step E (OUnstack) = unstack E"
  "scope_step E (OAddParam n t ot) = addParam E n t ot"
  "scope_step E (OValidateParams b) = validateParams E b" "scope_step E (OAddExported n) = addExported n"
  "scope_step E (OSetExported l x) = setExported E l x" "scope_step E (OInitialize n) = initialize n"
  "scope_step E (OAddbinding n ty' t i) = addbinding E n ty' t i"
  "scope_step E (OFunctAdd n ty' t u) = funct_add n ty' t u"
  "scope_step E (OBlockAdd n ty' t u i) = block_add n ty' t u i" "scope_step E (OUse n u') = block_use E n u'"
  "scope_step E (OReassign n t) = block_reassign E n t" "scope_step E (OModify n t) = block_modify n t"
  "scope_step E (OAddLabel n t) = addLabel E n t"
  "scope_step E (OForgive t) = upd_tok t (\<lambda>k. k\<lparr>t_forgiveUndef := True\<rparr>)"
  by (rule ext, simp)+

lemma is_call_step: "called op \<Longrightarrow> is_call E (scope_step E op)"
  by (auto simp: is_call_def)

lemma calls [simp]:
  "is_call E (stack None)" "ty \<noteq> ''global'' \<Longrightarrow> is_call E (stack (Some ty))"
  "is_call E (unstack E)" "is_call E (addParam E n t ot)" "is_call E (validateParams E b)"
  "is_call E (addExported n)" "is_call E (setExported E l x)" "is_call E (initialize n)"
  "is_call E (addbinding E n ty' t i)" "is_call E (funct_add n ty' t u)" "is_call E (block_add n ty' t u i)"
  "is_call E (block_use E n u')" "is_call E (block_reassign E n t)" "is_call E (block_modify n t)"
  "is_call E (addLabel E n t)" "is_call E (upd_tok t (\<lambda>k. k\<lparr>t_forgiveUndef := True\<rparr>))"
proof -
  note c = is_call_step [of _ E, unfolded called_def]
  show "is_call E (stack None)" using c [of "OStack None"] by (simp add: step_functions)
  show "is_call E (stack (Some ty))" if "ty \<noteq> ''global''" using that c [of "OStack (Some ty)"] by (simp add: step_functions)
  show "is_call E (unstack E)" using c [of "OUnstack"] by (simp only: step_functions manager_call.case simp_thms)
  show "is_call E (addParam E n t ot)" using c [of "OAddParam n t ot"] by (simp only: step_functions manager_call.case simp_thms)
  show "is_call E (validateParams E b)" using c [of "OValidateParams b"] by (simp only: step_functions manager_call.case simp_thms)
  show "is_call E (addExported n)" using c [of "OAddExported n"] by (simp only: step_functions manager_call.case simp_thms)
  show "is_call E (setExported E l x)" using c [of "OSetExported l x"] by (simp only: step_functions manager_call.case simp_thms)
  show "is_call E (initialize n)" using c [of "OInitialize n"] by (simp only: step_functions manager_call.case simp_thms)
  show "is_call E (addbinding E n ty' t i)" using c [of "OAddbinding n ty' t i"] by (simp only: step_functions manager_call.case simp_thms)
  show "is_call E (funct_add n ty' t u)" using c [of "OFunctAdd n ty' t u"] by (simp only: step_functions manager_call.case simp_thms)
  show "is_call E (block_add n ty' t u i)" using c [of "OBlockAdd n ty' t u i"] by (simp only: step_functions manager_call.case simp_thms)
  show "is_call E (block_use E n u')" using c [of "OUse n u'"] by (simp only: step_functions manager_call.case simp_thms)
  show "is_call E (block_reassign E n t)" using c [of "OReassign n t"] by (simp only: step_functions manager_call.case simp_thms)
  show "is_call E (block_modify n t)" using c [of "OModify n t"] by (simp only: step_functions manager_call.case simp_thms)
  show "is_call E (addLabel E n t)" using c [of "OAddLabel n t"] by (simp only: step_functions manager_call.case simp_thms)
  show "is_call E (upd_tok t (\<lambda>k. k\<lparr>t_forgiveUndef := True\<rparr>))" using c [of "OForgive t"] by (simp only: step_functions manager_call.case simp_thms)
qed

lemma call_predefined: "is_call E f \<Longrightarrow> g_predefined (f G) = g_predefined G"
proof -
  have "called op \<Longrightarrow> g_predefined (scope_step E op G) = g_predefined G" for op
    by (cases op) (simp_all add: called_def block_modify_def addExported_def body_binding_def crash_def split: list.split option.split)
  then show "is_call E f \<Longrightarrow> g_predefined (f G) = g_predefined G" by (auto simp: is_call_def)
qed

section \<open>Histories\<close>

datatype manager_event =
    Shared "(jstr, jsval) obj" "(jstr, nat) obj" "nat \<Rightarrow> stoken"
  | Called scope_env manager_call

fun event_step :: "manager_event \<Rightarrow> manager \<Rightarrow> manager" where
  "event_step (Shared p d ts) G = G\<lparr>g_predefined := p, g_declared := d, g_toks := ts\<rparr>"
| "event_step (Called E op) G = scope_step E op G"

fun lawful :: "manager_event \<Rightarrow> bool" where
  "lawful (Shared p d ts) = True"
| "lawful (Called E op) = called op"

text \<open>The calls after which a manager is no longer well formed: those that throw, and leaving the global scope.\<close>

fun breaks :: "manager_event \<Rightarrow> manager \<Rightarrow> bool" where
  "breaks (Shared p d ts) G = False"
| "breaks (Called E op) G = (throws op G \<or> op = OUnstack \<and> List.length (g_scopes G) = 1)"

definition leads :: "manager \<Rightarrow> manager \<Rightarrow> bool" where
  "leads G G' \<longleftrightarrow> (\<exists>es. list_all lawful es \<and> G' = fold event_step es G)"

lemma leads_refl: "leads G G"
  by (auto simp: leads_def intro: exI [of _ "[]"])

lemma leads_trans: "leads G G1 \<Longrightarrow> leads G1 G2 \<Longrightarrow> leads G G2"
  unfolding leads_def by (metis fold_append comp_apply list_all_append)

lemma leads_shared: "leads G (G\<lparr>g_predefined := p, g_declared := d, g_toks := ts\<rparr>)"
  unfolding leads_def by (intro exI [of _ "[Shared p d ts]"]) simp

lemma leads_toks: "leads G (upd_tok t f G)"
  using leads_shared [where p = "g_predefined G" and d = "g_declared G" and ts = "(g_toks G)(t := f (g_toks G t))" and G = G] by (simp add: upd_tok_def)

lemma leads_call: "is_call E f \<Longrightarrow> leads G (f (G\<lparr>g_predefined := p, g_declared := d\<rparr>))"
proof -
  assume "is_call E f"
  then obtain op where "called op" "f = scope_step E op" by (auto simp: is_call_def)
  then show ?thesis
    unfolding leads_def by (intro exI [of _ "[Shared p d (g_toks G), Called E op]"]) simp
qed

lemma lawful_step: "wf_manager G \<Longrightarrow> lawful e \<Longrightarrow> \<not> breaks e G \<Longrightarrow> wf_manager (event_step e G)"
proof (cases e)
  case (Called E op)
  assume "wf_manager G" "lawful e" "\<not> breaks e G"
  moreover have "g_scopes G \<noteq> []" using \<open>wf_manager G\<close> by (rule wf_not_Nil)
  then have "1 < List.length (g_scopes G)" if "List.length (g_scopes G) \<noteq> 1"
    using that by (cases "List.length (g_scopes G)") auto
  ultimately have "allowed op G"
    unfolding Called by (cases op) (auto simp: called_def)
  with \<open>wf_manager G\<close> show ?thesis using Called wf_scope_step by simp
qed (simp add: wf_manager_def)

lemma history_ok:
  assumes "wf_manager G" "list_all lawful es" "k \<le> List.length es"
  shows "wf_manager (fold event_step (take k es) G) \<or> (\<exists>j < k. breaks (es ! j) (fold event_step (take j es) G))"
  using assms(3)
proof (induction k)
  case (Suc k)
  then show ?case
    using assms(2) lawful_step [of "fold event_step (take k es) G" "es ! k"]
    by (auto simp: take_Suc_conv_app_nth list_all_length less_Suc_eq)
qed (simp add: assms(1))

end
