(* ===== verification/ParserRelation.thy ===== *)
theory ParserRelation
  imports ParseRun ScopeHistory
begin

text \<open>
  What a parse keeps: a relation between the states before and after that every step of the parser
  respects. The locale \<open>parser_steps\<close> lists the steps all functions of the parser are made of. Loops are
  an interface of their own: \<open>parser_peeks\<close> assumes of those that read ahead that they respect the
  relation, and \<open>parser_relation\<close>, for relations that a run that is cut off respects as well, proves it.
\<close>

section \<open>Respecting a relation\<close>

definition obeys :: "(pst \<Rightarrow> pst \<Rightarrow> bool) \<Rightarrow> 'a parser \<Rightarrow> bool" where
  "obeys Q m \<longleftrightarrow> (\<forall>S. Q S (snd (run_state m S)))"

lemma obeysI: "(\<And>S. Q S (snd (run_state m S))) \<Longrightarrow> obeys Q m"
  by (simp add: obeys_def)

lemma obeysD: "obeys Q m \<Longrightarrow> Q S (snd (run_state m S))"
  by (simp add: obeys_def)

text \<open>Rules for the constructs of the definitions, used backwards.\<close>

named_theorems obeys_rule and obeys_step

lemma obeys_branches [obeys_rule]:
  "obeys Q m1 \<Longrightarrow> obeys Q m2 \<Longrightarrow> obeys Q (if b then m1 else m2)"
  "obeys Q (h x) \<Longrightarrow> obeys Q (Let x h)"
  "(\<And>a b. obeys Q (g a b)) \<Longrightarrow> obeys Q (case p of (a, b) \<Rightarrow> g a b)"
  "obeys Q m1 \<Longrightarrow> (\<And>x. obeys Q (f x)) \<Longrightarrow> obeys Q (case o' of None \<Rightarrow> m1 | Some x \<Rightarrow> f x)"
  "obeys Q m1 \<Longrightarrow> (\<And>x r. obeys Q (l x r)) \<Longrightarrow> obeys Q (case xs of [] \<Rightarrow> m1 | x # r \<Rightarrow> l x r)"
  by (auto split: option.splits list.splits prod.splits)

lemma obeys_cases [obeys_rule]:
  "obeys Q m1 \<Longrightarrow> (\<And>x. obeys Q (f x)) \<Longrightarrow> (\<And>x. obeys Q (g x)) \<Longrightarrow> (\<And>x. obeys Q (h x)) \<Longrightarrow>
    obeys Q (case v of VNone \<Rightarrow> m1 | VTok x \<Rightarrow> f x | VName x \<Rightarrow> g x | VList x \<Rightarrow> h x)"
  "obeys Q m1 \<Longrightarrow> (\<And>x. obeys Q (f' x)) \<Longrightarrow> (\<And>x. obeys Q (g' x)) \<Longrightarrow>
    obeys Q (case n of NoName \<Rightarrow> m1 | TextName x \<Rightarrow> f' x | ComputedName x \<Rightarrow> g' x)"
  by (auto split: tok_val.splits prop_name.splits)

lemma obeys_table:
  "list_all (\<lambda>(p, m). obeys Q m) tbl \<Longrightarrow> obeys Q d \<Longrightarrow>
    obeys Q (case map_of tbl p of None \<Rightarrow> d | Some m \<Rightarrow> m)"
  by (auto simp: list_all_iff split: option.splits dest!: map_of_SomeD)

text \<open>
  What the parser never changes in a token: its name, its type and, unless it is a string, its value.
\<close>

definition same_kind :: "tok \<Rightarrow> tok \<Rightarrow> bool" where
  [simp]: "same_kind k k' \<longleftrightarrow> k_id k' = k_id k \<and> k_type k' = k_type k \<and> (has_id ''(string)'' k \<or> k_value k' = k_value k)"

text \<open>What most updates leave alone: everything but the parser's own notes and other fields of tokens.\<close>

definition frame :: "pst \<Rightarrow> pst \<Rightarrow> bool" where
  "frame S S' \<longleftrightarrow> p_lint S' = p_lint S \<and> p_lexer S' = p_lexer S \<and> p_re S' = p_re S \<and> p_fresh S' = p_fresh S \<and>
     p_prev S' = p_prev S \<and> p_curr S' = p_curr S \<and> p_next S' = p_next S \<and> p_look S' = p_look S \<and>
     p_functs S' = p_functs S \<and> p_functions S' = p_functions S \<and> p_funct S' = p_funct S \<and>
     p_stuck S' = p_stuck S \<and> p_names S' = p_names S \<and> (\<forall>t. same_kind (p_store S t) (p_store S' t))"

text \<open>The same for an update of the functors.\<close>

definition outside_functors :: "pst \<Rightarrow> pst \<Rightarrow> bool" where
  "outside_functors S S' \<longleftrightarrow> p_lint S' = p_lint S \<and> p_lexer S' = p_lexer S \<and> p_re S' = p_re S \<and>
     p_fresh S' = p_fresh S \<and> p_prev S' = p_prev S \<and> p_curr S' = p_curr S \<and> p_next S' = p_next S \<and>
     p_look S' = p_look S \<and> p_stuck S' = p_stuck S \<and> p_names S' = p_names S \<and> p_store S' = p_store S"

text \<open>The name stack: a step may replace its top entry, and \<open>expression\<close> pushes one and pops it again.\<close>

definition renames :: "name_stack \<Rightarrow> name_stack \<Rightarrow> bool" where
  "renames s s' \<longleftrightarrow> (case ns_items s of [] \<Rightarrow> ns_items s' = []
     | e # r \<Rightarrow> ns_neg s' = ns_neg s \<and> (\<exists>e'. ns_items s' = e' # r))"

definition nested :: "nat option parser \<Rightarrow> nat option parser" where
  "nested m = do { names_push; x \<leftarrow> m; names_pop; ret x }"

definition renaming :: "(pst \<Rightarrow> name_stack) \<Rightarrow> unit parser" where
  "renaming h = upd (\<lambda>S. S\<lparr>p_names := h S\<rparr>)"

lemma names_parts: "names_push = renaming (\<lambda>S. ns_push (p_names S))" "names_pop = renaming (\<lambda>S. ns_pop (p_names S))"
  by (simp_all add: names_push_def names_pop_def renaming_def)

text \<open>
  The options may be changed by the parser itself, but not the lines that are ignored, the width of a tab
  and the indentation.
\<close>

definition same_setting :: "(lstate \<Rightarrow> lstate) \<Rightarrow> bool" where
  [simp]: "same_setting h \<longleftrightarrow>
     (\<forall>st. ignoredLines (h st) = ignoredLines st \<and> tab (h st) = tab st \<and> option (h st) ''indent'' = option st ''indent'')"

text \<open>What a function puts back when it is left.\<close>

definition put_options :: "(string \<Rightarrow> jsval) \<Rightarrow> (string \<Rightarrow> bool) \<Rightarrow> lstate \<Rightarrow> lstate" where
  "put_options os is st = st\<lparr>option := os, ignored := is\<rparr>"

locale parser_steps =
  fixes Q :: "pst \<Rightarrow> pst \<Rightarrow> bool"
  assumes refl: "Q S S"
    and trans: "Q S S1 \<Longrightarrow> Q S1 S2 \<Longrightarrow> Q S S2"
    and framed: "(\<And>S. frame S (f S)) \<Longrightarrow> obeys Q (upd f)"
    and naming: "(\<And>S. renames (p_names S) (ns S)) \<Longrightarrow> obeys Q (renaming ns)"
    and nesting: "obeys Q m \<Longrightarrow> obeys Q (nested m)"
    and functor_notes: "(\<And>F. f_context (g F) = f_context F) \<Longrightarrow> obeys Q (upd_funct g)"
    and options: "same_setting h \<Longrightarrow> obeys Q (upd_lstate h)"
    and reports: "obeys Q (lint (warning code p args))" "obeys Q (lint (warningAt code l c args))"
      "obeys Q (lint (quit code p' args))" "obeys Q (lint fault)"
    and scopes: "(\<And>E. is_call E (e E)) \<Longrightarrow> obeys Q (scope_op e)"
    and allocation: "obeys Q (alloc k)"
    and peeking: "obeys Q (peek_token i)"
    and advancing: "obeys Q (advance_to expected related)"
begin

lemmas steps = reports allocation peeking advancing

declare steps [obeys_step]

lemmas obeys_update = framed functor_notes options scopes

lemma pure_steps [obeys_step]: "obeys Q (ret x)" "obeys Q (gets f)"
  by (simp_all add: obeys_def refl)

lemma bind_obeys [obeys_rule]:
  "obeys Q m \<Longrightarrow> (\<And>x. obeys Q (f x)) \<Longrightarrow> obeys Q (m \<bind> f)"
  by (auto simp: obeys_def bind_def split: prod.splits) (metis snd_conv trans)

lemma provided_obeys [obeys_rule]: "obeys Q m \<Longrightarrow> obeys Q (provided b m)"
  by (cases b) (simp_all add: pure_steps)

lemma for_each_obeys [obeys_rule]: "(\<And>x. obeys Q (f x)) \<Longrightarrow> obeys Q (for_each f xs)"
  by (induction xs) (simp_all add: pure_steps bind_obeys)

lemma reading_steps [obeys_step]:
  "obeys Q (tok_at t)" "obeys Q next_ref" "obeys Q curr_ref" "obeys Q prev_ref"
  "obeys Q next_tok" "obeys Q curr_tok" "obeys Q prev_tok" "obeys Q (lint_state fs)"
  "obeys Q (opt n)" "obeys Q (opt_value n)" "obeys Q (funct_get fg)" "obeys Q names_infer"
  "obeys Q (scope_get fm)" "obeys Q (tok_opt ot)"
  by (simp_all add: tok_at_def next_ref_def curr_ref_def prev_ref_def next_tok_def curr_tok_def prev_tok_def
      lint_state_def opt_def opt_value_def funct_get_def names_infer_def scope_get_def tok_opt_def pure_steps)

lemma upd_token_obeys [obeys_step]:
  "(\<And>k. same_kind k (f k)) \<Longrightarrow> obeys Q (upd_token t f)"
  "(\<And>x. s_id (g x) = s_id x) \<Longrightarrow> obeys Q (upd_symbol t g)"
  unfolding upd_symbol_def upd_token_def by (rule framed; simp add: frame_def)+

lemma names_steps [obeys_step]: "obeys Q (names_set t)" "obeys Q (names_set_opt ot)"
  unfolding names_set_def names_set_opt_def renaming_def [symmetric]
  by (auto intro!: naming obeys_branches simp: renames_def ns_set_def split: list.splits)

lemma report_steps [obeys_step]:
  "obeys Q (report_tok code t args)" "obeys Q (report_here code args)" "obeys Q (report_next code args)"
  "obeys Q (report_curr code args)" "obeys Q (report_prev code args)" "obeys Q (report_at code l c args)"
  "obeys Q (quit_tok code t)" "obeys Q type_error" "obeys Q (report_opt code ot args)"
  unfolding report_tok_def report_here_def report_next_def report_curr_def report_prev_def report_at_def
    quit_tok_def type_error_def report_opt_def
  by (intro obeys_rule obeys_step)+

lemma scope_steps [obeys_step]:
  "obeys Q (scope_stack None)" "obeys Q (scope_stack (Some ''catchparams''))"
  "obeys Q (scope_stack (Some ''functionouter''))" "obeys Q (scope_stack (Some ''functionparams''))" "obeys Q scope_unstack" "obeys Q (scope_use v t)"
  "obeys Q (scope_addbinding v b t i)" "obeys Q (scope_initialize v)" "obeys Q (scope_addParam v t oty)"
  by (simp_all add: scope_stack_def scope_unstack_def scope_use_def scope_addbinding_def scope_initialize_def
      scope_addParam_def scopes)

lemma note_steps [obeys_step]:
  "obeys Q (set_verb v)" "obeys Q increaseComplexityCount" "obeys Q (breakage d)" "obeys Q (loopage d)"
  "n \<noteq> ''indent'' \<Longrightarrow> obeys Q (set_opt n x)"
  by (simp_all add: set_verb_def increaseComplexityCount_def breakage_def loopage_def set_opt_def functor_notes options)

text \<open>The token stream: what its functions do is done by reading ahead and advancing.\<close>

lemma isEndOfExpr_obeys [obeys_step]:
  "obeys Q (isEndOfExpr c)"
  "obeys Q (isReserved c k)"
  "obeys Q (peeked i)"
  unfolding isEndOfExpr_def isReserved_def peeked_def
  by (intro obeys_rule obeys_step obeys_update; simp add: frame_def)+

lemma unexpected_token_obeys [obeys_step]:
  "obeys Q (unexpected_token expected related)"
  "obeys Q (nobreaknonadjacent left right)"
  "obeys Q no_break_before"
  "obeys Q (nolinebreak t)"
  "obeys Q comma_break"
  "obeys Q (checkComma property allowTrailing)"
  "obeys Q (optionalidentifier c isName)"
  "obeys Q (parse_identifier c isName)"
  "obeys Q (parseFinalSemicolon t)"
  unfolding unexpected_token_def nobreaknonadjacent_def no_break_before_def nolinebreak_def comma_break_def checkComma_def optionalidentifier_def parse_identifier_def parseFinalSemicolon_def
  by (intro obeys_rule obeys_step obeys_update; simp add: frame_def)+

end

text \<open>Relations that do not look at the name stack.\<close>

lemma nested_obeys:
  assumes "\<And>S S1 S2. Q S S1 \<Longrightarrow> Q S1 S2 \<Longrightarrow> Q S S2" "\<And>S. Q S S" "\<And>h. obeys Q (renaming h)" "obeys Q m"
  shows "obeys Q (nested m)"
proof (rule obeysI)
  fix S
  obtain S1 x S2 S3 where s: "run_state names_push S = ((), S1)" "run_state m S1 = (x, S2)" "run_state names_pop S2 = ((), S3)"
    by (metis old.unit.exhaust surj_pair)
  have "Q S S1" "Q S1 S2" "Q S2 S3"
    using obeysD [OF assms(3), of S] obeysD [OF assms(4), of S1] obeysD [OF assms(3), of S2] s
    by (metis names_parts snd_conv)+
  then show "Q S (snd (run_state (nested m) S))" using assms(1) by (simp add: nested_def s)
qed

section \<open>Reading ahead\<close>

text \<open>The loops that have fuel \<open>N\<close> and do not call other functions of the parser.\<close>

locale parser_peeks = parser_steps +
  fixes N :: nat
  assumes peek_loops: "obeys Q (peekIgnoreEOL N 0)" "obeys Q (reachable_from N 0 v)" "obeys Q (peek_through N 0 parens pn)"
      "obeys Q (block_type_from N 0 depth prev k notJson)" "obeys Q (spreadrest N operation)"
    and indent_loop: "obeys Q indent_deeper"
begin

declare peek_loops [obeys_step] and indent_loop [obeys_step]

lemma reachable_obeys [obeys_step]:
  "obeys Q (reachable N controlToken)"
  "obeys Q (peekThroughParens N parens)"
  "obeys Q (lookupBlockType N)"
  unfolding reachable_def peekThroughParens_def lookupBlockType_def
  by (intro obeys_rule obeys_step obeys_update; simp add: frame_def)+

end

section \<open>Runs that are cut off\<close>

locale parser_relation = parser_steps +
  assumes cut_off: "obeys Q out_of_fuel"
begin

declare cut_off [obeys_step]

lemma while_loop_obeys [obeys_rule]: "obeys Q m \<Longrightarrow> obeys Q (while_loop n m)"
  by (induction n) (simp_all add: cut_off bind_obeys obeys_branches pure_steps)

lemma peekIgnoreEOL_obeys [obeys_step]: "obeys Q (peekIgnoreEOL n i)"
  by (induction n arbitrary: i) (simp_all add: obeys_rule obeys_step)

lemma spreadrest_obeys [obeys_step]: "obeys Q (spreadrest n operation)"
  unfolding spreadrest_def by (intro obeys_rule obeys_step)

lemma reachable_from_obeys [obeys_step]: "obeys Q (reachable_from n i v)"
  by (induction n arbitrary: i v) (simp_all add: obeys_rule obeys_step)

lemma peek_through_obeys [obeys_step]: "obeys Q (peek_through n i parens pn)"
  by (induction n arbitrary: i parens pn) (simp_all add: obeys_rule obeys_step)

lemma block_type_from_obeys [obeys_step]: "obeys Q (block_type_from n i depth prev k notJson)"
  by (induction n arbitrary: i depth prev k notJson) (simp_all add: obeys_rule obeys_step)

lemma indent_deeper_obeys [obeys_step]: "obeys Q indent_deeper"
  unfolding indent_deeper_def indent_more_def indent_step_def indent_by_def
  by (intro obeys_rule obeys_step framed) (simp add: frame_def)

end

sublocale parser_relation \<subseteq> parser_peeks Q N for N
  by unfold_locales (rule obeys_step)+

end
