(* ===== verification/ParserContract.thy ===== *)
theory ParserContract
  imports ParserRelation
begin

text \<open>
  Every function of the parser respects a relation that its steps and its loops respect. The locales
  follow the loops: each assumes that the loops that can be built from what is known so far respect the
  relation, with the fuel of the recursive functions, and the functions that use them do. In
  \<open>parser_bodies\<close> the call of a function is known to respect the relation whenever the functions below do.
  For relations that a run that is cut off respects as well, all loops are proved to respect them, and so
  is a whole program: \<open>parser_recursive\<close>, \<open>parser_contract\<close>.
\<close>

section \<open>Without loops\<close>

text \<open>The only value that is changed is the one of a string, in \<open>"a" + "b"\<close>.\<close>

definition upd_text :: "nat \<Rightarrow> (tok \<Rightarrow> tok) \<Rightarrow> unit parser" where
  "upd_text t f = upd_token t (\<lambda>k. if has_id ''(string)'' k then f k else k)"

lemma join_strings:
  "do { lk \<leftarrow> tok_at left; rk \<leftarrow> tok_opt r;
     (case rk of
        Some k \<Rightarrow> if has_id ''(string)'' lk \<and> has_id ''(string)'' k then do { upd_token left (f lk k); h lk k } else a lk k
      | None \<Rightarrow> b lk) } =
   do { lk \<leftarrow> tok_at left; rk \<leftarrow> tok_opt r;
     (case rk of
        Some k \<Rightarrow> if has_id ''(string)'' lk \<and> has_id ''(string)'' k then do { upd_text left (f lk k); h lk k } else a lk k
      | None \<Rightarrow> b lk) }"
  by (rule state.expand, rule ext) (simp add: tok_at_def tok_opt_def upd_text_def upd_token_def split: option.split)

lemmas plus_led_join = plus_led_def [unfolded Let_def join_strings]

text \<open>What a function does when it is left, before and after it puts the options back.\<close>

definition leave_notes :: "fun_options \<Rightarrow> unit parser" where
  "leave_notes opts = do {
     noyield \<leftarrow> opt ''noyield'';
     F \<leftarrow> funct_get (\<lambda>F. F);
     provided (\<not> noyield \<and> o_generator opts \<and> \<not> f_yielded F) (report_curr ''W124'' []);
     verifyMaxStatementsPerFunction;
     verifyMaxComplexityPerFunction;
     u \<leftarrow> opt_value ''unused'';
     upd_funct (\<lambda>F. F\<lparr>f_unusedOption := u\<rparr>)
   }"

definition leave_scopes :: "unit parser" where
  "leave_scopes = do {
     k \<leftarrow> curr_tok;
     upd_funct (\<lambda>F. F\<lparr>f_last := k_line k, f_lastcharacter := k_character k\<rparr>);
     scope_unstack;
     scope_unstack
   }"

lemma leave_parts:
  "leave_function os is opts = do { leave_notes opts; upd_lstate (put_options os is); leave_scopes }"
  by (simp add: leave_function_def leave_notes_def leave_scopes_def put_options_def [abs_def] bind_assoc)

context parser_steps begin

lemma leave_parts_obey [obeys_step]: "obeys Q (leave_notes opts)" "obeys Q leave_scopes"
  unfolding leave_notes_def leave_scopes_def verifyMaxStatementsPerFunction_def verifyMaxComplexityPerFunction_def
  by (intro obeys_rule obeys_step obeys_update; simp)+

lemma leave_obeys: "obeys Q (upd_lstate (put_options os is)) \<Longrightarrow> obeys Q (leave_function os is opts)"
  unfolding leave_parts by (intro obeys_rule obeys_step)

end

locale parser_base = parser_peeks Q "r_fuel Rc" for Q and Rc :: recs +
  assumes expr_obeys: "obeys Q (r_expr Rc c p)"
    and stmt_obeys: "obeys Q (r_stmt Rc c)"
    and pat_obeys: "obeys Q (r_pat Rc c False a)"
begin

declare expr_obeys [obeys_step] and stmt_obeys [obeys_step] and pat_obeys [obeys_step]

lemma set_left_obeys [obeys_step]:
  "obeys Q (set_left t l)"
  "obeys Q (set_right t r)"
  "obeys Q (set_first t r)"
  "obeys Q (set_unary t)"
  unfolding set_left_def set_right_def set_first_def set_unary_def
  by (intro obeys_rule obeys_step obeys_update; simp add: frame_def)+

lemma needs_obeys [obeys_rule]: "obeys Q m \<Longrightarrow> obeys Q (needs ok m)"
  unfolding needs_def by (intro obeys_rule obeys_step)

lemma findNativePrototype_obeys [obeys_step]:
  "obeys Q (findNativePrototype left)"
  "obeys Q (freeze_check left)"
  "obeys Q (assign_member k assignToken)"
  "obeys Q (assign_pattern k assignToken allowDestructuring)"
  "obeys Q (assign_name left k assignToken)"
  "obeys Q (checkLeftSideAssign c left assignToken allowDestructuring)"
  "obeys Q (infix_start w)"
  "obeys Q (not_operand t)"
  "obeys Q (binary_led Rc c p t left)"
  "obeys Q (plain_led Rc c p t left)"
  unfolding findNativePrototype_def freeze_check_def assign_member_def assign_pattern_def assign_name_def
    checkLeftSideAssign_def infix_start_def not_operand_def binary_led_def plain_led_def
  by (intro obeys_rule obeys_step obeys_update; simp add: frame_def)+

lemma upd_text_obeys [obeys_step]:
  "(\<And>k. k_id (f k) = k_id k \<and> k_type (f k) = k_type k) \<Longrightarrow> obeys Q (upd_text t f)"
  unfolding upd_text_def by (intro obeys_step) simp

lemma in_led_obeys [obeys_step]:
  "obeys Q (in_led Rc c t left)"
  "obeys Q (bitwise_led Rc c p t left)"
  "obeys Q (assign_led Rc c t left)"
  "obeys Q (bitwise_assign_led Rc c t left)"
  "obeys Q (power_assign_led Rc c t left)"
  "obeys Q (suffix_led c t left)"
  "obeys Q (comma_led Rc c t left)"
  "obeys Q (conditional_led Rc c t left)"
  "obeys Q (logical_led Rc c p t left)"
  "obeys Q (nullish_led Rc c t left)"
  unfolding in_led_def bitwise_led_def assign_led_def bitwise_assign_led_def power_assign_led_def suffix_led_def
    comma_led_def conditional_led_def logical_led_def nullish_led_def
  by (intro obeys_rule obeys_step obeys_update; simp add: frame_def)+

lemma power_led_obeys [obeys_step]:
  "obeys Q (power_led Rc c t left)"
  "obeys Q (isTypoTypeof left' right)"
  "obeys Q (typo_typeof t left' right)"
  "obeys Q (loose_equality strictOp on t left' right)"
  "obeys Q (relation_check s t left' right)"
  "obeys Q (relation_led Rc c t left)"
  "obeys Q (instanceof_led Rc c t left)"
  "obeys Q (plus_led Rc c t left)"
  "obeys Q (minus_led Rc c t left)"
  "obeys Q (prefix_nud Rc c t)"
  unfolding power_led_def isTypoTypeof_def typo_typeof_def loose_equality_def relation_check_def relation_led_def
    instanceof_led_def plus_led_join minus_led_def prefix_nud_def
  by (intro obeys_rule obeys_step obeys_update; simp add: frame_def)+

lemma sign_nud_obeys [obeys_step]:
  "obeys Q (sign_nud Rc signs code c t)"
  "obeys Q (forgive t)"
  "obeys Q (delete_nud Rc c t)"
  "obeys Q (tilde_nud Rc c t)"
  "obeys Q (not_nud Rc c t)"
  "obeys Q (typeof_nud Rc c t)"
  unfolding sign_nud_def forgive_def delete_nud_def tilde_nud_def not_nud_def typeof_nud_def
  by (intro obeys_rule obeys_step obeys_update; simp add: frame_def)+

lemma json_key_token_obeys [obeys_step]:
  "obeys Q (json_key_token start_line)"
  "obeys Q (json_key seen)"
  unfolding json_key_token_def json_key_def
  by (intro obeys_rule obeys_step obeys_update; simp add: frame_def)+

lemma json_element_token_obeys [obeys_step]:
  "obeys Q (json_element_token start_line)"
  unfolding json_element_token_def
  by (intro obeys_rule obeys_step obeys_update; simp add: frame_def)+

lemma assignment_target_obeys [obeys_step]:
  "obeys Q (assignment_target Rc c)"
  "obeys Q (binding_target c)"
  unfolding assignment_target_def binding_target_def
  by (intro obeys_rule obeys_step obeys_update; simp add: frame_def)+

lemma rest_name_obeys [obeys_step]:
  "obeys Q (rest_name Rc c)"
  "obeys Q (report_undefined_value opTok v)"
  "obeys Q (pattern_default Rc c)"
  unfolding rest_name_def report_undefined_value_def pattern_default_def
  by (intro obeys_rule obeys_step obeys_update; simp add: frame_def)+

lemma match_names_obeys [obeys_step]: "obeys Q (match_names xs vs)"
  by (induction xs arbitrary: vs) (simp_all add: obeys_rule obeys_step)

lemma destructuringPatternMatch_obeys [obeys_step]:
  "obeys Q (destructuringPatternMatch ts v)"
  unfolding destructuringPatternMatch_def
  by (intro obeys_rule obeys_step obeys_update; simp add: frame_def)+

lemma indent_step_obeys [obeys_step]:
  "obeys Q indent_step"
  "obeys Q (indent_by d)"
  "obeys Q indent_more"
  "obeys Q indent_less"
  "obeys Q verifyMaxStatementsPerFunction"
  "obeys Q verifyMaxParametersPerFunction"
  "obeys Q verifyMaxNestedBlockDepthPerFunction"
  "obeys Q verifyMaxComplexityPerFunction"
  "obeys Q (has_directive d')"
  unfolding indent_step_def indent_by_def indent_more_def indent_less_def verifyMaxStatementsPerFunction_def
    verifyMaxParametersPerFunction_def verifyMaxNestedBlockDepthPerFunction_def
    verifyMaxComplexityPerFunction_def has_directive_def
  by (intro obeys_rule obeys_step obeys_update; simp add: frame_def)+

lemma put_directive_obeys [obeys_step]:
  "obeys Q (put_directive d t)"
  "obeys Q note_directive"
  unfolding put_directive_def note_directive_def
  by (intro obeys_rule obeys_step obeys_update; simp add: frame_def)+

lemma in_global_function_obeys [obeys_step]:
  "obeys Q in_global_function"
  "obeys Q set_isStrict"
  "obeys Q (restore_directives saved)"
  "obeys Q (check_return_await e)"
  "obeys Q (expression_block Rc c stmt' isfatarrow)"
  "obeys Q (check_declaration supportsFnDecl t)"
  unfolding in_global_function_def set_isStrict_def restore_directives_def check_return_await_def
    expression_block_def check_declaration_def
  by (intro obeys_rule obeys_step obeys_update; simp add: frame_def)+

lemma braceless_block_obeys [obeys_step]:
  "obeys Q (braceless_block Rc c stmt')"
  "obeys Q (parse_label t)"
  "obeys Q (check_missing_strict r)"
  "obeys Q (end_statement Rc t r)"
  "obeys Q (unlabelled_statement Rc c t i)"
  unfolding braceless_block_def parse_label_def check_missing_strict_def end_statement_def
    unlabelled_statement_def
  by (intro obeys_rule obeys_step obeys_update; simp add: frame_def)+

lemma param_default_obeys [obeys_step]:
  "obeys Q (param_default Rc c pastDefault pastRest)"
  "obeys Q (param_comma pastRest)"
  unfolding param_default_def param_comma_def
  by (intro obeys_rule obeys_step obeys_update; simp add: frame_def)+

lemma note_params_obeys [obeys_step]:
  "obeys Q (note_params i)"
  "obeys Q (check_loop_function f token opts)"
  unfolding note_params_def check_loop_function_def
  by (intro obeys_rule obeys_step obeys_update; simp add: frame_def)+

lemma propertyName_obeys [obeys_step]:
  "obeys Q (propertyName c)"
  "obeys Q (computedPropertyName Rc c)"
  "obeys Q (countMember m)"
  "obeys Q (saveProperty ps name0 t isClass isStatic)"
  "obeys Q (saveAccessor isGet ps name t isClass isStatic)"
  "obeys Q (checkProperties ps)"
  "obeys Q (short_property Rc c ps)"
  "obeys Q async_prefix"
  "obeys Q (generator_prefix isAsync)"
  unfolding propertyName_def computedPropertyName_def countMember_def saveProperty_def saveAccessor_def
    checkProperties_def short_property_def async_prefix_def generator_prefix_def
  by (intro obeys_rule obeys_step obeys_update; simp add: frame_def)+

lemma spread_property_obeys [obeys_step]:
  "obeys Q (spread_property Rc c)"
  "obeys Q property_comma"
  unfolding spread_property_def property_comma_def
  by (intro obeys_rule obeys_step obeys_update; simp add: frame_def)+

lemma literal_indent_obeys [obeys_step]:
  "obeys Q literal_indent"
  unfolding literal_indent_def
  by (intro obeys_rule obeys_step obeys_update; simp add: frame_def)+

lemma static_prefix_obeys [obeys_step]:
  "obeys Q static_prefix"
  "obeys Q (class_async_prefix c)"
  "obeys Q (star_prefix seen)"
  "obeys Q (accessor_prefix isStatic inGenerator)"
  unfolding static_prefix_def class_async_prefix_def star_prefix_def accessor_prefix_def
  by (intro obeys_rule obeys_step obeys_update; simp add: frame_def)+

lemma set_inClassBody_obeys [obeys_step]:
  "obeys Q (set_inClassBody b)"
  "obeys Q (class_name c)"
  "obeys Q (class_heritage Rc c)"
  "obeys Q (value_text t)"
  "obeys Q (set_name t n)"
  "obeys Q enter_class"
  unfolding set_inClassBody_def class_name_def class_heritage_def value_text_def set_name_def enter_class_def
  by (intro obeys_rule obeys_step obeys_update; simp add: frame_def)+

lemma add_first_obeys [obeys_step]:
  "obeys Q (add_first t ns)"
  "obeys Q (declaration_comma t)"
  "obeys Q chained_assignment"
  "obeys Q (declare_let ty lone x)"
  "obeys Q (let_initializer Rc c t lone names)"
  unfolding add_first_def declaration_comma_def chained_assignment_def declare_let_def let_initializer_def
  by (intro obeys_rule obeys_step obeys_update; simp add: frame_def)+

lemma isMozillaLet_obeys [obeys_step]:
  "obeys Q isMozillaLet"
  "obeys Q (let_useFud c t)"
  "obeys Q (declare_var x)"
  "obeys Q (check_chained c)"
  "obeys Q (var_initializer Rc c t lone names)"
  unfolding isMozillaLet_def let_useFud_def declare_var_def check_chained_def var_initializer_def
  by (intro obeys_rule obeys_step obeys_update; simp add: frame_def)+

lemma function_star_obeys [obeys_rule]:
  "(\<And>code args. obeys Q (r code args)) \<Longrightarrow> obeys Q (function_star b r)"
  unfolding function_star_def by (intro obeys_rule obeys_step)

lemma function_name_token_obeys [obeys_step]:
  "obeys Q (function_name_token c)"
  "obeys Q (token_name t)"
  "obeys Q check_called_declaration"
  unfolding function_name_token_def token_name_def check_called_declaration_def
  by (intro obeys_rule obeys_step obeys_update; simp add: frame_def)+

lemma comp_upd_obeys [obeys_step]:
  "obeys Q (comp_upd f)"
  "obeys Q (comp_add v t undef unused)"
  "obeys Q (comp_declare v x)"
  "obeys Q (comp_use v x)"
  "obeys Q (comp_check v)"
  "obeys Q comp_stack"
  "obeys Q (comp_setState m)"
  "obeys Q (comp_leave_var e)"
  "obeys Q comp_unstack"
  "obeys Q (comp_filter Rc c)"
  unfolding comp_upd_def comp_add_def comp_declare_def comp_use_def comp_check_def comp_stack_def
    comp_setState_def comp_leave_var_def comp_unstack_def comp_filter_def
  by (intro obeys_rule obeys_step obeys_update; simp add: frame_def)+

lemma comp_generate_obeys [obeys_step]:
  "obeys Q (comp_generate Rc c)"
  "obeys Q (comprehensiveArrayExpression Rc c)"
  "obeys Q (number_nud t)"
  "obeys Q (identifier_nud c t)"
  "obeys Q identifier_led"
  "obeys Q (this_nud t)"
  "obeys Q (super_nud t)"
  unfolding comp_generate_def comprehensiveArrayExpression_def number_nud_def identifier_nud_def
    identifier_led_def this_nud_def super_nud_def
  by (intro obeys_rule obeys_step obeys_update; simp add: frame_def)+

lemma metaProperty_obeys [obeys_rule]: "obeys Q m \<Longrightarrow> obeys Q (metaProperty c name m)"
  unfolding metaProperty_def by (intro obeys_rule obeys_step obeys_update; simp add: frame_def)

lemma check_new_target_obeys [obeys_step]:
  "obeys Q check_new_target"
  "obeys Q (check_new_name k)"
  "obeys Q (check_constructor t c)"
  "obeys Q (new_nud Rc c t)"
  "obeys Q (isGlobalEval k)"
  "obeys Q (check_global_eval lk m)"
  "obeys Q (check_hasOwnProperty m)"
  "obeys Q (check_member_names left lk m)"
  "obeys Q (dot_led Rc c t left)"
  "obeys Q (canUseDot c v)"
  unfolding check_new_target_def check_new_name_def check_constructor_def new_nud_def isGlobalEval_def
    check_global_eval_def check_hasOwnProperty_def check_member_names_def dot_led_def canUseDot_def
  by (intro obeys_rule obeys_step obeys_update; simp add: frame_def)+

lemma check_asi_bracket_obeys [obeys_step]:
  "obeys Q check_asi_bracket"
  "obeys Q (check_text_member c lk v)"
  "obeys Q (bracket_led Rc c t left)"
  "obeys Q (addEvalCode elem k)"
  "obeys Q (check_called_name left lk)"
  unfolding check_asi_bracket_def check_text_member_def bracket_led_def addEvalCode_def check_called_name_def
  by (intro obeys_rule obeys_step obeys_update; simp add: frame_def)+

lemma check_timer_member_obeys [obeys_step]:
  "obeys Q (check_timer_member left lk pk)"
  "obeys Q (check_evaluated left lk pk')"
  unfolding check_timer_member_def check_evaluated_def
  by (intro obeys_rule obeys_step obeys_update; simp add: frame_def)+

lemma group_ends_obeys [obeys_step]:
  "obeys Q (group_ends r)"
  "obeys Q (group_needed op pre pn fn0 k)"
  "obeys Q (overrides_powers rbp f l)"
  "obeys Q (check_group opening op pre pn fn rbp r)"
  "obeys Q (check_immediate t k)"
  unfolding group_ends_def group_needed_def overrides_powers_def check_group_def check_immediate_def
  by (intro obeys_rule obeys_step obeys_update; simp add: frame_def)+

lemma element_comma_obeys [obeys_step]:
  "obeys Q element_comma"
  "obeys Q (push_first t e)"
  unfolding element_comma_def push_first_def
  by (intro obeys_rule obeys_step obeys_update; simp add: frame_def)+

lemma template_complete_obeys [obeys_step]:
  "obeys Q (template_complete ctx)"
  unfolding template_complete_def
  by (intro obeys_rule obeys_step obeys_update; simp add: frame_def)+

lemma no_exps_obeys [obeys_step]:
  "obeys Q (no_exps t)"
  "obeys Q (await_nud Rc c t)"
  "obeys Q (async_isFunc Rc t)"
  "obeys Q (needs_async t)"
  "obeys Q (async_fud Rc c t)"
  "obeys Q (async_nud Rc c rbp t)"
  "obeys Q (yield_operand Rc c t)"
  "obeys Q yield_star"
  unfolding no_exps_def await_nud_def async_isFunc_def needs_async_def async_fud_def async_nud_def
    yield_operand_def yield_star_def
  by (intro obeys_rule obeys_step obeys_update; simp add: frame_def)+

lemma mozYield_obeys [obeys_step]:
  "obeys Q (mozYield Rc c t)"
  "obeys Q (check_yield t)"
  "obeys Q (yield_nud Rc c t)"
  "obeys Q check_import_meta"
  "obeys Q (import_nud Rc c t)"
  unfolding mozYield_def check_yield_def yield_nud_def check_import_meta_def import_nud_def
  by (intro obeys_rule obeys_step obeys_update; simp add: frame_def)+

lemma checkCondAssignment_obeys [obeys_step]:
  "obeys Q (checkCondAssignment t)"
  "obeys Q (condition Rc c)"
  "obeys Q (set_forin i s)"
  "obeys Q (forin_if k)"
  "obeys Q (forin_body i' xs)"
  unfolding checkCondAssignment_def condition_def set_forin_def forin_if_def forin_body_def
  by (intro obeys_rule obeys_step obeys_update; simp add: frame_def)+

lemma debugger_fud_obeys [obeys_step]:
  "obeys Q (debugger_fud t)"
  "obeys Q (case_clause Rc c)"
  "obeys Q (default_clause seenCase)"
  "obeys Q (end_switch t noindent)"
  unfolding debugger_fud_def case_clause_def default_clause_def end_switch_def
  by (intro obeys_rule obeys_step obeys_update; simp add: frame_def)+

lemma label_operand_obeys [obeys_step]:
  "obeys Q (label_operand t)"
  "obeys Q (break_fud Rc t)"
  "obeys Q (continue_fud Rc t)"
  "obeys Q (return_value Rc c t)"
  "obeys Q (return_fud Rc c t)"
  "obeys Q (throw_fud Rc c t)"
  unfolding label_operand_def break_fud_def continue_fud_def return_value_def return_fud_def throw_fud_def
  by (intro obeys_rule obeys_step obeys_update; simp add: frame_def)+

lemma each_prefix_obeys [obeys_step]:
  "obeys Q each_prefix"
  "obeys Q (declaration_head d letscope)"
  "obeys Q (expression_target Rc c x)"
  "obeys Q (target_comma h)"
  unfolding each_prefix_def declaration_head_def expression_target_def target_comma_def
  by (intro obeys_rule obeys_step obeys_update; simp add: frame_def)+

lemma check_implicit_obeys [obeys_step]:
  "obeys Q (check_implicit t)"
  "obeys Q push_forin"
  "obeys Q (check_forin t xs)"
  "obeys Q (check_iteration_head c h nextop)"
  "obeys Q (initialize_names d)"
  unfolding check_implicit_def push_forin_def check_forin_def check_iteration_head_def initialize_names_def
  by (intro obeys_rule obeys_step obeys_update; simp add: frame_def)+

lemma import_binding_obeys [obeys_step]:
  "obeys Q (import_binding name)"
  "obeys Q (import_default c)"
  "obeys Q (import_namespace c)"
  "obeys Q (import_name c)"
  unfolding import_binding_def import_default_def import_namespace_def import_name_def
  by (intro obeys_rule obeys_step obeys_update; simp add: frame_def)+

lemma from_clause_obeys [obeys_step]:
  "obeys Q from_clause"
  "obeys Q import_useFud"
  "obeys Q (name_pair t)"
  "obeys Q (name_pair_opt t')"
  "obeys Q (set_exported l e)"
  "obeys Q (export_all c)"
  unfolding from_clause_def import_useFud_def name_pair_def name_pair_opt_def set_exported_def export_all_def
  by (intro obeys_rule obeys_step obeys_update; simp add: frame_def)+

lemma declared_name_obeys [obeys_rule]: "(\<And>t. obeys Q (f t)) \<Longrightarrow> obeys Q (declared_name p f)"
  unfolding declared_name_def by (intro obeys_rule obeys_step obeys_update; simp add: frame_def)

lemma mark_block_obeys [obeys_step]:
  "obeys Q (mark_block t)"
  "obeys Q async_function_follows"
  "obeys Q export_name"
  unfolding mark_block_def async_function_follows_def export_name_def
  by (intro obeys_rule obeys_step obeys_update; simp add: frame_def)+

lemma export_bindings_obeys [obeys_step]:
  "obeys Q (export_bindings d)"
  unfolding export_bindings_def
  by (intro obeys_rule obeys_step obeys_update; simp add: frame_def)+

lemma constructed_obeys [obeys_step]:
  "obeys Q (constructed left)"
  unfolding constructed_def
  by (intro obeys_rule obeys_step obeys_update; simp add: frame_def)+

lemma begin_statement_obeys [obeys_step]:
  "obeys Q begin_statement"
  unfolding begin_statement_def
  by (intro obeys_rule obeys_step obeys_update; simp add: frame_def)+

lemma unless_stopped_obeys [obeys_rule]: "obeys Q m \<Longrightarrow> obeys Q (unless_stopped x m)"
  unfolding unless_stopped_def by (intro obeys_rule obeys_step)

end

section \<open>Series of tokens, directives and statements\<close>

locale parser_series = parser_base +
  assumes series_loops: "obeys Q (nextInnerDE (r_fuel Rc) Rc c isAssignment)" "obeys Q (json_value (r_fuel Rc))"
      "obeys Q (directives_from (r_fuel Rc) Rc current)" "obeys Q (statements_from (r_fuel Rc) Rc c xs)"
      "obeys Q (skip_parameter (r_fuel Rc))" "obeys Q (recover_method Rc c)" "obeys Q (skip_commas (r_fuel Rc))"
      "obeys Q (import_names (r_fuel Rc) c)" "obeys Q (export_names (r_fuel Rc) names)"
begin

declare series_loops [obeys_step]

lemma named_property_obeys [obeys_step]:
  "obeys Q (named_property Rc c isAssignment)"
  "obeys Q (assignmentProperty Rc c isAssignment)"
  "obeys Q (directives Rc)"
  "obeys Q (statements Rc c)"
  "obeys Q (function_prologue Rc)"
  "obeys Q (block_body Rc c ordinary isfunc)"
  "obeys Q (braced_block Rc c ordinary isfunc isfatarrow)"
  "obeys Q (block Rc c ordinary stmt' isfunc isfatarrow iscase)"
  "obeys Q (stmt_block Rc c)"
  "obeys Q (statement Rc c)"
  unfolding named_property_def assignmentProperty_def directives_def statements_def function_prologue_def
    block_body_def braced_block_def block_def stmt_block_def statement_def
  by (intro obeys_rule obeys_step obeys_update; simp add: frame_def)+

lemma else_branch_obeys [obeys_step]:
  "obeys Q (else_branch Rc c)"
  "obeys Q (if_fud Rc c t')"
  "obeys Q (while_fud Rc c t)"
  "obeys Q (with_fud Rc c t)"
  "obeys Q (do_fud Rc c t)"
  "obeys Q (clause_statements Rc c g)"
  "obeys Q (for_await c)"
  "obeys Q (iteration Rc c t h nextop opening)"
  "obeys Q (import_bindings Rc c)"
  "obeys Q (import_fud Rc c t)"
  unfolding else_branch_def if_fud_def while_fud_def with_fud_def do_fud_def clause_statements_def for_await_def
    iteration_def import_bindings_def import_fud_def
  by (intro obeys_rule obeys_step obeys_update; simp add: frame_def)+

lemma export_clause_obeys [obeys_step]:
  "obeys Q (export_clause Rc ok t)"
  unfolding export_clause_def
  by (intro obeys_rule obeys_step obeys_update; simp add: frame_def)+

end

section \<open>Patterns and parameters\<close>

locale parser_patterns = parser_series +
  assumes pattern_loops: "obeys Q (array_pattern (r_fuel Rc) Rc c isAssignment afterRest ids)"
      "obeys Q (object_pattern (r_fuel Rc) Rc c isAssignment ids)"
begin

declare pattern_loops [obeys_step]

lemma destructuringPatternRecursive_obeys [obeys_step]:
  "obeys Q (destructuringPatternRecursive Rc c opened isAssignment)"
  "obeys Q (destructuringPattern Rc c opened isAssignment)"
  "obeys Q (param_names Rc c)"
  "obeys Q (destructuring_nud Rc c t)"
  "obeys Q (let_targets Rc c)"
  "obeys Q (let_declaration Rc ty c t)"
  "obeys Q (var_targets Rc c)"
  "obeys Q (var_declaration Rc c t)"
  "obeys Q (catchParameter Rc c)"
  "obeys Q (catch_clause Rc c again)"
  unfolding destructuringPatternRecursive_def destructuringPattern_def param_names_def destructuring_nud_def
    let_targets_def let_declaration_def var_targets_def var_declaration_def catchParameter_def catch_clause_def
  by (intro obeys_rule obeys_step obeys_update; simp add: frame_def)+

lemma pattern_target_obeys [obeys_step]:
  "obeys Q (pattern_target Rc c x)"
  unfolding pattern_target_def
  by (intro obeys_rule obeys_step obeys_update; simp add: frame_def)+

end

locale parser_calls = parser_patterns +
  assumes parameter_loop: "obeys Q (params_from (r_fuel Rc) Rc c arity ids patterns pastDefault start)"
begin

declare parameter_loop [obeys_step]

lemma all_params_obeys [obeys_step]:
  "obeys Q (all_params Rc c parsedOpening)"
  "obeys Q (functionparams Rc c opts)"
  "obeys Q (function_scopes opts)"
  "obeys Q (function_parts Rc c opts)"
  unfolding all_params_def functionparams_def function_scopes_def function_parts_def
  by (intro obeys_rule obeys_step obeys_update; simp add: frame_def)+

text \<open>The parts of \<open>doFunction\<close>.\<close>

lemma around_function:
  "obeys Q (function_parts Rc c opts)" "obeys Q (check_loop_function f t opts)"
  by (rule obeys_step)+

end

section \<open>Functions and what calls them\<close>

locale parser_bodies = parser_steps +
  assumes functions_obey: "parser_calls Q Rc \<Longrightarrow> obeys Q (doFunction Rc c opts)"

locale parser_uses = parser_bodies + parser_calls
begin

lemma doFunction_obeys [obeys_step]: "obeys Q (doFunction Rc c opts)"
  by (rule functions_obey) unfold_locales

lemma accessor_property_obeys [obeys_step]:
  "obeys Q (accessor_property Rc c isGet ps)"
  "obeys Q (property_value Rc c isAsync isGenerator)"
  "obeys Q (plain_property Rc c ps)"
  "obeys Q (object_property Rc c i ps)"
  "obeys Q (doMethod Rc classToken c name generator)"
  "obeys Q (class_constructor Rc classToken c inGenerator accessor seen)"
  "obeys Q (static_constructor Rc classToken c inGenerator ps)"
  "obeys Q (named_member Rc classToken c isStatic inGenerator accessor ps)"
  "obeys Q (class_member Rc classToken c ps seen)"
  "obeys Q (function_fud Rc c t')"
  unfolding accessor_property_def property_value_def plain_property_def object_property_def doMethod_def
    class_constructor_def static_constructor_def named_member_def class_member_def function_fud_def
  by (intro obeys_rule obeys_step obeys_update; simp add: frame_def)+

lemma function_nud_obeys [obeys_step]:
  "obeys Q (function_nud Rc c t')"
  "obeys Q (arrow_led Rc c t left)"
  "obeys Q (group_nud Rc c rbp t)"
  "obeys Q (export_async Rc c t)"
  unfolding function_nud_def arrow_led_def group_nud_def export_async_def
  by (intro obeys_rule obeys_step obeys_update; simp add: frame_def)+

end

locale parser_loops = parser_uses +
  assumes lists_obey: "obeys Q (object_properties (r_fuel Rc) Rc c i ps)"
      "obeys Q (class_members (r_fuel Rc) Rc classToken c ps seen)"
      "obeys Q (let_declarations (r_fuel Rc) Rc ty c t)" "obeys Q (var_declarations (r_fuel Rc) Rc c t)"
      "obeys Q (call_arguments (r_fuel Rc) Rc c args)" "obeys Q (array_elements (r_fuel Rc) Rc c t)"
      "obeys Q (template_parts (r_fuel Rc) Rc c ctx depth)" "obeys Q (catch_clauses (r_fuel Rc) Rc c again)"
      "obeys Q (switch_clauses (r_fuel Rc) Rc c t noindent g seenCase)"
      "obeys Q (head_targets (r_fuel Rc) Rc c x)" "obeys Q (increments (r_fuel Rc) Rc c)"
begin

declare lists_obey [obeys_step]

lemma object_nud_obeys [obeys_step]:
  "obeys Q (object_nud Rc c t)"
  unfolding object_nud_def
  by (intro obeys_rule obeys_step obeys_update; simp add: frame_def)+

lemma classBody_obeys [obeys_step]:
  "obeys Q (classBody Rc classToken c)"
  "obeys Q (class_fud Rc c t)"
  "obeys Q (class_nud Rc c t)"
  unfolding classBody_def class_fud_def class_nud_def
  by (intro obeys_rule obeys_step obeys_update; simp add: frame_def)+

lemma blockVariableStatement_obeys [obeys_step]:
  "obeys Q (blockVariableStatement Rc ty c t)"
  unfolding blockVariableStatement_def
  by (intro obeys_rule obeys_step obeys_update; simp add: frame_def)+

lemma var_fud_obeys [obeys_step]:
  "obeys Q (var_fud Rc c t)"
  unfolding var_fud_def
  by (intro obeys_rule obeys_step obeys_update; simp add: frame_def)+

lemma call_led_obeys [obeys_step]:
  "obeys Q (call_led Rc c t left)"
  "obeys Q (optional_led Rc c t left)"
  unfolding call_led_def optional_led_def
  by (intro obeys_rule obeys_step obeys_update; simp add: frame_def)+

lemma array_nud_obeys [obeys_step]:
  "obeys Q (array_nud Rc c t)"
  unfolding array_nud_def
  by (intro obeys_rule obeys_step obeys_update; simp add: frame_def)+

lemma doTemplateLiteral_obeys [obeys_step]:
  "obeys Q (doTemplateLiteral Rc c t tag)"
  "obeys Q (let_nud Rc c rbp t)"
  unfolding doTemplateLiteral_def let_nud_def
  by (intro obeys_rule obeys_step obeys_update; simp add: frame_def)+

lemma try_fud_obeys [obeys_step]:
  "obeys Q (try_fud Rc c t)"
  unfolding try_fud_def
  by (intro obeys_rule obeys_step obeys_update; simp add: frame_def)+

lemma switch_fud_obeys [obeys_step]:
  "obeys Q (switch_fud Rc c t)"
  unfolding switch_fud_def
  by (intro obeys_rule obeys_step obeys_update; simp add: frame_def)+

lemma var_head_obeys [obeys_step]:
  "obeys Q (var_head Rc c)"
  "obeys Q (let_head Rc ty c)"
  unfolding var_head_def let_head_def
  by (intro obeys_rule obeys_step obeys_update; simp add: frame_def)+

lemma plain_head_obeys [obeys_step]:
  "obeys Q (plain_head Rc c)"
  "obeys Q (parse_head Rc c)"
  unfolding plain_head_def parse_head_def
  by (intro obeys_rule obeys_step obeys_update; simp add: frame_def)+

lemma counting_loop_obeys [obeys_step]:
  "obeys Q (counting_loop Rc c h foreachtok opening)"
  "obeys Q (for_fud Rc c t)"
  unfolding counting_loop_def for_fud_def
  by (intro obeys_rule obeys_step obeys_update; simp add: frame_def)+

lemma export_function_obeys [obeys_step]:
  "obeys Q (export_function Rc c t)"
  "obeys Q (export_class Rc c t)"
  "obeys Q (export_default Rc c t)"
  unfolding export_function_def export_class_def export_default_def
  by (intro obeys_rule obeys_step obeys_update; simp add: frame_def)+

lemma export_variables_obeys [obeys_step]:
  "obeys Q (export_variables Rc c ty)"
  "obeys Q (export_declaration Rc c t)"
  "obeys Q (export_fud Rc c t)"
  unfolding export_variables_def export_declaration_def export_fud_def
  by (intro obeys_rule obeys_step obeys_update; simp add: frame_def)+

lemma nud_obeys [obeys_step]: "obeys Q (nud Rc c p s t)"
  unfolding nud_def by (intro obeys_branches obeys_table) (simp_all add: nud_table_def obeys_rule obeys_step)

lemma led_obeys [obeys_step]: "obeys Q (led Rc c s t left)"
  unfolding led_def by (intro obeys_branches obeys_table) (simp_all add: led_table_def obeys_rule obeys_step)

lemma fud_obeys [obeys_step]: "obeys Q (fud Rc c s t)"
  unfolding fud_def by (intro obeys_table) (simp_all add: fud_table_def obeys_rule obeys_step)

lemma useFud_obeys [obeys_step]:
  "obeys Q (useFud Rc c p t)"
  "obeys Q (apply_led Rc c left)"
  unfolding useFud_def apply_led_def
  by (intro obeys_rule obeys_step obeys_update; simp add: frame_def)+

end

text \<open>An expression, without its entry on the name stack.\<close>

definition expression_body :: "recs \<Rightarrow> nat \<Rightarrow> int \<Rightarrow> nat option parser" where
  "expression_body R context0 rbp = do {
     let isInitial = ctx_has context0 ctx_initial;
     let context = ctx_without context0 ctx_initial;
     n \<leftarrow> next_tok;
     provided (has_id ''(end)'' n) (report_curr ''E006'' []);
     advance;
     provided isInitial begin_statement;
     c \<leftarrow> curr_ref;
     k \<leftarrow> curr_tok;
     asFud \<leftarrow> (if isInitial \<and> s_fud (k_sym k) then useFud R context (k_proto k) c else ret False);
     if asFud then fud R context (k_proto k) c else operand R context rbp
   }"

lemma expression_parts: "expression R c p = nested (expression_body R c p)"
  by (simp add: expression_def expression_body_def nested_def Let_def)

locale parser_functions = parser_loops +
  assumes operators_loop: "obeys Q (operators (r_fuel Rc) Rc c rbp left)"
begin

declare operators_loop [obeys_step]

lemma operand_obeys [obeys_step]:
  "obeys Q (operand Rc c rbp)"
  unfolding operand_def
  by (intro obeys_rule obeys_step obeys_update; simp add: frame_def)+

lemma expression_body_obeys: "obeys Q (expression_body Rc c rbp)"
  unfolding expression_body_def
  by (intro obeys_rule obeys_step obeys_update; simp add: frame_def)

lemma expression_obeys [obeys_step]: "obeys Q (expression Rc c rbp)"
  unfolding expression_parts by (rule nesting [OF expression_body_obeys])

lemma destructuringAssignOrJsonValue_obeys [obeys_step]:
  "obeys Q (destructuringAssignOrJsonValue Rc c)"
  "obeys Q check_global_strict"
  unfolding destructuringAssignOrJsonValue_def check_global_strict_def
  by (intro obeys_rule obeys_step obeys_update; simp add: frame_def)+

lemma parse_program_obeys [obeys_step]:
  "obeys Q (parse_program Rc)"
  unfolding parse_program_def
  by (intro obeys_rule obeys_step obeys_update; simp add: frame_def)+

end

section \<open>Runs that are cut off\<close>

locale parser_contract = parser_relation + parser_bodies

locale parser_recursive = parser_contract + parser_base
begin

lemma json_members_obeys [obeys_rule]: "obeys Q v \<Longrightarrow> obeys Q (json_members v n left keys)"
proof (induction n arbitrary: left keys)
  case (Suc n)
  show ?case by (simp only: json_members.simps) (intro obeys_rule obeys_step Suc.IH Suc.prems)
qed (simp add: obeys_step obeys_rule)

lemma json_object_obeys [obeys_rule]: "obeys Q v \<Longrightarrow> obeys Q (json_object v n)"
  unfolding json_object_def by (intro obeys_rule obeys_step)

lemma json_elements_obeys [obeys_rule]: "obeys Q v \<Longrightarrow> obeys Q (json_elements v n left)"
proof (induction n arbitrary: left)
  case (Suc n)
  show ?case by (simp only: json_elements.simps) (intro obeys_rule obeys_step Suc.IH Suc.prems)
qed (simp add: obeys_step obeys_rule)

lemma json_array_obeys [obeys_rule]: "obeys Q v \<Longrightarrow> obeys Q (json_array v n)"
  unfolding json_array_def by (intro obeys_rule obeys_step)

lemma json_value_obeys [obeys_step]: "obeys Q (json_value n)"
  by (induction n) (simp_all add: obeys_rule obeys_step)

lemma nextInnerDE_obeys [obeys_step]: "obeys Q (nextInnerDE n Rc c isAssignment)"
  by (induction n arbitrary: c isAssignment) (simp_all add: obeys_rule obeys_step)

lemma directives_from_obeys [obeys_step]: "obeys Q (directives_from n Rc current)"
  by (induction n arbitrary: current) (simp_all add: obeys_rule obeys_step)

lemma statements_from_obeys [obeys_step]: "obeys Q (statements_from n Rc c xs)"
  by (induction n arbitrary: c xs) (simp_all add: obeys_rule obeys_step)

lemma skip_parameter_obeys [obeys_step]: "obeys Q (skip_parameter n)"
  unfolding skip_parameter_def by (intro obeys_rule obeys_step)

lemma recover_method_obeys [obeys_step]: "obeys Q (recover_method Rc c)"
  unfolding recover_method_def by (intro obeys_rule obeys_step)

lemma skip_commas_obeys [obeys_step]: "obeys Q (skip_commas n)"
  by (induction n) (simp_all add: obeys_rule obeys_step)

lemma import_names_obeys [obeys_step]: "obeys Q (import_names n c)"
  by (induction n arbitrary: c) (simp_all add: obeys_rule obeys_step)

lemma export_names_obeys [obeys_step]: "obeys Q (export_names n xs)"
  by (induction n arbitrary: xs) (simp_all add: obeys_rule obeys_step)

end

sublocale parser_recursive \<subseteq> parser_series Q Rc
  by unfold_locales (rule obeys_step)+

context parser_recursive begin

lemma array_pattern_obeys [obeys_step]: "obeys Q (array_pattern n Rc c isAssignment afterRest ids)"
  by (induction n arbitrary: c isAssignment afterRest ids) (simp_all add: obeys_rule obeys_step)

lemma object_pattern_obeys [obeys_step]: "obeys Q (object_pattern n Rc c isAssignment ids)"
  by (induction n arbitrary: c isAssignment ids) (simp_all add: obeys_rule obeys_step)

end

sublocale parser_recursive \<subseteq> parser_patterns Q Rc
  by unfold_locales (rule obeys_step)+

context parser_recursive begin

lemma params_from_obeys [obeys_step]: "obeys Q (params_from n Rc c arity ids patterns pastDefault start)"
  by (induction n arbitrary: c arity ids patterns pastDefault start) (simp_all add: obeys_rule obeys_step)

end

sublocale parser_recursive \<subseteq> parser_uses Q Rc
  by unfold_locales (rule obeys_step)+

context parser_recursive begin

lemma object_properties_obeys [obeys_step]: "obeys Q (object_properties n Rc c i ps)"
  by (induction n arbitrary: c i ps) (simp_all add: obeys_rule obeys_step)

lemma class_members_obeys [obeys_step]: "obeys Q (class_members n Rc classToken c ps seen)"
  by (induction n arbitrary: classToken c ps seen) (simp_all add: obeys_rule obeys_step)

lemma let_declarations_obeys [obeys_step]: "obeys Q (let_declarations n Rc ty c t)"
  by (induction n arbitrary: ty c t) (simp_all add: obeys_rule obeys_step)

lemma var_declarations_obeys [obeys_step]: "obeys Q (var_declarations n Rc c t)"
  by (induction n arbitrary: c t) (simp_all add: obeys_rule obeys_step)

lemma call_arguments_obeys [obeys_step]: "obeys Q (call_arguments n Rc c ps)"
  by (induction n arbitrary: c ps) (simp_all add: obeys_rule obeys_step)

lemma array_elements_obeys [obeys_step]: "obeys Q (array_elements n Rc c t)"
  by (induction n arbitrary: c t) (simp_all add: obeys_rule obeys_step)

lemma template_parts_obeys [obeys_step]: "obeys Q (template_parts n Rc c ctx depth)"
  by (induction n arbitrary: c ctx depth) (simp_all add: obeys_rule obeys_step)

lemma catch_clauses_obeys [obeys_step]: "obeys Q (catch_clauses n Rc c again)"
  by (induction n arbitrary: c again) (simp_all add: obeys_rule obeys_step)

lemma switch_clauses_obeys [obeys_step]: "obeys Q (switch_clauses n Rc c t noindent g seenCase)"
  by (induction n arbitrary: c t noindent g seenCase) (simp_all add: obeys_rule obeys_step)

lemma head_targets_obeys [obeys_step]: "obeys Q (head_targets n Rc c x)"
  by (induction n arbitrary: c x) (simp_all add: obeys_rule obeys_step)

lemma increments_obeys [obeys_step]: "obeys Q (increments n Rc c)"
  by (induction n arbitrary: c) (simp_all add: obeys_rule obeys_step)

end

sublocale parser_recursive \<subseteq> parser_loops Q Rc
  by unfold_locales (rule obeys_step)+

context parser_recursive begin

lemma operators_obeys [obeys_step]: "obeys Q (operators n Rc c rbp left)"
  by (induction n arbitrary: c rbp left) (simp_all add: obeys_rule obeys_step)

end

sublocale parser_recursive \<subseteq> parser_functions Q Rc
  by unfold_locales (rule obeys_step)+

context parser_recursive begin

lemma knot_obeys:
  "obeys Q (unless_stopped x (expression Rc c p))" "obeys Q (unless_stopped x (statement Rc c))"
  "obeys Q (unless_stopped y (destructuringPatternRecursive Rc c b a))"
  and program_obeys: "obeys Q (parse_program Rc)"
  by (intro obeys_rule obeys_step)+

lemma body_obeys: "obeys Q (expression_body Rc c p)"
  by (rule expression_body_obeys)

end

section \<open>Programs\<close>

context parser_contract begin

lemma recs_obey: "parser_recursive Q (parser_recs N n)"
proof (induction n)
  case 0
  show ?case by unfold_locales (simp_all add: obeys_rule obeys_step)
next
  case (Suc n)
  show ?case by unfold_locales (simp_all add: parser_recursive.knot_obeys [OF Suc])
qed

text \<open>A parse, from the state it starts in.\<close>

lemma run_parser_obeys: "Q S (run_parser n S)"
  using parser_recursive.program_obeys [OF recs_obey] by (simp add: run_parser_def the_parser_def obeys_def)

end

section \<open>Relations that do not look at functors and options\<close>

locale parser_notes = parser_steps +
  assumes unnoticed: "(\<And>S. outside_functors S (f S)) \<Longrightarrow> obeys Q (upd f)"
    and restoring: "obeys Q (upd_lstate (put_options os is))"
begin

lemma leave_function_obeys [obeys_step]: "obeys Q (leave_function os is opts)"
  by (rule leave_obeys) (rule restoring)

end

locale parser_notes_calls = parser_notes + parser_calls
begin

lemma frame_doFunction: "obeys Q (doFunction Rc c opts)"
  unfolding doFunction_def enter_function_def
  by (intro obeys_rule obeys_step unnoticed; simp add: outside_functors_def)

end

sublocale parser_notes \<subseteq> parser_bodies
  by unfold_locales (rule parser_notes_calls.frame_doFunction, intro parser_notes_calls.intro parser_notes_axioms)

locale parser_frame = parser_relation + parser_notes

sublocale parser_frame \<subseteq> parser_contract
  by unfold_locales

end
