(* ===== verification/ParserInvariants.thy ===== *)
theory ParserInvariants
  imports ParserContract ReportTheorems
begin

text \<open>
  Invariants of whole runs. The locale \<open>linter_relation\<close> is for relations that only look at the linter;
  it gives a relation of the parser. Its instances are the lines that are ignored and the names that
  were removed.
\<close>

section \<open>Relations of the linter\<close>

lemma ascii_name: "list_all (\<lambda>c. c < 128) k \<Longrightarrow> map char_of k = s \<Longrightarrow> k = js s"
proof (induction k arbitrary: s)
  case (Cons c k)
  then show ?case by (auto simp: js_def ch_def)
qed (simp add: js_def)

lemma indent_name: "list_all (\<lambda>c. c < 128) (js ''indent'')" "map char_of (js ''indent'') = ''indent''"
  by code_simp+

lemma positive_positive: "positive_integer x = Some n \<Longrightarrow> 0 < n"
proof -
  have "exact_integer p q = Some n \<Longrightarrow> 0 < n" for p q
    by (auto simp: exact_integer_def dvd_div_eq_0_iff split: if_splits prod.splits)
  then show "positive_integer x = Some n \<Longrightarrow> 0 < n"
    by (auto simp: positive_integer_def decimal_integer_def Let_def split: if_splits option.splits)
qed

locale linter_relation =
  fixes P :: "linter \<Rightarrow> linter \<Rightarrow> bool"
  assumes P_refl: "P L L"
    and P_trans: "P L L1 \<Longrightarrow> P L1 L2 \<Longrightarrow> P L L2"
    and P_places: "P L (L\<lparr>l_curr := c, l_next := n, l_global := g, l_verb := v\<rparr>)"
    and P_options: "same_setting h \<Longrightarrow> P L (L\<lparr>l_state := h (l_state L)\<rparr>)"
    and P_indent: "0 < i \<Longrightarrow> P L (set_option ''indent'' (JNum i) L)"
    and P_manager: "leads (l_mgr L) G \<Longrightarrow> P L (L\<lparr>l_mgr := G, l_declared := d\<rparr>)"
    and P_warning: "P L (warning code p args L)"
    and P_quit: "P L (quit code p' args L)"
    and P_ignoring: "P L (ignore_option val D L)"
    and P_predefining: "P L (add_globals tbl L)"
    and P_removing: "P L (L\<lparr>l_blacklist := plain_put (l_blacklist L) k k, l_predefined := obj_del (l_predefined L) k\<rparr>)"
    and P_members: "P L (L\<lparr>l_members := ms\<rparr>)"
begin

lemma P_fault: "P L (fault L)"
  using P_quit [of L "''Q''" "undefined" "[]"] by (simp add: quit_def template_of_def code_W_def)

lemma P_fold: "(\<And>x L. P L (f x L)) \<Longrightarrow> P L (fold f xs L)"
  by (induction xs arbitrary: L) (auto intro: P_refl P_trans)

lemma P_unless: "(\<And>L. P L (f L)) \<Longrightarrow> P L (unless_thrown f L)"
  by (simp add: unless_thrown_def P_refl)

text \<open>What the parser does with its linter.\<close>

abbreviation (input) Q :: "pst \<Rightarrow> pst \<Rightarrow> bool" where
  "Q S S' \<equiv> P (p_lint S) (p_lint S')"

lemma P_mgr: "leads (l_mgr L) G \<Longrightarrow> P L (L\<lparr>l_mgr := G\<rparr>)" "P L (L\<lparr>l_declared := d\<rparr>)"
  using P_manager [of L G "l_declared L"] P_manager [of L "l_mgr L" d] leads_refl by simp_all

lemma P_synced: "P (p_lint S) (synced S)"
proof -
  let ?L = "(p_lint S)\<lparr>l_curr := tok_place (p_store S (p_curr S)), l_next := tok_place (p_store S (p_next S)),
    l_global := f_global (cur_funct S),
    l_verb := (case f_verb (cur_funct S) of Some (c # cs) \<Rightarrow> True | _ \<Rightarrow> False)\<rparr>"
  let ?h = "\<lambda>st :: lstate. st\<lparr>curr_id := (case k_id (p_store S (p_curr S)) of Some s \<Rightarrow> js s | None \<Rightarrow> [])\<rparr>"
  have "P (p_lint S) ?L" by (rule P_places)
  also have "P ?L (?L\<lparr>l_state := ?h (l_state ?L)\<rparr>)" by (rule P_options) simp
  finally (P_trans) show ?thesis by (simp add: synced_def)
qed

lemma P_style_warn: "P L (style_warn code l c d L)"
  by (simp add: style_warn_def warningAt_def P_warning)

lemma P_scanQuotes: "P L (style_scanQuotes l c qm L)"
  unfolding style_scanQuotes_def
proof (rule P_unless)
  fix L :: linter
  obtain code L1 where c: "quote_code (getOption L ''quotmark'') qm L = (code, L1)" by fastforce
  have "P L (snd (quote_code o' qm L))" for o'
    using P_options [of "\<lambda>st. st\<lparr>cache := (cache st)(''quotmark'' := JStr [qm])\<rparr>"]
    by (simp add: quote_code_def Let_def P_refl)
  then have "P L L1" using c by (metis snd_conv)
  then show "P L (if \<not> truthy (getOption L ''quotmark'') then L else
      (case quote_code (getOption L ''quotmark'') qm L of (None, S1) \<Rightarrow> S1 | (Some code, S1) \<Rightarrow> style_warn code l c [] S1))"
    using P_trans [OF _ P_style_warn] by (simp add: c P_refl split: option.split)
qed

lemma P_scans:
  "P L (style_scanProto l c v L)" "P L (style_scanIterator l c v L)" "P L (style_scanCamelCase l c v L)"
  "P L (style_scanJavaScriptURLs l c v L)"
  unfolding style_scanProto_def style_scanIterator_def style_scanCamelCase_def style_scanJavaScriptURLs_def
  by (rule P_unless; simp add: P_style_warn P_refl)+

lemma P_scanNumbers: "P L (style_scanNumbers l c v L)"
proof -
  have w: "P L M \<Longrightarrow> P L (if b then style_warn code l c [v] M else M)" for b code M
    using P_trans [OF _ P_style_warn] by simp
  show ?thesis unfolding style_scanNumbers_def Let_def by (intro w P_refl)
qed

lemma P_listener: "P L (lex_listener ev L)"
  unfolding lex_listener_def warningAt_def
  by (cases ev)
    (auto intro: P_warning P_refl P_scanNumbers P_unless P_quit P_trans [OF P_trans [OF P_scans(1) P_scans(2)] P_scans(3)]
      P_trans [OF P_scanQuotes P_scans(4)])

lemma P_listeners: "P L (lex_listeners evs L)"
  unfolding lex_listeners_def by (rule P_fold) (rule P_listener)

lemma P_with_scope:
  assumes "is_call E f"
  shows "P L (with_scope f L)"
  unfolding with_scope_def
proof (rule P_unless)
  fix L :: linter
  let ?G = "f ((l_mgr L)\<lparr>g_predefined := l_predefined L, g_declared := l_declared L\<rparr>)"
  have "P L (L\<lparr>l_mgr := ?G, l_predefined := g_predefined ?G, l_declared := g_declared ?G\<rparr>)"
    using P_manager [of L ?G "g_declared ?G"] leads_call [OF assms] call_predefined [OF assms] by simp
  note start = this
  have d: "P L (deliver ts e L)" for ts e L
    by (auto simp: deliver_def P_warning P_refl split: scope_event.splits)
  have "P M (fold (deliver ts) evs M)" for ts evs M by (rule P_fold) (rule d)
  with start show "P L (let G0 = (l_mgr L)\<lparr>g_predefined := l_predefined L, g_declared := l_declared L\<rparr>;
      G = f G0; S1 = L\<lparr>l_mgr := G, l_predefined := g_predefined G, l_declared := g_declared G\<rparr>
    in fold (deliver (g_toks G)) (drop (List.length (g_events G0)) (g_events G)) S1)"
    unfolding Let_def using P_trans by blast
qed

text \<open>The directives. The indentation is only ever set to a positive number.\<close>

lemma P_set:
  "n \<noteq> ''indent'' \<Longrightarrow> P L (set_option n x L)" "k \<noteq> js ''indent'' \<Longrightarrow> P L (set_named k x L)"
  "0 < i \<Longrightarrow> P L (set_named k (JNum i) L)" "P L (switch_warning off code L)"
proof -
  show o': "P L (set_option n x L)" if "n \<noteq> ''indent''" for n x
    using P_options [of "\<lambda>st. st\<lparr>option := (option st)(n := x)\<rparr>" L] that by (simp add: set_option_def)
  then show n: "P L (set_named k x L)" if "k \<noteq> js ''indent''" for k x
    using that ascii_name by (auto simp: set_named_def P_refl)
  show "P L (set_named k (JNum i) L)" if "0 < i"
    using n P_indent [OF that] by (cases "k = js ''indent''") (simp_all add: set_named_def indent_name P_refl)
  show "P L (switch_warning off code L)"
    using P_options [of "\<lambda>st. st\<lparr>ignored := (ignored st)(code := off)\<rparr>" L] by (simp add: switch_warning_def)
qed

lemma P_applyOptions: "P L (applyOptions L)"
proof -
  have globals: "P L (fold add_globals tabs L)" for tabs L by (rule P_fold) (rule P_predefining)
  have env: "P L (environment_globals L)" for L
    unfolding environment_globals_def by (rule P_fold) (auto simp: globals P_refl)
  have es6: "P L (needs_es6 n L)" for n L by (simp add: needs_es6_def P_warning P_refl)
  have strict: "P L (strict_conflict L)" for L by (simp add: strict_conflict_def P_quit P_refl)
  have ed: "P L (edition_globals L)" for L unfolding edition_globals_def Let_def by (rule globals)
  have inferred: "same_setting (\<lambda>st. snd (inferEsVersion st))"
    by (auto simp: inferEsVersion_def Let_def split: option.splits)
  have inf: "P L (infer_edition L)" for L
    using P_options [of "\<lambda>st. snd (inferEsVersion st)", OF inferred] P_trans [OF _ P_quit]
    by (simp add: infer_edition_def split_beta split: option.split)
  have setting: "same_setting (fold f ns)" if "\<And>n. n \<in> set ns \<Longrightarrow> same_setting (f n)"
    for f :: "string \<Rightarrow> lstate \<Rightarrow> lstate" and ns using that by (induction ns) simp_all
  have names: "''indent'' \<notin> set enforcing" "''indent'' \<notin> set relaxing" by (simp_all add: enforcing_def relaxing_def)
  have all: "P L (processenforceall L)" for L
  proof -
    have "same_setting (fold relax relaxing)" "same_setting (fold enforce enforcing)"
      using names by (intro setting; auto simp: relax_def enforce_def)+
    then show ?thesis
      using P_options [of "\<lambda>st. fold relax relaxing (fold enforce enforcing st)" L] by (simp add: processenforceall_def P_refl)
  qed
  have u: "P L M \<Longrightarrow> (\<And>M. P M (f M)) \<Longrightarrow> P L (unless_thrown f M)" for f M
    by (rule P_trans [OF _ P_unless])
  show ?thesis unfolding applyOptions_def by (intro u env es6 strict ed inf all P_refl)
qed

lemma P_values:
  "P L (number_option D key x L)" "key \<noteq> js ''indent'' \<Longrightarrow> P L (choice_option D key vals x L)" "P L (validthis_option x D L)"
  "P L (esversion_option x D L)" "key \<noteq> js ''indent'' \<Longrightarrow> P L (boolean_option D key x L)" "P L (module_check D key L)"
proof -
  show "P L (choice_option D key vals x L)" if "key \<noteq> js ''indent''"
    using that by (simp add: choice_option_def P_warning P_set split: option.split)
  show "P L (number_option D key x L)"
    using positive_positive by (auto simp: number_option_def P_warning P_set split: option.split)
  show "P L (validthis_option x D L)" by (simp add: validthis_option_def P_warning P_set)
  have "P L (set_option n y (set_option m z L))" if "n \<noteq> ''indent''" "m \<noteq> ''indent''" for n m y z
    by (rule P_trans [OF P_set(1) P_set(1)]) (rule that)+
  then have "P L (case find_js x editions of None \<Rightarrow> warning ''E002'' (Some (d_place D)) [] L
      | Some n \<Rightarrow> set_option ''esversion'' (JNum n) (set_option ''moz'' (JBool False) L))"
    by (simp add: P_warning split: option.split)
  then show "P L (esversion_option x D L)"
    using P_trans [OF _ P_warning] by (simp add: esversion_option_def Let_def)
  have "P L (L\<lparr>l_state := (l_state L)\<lparr>unstable := (unstable (l_state L))(n := y)\<rparr>\<rparr>)" for n y
    using P_options [of "\<lambda>st. st\<lparr>unstable := (unstable st)(n := y)\<rparr>" L] by simp
  moreover have "renamed_key key \<noteq> js ''indent''" if "key \<noteq> js ''indent''"
    using that by (simp add: renamed_key_def renamed_def find_js_def js_def)
  ultimately show "P L (boolean_option D key x L)" if "key \<noteq> js ''indent''"
    using that by (simp add: boolean_option_def Let_def P_warning P_set P_refl)
  show "P L (module_check D key L)" by (simp add: module_check_def P_warning P_refl)
qed

lemma P_option_item: "P L (option_item D item L)"
proof -
  have u: "P L (unless_thrown (boolean_option D key x) (module_check D key L))" if "key \<noteq> js ''indent''" for key x L
    by (rule P_trans [OF P_values(6) P_unless]) (rule P_values(5) [OF that])
  have "named (js ''indent'') numvals" by (simp add: named_def numvals_def)
  then have v: "P L (option_value D key x L)" for key x L
    by (cases "key = js ''indent''")
      (simp_all add: option_value_def P_values P_ignoring P_set u split: option.split prod.split)
  have c: "P L (snd (checkOption k b ty t L))" for k b ty t L
    by (simp add: checkOption_def Let_def P_warning P_refl)
  show ?thesis unfolding option_item_def
    by (rule P_unless) (simp add: Let_def split_beta c P_trans [OF c v])
qed

lemma P_globals: "P L (globals_directive D body L)"
proof -
  have i: "P (snd PS) (snd (global_item D n x PS))" for n x PS
    by (cases x; cases PS) (simp add: global_item_def Let_def P_refl P_warning P_removing)
  have "P (snd PS) (snd (fold (global_item D n) xs PS))" for n xs PS
  proof (induction xs arbitrary: PS)
    case (Cons x xs)
    show ?case using P_trans [OF i Cons.IH] by simp
  qed (simp add: P_refl)
  from this [of "([], L)"] have 1: "P L (snd (fold (global_item D n) xs ([], L)))" for n xs by simp
  have "P L ((add_globals tbl L)\<lparr>l_declared := d\<rparr>)" for tbl d L
    by (rule P_trans [OF P_predefining P_mgr(2)])
  then have "P L (unless_thrown (\<lambda>M. (add_globals tbl M)\<lparr>l_declared := fd M\<rparr>) L)" for tbl fd L
    by (rule P_unless)
  from P_trans [OF 1 this] show ?thesis by (simp add: globals_directive_def split_beta)
qed

lemma P_exported_item: "P L (exported_item D n x L)"
proof -
  have "is_call undefined (addExported m)" for m by simp
  then show ?thesis
    by (cases x) (auto simp: exported_item_def intro!: P_unless P_with_scope P_warning P_refl)
qed

lemma P_directive: "P L (fst (lintingDirective D L))"
proof -
  have "P L (fold (exported_item D n) xs L)" for n xs by (rule P_fold) (rule P_exported_item)
  moreover have "P L (unless_thrown applyOptions (fold (option_item D) items L))" for items
    by (rule P_trans [OF P_fold [OF P_option_item] P_unless]) (rule P_applyOptions)
  ultimately show ?thesis
    by (simp add: lintingDirective_def Let_def P_globals P_refl members_directive_def P_members)
qed

text \<open>The beginning of a run, after its options are set.\<close>

lemma P_beginning: "P L (unless_thrown (add_globals g) (unless_thrown applyOptions (uncaught (check_names o' L))))"
proof -
  have c: "P L (snd (checkOption k b ty t L))" for k b ty t L
    by (simp add: checkOption_def Let_def P_warning P_refl)
  have "P L (check_names o' L)" unfolding check_names_def by (rule P_fold) (simp add: c split: prod.split)
  moreover have "P L (uncaught L)" for L using P_fault by (simp add: uncaught_def P_refl split: option.split)
  ultimately show ?thesis
    using P_trans [OF _ P_unless [OF P_applyOptions]] P_trans [OF _ P_unless [OF P_predefining]] P_trans by meson
qed

text \<open>The steps of the parser.\<close>

lemma Q_alloc: "P (p_lint S) (p_lint (snd (run_state (alloc k) S)))"
  using P_mgr(1) [OF leads_toks] by (simp add: alloc_def P_refl)

lemma Q_read: "P (p_lint S) (p_lint (snd (read_token S)))"
proof -
  obtain x L where x: "lex_token (p_re S) (l_state (synced S)) ((p_lexer S)\<lparr>events := []\<rparr>) = (x, L)"
    by fastforce
  define S1 where "S1 = S\<lparr>p_lexer := L, p_lint := lex_listeners (events L) (synced S)\<rparr>"
  have "P (p_lint S) (p_lint S1)" using P_trans [OF P_synced P_listeners] by (simp add: S1_def)
  moreover have "P (p_lint S1) (p_lint (snd (run_state (alloc k) S1)))" for k by (rule Q_alloc)
  ultimately show ?thesis
    by (cases x) (auto simp: read_token_def x S1_def [symmetric] Let_def split: prod.splits intro: P_trans, metis P_trans snd_conv)
qed

lemma Q_renaming: "obeys Q (renaming h)"
  by (simp add: obeys_def renaming_def P_refl)

lemma Q_lint: "(\<And>L. P L (f L)) \<Longrightarrow> obeys Q (lint f)"
  using P_trans [OF P_synced] by (simp add: obeys_def lint_def P_refl)

lemma Q_lint_get: "(\<And>L. P L (fst (f L))) \<Longrightarrow> P (p_lint S) (p_lint (snd (run_state (lint_get f) S)))"
  using P_trans [OF P_synced] by (auto simp: lint_get_def P_refl split: prod.splits) (metis fst_conv)

lemma Q_peek: "obeys Q (peek_token i)"
proof (rule obeysI)
  fix S
  have "P (p_lint S) (p_lint (snd (run_state (fill_lookahead n) S)))" for n S
  proof (induction n arbitrary: S)
    case (Suc n)
    obtain x S1 where x: "(if stopped S then (None, S) else read_token S) = (x, S1)" by fastforce
    then have 1: "P (p_lint S) (p_lint S1)" using Q_read [of S] by (simp add: P_refl split: if_splits)
    show ?case
    proof (cases x)
      case (Some t)
      let ?S2 = "if stopped S1 then S1 else S1\<lparr>p_look := p_look S1 @ [t]\<rparr>"
      have "P (p_lint S) (p_lint (snd (run_state (fill_lookahead n) ?S2)))"
        using P_trans [OF 1] Suc.IH [of ?S2] by (simp split: if_splits)
      with 1 show ?thesis by (cases "stopped S1") (simp_all add: x Some)
    qed (simp add: x 1 next_ref_def)
  qed (simp add: next_ref_def P_refl)
  then show "P (p_lint S) (p_lint (snd (run_state (peek_token i) S)))"
    by (simp add: peek_token_def P_refl)
qed

lemma Q_quit: "obeys Q (quit_tok code t)"
  using Q_lint [OF P_quit] by (simp add: quit_tok_def obeys_def tok_at_def)

lemma Q_store: "p_lint (snd (run_state (upd_token t f) S)) = p_lint S"
  by (simp add: upd_token_def)

lemma Q_checks: "P (p_lint S) (p_lint (snd (run_state (run_token_checks t) S)))"
  using obeysD [OF Q_lint [OF P_listeners], of S]
  by (simp add: run_token_checks_def tok_at_def Q_store split_beta)

lemma Q_apply_directive: "P (p_lint S) (p_lint (snd (run_state (apply_directive t) S)))"
proof -
  have d: "P (p_lint S) (p_lint (snd (run_state (lint_get (lintingDirective D)) S)))" for D
    by (rule Q_lint_get) (rule P_directive)
  show ?thesis
    by (simp add: apply_directive_def tok_at_def curr_ref_def Let_def provided_def Q_store split_beta d)
qed

lemma Q_advance_loop: "P (p_lint S) (p_lint (advance_loop S))"
proof (induction S rule: advance_loop.induct)
  case (1 S)
  obtain x S1 where x: "shift_token S = (x, S1)" by fastforce
  have 1: "P (p_lint S) (p_lint S1)"
    using Q_read [of S] x by (auto simp: shift_token_def P_refl split: list.splits)
  note IH = "1.IH" [OF _ x [symmetric]]
  show ?case
  proof (cases x)
    case None
    then show ?thesis
      using P_trans [OF 1 obeysD [OF Q_quit, of "S1\<lparr>p_next := p_fresh S1\<rparr>", simplified]]
      by (subst advance_loop.simps) (simp add: x P_refl)
  next
    case (Some t)
    let ?S2 = "S1\<lparr>p_next := t\<rparr>"
    let ?S3 = "snd (run_state (run_token_checks t) ?S2)"
    have 3: "P (p_lint S) (p_lint ?S3)" using P_trans [OF 1 Q_checks [of ?S2 t, simplified]] by simp
    have 4: "P (p_lint S) (p_lint (snd (run_state (apply_directive t) ?S3)))"
      using P_trans [OF 3 Q_apply_directive] .
    show ?thesis
      using 1 3 P_trans [OF 3] P_trans [OF 4] IH Some
      by (subst advance_loop.simps) (simp add: x P_refl Let_def)
  qed
qed

lemma Q_advance: "obeys Q (advance_to expected related)"
proof -
  have bind: "obeys Q m \<Longrightarrow> (\<And>x. obeys Q (f x)) \<Longrightarrow> obeys Q (m \<bind> f)" for m :: "'a parser" and f :: "'a \<Rightarrow> 'b parser"
    unfolding obeys_def by (auto simp: split_beta intro: P_trans)
  have pure: "obeys Q (ret x)" "obeys Q (gets g)" for x :: 'c and g :: "pst \<Rightarrow> 'd"
    by (simp_all add: obeys_def P_refl)
  have upd: "(\<And>S. p_lint (g S) = p_lint S) \<Longrightarrow> obeys Q (upd g)" for g
    by (simp add: obeys_def P_refl)
  have loop: "obeys Q (State (\<lambda>S. ((), advance_loop S)))"
    by (simp add: obeys_def Q_advance_loop)
  show ?thesis
    unfolding advance_to_def unexpected_token_def provided_def tok_at_def next_ref_def next_tok_def report_tok_def
    by (intro obeys_branches bind pure loop upd Q_lint P_warning) simp
qed

end

sublocale linter_relation \<subseteq> parser_relation Q
proof unfold_locales
  fix f :: "pst \<Rightarrow> pst" assume "\<And>S. frame S (f S)"
  then show "obeys Q (upd f)" by (simp add: obeys_def P_refl frame_def)
next
  fix e :: "scope_env \<Rightarrow> manager \<Rightarrow> manager" assume e: "\<And>E. is_call E (e E)"
  have a: "p_lint (fold add_outer ns S) = p_lint S" for ns S
    by (induction ns arbitrary: S) (simp_all add: add_outer_def)
  have "P (p_lint S) (with_scope (e E) (synced S))" for E S
    using P_trans [OF P_synced P_with_scope] e by blast
  moreover have "P L (unless_thrown fault L)" for L by (rule P_unless) (rule P_fault)
  ultimately show "obeys Q (scope_op e)"
    by (auto simp: obeys_def scope_op_def Let_def a P_refl intro: P_trans)
next
  show "obeys Q (renaming h)" for h by (rule Q_renaming)
  show "obeys Q m \<Longrightarrow> obeys Q (nested m)" for m :: "nat option parser" using P_trans P_refl Q_renaming by (rule nested_obeys)
qed (use P_refl P_trans in \<open>auto simp: obeys_def out_of_fuel_def upd_funct_def upd_lstate_def warningAt_def
      intro: P_options obeysD [OF Q_lint] P_warning P_quit P_fault obeysD [OF Q_peek] obeysD [OF Q_advance] Q_alloc\<close>)

text \<open>Relations that also respect what a function puts back.\<close>

locale linter_frame = linter_relation +
  assumes P_restoring: "P L (L\<lparr>l_state := put_options os is (l_state L)\<rparr>)"

sublocale linter_frame \<subseteq> parser_frame Q
  by unfold_locales (simp_all add: obeys_def upd_lstate_def P_refl P_restoring outside_functors_def)

section \<open>The scope manager\<close>

definition keeps_history :: "linter \<Rightarrow> linter \<Rightarrow> bool" where
  "keeps_history L L' \<longleftrightarrow> leads (l_mgr L) (l_mgr L')"

lemma same_manager: "l_mgr L' = l_mgr L \<Longrightarrow> keeps_history L L'"
  by (simp add: keeps_history_def leads_refl)

lemma warning_manager [simp]: "l_mgr (warning code p args L) = l_mgr L"
  by (auto simp: warning_def unless_thrown_def Let_def add_report_def removeIgnoredMessages_def quit_def fault_def
      split: option.split)

interpretation history: linter_frame keeps_history
proof unfold_locales
  fix L :: linter
  show "keeps_history L L" by (simp add: same_manager)
  show "keeps_history L L1 \<Longrightarrow> keeps_history L1 L2 \<Longrightarrow> keeps_history L L2" for L1 L2
    using leads_trans by (simp add: keeps_history_def)
  show "leads (l_mgr L) G \<Longrightarrow> keeps_history L (L\<lparr>l_mgr := G, l_declared := d\<rparr>)" for G d
    by (simp add: keeps_history_def)
  show "keeps_history L (ignore_option val D L)" for val D
    by (rule same_manager) (auto simp: ignore_option_def removeIgnoredMessages_def split: option.splits)
qed (auto intro!: same_manager simp: add_globals_def quit_def fault_def Let_def set_option_def split: option.splits)

section \<open>Ignored lines\<close>

definition keeps_silence :: "linter \<Rightarrow> linter \<Rightarrow> bool" where
  "keeps_silence L L' \<longleftrightarrow> (silent L \<longrightarrow> silent L') \<and>
     (\<forall>l. ignoredLines (l_state L) l \<longrightarrow> ignoredLines (l_state L') l)"

interpretation silence: linter_frame keeps_silence
proof unfold_locales
  fix L :: linter and D val
  have "silent L \<Longrightarrow> silent (ignore_option val D L)"
    by (simp add: ignore_option_def silent_remove silent_warning split: option.split)
  moreover have "ignoredLines (l_state L) l \<Longrightarrow> ignoredLines (l_state (ignore_option val D L)) l" for l
    by (auto simp: ignore_option_def removeIgnoredMessages_def split: option.split)
  ultimately show "keeps_silence L (ignore_option val D L)" by (simp add: keeps_silence_def)
next
  fix L :: linter and code p args
  show "keeps_silence L (warning code p args L)" by (simp add: keeps_silence_def silent_warning)
qed (auto simp: keeps_silence_def silent_def add_globals_def quit_def fault_def Let_def on_ignored_def set_option_def put_options_def
      split: option.splits)

section \<open>Removed names\<close>

definition keeps_removed :: "linter \<Rightarrow> linter \<Rightarrow> bool" where
  "keeps_removed L L' \<longleftrightarrow> (honours L \<longrightarrow> honours L') \<and>
     (\<forall>n. obj_has (l_blacklist L) n \<longrightarrow> obj_has (l_blacklist L') n)"

interpretation removed: linter_frame keeps_removed
proof unfold_locales
  fix L :: linter and D val
  show "keeps_removed L (ignore_option val D L)"
    by (auto simp: keeps_removed_def ignore_option_def removeIgnoredMessages_def honours_def split: option.splits)
qed (auto simp: keeps_removed_def add_globals_def quit_def fault_def Let_def honours_def combine_has plain_put_def
      set_option_def put_options_def split: option.splits)

end
