(* ===== verification/ParserObjects.thy ===== *)
theory ParserObjects
  imports ParserContract
begin

text \<open>
  Invariants of the parser's own objects: the tokens it holds are allocated and handed out once, the
  functors form a tree, and after an exception nothing changes any more.
\<close>

section \<open>After an exception\<close>

text \<open>A step that does nothing once something was thrown.\<close>

definition idle :: "pst \<Rightarrow> pst \<Rightarrow> bool" where
  "idle S S' \<longleftrightarrow> (stopped S \<longrightarrow> S' = S)"

lemma idle_upd: "idle S (snd (run_state (upd f) S))"
  by (simp add: idle_def)

lemma idle_read: "stopped S \<Longrightarrow> run_state (fill_lookahead n) S = (fst (run_state (fill_lookahead n) S), S)"
  by (induction n) (simp_all add: next_ref_def)

lemma idle_peek: "idle S (snd (run_state (peek_token i) S))"
  using idle_read [of S] by (auto simp: idle_def peek_token_def) (metis snd_conv)

lemma idle_lint: "idle S (snd (run_state (lint f) S))"
  by (simp add: idle_def lint_def)

lemma idle_advance: "idle S (snd (run_state (advance_to expected related) S))"
  by (auto simp: idle_def advance_to_def unexpected_token_def provided_def next_tok_def next_ref_def tok_at_def
      report_tok_def lint_def advance_loop.simps split: option.splits)


lemma idle_trans: "idle S S1 \<Longrightarrow> idle S1 S2 \<Longrightarrow> idle S S2"
  by (auto simp: idle_def)

text \<open>The three parts of \<open>advance\<close>: the check of what is expected, the move, the loop.\<close>

definition expectation :: "string option \<Rightarrow> nat option \<Rightarrow> unit parser" where
  "expectation expected related = do {
     k \<leftarrow> next_tok;
     (case expected of None \<Rightarrow> ret () | Some s \<Rightarrow> provided (\<not> has_id s k) (unexpected_token s related))
   }"

definition move_on :: "pst \<Rightarrow> pst" where
  "move_on S = (if stopped S then S else S\<lparr>p_prev := p_curr S, p_curr := p_next S\<rparr>)"

lemma advance_parts:
  "snd (run_state (advance_to expected related) S) = advance_loop (move_on (snd (run_state (expectation expected related) S)))"
  by (simp add: advance_to_def expectation_def next_tok_def move_on_def split_beta)

lemma expectation_cases:
  assumes "\<And>S. Q S S" "\<And>S code t args. Q S (snd (run_state (report_tok code t args) S))"
  shows "Q S (snd (run_state (expectation expected related) S))"
  using assms by (simp add: expectation_def next_tok_def unexpected_token_def provided_def next_ref_def tok_at_def split: option.split)

section \<open>The token stream\<close>

text \<open>
  Every token that is held has been allocated, and those that are still to come are different. (A
  lexer that has nothing left leaves no next token; the run is given up then.)
\<close>

definition stream_ok :: "pst \<Rightarrow> bool" where
  "stream_ok S \<longleftrightarrow> p_prev S < p_fresh S \<and> p_curr S < p_fresh S \<and> (stopped S \<or> p_next S < p_fresh S) \<and>
     list_all (\<lambda>t. t < p_fresh S) (p_look S) \<and> distinct (p_next S # p_look S)"

definition keeps_stream :: "pst \<Rightarrow> pst \<Rightarrow> bool" where
  "keeps_stream S S' \<longleftrightarrow> idle S S' \<and> p_fresh S \<le> p_fresh S' \<and> (stream_ok S \<longrightarrow> stream_ok S')"

lemma keeps_stream_refl: "keeps_stream S S"
  by (simp add: keeps_stream_def idle_def)

lemma keeps_stream_trans: "keeps_stream S S1 \<Longrightarrow> keeps_stream S1 S2 \<Longrightarrow> keeps_stream S S2"
  by (auto simp: keeps_stream_def idle_def)

text \<open>Steps that leave the stream alone.\<close>

definition same_stream :: "pst \<Rightarrow> pst \<Rightarrow> bool" where
  "same_stream S S' \<longleftrightarrow> p_fresh S' = p_fresh S \<and> p_prev S' = p_prev S \<and> p_curr S' = p_curr S \<and>
     p_next S' = p_next S \<and> p_look S' = p_look S \<and> (stopped S \<longrightarrow> stopped S')"

lemma same_stream_keeps: "idle S S' \<Longrightarrow> same_stream S S' \<Longrightarrow> keeps_stream S S'"
  by (auto simp: keeps_stream_def same_stream_def stream_ok_def)

lemma same_lint: "same_stream S (snd (run_state (lint f) S))"
  by (simp add: same_stream_def lint_def)

lemma keeps_lint: "keeps_stream S (snd (run_state (lint f) S))"
  by (rule same_stream_keeps [OF idle_lint same_lint])

lemma keeps_upd: "(\<And>S. \<not> stopped S \<Longrightarrow> same_stream S (f S)) \<Longrightarrow> keeps_stream S (snd (run_state (upd f) S))"
  by (rule same_stream_keeps [OF idle_upd]) (auto simp: same_stream_def)

lemma alloc_stream:
  assumes "run_state (alloc k) S = (t, S')" "\<not> stopped S"
  shows "t = p_fresh S" "p_fresh S' = Suc (p_fresh S)" "p_prev S' = p_prev S" "p_curr S' = p_curr S"
    "p_next S' = p_next S" "p_look S' = p_look S" "stopped S' = stopped S"
  using assms by (auto simp: alloc_def stopped_def)

lemma read_stream:
  assumes "read_token S = (x, S')" "\<not> stopped S"
  shows "p_prev S' = p_prev S" "p_curr S' = p_curr S" "p_next S' = p_next S" "p_look S' = p_look S"
    "\<And>t. x = Some t \<Longrightarrow> t = p_fresh S" "\<not> stopped S' \<Longrightarrow> x \<noteq> None \<Longrightarrow> p_fresh S' = Suc (p_fresh S)"
    "p_fresh S \<le> p_fresh S'" "p_fresh S' \<le> Suc (p_fresh S)" "x = None \<Longrightarrow> p_fresh S' = p_fresh S"
  using assms by (auto simp: read_token_def alloc_def Let_def stopped_def split: prod.splits option.splits if_splits)

lemma keeps_alloc: "keeps_stream S (snd (run_state (alloc k) S))"
  by (auto simp: alloc_def keeps_stream_def idle_def stream_ok_def stopped_def list_all_iff)

lemma keeps_fill: "keeps_stream S (snd (run_state (fill_lookahead n) S))"
proof (induction n arbitrary: S)
  case (Suc n)
  show ?case
  proof (cases "stopped S")
    case True
    then show ?thesis using idle_read [of S "Suc n"] by (simp add: keeps_stream_def idle_def) (metis order_refl snd_conv)
  next
    case False
    obtain x S1 where x: "read_token S = (x, S1)" by fastforce
    note r = read_stream [OF x False]
    show ?thesis
    proof (cases "x = None \<or> stopped S1")
      case True
      have 1: "keeps_stream S S1"
        using r False True by (auto simp: keeps_stream_def idle_def stream_ok_def list_all_iff intro: less_le_trans)
      then have "keeps_stream S (snd (run_state (fill_lookahead n) S1))"
        using Suc [of S1] keeps_stream_trans by blast
      with 1 True False show ?thesis by (auto simp: x next_ref_def split: option.split)
    next
      case False': False
      then obtain t where t: "x = Some t" by auto
      let ?S2 = "S1\<lparr>p_look := p_look S1 @ [t]\<rparr>"
      have "keeps_stream S ?S2"
        using r False False' t by (auto simp: keeps_stream_def idle_def stream_ok_def stopped_def list_all_iff)
      moreover have "keeps_stream ?S2 (snd (run_state (fill_lookahead n) ?S2))" by (rule Suc)
      ultimately show ?thesis using False False' keeps_stream_trans by (auto simp: x t)
    qed
  qed
qed (simp add: next_ref_def keeps_stream_def idle_def)

lemma keeps_peek: "keeps_stream S (snd (run_state (peek_token i) S))"
  by (simp add: peek_token_def keeps_fill keeps_stream_refl)

text \<open>The next token is the first one that was read ahead, or a new one.\<close>

lemma keeps_shift:
  assumes "shift_token S = (Some t, S1)" "\<not> stopped S"
  shows "keeps_stream S (if stopped S1 then S1 else S1\<lparr>p_next := t\<rparr>)"
proof (cases "p_look S")
  case Nil
  then have x: "read_token S = (Some t, S1)" using assms(1) by (simp add: shift_token_def)
  show ?thesis
    using read_stream [OF x assms(2)] Nil assms(2)
    by (auto simp: keeps_stream_def idle_def stream_ok_def stopped_def)
next
  case (Cons t' r)
  with assms show ?thesis
    by (auto simp: shift_token_def keeps_stream_def idle_def stream_ok_def stopped_def)
qed

lemma keeps_checks: "keeps_stream S (snd (run_state (run_token_checks t) S))"
proof -
  let ?S1 = "snd (run_state (lint (\<lambda>L. lex_listeners (fst (run_checks (l_state L) (k_checks (p_store S t)))) L)) S)"
  have "keeps_stream ?S1 (snd (run_state (upd_token t (\<lambda>k. k\<lparr>k_checks := []\<rparr>)) ?S1))"
    unfolding upd_token_def by (rule keeps_upd) (simp add: same_stream_def stopped_def)
  then show ?thesis
    using keeps_stream_trans [OF keeps_lint] by (simp add: run_token_checks_def tok_at_def split_beta)
qed

lemma keeps_directive: "keeps_stream S (snd (run_state (apply_directive t) S))"
proof -
  have g: "keeps_stream S (snd (run_state (lint_get f) S))" for f :: "linter \<Rightarrow> linter \<times> bool"
    by (auto simp: lint_get_def keeps_stream_def idle_def stream_ok_def stopped_def split: prod.split)
  have "keeps_stream S (snd (run_state (upd_token c f) S))" for c f S
    unfolding upd_token_def by (rule keeps_upd) (simp add: same_stream_def stopped_def)
  then show ?thesis
    using g keeps_stream_trans
    by (auto simp: apply_directive_def tok_at_def curr_ref_def Let_def provided_def split_beta) blast
qed

lemma quit_stops: "stopped (snd (run_state (quit_tok code t) S))"
  by (auto simp: quit_tok_def tok_at_def lint_def stopped_def quit_def fault_def Let_def split: option.split)

lemma keeps_null:
  assumes "shift_token S = (None, S1)" "\<not> stopped S"
  shows "keeps_stream S (snd (run_state (quit_tok code t) (S1\<lparr>p_next := p_fresh S1\<rparr>)))"
proof -
  have l: "p_look S = []" and x: "read_token S = (None, S1)"
    using assms(1) by (simp_all add: shift_token_def split: list.splits)
  let ?S2 = "S1\<lparr>p_next := p_fresh S1\<rparr>" and ?S3 = "snd (run_state (quit_tok code t) (S1\<lparr>p_next := p_fresh S1\<rparr>))"
  have "same_stream ?S2 ?S3" unfolding quit_tok_def by (simp add: tok_at_def same_lint)
  then show ?thesis
    using read_stream [OF x assms(2)] quit_stops [of code t ?S2] l assms(2)
    by (auto simp: keeps_stream_def idle_def stream_ok_def same_stream_def)
qed

lemma keeps_advance_loop: "keeps_stream S (advance_loop S)"
proof (induction S rule: advance_loop.induct)
  case (1 S)
  show ?case
  proof (cases "stopped S")
    case False
    obtain x S1 where x: "shift_token S = (x, S1)" by fastforce
    show ?thesis
    proof (cases x)
      case None
      then show ?thesis
        using keeps_null [of S S1] x False by (subst advance_loop.simps) simp
    next
      case (Some t)
      let ?S2 = "S1\<lparr>p_next := t\<rparr>"
      let ?S3 = "snd (run_state (run_token_checks t) ?S2)"
      have 2: "keeps_stream S (if stopped S1 then S1 else ?S2)" using keeps_shift x Some False by blast
      show ?thesis
      proof (cases "stopped S1")
        case True
        with 2 show ?thesis by (subst advance_loop.simps) (simp add: x Some False)
      next
        case ok: False
        then have 3: "keeps_stream S ?S2" "keeps_stream S ?S3"
          using 2 keeps_stream_trans [OF _ keeps_checks] by auto
        have 4: "keeps_stream S (snd (run_state (apply_directive t) ?S3))"
          using keeps_stream_trans [OF 3(2) keeps_directive] .
        note IH = "1.IH" [OF False x [symmetric] Some ok refl refl]
        show ?thesis
          using 3 keeps_stream_trans [OF 3(2)] keeps_stream_trans [OF 4] IH
          by (subst advance_loop.simps) (simp add: x Some False ok Let_def)
      qed
    qed
  qed (simp add: advance_loop.simps keeps_stream_refl)
qed

lemma keeps_advance: "keeps_stream S (snd (run_state (advance_to expected related) S))"
proof -
  have 1: "keeps_stream S (snd (run_state (expectation expected related) S))"
    by (rule expectation_cases) (simp_all add: report_tok_def tok_at_def keeps_lint keeps_stream_refl)
  have 2: "keeps_stream S (move_on S)" for S
    by (auto simp: move_on_def keeps_stream_def idle_def stream_ok_def stopped_def)
  show ?thesis
    unfolding advance_parts using keeps_stream_trans [OF 1 keeps_stream_trans [OF 2 keeps_advance_loop]] .
qed

lemma keeps_scope: "keeps_stream S (snd (run_state (scope_op e) S))"
proof -
  have a: "p_fresh (fold add_outer ns T) = p_fresh T \<and> p_prev (fold add_outer ns T) = p_prev T \<and>
      p_curr (fold add_outer ns T) = p_curr T \<and> p_next (fold add_outer ns T) = p_next T \<and>
      p_look (fold add_outer ns T) = p_look T" for ns T
    by (induction ns arbitrary: T) (simp_all add: add_outer_def)
  show ?thesis
    unfolding scope_op_def
    by (rule keeps_upd) (use a in \<open>auto simp: Let_def same_stream_def\<close>)
qed

lemma stream_renaming: "obeys keeps_stream (renaming h)"
  unfolding renaming_def by (intro obeysI keeps_upd) (simp add: same_stream_def)

interpretation stream: parser_frame keeps_stream
proof unfold_locales
  fix f :: "pst \<Rightarrow> pst" assume "\<And>S. frame S (f S)"
  then show "obeys keeps_stream (upd f)"
    by (intro obeysI keeps_upd) (auto simp: frame_def same_stream_def)
next
  show "obeys keeps_stream out_of_fuel"
    unfolding out_of_fuel_def by (intro obeysI keeps_upd) (simp add: same_stream_def stopped_def)
next
  fix f :: "pst \<Rightarrow> pst" assume "\<And>S. outside_functors S (f S)"
  then show "obeys keeps_stream (upd f)"
    by (intro obeysI keeps_upd) (auto simp: outside_functors_def same_stream_def)
next
  show "obeys keeps_stream (upd_funct g)" for g
    unfolding upd_funct_def by (intro obeysI keeps_upd) (simp add: same_stream_def)
  show "obeys keeps_stream (upd_lstate h)" "obeys keeps_stream (upd_lstate (put_options os is))" for h os "is"
    unfolding upd_lstate_def by (rule obeysI, rule keeps_upd, simp add: same_stream_def)+
next
  show "obeys keeps_stream (renaming h)" for h by (rule stream_renaming)
  show "obeys keeps_stream m \<Longrightarrow> obeys keeps_stream (nested m)" for m :: "nat option parser"
    using keeps_stream_trans keeps_stream_refl stream_renaming by (rule nested_obeys)
qed (auto simp: obeys_def out_of_fuel_def keeps_stream_refl keeps_lint keeps_scope keeps_alloc keeps_peek keeps_advance
      intro: keeps_stream_trans)

section \<open>Functors\<close>

text \<open>
  The functors form a tree: the context of every function is one made earlier, and only the global
  one has none. Whatever is parsed, the current functor is the same afterwards.
\<close>

definition functors_ok :: "pst \<Rightarrow> bool" where
  "functors_ok S \<longleftrightarrow> p_funct S < p_functions S \<and> f_context (p_functs S 0) = None \<and>
     (\<forall>f. 0 < f \<and> f < p_functions S \<longrightarrow> (\<exists>c. f_context (p_functs S f) = Some c \<and> c < f))"

definition functors_grow :: "pst \<Rightarrow> pst \<Rightarrow> bool" where
  "functors_grow S S' \<longleftrightarrow> idle S S' \<and> p_functions S \<le> p_functions S' \<and> (functors_ok S \<longrightarrow> functors_ok S')"

definition keeps_functors :: "pst \<Rightarrow> pst \<Rightarrow> bool" where
  "keeps_functors S S' \<longleftrightarrow> functors_grow S S' \<and> (stopped S' \<or> p_funct S' = p_funct S)"

lemma functors_grow_trans: "functors_grow S S1 \<Longrightarrow> functors_grow S1 S2 \<Longrightarrow> functors_grow S S2"
  by (auto simp: functors_grow_def idle_def)

lemma keeps_functors_trans: "keeps_functors S S1 \<Longrightarrow> keeps_functors S1 S2 \<Longrightarrow> keeps_functors S S2"
  by (auto simp: keeps_functors_def functors_grow_def idle_def)

text \<open>Steps that leave the functors, and the name stack, alone.\<close>

definition same_functors :: "pst \<Rightarrow> pst \<Rightarrow> bool" where
  "same_functors S S' \<longleftrightarrow> p_functions S' = p_functions S \<and> p_funct S' = p_funct S \<and> p_names S' = p_names S \<and>
     (\<forall>f. f_context (p_functs S' f) = f_context (p_functs S f))"

lemma same_functors_refl: "same_functors S S"
  by (simp add: same_functors_def)

lemma same_functors_trans: "same_functors S S1 \<Longrightarrow> same_functors S1 S2 \<Longrightarrow> same_functors S S2"
  by (simp add: same_functors_def)

lemma same_functors_keeps: "idle S S' \<Longrightarrow> same_functors S S' \<Longrightarrow> keeps_functors S S'"
  by (simp add: keeps_functors_def functors_grow_def same_functors_def functors_ok_def)

lemma keeps_functors_refl: "keeps_functors S S"
  by (simp add: keeps_functors_def functors_grow_def idle_def)

lemma functors_upd: "(\<And>S. same_functors S (f S)) \<Longrightarrow> keeps_functors S (snd (run_state (upd f) S))"
  by (rule same_functors_keeps [OF idle_upd]) (simp add: same_functors_def)

lemma functors_lint: "same_functors S (snd (run_state (lint f) S))"
  by (simp add: same_functors_def lint_def)

lemma functors_read: "same_functors S (snd (read_token S))"
  by (auto simp: same_functors_def read_token_def alloc_def Let_def split: prod.splits option.splits if_splits)

lemma functors_fill: "same_functors S (snd (run_state (fill_lookahead n) S))"
proof (induction n arbitrary: S)
  case (Suc n)
  obtain x S1 where x: "(if stopped S then (None, S) else read_token S) = (x, S1)" by fastforce
  then have 1: "same_functors S S1" using functors_read [of S] by (auto simp: same_functors_def split: if_splits)
  show ?case
  proof (cases x)
    case (Some t)
    let ?S2 = "if stopped S1 then S1 else S1\<lparr>p_look := p_look S1 @ [t]\<rparr>"
    have "same_functors S ?S2" using 1 by (simp add: same_functors_def)
    then have "same_functors S (snd (run_state (fill_lookahead n) ?S2))"
      using Suc same_functors_trans by blast
    with \<open>same_functors S ?S2\<close> show ?thesis by (cases "stopped S1") (simp_all add: x Some)
  qed (simp add: x 1 next_ref_def)
qed (simp add: next_ref_def same_functors_def)

lemma functors_advance_loop: "same_functors S (advance_loop S)"
proof (induction S rule: advance_loop.induct)
  case (1 S)
  obtain x S1 where x: "shift_token S = (x, S1)" by fastforce
  have 1: "same_functors S S1"
    using functors_read [of S] x by (auto simp: shift_token_def same_functors_def split: list.splits)
  have q: "same_functors S (snd (run_state (quit_tok code t) (S1\<lparr>p_next := n\<rparr>)))" for code t n
    using 1 by (simp add: quit_tok_def tok_at_def lint_def same_functors_def)
  have c: "same_functors T (snd (run_state (run_token_checks t) T))" for t T
    by (simp add: run_token_checks_def tok_at_def lint_def upd_token_def same_functors_def)
  have d: "same_functors T (snd (run_state (apply_directive t) T))" for t T
    by (auto simp: apply_directive_def tok_at_def lint_get_def upd_token_def curr_ref_def Let_def provided_def
        same_functors_def split: prod.splits)
  show ?case
  proof (cases x)
    case (Some t)
    let ?S2 = "S1\<lparr>p_next := t\<rparr>"
    let ?S3 = "snd (run_state (run_token_checks t) ?S2)"
    have 2: "same_functors S ?S2" using 1 by (simp add: same_functors_def)
    have 3: "same_functors S ?S3" using same_functors_trans [OF 2 c] .
    have 4: "same_functors S (snd (run_state (apply_directive t) ?S3))" using same_functors_trans [OF 3 d] .
    show ?thesis
      using 1 2 3 same_functors_trans [OF 3] same_functors_trans [OF 4] "1.IH" [OF _ x [symmetric] Some] same_functors_refl
      by (subst advance_loop.simps) (simp add: x Some Let_def)
  qed (subst advance_loop.simps, simp add: x q same_functors_refl)
qed

lemma same_functors_advance: "same_functors S (snd (run_state (advance_to expected related) S))"
proof -
  have 1: "same_functors S (snd (run_state (expectation expected related) S))"
    by (rule expectation_cases) (simp_all add: report_tok_def tok_at_def functors_lint same_functors_refl)
  have 2: "same_functors S (move_on S)" for S
    by (simp add: move_on_def same_functors_def)
  show ?thesis
    unfolding advance_parts using same_functors_trans [OF 1 same_functors_trans [OF 2 functors_advance_loop]] .
qed

lemma functors_advance: "keeps_functors S (snd (run_state (advance_to expected related) S))"
  by (rule same_functors_keeps [OF idle_advance same_functors_advance])

lemma functors_scope: "keeps_functors S (snd (run_state (scope_op e) S))"
proof -
  have a: "same_functors T (fold add_outer ns T)" for ns T
  proof (induction ns arbitrary: T)
    case (Cons n ns)
    have "same_functors T (add_outer n T)" by (simp add: add_outer_def same_functors_def cur_funct_def)
    then show ?case using Cons same_functors_trans by simp
  qed (simp add: same_functors_def)
  show ?thesis
    unfolding scope_op_def
    by (rule functors_upd) (use a in \<open>simp add: Let_def same_functors_def\<close>)
qed

lemma functors_lstate: "obeys keeps_functors (upd_lstate h)"
  unfolding upd_lstate_def by (intro obeysI functors_upd) (simp add: same_functors_def)

interpretation functors: parser_relation keeps_functors
proof unfold_locales
  fix g :: "funct \<Rightarrow> funct" assume "\<And>F. f_context (g F) = f_context F"
  then show "obeys keeps_functors (upd_funct g)"
    unfolding upd_funct_def by (intro obeysI functors_upd) (simp add: same_functors_def cur_funct_def)
next
  fix f :: "pst \<Rightarrow> pst" assume "\<And>S. frame S (f S)"
  then show "obeys keeps_functors (upd f)"
    by (intro obeysI functors_upd) (simp add: same_functors_def frame_def)
next
  show "obeys keeps_functors out_of_fuel"
    unfolding out_of_fuel_def by (intro obeysI functors_upd) (simp add: same_functors_def)
next
  have l: "keeps_functors S (snd (run_state (lint f) S))" for S f
    by (rule same_functors_keeps [OF idle_lint functors_lint])
  show "obeys keeps_functors (lint (warning code p args))" "obeys keeps_functors (lint (warningAt code l' c args))"
    "obeys keeps_functors (lint (quit code p' args))" "obeys keeps_functors (lint fault)" for code p args l' c p'
    by (simp_all add: obeys_def l)
  show "obeys keeps_functors (alloc k)" for k
    by (intro obeysI same_functors_keeps) (simp_all add: alloc_def idle_def same_functors_def)
  show "obeys keeps_functors (peek_token i)" for i
    by (intro obeysI same_functors_keeps idle_peek) (simp add: peek_token_def functors_fill same_functors_refl)
next
  have n: "obeys keeps_functors (renaming h)" for h
    by (simp add: obeys_def renaming_def keeps_functors_def functors_grow_def idle_def functors_ok_def)
  then show "obeys keeps_functors (renaming h)" for h .
  show "obeys keeps_functors m \<Longrightarrow> obeys keeps_functors (nested m)" for m :: "nat option parser"
    using keeps_functors_trans keeps_functors_refl n by (rule nested_obeys)
  show "obeys keeps_functors (upd_lstate h)" for h by (rule functors_lstate)
qed (auto simp: obeys_def keeps_functors_refl functors_scope functors_advance intro: keeps_functors_trans)

text \<open>\<open>doFunction\<close> makes a functor, parses with it, and puts the old one back.\<close>

lemma functors_doFunction:
  assumes "parser_calls keeps_functors Rc"
  shows "obeys keeps_functors (doFunction Rc c opts)"
proof (rule obeysI)
  fix S :: pst
  let ?b = "ctx_has c ctx_preAsync"
  obtain o' i where options: "o' = option (l_state (p_lint S))" "i = ignored (l_state (p_lint S))" by blast
  define S1 where "S1 = snd (run_state (enter_function ?b opts) S)"
  define S2 where "S2 = snd (run_state (function_parts Rc (function_context ?b opts c) opts) S1)"
  define S3 where "S3 = snd (run_state (leave_function o' i opts) S2)"
  define S4 where "S4 = (if stopped S3 then S3 else S3\<lparr>p_funct := p_funct S\<rparr>)"
  define S5 where "S5 = snd (run_state (check_loop_function (p_functions S) (p_curr S1) opts) S4)"
  have enter: "fst (run_state (enter_function ?b opts) S) = (p_functions S, p_funct S)"
    "stopped S \<Longrightarrow> S1 = S" "\<not> stopped S \<Longrightarrow> p_functions S1 = Suc (p_functions S) \<and> p_funct S1 = p_functions S \<and>
      stopped S1 = stopped S \<and> f_context (p_functs S1 (p_functions S)) = Some (p_funct S) \<and>
      (\<forall>f. f \<noteq> p_functions S \<longrightarrow> p_functs S1 f = p_functs S f)"
    by (simp_all add: S1_def enter_function_def names_infer_def next_ref_def next_tok_def stopped_def Let_def)
  have 1: "functors_grow S S1"
    using enter(2,3) by (cases "stopped S") (auto simp: functors_grow_def idle_def functors_ok_def less_Suc_eq)
  have k: "keeps_functors S1 S2" "keeps_functors S2 S3" "keeps_functors S4 S5"
    using parser_calls.around_function [OF assms] functors.leave_obeys [OF functors_lstate]
    by (simp_all add: S2_def S3_def S5_def obeys_def)
  then have "functors_grow S1 S2" "functors_grow S2 S3" by (simp_all add: keeps_functors_def)
  then have 3: "functors_grow S S3" using functors_grow_trans 1 by blast
  have "keeps_functors S S4"
    using 3 by (auto simp: S4_def keeps_functors_def functors_grow_def idle_def functors_ok_def stopped_def)
  then have "keeps_functors S S5" using k(3) by (rule keeps_functors_trans)
  moreover have "snd (run_state (doFunction Rc c opts) S) = S5"
    using enter(1) by (simp add: doFunction_def lint_state_def curr_ref_def Let_def split_beta S5_def S4_def S3_def S2_def S1_def options)
  ultimately show "keeps_functors S (snd (run_state (doFunction Rc c opts) S))" by simp
qed

interpretation functors: parser_contract keeps_functors
  by unfold_locales (rule functors_doFunction)

end
