(* ===== verification/NamesKept.thy ===== *)
theory NamesKept
  imports ParserObjects
begin

text \<open>
  The name stack during a parse: what is parsed may replace the entry on its top, and an expression leaves
  the stack as it was.
\<close>

definition keeps_names :: "pst \<Rightarrow> pst \<Rightarrow> bool" where
  "keeps_names S S' \<longleftrightarrow> idle S S' \<and> (stopped S' \<or> renames (p_names S) (p_names S'))"

lemma renames_refl: "renames s s"
  by (auto simp: renames_def split: list.split)

lemma renames_trans: "renames a b \<Longrightarrow> renames b c \<Longrightarrow> renames a c"
  by (auto simp: renames_def split: list.splits)

lemma keeps_names_refl: "keeps_names S S"
  by (simp add: keeps_names_def idle_def renames_refl)

lemma keeps_names_trans: "keeps_names S S1 \<Longrightarrow> keeps_names S1 S2 \<Longrightarrow> keeps_names S S2"
  using renames_trans by (auto simp: keeps_names_def idle_def)

lemma same_functors_names: "idle S S' \<Longrightarrow> same_functors S S' \<Longrightarrow> keeps_names S S'"
  by (simp add: keeps_names_def same_functors_def renames_refl)

lemma names_upd: "(\<And>S. p_names (f S) = p_names S) \<Longrightarrow> obeys keeps_names (upd f)"
  by (simp add: obeys_def keeps_names_def idle_def renames_refl)

lemma names_lint: "obeys keeps_names (lint f)"
  by (rule obeysI, rule same_functors_names [OF idle_lint functors_lint])

lemma names_scope: "obeys keeps_names (scope_op e)"
proof -
  have "p_names (fold add_outer ns S) = p_names S" for ns S
    by (induction ns arbitrary: S) (simp_all add: add_outer_def)
  then show ?thesis unfolding scope_op_def by (intro names_upd) (simp add: Let_def)
qed

text \<open>What is parsed between a push and a pop leaves no trace.\<close>

lemma nested_names:
  assumes "obeys keeps_names m" "\<not> stopped (snd (run_state (nested m) S))"
  shows "p_names (snd (run_state (nested m) S)) = p_names S"
proof -
  obtain x S2 where r: "run_state m (snd (run_state names_push S)) = (x, S2)" by fastforce
  have k: "keeps_names (snd (run_state names_push S)) S2" using obeysD [OF assms(1)] r by (metis snd_conv)
  have e: "snd (run_state (nested m) S) = snd (run_state names_pop S2)" by (simp add: nested_def r split_beta)
  have "\<not> stopped S2" using assms(2) e by (auto simp: names_pop_def)
  then have "\<not> stopped S" using k by (auto simp: keeps_names_def idle_def names_push_def)
  then show ?thesis
    using k \<open>\<not> stopped S2\<close>
    by (auto simp: e keeps_names_def renames_def names_push_def names_pop_def ns_push_def ns_pop_def stopped_def)
qed

lemma nested_idle:
  assumes "obeys keeps_names m"
  shows "idle S (snd (run_state (nested m) S))"
  using obeysD [OF assms, of S] by (auto simp: idle_def nested_def names_push_def names_pop_def keeps_names_def split_beta)

interpretation naming: parser_frame keeps_names
proof unfold_locales
  show "obeys keeps_names (renaming h)" if "\<And>S. renames (p_names S) (h S)" for h
    using that by (simp add: obeys_def keeps_names_def renaming_def idle_def)
  show "obeys keeps_names (nested m)" if "obeys keeps_names m" for m
  proof (rule obeysI)
    fix S
    show "keeps_names S (snd (run_state (nested m) S))"
      using nested_names [OF that, of S] nested_idle [OF that, of S]
      by (cases "stopped (snd (run_state (nested m) S))") (simp_all add: keeps_names_def renames_refl)
  qed
  show "obeys keeps_names (upd f)" if "\<And>S. frame S (f S)" for f
    by (rule names_upd) (use that in \<open>simp add: frame_def\<close>)
  show "obeys keeps_names (upd f)" if "\<And>S. outside_functors S (f S)" for f
    by (rule names_upd) (use that in \<open>simp add: outside_functors_def\<close>)
  show "obeys keeps_names (upd_funct g)" "obeys keeps_names (upd_lstate k)" "obeys keeps_names out_of_fuel"
      "obeys keeps_names (upd_lstate (put_options os is))" for g k os "is"
    unfolding upd_funct_def upd_lstate_def out_of_fuel_def by (rule names_upd, simp)+
  show "obeys keeps_names (alloc k)" for k
    by (intro obeysI same_functors_names) (simp_all add: alloc_def idle_def same_functors_def)
  show "obeys keeps_names (peek_token i)" for i
    by (intro obeysI same_functors_names idle_peek) (simp add: peek_token_def functors_fill same_functors_refl)
  show "obeys keeps_names (advance_to expected related)" for expected related
    by (intro obeysI same_functors_names idle_advance same_functors_advance)
qed (auto simp: keeps_names_refl names_lint names_scope intro: keeps_names_trans)

end
