(* ===== verification/ParserTheorems.thy ===== *)
theory ParserTheorems
  imports ParserInvariants NamesKept RunTheorems
begin

text \<open>
  Properties of whole parses: for every source, every options and every fuel.
\<close>

section \<open>Results and options\<close>

lemma initial_fields [simp]:
  "p_lint (initial_pst re forin lx L) = L" "p_funct (initial_pst re forin lx L) = 0"
  "p_functions (initial_pst re forin lx L) = 1" "p_functs (initial_pst re forin lx L) = (\<lambda>_. global_functor)"
  "p_prev (initial_pst re forin lx L) = 0" "p_curr (initial_pst re forin lx L) = 0"
  "p_next (initial_pst re forin lx L) = 0" "p_look (initial_pst re forin lx L) = []"
  "p_fresh (initial_pst re forin lx L) = 1"
  by (simp_all add: initial_pst_def)

lemma parse_source_run:
  "parse_source n re forin o' g source L0 =
     run_parser n (initial_pst re forin (fst (start_run o' g source L0)) (snd (start_run o' g source L0)))"
  by (simp add: parse_source_def split_beta)

lemma nothing_ignored_at_first: "ignoredLines (l_state (set_up o' S0)) = (\<lambda>_. False)"
proof -
  define none where "none S \<longleftrightarrow> ignoredLines (l_state S) = (\<lambda>_. False)" for S :: linter
  have fold: "(\<And>x (S :: linter). none S \<Longrightarrow> none (f x S)) \<Longrightarrow> none S \<Longrightarrow> none (fold f xs S)"
    for f :: "'z \<Rightarrow> linter \<Rightarrow> linter" and xs S
    by (induction xs arbitrary: S) auto
  have pass: "none S \<Longrightarrow> none (pass_dict d S)" for d S
    by (auto simp: pass_dict_def pass_name_def none_def split: option.split intro!: fold [unfolded none_def])
  have opts: "none S \<Longrightarrow> none (fold pass_option xs S)" for xs S
    by (rule fold) (auto simp: pass_option_def none_def switch_warning_def set_named_def set_option_def
        split: prod.splits option.splits bool.splits)
  have def': "none S \<Longrightarrow> none (default_option n v S)" for n v S
    by (simp add: default_option_def none_def set_option_def)
  have "none (base_globals (new_results (c_scope o') (S0\<lparr>l_state := reset_state, l_thrown := None\<rparr>)))"
    by (simp add: none_def base_globals_def new_results_def add_globals_def reset_state_def split: option.split list.split)
  then have "none (pass_dict (c_globals o') (pass_dict (c_predef o')
      ((base_globals (new_results (c_scope o') (S0\<lparr>l_state := reset_state, l_thrown := None\<rparr>)))\<lparr>l_declared := []\<rparr>)))"
    by (intro pass) (simp add: none_def)
  from def' [OF def' [OF opts [OF this]]] show ?thesis
    by (simp add: set_up_def Let_def none_def)
qed

lemma start_run_silent: "silent (snd (start_run o' g source L0))"
proof -
  obtain lx st where lx: "new_Lexer (source_lines source) (l_state (set_up o' L0)) = (lx, st)" by fastforce
  define S where "S = (set_up o' L0)\<lparr>l_lines := lines lx, l_state := st\<rparr>"
  have "ignoredLines st = (\<lambda>_. False)" using new_Lexer_keeps [OF lx] nothing_ignored_at_first by simp
  then have "silent S" by (simp add: S_def silent_def on_ignored_def list_all_iff split: option.split)
  have check: "keeps_silence L (snd (checkOption k b ty t L))" for k b ty t L
    by (simp add: checkOption_def Let_def silence.P_warning silence.P_refl)
  have "keeps_silence L (check_names o' L)" for L
    unfolding check_names_def by (rule silence.P_fold) (simp add: split_beta check)
  moreover have "keeps_silence L (uncaught L)" for L
    by (simp add: uncaught_def silence.P_fault silence.P_refl)
  moreover have "keeps_silence L (unless_thrown applyOptions L)" for L
    by (rule silence.P_unless) (rule silence.P_applyOptions)
  moreover have "keeps_silence L (unless_thrown (add_globals g) L)" for L
    by (rule silence.P_unless) (rule silence.P_predefining)
  ultimately have "keeps_silence S (unless_thrown (add_globals g) (unless_thrown applyOptions (uncaught (check_names o' S))))"
    by (meson silence.P_trans)
  then show ?thesis
    using \<open>silent S\<close> by (simp add: start_run_def Let_def lx S_def keeps_silence_def)
qed

text \<open>
  C9: No result of a parse lies on a line that a comment ignored, wherever in the source the
  comment is and whatever is parsed before and after it.
\<close>

theorem ignored_lines_without_results:
  "list_all (\<lambda>r. \<not> on_ignored (l_state (p_lint (parse_source n re forin o' g source L0))) r)
     (l_errors (p_lint (parse_source n re forin o' g source L0)))"
proof -
  have "keeps_silence (p_lint (initial_pst re forin lx L)) (p_lint (run_parser n (initial_pst re forin lx L)))" for lx L
    by (rule silence.run_parser_obeys)
  with start_run_silent show ?thesis
    unfolding parse_source_run by (simp add: keeps_silence_def silent_def)
qed

text \<open>
  C13: A predefined name that was removed stays removed in a whole parse: no directive, option or
  declaration of the source brings it back.
\<close>

theorem removed_names_stay_out:
  assumes "\<forall>n. obj_has (l_blacklist (p_lint S)) n \<longrightarrow> \<not> obj_has (l_predefined (p_lint S)) n"
    and "obj_has (l_blacklist (p_lint S)) name"
  shows "obj_has (l_blacklist (p_lint (run_parser n S))) name \<and>
    \<not> obj_has (l_predefined (p_lint (run_parser n S))) name"
proof -
  have "keeps_removed (p_lint S) (p_lint (run_parser n S))" by (rule removed.run_parser_obeys)
  with assms show ?thesis by (simp add: keeps_removed_def honours_def)
qed

definition jquery_removed :: pst where
  "jquery_removed = initial_pst (\<lambda>_ _. None) (False, [])
     (fst (new_Lexer [js ''/*jshint jquery:true */'', js ''jQuery();''] reset_state))
     (demo_linter\<lparr>l_blacklist := [(js ''jQuery'', js ''jQuery'')]\<rparr>)"

theorem removed_names_stay_out_witness:
  "obj_has (l_blacklist (p_lint (run_parser 9 jquery_removed))) (js ''jQuery'') \<and>
    \<not> obj_has (l_predefined (p_lint (run_parser 9 jquery_removed))) (js ''jQuery'')"
  by (rule removed_names_stay_out) (simp_all add: jquery_removed_def demo_linter_def obj_has_def obj_get_def)

section \<open>The parser's objects\<close>

text \<open>
  C11: The tokens a parse holds are allocated objects, and no token is handed out twice: the next one
  and those read ahead are different.
\<close>

theorem tokens_allocated:
  fixes n re forin o' g source L0
  defines "S \<equiv> parse_source n re forin o' g source L0"
  shows "p_prev S < p_fresh S \<and> p_curr S < p_fresh S \<and> (stopped S \<or> p_next S < p_fresh S) \<and>
     list_all (\<lambda>t. t < p_fresh S) (p_look S) \<and> distinct (p_next S # p_look S)"
proof -
  have "stream_ok (initial_pst re forin lx L)" for lx L by (simp add: stream_ok_def)
  then have "stream_ok (run_parser n (initial_pst re forin lx L))" for lx L
    using stream.run_parser_obeys by (simp add: keeps_stream_def)
  then show ?thesis unfolding S_def parse_source_run stream_ok_def by blast
qed

text \<open>The walks up the contexts.\<close>

lemma walks_end:
  assumes "functors_ok S" "f < p_functions S" "f < k"
  shows "supportsSuper k isCall S f \<noteq> None \<and> target_in_function k S f \<noteq> None"
  using assms(2-)
proof (induction f arbitrary: k rule: less_induct)
  case (less f)
  obtain k' where k: "k = Suc k'" using less.prems by (cases k) auto
  have "c < f" if "f_context (p_functs S f) = Some c" for c
    using assms(1) less.prems(1) that by (cases "f = 0") (auto simp: functors_ok_def)
  then have "supportsSuper k' isCall S c \<noteq> None \<and> target_in_function k' S c \<noteq> None"
    if "f_context (p_functs S f) = Some c" for c
    using less.IH [of c k'] less.prems that by (simp add: k)
  then show ?case by (auto simp: k Let_def ex_bool_eq split: option.split)
qed

lemma parse_source_functors:
  "functors_ok (parse_source n re forin o' g source L0) \<and>
    (stopped (parse_source n re forin o' g source L0) \<or> p_funct (parse_source n re forin o' g source L0) = 0)"
proof -
  have "keeps_functors (initial_pst re forin lx L) (run_parser n (initial_pst re forin lx L))"
    and "functors_ok (initial_pst re forin lx L)" for lx L
    by (rule functors.run_parser_obeys) (auto simp: functors_ok_def global_functor_def functor_of_def)
  then show ?thesis
    unfolding parse_source_run by (metis keeps_functors_def functors_grow_def initial_fields(2))
qed

text \<open>
  C10: The functors of a parse form a tree under the global one: every function's context is a functor
  made before it, and a parse that is not given up ends in the global function.
\<close>

theorem functions_form_a_tree:
  fixes n re forin o' g source L0
  defines "S \<equiv> parse_source n re forin o' g source L0"
  shows "f_context (p_functs S 0) = None \<and>
    list_all (\<lambda>f. \<exists>c. f_context (p_functs S f) = Some c \<and> c < f) [1..<p_functions S] \<and>
    (stopped S \<or> p_funct S = 0)"
  using parse_source_functors [of n re forin o' g source L0, folded S_def]
  by (auto simp: functors_ok_def list_all_iff)

text \<open>
  C12: The walks up the contexts of a function end: from every functor a parse has made, \<open>supportsSuper\<close> and
  the test for \<open>new.target\<close> have an answer within the fuel the parser gives them, one step for each functor.
\<close>

theorem context_walks_end:
  fixes n re forin o' g source L0
  defines "S \<equiv> parse_source n re forin o' g source L0"
  shows "list_all (\<lambda>f. (\<exists>b. supportsSuper (Suc (p_functions S)) isCall S f = Some b) \<and>
      (\<exists>b. target_in_function (Suc (p_functions S)) S f = Some b)) [0..<p_functions S]"
  using walks_end [of S _ "Suc (p_functions S)" isCall]
    parse_source_functors [of n re forin o' g source L0, folded S_def]
  by (simp add: list_all_iff)

section \<open>The scope manager during a parse\<close>



section \<open>Names that are inferred\<close>

text \<open>
  C30: An expression leaves the stack of names as it found it, whatever is parsed in it, unless the run is
  given up: the name inferred for a function is not taken from an expression that was parsed before.
\<close>

theorem expression_keeps_names:
  fixes N n c p S
  defines "S' \<equiv> snd (run_state (expression (parser_recs N n) c p) S)"
  shows "stopped S' \<or> p_names S' = p_names S"
proof -
  have "obeys keeps_names (expression_body (parser_recs N n) c p)"
    by (rule parser_recursive.body_obeys [OF naming.recs_obey])
  then show ?thesis using nested_names unfolding S'_def expression_parts by blast
qed

end
