(* ===== verification/ReadAhead.thy ===== *)
theory ReadAhead
  imports ParseRun
begin

text \<open>
  \<open>advance\<close> over tokens that have been read ahead and of which nothing is to be reported: what it
  changes, for the proofs about whole phrases of such tokens.
\<close>

section \<open>Steps nobody hears\<close>

text \<open>
  Nothing is reported, thrown or switched: of the linter only what it is told about the last and the
  next token may change.
\<close>

definition unheard :: "pst \<Rightarrow> pst \<Rightarrow> bool" where
  "unheard S S' \<longleftrightarrow>
     l_errors (p_lint S') = l_errors (p_lint S) \<and> l_thrown (p_lint S') = l_thrown (p_lint S) \<and>
     p_stuck S' = p_stuck S \<and> l_mgr (p_lint S') = l_mgr (p_lint S) \<and>
     (l_state (p_lint S'))\<lparr>curr_id := []\<rparr> = (l_state (p_lint S))\<lparr>curr_id := []\<rparr>"

lemma unheard_refl [simp]: "unheard S S"
  by (simp add: unheard_def)

lemma unheard_trans: "unheard S S1 \<Longrightarrow> unheard S1 S2 \<Longrightarrow> unheard S S2"
  by (simp add: unheard_def)

lemma unheard_stopped: "unheard S S' \<Longrightarrow> stopped S' = stopped S"
  by (simp add: unheard_def stopped_def)

lemma unheard_option:
  assumes "unheard S S'"
  shows "option (l_state (p_lint S')) = option (l_state (p_lint S))"
proof -
  have "option ((l_state (p_lint S'))\<lparr>curr_id := []\<rparr>) = option ((l_state (p_lint S))\<lparr>curr_id := []\<rparr>)"
    using assms by (simp add: unheard_def)
  then show ?thesis by simp
qed

text \<open>What else stays: the tokens, the tokens still to come, and where the parser is.\<close>

definition same_place :: "pst \<Rightarrow> pst \<Rightarrow> bool" where
  "same_place S S' \<longleftrightarrow> unheard S S' \<and> p_prev S' = p_prev S \<and> p_curr S' = p_curr S \<and>
     p_next S' = p_next S \<and> p_look S' = p_look S"

lemma same_place_refl [simp]: "same_place S S"
  by (simp add: same_place_def)

lemma same_place_trans: "same_place S S1 \<Longrightarrow> same_place S1 S2 \<Longrightarrow> same_place S S2"
  by (auto simp: same_place_def intro: unheard_trans)

section \<open>Calm tokens\<close>

definition calm :: "tok \<Rightarrow> bool" where
  "calm k \<longleftrightarrow> k_checks k = [] \<and> k_special k = None \<and> \<not> has_id ''(endline)'' k"

definition moved :: "pst \<Rightarrow> nat \<Rightarrow> nat list \<Rightarrow> pst \<Rightarrow> bool" where
  "moved S t r S' \<longleftrightarrow> unheard S S' \<and> p_store S' = p_store S \<and> p_prev S' = p_curr S \<and>
     p_curr S' = p_next S \<and> p_next S' = t \<and> p_look S' = r \<and> p_lexer S' = p_lexer S"

lemma calm_checks:
  assumes "\<not> stopped S" "k_checks (p_store S t) = []"
  shows "snd (run_state (run_token_checks t) S) = S\<lparr>p_lint := synced S\<rparr>"
proof -
  have same: "k\<lparr>k_checks := []\<rparr> = k" if "k_checks k = []" for k :: tok
    using that by (cases k) simp
  have "(p_store S)(t := (p_store S t)\<lparr>k_checks := []\<rparr>) = p_store S"
    using same [OF assms(2)] by simp
  then show ?thesis
    using assms by (simp add: run_token_checks_def tok_at_def lint_def upd_token_def run_checks_def lex_listeners_def
        stopped_def synced_def)
qed

lemma unheard_synced: "unheard S (S\<lparr>p_lint := synced S\<rparr>)"
  by (simp add: unheard_def synced_def)

lemma calm_loop:
  assumes "\<not> stopped S" "p_look S = t # r" "calm (p_store S t)"
  shows "unheard S (advance_loop S) \<and> p_store (advance_loop S) = p_store S \<and> p_prev (advance_loop S) = p_prev S \<and>
    p_curr (advance_loop S) = p_curr S \<and> p_next (advance_loop S) = t \<and> p_look (advance_loop S) = r \<and>
    p_lexer (advance_loop S) = p_lexer S"
proof -
  define S2 where "S2 = S\<lparr>p_look := r, p_next := t\<rparr>"
  have "\<not> stopped S2" "k_checks (p_store S2 t) = []" using assms by (simp_all add: S2_def stopped_def calm_def)
  note checks = calm_checks [OF this]
  have loop: "advance_loop S = (if has_id ''(end)'' (p_store S t) \<or> has_id ''(error)'' (p_store S t) then S2
      else S2\<lparr>p_lint := synced S2\<rparr>)"
    using assms checks
    by (subst advance_loop.simps) (simp add: shift_token_def stopped_def Let_def calm_def S2_def)
  have "unheard S S2" by (simp add: unheard_def S2_def)
  moreover have "unheard S (S2\<lparr>p_lint := synced S2\<rparr>)"
    using \<open>unheard S S2\<close> unheard_synced by (rule unheard_trans)
  ultimately show ?thesis unfolding loop by (simp add: S2_def)
qed

lemma advance_calm:
  assumes "\<not> stopped S" "p_look S = t # r" "calm (p_store S t)"
    and "case expected of None \<Rightarrow> True | Some s \<Rightarrow> has_id s (p_store S (p_next S))"
  obtains S' where "run_state (advance_to expected related) S = ((), S')" "moved S t r S'"
proof -
  let ?S = "S\<lparr>p_prev := p_curr S, p_curr := p_next S\<rparr>"
  have "run_state (advance_to expected related) S = ((), advance_loop ?S)"
    using assms(1,4) by (simp add: advance_to_def next_tok_def split: option.splits)
  moreover have "moved S t r (advance_loop ?S)"
    using calm_loop [of ?S t r] assms(1-3) by (simp add: moved_def stopped_def unheard_def)
  ultimately show ?thesis by (rule that)
qed

lemma moved_stopped: "moved S t r S' \<Longrightarrow> stopped S' = stopped S"
  by (simp add: moved_def unheard_stopped)

end
