(* ===== verification/PrattTrees.thy ===== *)
theory PrattTrees
  imports ReadAhead
begin

text \<open>
  The Pratt parser reads infix expressions as their grammar says: for numbers and binary operators,
  written in the order of a tree that respects the binding powers, \<open>expression\<close> gives that tree.
\<close>

section \<open>Operators and trees\<close>

text \<open>The binary operators without conditions on their operands, with their powers to the left and to the right.\<close>

definition operator_powers :: "(string \<times> int \<times> int) list" where
  "operator_powers =
     [(''||'', 40, 40), (''&&'', 50, 50), (''|'', 70, 70), (''^'', 80, 80), (''&'', 90, 90),
      (''<'', 100, 100), (''>'', 100, 100), (''<='', 100, 100), (''>='', 100, 100),
      (''<<'', 120, 120), (''>>'', 120, 120), (''>>>'', 120, 120), (''+'', 130, 130), (''-'', 130, 130),
      (''*'', 140, 140), (''/'', 140, 140), (''%'', 140, 140), (''**'', 150, 140)]"

definition left_power :: "string \<Rightarrow> int" where
  "left_power p = (case map_of operator_powers p of Some (a, b) \<Rightarrow> a | None \<Rightarrow> 0)"

definition right_power :: "string \<Rightarrow> int" where
  "right_power p = (case map_of operator_powers p of Some (a, b) \<Rightarrow> b | None \<Rightarrow> 0)"

text \<open>Whether the options let the operator pass without a warning.\<close>

definition permitted :: "lstate \<Rightarrow> string \<Rightarrow> bool" where
  "permitted st p =
     (if List.member [''|'', ''^'', ''&'', ''<<'', ''>>'', ''>>>''] p then \<not> opt_on st ''bitwise''
      else if p = ''**'' then inES7 st else True)"

text \<open>A tree over numbered tokens, and the tokens in the order of the source.\<close>

datatype tree = Leaf nat | Bin tree string nat tree

primrec root :: "tree \<Rightarrow> nat" where
  "root (Leaf t) = t"
| "root (Bin a p t b) = t"

primrec flat :: "tree \<Rightarrow> nat list" where
  "flat (Leaf t) = [t]"
| "flat (Bin a p t b) = flat a @ t # flat b"

text \<open>
  The grammar: an operator binds its operands when its power to the left is above the power \<open>q\<close> of
  what is before it, and when no operator at the right end of its left operand would take it away.
\<close>

primrec closes :: "int \<Rightarrow> tree \<Rightarrow> bool" where
  "closes q (Leaf t) = True"
| "closes q (Bin a p t b) = (q \<le> right_power p \<and> closes q b)"

primrec fits :: "int \<Rightarrow> tree \<Rightarrow> bool" where
  "fits q (Leaf t) = True"
| "fits q (Bin a p t b) =
     (q < left_power p \<and> fits q a \<and> closes (left_power p) a \<and> fits (right_power p) b)"

text \<open>The tokens as the lexer makes them, on the line \<open>l\<close>.\<close>

definition token_of :: "string \<Rightarrow> nat \<Rightarrow> tok \<Rightarrow> bool" where
  "token_of p l k \<longleftrightarrow> k_proto k = p \<and> k_sym k = symbol_of p \<and> k_checks k = [] \<and> k_special k = None \<and>
     k_line k = Some l \<and> k_startLine k = None \<and> \<not> k_identifier k \<and> \<not> k_unary k \<and> k_type k \<noteq> ''(identifier)''"

primrec written :: "nat \<Rightarrow> lstate \<Rightarrow> (nat \<Rightarrow> tok) \<Rightarrow> tree \<Rightarrow> bool" where
  "written l st s (Leaf t) = token_of ''(number)'' l (s t)"
| "written l st s (Bin a p t b) =
     (List.member (map fst operator_powers) p \<and> permitted st p \<and> token_of p l (s t) \<and>
      written l st s a \<and> written l st s b)"

text \<open>The tree that the fields \<open>left\<close> and \<open>right\<close> of the tokens make.\<close>

primrec holds :: "(nat \<Rightarrow> tok) \<Rightarrow> tree \<Rightarrow> bool" where
  "holds s (Leaf t) = True"
| "holds s (Bin a p t b) =
     (k_left (s t) = VTok (root a) \<and> k_right (s t) = VTok (root b) \<and> holds s a \<and> holds s b)"

section \<open>What the parse writes\<close>

definition with_left :: "nat \<Rightarrow> nat \<Rightarrow> (nat \<Rightarrow> tok) \<Rightarrow> nat \<Rightarrow> tok" where
  "with_left t l s = s(t := (s t)\<lparr>k_left := VTok l\<rparr>)"

definition with_right :: "nat \<Rightarrow> nat \<Rightarrow> (nat \<Rightarrow> tok) \<Rightarrow> nat \<Rightarrow> tok" where
  "with_right t r s = s(t := (s t)\<lparr>k_right := VTok r\<rparr>)"

primrec link :: "tree \<Rightarrow> (nat \<Rightarrow> tok) \<Rightarrow> nat \<Rightarrow> tok" where
  "link (Leaf t) s = s"
| "link (Bin a p t b) s = with_right t (root b) (link b (with_left t (root a) (link a s)))"

lemma with_fields [simp]:
  "k_proto (with_left t l s x) = k_proto (s x)" "k_sym (with_left t l s x) = k_sym (s x)"
  "k_checks (with_left t l s x) = k_checks (s x)" "k_special (with_left t l s x) = k_special (s x)"
  "k_line (with_left t l s x) = k_line (s x)" "k_startLine (with_left t l s x) = k_startLine (s x)"
  "k_identifier (with_left t l s x) = k_identifier (s x)" "k_unary (with_left t l s x) = k_unary (s x)"
  "k_type (with_left t l s x) = k_type (s x)"
  "k_proto (with_right t r s x) = k_proto (s x)" "k_sym (with_right t r s x) = k_sym (s x)"
  "k_checks (with_right t r s x) = k_checks (s x)" "k_special (with_right t r s x) = k_special (s x)"
  "k_line (with_right t r s x) = k_line (s x)" "k_startLine (with_right t r s x) = k_startLine (s x)"
  "k_identifier (with_right t r s x) = k_identifier (s x)" "k_unary (with_right t r s x) = k_unary (s x)"
  "k_type (with_right t r s x) = k_type (s x)"
  by (simp_all add: with_left_def with_right_def)

lemma link_fields [simp]:
  "k_proto (link e s x) = k_proto (s x)" "k_sym (link e s x) = k_sym (s x)"
  "k_checks (link e s x) = k_checks (s x)" "k_special (link e s x) = k_special (s x)"
  "k_line (link e s x) = k_line (s x)" "k_startLine (link e s x) = k_startLine (s x)"
  "k_identifier (link e s x) = k_identifier (s x)" "k_unary (link e s x) = k_unary (s x)"
  "k_type (link e s x) = k_type (s x)"
  by (induction e arbitrary: s) simp_all

lemma token_of_link [simp]:
  "token_of p l (link e s x) = token_of p l (s x)" "token_of p l (with_left t a s x) = token_of p l (s x)"
  "token_of p l (with_right t a s x) = token_of p l (s x)"
  by (simp_all add: token_of_def)

lemma written_link [simp]:
  "written l st (link e s) e' = written l st s e'" "written l st (with_left t a s) e' = written l st s e'"
  "written l st (with_right t a s) e' = written l st s e'"
  by (induction e') simp_all

lemma calm_link [simp]:
  "calm (link e s x) = calm (s x)" "calm (with_left t a s x) = calm (s x)" "calm (with_right t a s x) = calm (s x)"
  by (simp_all add: calm_def has_id_def)

lemma flat_not_Nil [simp]: "flat e \<noteq> []"
  by (cases e) simp_all

lemma root_flat: "root e \<in> set (flat e)"
  by (cases e) simp_all

lemma with_ends [simp]:
  "k_left (with_left t l s t) = VTok l" "k_left (with_right t r s x) = k_left (s x)"
  "k_right (with_right t r s t) = VTok r"
  by (simp_all add: with_left_def with_right_def)

text \<open>A parse writes to the operators of its tree only.\<close>

lemma link_outside: "x \<notin> set (flat e) \<Longrightarrow> link e s x = s x"
  by (induction e arbitrary: s) (simp_all add: with_left_def with_right_def)

lemma holds_cong: "(\<And>x. x \<in> set (flat e) \<Longrightarrow> s' x = s x) \<Longrightarrow> holds s' e = holds s e"
proof (induction e)
  case (Bin a p t b)
  then show ?case by simp
qed simp

lemma link_holds: "distinct (flat e) \<Longrightarrow> holds (link e s) e"
proof (induction e arbitrary: s)
  case (Bin a p t b)
  define s1 where "s1 = with_left t (root a) (link a s)"
  have tree: "holds (link a s) a" "holds (link b s1) b" using Bin by simp_all
  have a: "link b s1 x = link a s x" if "x \<in> set (flat a)" for x
  proof -
    have "x \<notin> set (flat b)" "x \<noteq> t" using that Bin.prems by auto
    then show ?thesis using link_outside [of x b s1] by (simp add: s1_def with_left_def)
  qed
  have "link b s1 t = s1 t" using Bin.prems by (intro link_outside) simp
  then have "k_left (link b s1 t) = VTok (root a)" by (simp add: s1_def with_left_def)
  moreover have "holds (with_right t (root b) (link b s1)) a"
    using tree(1) by (subst holds_cong [of a _ "link a s"]) (use Bin.prems a in \<open>auto simp: with_right_def\<close>)
  moreover have "holds (with_right t (root b) (link b s1)) b"
    using tree(2) by (subst holds_cong [of b _ "link b s1"]) (use Bin.prems in \<open>auto simp: with_right_def\<close>)
  ultimately show ?case by (simp add: s1_def)
qed simp

section \<open>Denotations of operators\<close>

text \<open>The symbols of the operators and of numbers, as the table declares them.\<close>

definition operator_entry :: "string \<Rightarrow> symbol \<Rightarrow> bool" where
  "operator_entry p x \<longleftrightarrow> s_id x = Some p \<and> s_lbp x = Some (left_power p) \<and> s_rbp x = Some (right_power p) \<and> s_led x"

abbreviation ops :: "string list" where
  "ops \<equiv> map fst operator_powers"

lemma operator_entries: "list_all (\<lambda>p. operator_entry p (symbol_of p)) ops"
  by (simp only: operator_powers_def list.map fst_conv list.pred_inject)
    (simp add: operator_powers_def symbol_of_def all_decls_eval field_defs operator_entry_def left_power_def right_power_def)

lemma number_entry:
  "s_id (symbol_of ''(number)'') = Some ''(number)''" "s_nud (symbol_of ''(number)'')"
  by (simp_all add: symbol_of_def all_decls_eval field_defs)

lemma operator_symbol:
  assumes "List.member ops p"
  shows "s_id (symbol_of p) = Some p" "s_lbp (symbol_of p) = Some (left_power p)"
    "s_rbp (symbol_of p) = Some (right_power p)" "s_led (symbol_of p)"
  using operator_entries assms by (auto simp: list_all_iff operator_entry_def)

text \<open>What the denotations ask of an operand: it is a number or an operator.\<close>

definition operand_token :: "nat \<Rightarrow> tok \<Rightarrow> bool" where
  "operand_token l k \<longleftrightarrow> token_of ''(number)'' l k \<or> (list_ex (\<lambda>p. token_of p l k) ops)"

lemma operand_token_link [simp]:
  "operand_token l (link e s x) = operand_token l (s x)" "operand_token l (with_left t a s x) = operand_token l (s x)"
  "operand_token l (with_right t a s x) = operand_token l (s x)"
  by (simp_all add: operand_token_def)

lemma written_root: "written l st s e \<Longrightarrow> operand_token l (s (root e))"
  by (cases e) (auto simp: operand_token_def list_ex_iff)

lemma written_first: "written l st s e \<Longrightarrow> token_of ''(number)'' l (s (hd (flat e)))"
  by (induction e) (auto simp: hd_append)

lemma written_last: "written l st s e \<Longrightarrow> operand_token l (s (last (flat e)))"
  by (induction e) (auto simp: operand_token_def)

lemma operator_ids:
  "p \<in> set ops \<Longrightarrow> p \<notin> {''(string)'', ''!'', ''yield'', ''(endline)'', ''('', ''in'', '';'', ''}'', '':'', ''.''}"
  by (auto simp: operator_powers_def)

lemma operand_facts:
  assumes "operand_token l k"
  shows "k_line k = Some l" "k_startLine k = None" "\<not> k_identifier k" "\<not> k_unary k" "k_type k \<noteq> ''(identifier)''"
    "\<not> has_id ''(string)'' k" "\<not> has_id ''!'' k" "calm k" "\<not> has_id ''yield'' k"
proof -
  obtain p where p: "token_of p l k" "p = ''(number)'' \<or> p \<in> set ops"
    using assms by (auto simp: operand_token_def list_ex_iff)
  then have "k_id k = Some p"
    using operator_symbol(1) [of p] number_entry by (auto simp: token_of_def List.member_iff)
  with p show "k_line k = Some l" "k_startLine k = None" "\<not> k_identifier k" "\<not> k_unary k" "k_type k \<noteq> ''(identifier)''"
    "\<not> has_id ''(string)'' k" "\<not> has_id ''!'' k" "calm k" "\<not> has_id ''yield'' k"
    using operator_ids [of p] by (auto simp: token_of_def has_id_def calm_def)
qed

end
