(* ===== verification/PrattLeds.thy ===== *)
theory PrattLeds
  imports PrattTrees
begin

text \<open>
  The denotations of the operators without conditions: each gives its token the operand on its left,
  parses one on its right with its own power, and reports nothing about numbers and such operators.
\<close>

section \<open>The denotation of one operator\<close>

text \<open>
  Before the right operand is read, the operator gets its left one; after it, its right one. Nothing
  else that is read later is touched.
\<close>

definition begun :: "pst \<Rightarrow> nat \<Rightarrow> nat \<Rightarrow> pst \<Rightarrow> bool" where
  "begun S t x S' \<longleftrightarrow> same_place S S' \<and> p_store S' = with_left t x (p_store S)"

definition ended :: "pst \<Rightarrow> nat \<Rightarrow> nat \<Rightarrow> pst \<Rightarrow> bool" where
  "ended S t y S' \<longleftrightarrow> same_place S S' \<and> p_store S' = with_right t y (p_store S)"

text \<open>The situation of an operator \<open>p\<close> that was just consumed, between \<open>x\<close> and a number.\<close>

definition at_operator :: "nat \<Rightarrow> string \<Rightarrow> nat \<Rightarrow> nat \<Rightarrow> pst \<Rightarrow> bool" where
  "at_operator l p t x S \<longleftrightarrow> \<not> stopped S \<and> List.member ops p \<and> permitted (l_state (p_lint S)) p \<and>
     p_curr S = t \<and> token_of p l (p_store S t) \<and> operand_token l (p_store S x) \<and>
     operand_token l (p_store S (p_prev S)) \<and> token_of ''(number)'' l (p_store S (p_next S))"

definition operands_read :: "nat \<Rightarrow> string \<Rightarrow> nat \<Rightarrow> nat \<Rightarrow> nat \<Rightarrow> pst \<Rightarrow> bool" where
  "operands_read l p t x y S \<longleftrightarrow> \<not> stopped S \<and> token_of p l (p_store S t) \<and> operand_token l (p_store S x) \<and>
     operand_token l (p_store S y)"

text \<open>An operator does its part when, whatever the parse of the right operand does, the tree grows.\<close>

definition links :: "(recs \<Rightarrow> nat \<Rightarrow> nat \<Rightarrow> nat \<Rightarrow> nat option parser) \<Rightarrow> string \<Rightarrow> bool" where
  "links m p \<longleftrightarrow> (\<forall>R c l t x S. at_operator l p t x S \<longrightarrow>
     (\<exists>S1. begun S t x S1 \<and> (\<forall>y S2. run_state (r_expr R c (right_power p)) S1 = (Some y, S2) \<longrightarrow>
        operands_read l p t x y S2 \<longrightarrow> (\<exists>S3. run_state (m R c t x) S = (Some t, S3) \<and> ended S2 t y S3))))"

lemma linksI:
  assumes "\<And>R c l t x S. at_operator l p t x S \<Longrightarrow>
     \<exists>S1. begun S t x S1 \<and> (\<forall>y S2. run_state (r_expr R c (right_power p)) S1 = (Some y, S2) \<longrightarrow>
        operands_read l p t x y S2 \<longrightarrow> (\<exists>S3. run_state (m R c t x) S = (Some t, S3) \<and> ended S2 t y S3))"
  shows "links m p"
  using assms by (simp add: links_def)

abbreviation put_left :: "nat \<Rightarrow> nat \<Rightarrow> pst \<Rightarrow> pst" where
  "put_left t x S \<equiv> S\<lparr>p_store := with_left t x (p_store S)\<rparr>"

abbreviation put_right :: "nat \<Rightarrow> nat \<Rightarrow> pst \<Rightarrow> pst" where
  "put_right t y S \<equiv> S\<lparr>p_store := with_right t y (p_store S)\<rparr>"

lemma put_same [simp]: "same_place S (put_left t x S)" "same_place S (put_right t y S)"
  by (simp_all add: same_place_def unheard_def)

lemma begun_put: "same_place S S0 \<Longrightarrow> p_store S0 = p_store S \<Longrightarrow> begun S t x (put_left t x S0)"
  using same_place_trans [OF _ put_same(1), of S S0 t x] by (simp add: begun_def)

lemma ended_put: "ended S t y (put_right t y S)"
  by (simp add: ended_def)

lemma set_left_run: "\<not> stopped S \<Longrightarrow> run_state (set_left t x) S = ((), put_left t x S)"
  by (simp add: set_left_def upd_token_def with_left_def)

lemma set_right_run: "\<not> stopped S \<Longrightarrow> run_state (set_right t (Some y)) S = ((), put_right t y S)"
  by (simp add: set_right_def upd_token_def with_right_def val_of_def)

lemma binary_led_run:
  assumes "\<not> stopped S" "run_state (r_expr R c q) (put_left t x S) = (Some y, S2)" "\<not> stopped S2"
  shows "run_state (binary_led R c q t x) S = (Some t, put_right t y S2)"
  using assms by (simp add: binary_led_def set_left_run set_right_run)

text \<open>Most denotations are the plain one, after something that leaves all this alone.\<close>

lemma binary_links:
  assumes "\<And>R c l t x S. at_operator l p t x S \<Longrightarrow>
     \<exists>S0. run_state (m R c t x) S = run_state (binary_led R c (right_power p) t x) S0 \<and>
       same_place S S0 \<and> p_store S0 = p_store S"
  shows "links m p"
proof (rule linksI)
  fix R c l t x S
  assume at: "at_operator l p t x S"
  then obtain S0 where S0: "run_state (m R c t x) S = run_state (binary_led R c (right_power p) t x) S0"
      "same_place S S0" "p_store S0 = p_store S"
    using assms by blast
  have "\<not> stopped S0" using S0(2) at unheard_stopped by (auto simp: same_place_def at_operator_def)
  then have "run_state (m R c t x) S = (Some t, put_right t y S2)"
    if "run_state (r_expr R c (right_power p)) (put_left t x S0) = (Some y, S2)" "operands_read l p t x y S2" for y S2
    using that binary_led_run unfolding S0(1) by (simp add: operands_read_def)
  then show "\<exists>S1. begun S t x S1 \<and> (\<forall>y S2. run_state (r_expr R c (right_power p)) S1 = (Some y, S2) \<longrightarrow>
      operands_read l p t x y S2 \<longrightarrow> (\<exists>S3. run_state (m R c t x) S = (Some t, S3) \<and> ended S2 t y S3))"
    using begun_put [OF S0(2,3)] ended_put by blast
qed

lemma at_no_break:
  assumes "at_operator l p t x S"
  shows "run_state (infix_start False) S = ((), S)" "run_state no_break_before S = ((), S)"
  using assms operand_facts [of l "p_store S (p_prev S)"]
  by (auto simp: infix_start_def no_break_before_def nobreaknonadjacent_def prev_tok_def curr_ref_def tok_at_def
      opt_def lint_state_def sameLine_def at_operator_def token_of_def provided_def)

lemma same_links:
  assumes "\<And>R c l t x S. at_operator l p t x S \<Longrightarrow>
     run_state (m R c t x) S = run_state (binary_led R c (right_power p) t x) S"
  shows "links m p"
  using assms by (intro binary_links exI conjI) simp_all

lemma plain_links:
  assumes "right_power p = q"
  shows "links (\<lambda>R c. plain_led R c q) p"
  using at_no_break(1) by (intro same_links) (simp add: plain_led_def assms)

lemma bitwise_links:
  assumes "right_power p = q" "List.member [''|'', ''^'', ''&'', ''<<'', ''>>'', ''>>>''] p"
  shows "links (\<lambda>R c. bitwise_led R c q) p"
proof (rule same_links)
  fix R c l t x S
  assume "at_operator l p t x S"
  then have "\<not> opt_on (l_state (p_lint S)) ''bitwise''" using assms(2) by (simp add: at_operator_def permitted_def)
  then show "run_state (bitwise_led R c q t x) S = run_state (binary_led R c (right_power p) t x) S"
    by (simp add: bitwise_led_def opt_def lint_state_def tok_at_def assms(1))
qed

lemma logical_links:
  assumes "right_power p = q"
  shows "links (\<lambda>R c. logical_led R c q) p"
proof (rule binary_links)
  fix R c l t x S
  assume at: "at_operator l p t x S"
  define S0 where "S0 = snd (run_state increaseComplexityCount S)"
  have "run_state (logical_led R c q t x) S = run_state (binary_led R c (right_power p) t x) S0"
    using assms by (simp add: logical_led_def at_no_break [OF at] S0_def increaseComplexityCount_def upd_funct_def)
  moreover have "same_place S S0" "p_store S0 = p_store S"
    by (simp_all add: S0_def increaseComplexityCount_def upd_funct_def same_place_def unheard_def)
  ultimately show "\<exists>S0. run_state (logical_led R c q t x) S = run_state (binary_led R c (right_power p) t x) S0 \<and>
      same_place S S0 \<and> p_store S0 = p_store S" by blast
qed

lemma power_links: "links power_led ''**''"
proof (rule same_links)
  fix R c l t x S
  assume at: "at_operator l ''**'' t x S"
  then have "\<not> beginsUnaryExpression (p_store S x)" "inES7 (l_state (p_lint S))" "k_rbp (p_store S t) = Some (right_power ''**'')"
    using operand_facts(4) [of l "p_store S x"] operator_symbol(3) [of "''**''"]
    by (simp_all add: at_operator_def permitted_def beginsUnaryExpression_def token_of_def)
  then show "run_state (power_led R c t x) S = run_state (binary_led R c (right_power ''**'') t x) S"
    by (simp add: power_led_def at_no_break [OF at] needs_def lint_state_def tok_at_def)
qed

lemma has_id_with [simp]:
  "has_id p (with_left t l s x) = has_id p (s x)" "has_id p (with_right t l s x) = has_id p (s x)"
  by (simp_all add: has_id_def)

text \<open>The arithmetic signs look at the token that follows, and \<open>+\<close> at its operands.\<close>

lemma number_no_sign:
  "token_of ''(number)'' l k \<Longrightarrow> \<not> id_in [''+'', ''++''] k \<and> \<not> id_in [''-'', ''--''] k"
  by (simp add: token_of_def id_in_def number_entry)

lemma minus_links: "links minus_led ''-''"
proof (rule linksI)
  fix R c l t x S
  assume at: "at_operator l ''-'' t x S"
  then have "run_state (minus_led R c t x) S = (Some t, put_right t y S2)"
    if "run_state (r_expr R c (right_power ''-'')) (put_left t x S) = (Some y, S2)" "operands_read l ''-'' t x y S2" for y S2
    using that number_no_sign [of l "p_store S (p_next S)"]
    by (simp add: minus_led_def at_no_break [OF at] next_tok_def at_operator_def set_left_run set_right_run
        right_power_def operator_powers_def operands_read_def)
  then show "\<exists>S1. begun S t x S1 \<and> (\<forall>y S2. run_state (r_expr R c (right_power ''-'')) S1 = (Some y, S2) \<longrightarrow>
      operands_read l ''-'' t x y S2 \<longrightarrow> (\<exists>S3. run_state (minus_led R c t x) S = (Some t, S3) \<and> ended S2 t y S3))"
    using begun_put [of S S t x] ended_put by auto
qed

lemma plus_links: "links plus_led ''+''"
proof (rule linksI)
  fix R c l t x S
  assume at: "at_operator l ''+'' t x S"
  then have "run_state (plus_led R c t x) S = (Some t, put_right t y S2)"
    if "run_state (r_expr R c (right_power ''+'')) (put_left t x S) = (Some y, S2)" "operands_read l ''+'' t x y S2" for y S2
    using that number_no_sign [of l "p_store S (p_next S)"] operand_facts [of l "p_store S2 x"]
    by (simp add: plus_led_def at_no_break [OF at] next_tok_def at_operator_def set_left_run set_right_run tok_opt_def
        tok_at_def has_id_def right_power_def operator_powers_def operands_read_def)
  then show "\<exists>S1. begun S t x S1 \<and> (\<forall>y S2. run_state (r_expr R c (right_power ''+'')) S1 = (Some y, S2) \<longrightarrow>
      operands_read l ''+'' t x y S2 \<longrightarrow> (\<exists>S3. run_state (plus_led R c t x) S = (Some t, S3) \<and> ended S2 t y S3))"
    using begun_put [of S S t x] ended_put by auto
qed

lemma relation_links:
  assumes "List.member [''<'', ''>'', ''<='', ''>=''] p"
  shows "links relation_led p"
proof (rule linksI)
  fix R c l t x S
  assume at: "at_operator l p t x S"
  consider "p = ''<''" | "p = ''>''" | "p = ''<=''" | "p = ''>=''" using assms by auto
  then have p: "right_power p = 100" and quiet: "relation_check p u v w = ret ()" for u v w
    by (cases; simp add: right_power_def operator_powers_def relation_check_def)+
  have S: "\<not> stopped S" using at by (simp add: at_operator_def)
  have "run_state (relation_led R c t x) S = (Some t, put_right t y S2)"
    if run: "run_state (r_expr R c (right_power p)) (put_left t x S) = (Some y, S2)" and read: "operands_read l p t x y S2" for y S2
  proof -
    have k: "k_id (p_store S2 t) = Some p"
      using read at operator_symbol(1) [of p] by (simp add: operands_read_def token_of_def at_operator_def)
    have S2: "\<not> stopped S2" "\<not> stopped (put_right t y S2)" using read by (simp_all add: operands_read_def stopped_def)
    have names: "\<not> k_identifier (p_store S2 x)" "\<not> k_identifier (p_store S2 y)"
      and nots: "\<not> has_id ''!'' (p_store S2 x)" "\<not> has_id ''!'' (p_store S2 y)"
      using read operand_facts(3,7) by (auto simp: operands_read_def)
    show ?thesis
      by (simp add: relation_led_def at_no_break [OF at] set_left_run [OF S] run [unfolded p] set_right_run [OF S2(1)]
          tok_opt_def tok_at_def k quiet names nots isIdentifier_def not_operand_def)
  qed
  then show "\<exists>S1. begun S t x S1 \<and> (\<forall>y S2. run_state (r_expr R c (right_power p)) S1 = (Some y, S2) \<longrightarrow>
      operands_read l p t x y S2 \<longrightarrow> (\<exists>S3. run_state (relation_led R c t x) S = (Some t, S3) \<and> ended S2 t y S3))"
    using begun_put [of S S t x] ended_put by auto
qed

text \<open>The operators' denotations in the table.\<close>

lemma operator_leds:
  "led R c ''||'' = logical_led R c 40"
  "led R c ''&&'' = logical_led R c 50"
  "led R c ''|'' = bitwise_led R c 70"
  "led R c ''^'' = bitwise_led R c 80"
  "led R c ''&'' = bitwise_led R c 90"
  "led R c ''<'' = relation_led R c"
  "led R c ''>'' = relation_led R c"
  "led R c ''<='' = relation_led R c"
  "led R c ''>='' = relation_led R c"
  "led R c ''<<'' = bitwise_led R c 120"
  "led R c ''>>'' = bitwise_led R c 120"
  "led R c ''>>>'' = bitwise_led R c 120"
  "led R c ''+'' = plus_led R c"
  "led R c ''-'' = minus_led R c"
  "led R c ''*'' = plain_led R c 140"
  "led R c ''/'' = plain_led R c 140"
  "led R c ''%'' = plain_led R c 140"
  "led R c ''**'' = power_led R c"
  by (intro ext; simp add: led_def led_table_def assign_symbols_def bitwise_assign_symbols_def relation_symbols_def)+

lemma all_link: "list_all (\<lambda>p. links (\<lambda>R c. led R c p) p) ops"
  unfolding operator_powers_def list.map fst_conv list.pred_inject operator_leds
  by (simp add: right_power_def operator_powers_def plain_links bitwise_links logical_links power_links minus_links
      plus_links relation_links)

end
