(* ===== verification/PrattTheorems.thy ===== *)
theory PrattTheorems
  imports PrattLeds ReportTheorems
begin

text \<open>
  The round trip of infix expressions: the tokens of a tree that respects the binding powers are
  parsed to that tree.
\<close>

section \<open>What reports and options do not change\<close>

lemma permitted_curr [simp]: "permitted (st\<lparr>curr_id := x\<rparr>) p = permitted st p"
  by (simp add: permitted_def inES7_def opt_on_def)

lemma unheard_permitted:
  assumes "unheard S S'"
  shows "permitted (l_state (p_lint S')) p = permitted (l_state (p_lint S)) p"
proof -
  have "permitted ((l_state (p_lint S'))\<lparr>curr_id := []\<rparr>) p = permitted ((l_state (p_lint S))\<lparr>curr_id := []\<rparr>) p"
    using assms by (simp add: unheard_def)
  then show ?thesis by simp
qed

lemma unheard_written:
  "unheard S S' \<Longrightarrow> written l (l_state (p_lint S')) s e = written l (l_state (p_lint S)) s e"
  by (induction e) (simp_all add: unheard_permitted)

section \<open>One step of the loop\<close>

lemma operator_goes_on:
  assumes "token_of p l k" "List.member ops p" "operand_token l c"
  shows "\<not> end_of_expr context c k" "\<not> has_id ''('' k" "\<not> has_id ''(end)'' k"
proof -
  have "k_id k = Some p" using assms operator_symbol(1) by (simp add: token_of_def)
  moreover have "sameLine c k" using assms(1) operand_facts [OF assms(3)] by (simp add: sameLine_def token_of_def)
  ultimately show "\<not> end_of_expr context c k" "\<not> has_id ''('' k" "\<not> has_id ''(end)'' k"
    using operator_ids [of p] assms(2) by (auto simp: end_of_expr_def has_id_def List.member_iff operator_powers_def)
qed

lemma constructed_reads: "\<exists>b. run_state (constructed x) S = (b, S)"
  by (simp add: constructed_def curr_tok_def tok_opt_def Let_def)

lemma operators_step:
  assumes "\<not> stopped S" "List.member ops p" "token_of p l (p_store S (p_next S))" "operand_token l (p_store S (p_curr S))"
    and "q < left_power p" "p_look S = y # r" "calm (p_store S y)"
  obtains S1 where "moved S y r S1"
    "run_state (operators (Suc m) R c q (Some x)) S =
       (case run_state (led R c p (p_next S) x) S1 of (left1, S2) \<Rightarrow> run_state (operators m R c q left1) S2)"
proof -
  obtain isA isO where con: "run_state (constructed (Some x)) S = ((isA, isO), S)"
    using constructed_reads by (metis surj_pair)
  obtain S1 where S1: "run_state advance S = ((), S1)" "moved S y r S1"
    using advance_calm [of S y r None None] assms by auto
  have "k_lbp (p_store S (p_next S)) = Some (left_power p)" "s_led (k_sym (p_store S (p_next S)))"
    "k_proto (p_store S (p_next S)) = p"
    using assms(2,3) operator_symbol by (simp_all add: token_of_def)
  then have "run_state (operators (Suc m) R c q (Some x)) S =
       (case run_state (led R c p (p_next S) x) S1 of (left1, S2) \<Rightarrow> run_state (operators m R c q left1) S2)"
    using assms(1,5) operator_goes_on [OF assms(3,2,4)] S1
    by (simp add: next_tok_def isEndOfExpr_def curr_tok_def con above_def apply_led_def curr_ref_def moved_def)
  with S1(2) show ?thesis by (rule that)
qed

text \<open>The loop ends before a token that binds no more than what is before it.\<close>

lemma operators_end:
  assumes "\<not> above (k_lbp (p_store S (p_next S))) q"
  shows "run_state (operators (Suc m) R c q (Some x)) S = (Some x, S)"
  using assms by (simp add: next_tok_def isEndOfExpr_def curr_tok_def)

section \<open>Trees\<close>

text \<open>What is left when the tokens of a tree are read: its operators are linked.\<close>

definition parsed :: "tree \<Rightarrow> nat \<Rightarrow> nat list \<Rightarrow> pst \<Rightarrow> pst \<Rightarrow> bool" where
  "parsed e r rest S S' \<longleftrightarrow> unheard S S' \<and> p_curr S' = last (flat e) \<and> p_next S' = r \<and> p_look S' = rest \<and>
     p_store S' = link e (p_store S)"

text \<open>A token that may follow: it ends every operand of the tree.\<close>

definition follows :: "tree \<Rightarrow> tok \<Rightarrow> bool" where
  "follows e k \<longleftrightarrow> calm k \<and> \<not> has_id ''.'' k \<and> (case k_lbp k of None \<Rightarrow> True | Some z \<Rightarrow> closes z e)"

primrec left_ops :: "tree \<Rightarrow> nat" where
  "left_ops (Leaf t) = 0"
| "left_ops (Bin a p t b) = Suc (left_ops a)"

lemma left_ops_less: "left_ops e < List.length (flat e)"
  by (induction e) simp_all

lemma operator_follows:
  assumes "token_of p l k" "List.member ops p" "closes (left_power p) a"
  shows "follows a k"
  using assms operator_symbol [of p] operator_ids [of p]
  by (simp add: follows_def token_of_def calm_def has_id_def List.member_iff)

lemma leaf_operand:
  assumes "token_of ''(number)'' l (p_store S (p_curr S))" "\<not> has_id ''.'' (p_store S (p_next S))"
  shows "run_state (operand R c q) S = run_state (operators (r_fuel R) R c q (Some (p_curr S))) S"
  using assms by (simp add: operand_def curr_ref_def curr_tok_def token_of_def number_entry nud_def literal_symbols_def
      nud_table_def number_nud_def next_tok_def)

lemma written_operands: "written l st s e \<Longrightarrow> x \<in> set (flat e) \<Longrightarrow> operand_token l (s x)"
  by (induction e) (auto simp: operand_token_def list_ex_iff)

lemmas written_calm = operand_facts(8) [OF written_operands]

lemma expression_starts:
  assumes "\<not> stopped S" "token_of ''(number)'' l (p_store S (p_next S))" "p_look S = y # r" "calm (p_store S y)"
    and "\<not> ctx_has c ctx_initial"
  obtains S1 where "moved S y r S1"
    "run_state (expression R c q) S = (case run_state (operand R c q) S1 of (left, S2) \<Rightarrow> (left, snd (run_state names_pop S2)))"
proof -
  define S0 where "S0 = S\<lparr>p_names := ns_push (p_names S)\<rparr>"
  have S0: "\<not> stopped S0" "p_look S0 = y # r" "calm (p_store S0 y)" using assms by (simp_all add: S0_def stopped_def)
  obtain S1 where S1: "run_state advance S0 = ((), S1)" "moved S0 y r S1"
    using advance_calm [OF S0, of None None] by auto
  have "\<not> has_id ''(end)'' (p_store S (p_next S))"
    using assms(2) by (simp add: token_of_def has_id_def number_entry)
  then have "run_state (expression R c q) S = (case run_state (operand R c q) S1 of (left, S2) \<Rightarrow> (left, snd (run_state names_pop S2)))"
    using assms(1,5) S1(1) [unfolded S0_def]
    by (simp add: expression_def Let_def ctx_without_def names_push_def names_pop_def next_tok_def curr_ref_def curr_tok_def
        split_beta)
  moreover have "moved S y r S1" using S1(2) by (simp add: S0_def moved_def unheard_def)
  ultimately show ?thesis using that by blast
qed

lemma names_pop_same: "same_place S (snd (run_state names_pop S)) \<and> p_store (snd (run_state names_pop S)) = p_store S"
  by (simp add: names_pop_def same_place_def unheard_def)

text \<open>The tokens of \<open>e\<close>, then \<open>r\<close> and \<open>rest\<close>, are to be read; the first of them is the current one.\<close>

definition reading :: "nat \<Rightarrow> int \<Rightarrow> tree \<Rightarrow> nat \<Rightarrow> nat list \<Rightarrow> pst \<Rightarrow> bool" where
  "reading l q e r rest S \<longleftrightarrow> \<not> stopped S \<and> written l (l_state (p_lint S)) (p_store S) e \<and> fits q e \<and>
     p_curr S = hd (flat e) \<and> p_next S # p_look S = tl (flat e) @ r # rest \<and> follows e (p_store S r)"

definition reads :: "nat \<Rightarrow> recs \<Rightarrow> nat \<Rightarrow> int \<Rightarrow> tree \<Rightarrow> nat \<Rightarrow> nat list \<Rightarrow> pst \<Rightarrow> bool" where
  "reads N R c q e r rest S \<longleftrightarrow> (\<exists>m S'. run_state (operand R c q) S = run_state (operators m R c q (Some (root e))) S' \<and>
     m + left_ops e = N \<and> parsed e r rest S S')"

lemma parsed_popped:
  assumes "moved S y ys S1" "parsed b r rest S1 S2"
  shows "parsed b r rest S (snd (run_state names_pop S2))"
proof -
  have "unheard S S2" using assms by (auto simp: moved_def parsed_def intro: unheard_trans)
  moreover have "unheard S2 (snd (run_state names_pop S2))" using names_pop_same by (simp add: same_place_def)
  ultimately have "unheard S (snd (run_state names_pop S2))" by (rule unheard_trans)
  then show ?thesis using assms names_pop_same [of S2] by (simp add: moved_def parsed_def same_place_def)
qed

text \<open>The right operand, through the recursive function.\<close>

lemma right_operand:
  assumes IH: "\<And>S. reading l q b r rest S \<Longrightarrow> reads N (parser_recs N n) c q b r rest S"
    and S: "\<not> stopped S" "written l (l_state (p_lint S)) (p_store S) b" "fits q b"
      "p_next S # p_look S = flat b @ r # rest" "follows b (p_store S r)"
    and r: "\<not> above (k_lbp (p_store S r)) q"
    and N: "List.length (flat b) \<le> N" and c: "\<not> ctx_has c ctx_initial"
  obtains S' where "run_state (r_expr (parser_recs N (Suc n)) c q) S = (Some (root b), S')" "parsed b r rest S S'"
proof -
  obtain y ys where y: "p_look S = y # ys" "p_next S = hd (flat b)" "y # ys = tl (flat b) @ r # rest"
  proof (cases "flat b")
    case (Cons z zs)
    then have "p_next S = z" "p_look S = zs @ r # rest" using S(4) by simp_all
    then show ?thesis using that [of "hd (zs @ r # rest)" "tl (zs @ r # rest)"] Cons by simp
  qed simp
  have "y = r \<or> y \<in> set (flat b)"
  proof (cases "tl (flat b)")
    case (Cons z zs)
    then have "y \<in> set (tl (flat b))" using y(3) by simp
    then show ?thesis using list.set_sel(2) [OF flat_not_Nil] by blast
  qed (use y(3) in simp)
  moreover have first: "token_of ''(number)'' l (p_store S (p_next S))" using written_first [OF S(2)] y(2) by simp
  ultimately have "calm (p_store S y)" using S(2,5) written_calm by (auto simp: follows_def)
  then obtain S1 where S1: "moved S y ys S1"
      "run_state (expression (parser_recs N n) c q) S = (case run_state (operand (parser_recs N n) c q) S1 of
         (left, S2) \<Rightarrow> (left, snd (run_state names_pop S2)))"
    using expression_starts [OF S(1) first y(1) _ c] by blast
  have "reading l q b r rest S1"
    using S S1(1) y moved_stopped [OF S1(1)] unheard_written [of S S1] by (simp add: reading_def moved_def)
  then obtain m S2 where S2: "run_state (operand (parser_recs N n) c q) S1 = run_state (operators m (parser_recs N n) c q (Some (root b))) S2"
      "m + left_ops b = N" "parsed b r rest S1 S2"
    using IH unfolding reads_def by blast
  then obtain m' where "m = Suc m'" using left_ops_less [of b] N by (cases m) auto
  moreover have "\<not> above (k_lbp (p_store S2 (p_next S2))) q"
    using r S1(1) S2(3) by (simp add: parsed_def moved_def)
  ultimately have "run_state (operand (parser_recs N n) c q) S1 = (Some (root b), S2)"
    using S2(1) operators_end by simp
  then have "run_state (r_expr (parser_recs N (Suc n)) c q) S = (Some (root b), snd (run_state names_pop S2))"
    using S(1) S1(2) by (simp add: unless_stopped_def)
  moreover have "parsed b r rest S (snd (run_state names_pop S2))"
    using S1(1) S2(3) by (rule parsed_popped)
  ultimately show ?thesis by (rule that)
qed

text \<open>The operator and what is on its right.\<close>

lemma operator_and_right:
  assumes IH: "\<And>S. reading l (right_power p) b r rest S \<Longrightarrow> reads N (parser_recs N n) c (right_power p) b r rest S"
    and S: "\<not> stopped S" "written l (l_state (p_lint S)) (p_store S) (Bin a p t b)" "fits q (Bin a p t b)"
      "p_curr S = last (flat a)" "p_next S # p_look S = t # flat b @ r # rest" "follows (Bin a p t b) (p_store S r)"
    and N: "List.length (flat b) \<le> N" and c: "\<not> ctx_has c ctx_initial"
  obtains S' where "run_state (operators (Suc m) (parser_recs N (Suc n)) c q (Some (root a))) S =
       run_state (operators m (parser_recs N (Suc n)) c q (Some t)) S'"
    "unheard S S'" "p_curr S' = last (flat b)" "p_next S' = r" "p_look S' = rest"
    "p_store S' = with_right t (root b) (link b (with_left t (root a) (p_store S)))"
proof -
  let ?R = "parser_recs N (Suc n)"
  have w: "written l (l_state (p_lint S)) (p_store S) a" "written l (l_state (p_lint S)) (p_store S) b" "List.member ops p"
      "permitted (l_state (p_lint S)) p" "token_of p l (p_store S t)" "q < left_power p" "fits (right_power p) b"
    using S(2,3) by simp_all
  have places: "p_next S = t" "p_look S = hd (flat b) # tl (flat b) @ r # rest" using S(5) by simp_all
  have first: "token_of ''(number)'' l (p_store S (hd (flat b)))" using written_first [OF w(2)] .
  have last: "operand_token l (p_store S (p_curr S))" using written_last [OF w(1)] S(4) by simp
  have t: "token_of p l (p_store S (p_next S))" using w(5) places by simp
  have "calm (p_store S (hd (flat b)))" using first operand_facts(8) [of l] by (simp add: operand_token_def)
  then obtain S1 where S1: "moved S (hd (flat b)) (tl (flat b) @ r # rest) S1"
      "run_state (operators (Suc m) ?R c q (Some (root a))) S =
        (case run_state (led ?R c p t (root a)) S1 of (left1, S2) \<Rightarrow> run_state (operators m ?R c q left1) S2)"
    using operators_step [OF S(1) w(3) t last w(6) places(2)] places(1) by blast
  have "at_operator l p t (root a) S1"
    using S1(1) moved_stopped [OF S1(1)] S(1) w places last first written_root [OF w(1)] unheard_permitted [of S S1]
    by (simp add: at_operator_def moved_def)
  moreover have "links (\<lambda>R c. led R c p) p" using all_link w(3) by (auto simp: list_all_iff List.member_iff)
  ultimately obtain S2 where S2: "begun S1 t (root a) S2"
      "\<And>y S3. run_state (r_expr ?R c (right_power p)) S2 = (Some y, S3) \<Longrightarrow> operands_read l p t (root a) y S3 \<Longrightarrow>
        \<exists>S4. run_state (led ?R c p t (root a)) S1 = (Some t, S4) \<and> ended S3 t y S4"
    unfolding links_def by blast
  have u: "unheard S S2" using S1(1) S2(1) unheard_trans by (auto simp: moved_def begun_def same_place_def)
  have store: "p_store S2 = with_left t (root a) (p_store S)" using S1(1) S2(1) by (simp add: moved_def begun_def)
  have f: "follows b (p_store S2 r)" "\<not> above (k_lbp (p_store S2 r)) (right_power p)"
    using S(6) by (auto simp: follows_def store above_def split: option.splits)
  have "\<not> stopped S2" "written l (l_state (p_lint S2)) (p_store S2) b" "p_next S2 # p_look S2 = flat b @ r # rest"
    using unheard_stopped [OF u] S(1) unheard_written [OF u] w(2) S1(1) S2(1)
    by (simp_all add: store moved_def begun_def same_place_def)
  then obtain S3 where S3: "run_state (r_expr ?R c (right_power p)) S2 = (Some (root b), S3)" "parsed b r rest S2 S3"
    using right_operand [OF IH _ _ w(7) _ f N c] by blast
  have u3: "unheard S2 S3" using S3(2) by (simp add: parsed_def)
  have "operands_read l p t (root a) (root b) S3"
    using S3(2) unheard_stopped [OF u3] \<open>\<not> stopped S2\<close> w(5) written_root [OF w(1)] written_root [OF w(2)]
    by (simp add: operands_read_def parsed_def store)
  then obtain S4 where S4: "run_state (led ?R c p t (root a)) S1 = (Some t, S4)" "ended S3 t (root b) S4"
    using S2(2) [OF S3(1)] by blast
  have "run_state (operators (Suc m) ?R c q (Some (root a))) S = run_state (operators m ?R c q (Some t)) S4"
    using S1(2) S4(1) by simp
  moreover have "unheard S S4"
    using unheard_trans [OF unheard_trans [OF u u3], of S4] S4(2) by (simp add: ended_def same_place_def)
  moreover have "p_curr S4 = last (flat b)" "p_next S4 = r" "p_look S4 = rest"
      "p_store S4 = with_right t (root b) (link b (with_left t (root a) (p_store S)))"
    using S3(2) S4(2) by (simp_all add: parsed_def ended_def same_place_def store)
  ultimately show ?thesis by (rule that)
qed

text \<open>By induction on the tree: its left operand, the operator, and its right operand.\<close>

lemma operand_of_tree:
  assumes "\<not> ctx_has c ctx_initial" "List.length (flat e) \<le> N" "List.length (flat e) \<le> Suc n" "reading l q e r rest S"
  shows "reads N (parser_recs N n) c q e r rest S"
  using assms(2-)
proof (induction e arbitrary: n q r rest S)
  case (Leaf t)
  then have S: "token_of ''(number)'' l (p_store S (p_curr S))" "p_curr S = t" "p_next S = r" "p_look S = rest"
      "\<not> has_id ''.'' (p_store S (p_next S))"
    by (simp_all add: reading_def follows_def)
  have "r_fuel (parser_recs N n) = N" by (cases n) simp_all
  then show ?case
    using leaf_operand [OF S(1,5), of "parser_recs N n" c q] S unfolding reads_def
    by (intro exI [of _ N] exI [of _ S]) (simp add: parsed_def)
next
  case (Bin a p t b)
  let ?R = "parser_recs N n"
  obtain n' where n: "n = Suc n'" using Bin.prems(2) by (cases n) simp_all
  have S: "\<not> stopped S" "written l (l_state (p_lint S)) (p_store S) a" "written l (l_state (p_lint S)) (p_store S) b"
      "List.member ops p" "permitted (l_state (p_lint S)) p" "token_of p l (p_store S t)"
      "q < left_power p" "fits q a" "closes (left_power p) a" "fits (right_power p) b"
      "p_curr S = hd (flat a)" "p_next S # p_look S = tl (flat a) @ t # flat b @ r # rest"
      "follows (Bin a p t b) (p_store S r)"
    using Bin.prems(3) by (simp_all add: reading_def)
  have "reading l q a t (flat b @ r # rest) S"
    using S(1,2,8,11,12) operator_follows [OF S(6,4,9)] by (simp add: reading_def)
  then obtain m Sa where Sa: "run_state (operand ?R c q) S = run_state (operators m ?R c q (Some (root a))) Sa"
      "m + left_ops a = N" "parsed a t (flat b @ r # rest) S Sa"
    using Bin.IH(1) [of n q t "flat b @ r # rest" S] Bin.prems unfolding reads_def by auto
  obtain m' where m: "m = Suc m'" using Sa(2) left_ops_less [of a] Bin.prems(1) by (cases m) auto
  have u: "unheard S Sa" and store: "p_store Sa = link a (p_store S)" and curr: "p_curr Sa = last (flat a)"
      and look: "p_next Sa # p_look Sa = t # flat b @ r # rest"
    using Sa(3) by (simp_all add: parsed_def)
  have IH: "reads N (parser_recs N n') c (right_power p) b r rest S" if "reading l (right_power p) b r rest S" for S
    using Bin.IH(2) [OF _ _ that] Bin.prems by (simp add: n)
  have N: "List.length (flat b) \<le> N" using Bin.prems(1) by simp
  have pre: "\<not> stopped Sa" "written l (l_state (p_lint Sa)) (p_store Sa) (Bin a p t b)" "fits q (Bin a p t b)"
      "follows (Bin a p t b) (p_store Sa r)"
    using Bin.prems(3) unheard_stopped [OF u] unheard_written [OF u] unheard_permitted [OF u] by (simp_all add: reading_def store follows_def has_id_def)
  obtain S' where S': "run_state (operators (Suc m') ?R c q (Some (root a))) Sa = run_state (operators m' ?R c q (Some t)) S'"
      "unheard Sa S'" "p_curr S' = last (flat b)" "p_next S' = r" "p_look S' = rest"
      "p_store S' = with_right t (root b) (link b (with_left t (root a) (p_store Sa)))"
    using operator_and_right [OF IH pre(1,2,3) curr look pre(4) N assms(1)] unfolding n by blast
  have "parsed (Bin a p t b) r rest S S'"
    using S' unheard_trans [OF u S'(2)] by (simp add: parsed_def store)
  then show ?case
    using Sa(1,2) S'(1) unfolding reads_def m by (intro exI [of _ m'] exI [of _ S']) simp
qed

section \<open>The round trip\<close>

text \<open>
  C1: Numbers and binary operators that are written in the order of a tree that respects the binding
  powers are read back as that tree: \<open>expression\<close> consumes exactly these tokens, gives the tree's root,
  writes the tree into the fields \<open>left\<close> and \<open>right\<close> of its operators, and reports nothing.
\<close>

theorem infix_expression_roundtrip:
  assumes "\<not> stopped S" "p_next S # p_look S = flat e @ r # rest" "distinct (flat e)"
    and "written l (l_state (p_lint S)) (p_store S) e" "fits q e"
    and "follows e (p_store S r)" "\<not> above (k_lbp (p_store S r)) q"
    and "List.length (flat e) \<le> N" "List.length (flat e) \<le> Suc n" "\<not> ctx_has c ctx_initial"
  shows "case run_state (r_expr (parser_recs N (Suc n)) c q) S of (x, S') \<Rightarrow>
    x = Some (root e) \<and> holds (p_store S') e \<and> p_curr S' = last (flat e) \<and> p_next S' = r \<and> p_look S' = rest \<and>
    l_errors (p_lint S') = l_errors (p_lint S) \<and> \<not> stopped S'"
proof -
  have "reads N (parser_recs N n) c q e r rest S" if "reading l q e r rest S" for S
    using operand_of_tree [OF assms(10,8,9) that] .
  then obtain S' where S': "run_state (r_expr (parser_recs N (Suc n)) c q) S = (Some (root e), S')" "parsed e r rest S S'"
    using right_operand [OF _ assms(1,4,5,2,6,7,8,10)] by blast
  have "holds (p_store S') e" using link_holds [OF assms(3)] S'(2) by (simp add: parsed_def)
  moreover have "unheard S S'" using S'(2) by (simp add: parsed_def)
  ultimately show ?thesis
    using S' assms(1) unheard_stopped [of S S'] by (simp add: parsed_def unheard_def)
qed

text \<open>The tokens of \<open>1 - 2 * 3 - 4;\<close>, and their tree.\<close>

definition sample_symbols :: "string list" where
  "sample_symbols = [''(begin)'', ''(number)'', ''-'', ''(number)'', ''*'', ''(number)'', ''-'', ''(number)'', '';'']"

definition sample_state :: pst where
  "sample_state = (initial_pst (\<lambda>_ _. None) (False, []) (fst (new_Lexer [] reset_state)) demo_linter)
     \<lparr>p_store := (\<lambda>t. (symbol_tok (sample_symbols ! t))\<lparr>k_line := Some 1\<rparr>), p_fresh := 9, p_next := 1,
      p_look := [2, 3, 4, 5, 6, 7, 8]\<rparr>"

definition sample_tree :: tree where
  "sample_tree = Bin (Bin (Leaf 1) ''-'' 2 (Bin (Leaf 3) ''*'' 4 (Leaf 5))) ''-'' 6 (Leaf 7)"

lemma sample_entries:
  "\<not> s_identifier (symbol_of ''(number)'')" "\<not> s_identifier (symbol_of ''-'')" "\<not> s_identifier (symbol_of ''*'')"
  "s_lbp (symbol_of '';'') = Some 0" "s_id (symbol_of '';'') = Some '';''"
  "s_type (symbol_of ''(number)'') = Some ''(number)''" "s_type (symbol_of ''-'') = None" "s_type (symbol_of ''*'') = None"
  by (simp_all add: symbol_of_def all_decls_eval field_defs)

theorem infix_expression_roundtrip_witness:
  "case run_state (r_expr (parser_recs 7 7) 0 0) sample_state of (x, S') \<Rightarrow>
    x = Some (root sample_tree) \<and> holds (p_store S') sample_tree \<and> p_curr S' = last (flat sample_tree) \<and>
    p_next S' = 8 \<and> p_look S' = [] \<and>
    l_errors (p_lint S') = l_errors (p_lint sample_state) \<and> \<not> stopped S'"
proof -
  have "\<not> stopped sample_state" by (simp add: stopped_def sample_state_def initial_pst_def demo_linter_def)
  moreover have "p_next sample_state # p_look sample_state = flat sample_tree @ 8 # []" "distinct (flat sample_tree)"
    by (simp_all add: sample_state_def sample_tree_def)
  moreover have "written 1 (l_state (p_lint sample_state)) (p_store sample_state) sample_tree"
    by (simp add: sample_state_def sample_tree_def sample_symbols_def token_of_def symbol_tok_def Let_def sample_entries
        permitted_def operator_powers_def)
  moreover have "fits 0 sample_tree" by (simp add: sample_tree_def left_power_def right_power_def operator_powers_def)
  moreover have "follows sample_tree (p_store sample_state 8)" "\<not> above (k_lbp (p_store sample_state 8)) 0"
    by (simp_all add: follows_def sample_state_def sample_symbols_def sample_tree_def symbol_tok_def Let_def sample_entries
        calm_def has_id_def right_power_def operator_powers_def above_def)
  moreover have "List.length (flat sample_tree) \<le> 7" "List.length (flat sample_tree) \<le> Suc 6" "\<not> ctx_has 0 ctx_initial"
    by (simp_all add: sample_tree_def ctx_has_def)
  ultimately have "case run_state (r_expr (parser_recs 7 (Suc 6)) 0 0) sample_state of (x, S') \<Rightarrow>
    x = Some (root sample_tree) \<and> holds (p_store S') sample_tree \<and> p_curr S' = last (flat sample_tree) \<and>
    p_next S' = 8 \<and> p_look S' = [] \<and>
    l_errors (p_lint S') = l_errors (p_lint sample_state) \<and> \<not> stopped S'"
    by (rule infix_expression_roundtrip)
  moreover have "(7 :: nat) = Suc 6" by simp
  ultimately show ?thesis by (simp only:)
qed

end
