(* ===== verification/JsonTheorems.thy ===== *)
theory JsonTheorems
  imports ReadAhead ReportTheorems
begin

text \<open>
  The JSON mode: texts of the grammar of JSON whose objects have only plain names, none of them twice, are
  read to their end without a report.
\<close>

section \<open>The grammar\<close>

text \<open>
  Values, elements of arrays and members of objects as lists of tokens. This is the part of JSON that is
  read in silence: the names of an object are different, and none of them is \<open>__proto__\<close> or \<open>__iterator__\<close>,
  which JSON allows and the linter warns of.
\<close>

definition json_name :: "jstr list \<Rightarrow> tok \<Rightarrow> bool" where
  "json_name seen k \<longleftrightarrow> has_id ''(string)'' k \<and> \<not> List.member seen (key_text k) \<and>
     \<not> has_value ''__proto__'' k \<and> \<not> has_value ''__iterator__'' k"

definition json_literal :: "tok \<Rightarrow> bool" where
  "json_literal k \<longleftrightarrow> list_ex (\<lambda>s. has_id s k) json_literals"

inductive plain_json_text :: "(nat \<Rightarrow> tok) \<Rightarrow> nat list \<Rightarrow> bool"
  and json_items :: "(nat \<Rightarrow> tok) \<Rightarrow> nat list \<Rightarrow> bool"
  and json_pairs :: "(nat \<Rightarrow> tok) \<Rightarrow> jstr list \<Rightarrow> nat list \<Rightarrow> bool"
  for s :: "nat \<Rightarrow> tok" where
  literal: "json_literal (s t) \<Longrightarrow> plain_json_text s [t]"
| negative: "has_id ''-'' (s t) \<Longrightarrow> has_id ''(number)'' (s u) \<Longrightarrow> plain_json_text s [t, u]"
| no_items: "has_id ''['' (s a) \<Longrightarrow> has_id '']'' (s b) \<Longrightarrow> plain_json_text s [a, b]"
| array: "has_id ''['' (s a) \<Longrightarrow> json_items s ts \<Longrightarrow> has_id '']'' (s b) \<Longrightarrow> plain_json_text s (a # ts @ [b])"
| no_pairs: "has_id ''{'' (s a) \<Longrightarrow> has_id ''}'' (s b) \<Longrightarrow> plain_json_text s [a, b]"
| object: "has_id ''{'' (s a) \<Longrightarrow> json_pairs s [] ts \<Longrightarrow> has_id ''}'' (s b) \<Longrightarrow> plain_json_text s (a # ts @ [b])"
| item: "plain_json_text s ts \<Longrightarrow> json_items s ts"
| items: "plain_json_text s ts \<Longrightarrow> has_id '','' (s c) \<Longrightarrow> json_items s us \<Longrightarrow> json_items s (ts @ c # us)"
| pair: "json_name seen (s k) \<Longrightarrow> has_id '':'' (s c) \<Longrightarrow> plain_json_text s ts \<Longrightarrow> json_pairs s seen (k # c # ts)"
| pairs: "json_name seen (s k) \<Longrightarrow> has_id '':'' (s c) \<Longrightarrow> plain_json_text s ts \<Longrightarrow> has_id '','' (s d) \<Longrightarrow>
    json_pairs s (key_text (s k) # seen) us \<Longrightarrow> json_pairs s seen (k # c # ts @ d # us)"

text \<open>How a text begins.\<close>

definition json_start :: "string list" where
  "json_start = json_literals @ [''-'', ''['', ''{'']"

lemma json_first:
  "plain_json_text s ts \<Longrightarrow> ts \<noteq> [] \<and> list_ex (\<lambda>p. has_id p (s (hd ts))) json_start"
  "json_items s ts \<Longrightarrow> ts \<noteq> [] \<and> list_ex (\<lambda>p. has_id p (s (hd ts))) json_start"
  "json_pairs s seen ts \<Longrightarrow> ts \<noteq> [] \<and> has_id ''(string)'' (s (hd ts))"
  by (induction rule: plain_json_text_json_items_json_pairs.inducts)
    (auto simp: json_literal_def json_start_def json_name_def hd_append)

section \<open>Reading a text\<close>

text \<open>The tokens \<open>ts\<close> are to be read from the store \<open>s\<close>, followed by \<open>r\<close>, and were read.\<close>

definition ready :: "(nat \<Rightarrow> tok) \<Rightarrow> nat list \<Rightarrow> nat \<Rightarrow> nat list \<Rightarrow> pst \<Rightarrow> bool" where
  "ready s ts r rest S \<longleftrightarrow> \<not> stopped S \<and> p_store S = s \<and> p_next S # p_look S = ts @ r # rest \<and>
     (\<forall>t \<in> set ts. calm (s t)) \<and> calm (s r)"

definition consumed :: "(nat \<Rightarrow> tok) \<Rightarrow> nat \<Rightarrow> nat list \<Rightarrow> pst \<Rightarrow> pst \<Rightarrow> bool" where
  "consumed s r rest S S' \<longleftrightarrow> unheard S S' \<and> p_store S' = s \<and> p_next S' = r \<and> p_look S' = rest"

lemma ready_advance:
  assumes "ready s (t # ts) r rest S" "case expected of None \<Rightarrow> True | Some p \<Rightarrow> has_id p (s t)"
  obtains S' where "run_state (advance_to expected related) S = ((), S')" "unheard S S'" "ready s ts r rest S'"
proof -
  obtain y ys where y: "ts @ r # rest = y # ys" by (cases ts) auto
  have S: "\<not> stopped S" "p_look S = y # ys" "calm (p_store S y)" "p_next S = t" "p_store S = s"
    using assms(1) y by (cases ts; auto simp: ready_def)+
  obtain S' where S': "run_state (advance_to expected related) S = ((), S')" "moved S y ys S'"
    using advance_calm [OF S(1-3), of expected related] assms(2) S(4,5) by metis
  have "ready s ts r rest S'"
    using assms(1) S S'(2) y moved_stopped [OF S'(2)] by (simp add: ready_def moved_def)
  then show ?thesis using that S' by (auto simp: moved_def)
qed

lemma ready_split: "ready s (ts @ u # us) r rest S \<Longrightarrow> ready s ts u (us @ r # rest) S"
  by (simp add: ready_def)

lemma consumed_ready:
  assumes "ready s (ts @ u # us) r rest S" "consumed s u (us @ r # rest) S S'"
  shows "ready s (u # us) r rest S'"
  using assms unheard_stopped [of S S'] by (auto simp: ready_def consumed_def)

lemma ready_next: "ready s (t # ts) r rest S \<Longrightarrow> p_next S = t \<and> p_store S = s \<and> \<not> stopped S"
  by (simp add: ready_def)

lemma consumed_trans:
  "unheard S S1 \<Longrightarrow> consumed s r rest S1 S2 \<Longrightarrow> consumed s r rest S S2"
  by (auto simp: consumed_def intro: unheard_trans)

lemma ready_consumed: "unheard S S' \<Longrightarrow> ready s [] r rest S' \<Longrightarrow> consumed s r rest S S'"
  by (simp add: ready_def consumed_def)

text \<open>What the three functions do with a text, its items and its pairs.\<close>

definition reads_text :: "(nat \<Rightarrow> tok) \<Rightarrow> nat list \<Rightarrow> bool" where
  "reads_text s ts \<longleftrightarrow> (\<forall>n r rest S. ready s ts r rest S \<longrightarrow> List.length ts \<le> n \<longrightarrow>
     (\<exists>S'. run_state (json_value n) S = ((), S') \<and> consumed s r rest S S'))"

definition reads_items :: "(nat \<Rightarrow> tok) \<Rightarrow> nat list \<Rightarrow> bool" where
  "reads_items s ts \<longleftrightarrow> (\<forall>m n l r rest S. ready s ts r rest S \<longrightarrow> List.length ts \<le> m \<longrightarrow> List.length ts \<le> n \<longrightarrow>
     \<not> has_id '','' (s r) \<longrightarrow> (\<exists>S'. run_state (json_elements (json_value m) n l) S = ((), S') \<and> consumed s r rest S S'))"

definition same_names :: "jstr list \<Rightarrow> (jstr, unit) obj \<Rightarrow> bool" where
  "same_names seen ob \<longleftrightarrow> (\<forall>k. obj_has ob k \<longleftrightarrow> List.member seen k)"

definition reads_pairs :: "(nat \<Rightarrow> tok) \<Rightarrow> jstr list \<Rightarrow> nat list \<Rightarrow> bool" where
  "reads_pairs s seen ts \<longleftrightarrow> (\<forall>m n l ob r rest S. ready s ts r rest S \<longrightarrow> List.length ts \<le> m \<longrightarrow> List.length ts \<le> n \<longrightarrow>
     same_names seen ob \<longrightarrow> \<not> has_id '','' (s r) \<longrightarrow>
     (\<exists>S'. run_state (json_members (json_value m) n l ob) S = ((), S') \<and> consumed s r rest S S'))"

lemma reads_textE:
  assumes "reads_text s ts" "ready s ts r rest S" "List.length ts \<le> n"
  obtains S' where "run_state (json_value n) S = ((), S')" "consumed s r rest S S'"
  using assms unfolding reads_text_def by blast

lemma literal_read: "json_literal (s t) \<Longrightarrow> reads_text s [t]"
  unfolding reads_text_def
proof (intro allI impI)
  fix n r rest S
  assume lit: "json_literal (s t)" and S: "ready s [t] r rest S" and "List.length [t] \<le> n"
  then obtain n' where n: "n = Suc n'" by (cases n) auto
  obtain S' where S': "run_state advance S = ((), S')" "unheard S S'" "ready s [] r rest S'"
    using ready_advance [OF S, of None None] by auto
  have "\<not> has_id ''{'' (s t)" "\<not> has_id ''['' (s t)" using lit by (auto simp: json_literal_def json_literals_def has_id_def)
  then have "run_state (json_value n) S = ((), S')"
    using ready_next [OF S] S'(1) lit by (simp add: n next_ref_def next_tok_def json_literal_def)
  then show "\<exists>S'. run_state (json_value n) S = ((), S') \<and> consumed s r rest S S'"
    using ready_consumed [OF S'(2,3)] by blast
qed

lemma negative_read:
  assumes "has_id ''-'' (s t)" "has_id ''(number)'' (s u)"
  shows "reads_text s [t, u]"
  unfolding reads_text_def
proof (intro allI impI)
  fix n r rest S
  assume S: "ready s [t, u] r rest S" and "List.length [t, u] \<le> n"
  then obtain n' where n: "n = Suc n'" by (cases n) auto
  obtain S1 where S1: "run_state (advance_id ''-'') S = ((), S1)" "unheard S S1" "ready s [u] r rest S1"
    using ready_advance [OF S, of "Some ''-''" None] assms(1) by auto
  obtain S2 where S2: "run_state (advance_id ''(number)'') S1 = ((), S2)" "unheard S1 S2" "ready s [] r rest S2"
    using ready_advance [OF S1(3), of "Some ''(number)''" None] assms(2) by auto
  have "\<not> has_id ''{'' (s t) \<and> \<not> has_id ''['' (s t) \<and> \<not> list_ex (\<lambda>p. has_id p (s t)) json_literals"
    using assms(1) by (auto simp: json_literals_def has_id_def)
  then have "run_state (json_value n) S = ((), S2)"
    using ready_next [OF S] S1(1) S2(1) assms(1) by (simp add: n next_ref_def next_tok_def)
  then show "\<exists>S'. run_state (json_value n) S = ((), S') \<and> consumed s r rest S S'"
    using consumed_trans [OF S1(2) ready_consumed [OF S2(2,3)]] by blast
qed

text \<open>An array and an object: what is between the brackets is read by the loop, if there is anything.\<close>

lemma array_read:
  assumes "has_id ''['' (s a)" "has_id '']'' (s b)"
    and "ts = [] \<or> reads_items s ts \<and> ts \<noteq> [] \<and> \<not> has_id '']'' (s (hd ts))"
  shows "reads_text s (a # ts @ [b])"
  unfolding reads_text_def
proof (intro allI impI)
  fix n r rest S
  assume S: "ready s (a # ts @ [b]) r rest S" and len: "List.length (a # ts @ [b]) \<le> n"
  then obtain n' where n: "n = Suc n'" by (cases n) auto
  obtain S1 where S1: "run_state (advance_id ''['') S = ((), S1)" "unheard S S1" "ready s (ts @ [b]) r rest S1"
    using ready_advance [OF S, of "Some ''[''" None] assms(1) by auto
  have "\<exists>S2. run_state (provided (\<not> has_id '']'' (p_store S1 (p_next S1))) (json_elements (json_value n') n' l)) S1 = ((), S2) \<and>
      consumed s b (r # rest) S1 S2" for l
  proof (cases "ts = []")
    case True
    then show ?thesis using ready_next S1(3) assms(2) by (auto simp: ready_def consumed_def)
  next
    case False
    then have "\<not> has_id '']'' (p_store S1 (p_next S1))" "ready s ts b (r # rest) S1"
      using assms(3) ready_split [of s ts b "[]" r rest S1] S1(3) by (cases ts; simp add: ready_def)+
    moreover have "List.length ts \<le> n'" "\<not> has_id '','' (s b)" using len assms(2) by (auto simp: n has_id_def)
    ultimately show ?thesis using assms(3) False by (auto simp: reads_items_def)
  qed
  then obtain S2 where S2: "run_state (provided (\<not> has_id '']'' (p_store S1 (p_next S1))) (json_elements (json_value n') n' (k_line (s a)))) S1 = ((), S2)"
      "consumed s b (r # rest) S1 S2" by blast
  then have "ready s [b] r rest S2" using consumed_ready [of s ts b "[]" r rest S1 S2] S1(3) by simp
  then obtain S3 where S3: "run_state (advance_id '']'') S2 = ((), S3)" "unheard S2 S3" "ready s [] r rest S3"
    using ready_advance [of s b "[]" r rest S2 "Some '']''" None] assms(2) by auto
  have "run_state (json_value n) S = ((), S3)"
    using ready_next [OF S] S1(1) S2(1) S3(1) assms(1)
    by (simp add: n next_ref_def next_tok_def json_array_def has_id_def)
  moreover have "unheard S S2" using S1(2) S2(2) unheard_trans by (auto simp: consumed_def)
  ultimately show "\<exists>S'. run_state (json_value n) S = ((), S') \<and> consumed s r rest S S'"
    using consumed_trans [OF _ ready_consumed [OF S3(2,3)]] by blast
qed

lemma object_read:
  assumes "has_id ''{'' (s a)" "has_id ''}'' (s b)"
    and "ts = [] \<or> reads_pairs s [] ts \<and> ts \<noteq> [] \<and> \<not> has_id ''}'' (s (hd ts))"
  shows "reads_text s (a # ts @ [b])"
  unfolding reads_text_def
proof (intro allI impI)
  fix n r rest S
  assume S: "ready s (a # ts @ [b]) r rest S" and len: "List.length (a # ts @ [b]) \<le> n"
  then obtain n' where n: "n = Suc n'" by (cases n) auto
  obtain S1 where S1: "run_state (advance_id ''{'') S = ((), S1)" "unheard S S1" "ready s (ts @ [b]) r rest S1"
    using ready_advance [OF S, of "Some ''{''" None] assms(1) by auto
  have "\<exists>S2. run_state (provided (\<not> has_id ''}'' (p_store S1 (p_next S1))) (json_members (json_value n') n' l [])) S1 = ((), S2) \<and>
      consumed s b (r # rest) S1 S2" for l
  proof (cases "ts = []")
    case True
    then show ?thesis using ready_next S1(3) assms(2) by (auto simp: ready_def consumed_def)
  next
    case False
    then have "\<not> has_id ''}'' (p_store S1 (p_next S1))" "ready s ts b (r # rest) S1"
      using assms(3) ready_split [of s ts b "[]" r rest S1] S1(3) by (cases ts; simp add: ready_def)+
    moreover have "List.length ts \<le> n'" "\<not> has_id '','' (s b)" using len assms(2) by (auto simp: n has_id_def)
    moreover have "same_names [] []" by (simp add: same_names_def obj_has_def obj_get_def)
    ultimately show ?thesis using assms(3) False by (auto simp: reads_pairs_def)
  qed
  then obtain S2 where S2: "run_state (provided (\<not> has_id ''}'' (p_store S1 (p_next S1))) (json_members (json_value n') n' (k_line (s a)) [])) S1 = ((), S2)"
      "consumed s b (r # rest) S1 S2" by blast
  then have "ready s [b] r rest S2" using consumed_ready [of s ts b "[]" r rest S1 S2] S1(3) by simp
  then obtain S3 where S3: "run_state (advance_id ''}'') S2 = ((), S3)" "unheard S2 S3" "ready s [] r rest S3"
    using ready_advance [of s b "[]" r rest S2 "Some ''}''" None] assms(2) by auto
  have "run_state (json_value n) S = ((), S3)"
    using ready_next [OF S] S1(1) S2(1) S3(1) assms(1)
    by (simp add: n next_ref_def next_tok_def json_object_def)
  moreover have "unheard S S2" using S1(2) S2(2) unheard_trans by (auto simp: consumed_def)
  ultimately show "\<exists>S'. run_state (json_value n) S = ((), S') \<and> consumed s r rest S S'"
    using consumed_trans [OF _ ready_consumed [OF S3(2,3)]] by blast
qed

text \<open>An item: its first token raises nothing; a comma goes on, anything else ends the loop.\<close>

lemma item_token:
  assumes "ready s ts r rest S" "ts \<noteq> []" "list_ex (\<lambda>p. has_id p (s (hd ts))) json_start"
  shows "run_state (json_element_token l) S = (False, S)"
  using assms by (cases ts) (auto simp: json_element_token_def curr_ref_def next_ref_def next_tok_def ready_def
      json_start_def json_literals_def has_id_def)

lemma item_read:
  assumes "reads_text s ts" "ts \<noteq> []" "list_ex (\<lambda>p. has_id p (s (hd ts))) json_start"
  shows "reads_items s ts"
  unfolding reads_items_def
proof (intro allI impI)
  fix m n l r rest S
  assume S: "ready s ts r rest S" and len: "List.length ts \<le> m" "List.length ts \<le> n" and r: "\<not> has_id '','' (s r)"
  obtain n' where n: "n = Suc n'" using len assms(2) by (cases n) auto
  obtain S1 where S1: "run_state (json_value m) S = ((), S1)" "consumed s r rest S S1"
    using reads_textE [OF assms(1) S len(1)] .
  then have "run_state (json_elements (json_value m) n l) S = ((), S1)"
    using item_token [OF S assms(2,3)] r by (simp add: n next_tok_def consumed_def)
  then show "\<exists>S'. run_state (json_elements (json_value m) n l) S = ((), S') \<and> consumed s r rest S S'"
    using S1(2) by blast
qed

lemma items_read:
  assumes "reads_text s ts" "ts \<noteq> []" "list_ex (\<lambda>p. has_id p (s (hd ts))) json_start" "has_id '','' (s c)" "reads_items s us"
  shows "reads_items s (ts @ c # us)"
  unfolding reads_items_def
proof (intro allI impI)
  fix m n l r rest S
  assume S: "ready s (ts @ c # us) r rest S" and len: "List.length (ts @ c # us) \<le> m" "List.length (ts @ c # us) \<le> n"
    and r: "\<not> has_id '','' (s r)"
  obtain n' where n: "n = Suc n'" using len by (cases n) auto
  obtain S1 where S1: "run_state (json_value m) S = ((), S1)" "consumed s c (us @ r # rest) S S1"
    using reads_textE [OF assms(1) ready_split [OF S], of m] len by auto
  then have "ready s (c # us) r rest S1" using consumed_ready [OF S] by blast
  then obtain S2 where S2: "run_state (advance_id '','') S1 = ((), S2)" "unheard S1 S2" "ready s us r rest S2"
    using ready_advance [of s c us r rest S1 "Some '',''" None] assms(4) by auto
  have len1: "List.length us \<le> m" "List.length us \<le> n'" using len by (simp_all add: n)
  obtain S3 where S3: "run_state (json_elements (json_value m) n' l) S2 = ((), S3)" "consumed s r rest S2 S3"
    using assms(5) S2(3) len1 r unfolding reads_items_def by blast
  have "\<not> stopped S2" using S2(3) by (simp add: ready_def)
  then have "run_state (json_elements (json_value m) n l) S = ((), S3)"
    using item_token [OF S, of l] assms(2-4) S1 S2(1) S3(1) by (simp add: n next_tok_def consumed_def hd_append)
  moreover have "unheard S S2" using S1(2) S2(2) unheard_trans by (auto simp: consumed_def)
  ultimately show "\<exists>S'. run_state (json_elements (json_value m) n l) S = ((), S') \<and> consumed s r rest S S'"
    using consumed_trans [OF _ S3(2)] by blast
qed

text \<open>A pair: the name is new, so it is noted.\<close>

lemma name_read:
  assumes "ready s (k # ts) r rest S" "json_name seen (s k)" "same_names seen ob"
  shows "run_state (json_key_token l) S = (False, S)"
    and "run_state (json_key ob) S = (plain_put ob (key_text (s k)) (), S)"
    and "same_names (key_text (s k) # seen) (plain_put ob (key_text (s k)) ())"
proof -
  note k = assms(2) [unfolded json_name_def] and S = ready_next [OF assms(1)]
  show "run_state (json_key_token l) S = (False, S)"
    using k S by (simp add: json_key_token_def curr_ref_def next_ref_def next_tok_def has_id_def)
  show "run_state (json_key ob) S = (plain_put ob (key_text (s k)) (), S)"
    using k S assms(3) by (simp add: json_key_def next_ref_def next_tok_def opt_def lint_state_def same_names_def)
  have "key_text (s k) \<noteq> js ''__proto__''"
    using k by (auto simp: key_text_def has_value_def js_def split: option.splits)
  then show "same_names (key_text (s k) # seen) (plain_put ob (key_text (s k)) ())"
    using assms(3) by (auto simp: same_names_def plain_put_def)
qed

lemma pair_start:
  assumes S: "ready s (k # c # ts) r rest S" and "json_name seen (s k)" "has_id '':'' (s c)" "reads_text s ts" "List.length ts \<le> m"
  obtains S1 S2 S3 where "run_state advance S = ((), S1)" "run_state (advance_id '':'') S1 = ((), S2)"
    "run_state (json_value m) S2 = ((), S3)" "consumed s r rest S S3"
proof -
  obtain S1 where S1: "run_state advance S = ((), S1)" "unheard S S1" "ready s (c # ts) r rest S1"
    using ready_advance [OF S, of None None] by auto
  obtain S2 where S2: "run_state (advance_id '':'') S1 = ((), S2)" "unheard S1 S2" "ready s ts r rest S2"
    using ready_advance [OF S1(3), of "Some '':''" None] assms(3) by auto
  obtain S3 where S3: "run_state (json_value m) S2 = ((), S3)" "consumed s r rest S2 S3"
    using reads_textE [OF assms(4) S2(3) assms(5)] .
  have "consumed s r rest S S3" using consumed_trans [OF unheard_trans [OF S1(2) S2(2)] S3(2)] .
  with S1(1) S2(1) S3(1) show ?thesis by (rule that)
qed

lemma pair_read:
  assumes "json_name seen (s k)" "has_id '':'' (s c)" "reads_text s ts"
  shows "reads_pairs s seen (k # c # ts)"
  unfolding reads_pairs_def
proof (intro allI impI)
  fix m n l ob r rest S
  assume S: "ready s (k # c # ts) r rest S" and len: "List.length (k # c # ts) \<le> m" "List.length (k # c # ts) \<le> n"
    and ob: "same_names seen ob" and r: "\<not> has_id '','' (s r)"
  obtain n' where n: "n = Suc n'" using len by (cases n) auto
  have "List.length ts \<le> m" using len by simp
  then obtain S1 S2 S3 where S3: "run_state advance S = ((), S1)" "run_state (advance_id '':'') S1 = ((), S2)"
      "run_state (json_value m) S2 = ((), S3)" "consumed s r rest S S3"
    using pair_start [OF S assms] by blast
  then have "run_state (json_members (json_value m) n l ob) S = ((), S3)"
    using name_read(1,2) [OF S assms(1) ob] r by (simp add: n next_tok_def consumed_def)
  then show "\<exists>S'. run_state (json_members (json_value m) n l ob) S = ((), S') \<and> consumed s r rest S S'"
    using S3(4) by blast
qed

lemma pairs_read:
  assumes "json_name seen (s k)" "has_id '':'' (s c)" "reads_text s ts" "has_id '','' (s d)"
    "reads_pairs s (key_text (s k) # seen) us"
  shows "reads_pairs s seen (k # c # ts @ d # us)"
  unfolding reads_pairs_def
proof (intro allI impI)
  fix m n l ob r rest S
  assume S: "ready s (k # c # ts @ d # us) r rest S" and len: "List.length (k # c # ts @ d # us) \<le> m"
      "List.length (k # c # ts @ d # us) \<le> n"
    and ob: "same_names seen ob" and r: "\<not> has_id '','' (s r)"
  obtain n' where n: "n = Suc n'" using len by (cases n) auto
  have split: "ready s (k # c # ts) d (us @ r # rest) S" using ready_split [of s "k # c # ts" d us] S by simp
  have "List.length ts \<le> m" using len by simp
  then obtain S1 S2 S3 where S3: "run_state advance S = ((), S1)" "run_state (advance_id '':'') S1 = ((), S2)"
      "run_state (json_value m) S2 = ((), S3)" "consumed s d (us @ r # rest) S S3"
    using pair_start [OF split assms(1-3)] by blast
  have "ready s (d # us) r rest S3" using consumed_ready [of s "k # c # ts" d us r rest S S3] S S3(4) by simp
  then obtain S4 where S4: "run_state (advance_id '','') S3 = ((), S4)" "unheard S3 S4" "ready s us r rest S4"
    using ready_advance [of s d us r rest S3 "Some '',''" None] assms(4) by auto
  define ob1 where "ob1 = plain_put ob (key_text (s k)) ()"
  have len1: "List.length us \<le> m" "List.length us \<le> n'" using len by (simp_all add: n)
  obtain S5 where S5: "run_state (json_members (json_value m) n' l ob1) S4 = ((), S5)" "consumed s r rest S4 S5"
    using assms(5) S4(3) len1 r name_read(3) [OF S assms(1) ob] unfolding reads_pairs_def ob1_def by blast
  have "\<not> stopped S4" using S4(3) by (simp add: ready_def)
  then have "run_state (json_members (json_value m) n l ob) S = ((), S5)"
    using name_read(1,2) [OF S assms(1) ob] assms(4) S3 S4(1) S5(1) by (simp add: n next_tok_def consumed_def ob1_def)
  moreover have "unheard S S4" using S3(4) S4(2) unheard_trans by (auto simp: consumed_def)
  ultimately show "\<exists>S'. run_state (json_members (json_value m) n l ob) S = ((), S') \<and> consumed s r rest S S'"
    using consumed_trans [OF _ S5(2)] by blast
qed

lemma json_reads:
  "plain_json_text s ts \<Longrightarrow> reads_text s ts" "json_items s ts \<Longrightarrow> reads_items s ts"
  "json_pairs s seen ts \<Longrightarrow> reads_pairs s seen ts"
proof (induction rule: plain_json_text_json_items_json_pairs.inducts)
  case (array a ts b)
  then show ?case using json_first(2) [of s ts]
    by (intro array_read) (auto simp: json_start_def json_literals_def has_id_def)
next
  case (object a ts b)
  then show ?case using json_first(3) [of s "[]" ts] by (intro object_read) (auto simp: has_id_def)
next
  case (no_items a b)
  then show ?case using array_read [of s a b "[]"] by simp
next
  case (no_pairs a b)
  then show ?case using object_read [of s a b "[]"] by simp
next
  case (item ts)
  then show ?case using item_read json_first(1) by blast
next
  case (items ts c us)
  then show ?case using items_read json_first(1) by blast
qed (simp_all add: literal_read negative_read pair_read pairs_read)

text \<open>
  C6: A JSON text in which no object repeats a name or has the name \<open>__proto__\<close> or \<open>__iterator__\<close>, on one line
  (no ends of lines are among the tokens read ahead), is accepted: it is read to its last token, without a
  report, and what follows it is the next token.
\<close>

theorem json_text_accepted:
  assumes "plain_json_text (p_store S) ts" "\<not> stopped S" "p_next S # p_look S = ts @ r # rest"
    and "\<forall>t \<in> set (ts @ [r]). calm (p_store S t)" "List.length ts \<le> n"
  shows "case run_state (json_value n) S of (x, S') \<Rightarrow>
    l_errors (p_lint S') = l_errors (p_lint S) \<and> \<not> stopped S' \<and> p_next S' = r \<and> p_look S' = rest"
proof -
  have "ready (p_store S) ts r rest S" using assms(2-4) by (simp add: ready_def)
  then obtain S' where S': "run_state (json_value n) S = ((), S')" "consumed (p_store S) r rest S S'"
    using reads_textE [OF json_reads(1) [OF assms(1)] _ assms(5)] by blast
  moreover have "unheard S S'" using S'(2) by (simp add: consumed_def)
  ultimately show ?thesis using assms(2) unheard_stopped [of S S'] by (simp add: consumed_def unheard_def)
qed

text \<open>The tokens of \<open>{"a": [1, -2]}\<close>.\<close>

definition json_symbols :: "string list" where
  "json_symbols = [''(begin)'', ''{'', ''(string)'', '':'', ''['', ''(number)'', '','', ''-'', ''(number)'', '']'', ''}'', ''(end)'']"

definition json_store :: "nat \<Rightarrow> tok" where
  "json_store t = (symbol_tok (json_symbols ! t))\<lparr>k_value := Some (js ''a''), k_line := Some 1\<rparr>"

definition json_state :: pst where
  "json_state = (initial_pst (\<lambda>_ _. None) (False, []) (fst (new_Lexer [] reset_state)) demo_linter)
     \<lparr>p_store := json_store, p_fresh := 12, p_next := 1, p_look := [2, 3, 4, 5, 6, 7, 8, 9, 10, 11]\<rparr>"

lemma json_entries:
  "s_id (symbol_of ''(begin)'') = Some ''(begin)''" "s_id (symbol_of ''{'') = Some ''{''"
  "s_id (symbol_of ''(string)'') = Some ''(string)''" "s_id (symbol_of '':'') = Some '':''"
  "s_id (symbol_of ''['') = Some ''[''" "s_id (symbol_of ''(number)'') = Some ''(number)''"
  "s_id (symbol_of '','') = Some '',''" "s_id (symbol_of ''-'') = Some ''-''"
  "s_id (symbol_of '']'') = Some '']''" "s_id (symbol_of ''}'') = Some ''}''" "s_id (symbol_of ''(end)'') = Some ''(end)''"
  by (simp_all add: symbol_of_def all_decls_eval field_defs)

lemma json_ids: "t < 12 \<Longrightarrow> k_id (json_store t) = Some (json_symbols ! t)"
  by (simp add: less_Suc_eq numeral_eq_Suc json_store_def symbol_tok_def Let_def)
    (elim disjE; simp add: json_symbols_def json_entries)

lemma json_demo: "plain_json_text json_store [1, 2, 3, 4, 5, 6, 7, 8, 9, 10]"
proof -
  have lit: "json_literal (json_store 5)" by (simp add: json_literal_def json_literals_def has_id_def json_ids json_symbols_def)
  have neg: "has_id ''-'' (json_store 7)" "has_id ''(number)'' (json_store 8)" and comma: "has_id '','' (json_store 6)"
    by (simp_all add: has_id_def json_ids json_symbols_def)
  have "json_items json_store ([5] @ 6 # [7, 8])"
    using literal [of json_store 5, OF lit] comma item [OF negative [of json_store 7 8, OF neg]] by (rule items)
  then have arr: "plain_json_text json_store (4 # [5, 6, 7, 8] @ [9])"
    by (intro array) (simp_all add: has_id_def json_ids json_symbols_def)
  have "has_id ''(string)'' (json_store 2)" "has_id '':'' (json_store 3)"
    by (simp_all add: has_id_def json_ids json_symbols_def)
  moreover from this have "json_name [] (json_store 2)"
    by (simp add: json_name_def) (simp add: has_value_def json_store_def js_def)
  ultimately have "json_pairs json_store [] (2 # 3 # [4, 5, 6, 7, 8, 9])" using pair arr by simp
  then have "plain_json_text json_store (1 # [2, 3, 4, 5, 6, 7, 8, 9] @ [10])"
    by (intro object) (simp_all add: has_id_def json_ids json_symbols_def)
  then show ?thesis by simp
qed

theorem json_text_accepted_witness:
  "case run_state (json_value 10) json_state of (x, S') \<Rightarrow>
    l_errors (p_lint S') = l_errors (p_lint json_state) \<and> \<not> stopped S' \<and> p_next S' = 11 \<and> p_look S' = []"
proof (rule json_text_accepted)
  show "plain_json_text (p_store json_state) [1, 2, 3, 4, 5, 6, 7, 8, 9, 10]" using json_demo by (simp add: json_state_def)
  show "\<forall>t\<in>set ([1, 2, 3, 4, 5, 6, 7, 8, 9, 10] @ [11]). calm (p_store json_state t)"
    by (simp add: json_state_def calm_def has_id_def json_ids) (simp add: json_symbols_def json_store_def symbol_tok_def Let_def)
qed (simp_all add: json_state_def initial_pst_def demo_linter_def stopped_def)

end
