(* ===== verification/JsonEnds.thy ===== *)
theory JsonEnds
  imports JsonTheorems ParserObjects
begin

text \<open>
  The JSON mode always ends: every call consumes tokens or gives the run up, so for every state some
  fuel is enough, and more fuel changes nothing.
\<close>

section \<open>Reading moves forward\<close>

text \<open>A step that reads nothing, or some of what is left, or ends in an exception.\<close>

definition forward :: "pst \<Rightarrow> pst \<Rightarrow> bool" where
  "forward S S' \<longleftrightarrow> idle S S' \<and>
     (stopped S' \<or> (S', S) \<in> left_rel \<or> (p_lexer S' = p_lexer S \<and> p_look S' = p_look S))"

lemma left_trans: "(S2, S1) \<in> left_rel \<Longrightarrow> (S1, S) \<in> left_rel \<Longrightarrow> (S2, S) \<in> left_rel"
  by (auto simp: left_rel_def split: if_splits)

lemma left_same:
  "p_lexer T = p_lexer S1 \<Longrightarrow> p_look T = p_look S1 \<Longrightarrow> (S1, S) \<in> left_rel \<Longrightarrow> (T, S) \<in> left_rel"
  "p_lexer T = p_lexer S \<Longrightarrow> p_look T = p_look S \<Longrightarrow> (S1, T) \<in> left_rel \<Longrightarrow> (S1, S) \<in> left_rel"
  by (simp_all add: left_rel_def)

lemma forward_refl: "forward S S"
  by (simp add: forward_def idle_def)

text \<open>After a step that is forward, what is smaller than the end is smaller than the beginning.\<close>

lemma forward_left:
  assumes "forward S S1" "\<not> stopped S1" "(S2, S1) \<in> left_rel"
  shows "(S2, S) \<in> left_rel"
proof -
  consider "(S1, S) \<in> left_rel" | "p_lexer S1 = p_lexer S" "p_look S1 = p_look S"
    using assms(1,2) by (auto simp: forward_def)
  then show ?thesis
  proof cases
    case 1
    with assms(3) show ?thesis by (rule left_trans)
  next
    case 2
    then show ?thesis using assms(3) by (rule left_same(2))
  qed
qed

lemma forward_trans:
  assumes "forward S S1" "forward S1 S2"
  shows "forward S S2"
proof -
  have idle: "idle S S2" using assms idle_trans unfolding forward_def by blast
  have "stopped S2 \<or> (S2, S) \<in> left_rel \<or> (p_lexer S2 = p_lexer S \<and> p_look S2 = p_look S)"
  proof (cases "stopped S1")
    case True
    then show ?thesis using assms(2) by (simp add: forward_def idle_def)
  next
    case False
    consider "stopped S2" | "(S2, S1) \<in> left_rel" | "p_lexer S2 = p_lexer S1" "p_look S2 = p_look S1"
      using assms(2) unfolding forward_def by blast
    then show ?thesis
    proof cases
      case 2
      then show ?thesis using forward_left [OF assms(1) False] by blast
    next
      case 3
      then show ?thesis using assms(1) False left_same(1) [OF 3, of S] by (auto simp: forward_def)
    qed blast
  qed
  with idle show ?thesis by (simp add: forward_def)
qed

lemma forward_lint: "forward S (snd (run_state (lint f) S))"
  using idle_lint by (simp add: forward_def lint_def)

lemma loop_left: "\<not> stopped S \<Longrightarrow> stopped (advance_loop S) \<or> (advance_loop S, S) \<in> left_rel"
proof (induction S rule: advance_loop.induct)
  case (1 S)
  obtain x S1 where x: "shift_token S = (x, S1)" by fastforce
  show ?case
  proof (cases x)
    case None
    then show ?thesis using "1.prems" x quit_stops by (subst (1) advance_loop.simps) simp
  next
    case (Some t)
    then have less: "(S1, S) \<in> left_rel" using shift_token_left x by simp
    let ?S2 = "S1\<lparr>p_next := t\<rparr>"
    let ?S3 = "snd (run_state (run_token_checks t) ?S2)" and ?S4 = "snd (run_state (apply_directive t) (snd (run_state (run_token_checks t) ?S2)))"
    have eq: "(?S2, S) \<in> left_rel" "(?S3, S) \<in> left_rel" "(?S4, S) \<in> left_rel"
      by (rule left_same(1) [OF _ _ less]; simp)+
    show ?thesis
    proof (cases "stopped S1")
      case True
      then show ?thesis using "1.prems" by (subst (1) advance_loop.simps) (simp add: x Some)
    next
      case ok: False
      note IH = "1.IH" [OF "1.prems" x [symmetric] Some ok refl refl]
      have a: "stopped (advance_loop T) \<or> (advance_loop T, S) \<in> left_rel"
        if "\<not> stopped T \<Longrightarrow> stopped (advance_loop T) \<or> (advance_loop T, T) \<in> left_rel" "(T, S) \<in> left_rel" for T
        using that left_trans by (cases "stopped T") (auto simp: advance_loop.simps [of T])
      show ?thesis
        using "1.prems" ok eq a [of ?S3] a [of ?S4] IH
        by (subst (1 2) advance_loop.simps) (simp add: x Some Let_def)
    qed
  qed
qed

lemma same_left_expectation:
  "p_lexer (snd (run_state (expectation e r) S)) = p_lexer S \<and> p_look (snd (run_state (expectation e r) S)) = p_look S"
  by (rule expectation_cases) (simp_all add: report_tok_def tok_at_def lint_def)

text \<open>\<open>advance\<close> really reads, unless the run is given up.\<close>

lemma advance_left:
  assumes "\<not> stopped S"
  shows "stopped (snd (run_state (advance_to e r) S)) \<or> (snd (run_state (advance_to e r) S), S) \<in> left_rel"
proof (cases "stopped (snd (run_state (expectation e r) S))")
  case True
  then show ?thesis by (simp add: advance_parts move_on_def advance_loop.simps)
next
  case False
  let ?T = "move_on (snd (run_state (expectation e r) S))"
  have "\<not> stopped ?T" "p_lexer ?T = p_lexer S" "p_look ?T = p_look S"
    using False same_left_expectation [of e r S] by (simp_all add: move_on_def stopped_def)
  then show ?thesis using loop_left [of ?T] left_same(2) [of ?T S "advance_loop ?T"] unfolding advance_parts by blast
qed

lemma forward_advance: "forward S (snd (run_state (advance_to e r) S))"
proof (cases "stopped S")
  case True
  then show ?thesis using idle_advance [of S e r] by (simp add: forward_def idle_def)
next
  case False
  then show ?thesis using advance_left [OF False, of e r] unfolding forward_def idle_def by blast
qed

section \<open>What uses no fuel\<close>

text \<open>A step never cuts the run off by itself, and does nothing when it is cut off.\<close>

lemma stuck_lint [simp]: "p_stuck (snd (run_state (lint f) S)) = p_stuck S"
  by (simp add: lint_def)

lemma stuck_loop: "p_stuck (advance_loop S) = p_stuck S"
proof (induction S rule: advance_loop.induct)
  case (1 S)
  have shift: "p_stuck S1 = p_stuck S" if "shift_token S = (x, S1)" for x S1
    using that by (auto simp: shift_token_def read_token_def alloc_def Let_def split: list.splits prod.splits option.splits if_splits)
  have steps: "p_stuck (snd (run_state (run_token_checks t) T)) = p_stuck T" "p_stuck (snd (run_state (apply_directive t) T)) = p_stuck T"
    "p_stuck (snd (run_state (quit_tok c t) T)) = p_stuck T" for t T c
    by (auto simp: run_token_checks_def apply_directive_def quit_tok_def tok_at_def lint_def lint_get_def upd_token_def curr_ref_def
        Let_def provided_def split: prod.splits)
  obtain x S1 where x: "shift_token S = (x, S1)" by fastforce
  show ?case
    using "1.IH" x shift [OF x] by (subst advance_loop.simps) (simp add: steps Let_def split: option.split)
qed

lemma stuck_advance [simp]: "p_stuck (snd (run_state (advance_to e r) S)) = p_stuck S"
proof -
  have "p_stuck (snd (run_state (expectation e r) S)) = p_stuck S"
    by (rule expectation_cases) (simp_all add: report_tok_def tok_at_def)
  then show ?thesis by (simp add: advance_parts stuck_loop move_on_def)
qed

section \<open>Loops over values separated by commas\<close>

text \<open>
  The common shape of the two loops: \<open>pre\<close> is what comes before a value, and may end the loop; \<open>v\<close> is
  the value.
\<close>

primrec comma_loop ::
  "('x \<Rightarrow> pst \<Rightarrow> bool \<times> 'x \<times> pst) \<Rightarrow> (pst \<Rightarrow> pst) \<Rightarrow> nat \<Rightarrow> 'x \<Rightarrow> pst \<Rightarrow> pst" where
  "comma_loop pre v 0 x S = snd (run_state out_of_fuel S)"
| "comma_loop pre v (Suc n) x S =
     (case pre x S of (stop, x1, S1) \<Rightarrow>
      if stop then S1
      else
        (let S2 = v S1 in
         if \<not> has_id '','' (p_store S2 (p_next S2)) then S2
         else
           (let S3 = snd (run_state (advance_id '','') S2) in
            if stopped S3 then S3 else comma_loop pre v n x1 S3)))"

definition looks :: "('x \<Rightarrow> pst \<Rightarrow> bool \<times> 'x \<times> pst) \<Rightarrow> bool" where
  "looks pre \<longleftrightarrow> (\<forall>x S. case pre x S of (stop, x1, S1) \<Rightarrow> forward S S1 \<and> p_stuck S1 = p_stuck S)"

lemma looksD: "looks pre \<Longrightarrow> pre x S = (stop, x1, S1) \<Longrightarrow> forward S S1 \<and> p_stuck S1 = p_stuck S"
  unfolding looks_def by (metis (mono_tags, lifting) case_prod_conv)

lemma forward_fuel: "forward S (snd (run_state out_of_fuel S))"
  by (simp add: out_of_fuel_def forward_def idle_def)

lemma comma_loop_forward:
  assumes "looks pre" "\<And>S. forward S (v S)"
  shows "forward S (comma_loop pre v n x S)"
proof (induction n arbitrary: x S)
  case (Suc n)
  obtain stop x1 S1 where pre: "pre x S = (stop, x1, S1)" by (cases "pre x S") auto
  have 1: "forward S S1" using looksD [OF assms(1) pre] by simp
  have 2: "forward S (v S1)" using forward_trans [OF 1 assms(2)] .
  have 3: "forward S (snd (run_state (advance_id '','') (v S1)))" using forward_trans [OF 2 forward_advance] .
  show ?case using 1 2 3 forward_trans [OF 3 Suc] by (simp add: pre Let_def)
qed (simp add: forward_fuel)

text \<open>What is cut off stays cut off.\<close>

lemma forward_stuck: "forward S S' \<Longrightarrow> p_stuck S \<Longrightarrow> p_stuck S'"
  by (simp add: forward_def idle_def stopped_def)

text \<open>More fuel, and values with more fuel, change nothing in a loop that ended.\<close>

lemma comma_loop_stable:
  assumes "looks pre" "\<And>S. forward S (v S)" "\<And>S. \<not> p_stuck (v S) \<Longrightarrow> w S = v S"
  shows "\<not> p_stuck (comma_loop pre v n x S) \<Longrightarrow> n \<le> k \<Longrightarrow> comma_loop pre w k x S = comma_loop pre v n x S"
proof (induction n arbitrary: k x S)
  case 0
  then have "stopped S" by (cases "stopped S") (simp_all add: out_of_fuel_def)
  show ?case
  proof (cases k)
    case (Suc k')
    obtain stop x1 S1 where pre: "pre x S = (stop, x1, S1)" by (cases "pre x S") auto
    have eq: "S1 = S" using looksD [OF assms(1) pre] \<open>stopped S\<close> by (simp add: forward_def idle_def)
    have v: "v S = S" using assms(2) [of S] \<open>stopped S\<close> by (simp add: forward_def idle_def)
    have "\<not> p_stuck S" using "0.prems"(1) \<open>stopped S\<close> by (simp add: out_of_fuel_def)
    then have w: "w S = S" using assms(3) [of S] v by simp
    have "snd (run_state (advance_id '','') S) = S" using idle_advance [of S] \<open>stopped S\<close> by (simp add: idle_def)
    then show ?thesis using \<open>stopped S\<close> by (simp add: Suc pre eq w out_of_fuel_def)
  qed simp
next
  case (Suc n)
  obtain k' where k: "k = Suc k'" using Suc.prems(2) by (cases k) auto
  obtain stop x1 S1 where pre: "pre x S = (stop, x1, S1)" by (cases "pre x S") auto
  show ?case
  proof (cases stop)
    case False
    let ?S3 = "snd (run_state (advance_id '','') (v S1))"
    have loop: "forward ?S3 (comma_loop pre v n x1 ?S3)" by (rule comma_loop_forward [OF assms(1,2)])
    have "\<not> p_stuck (v S1)"
      using Suc.prems(1) False forward_stuck [OF loop] by (auto simp: pre Let_def split: if_splits)
    then have "w S1 = v S1" by (rule assms(3))
    then show ?thesis
      using Suc.IH [of x1 ?S3 k'] Suc.prems False by (auto simp: pre k Let_def split: if_splits)
  qed (simp add: pre k)
qed

text \<open>The loop ends when its values do.\<close>

lemma comma_loop_ends:
  assumes "looks pre" "\<And>n S. forward S (vs n S)"
    and "\<And>n k S. \<not> p_stuck (vs n S) \<Longrightarrow> n \<le> k \<Longrightarrow> vs k S = vs n S"
  shows "\<not> p_stuck S \<Longrightarrow> (\<And>T. forward S T \<Longrightarrow> \<not> p_stuck T \<Longrightarrow> \<exists>n. \<not> p_stuck (vs n T)) \<Longrightarrow>
    \<exists>n. \<not> p_stuck (comma_loop pre (vs n) n x S)"
proof (induction S arbitrary: x rule: wf_induct_rule [OF wf_left_rel])
  case (1 S)
  obtain stop x1 S1 where pre: "pre x S = (stop, x1, S1)" by (cases "pre x S") auto
  note S1 = looksD [OF assms(1) pre]
  show ?case
  proof (cases stop)
    case True
    then show ?thesis using S1 "1.prems"(1) by (intro exI [of _ 1]) (simp add: pre)
  next
    case False
    obtain n1 where n1: "\<not> p_stuck (vs n1 S1)" using "1.prems"(2) [of S1] S1 "1.prems"(1) by auto
    define S2 where "S2 = vs n1 S1"
    define S3 where "S3 = snd (run_state (advance_id '','') S2)"
    have n: "vs m S1 = S2" if "n1 \<le> m" for m using assms(3) [OF n1 that] by (simp add: S2_def)
    have f2: "forward S S2" using forward_trans [OF conjunct1 [OF S1] assms(2)] by (simp add: S2_def)
    have s: "\<not> p_stuck S2" "\<not> p_stuck S3" using n1 by (simp_all add: S2_def S3_def)
    show ?thesis
    proof (cases "has_id '','' (p_store S2 (p_next S2)) \<and> \<not> stopped S3")
      case True
      then have "\<not> stopped S2" using idle_advance [of S2] by (auto simp: S3_def idle_def)
      then have "(S3, S2) \<in> left_rel" using advance_left True unfolding S3_def by blast
      then have less: "(S3, S) \<in> left_rel" using forward_left [OF f2 \<open>\<not> stopped S2\<close>] by blast
      have f3: "forward S S3" using forward_trans [OF f2 forward_advance] by (simp add: S3_def)
      obtain n2 where n2: "\<not> p_stuck (comma_loop pre (vs n2) n2 x1 S3)"
        using "1.IH" [OF less s(2)] "1.prems"(2) forward_trans [OF f3] by blast
      define m where "m = max n1 n2"
      have "comma_loop pre (vs (Suc m)) m x1 S3 = comma_loop pre (vs n2) n2 x1 S3"
        by (rule comma_loop_stable [OF assms(1,2) _ n2]) (auto simp: m_def intro: assms(3))
      then have "\<not> p_stuck (comma_loop pre (vs (Suc m)) (Suc m) x S)"
        using n2 False True n [of "Suc m"] by (simp add: pre m_def S3_def [symmetric])
      then show ?thesis by blast
    next
      case end': False
      then have "\<not> p_stuck (comma_loop pre (vs (Suc n1)) (Suc n1) x S)"
        using s False n [of "Suc n1"] by (auto simp: pre Let_def S3_def [symmetric])
      then show ?thesis by blast
    qed
  qed
qed

section \<open>The JSON functions\<close>

abbreviation after :: "unit parser \<Rightarrow> pst \<Rightarrow> pst" where
  "after m S \<equiv> snd (run_state m S)"

definition before_member :: "nat option \<Rightarrow> (jstr, unit) obj \<Rightarrow> pst \<Rightarrow> bool \<times> (jstr, unit) obj \<times> pst" where
  "before_member l ob S =
     (case run_state (json_key_token l) S of (stop, S1) \<Rightarrow>
      if stop then (True, ob, S1)
      else (case run_state (json_key ob) S1 of (ob1, S2) \<Rightarrow> (False, ob1, after (advance_id '':'') (after advance S2))))"

definition before_element :: "nat option \<Rightarrow> unit \<Rightarrow> pst \<Rightarrow> bool \<times> unit \<times> pst" where
  "before_element l u S = (case run_state (json_element_token l) S of (stop, S1) \<Rightarrow> (stop, u, S1))"

lemma members_loop: "after (json_members v n l ob) S = comma_loop (before_member l) (after v) n ob S"
  by (induction n arbitrary: ob S) (simp_all add: before_member_def split_beta next_tok_def Let_def)

lemma elements_loop: "after (json_elements v n l) S = comma_loop (before_element l) (after v) n () S"
  by (induction n arbitrary: S) (simp_all add: before_element_def split_beta next_tok_def Let_def)

text \<open>The tests before a value report at most.\<close>

lemma report_looks: "forward S (snd (run_state (report_tok code t args) S)) \<and> p_stuck (snd (run_state (report_tok code t args) S)) = p_stuck S"
  using forward_lint by (simp add: report_tok_def tok_at_def)

lemma tests_look:
  "forward S (snd (run_state (json_key_token l) S)) \<and> p_stuck (snd (run_state (json_key_token l) S)) = p_stuck S"
  "forward S (snd (run_state (json_key ob) S)) \<and> p_stuck (snd (run_state (json_key ob) S)) = p_stuck S"
  "forward S (snd (run_state (json_element_token l) S)) \<and> p_stuck (snd (run_state (json_element_token l) S)) = p_stuck S"
  using report_looks forward_refl
  by (auto simp: json_key_token_def json_key_def json_element_token_def curr_ref_def next_ref_def next_tok_def
      opt_def lint_state_def split_beta)

lemma before_looks: "looks (before_member l)" "looks (before_element l)"
proof -
  have "forward S (after (advance_id '':'') (after advance S2)) \<and> p_stuck (after (advance_id '':'') (after advance S2)) = p_stuck S"
    if "run_state (json_key_token l) S = (stop, S1)" "run_state (json_key ob) S1 = (ob1, S2)" for S S1 S2 stop ob ob1
  proof -
    have "forward S S1 \<and> p_stuck S1 = p_stuck S" "forward S1 S2 \<and> p_stuck S2 = p_stuck S1"
      using tests_look(1) [of S l] tests_look(2) [of S1 ob] that by simp_all
    then show ?thesis
      using forward_trans [OF forward_trans [OF _ forward_advance] forward_advance] forward_trans by simp blast
  qed
  moreover have "forward S S1 \<and> p_stuck S1 = p_stuck S" if "run_state (json_key_token l) S = (stop, S1)" for S S1 stop
    using tests_look(1) [of S l] that by simp
  ultimately show "looks (before_member l)" by (auto simp: looks_def before_member_def split: prod.splits)
  show "looks (before_element l)"
    using tests_look(3) by (auto simp: looks_def before_element_def split_beta)
qed

lemma bracket_run:
  "after (json_object v n) S =
     (let S1 = after (advance_id ''{'') S in
      after (advance_id ''}'') (if has_id ''}'' (p_store S1 (p_next S1)) then S1
        else comma_loop (before_member (k_line (p_store S (p_next S)))) (after v) n [] S1))"
  "after (json_array v n) S =
     (let S1 = after (advance_id ''['') S in
      after (advance_id '']'') (if has_id '']'' (p_store S1 (p_next S1)) then S1
        else comma_loop (before_element (k_line (p_store S (p_next S)))) (after v) n () S1))"
  by (simp_all add: json_object_def json_array_def next_tok_def Let_def split_beta provided_def members_loop elements_loop)

lemma forward_members: "(\<And>S. forward S (after v S)) \<Longrightarrow> forward S (comma_loop (before_member l) (after v) n ob S)"
  and forward_elements: "(\<And>S. forward S (after v S)) \<Longrightarrow> forward S (comma_loop (before_element l) (after v) n u S)"
  by (rule comma_loop_forward [OF before_looks(1)], assumption) (rule comma_loop_forward [OF before_looks(2)])

lemma value_forward: "forward S (after (json_value n) S)"
proof (induction n arbitrary: S)
  case (Suc n)
  note m = forward_trans [OF forward_trans [OF forward_advance forward_members [OF Suc]] forward_advance]
    and e = forward_trans [OF forward_trans [OF forward_advance forward_elements [OF Suc]] forward_advance]
    and a = forward_trans [OF forward_advance forward_advance]
  show ?case
    using m e a forward_advance forward_refl report_looks
    by (simp add: next_ref_def next_tok_def bracket_run Let_def split_beta)
qed (simp add: forward_fuel)

lemma value_stable:
  "\<not> p_stuck (after (json_value n) S) \<Longrightarrow> n \<le> k \<Longrightarrow> after (json_value k) S = after (json_value n) S"
proof (induction n arbitrary: k S)
  case 0
  then have "stopped S" by (cases "stopped S") (simp_all add: out_of_fuel_def)
  then show ?case using value_forward [of S k] by (simp add: out_of_fuel_def forward_def idle_def)
next
  case (Suc n)
  obtain k' where k: "k = Suc k'" "n \<le> k'" using Suc.prems(2) by (cases k) auto
  have w: "after (json_value k') T = after (json_value n) T" if "\<not> p_stuck (after (json_value n) T)" for T
    using Suc.IH that k(2) by blast
  have m: "comma_loop (before_member l) (after (json_value k')) k' ob T = comma_loop (before_member l) (after (json_value n)) n ob T"
    if "\<not> p_stuck (comma_loop (before_member l) (after (json_value n)) n ob T)" for l ob T
    by (rule comma_loop_stable [OF before_looks(1) value_forward w that k(2)])
  have e: "comma_loop (before_element l) (after (json_value k')) k' u T = comma_loop (before_element l) (after (json_value n)) n u T"
    if "\<not> p_stuck (comma_loop (before_element l) (after (json_value n)) n u T)" for l u T
    by (rule comma_loop_stable [OF before_looks(2) value_forward w that k(2)])
  show ?case
    using Suc.prems(1) m e unfolding k(1)
    by (simp add: next_ref_def next_tok_def bracket_run Let_def split_beta split: if_splits)
qed

lemma value_stopped: "stopped S \<Longrightarrow> \<not> p_stuck S \<Longrightarrow> \<exists>n. \<not> p_stuck (after (json_value n) S)"
  by (rule exI [of _ 0]) (simp add: out_of_fuel_def)

lemma value_ends: "\<not> p_stuck S \<Longrightarrow> \<exists>n. \<not> p_stuck (after (json_value n) S)"
proof (induction S rule: wf_induct_rule [OF wf_left_rel])
  case (1 S)
  show ?case
  proof (cases "stopped S")
    case True
    then show ?thesis using "1.prems" by (rule value_stopped)
  next
    case False
    have inner: "\<exists>n. \<not> p_stuck (after (json_value n) T)" if T: "forward (after (advance_to x None) S) T" "\<not> p_stuck T" for x T
    proof (cases "stopped T")
      case True
      then show ?thesis using T(2) by (rule value_stopped)
    next
      case running: False
      have "\<not> stopped (after (advance_to x None) S)" using T(1) running by (auto simp: forward_def idle_def)
      then have less: "(after (advance_to x None) S, S) \<in> left_rel" using advance_left [OF False] by blast
      consider "(T, after (advance_to x None) S) \<in> left_rel"
        | "p_lexer T = p_lexer (after (advance_to x None) S)" "p_look T = p_look (after (advance_to x None) S)"
        using T(1) running unfolding forward_def by blast
      then have "(T, S) \<in> left_rel"
      proof cases
        case 1
        then show ?thesis using less by (rule left_trans)
      next
        case 2
        then show ?thesis using less by (rule left_same(1))
      qed
      then show ?thesis using "1.IH" T(2) by blast
    qed
    have vs: "forward T (after (json_value n) T)" for n T by (rule value_forward)
    have start: "\<not> p_stuck (after (advance_to x None) S)" for x using "1.prems" by simp
    have "\<exists>n. \<not> p_stuck (comma_loop (before_member l) (after (json_value n)) n ob (after (advance_to x None) S))" for l ob x
      by (rule comma_loop_ends [OF before_looks(1) vs _ start]) (use value_stable inner in blast)+
    then obtain nm where m: "\<not> p_stuck (comma_loop (before_member (k_line (p_store S (p_next S)))) (after (json_value nm)) nm []
        (after (advance_id ''{'') S))" by blast
    have "\<exists>n. \<not> p_stuck (comma_loop (before_element l) (after (json_value n)) n u (after (advance_to x None) S))" for l u x
      by (rule comma_loop_ends [OF before_looks(2) vs _ start]) (use value_stable inner in blast)+
    then obtain ne where e: "\<not> p_stuck (comma_loop (before_element (k_line (p_store S (p_next S)))) (after (json_value ne)) ne ()
        (after (advance_id ''['') S))" by blast
    consider "has_id ''{'' (p_store S (p_next S))" | "has_id ''['' (p_store S (p_next S))" "\<not> has_id ''{'' (p_store S (p_next S))"
      | "\<not> has_id ''{'' (p_store S (p_next S))" "\<not> has_id ''['' (p_store S (p_next S))" by blast
    then show ?thesis
    proof cases
      case 1
      then have "\<not> p_stuck (after (json_value (Suc nm)) S)"
        using m False start by (simp add: next_ref_def next_tok_def bracket_run Let_def)
      then show ?thesis by blast
    next
      case 2
      then have "\<not> p_stuck (after (json_value (Suc ne)) S)"
        using e False start by (simp add: next_ref_def next_tok_def bracket_run Let_def)
      then show ?thesis by blast
    next
      case 3
      then have "\<not> p_stuck (after (json_value (Suc 0)) S)"
        using False "1.prems" report_looks by (simp add: next_ref_def next_tok_def split_beta)
      then show ?thesis by blast
    qed
  qed
qed

text \<open>
  C8: Parsing in JSON mode ends in every state, whatever its tokens are: from some fuel on, \<open>jsonValue\<close>
  has one result, and it is not one that was cut off.
\<close>

theorem json_mode_terminates:
  assumes "\<not> p_stuck S"
  shows "\<exists>N S'. \<not> p_stuck S' \<and> (\<forall>n. run_state (json_value (N + n)) S = ((), S'))"
proof -
  obtain N where N: "\<not> p_stuck (after (json_value N) S)" using value_ends [OF assms] by blast
  have "run_state (json_value (N + n)) S = ((), after (json_value N) S)" for n
    using value_stable [OF N, of "N + n"] by (intro prod_eqI) simp_all
  with N show ?thesis by blast
qed

theorem json_mode_terminates_witness:
  "\<exists>N S'. \<not> p_stuck S' \<and> (\<forall>n. run_state (json_value (N + n)) json_state = ((), S'))"
  by (rule json_mode_terminates) (simp add: json_state_def initial_pst_def)

end
