(* ===== verification/JsonExact.thy ===== *)
theory JsonExact
  imports JsonEnds
begin

text \<open>
  The JSON mode is exact: on tokens that have been read ahead, and as long as nothing suppresses
  reports, it is silent for the texts of the grammar and for no others.
\<close>

section \<open>Where every report is heard\<close>

abbreviation noted :: "jstr list \<Rightarrow> (jstr, unit) obj \<Rightarrow> bool" where
  "noted \<equiv> JsonTheorems.same_names"

definition loud_state :: "lstate \<Rightarrow> bool" where
  "loud_state st \<longleftrightarrow> ignored st = (\<lambda>_. False) \<and> ignoredLines st = (\<lambda>_. False) \<and>
     \<not> opt_on st ''proto'' \<and> \<not> opt_on st ''iterator''"

abbreviation loud :: "linter \<Rightarrow> bool" where
  "loud L \<equiv> loud_state (l_state L)"

lemma loud_curr [simp]: "loud_state (st\<lparr>curr_id := x\<rparr>) = loud_state st"
  by (simp add: loud_state_def opt_on_def)

lemma unheard_loud:
  assumes "unheard S S'"
  shows "loud (p_lint S') = loud (p_lint S)"
proof -
  have "loud_state ((l_state (p_lint S'))\<lparr>curr_id := []\<rparr>) = loud_state ((l_state (p_lint S))\<lparr>curr_id := []\<rparr>)"
    using assms by (simp add: unheard_def)
  then show ?thesis by simp
qed

text \<open>The lexer has handed out its last token.\<close>

definition drained :: "lexer \<Rightarrow> bool" where
  "drained L \<longleftrightarrow> exhausted L \<and> input L = [] \<and> List.length (lines L) \<le> line L"

text \<open>No token that is an identifier has the value of a sign.\<close>

definition json_token :: "tok \<Rightarrow> bool" where
  "json_token k \<longleftrightarrow> calm k \<and>
     (k_type k = ''(identifier)'' \<longrightarrow> \<not> value_in ['':'', ''{'', ''}'', ''['', '']'', '','', ''-'', ''(number)''] k)"

definition good :: "(nat \<Rightarrow> tok) \<Rightarrow> pst \<Rightarrow> bool" where
  "good s S \<longleftrightarrow> \<not> stopped S \<and> p_store S = s \<and> loud (p_lint S) \<and> drained (p_lexer S) \<and>
     list_all (\<lambda>t. json_token (s t)) (p_next S # p_look S)"

abbreviation upcoming :: "pst \<Rightarrow> nat list" where
  "upcoming S \<equiv> p_next S # p_look S"

abbreviation reports :: "pst \<Rightarrow> nat" where
  "reports S \<equiv> List.length (l_errors (p_lint S))"

text \<open>
  What a step may do: give the run up, report something, or silently do what \<open>P\<close> says.
\<close>

definition does :: "(nat \<Rightarrow> tok) \<Rightarrow> pst \<Rightarrow> pst \<Rightarrow> bool \<Rightarrow> bool" where
  "does s S S' P \<longleftrightarrow> stopped S' \<or> good s S' \<and> (reports S < reports S' \<or> reports S' = reports S \<and> P)"

lemma does_noise: "does s S S' False \<Longrightarrow> does s S S' P"
  by (auto simp: does_def)

lemma does_mono: "does s S S' P \<Longrightarrow> (P \<Longrightarrow> P') \<Longrightarrow> does s S S' P'"
  by (auto simp: does_def)

lemma does_refl: "good s S \<Longrightarrow> P \<Longrightarrow> does s S S P"
  by (simp add: does_def)

text \<open>Two steps after each other; the second does nothing when the first gives the run up.\<close>

lemma does_trans:
  assumes "does s S S1 P" "forward S1 S2" "good s S1 \<Longrightarrow> does s S1 S2 P2" "P \<Longrightarrow> P2 \<Longrightarrow> P'"
  shows "does s S S2 P'"
proof (cases "stopped S1")
  case True
  then have "S2 = S1" using assms(2) by (simp add: forward_def idle_def)
  with True show ?thesis by (simp add: does_def)
next
  case False
  then have 1: "good s S1" "reports S < reports S1 \<or> reports S1 = reports S \<and> P" using assms(1) by (auto simp: does_def)
  then have "does s S1 S2 P2" using assms(3) by blast
  with 1(2) show ?thesis using assms(4) by (auto simp: does_def)
qed

section \<open>The steps\<close>

lemma codes:
  "template_of ''E003'' \<noteq> None" "template_of ''E021'' \<noteq> None" "template_of ''E026'' \<noteq> None"
  "template_of ''E027'' \<noteq> None" "template_of ''E028'' \<noteq> None" "template_of ''W075'' \<noteq> None"
  "template_of ''W094'' \<noteq> None" "template_of ''W095'' \<noteq> None" "template_of ''W096'' \<noteq> None"
  "template_of ''E043'' \<noteq> None"
  by code_simp+

lemma loud_warning:
  assumes "loud L" "l_thrown L = None" "template_of code \<noteq> None"
  shows "l_thrown (warning code p args L) \<noteq> None \<or>
    List.length (l_errors (warning code p args L)) = Suc (List.length (l_errors L)) \<and>
    l_state (warning code p args L) = l_state L"
proof -
  obtain m where m: "template_of code = Some m" using assms(3) by blast
  obtain e where e: "template_of ''E043'' = Some e" using codes(10) by blast
  have kept: "filter (\<lambda>r. \<not> on_ignored (l_state L) r) xs = xs" for xs
    using assms(1) by (simp add: on_ignored_def loud_state_def split: option.split)
  have heard: "ignored (l_state L) = (\<lambda>_. False)" using assms(1) by (simp add: loud_state_def)
  define P where "P = report_place p L"
  define R where "R = make_report code m P args L"
  have "warning code p args L = add_report R P L"
    by (simp add: warning_def unless_thrown_def assms(2) heard m R_def P_def Let_def)
  then show ?thesis
    by (simp add: add_report_def removeIgnoredMessages_def kept quit_def e Let_def)
qed

lemma loud_synced: "loud (synced S) = loud (p_lint S)"
  by (simp add: synced_def)

lemma report_noise:
  assumes "good s S" "template_of code \<noteq> None"
  shows "does s S (snd (run_state (report_tok code t args) S)) False"
proof -
  define L where "L = warning code (Some (tok_place (p_store S t))) args (synced S)"
  have S': "snd (run_state (report_tok code t args) S) = S\<lparr>p_lint := L\<rparr>"
    using assms(1) by (simp add: report_tok_def tok_at_def lint_def L_def good_def)
  have thrown: "l_thrown (synced S) = None" using assms(1) by (simp add: good_def stopped_def synced_def)
  have loud: "loud (synced S)" using assms(1) by (simp add: good_def loud_synced)
  from loud_warning [OF loud thrown assms(2)] consider "l_thrown L \<noteq> None"
    | "l_thrown L = None" "List.length (l_errors L) = Suc (reports S)" "l_state L = l_state (synced S)"
    by (auto simp: L_def synced_def)
  then show ?thesis
  proof cases
    case 2
    then have "good s (S\<lparr>p_lint := L\<rparr>)"
      using assms(1) loud by (simp add: good_def stopped_def)
    then show ?thesis using 2(2) by (simp add: S' does_def)
  qed (simp add: S' does_def stopped_def)
qed

text \<open>\<open>advance\<close> takes the next token of those read ahead, or gives the run up.\<close>

lemma drained_shift:
  assumes "drained (p_lexer S)" "p_look S = []"
  shows "fst (shift_token S) = None"
  using assms by (simp add: shift_token_def read_token_def lex_token_def token_loop.simps nextLine_def drained_def)

lemma advance_step:
  assumes "good s S"
  shows "does s S (after advance S) (p_look S = upcoming (after advance S))"
proof (cases "p_look S")
  case Nil
  let ?T = "move_on S"
  have T: "\<not> stopped ?T" "fst (shift_token ?T) = None"
    using assms Nil drained_shift [of ?T] by (auto simp: move_on_def good_def stopped_def)
  then obtain S1 where "shift_token ?T = (None, S1)" by (cases "shift_token ?T") auto
  then have "advance_loop ?T = snd (run_state (quit_tok ''E041'' (p_curr S1)) (S1\<lparr>p_next := p_fresh S1\<rparr>))"
    using T(1) by (subst advance_loop.simps) simp
  then have "stopped (after advance S)"
    using quit_stops by (simp add: advance_parts expectation_def next_tok_def)
  then show ?thesis by (simp add: does_def)
next
  case (Cons t r)
  then have S: "\<not> stopped S" "calm (p_store S t)" using assms by (auto simp: good_def json_token_def)
  obtain S' where S': "run_state advance S = ((), S')" "moved S t r S'"
    using advance_calm [OF S(1) Cons S(2), of None None] by auto
  have "loud (p_lint S') = loud (p_lint S)" using S'(2) unheard_loud by (simp add: moved_def)
  then have "good s S'"
    using assms S'(2) moved_stopped [OF S'(2)] Cons by (simp add: good_def moved_def)
  then show ?thesis using S' Cons by (simp add: does_def moved_def unheard_def)
qed

text \<open>An unexpected token is reported, then taken all the same.\<close>

definition signs :: "string list" where
  "signs = ['':'', ''{'', ''}'', ''['', '']'', '','', ''-'', ''(number)'']"

lemma expectation_None: "after (expectation None r) S = S"
  by (simp add: expectation_def next_tok_def)

lemma advance_id_parts: "after (advance_id p) S = after advance (after (expectation (Some p) None) S)"
  by (simp add: advance_parts expectation_None)

lemma advance_id_step:
  assumes "good s S" "List.member signs p"
  shows "does s S (after (advance_id p) S) (has_id p (s (p_next S)) \<and> p_look S = upcoming (after (advance_id p) S))"
proof (cases "has_id p (s (p_next S))")
  case True
  then have "after (expectation (Some p) None) S = S"
    using assms(1) by (simp add: expectation_def next_tok_def good_def)
  then show ?thesis using advance_step [OF assms(1)] True by (simp add: advance_id_parts)
next
  case False
  have "json_token (s (p_next S))" using assms(1) by (simp add: good_def)
  then have "k_type (s (p_next S)) \<noteq> ''(identifier)'' \<or> \<not> has_value p (s (p_next S))"
    using assms(2) by (auto simp: json_token_def value_in_def signs_def list_ex_iff)
  then have "after (expectation (Some p) None) S =
      after (report_tok ''E021'' (p_next S) [str_arg p, value_arg (s (p_next S))]) S"
    using False assms(1)
    by (simp add: expectation_def next_tok_def unexpected_token_def next_ref_def tok_at_def good_def split_beta)
  moreover have "does s S (after (report_tok ''E021'' (p_next S) [str_arg p, value_arg (s (p_next S))]) S) False"
    using codes by (intro report_noise [OF assms(1)]) simp
  ultimately have "does s S (after (advance_id p) S) False"
    unfolding advance_id_parts using does_trans [OF _ forward_advance advance_step, of s S _ False] by simp
  then show ?thesis by (rule does_noise)
qed

section \<open>Values between commas\<close>

text \<open>\<open>G\<close> holds of the tokens that were read.\<close>

definition took :: "(nat list \<Rightarrow> bool) \<Rightarrow> pst \<Rightarrow> pst \<Rightarrow> bool" where
  "took G S S' \<longleftrightarrow> (\<exists>ts. upcoming S = ts @ upcoming S' \<and> G ts)"

lemma element_token_step:
  assumes "good s S" "run_state (json_element_token l) S = (stop, S1)"
  shows "does s S S1 (\<not> stop \<and> S1 = S)"
proof -
  have noise: "does s S (after (report_tok c t args) S) False" if "List.member [''E027'', ''W094'', ''E028''] c" for c t args
    using codes that by (intro report_noise [OF assms(1)]) auto
  show ?thesis
    using assms noise [THEN does_noise, of "''E027''"] noise [THEN does_noise, of "''W094''"] noise [THEN does_noise, of "''E028''"]
      does_refl [OF assms(1)]
    by (auto simp: json_element_token_def curr_ref_def next_ref_def next_tok_def split_beta split: if_splits)
qed

lemma elements_exact:
  assumes "\<And>S. good s S \<Longrightarrow> does s S (v S) (took (plain_json_text s) S (v S))" "\<And>S. forward S (v S)"
  shows "good s S \<Longrightarrow> does s S (comma_loop (before_element l) v m u S)
    (took (json_items s) S (comma_loop (before_element l) v m u S))"
proof (induction m arbitrary: u S)
  case (Suc m)
  obtain stop S1 where pre: "run_state (json_element_token l) S = (stop, S1)" by fastforce
  note 1 = element_token_step [OF Suc.prems pre]
  show ?case
  proof (cases stop)
    case True
    then show ?thesis using 1 by (auto simp: before_element_def pre does_def)
  next
    case False
    define S2 where "S2 = v S1"
    define S3 where "S3 = after (advance_id '','') S2"
    define S4 where "S4 = comma_loop (before_element l) v m u S3"
    have 2: "does s S S2 (took (plain_json_text s) S S2)"
      unfolding S2_def by (rule does_trans [OF 1 assms(2) assms(1)]) auto
    have item: "took (plain_json_text s) S T \<Longrightarrow> took (json_items s) S T" for T by (auto simp: took_def intro: item)
    show ?thesis
    proof (cases "has_id '','' (p_store S2 (p_next S2))")
      case no: False
      have "comma_loop (before_element l) v (Suc m) u S = S2" using False no by (simp add: before_element_def pre S2_def)
      then show ?thesis using does_mono [OF 2 item] by simp
    next
      case True
      have 3: "does s S S3 (took (plain_json_text s) S S2 \<and> has_id '','' (s (p_next S2)) \<and> p_look S2 = upcoming S3)"
        unfolding S3_def by (rule does_trans [OF 2 forward_advance advance_id_step]) (auto simp: signs_def)
      have loop: "forward S3 S4" unfolding S4_def by (rule comma_loop_forward [OF before_looks(2) assms(2)])
      have "does s S S4 (took (json_items s) S S4)"
      proof (rule does_trans [OF 3 loop])
        show "good s S3 \<Longrightarrow> does s S3 S4 (took (json_items s) S3 S4)" unfolding S4_def by (rule Suc.IH)
        assume "took (plain_json_text s) S S2 \<and> has_id '','' (s (p_next S2)) \<and> p_look S2 = upcoming S3" "took (json_items s) S3 S4"
        then obtain ts us where "upcoming S = ts @ upcoming S2" "plain_json_text s ts" "has_id '','' (s (p_next S2))"
            "p_look S2 = us @ upcoming S4" "json_items s us"
          by (auto simp: took_def)
        then have "upcoming S = (ts @ p_next S2 # us) @ upcoming S4" "json_items s (ts @ p_next S2 # us)"
          using items by simp_all
        then show "took (json_items s) S S4" unfolding took_def by blast
      qed
      moreover have "comma_loop (before_element l) v (Suc m) u S = S4"
      proof (cases "stopped S3")
        case stop: True
        then have "S4 = S3" using loop by (simp add: forward_def idle_def)
        then show ?thesis using False True stop by (simp add: before_element_def pre S2_def [symmetric] S3_def [symmetric] Let_def)
      next
        case go: False
        then show ?thesis using False True
          by (simp add: before_element_def pre S2_def [symmetric] S3_def [symmetric] Let_def S4_def)
      qed
      ultimately show ?thesis by simp
    qed
  qed
qed (simp add: out_of_fuel_def does_def stopped_def good_def)

text \<open>The name of a member, and the colon.\<close>

lemma key_token_step:
  assumes "good s S" "run_state (json_key_token l) S = (stop, S1)"
  shows "does s S S1 (\<not> stop \<and> S1 = S \<and> has_id ''(string)'' (s (p_next S)))"
proof -
  have noise: "does s S (after (report_tok c t args) S) False" if "List.member [''E026'', ''W094'', ''E028'', ''W095''] c" for c t args
    using codes that by (intro report_noise [OF assms(1)]) auto
  show ?thesis
    using assms noise [THEN does_noise, of "''E026''"] noise [THEN does_noise, of "''W094''"] noise [THEN does_noise, of "''E028''"]
      noise [THEN does_noise, of "''W095''"] does_refl [OF assms(1)]
    by (auto simp: json_key_token_def curr_ref_def next_ref_def next_tok_def split_beta good_def split: if_splits)
qed

lemma key_step:
  assumes "good s S" "noted seen ob" "has_id ''(string)'' (s (p_next S))" "run_state (json_key ob) S = (ob1, S1)"
  shows "does s S S1 (S1 = S \<and> json_name seen (s (p_next S)) \<and> noted (key_text (s (p_next S)) # seen) ob1)"
proof -
  let ?k = "s (p_next S)"
  have noise: "does s S (after (report_tok c t args) S) False" if "List.member [''W075'', ''W096''] c" for c t args
    using codes that by (intro report_noise [OF assms(1)]) auto
  have opts: "run_state (opt ''proto'') S = (False, S)" "run_state (opt ''iterator'') S = (False, S)"
    using assms(1) by (simp_all add: opt_def lint_state_def good_def loud_state_def)
  have st: "p_store S = s" using assms(1) by (simp add: good_def)
  have after: "S1 = snd (run_state (json_key ob) S)" using assms(4) by simp
  show ?thesis
  proof (cases "json_name seen ?k")
    case True
    then have "ready s (p_next S # []) (p_next S) [] (S\<lparr>p_look := [p_next S]\<rparr>)"
      using assms(1) by (simp add: ready_def good_def stopped_def json_token_def)
    from name_read(3) [OF this True assms(2)] have names: "noted (key_text ?k # seen) (plain_put ob (key_text ?k) ())" .
    have run: "run_state (json_key ob) S = (plain_put ob (key_text ?k) (), S)"
      using True assms(2) by (simp add: json_key_def next_ref_def next_tok_def opts st json_name_def JsonTheorems.same_names_def)
    have eq: "S1 = S" "ob1 = plain_put ob (key_text ?k) ()" using trans [OF sym [OF run] assms(4)] by blast+
    show ?thesis unfolding eq by (rule does_refl [OF assms(1)]) (use True names in simp)
  next
    case False
    then consider "obj_has ob (key_text ?k)" | "\<not> obj_has ob (key_text ?k)" "has_value ''__proto__'' ?k \<or> has_value ''__iterator__'' ?k"
      using assms(2,3) unfolding json_name_def JsonTheorems.same_names_def by blast
    then show ?thesis
    proof cases
      case 1
      then have "S1 = after (report_tok ''W075'' (p_next S) [str_arg ''key'', value_arg ?k]) S"
        using after by (simp add: json_key_def next_ref_def next_tok_def opts st split_beta)
      then show ?thesis using noise [of "''W075''"] does_noise by simp
    next
      case 2
      then have "S1 = after (report_tok ''W096'' (p_next S) [value_arg ?k]) S"
        using after by (auto simp: json_key_def next_ref_def next_tok_def opts st split_beta)
      then show ?thesis using noise [of "''W096''"] does_noise by simp
    qed
  qed
qed

text \<open>Whatever the name is, what comes before a value reports at most.\<close>

lemma key_weak:
  assumes "good s S" "run_state (json_key ob) S = (ob1, S1)"
  shows "does s S S1 True"
proof -
  have noise: "does s S (after (report_tok c t args) S) True" if "List.member [''W075'', ''W096''] c" for c t args
    using codes that by (intro does_noise [OF report_noise [OF assms(1)]]) auto
  show ?thesis
    using assms noise [of "''W075''"] noise [of "''W096''"] does_refl [OF assms(1), of True]
    by (auto simp: json_key_def next_ref_def next_tok_def opt_def lint_state_def split_beta split: if_splits)
qed

definition took_name :: "(nat \<Rightarrow> tok) \<Rightarrow> jstr list \<Rightarrow> (jstr, unit) obj \<Rightarrow> pst \<Rightarrow> pst \<Rightarrow> bool" where
  "took_name s seen ob1 S S1 \<longleftrightarrow> (\<exists>k c. upcoming S = k # c # upcoming S1 \<and> json_name seen (s k) \<and> has_id '':'' (s c) \<and>
     noted (key_text (s k) # seen) ob1)"

lemma before_member_step:
  assumes "good s S" "noted seen ob" "before_member l ob S = (stop, ob1, S1)"
  shows "does s S S1 (\<not> stop \<and> took_name s seen ob1 S S1)"
proof -
  obtain stop' T where pre: "run_state (json_key_token l) S = (stop', T)" by fastforce
  note 1 = key_token_step [OF assms(1) pre]
  show ?thesis
  proof (cases stop')
    case True
    then show ?thesis using 1 assms(3) by (auto simp: before_member_def pre does_def)
  next
    case False
    obtain ob2 T2 where key: "run_state (json_key ob) T = (ob2, T2)" by fastforce
    have S1: "stop = False" "ob1 = ob2" "S1 = after (advance_id '':'') (after advance T2)"
      using assms(3) False by (simp_all add: before_member_def pre key)
    have f: "forward T T2" using tests_look(2) [of T ob] key by simp
    show ?thesis
    proof (cases "T = S \<and> has_id ''(string)'' (s (p_next S))")
      case True
      let ?N = "json_name seen (s (p_next S)) \<and> noted (key_text (s (p_next S)) # seen) ob2"
      have "does s S T2 (T2 = S \<and> ?N)" using key_step [OF assms(1,2)] True key by simp
      then have 2: "does s S (after advance T2) (?N \<and> p_look S = upcoming (after advance T2))"
        by (rule does_trans [OF _ forward_advance advance_step]) auto
      show ?thesis unfolding S1
        by (rule does_trans [OF 2 forward_advance advance_id_step]) (auto simp: signs_def took_name_def)
    next
      case no: False
      have "does s S T False" using 1 no by (auto simp: does_def)
      then have "does s S T2 False" using does_trans [OF _ f key_weak [OF _ key]] by blast
      then have "does s S (after advance T2) False" using does_trans [OF _ forward_advance advance_step] by blast
      then have "does s S S1 False" unfolding S1
        by (rule does_trans [OF _ forward_advance advance_id_step]) (auto simp: signs_def)
      then show ?thesis by (rule does_noise)
    qed
  qed
qed

lemma before_member_weak:
  assumes "good s S" "before_member l ob S = (stop, ob1, S1)"
  shows "does s S S1 True"
proof -
  obtain stop' T where pre: "run_state (json_key_token l) S = (stop', T)" by fastforce
  obtain ob2 T2 where key: "run_state (json_key ob) T = (ob2, T2)" by fastforce
  have f: "forward T T2" using tests_look(2) [of T ob] key by simp
  have 1: "does s S T True" using key_token_step [OF assms(1) pre] does_mono by blast
  then have "does s S T2 True" using does_trans [OF _ f key_weak [OF _ key]] by blast
  then have "does s S (after advance T2) True" using does_trans [OF _ forward_advance advance_step] by blast
  then have "does s S (after (advance_id '':'') (after advance T2)) True"
    by (rule does_trans [OF _ forward_advance advance_id_step]) (auto simp: signs_def)
  with 1 show ?thesis using assms(2) by (auto simp: before_member_def pre key split: if_splits)
qed

lemma does_all: "(\<And>x. does s S S' (P x)) \<Longrightarrow> does s S S' (\<forall>x. P x)"
  by (auto simp: does_def)

lemma before_member_all:
  assumes "good s S" "before_member l ob S = (stop, ob1, S1)"
  shows "does s S S1 (\<forall>seen. noted seen ob \<longrightarrow> \<not> stop \<and> took_name s seen ob1 S S1)"
proof (rule does_all)
  fix seen
  show "does s S S1 (noted seen ob \<longrightarrow> \<not> stop \<and> took_name s seen ob1 S S1)"
    using before_member_step [OF assms(1) _ assms(2), of seen] before_member_weak [OF assms]
    by (cases "noted seen ob") (auto simp: does_def)
qed

lemma members_exact:
  assumes "\<And>S. good s S \<Longrightarrow> does s S (v S) (took (plain_json_text s) S (v S))" "\<And>S. forward S (v S)"
  shows "good s S \<Longrightarrow> does s S (comma_loop (before_member l) v m ob S)
    (\<forall>seen. noted seen ob \<longrightarrow> took (json_pairs s seen) S (comma_loop (before_member l) v m ob S))"
proof (induction m arbitrary: ob S)
  case (Suc m)
  obtain stop ob1 S1 where pre: "before_member l ob S = (stop, ob1, S1)" by (cases "before_member l ob S") auto
  note 1 = before_member_all [OF Suc.prems pre]
  show ?case
  proof (cases stop)
    case True
    then show ?thesis using 1 by (auto simp: pre does_def)
  next
    case False
    define S2 where "S2 = v S1"
    define S3 where "S3 = after (advance_id '','') S2"
    define S4 where "S4 = comma_loop (before_member l) v m ob1 S3"
    let ?one = "(\<forall>seen. noted seen ob \<longrightarrow> took_name s seen ob1 S S1) \<and> took (plain_json_text s) S1 S2"
    have 2: "does s S S2 ?one"
      unfolding S2_def by (rule does_trans [OF 1 assms(2) assms(1)]) auto
    have run: "comma_loop (before_member l) v (Suc m) ob S =
        (if \<not> has_id '','' (p_store S2 (p_next S2)) then S2 else if stopped S3 then S3 else S4)"
      using False by (simp add: pre S2_def [symmetric] S3_def [symmetric] S4_def Let_def)
    have parts: "\<exists>k c ts. upcoming S = k # c # ts @ upcoming S2 \<and> json_name seen (s k) \<and> has_id '':'' (s c) \<and> plain_json_text s ts \<and>
        noted (key_text (s k) # seen) ob1" if ?one "noted seen ob" for seen
    proof -
      obtain k c where "upcoming S = k # c # upcoming S1" "json_name seen (s k)" "has_id '':'' (s c)"
          "noted (key_text (s k) # seen) ob1"
        using \<open>?one\<close> \<open>noted seen ob\<close> unfolding took_name_def by blast
      moreover obtain ts where "upcoming S1 = ts @ upcoming S2" "plain_json_text s ts" using \<open>?one\<close> unfolding took_def by blast
      ultimately show ?thesis by auto
    qed
    show ?thesis
    proof (cases "has_id '','' (p_store S2 (p_next S2))")
      case no: False
      have "took (json_pairs s seen) S S2" if o: ?one "noted seen ob" for seen
      proof -
        obtain k c ts where "upcoming S = k # c # ts @ upcoming S2" "json_name seen (s k)" "has_id '':'' (s c)" "plain_json_text s ts"
          using parts [OF o] by blast
        then have "upcoming S = (k # c # ts) @ upcoming S2 \<and> json_pairs s seen (k # c # ts)" using pair by simp
        then show ?thesis unfolding took_def by blast
      qed
      then have "does s S S2 (\<forall>seen. noted seen ob \<longrightarrow> took (json_pairs s seen) S S2)" by (intro does_mono [OF 2] allI impI)
      then show ?thesis using no unfolding run by simp
    next
      case True
      have 3: "does s S S3 (?one \<and> has_id '','' (s (p_next S2)) \<and> p_look S2 = upcoming S3)"
        unfolding S3_def by (rule does_trans [OF 2 forward_advance advance_id_step]) (auto simp: signs_def)
      have loop: "forward S3 S4" unfolding S4_def by (rule comma_loop_forward [OF before_looks(1) assms(2)])
      have "does s S S4 (\<forall>seen. noted seen ob \<longrightarrow> took (json_pairs s seen) S S4)"
      proof (rule does_trans [OF 3 loop])
        show "good s S3 \<Longrightarrow> does s S3 S4 (\<forall>seen. noted seen ob1 \<longrightarrow> took (json_pairs s seen) S3 S4)"
          unfolding S4_def by (rule Suc.IH)
        assume o: "?one \<and> has_id '','' (s (p_next S2)) \<and> p_look S2 = upcoming S3"
          and rest: "\<forall>seen. noted seen ob1 \<longrightarrow> took (json_pairs s seen) S3 S4"
        have "took (json_pairs s seen) S S4" if names: "noted seen ob" for seen
        proof -
          obtain k c ts where kc: "upcoming S = k # c # ts @ upcoming S2" "json_name seen (s k)" "has_id '':'' (s c)" "plain_json_text s ts"
              "noted (key_text (s k) # seen) ob1"
            using parts [OF conjunct1 [OF o] names] by blast
          then obtain us where us: "upcoming S3 = us @ upcoming S4" "json_pairs s (key_text (s k) # seen) us"
            using rest unfolding took_def by blast
          then have "upcoming S = (k # c # ts @ p_next S2 # us) @ upcoming S4" using kc(1) o by simp
          moreover have "json_pairs s seen (k # c # ts @ p_next S2 # us)" using pairs kc(2-4) o us(2) by blast
          ultimately show ?thesis unfolding took_def by blast
        qed
        then show "\<forall>seen. noted seen ob \<longrightarrow> took (json_pairs s seen) S S4" by blast
      qed
      moreover have "stopped S3 \<Longrightarrow> S4 = S3" using loop by (simp add: forward_def idle_def)
      ultimately show ?thesis using True unfolding run by (cases "stopped S3") simp_all
    qed
  qed
qed (simp add: out_of_fuel_def does_def stopped_def good_def)

section \<open>Values\<close>

text \<open>A value in brackets: \<open>G\<close> is the grammar of what is between them.\<close>

lemma bracket_exact:
  assumes "good s S" "has_id a (s (p_next S))" "List.member signs a" "List.member signs b"
    and loop: "\<And>S. good s S \<Longrightarrow> does s S (f S) (took G S (f S))" "\<And>S. forward S (f S)"
    and gram: "\<And>x y. has_id a (s x) \<Longrightarrow> has_id b (s y) \<Longrightarrow> plain_json_text s [x, y]"
      "\<And>x ts y. has_id a (s x) \<Longrightarrow> G ts \<Longrightarrow> has_id b (s y) \<Longrightarrow> plain_json_text s (x # ts @ [y])"
    and S': "S' = (let S1 = after (advance_id a) S in after (advance_id b) (if has_id b (p_store S1 (p_next S1)) then S1 else f S1))"
  shows "does s S S' (took (plain_json_text s) S S')"
proof -
  define S1 where "S1 = after (advance_id a) S"
  define S2 where "S2 = (if has_id b (p_store S1 (p_next S1)) then S1 else f S1)"
  have S3: "S' = after (advance_id b) S2" unfolding S' by (simp add: S1_def [symmetric] S2_def [symmetric] Let_def)
  have 1: "does s S S1 (p_look S = upcoming S1)"
    using does_mono [OF advance_id_step [OF assms(1,3)]] unfolding S1_def by blast
  let ?M = "S2 = S1 \<or> took G S1 S2"
  have f: "forward S1 S2" using loop(2) forward_refl by (simp add: S2_def)
  have "good s S1 \<Longrightarrow> does s S1 S2 ?M"
    using does_mono [OF loop(1) disjI2] does_refl [of s S1] by (auto simp: S2_def)
  then have 2: "does s S S2 (p_look S = upcoming S1 \<and> ?M)" by (rule does_trans [OF 1 f _ conjI])
  have 3: "does s S S' ((p_look S = upcoming S1 \<and> ?M) \<and> has_id b (s (p_next S2)) \<and> p_look S2 = upcoming S')"
    unfolding S3 by (rule does_trans [OF 2 forward_advance advance_id_step]) (use assms(4) in auto)
  show ?thesis
  proof (rule does_mono [OF 3])
    assume o: "(p_look S = upcoming S1 \<and> ?M) \<and> has_id b (s (p_next S2)) \<and> p_look S2 = upcoming S'"
    show "took (plain_json_text s) S S'"
    proof (cases "S2 = S1")
      case True
      then have "upcoming S = [p_next S, p_next S2] @ upcoming S'" using o by simp
      then show ?thesis using gram(1) [OF assms(2)] o unfolding took_def by blast
    next
      case False
      then obtain ts where "upcoming S1 = ts @ upcoming S2" "G ts" using o unfolding took_def by blast
      then have "upcoming S = (p_next S # ts @ [p_next S2]) @ upcoming S'" "plain_json_text s (p_next S # ts @ [p_next S2])"
        using o gram(2) [OF assms(2)] by simp_all
      then show ?thesis unfolding took_def by blast
    qed
  qed
qed

lemma value_exact: "good s S \<Longrightarrow> does s S (after (json_value n) S) (took (plain_json_text s) S (after (json_value n) S))"
proof (induction n arbitrary: S)
  case 0
  then show ?case by (simp add: out_of_fuel_def does_def stopped_def good_def)
next
  case (Suc n)
  let ?k = "s (p_next S)" and ?S' = "after (json_value (Suc n)) S"
  have S: "\<not> stopped S" "p_store S = s" using Suc.prems by (simp_all add: good_def)
  have pairs: "does s T (comma_loop (before_member l) (after (json_value n)) n [] T)
      (took (json_pairs s []) T (comma_loop (before_member l) (after (json_value n)) n [] T))" if "good s T" for l T
    using does_mono [OF members_exact [OF Suc.IH value_forward that]] by (auto simp: JsonTheorems.same_names_def obj_has_def obj_get_def)
  have items: "does s T (comma_loop (before_element l) (after (json_value n)) n u T)
      (took (json_items s) T (comma_loop (before_element l) (after (json_value n)) n u T))" if "good s T" for l u T
    using elements_exact [OF Suc.IH value_forward that] .
  consider "has_id ''{'' ?k" | "has_id ''['' ?k" | "json_literal ?k" | "has_id ''-'' ?k"
    | "\<not> has_id ''{'' ?k" "\<not> has_id ''['' ?k" "\<not> json_literal ?k" "\<not> has_id ''-'' ?k" by blast
  then show ?case
  proof cases
    case 1
    then have "?S' = after (json_object (json_value n) n) S" using S by (simp add: next_ref_def next_tok_def)
    then show ?thesis
      by (intro bracket_exact [OF Suc.prems 1, of "''}''"] no_pairs object)
        (simp_all add: signs_def bracket_run S pairs forward_members value_forward)
  next
    case 2
    then have "?S' = after (json_array (json_value n) n) S" using S by (simp add: next_ref_def next_tok_def has_id_def)
    then show ?thesis
      by (intro bracket_exact [OF Suc.prems 2, of "'']''"] no_items array)
        (simp_all add: signs_def bracket_run S items forward_elements value_forward)
  next
    case 3
    then have "?S' = after advance S"
      using S by (auto simp: next_ref_def next_tok_def json_literal_def json_literals_def has_id_def)
    moreover have "p_look S = upcoming (after advance S) \<Longrightarrow> took (plain_json_text s) S (after advance S)"
      using literal [of s, OF 3] unfolding took_def by (intro exI [of _ "[p_next S]"]) simp
    ultimately show ?thesis using does_mono [OF advance_step [OF Suc.prems]] by simp
  next
    case 4
    let ?T = "after (advance_id ''-'') S"
    have run: "?S' = after (advance_id ''(number)'') ?T"
      using 4 S by (simp add: next_ref_def next_tok_def json_literals_def has_id_def split_beta)
    have "does s S ?T (p_look S = upcoming ?T)"
      using does_mono [OF advance_id_step [OF Suc.prems, of "''-''"]] by (auto simp: signs_def)
    then have "does s S ?S' (p_look S = upcoming ?T \<and> has_id ''(number)'' (s (p_next ?T)) \<and> p_look ?T = upcoming ?S')"
      unfolding run by (rule does_trans [OF _ forward_advance advance_id_step]) (auto simp: signs_def)
    then show ?thesis
    proof (rule does_mono)
      assume "p_look S = upcoming ?T \<and> has_id ''(number)'' (s (p_next ?T)) \<and> p_look ?T = upcoming ?S'"
      then show "took (plain_json_text s) S ?S'"
        using negative [of s, OF 4] unfolding took_def by (intro exI [of _ "[p_next S, p_next ?T]"]) simp
    qed
  next
    case 5
    then have "?S' = after (report_tok ''E003'' (p_next S) []) S"
      using S by (simp add: next_ref_def next_tok_def json_literal_def)
    then show ?thesis using report_noise [OF Suc.prems, of "''E003''"] codes does_noise by simp
  qed
qed

text \<open>
  C7: On tokens that were read ahead to the end of a source of one line, and with no option or comment
  that suppresses reports, the JSON mode ends silently before \<open>rest\<close> if and only if the tokens before \<open>rest\<close>
  spell a JSON value in which no object repeats a name or has the name \<open>__proto__\<close> or \<open>__iterator__\<close>.
\<close>

theorem json_mode_exact:
  assumes "good (p_store S) S" "List.length (upcoming S) \<le> n" "rest \<noteq> []"
  shows "\<not> stopped (after (json_value n) S) \<and> reports (after (json_value n) S) = reports S \<and>
      upcoming (after (json_value n) S) = rest \<longleftrightarrow>
    (\<exists>ts. upcoming S = ts @ rest \<and> plain_json_text (p_store S) ts)"
proof
  assume "\<not> stopped (after (json_value n) S) \<and> reports (after (json_value n) S) = reports S \<and> upcoming (after (json_value n) S) = rest"
  then show "\<exists>ts. upcoming S = ts @ rest \<and> plain_json_text (p_store S) ts"
    using value_exact [OF assms(1), of n] by (auto simp: does_def took_def)
next
  assume "\<exists>ts. upcoming S = ts @ rest \<and> plain_json_text (p_store S) ts"
  then obtain ts where ts: "upcoming S = ts @ rest" "plain_json_text (p_store S) ts" by blast
  obtain r rs where r: "rest = r # rs" using assms(3) by (cases rest) auto
  have "list_all (\<lambda>t. json_token (p_store S t)) (upcoming S)" "\<not> stopped S"
    using assms(1) unfolding good_def by blast+
  then have "ready (p_store S) ts r rs S"
    unfolding ts(1) r ready_def using ts(1) r by (simp add: json_token_def list_all_iff)
  moreover have "List.length ts \<le> n" using assms(2) unfolding ts(1) by simp
  ultimately obtain S' where S': "run_state (json_value n) S = ((), S')" "consumed (p_store S) r rs S S'"
    using reads_textE [OF json_reads(1) [OF ts(2)]] by blast
  moreover have "unheard S S'" using S'(2) by (simp add: consumed_def)
  ultimately show "\<not> stopped (after (json_value n) S) \<and> reports (after (json_value n) S) = reports S \<and>
      upcoming (after (json_value n) S) = rest"
    using \<open>\<not> stopped S\<close> unheard_stopped [of S S'] r by (simp add: consumed_def unheard_def)
qed

text \<open>The tokens of \<open>json_state\<close>, when the lexer has handed out the last of them.\<close>

definition json_read :: pst where
  "json_read = json_state\<lparr>p_lexer := (p_lexer json_state)\<lparr>exhausted := True\<rparr>\<rparr>"

lemma json_read_good: "good (p_store json_read) json_read"
proof -
  have "p_store json_read = json_store" by (simp add: json_read_def json_state_def)
  moreover have "json_token (json_store t)" if "t < 12" "t \<noteq> 0" for t
    using that json_ids [of t]
    by (auto simp: json_token_def calm_def has_id_def value_in_def has_value_def json_store_def symbol_tok_def Let_def js_def json_symbols_def less_Suc_eq numeral_eq_Suc)
  moreover have "\<not> stopped json_read" "loud (p_lint json_read)" "drained (p_lexer json_read)"
    by (simp_all add: json_read_def json_state_def initial_pst_def demo_linter_def stopped_def loud_state_def
        reset_state_def opt_on_def drained_def new_Lexer_def Let_def is_shebang_def)
  ultimately show ?thesis by (simp add: good_def json_read_def json_state_def)
qed

theorem json_mode_exact_witness:
  "let S' = after (json_value 11) json_read in \<not> stopped S' \<and> reports S' = reports json_read \<and> upcoming S' = [11]"
proof -
  have "\<exists>ts. upcoming json_read = ts @ [11] \<and> plain_json_text (p_store json_read) ts"
    by (rule exI [of _ "[1, 2, 3, 4, 5, 6, 7, 8, 9, 10]"]) (simp add: json_read_def json_state_def json_demo del: One_nat_def)
  then show ?thesis
    using json_mode_exact [OF json_read_good, of 11 "[11]"] by (simp add: json_read_def json_state_def Let_def)
qed

end
