(* ===== verification/ParseErrors.thy ===== *)
theory ParseErrors
  imports ParseRun ReportTheorems
begin

text \<open>
  Two places where the parser reads a field of \<open>undefined\<close> or \<open>null\<close>: the exact conditions under which
  a parse ends with a \<open>TypeError\<close>.
\<close>

section \<open>Reports are no faults\<close>

lemma warning_no_fault:
  assumes "template_of code \<noteq> None" "l_thrown L \<noteq> Some Fault"
  shows "l_thrown (warning code p args L) \<noteq> Some Fault"
proof -
  have "template_of ''E043'' \<noteq> None" by code_simp
  then have "l_thrown (add_report w q S) \<noteq> Some Fault" if "l_thrown S = None" for w q S
    using that by (auto simp: add_report_def Let_def quit_def removeIgnoredMessages_def split: option.split)
  then show ?thesis using assms by (auto simp: warning_def unless_thrown_def Let_def split: option.split)
qed

lemma report_no_fault:
  assumes "template_of code \<noteq> None" "l_thrown (p_lint S) \<noteq> Some Fault"
  shows "l_thrown (p_lint (snd (run_state (report_tok code t args) S))) \<noteq> Some Fault"
  using assms warning_no_fault [of code "synced S"] by (simp add: report_tok_def tok_at_def lint_def synced_def)

lemma known_codes: "template_of ''W120'' \<noteq> None" "template_of ''W061'' \<noteq> None" "template_of ''W066'' \<noteq> None"
  by code_simp+

lemma fault_thrown: "\<not> stopped S \<Longrightarrow> l_thrown (p_lint (snd (run_state type_error S))) = Some Fault"
  by (simp add: type_error_def lint_def fault_def)

lemma running_no_fault: "\<not> stopped S \<Longrightarrow> l_thrown (p_lint S) \<noteq> Some Fault"
  by (simp add: stopped_def)

section \<open>Chained initializers\<close>

text \<open>
  C38: The initializer of a \<open>var\<close> in the head of a \<open>for\<close> that begins with a chained assignment makes the
  parser throw a \<open>TypeError\<close> exactly when the function has no list of parameters, as at the top level.
\<close>

theorem chained_initializer_faults:
  assumes "\<not> stopped S" "p_look S \<noteq> []"
  shows "l_thrown (p_lint (snd (run_state (check_chained context) S))) = Some Fault \<longleftrightarrow>
    has_id ''='' (p_store S (hd (p_look S))) \<and> k_identifier (p_store S (p_next S)) \<and>
    f_params (cur_funct S) = None \<and> ctx_has context ctx_noin"
proof -
  have "run_state chained_assignment S = (has_id ''='' (p_store S (hd (p_look S))) \<and> k_identifier (p_store S (p_next S)), S)"
    using assms(2) by (simp add: chained_assignment_def peeked_def peek_token_def tok_at_def next_tok_def hd_conv_nth)
  then show ?thesis
    using fault_thrown [OF assms(1)] report_no_fault [OF known_codes(1) running_no_fault [OF assms(1)]] running_no_fault [OF assms(1)]
    by (auto simp: check_chained_def next_tok_def funct_get_def provided_def report_next_def next_ref_def split: option.split)
qed

text \<open>The state in \<open>for (var i = j = 0;;)\<close> after the first \<open>=\<close>.\<close>

definition chained_state :: pst where
  "chained_state = (initial_pst (\<lambda>_ _. None) (False, []) (fst (new_Lexer [] reset_state)) demo_linter)
     \<lparr>p_store := (\<lambda>t. if t = 1 then plain_tok\<lparr>k_identifier := True\<rparr> else plain_tok\<lparr>k_sym := empty_symbol\<lparr>s_id := Some ''=''\<rparr>\<rparr>),
      p_fresh := 3, p_next := 1, p_look := [2]\<rparr>"

theorem chained_initializer_faults_witness:
  "l_thrown (p_lint (snd (run_state (check_chained ctx_noin) chained_state))) = Some Fault"
proof -
  have "\<not> stopped chained_state" "p_look chained_state \<noteq> []"
    by (simp_all add: chained_state_def initial_pst_def demo_linter_def stopped_def)
  then show ?thesis
    by (simp add: chained_initializer_faults)
      (simp add: chained_state_def initial_pst_def has_id_def cur_funct_def global_functor_def functor_of_def ctx_has_def ctx_noin_def)
qed

section \<open>Calls of strings\<close>

text \<open>
  C39: The checks of what a call evaluates make the parser throw a \<open>TypeError\<close> exactly when the option \<open>evil\<close>
  is off, the first argument is a string, and what is called has the value \<open>.\<close> but no left operand, as the
  string \<open>"."\<close> has none.
\<close>

theorem called_string_faults:
  assumes "\<not> stopped S"
  shows "l_thrown (p_lint (snd (run_state (do { evil \<leftarrow> opt ''evil''; provided (\<not> evil) (check_evaluated left lk pk) }) S))) = Some Fault \<longleftrightarrow>
    \<not> opt_on (l_state (p_lint S)) ''evil'' \<and> (\<exists>k. pk = Some k \<and> has_id ''(string)'' k) \<and> has_value ''.'' lk \<and> left_of lk = None"
proof -
  have no: "l_thrown (p_lint (snd (run_state (do { report_tok ''W066'' left []; addEvalCode lk k }) S))) \<noteq> Some Fault" for k
    using report_no_fault [OF known_codes(3) running_no_fault [OF assms], of left "[]"]
    by (simp add: addEvalCode_def split_beta)
  have dot: "\<not> value_in [''eval'', ''Function'', ''execScript''] lk" "\<not> value_in timer_names lk" if "has_value ''.'' lk"
    using that by (auto simp: value_in_def has_value_def timer_names_def js_def)
  show ?thesis
    using no dot fault_thrown [OF assms] running_no_fault [OF assms]
      report_no_fault [OF known_codes(2) running_no_fault [OF assms], of left "[]"]
    by (auto simp: check_evaluated_def check_timer_member_def tok_opt_def provided_def opt_def lint_state_def split: option.splits)
qed

text \<open>In \<open>"."("x")\<close> the string is what is called, and the first argument is a string.\<close>

definition string_tok :: "string \<Rightarrow> tok" where
  "string_tok s = (symbol_tok ''(string)'')\<lparr>k_type := ''(string)'', k_value := Some (js s)\<rparr>"

theorem called_string_faults_witness:
  "l_thrown (p_lint (snd (run_state (do { evil \<leftarrow> opt ''evil'';
     provided (\<not> evil) (check_evaluated 1 (string_tok ''.'') (Some (string_tok ''x''))) }) chained_state))) = Some Fault"
proof -
  have n: "\<not> stopped chained_state" by (simp add: chained_state_def initial_pst_def demo_linter_def stopped_def)
  have "s_id (symbol_of ''(string)'') = Some ''(string)''"
    by (simp add: symbol_of_def syntax_lookup all_decls_eval field_defs)
  then show ?thesis
    by (intro called_string_faults [OF n, THEN iffD2]) (simp add: has_id_def has_value_def left_of_def string_tok_def
        symbol_tok_def Let_def chained_state_def initial_pst_def demo_linter_def reset_state_def opt_on_def)
qed

end
