(* ===== verification/TokenKinds.thy ===== *)
theory TokenKinds
  imports LexTheorems ParseRun
begin

text \<open>
  What the tokens of the lexer are like: a token with the name of a bracket or a semicolon is that
  punctuator, one with the name of a string is no punctuator, and the last token of a source is the token \<open>(end)\<close>.
\<close>

section \<open>Names of symbols\<close>

text \<open>A symbol has no \<open>id\<close> or its own name.\<close>

definition own_id :: "string \<Rightarrow> symbol option \<Rightarrow> bool" where
  "own_id s x \<longleftrightarrow> (case x of None \<Rightarrow> True | Some y \<Rightarrow> s_id y = None \<or> s_id y = Some s)"

lemma declared_ids: "list_all (\<lambda>(t, f). \<forall>x. own_id t x \<longrightarrow> own_id t (Some (f x))) all_decls"
  by (simp add: own_id_def all_decls_eval field_defs split: option.split list.split)

lemma decls_for_id:
  "list_all (\<lambda>(t, f). \<forall>x. own_id t x \<longrightarrow> own_id t (Some (f x))) ds \<Longrightarrow> own_id s x \<Longrightarrow> own_id s (decls_for s ds x)"
proof (induction ds arbitrary: x)
  case (Cons d ds)
  then show ?case by (cases d; cases "s = fst d") auto
qed simp

lemma symbol_id: "s_id (symbol_of p) = Some q \<Longrightarrow> q = p"
  using decls_for_id [OF declared_ids, of p None] by (auto simp: own_id_def symbol_of_def empty_symbol_def split: option.splits)

lemma end_symbol: "s_id (symbol_of ''(end)'') = Some ''(end)''" "symbol_type ''(end)'' = None"
  by (simp_all add: symbol_of_def symbol_type_def syntax_lookup all_decls_eval field_defs)

lemma bracket_types: "symbol_type ''{'' = None" "symbol_type ''['' = None" "symbol_type ''(string)'' = Some ''(string)''"
  by (simp_all add: symbol_type_def syntax_lookup all_decls_eval field_defs)

lemma syntax_nameD: "syntax_name v = Some s \<Longrightarrow> v = js s"
  by (auto simp: syntax_name_def find_Some_iff)

section \<open>Names are not punctuators\<close>

definition no_bracket :: "jstr \<Rightarrow> bool" where
  "no_bracket v \<longleftrightarrow> v \<noteq> js ''{'' \<and> v \<noteq> js ''[''"

lemma brackets_no_part:
  "asciiIdentifierPartTable c \<or> isNonAsciiIdentifierPart c \<Longrightarrow> c \<noteq> 123 \<and> c \<noteq> 91"
proof -
  have "\<not> (asciiIdentifierPartTable 123 \<or> isNonAsciiIdentifierPart 123)"
    "\<not> (asciiIdentifierPartTable 91 \<or> isNonAsciiIdentifierPart 91)" by code_simp+
  then show "asciiIdentifierPartTable c \<or> isNonAsciiIdentifierPart c \<Longrightarrow> c \<noteq> 123 \<and> c \<noteq> 91" by auto
qed

lemma ident_loop_append: "\<exists>r. ident_loop inp index idn = idn @ r"
proof (induction inp index idn rule: ident_loop.induct)
  case (1 inp index idn)
  then show ?case by (subst ident_loop.simps) (fastforce split: option.split prod.split)
qed

text \<open>The first unit of a name, escaped or not, is no bracket.\<close>

lemma scanned_name:
  assumes "scanIdentifier st L = (Some (RIdentifier v x), L')"
  shows "no_bracket v"
proof -
  obtain s index where s: "getIdentifierStart (input L) 0 = Some (s, index)"
    and v: "v = removeEscapeSequences (ident_loop (input L) index s)"
    using assms by (auto simp: scanIdentifier_def Let_def split: option.splits)
  obtain r where r: "ident_loop (input L) index s = s @ r" using ident_loop_append by blast
  obtain code where code: "char_at (input L) 0 = Some code" using s by (auto simp: getIdentifierStart_def split: option.splits)
  show ?thesis
  proof (cases "code = 92")
    case False
    then have "s = [code]" "asciiIdentifierPartTable code \<or> isNonAsciiIdentifierPart code"
      using s code by (auto simp: getIdentifierStart_def asciiIdentifierPartTable_def isNonAsciiIdentifierPart_def split: if_splits)
    then show ?thesis using brackets_no_part [of code] False unfolding v r by (simp add: no_bracket_def js_def)
  next
    case True
    define h where "h = opt_str (char_at (input L) 2) @ opt_str (char_at (input L) 3) @ opt_str (char_at (input L) 4) @
      opt_str (char_at (input L) 5)"
    have h: "s = 92 # ch CHR ''u'' # h" "isHex h" "index = 6"
      "asciiIdentifierPartTable (hex_nat h) \<or> isNonAsciiIdentifierPart (hex_nat h)"
      using s code True unfolding h_def
      by (auto simp: getIdentifierStart_def readUnicodeEscapeSequence_def Let_def numeral_eq_Suc split: if_splits)
    have short: "List.length h \<le> 4" "List.length h < 4 \<Longrightarrow> r = []"
    proof -
      have c: "List.length (opt_str (char_at (input L) i)) = (if i < List.length (input L) then 1 else 0)" for i
        by (simp add: char_at_def)
      show "List.length h \<le> 4" by (simp add: h_def c)
      assume "List.length h < 4"
      then have "List.length (input L) \<le> 6" by (auto simp: h_def c split: if_splits)
      then have "getIdentifierPart (input L) index = None" by (simp add: getIdentifierPart_def char_at_def h(3))
      then show "r = []" using r by (subst (asm) ident_loop.simps) simp
    qed
    have decoded: "v = (if 5 \<le> Suc (List.length (h @ r)) \<and> isHex (take 4 (h @ r))
        then fromCharCode (Some (int (hex_nat (take 4 (h @ r))))) # removeEscapeSequences (drop 4 (h @ r))
        else 92 # removeEscapeSequences (ch CHR ''u'' # h @ r))"
      unfolding v r unfolding h(1) by (simp add: js_def starts_with_def substr_def)
    show ?thesis
    proof (cases "List.length h = 4")
      case True
      have "hex_nat h < 65536" using foldl_hex_less [of h 0] h(2) True by (simp add: hex_nat_def isHex_def)
      then show ?thesis
        using decoded h(2,4) True brackets_no_part [of "hex_nat h"]
        by (auto simp: no_bracket_def js_def fromCharCode_def ch_def)
    next
      case False
      then show ?thesis using decoded short by (auto simp: no_bracket_def js_def ch_def)
    qed
  qed
qed

text \<open>What \<open>next\<close> finds is a name only for the two scanners of names.\<close>

definition raw_ok :: "raw_token \<Rightarrow> bool" where
  "raw_ok t \<longleftrightarrow> (case t of RIdentifier v x \<Rightarrow> no_bracket v | RKeyword v \<Rightarrow> no_bracket v | _ \<Rightarrow> True)"

lemma string_ok: "string_loop st q sl sc v nl L = (t, L') \<Longrightarrow> raw_ok t"
proof (induction st q sl sc v nl L rule: string_loop.induct)
  case (1 st q sl sc v nl L)
  then show ?case
    by (subst (asm) (4) string_loop.simps) (auto simp: raw_ok_def split: option.splits prod.splits bool.splits if_splits)
qed

lemma template_ok: "template_loop st tk sl sc d v L = (t, L') \<Longrightarrow> raw_ok t"
proof (induction st tk sl sc d v L rule: template_loop.induct)
  case (1 st tk sl sc d v L)
  then show ?case
    by (subst (asm) (4) template_loop.simps) (auto simp: raw_ok_def Let_def split: option.splits prod.splits bool.splits if_splits)
qed

lemma keyword_ok: "is_keyword v \<Longrightarrow> no_bracket v"
  by (auto simp: is_keyword_def keyword_list_def no_bracket_def js_def)

lemma raw_scanners:
  "scanComments st L = (Some t, L') \<Longrightarrow> raw_ok t"
  "scanStringLiteral st L = (Some t, L') \<Longrightarrow> raw_ok t"
  "scanTemplateLiteral st L = (Some t, L') \<Longrightarrow> raw_ok t"
  "scanRegExp re st L = (Some t, L') \<Longrightarrow> raw_ok t"
  "scan_punctuator L = (Some t, L') \<Longrightarrow> raw_ok t"
  "scan_keyword L = (Some t, L') \<Longrightarrow> raw_ok t"
  "scanIdentifier st L = (Some t, L') \<Longrightarrow> raw_ok t"
  "scanNumericLiteral st L = (Some t, L') \<Longrightarrow> raw_ok t"
  subgoal by (auto simp: scanComments_def commentToken_def raw_ok_def Let_def split: if_splits prod.splits)
  subgoal by (auto simp: scanStringLiteral_def Let_def split: option.splits if_splits prod.splits intro: string_ok)
  subgoal by (auto simp: scanTemplateLiteral_def Let_def split: option.splits if_splits prod.splits intro: template_ok)
  subgoal by (erule scanRegExp_value) (simp add: raw_ok_def)
  subgoal by (auto simp: scan_punctuator_def raw_ok_def split: prod.splits option.splits)
  subgoal by (auto simp: scan_keyword_def scanKeyword_def raw_ok_def keyword_ok split: option.splits if_splits)
  subgoal by (rule scanIdentifier_text, assumption) (use scanned_name in \<open>auto simp: raw_ok_def\<close>)
  subgoal by (erule scanNumericLiteral_text) (simp add: raw_ok_def)
  done

lemma next_ok: "next_token re st L = (Some t, L') \<Longrightarrow> raw_ok t"
  using raw_scanners
  by (auto simp: next_token_def moving_scanners_def looking_scanners_fun_def orelse_def then_skip_def split: prod.splits option.splits)

section \<open>Tokens\<close>

definition proper :: "tok \<Rightarrow> bool" where
  "proper k \<longleftrightarrow> (has_id ''{'' k \<longrightarrow> checkPunctuator k ''{'') \<and> (has_id ''['' k \<longrightarrow> checkPunctuator k ''['') \<and>
     (has_id '';'' k \<longrightarrow> has_value '';'' k) \<and> (has_id ''(string)'' k \<longrightarrow> k_type k \<noteq> ''(punctuator)'')"

definition final :: "tok \<Rightarrow> bool" where
  "final k \<longleftrightarrow> has_id ''(end)'' k \<and> k_type k = ''(end)''"

lemma token_id: "has_id p (token_tok T) \<Longrightarrow> tk_proto T = p"
  using symbol_id by (auto simp: has_id_def token_tok_def symbol_tok_def Let_def)

lemma create_proper:
  assumes "create ty v b raw L = (T, L')" "ty = ''(identifier)'' \<Longrightarrow> no_bracket v" "List.member [''{'', ''['', '';''] ty \<Longrightarrow> False"
  shows "proper (token_tok T)"
proof -
  have T: "tk_proto T = proto_name ty v" "tk_value T = v"
    "tk_type T = (case symbol_type (tk_proto T) of Some t \<Rightarrow> t | None \<Rightarrow> ty)"
    using assms(1) by (auto simp: create_def Let_def)
  have p: "v = js p \<and> (ty = ''(punctuator)'' \<or> ty = ''(identifier)'')" if "has_id p (token_tok T)" "List.member [''{'', ''['', '';''] p" for p
    using token_id [OF that(1)] that(2) assms(3) T(1)
    by (auto simp: proto_name_def split: if_splits option.splits dest: syntax_nameD)
  have "checkPunctuator (token_tok T) p" if "has_id p (token_tok T)" "List.member [''{'', ''[''] p" for p
    using p [OF that(1)] that token_id [OF that(1)] assms(2) T(2,3) bracket_types
    by (auto simp: checkPunctuator_def has_value_def token_tok_def no_bracket_def)
  moreover have "k_type (token_tok T) \<noteq> ''(punctuator)''" if "has_id ''(string)'' (token_tok T)"
    using token_id [OF that] T(3) bracket_types(3) by (simp add: token_tok_def)
  moreover have "has_value '';'' (token_tok T)" if "has_id '';'' (token_tok T)"
    using p [OF that] T(2) by (simp add: has_value_def token_tok_def)
  ultimately show ?thesis unfolding proper_def by simp
qed

lemma made_proper:
  assumes "make_token st t L = (Some x, L')" "raw_ok t"
  shows "proper (item_tok x)"
proof (cases t)
  case (RComment a b c d e)
  then show ?thesis
    using assms(1) by (auto simp: make_token_def Let_def item_tok_def proper_def has_id_def split: if_splits)
next
  case (RPunctuator v)
  then have "\<exists>T b raw M. create ''(punctuator)'' v b raw M = (T, L') \<and> x = LexToken T"
    using assms(1) by (auto simp: make_token_def Let_def split: prod.splits)
  then show ?thesis using create_proper RPunctuator by (fastforce simp: item_tok_def raw_ok_def)
next
  case (RKeyword v)
  then have "\<exists>T b raw M. create ''(identifier)'' v b raw M = (T, L') \<and> x = LexToken T"
    using assms(1) by (auto simp: make_token_def Let_def split: prod.splits)
  then show ?thesis using create_proper assms(2) RKeyword by (fastforce simp: item_tok_def raw_ok_def)
next
  case (RIdentifier v y)
  then have "\<exists>T b raw M. create ''(identifier)'' v b raw M = (T, L') \<and> x = LexToken T"
    using assms(1) by (auto simp: make_token_def Let_def split: prod.splits)
  then show ?thesis using create_proper assms(2) RIdentifier by (fastforce simp: item_tok_def raw_ok_def)
next
  case (RNumeric v b l n m)
  then have "\<exists>T b raw M. create ''(number)'' v b raw M = (T, L') \<and> x = LexToken T"
    using assms(1) by (auto simp: make_token_def Let_def split: prod.splits)
  then show ?thesis using create_proper RNumeric by (fastforce simp: item_tok_def raw_ok_def)
next
  case (RString v startLine startChar u q)
  then have "\<exists>T b raw M. create ''(string)'' v b raw M = (T, L') \<and> x = LexToken T"
    using assms(1) by (auto simp: make_token_def Let_def split: prod.splits)
  then show ?thesis using create_proper RString by (fastforce simp: item_tok_def raw_ok_def)
next
  case (RRegExp v m)
  then have "\<exists>T b raw M. create ''(regexp)'' v b raw M = (T, L') \<and> x = LexToken T"
    using assms(1) by (auto simp: make_token_def Let_def split: prod.splits)
  then show ?thesis using create_proper RRegExp by (fastforce simp: item_tok_def raw_ok_def)
next
  case (RTemplate k v startLine startChar u d c)
  then have "\<exists>T b raw M. create (template_type k) v b raw M = (T, L') \<and> x = LexToken T"
    using assms(1) by (auto simp: make_token_def Let_def split: prod.splits)
  then show ?thesis using create_proper RTemplate by (cases k) (fastforce simp: item_tok_def template_type_def)+
qed

lemma lex_proper:
  "token_loop re st L = (Some x, L') \<Longrightarrow> proper (item_tok x)"
proof (induction re st L rule: token_loop.induct)
  case (1 re st L)
  show ?case
  proof (cases "input L = []")
    case True
    then show ?thesis
      using "1.prems" create_proper [of "''(endline)''"] create_proper [of "''(end)''"]
      by (subst (asm) token_loop.simps) (auto simp: item_tok_def split: prod.splits bool.splits if_splits)
  next
    case False
    obtain x0 L1 where n: "next_token re st L = (x0, L1)" by fastforce
    show ?thesis
    proof (cases x0)
      case None
      then show ?thesis
        using "1.IH"(1) [OF False n [symmetric] None] "1.prems" False n by (subst (asm) (2) token_loop.simps) simp
    next
      case (Some t)
      obtain y L2 where mk: "make_token st t L1 = (y, L2)" by fastforce
      show ?thesis
      proof (cases y)
        case None
        then show ?thesis
          using "1.IH"(2) [OF False n [symmetric] Some mk [symmetric] None] "1.prems" False n Some mk
          by (subst (asm) (2) token_loop.simps) simp
      next
        case (Some z)
        then have "z = x" using "1.prems" False n \<open>x0 = Some t\<close> mk by (subst (asm) token_loop.simps) simp
        then show ?thesis using made_proper mk next_ok n \<open>x0 = Some t\<close> Some by blast
      qed
    qed
  qed
qed

text \<open>The item with which the lexer ends.\<close>

lemma end_final:
  "token_loop re st L = (Some x, L') \<Longrightarrow> \<not> exhausted L \<Longrightarrow> exhausted L' \<Longrightarrow> final (item_tok x)"
proof (induction re st L rule: token_loop.induct)
  case (1 re st L)
  show ?case
  proof (cases "input L = []")
    case True
    obtain b L1 where nl: "nextLine st L = (b, L1)" by fastforce
    have e: "final (item_tok (LexToken T))" if "create ''(end)'' [] False None M = (T, M')" for T M M'
      using that end_symbol
      by (auto simp: create_def Let_def proto_name_def final_def has_id_def item_tok_def token_tok_def symbol_tok_def)
    have c: "exhausted M' = exhausted M" if "create ''(endline)'' [] False None M = (T, M')" for T M M'
      using create_frame [OF that] by simp
    have "exhausted L1 = exhausted L" using nl nextLine_False [of st L L1] nextLine_fields [of st L L1] by (cases b) auto
    then show ?thesis
      using "1.prems" True nl e c by (subst (asm) token_loop.simps) (auto split: bool.splits prod.splits if_splits)
  next
    case False
    obtain x0 L1 where n: "next_token re st L = (x0, L1)" by fastforce
    have 1: "exhausted L1 = exhausted L" using next_token_fwd [OF n] by (simp add: fwd_def)
    show ?thesis
    proof (cases x0)
      case None
      then show ?thesis
        using "1.IH"(1) [OF False n [symmetric] None] "1.prems" False n 1
        by (subst (asm) (2) token_loop.simps) (simp add: unexpected_def trigger_def)
    next
      case (Some t)
      obtain y L2 where mk: "make_token st t L1 = (y, L2)" by fastforce
      have 2: "exhausted L2 = exhausted L" using 1 make_token_frame [OF mk] by simp
      show ?thesis
      proof (cases y)
        case None
        then show ?thesis
          using "1.IH"(2) [OF False n [symmetric] Some mk [symmetric] None] "1.prems" False n Some mk 2
          by (subst (asm) (2) token_loop.simps) simp
      next
        case (Some z)
        then have "L2 = L'" using "1.prems"(1) False n \<open>x0 = Some t\<close> mk by (subst (asm) token_loop.simps) simp
        then show ?thesis using "1.prems" 2 by simp
      qed
    qed
  qed
qed

end
