(* ===== verification/LexSize.thy ===== *)
theory LexSize
  imports LexToken
begin

text \<open>
  How much is left of the source, as a number: every token the lexer hands out makes it smaller, so it
  bounds the number of the tokens that are still to come.
\<close>

definition lexer_left :: "lstate \<Rightarrow> lexer \<Rightarrow> nat" where
  "lexer_left st L = (length (lines L) - line L) * Suc (width st L) + length (input L) + (if exhausted L then 0 else 1)"

text \<open>The input is not longer than a line can be.\<close>

definition fits :: "lstate \<Rightarrow> lexer \<Rightarrow> bool" where
  "fits st L \<longleftrightarrow> length (input L) \<le> width st L"

lemma same_tab:
  assumes "tab st' = tab st"
  shows "width st' L = width st L" "lexer_left st' L = lexer_left st L" "fits st' L = fits st L"
  using assms by (simp_all add: width_def lexer_left_def fits_def)

lemma left_events [simp]:
  "lexer_left st (L\<lparr>events := es\<rparr>) = lexer_left st L" "lexer_left st (L\<lparr>checks := cs\<rparr>) = lexer_left st L"
  "fits st (L\<lparr>events := es\<rparr>) = fits st L" "fits st (L\<lparr>checks := cs\<rparr>) = fits st L"
  by (simp_all add: lexer_left_def fits_def width_def)

lemma fwd_fits: "fwd st L L' \<Longrightarrow> fits st L \<Longrightarrow> fits st L'"
proof -
  assume "fwd st L L'" "fits st L"
  moreover from this have "width st L' = width st L" by (intro width_same) (simp add: fwd_def)
  ultimately show ?thesis by (auto simp: fwd_def fits_def)
qed

lemma fits_same: "lines L' = lines L \<Longrightarrow> length (input L') \<le> length (input L) \<Longrightarrow> fits st L \<Longrightarrow> fits st L'"
  by (simp add: fits_def width_same [of L' L])

lemma token_loop_fits:
  "token_loop re st L = (x, L') \<Longrightarrow> fits st L \<Longrightarrow> fits st L' \<and> lines L' = lines L"
proof (induction re st L rule: token_loop.induct)
  case (1 re st L)
  show ?case
  proof (cases "input L = []")
    case True
    obtain b L1 where nl: "nextLine st L = (b, L1)" by fastforce
    then have f: "fits st L1" "lines L1 = lines L" using fwd_fits "1.prems"(2) nextLine_fwd fwd_lines by blast+
    have c: "fits st L'" if "create ty v p r M = (T, L')" "lines M = lines L1" "input M = input L1" for ty v p r M T
      using fits_same [of L' L1] create_frame [OF that(1)] f that(2,3) by simp
    show ?thesis
      using "1.prems" True nl f c create_frame(1)
      by (subst (asm) token_loop.simps) (fastforce split: bool.splits prod.splits if_splits)
  next
    case False
    obtain x0 L1 where n: "next_token re st L = (x0, L1)" by fastforce
    then have f: "fits st L1" "lines L1 = lines L" using fwd_fits "1.prems"(2) next_token_fwd fwd_lines by blast+
    show ?thesis
    proof (cases x0)
      case None
      have "fits st (unexpected L1)" by (rule fits_same [OF _ _ f(1)]) simp_all
      then show ?thesis
        using "1.IH"(1) [OF False n [symmetric] None] "1.prems" False n None f(2) by (subst (asm) (2) token_loop.simps) simp
    next
      case (Some t)
      obtain y L2 where mk: "make_token st t L1 = (y, L2)" by fastforce
      have f2: "fits st L2" "lines L2 = lines L" using fits_same [OF _ _ f(1)] make_token_frame [OF mk] f(2) by simp_all
      show ?thesis
      proof (cases y)
        case None
        then show ?thesis
          using "1.IH"(2) [OF False n [symmetric] Some mk [symmetric] None] "1.prems" False n Some mk f2
          by (subst (asm) (2) token_loop.simps) simp
      next
        case (Some z)
        then show ?thesis using "1.prems" False n \<open>x0 = Some t\<close> mk f2 by (subst (asm) token_loop.simps) simp
      qed
    qed
  qed
qed

lemma lex_token_fits:
  assumes "lex_token re st L = (x, L')" "fits st L"
  shows "fits st L'" "lines L' = lines L"
proof -
  have "fits st (L\<lparr>checks := []\<rparr>)" by (rule fits_same [OF _ _ assms(2)]) simp_all
  from token_loop_fits [OF assms(1) [unfolded lex_token_def] this] show "fits st L'" "lines L' = lines L" by simp_all
qed

lemma left_less:
  assumes "(L', L) \<in> lex_left" "fits st L'" "lines L' = lines L"
  shows "(length (lines L') - line L') * Suc (width st L') + length (input L') <
      (length (lines L) - line L) * Suc (width st L) + length (input L)"
proof -
  define v where "v = Suc (width st L)"
  have v: "Suc (width st L') = v" by (simp add: v_def width_same [OF assms(3)])
  have less: "a' * v + b' < a * v + b" if "a' < a" "b' < v" for a a' b b'
  proof -
    have "Suc a' * v \<le> a * v" using that(1) by (intro mult_le_mono1) simp
    then have "v + a' * v \<le> a * v" by (simp only: mult_Suc)
    with that(2) show ?thesis by linarith
  qed
  have "length (input L') < v" using assms(2) v by (simp add: fits_def)
  then show ?thesis
    using assms(1) less unfolding v v_def [symmetric] lex_left_iff by auto
qed

text \<open>A token is taken out of what is left.\<close>

lemma lex_token_left:
  assumes "lex_token re st L = (Some x, L')" "fits st L"
  shows "lexer_left st L' < lexer_left st L"
proof -
  note f = lex_token_fits [OF assms]
  have w: "width st L' = width st L" using f(2) by (rule width_same)
  from lex_token_moves [OF assms(1)] show ?thesis
  proof
    assume "advanced L L'"
    then show ?thesis using left_less [OF _ f] by (auto simp: lexer_left_def advanced_def)
  next
    assume "finished L x L'"
    then consider "(L', L) \<in> lex_left" "exhausted L'" | "line L' = line L" "input L = []" "input L' = []" "\<not> exhausted L" "exhausted L'"
      by (auto simp: finished_def)
    then show ?thesis
    proof cases
      case 1
      then show ?thesis using left_less [OF _ f] by (simp add: lexer_left_def)
    next
      case 2
      then show ?thesis unfolding lexer_left_def w f(2) by simp
    qed
  qed
qed

end
