(* ===== verification/Progress.thy ===== *)
theory Progress
  imports ParserInvariants JsonExact TokenKinds LexSize
begin

text \<open>
  How the parser gets on with the source: a number that says how much is left of it, and the relation
  of the states before and after a step. No step enlarges what is left; the tokens to come stay proper,
  the last of them is the token \<open>(end)\<close> once the lexer has nothing left; and the next token stays the next
  one unless something was read.
\<close>

section \<open>What is left\<close>

text \<open>
  A token that the lexer has not handed out counts twice, so that also reading it ahead makes what is left
  smaller.
\<close>

definition unread :: "pst \<Rightarrow> nat" where
  "unread S = lexer_left (l_state (p_lint S)) (p_lexer S)"

definition rest :: "pst \<Rightarrow> nat" where
  "rest S = 2 * unread S + List.length (p_look S)"

section \<open>The width of a tab\<close>

definition keeps_tab :: "linter \<Rightarrow> linter \<Rightarrow> bool" where
  "keeps_tab L L' \<longleftrightarrow> tab (l_state L') = tab (l_state L)"

interpretation tabs: linter_frame keeps_tab
proof unfold_locales
  fix L :: linter and D val
  show "keeps_tab L (ignore_option val D L)"
    by (auto simp: keeps_tab_def ignore_option_def removeIgnoredMessages_def split: option.splits)
qed (auto simp: keeps_tab_def set_option_def put_options_def add_globals_def quit_def fault_def Let_def split: option.splits)

lemma same_unread: "p_lexer S' = p_lexer S \<Longrightarrow> keeps_tab (p_lint S) (p_lint S') \<Longrightarrow> unread S' = unread S"
  using same_tab(2) [of "l_state (p_lint S')" "l_state (p_lint S)"] by (simp add: unread_def keeps_tab_def)

section \<open>The tokens to come\<close>

definition sound :: "pst \<Rightarrow> bool" where
  "sound S \<longleftrightarrow> stream_ok S \<and> list_all (\<lambda>t. proper (p_store S t)) (upcoming S) \<and>
     fits (l_state (p_lint S)) (p_lexer S) \<and>
     (exhausted (p_lexer S) \<longrightarrow> drained (p_lexer S) \<and> final (p_store S (last (upcoming S))))"

definition same_kinds :: "pst \<Rightarrow> pst \<Rightarrow> bool" where
  "same_kinds S S' \<longleftrightarrow> (\<forall>t < p_fresh S. same_kind (p_store S t) (p_store S' t))"

definition onward :: "pst \<Rightarrow> pst \<Rightarrow> bool" where
  "onward S S' \<longleftrightarrow> sound S' \<and> same_kinds S S' \<and> (rest S' < rest S \<or> rest S' = rest S \<and> p_next S' = p_next S)"

definition moves :: "pst \<Rightarrow> pst \<Rightarrow> bool" where
  "moves S S' \<longleftrightarrow> keeps_stream S S' \<and> keeps_tab (p_lint S) (p_lint S') \<and> (sound S \<longrightarrow> stopped S' \<or> onward S S')"

lemma moves_idle: "moves S S' \<Longrightarrow> stopped S \<Longrightarrow> S' = S"
  by (simp add: moves_def keeps_stream_def idle_def)

lemma movesD:
  assumes "moves S S'" "sound S" "\<not> stopped S'"
  shows "sound S'" "same_kinds S S'" "rest S' \<le> rest S" "rest S' = rest S \<Longrightarrow> p_next S' = p_next S" "\<not> stopped S"
  using assms moves_idle [OF assms(1)] by (auto simp: moves_def onward_def)

lemma same_kind_trans: "same_kind k k1 \<Longrightarrow> same_kind k1 k2 \<Longrightarrow> same_kind k k2"
  by (auto simp: has_id_def)

lemma same_kinds_trans:
  assumes "same_kinds S S1" "keeps_stream S S1" "same_kinds S1 S2"
  shows "same_kinds S S2"
  unfolding same_kinds_def
proof (intro allI impI)
  fix t assume "t < p_fresh S"
  moreover from this have "t < p_fresh S1" using assms(2) by (simp add: keeps_stream_def)
  ultimately have "same_kind (p_store S t) (p_store S1 t)" "same_kind (p_store S1 t) (p_store S2 t)"
    using assms(1,3) unfolding same_kinds_def by blast+
  then show "same_kind (p_store S t) (p_store S2 t)" by (rule same_kind_trans)
qed

lemma moves_trans: "moves S S1 \<Longrightarrow> moves S1 S2 \<Longrightarrow> moves S S2"
proof (cases "stopped S1")
  case True
  assume "moves S S1" "moves S1 S2"
  moreover from this(2) have "S2 = S1" using True by (rule moves_idle)
  ultimately show ?thesis by simp
next
  case False
  assume m: "moves S S1" "moves S1 S2"
  have "stopped S2 \<or> onward S S2" if "sound S"
  proof -
    note 1 = movesD [OF m(1) that False]
    have "stopped S2 \<or> onward S1 S2" using m(2) 1(1) by (simp add: moves_def)
    moreover have "same_kinds S S2" if "onward S1 S2"
      using same_kinds_trans [OF 1(2)] m(1) that by (simp add: moves_def onward_def)
    ultimately show ?thesis using 1(3,4) by (auto simp: onward_def)
  qed
  then show ?thesis using m keeps_stream_trans [of S S1 S2] by (simp add: moves_def keeps_tab_def)
qed

lemma proper_kind: "same_kind k k' \<Longrightarrow> proper k \<Longrightarrow> proper k'"
  by (auto simp: proper_def has_id_def checkPunctuator_def has_value_def)

lemma final_kind: "same_kind k k' \<Longrightarrow> final k \<Longrightarrow> final k'"
  by (simp add: final_def has_id_def)

lemma upcoming_fresh: "sound S \<Longrightarrow> \<not> stopped S \<Longrightarrow> t \<in> set (upcoming S) \<Longrightarrow> t < p_fresh S"
  by (auto simp: sound_def stream_ok_def list_all_iff)

text \<open>A step that reads nothing.\<close>

lemma still_moves:
  assumes "keeps_stream S S'" "keeps_tab (p_lint S) (p_lint S')" "p_lexer S' = p_lexer S" "p_look S' = p_look S"
    and "p_next S' = p_next S" "same_kinds S S'"
  shows "moves S S'"
proof -
  have "onward S S'" if "sound S" "\<not> stopped S'"
  proof -
    have "\<not> stopped S" using assms(1) that(2) by (auto simp: keeps_stream_def idle_def)
    note fresh = upcoming_fresh [OF that(1) this]
    have k: "same_kind (p_store S t) (p_store S' t)" if "t \<in> set (upcoming S)" for t
      using assms(6) fresh [OF that] unfolding same_kinds_def by blast
    have ok: "stream_ok S'" using that(1) assms(1) by (auto simp: sound_def keeps_stream_def)
    have fit: "fits (l_state (p_lint S')) (p_lexer S')"
      using that(1) assms(2,3) same_tab(3) [of "l_state (p_lint S')" "l_state (p_lint S)"] by (simp add: sound_def keeps_tab_def)
    have "sound S'"
      using that(1) ok fit proper_kind [OF k] final_kind [OF k [OF last_in_set]] assms(3-5)
      unfolding sound_def by (auto simp: list_all_iff)
    then show ?thesis using assms(2-6) same_unread [of S' S] by (simp add: onward_def rest_def)
  qed
  then show ?thesis using assms(1,2) by (auto simp: moves_def)
qed

lemma same_kinds_refl: "p_store S' = p_store S \<Longrightarrow> same_kinds S S'"
  by (simp add: same_kinds_def)

lemma moves_refl: "moves S S"
  by (simp add: still_moves keeps_stream_refl keeps_tab_def same_kinds_refl)

lemma still_obeys:
  fixes m :: "'a parser"
  defines "post \<equiv> \<lambda>S. snd (run_state m S)"
  assumes "obeys keeps_stream m" "obeys tabs.Q m"
    "\<And>S. p_lexer (post S) = p_lexer S \<and> p_look (post S) = p_look S \<and> p_next (post S) = p_next S \<and> same_kinds S (post S)"
  shows "obeys moves m"
  using still_moves [OF obeysD [OF assms(2)] obeysD [OF assms(3)]] assms(4) by (intro obeysI) (simp add: post_def)

section \<open>Reading a token\<close>

lemma drained_None:
  assumes "lex_token re st L = (x, L')" "drained L"
  shows "x = None \<and> L' = L\<lparr>checks := []\<rparr>"
  using assms by (auto simp: lex_token_def token_loop.simps nextLine_def drained_def)

text \<open>What the lexer hands out, and what it is like afterwards.\<close>

lemma lex_token_facts:
  assumes "lex_token re st L = (x, L')" "exhausted L \<longrightarrow> drained L"
  shows "x = None \<Longrightarrow> drained L \<and> L' = L\<lparr>checks := []\<rparr>"
    "x = Some it \<Longrightarrow> \<not> exhausted L \<and> proper (item_tok it) \<and> (exhausted L' \<longrightarrow> drained L' \<and> final (item_tok it))"
proof -
  show "drained L \<and> L' = L\<lparr>checks := []\<rparr>" if "x = None"
    using lex_token_None [of re st L L'] drained_None [OF assms(1)] assms that by auto
  show "\<not> exhausted L \<and> proper (item_tok it) \<and> (exhausted L' \<longrightarrow> drained L' \<and> final (item_tok it))" if x: "x = Some it"
  proof -
    have ex: "\<not> exhausted L" using drained_None [OF assms(1)] assms(2) x by auto
    have t: "token_loop re st (L\<lparr>checks := []\<rparr>) = (Some it, L')" using assms(1) x by (simp add: lex_token_def)
    have "drained L'" if "exhausted L'"
      using lex_token_moves [OF assms(1) [unfolded x]] ex that by (auto simp: advanced_def finished_def drained_def)
    then show ?thesis using lex_proper [OF t] end_final [OF t] ex by simp
  qed
qed

text \<open>A token is read; it is not yet put among the tokens to come.\<close>

lemma tab_read: "keeps_tab (p_lint S) (p_lint (snd (read_token S)))"
  using tabs.Q_read by simp

lemma read_facts:
  assumes "read_token S = (x, S1)" "sound S" "\<not> stopped S"
  shows "p_next S1 = p_next S" "p_look S1 = p_look S" "fits (l_state (p_lint S1)) (p_lexer S1)"
    "x = None \<Longrightarrow> rest S1 = rest S \<and> p_fresh S1 = p_fresh S \<and> p_store S1 = p_store S \<and> exhausted (p_lexer S1) \<and> (stopped S1 \<or> sound S1)"
    "x = Some t \<Longrightarrow> \<not> stopped S1 \<Longrightarrow> t = p_fresh S \<and> p_fresh S1 = Suc t \<and> (\<forall>u. u \<noteq> t \<longrightarrow> p_store S1 u = p_store S u) \<and>
       proper (p_store S1 t) \<and> (exhausted (p_lexer S1) \<longrightarrow> drained (p_lexer S1) \<and> final (p_store S1 t))"
    "x = Some t \<Longrightarrow> unread S1 < unread S"
proof -
  let ?st = "l_state (synced S)" and ?L = "(p_lexer S)\<lparr>events := []\<rparr>"
  obtain y L where y: "lex_token (p_re S) ?st ?L = (y, L)" by fastforce
  have d: "exhausted ?L \<longrightarrow> drained ?L"
    using assms(2) by (simp add: sound_def drained_def)
  have tabs: "tab ?st = tab (l_state (p_lint S))" "tab (l_state (p_lint S1)) = tab (l_state (p_lint S))"
    using tab_read [of S] assms(1) by (simp_all add: synced_def keeps_tab_def)
  have fit: "fits ?st ?L"
    using assms(2) same_tab(3) [OF tabs(1)] by (simp add: sound_def)
  note facts = lex_token_facts [OF y d]
  note r = read_stream [OF assms(1,3)]
  show n: "p_next S1 = p_next S" "p_look S1 = p_look S" using r by simp_all
  have x: "x = None \<longleftrightarrow> y = None" using assms(1) by (auto simp: read_token_def y Let_def split: option.splits prod.splits)
  have lexer: "p_lexer S1 = L"
    using assms(1) alloc_left [of _ "S\<lparr>p_lexer := L, p_lint := lex_listeners (events L) (synced S)\<rparr>"]
    by (auto simp: read_token_def Let_def y split: option.splits prod.splits)
  have left: "lexer_left (l_state (p_lint S1)) M = lexer_left ?st M" "fits (l_state (p_lint S1)) M = fits ?st M" for M
    using same_tab(2,3) [of "l_state (p_lint S1)" ?st] tabs by simp_all
  have same: "lexer_left ?st ?L = unread S"
    using same_tab(2) [OF tabs(1)] by (simp add: unread_def)
  show fit1: "fits (l_state (p_lint S1)) (p_lexer S1)" using lex_token_fits(1) [OF y fit] left lexer by simp
  show "rest S1 = rest S \<and> p_fresh S1 = p_fresh S \<and> p_store S1 = p_store S \<and> exhausted (p_lexer S1) \<and> (stopped S1 \<or> sound S1)"
    if "x = None"
  proof -
    have "y = None" using x that by simp
    then have dr: "drained (p_lexer S)" "L = ?L\<lparr>checks := []\<rparr>" using facts(1) by (simp_all add: drained_def)
    have S1: "p_store S1 = p_store S" "p_fresh S1 = p_fresh S" "p_prev S1 = p_prev S" "p_curr S1 = p_curr S"
      using assms(1) that x by (auto simp: read_token_def y Let_def split: option.splits prod.splits)
    have "unread S1 = unread S"
      using left(1) same unfolding unread_def [of S1] lexer dr(2) by simp
    moreover have "stream_ok S1" if "\<not> stopped S1" using assms(2,3) S1 n by (simp add: sound_def stream_ok_def)
    moreover have "drained (p_lexer S1)" using dr unfolding lexer by (simp add: drained_def)
    ultimately show ?thesis using assms(2) S1 n fit1 dr(1) by (auto simp: rest_def sound_def drained_def)
  qed
  show "t = p_fresh S \<and> p_fresh S1 = Suc t \<and> (\<forall>u. u \<noteq> t \<longrightarrow> p_store S1 u = p_store S u) \<and>
       proper (p_store S1 t) \<and> (exhausted (p_lexer S1) \<longrightarrow> drained (p_lexer S1) \<and> final (p_store S1 t))"
    if s: "x = Some t" "\<not> stopped S1"
  proof -
    obtain it where it: "y = Some it" using x s by auto
    let ?S = "S\<lparr>p_lexer := L, p_lint := lex_listeners (events L) (synced S)\<rparr>"
    have S1: "run_state (alloc (item_tok it)) ?S = (t, S1)" using assms(1) s(1) by (simp add: read_token_def y it Let_def split: prod.splits)
    moreover from this have "\<not> stopped ?S" using s(2) by (auto simp: alloc_def split: if_splits)
    ultimately have "t = p_fresh S \<and> p_fresh S1 = Suc t \<and> p_store S1 = (p_store S)(t := item_tok it) \<and> p_lexer S1 = L"
      by (auto simp: alloc_def)
    then show ?thesis using facts(2) [OF it] by simp
  qed
  show "unread S1 < unread S" if s: "x = Some t"
  proof -
    obtain it where "y = Some it" using x s by auto
    from lex_token_left [OF y [unfolded this] fit] show ?thesis using left same unfolding unread_def [of S1] lexer by simp
  qed
qed

text \<open>A token is read ahead.\<close>

lemma append_moves:
  assumes "read_token S = (Some t, S1)" "sound S" "\<not> stopped S" "\<not> stopped S1"
  shows "moves S (S1\<lparr>p_look := p_look S1 @ [t]\<rparr>)" "rest (S1\<lparr>p_look := p_look S1 @ [t]\<rparr>) < rest S"
proof -
  let ?T = "S1\<lparr>p_look := p_look S1 @ [t]\<rparr>"
  note f = read_facts [OF assms(1-3)]
  note g = f(5) [OF refl assms(4)]
  note r = read_stream [OF assms(1,3)]
  have k: "keeps_stream S ?T"
    using assms(3,4) r g assms(2) by (auto simp: keeps_stream_def idle_def stream_ok_def stopped_def list_all_iff)
  have "stream_ok ?T" using k assms(2,3) by (simp add: keeps_stream_def sound_def)
  moreover have "proper (p_store ?T u)" if "u \<in> set (upcoming ?T)" for u
  proof (cases "u = t")
    case False
    then have "u \<in> set (upcoming S)" using that f(1,2) by auto
    then show ?thesis using assms(2) g False by (auto simp: sound_def list_all_iff)
  qed (use g in auto)
  ultimately have "sound ?T" using g f(3) by (auto simp: sound_def list_all_iff)
  moreover have "same_kinds S ?T" using g by (auto simp: same_kinds_def)
  moreover show l: "rest ?T < rest S" using f(2) f(6) [OF refl] by (simp add: rest_def unread_def)
  moreover have "keeps_tab (p_lint S) (p_lint ?T)" using tab_read [of S] assms(1) by simp
  ultimately show "moves S ?T" using k by (simp add: moves_def onward_def)
qed

lemma end_moves:
  assumes "read_token S = (None, S1)" "sound S" "\<not> stopped S"
  shows "moves S S1"
  using read_facts [OF assms] keeps_fill [of S 1] tab_read [of S] assms
  by (auto simp: moves_def onward_def same_kinds_refl next_ref_def split: if_splits)

text \<open>
  The result of \<open>peek\<close>: the token with its index, or the last one there is.
\<close>

definition fetched :: "nat \<Rightarrow> nat \<Rightarrow> pst \<Rightarrow> bool" where
  "fetched n t S \<longleftrightarrow> (if n < List.length (p_look S) then t = p_look S ! n
     else t = last (upcoming S) \<and> exhausted (p_lexer S))"

lemma fill_facts:
  "sound S \<Longrightarrow> \<not> stopped S \<Longrightarrow> run_state (fill_lookahead (Suc n)) S = (t, S') \<Longrightarrow>
    moves S S' \<and> (stopped S' \<or> fetched (List.length (p_look S) + n) t S')"
proof (induction n arbitrary: S)
  case (0 S)
  obtain x S1 where x: "read_token S = (x, S1)" by fastforce
  show ?case
  proof (cases x)
    case None
    then show ?thesis
      using "0.prems" x end_moves [of S S1] read_facts [OF x "0.prems"(1,2)]
      by (auto simp: next_ref_def fetched_def split: if_splits)
  next
    case (Some u)
    show ?thesis
    proof (cases "stopped S1")
      case True
      then show ?thesis
        using "0.prems" x Some keeps_fill [of S 1] tab_read [of S] by (auto simp: moves_def)
    next
      case False
      then show ?thesis
        using "0.prems" x append_moves [OF x [unfolded Some] "0.prems"(1,2)] Some read_facts(2) [OF x "0.prems"(1,2)]
        by (auto simp: fetched_def)
    qed
  qed
next
  case (Suc n S)
  obtain x S1 where x: "read_token S = (x, S1)" by fastforce
  note f = read_facts [OF x Suc.prems(1,2)]
  show ?case
  proof (cases x)
    case None
    then show ?thesis
      using Suc.prems x end_moves [of S S1] f
      by (auto simp: next_ref_def fetched_def split: if_splits)
  next
    case (Some u)
    show ?thesis
    proof (cases "stopped S1")
      case True
      then have "S' = S1" "t = fst (run_state (fill_lookahead (Suc n)) S1)"
        using Suc.prems(2,3) x Some idle_read [of S1 "Suc n"] by (auto simp del: fill_lookahead.simps(2) simp: fill_lookahead.simps(2) [of "Suc n"])
      moreover have "keeps_stream S S1" "keeps_tab (p_lint S) (p_lint S1)"
        using keeps_fill [of S 1] tab_read [of S] Suc.prems(2) x Some True by simp_all
      ultimately show ?thesis using True by (simp add: moves_def)
    next
      case False
      let ?T = "S1\<lparr>p_look := p_look S1 @ [u]\<rparr>"
      have T: "moves S ?T" using append_moves [OF x [unfolded Some] Suc.prems(1,2) False] by simp
      have sT: "sound ?T" "\<not> stopped ?T" using movesD(1) [OF T Suc.prems(1)] False by (simp_all add: stopped_def)
      have run: "run_state (fill_lookahead (Suc n)) ?T = (t, S')"
        using Suc.prems(2,3) x Some False by (simp del: fill_lookahead.simps(2) add: fill_lookahead.simps(2) [of "Suc n"])
      from Suc.IH [OF sT run] have r: "moves ?T S'"
        "stopped S' \<or> fetched (List.length (p_look S) + Suc n) t S'" using f(2) by auto
      then show ?thesis using moves_trans [OF T] by blast
    qed
  qed
qed

lemma peek_facts:
  assumes "run_state (peek_token i) S = (t, S')" "sound S" "\<not> stopped S"
  shows "moves S S'" "stopped S' \<or> fetched i t S'"
proof -
  have "moves S S' \<and> (stopped S' \<or> fetched i t S')"
  proof (cases "i < List.length (p_look S)")
    case True
    then show ?thesis using assms by (auto simp: peek_token_def fetched_def moves_refl)
  next
    case False
    then obtain n where n: "Suc i - List.length (p_look S) = Suc n" "i = List.length (p_look S) + n"
      by (metis Suc_diff_le add_diff_inverse_nat le_add_diff_inverse not_less)
    have "run_state (fill_lookahead (Suc n)) S = (t, S')" using assms(1) False n(1) by (simp add: peek_token_def)
    from fill_facts [OF assms(2,3) this] show ?thesis unfolding n(2) .
  qed
  then show "moves S S'" "stopped S' \<or> fetched i t S'" by simp_all
qed

section \<open>\<open>advance\<close>\<close>

text \<open>The next token is replaced by the first one that is still to come.\<close>

definition eaten :: "pst \<Rightarrow> pst \<Rightarrow> bool" where
  "eaten S S' \<longleftrightarrow> stopped S' \<or> rest S' < rest S"

lemma tab_shift: "keeps_tab (p_lint S) (p_lint (snd (shift_token S)))"
  using tab_read [of S] by (simp add: shift_token_def keeps_tab_def split: list.split)

lemma shift_moves:
  assumes "shift_token S = (Some t, S1)" "sound S" "\<not> stopped S" "\<not> stopped S1"
  shows "moves S (S1\<lparr>p_next := t\<rparr>)" "eaten S (S1\<lparr>p_next := t\<rparr>)"
proof -
  let ?T = "S1\<lparr>p_next := t\<rparr>"
  have k: "keeps_stream S ?T" using keeps_shift [OF assms(1,3)] assms(4) by simp
  have ok: "stream_ok ?T" using k assms(2) by (simp add: keeps_stream_def sound_def)
  have "same_kinds S ?T \<and> sound ?T \<and> rest ?T < rest S"
  proof (cases "p_look S")
    case (Cons u r)
    then have "t = u" "S1 = S\<lparr>p_look := r\<rparr>" using assms(1) by (simp_all add: shift_token_def)
    then show ?thesis
      using ok assms(2) Cons by (auto simp: same_kinds_refl sound_def rest_def unread_def)
  next
    case Nil
    then have r: "read_token S = (Some t, S1)" using assms(1) by (simp add: shift_token_def)
    note f = read_facts [OF r assms(2,3)]
    show ?thesis using f(5) [OF refl assms(4)] f(2,3) f(6) [OF refl] Nil ok
      by (auto simp: same_kinds_def sound_def rest_def unread_def)
  qed
  then show "moves S ?T" "eaten S ?T" using k tab_shift [of S] assms(1) by (simp_all add: moves_def onward_def eaten_def)
qed

lemma tab_quit: "keeps_tab (p_lint S) (p_lint (snd (run_state (quit_tok code t) S)))"
  using obeysD [OF tabs.Q_lint [OF tabs.P_quit]] by (simp add: quit_tok_def tok_at_def)

lemma null_moves:
  assumes "shift_token S = (None, S1)" "\<not> stopped S"
  shows "moves S (snd (run_state (quit_tok code t) (S1\<lparr>p_next := p_fresh S1\<rparr>)))"
  using keeps_null [OF assms] quit_stops tab_shift [of S] tab_quit [of "S1\<lparr>p_next := p_fresh S1\<rparr>" code t] assms(1)
  by (simp add: moves_def keeps_tab_def)

lemma checks_moves: "moves S (snd (run_state (run_token_checks t) S))" "moves S (snd (run_state (apply_directive t) S))"
proof -
  have c: "same_kinds S (snd (run_state (run_token_checks t) S))" "p_next (snd (run_state (run_token_checks t) S)) = p_next S"
    by (auto simp: run_token_checks_def tok_at_def lint_def upd_token_def same_kinds_def)
  have d: "same_kinds S (snd (run_state (apply_directive t) S))" "p_next (snd (run_state (apply_directive t) S)) = p_next S"
    by (auto simp: apply_directive_def tok_at_def lint_get_def upd_token_def curr_ref_def Let_def provided_def same_kinds_def
        split: prod.splits)
  show "moves S (snd (run_state (run_token_checks t) S))"
    by (rule still_moves [OF keeps_checks tabs.Q_checks]) (simp_all add: c)
  show "moves S (snd (run_state (apply_directive t) S))"
    by (rule still_moves [OF keeps_directive tabs.Q_apply_directive]) (simp_all add: d)
qed

lemma loop_idle: "stopped T \<Longrightarrow> advance_loop T = T"
  by (simp add: advance_loop.simps)

lemma loop_moves: "sound S \<Longrightarrow> moves S (advance_loop S) \<and> (stopped S \<or> eaten S (advance_loop S))"
proof (induction S rule: advance_loop.induct)
  case (1 S)
  show ?case
  proof (cases "stopped S")
    case True
    then show ?thesis by (simp add: loop_idle moves_refl)
  next
    case False
    obtain x S1 where x: "shift_token S = (x, S1)" by fastforce
    show ?thesis
    proof (cases x)
      case None
      then show ?thesis
        using null_moves x False quit_stops by (subst (1 2) advance_loop.simps) (simp add: eaten_def)
    next
      case (Some t)
      let ?S2 = "S1\<lparr>p_next := t\<rparr>"
      let ?S3 = "snd (run_state (run_token_checks t) ?S2)"
      let ?S4 = "snd (run_state (apply_directive t) ?S3)"
      show ?thesis
      proof (cases "stopped S1")
        case True
        then show ?thesis
          using keeps_shift [of S t S1] tab_shift [of S] x Some False
          by (subst (1 2) advance_loop.simps) (simp add: moves_def eaten_def)
      next
        case ok: False
        have 2: "moves S ?S2" "eaten S ?S2" using shift_moves x Some "1.prems" False ok by blast+
        have so: "sound ?S2" using movesD(1) [OF 2(1) "1.prems"] ok by (simp add: stopped_def)
        have more: "moves S T \<and> eaten S T" if "moves ?S2 T" for T
        proof (cases "stopped T")
          case False
          have "rest ?S2 < rest S" using 2(2) ok by (simp add: eaten_def stopped_def)
          then show ?thesis using moves_trans [OF 2(1) that] movesD(3) [OF that so False] by (simp add: eaten_def)
        qed (simp add: moves_trans [OF 2(1) that] eaten_def)
        have 3: "moves ?S2 ?S3" "moves ?S2 ?S4" using moves_trans checks_moves by blast+
        have go: "moves ?S2 (advance_loop T)" if "moves ?S2 T" "sound T \<Longrightarrow> moves T (advance_loop T)" for T
        proof (cases "stopped T")
          case True
          then show ?thesis using that(1) by (simp add: loop_idle)
        next
          case False
          then show ?thesis using moves_trans [OF that(1) that(2)] movesD(1) [OF that(1) so] by blast
        qed
        show ?thesis
          using 2 more [OF 3(1)] more [OF go [OF 3(1)]] more [OF go [OF 3(2)]] "1.IH" [OF False x [symmetric] Some ok refl refl]
          by (subst (1 2) advance_loop.simps) (simp add: x Some False ok Let_def)
      qed
    qed
  qed
qed

lemma advance_moves:
  "moves S (snd (run_state (advance_to expected related) S))"
  "sound S \<Longrightarrow> \<not> stopped S \<Longrightarrow> eaten S (snd (run_state (advance_to expected related) S))"
proof -
  let ?S1 = "snd (run_state (expectation expected related) S)"
  let ?S2 = "move_on ?S1"
  have r: "tabs.Q T (snd (run_state (report_tok code t args) T))" for T code t args
    by (rule obeysD [OF tabs.report_steps(1)])
  have "keeps_stream S ?S1"
    by (rule expectation_cases) (simp_all add: report_tok_def tok_at_def keeps_lint keeps_stream_refl)
  moreover have "keeps_tab (p_lint S) (p_lint ?S1)" by (rule expectation_cases [where Q = tabs.Q, OF tabs.P_refl r])
  ultimately have 1: "keeps_stream S ?S1" "keeps_tab (p_lint S) (p_lint ?S1)" by simp_all
  have same: "p_lexer ?S1 = p_lexer S \<and> p_look ?S1 = p_look S \<and> p_next ?S1 = p_next S \<and> p_store ?S1 = p_store S"
    by (rule expectation_cases) (simp_all add: report_tok_def tok_at_def lint_def)
  have 2: "keeps_stream T (move_on T)" "keeps_tab (p_lint T) (p_lint (move_on T))" "p_lexer (move_on T) = p_lexer T \<and> p_look (move_on T) = p_look T \<and>
      p_next (move_on T) = p_next T \<and> p_store (move_on T) = p_store T" for T
    by (auto simp: move_on_def keeps_stream_def idle_def stream_ok_def stopped_def keeps_tab_def)
  have m: "moves S ?S2"
    by (rule moves_trans [of _ ?S1]; rule still_moves; simp add: 1 same 2 same_kinds_refl)
  have end_: "snd (run_state (advance_to expected related) S) = advance_loop ?S2" by (simp add: advance_parts)
  have k: "keeps_stream S (advance_loop ?S2)" "keeps_tab (p_lint S) (p_lint (advance_loop ?S2))"
    using keeps_advance [of S expected related] obeysD [OF tabs.Q_advance [of expected related], of S] by (simp_all add: end_)
  have "moves S (advance_loop ?S2) \<and> eaten S (advance_loop ?S2)" if "sound S" "\<not> stopped S"
  proof (cases "stopped ?S2")
    case True
    then show ?thesis using m by (simp add: loop_idle eaten_def)
  next
    case False
    note so = movesD [OF m that(1) False]
    show ?thesis
      using loop_moves [OF so(1)] False moves_trans [OF m] so(3) by (auto simp: eaten_def)
  qed
  note go = this
  show "sound S \<Longrightarrow> \<not> stopped S \<Longrightarrow> eaten S (snd (run_state (advance_to expected related) S))"
    unfolding end_ using go by blast
  have "stopped S \<Longrightarrow> advance_loop ?S2 = S" using k(1) by (simp add: keeps_stream_def idle_def)
  then show "moves S (snd (run_state (advance_to expected related) S))"
    unfolding end_ using go k by (cases "sound S \<and> \<not> stopped S") (simp, auto simp: moves_def)
qed

section \<open>All steps\<close>

lemma kinds_scope: "same_kinds S (snd (run_state (scope_op e) S)) \<and> p_lexer (snd (run_state (scope_op e) S)) = p_lexer S \<and>
    p_look (snd (run_state (scope_op e) S)) = p_look S \<and> p_next (snd (run_state (scope_op e) S)) = p_next S"
proof -
  have "p_store (fold add_outer ns T) = p_store T \<and> p_lexer (fold add_outer ns T) = p_lexer T \<and>
      p_look (fold add_outer ns T) = p_look T \<and> p_next (fold add_outer ns T) = p_next T" for ns T
    by (induction ns arbitrary: T) (simp_all add: add_outer_def)
  then show ?thesis by (simp add: scope_op_def Let_def same_kinds_refl)
qed

lemma lint_moves: "(\<And>L. keeps_tab L (f L)) \<Longrightarrow> obeys moves (lint f)"
  by (rule still_obeys [OF obeysI tabs.Q_lint]) (simp_all add: keeps_lint, simp add: lint_def same_kinds_refl)

lemma renaming_moves: "obeys moves (renaming h)"
  by (rule still_obeys [OF stream_renaming tabs.Q_renaming]) (simp_all add: renaming_def same_kinds_refl)

lemma names_move [obeys_step]: "obeys moves names_push" "obeys moves names_pop"
  by (simp_all add: names_parts renaming_moves)

interpretation moving: parser_frame moves
proof unfold_locales
  show "obeys moves (renaming h)" for h by (rule renaming_moves)
  show "obeys moves m \<Longrightarrow> obeys moves (nested m)" for m :: "nat option parser"
    using moves_trans moves_refl renaming_moves by (rule nested_obeys)
  show "moves S S" for S by (rule moves_refl)
  show "moves S S1 \<Longrightarrow> moves S1 S2 \<Longrightarrow> moves S S2" for S S1 S2 by (rule moves_trans)
  show "obeys moves (upd f)" if "\<And>S. frame S (f S)" for f
    by (rule still_obeys [OF stream.framed [OF that] tabs.framed [OF that]])
      (use that in \<open>simp_all add: frame_def same_kinds_def\<close>)
  show "obeys moves (upd_funct g)" if "\<And>F. f_context (g F) = f_context F" for g
    by (rule still_obeys [OF stream.functor_notes [OF that] tabs.functor_notes [OF that]])
      (simp_all add: upd_funct_def same_kinds_refl)
  show "obeys moves (upd_lstate h)" if "same_setting h" for h
    by (rule still_obeys [OF stream.options [OF that] tabs.options [OF that]]) (simp_all add: upd_lstate_def same_kinds_refl)
  show "obeys moves (upd_lstate (put_options os is))" for os "is"
    by (rule still_obeys [OF stream.restoring tabs.restoring]) (simp_all add: upd_lstate_def same_kinds_refl)
  show "obeys moves (lint (warning code p args))" "obeys moves (lint (warningAt code l c args))"
      "obeys moves (lint (quit code p' args))" "obeys moves (lint fault)" for code p args l c p'
    by (rule lint_moves, simp add: warningAt_def tabs.P_warning tabs.P_quit tabs.P_fault)+
  show "obeys moves (scope_op e)" if "\<And>E. is_call E (e E)" for e
    by (rule still_obeys [OF stream.scopes [OF that] tabs.scopes [OF that]]) (simp_all add: kinds_scope)
  show "obeys moves (alloc k)" for k
    by (rule still_obeys [OF stream.allocation tabs.allocation]) (simp_all add: alloc_def same_kinds_def)
  show "obeys moves (advance_to expected related)" for expected related by (rule obeysI) (rule advance_moves)
  show "obeys moves out_of_fuel"
    by (rule still_obeys [OF stream.cut_off tabs.cut_off]) (simp_all add: out_of_fuel_def same_kinds_refl)
  show "obeys moves (upd f)" if "\<And>S. outside_functors S (f S)" for f
    by (rule still_obeys [OF stream.unnoticed [OF that] tabs.unnoticed [OF that]])
      (use that in \<open>simp_all add: outside_functors_def same_kinds_refl\<close>)
  show "obeys moves (peek_token i)" for i
  proof (rule obeysI)
    fix S
    obtain t S' where r: "run_state (peek_token i) S = (t, S')" by fastforce
    have k: "keeps_stream S S'" "keeps_tab (p_lint S) (p_lint S')"
      using keeps_peek [of S i] obeysD [OF tabs.Q_peek [of i], of S] r by simp_all
    show "moves S (snd (run_state (peek_token i) S))"
      using peek_facts(1) [OF r] k r by (cases "stopped S") (auto simp: moves_def keeps_stream_def idle_def)
  qed
qed

end
