(* ===== verification/IndentKept.thy ===== *)
theory IndentKept
  imports ParserInvariants ParserObjects
begin

text \<open>
  The indentation stays a positive number: directives only set it to one, and a function that is left puts
  back the options it was entered with.
\<close>

definition indent_of :: "linter \<Rightarrow> int" where
  "indent_of L = (case option (l_state L) ''indent'' of JNum n \<Rightarrow> n | JBool True \<Rightarrow> 1 | _ \<Rightarrow> 0)"

definition keeps_indent :: "linter \<Rightarrow> linter \<Rightarrow> bool" where
  "keeps_indent L L' \<longleftrightarrow> (0 < indent_of L \<longrightarrow> 0 < indent_of L')"

lemma same_indent: "option (l_state L') ''indent'' = option (l_state L) ''indent'' \<Longrightarrow> keeps_indent L L'"
  by (simp add: keeps_indent_def indent_of_def)

interpretation indent: linter_relation keeps_indent
proof unfold_locales
  fix L :: linter and D val
  show "keeps_indent L (ignore_option val D L)"
    by (rule same_indent) (auto simp: ignore_option_def removeIgnoredMessages_def split: option.splits)
  show "keeps_indent L (set_option ''indent'' (JNum i) L)" if "0 < i" for i
    using that by (simp add: keeps_indent_def indent_of_def set_option_def)
qed (auto simp: keeps_indent_def indent_of_def add_globals_def quit_def fault_def Let_def split: option.splits)

text \<open>The options of a function are those it was entered with.\<close>

lemma indent_doFunction:
  assumes "parser_calls indent.Q Rc"
  shows "obeys indent.Q (doFunction Rc c opts)"
proof (rule obeysI)
  fix S :: pst
  let ?b = "ctx_has c ctx_preAsync"
  obtain os "is" where options: "os = option (l_state (p_lint S))" "is = ignored (l_state (p_lint S))" by blast
  define S1 where "S1 = snd (run_state (enter_function ?b opts) S)"
  define S2 where "S2 = snd (run_state (function_parts Rc (function_context ?b opts c) opts) S1)"
  define S3 where "S3 = snd (run_state (leave_notes opts) S2)"
  define S4 where "S4 = snd (run_state (upd_lstate (put_options os is)) S3)"
  define S5 where "S5 = snd (run_state leave_scopes S4)"
  define S6 where "S6 = (if stopped S5 then S5 else S5\<lparr>p_funct := p_funct S\<rparr>)"
  define S7 where "S7 = snd (run_state (check_loop_function (p_functions S) (p_curr S1) opts) S6)"
  have enter: "fst (run_state (enter_function ?b opts) S) = (p_functions S, p_funct S)" "p_lint S1 = p_lint S"
    by (simp_all add: S1_def enter_function_def names_infer_def next_ref_def next_tok_def Let_def)
  have "indent.Q S1 S2" "indent.Q S2 S3" "indent.Q S4 S5" "indent.Q S6 S7"
    using parser_calls.around_function [OF assms] indent.leave_parts_obey
    by (simp_all add: S2_def S3_def S5_def S7_def obeys_def)
  moreover have "indent.Q S S4" if "indent.Q S S3"
    using that by (simp add: S4_def upd_lstate_def put_options_def keeps_indent_def indent_of_def options)
  moreover have "p_lint S6 = p_lint S5" by (simp add: S6_def)
  ultimately have "indent.Q S S7" using enter(2) by (simp add: keeps_indent_def)
  moreover have "snd (run_state (doFunction Rc c opts) S) = S7"
    using enter(1)
    by (simp add: doFunction_def leave_parts lint_state_def curr_ref_def Let_def split_beta S7_def S6_def S5_def S4_def
        S3_def S2_def S1_def options)
  ultimately show "indent.Q S (snd (run_state (doFunction Rc c opts) S))" by simp
qed

interpretation indent: parser_contract indent.Q
  by unfold_locales (rule indent_doFunction)

end
