(* ===== verification/EndRules.thy ===== *)
theory EndRules
  imports Progress IndentKept
begin

text \<open>
  When the parser comes to an end: rules for steps that are not cut off from states with less than a
  given amount of the source left. The one loop of the program that may run forever, the search for the
  indentation of a block, is the exception.
\<close>

section \<open>Ends\<close>

abbreviation indent_width :: "pst \<Rightarrow> int" where
  "indent_width S \<equiv> indent_of (p_lint S)"

definition ended :: "pst \<Rightarrow> bool" where
  "ended S \<longleftrightarrow> (p_stuck S \<longrightarrow> indent_width S \<le> 0)"

definition ends :: "nat \<Rightarrow> pst \<Rightarrow> pst \<Rightarrow> bool" where
  "ends w S S' \<longleftrightarrow> moves S S' \<and> (sound S \<longrightarrow> \<not> p_stuck S \<longrightarrow> rest S < w \<longrightarrow> ended S')"

lemma ends_moves: "obeys (ends w) m \<Longrightarrow> obeys moves m"
  by (simp add: obeys_def ends_def)

lemma ends_refl: "ends w S S"
  by (simp add: ends_def moves_refl ended_def)

lemma ends_trans:
  assumes "ends w S S1" "ends w S1 S2"
  shows "ends w S S2"
proof -
  have m: "moves S S1" "moves S1 S2" using assms by (simp_all add: ends_def)
  have "ended S2" if "sound S" "\<not> p_stuck S" "rest S < w"
  proof (cases "stopped S1")
    case True
    then show ?thesis using assms(1) that moves_idle [OF m(2)] by (simp add: ends_def)
  next
    case False
    then show ?thesis using assms(2) that movesD [OF m(1) that(1) False] by (simp add: ends_def stopped_def)
  qed
  then show ?thesis using moves_trans [OF m] by (simp add: ends_def)
qed

lemma ends_less: "obeys (ends w) m \<Longrightarrow> k \<le> w \<Longrightarrow> obeys (ends k) m"
  by (simp add: obeys_def ends_def)

lemma ends_0: "obeys moves m \<Longrightarrow> obeys (ends 0) m"
  by (simp add: obeys_def ends_def)

text \<open>Steps that are never cut off.\<close>

lemma uncut_ends:
  "obeys moves m \<Longrightarrow> (\<And>S. p_stuck (snd (run_state m S)) = p_stuck S) \<Longrightarrow> obeys (ends w) m"
  by (simp add: obeys_def ends_def ended_def)

lemma uncut_peek: "p_stuck (snd (run_state (peek_token i) S)) = p_stuck S"
proof -
  have r: "p_stuck (snd (read_token S)) = p_stuck S" for S
    by (auto simp: read_token_def alloc_def Let_def split: prod.splits option.splits if_splits)
  have "p_stuck (snd (run_state (fill_lookahead n) S)) = p_stuck S" for n S
  proof (induction n arbitrary: S)
    case (Suc n)
    obtain x S1 where x: "read_token S = (x, S1)" by fastforce
    then have "p_stuck S1 = p_stuck S" using r [of S] by simp
    then show ?case using x Suc by (auto simp: next_ref_def split: option.split)
  qed (simp add: next_ref_def)
  then show ?thesis by (simp add: peek_token_def)
qed

lemma uncut_scope: "p_stuck (snd (run_state (scope_op e) S)) = p_stuck S"
proof -
  have "p_stuck (fold add_outer ns T) = p_stuck T" for ns T by (induction ns arbitrary: T) (simp_all add: add_outer_def)
  then show ?thesis by (simp add: scope_op_def Let_def)
qed

lemma renaming_ends: "obeys (ends w) (renaming h)"
  by (rule uncut_ends [OF renaming_moves]) (simp add: renaming_def)

lemma names_end [obeys_step]: "obeys (ends w) names_push" "obeys (ends w) names_pop"
  by (simp_all add: names_parts renaming_ends)

interpretation ending: parser_notes "ends w" for w
proof unfold_locales
  show "obeys (ends w) (renaming h)" for h by (rule renaming_ends)
  show "obeys (ends w) m \<Longrightarrow> obeys (ends w) (nested m)" for m :: "nat option parser"
    using ends_trans ends_refl renaming_ends by (rule nested_obeys)
  show "ends w S S" for S by (rule ends_refl)
  show "ends w S S1 \<Longrightarrow> ends w S1 S2 \<Longrightarrow> ends w S S2" for S S1 S2 by (rule ends_trans)
  show "obeys (ends w) (upd f)" if "\<And>S. frame S (f S)" for f
    by (rule uncut_ends [OF moving.framed [OF that]]) (use that in \<open>simp add: frame_def\<close>)
  show "obeys (ends w) (upd f)" if "\<And>S. outside_functors S (f S)" for f
    by (rule uncut_ends [OF moving.unnoticed [OF that]]) (use that in \<open>simp add: outside_functors_def\<close>)
  show "obeys (ends w) (upd_funct g)" if "\<And>F. f_context (g F) = f_context F" for g
    by (rule uncut_ends [OF moving.functor_notes [OF that]]) (simp_all add: upd_funct_def)
  show "obeys (ends w) (upd_lstate h)" if "same_setting h" for h
    by (rule uncut_ends [OF moving.options [OF that]]) (simp add: upd_lstate_def)
  show "obeys (ends w) (upd_lstate (put_options os is))" for os "is"
    by (rule uncut_ends [OF moving.restoring]) (simp add: upd_lstate_def)
  show "obeys (ends w) (lint (warning code p args))" "obeys (ends w) (lint (warningAt code l c args))"
      "obeys (ends w) (lint (quit code p' args))" "obeys (ends w) (lint fault)" for code p args l c p'
    by (rule uncut_ends [OF moving.reports(1)], simp, rule uncut_ends [OF moving.reports(2)], simp,
        rule uncut_ends [OF moving.reports(3)], simp, rule uncut_ends [OF moving.reports(4)], simp)
  show "obeys (ends w) (scope_op e)" if "\<And>E. is_call E (e E)" for e
    by (rule uncut_ends [OF moving.scopes [OF that]]) (simp_all add: uncut_scope)
  show "obeys (ends w) (alloc k)" for k by (rule uncut_ends [OF moving.allocation]) (simp add: alloc_def)
  show "obeys (ends w) (advance_to expected related)" for expected related by (rule uncut_ends [OF moving.advancing]) simp
  show "obeys (ends w) (peek_token i)" for i by (rule uncut_ends [OF moving.peeking uncut_peek])
qed

section \<open>The next token\<close>

text \<open>
  A condition on the state that only changes when something is read, like what the next token is.
\<close>

definition steady :: "(pst \<Rightarrow> bool) \<Rightarrow> bool" where
  "steady P \<longleftrightarrow> (\<forall>S S'. P S \<longrightarrow> sound S \<longrightarrow> moves S S' \<longrightarrow> \<not> stopped S' \<longrightarrow> rest S' = rest S \<longrightarrow> P S')"

definition near :: "tok \<Rightarrow> pst \<Rightarrow> bool" where
  "near k S \<longleftrightarrow> same_kind k (p_store S (p_next S))"

definition next_at :: "nat \<Rightarrow> pst \<Rightarrow> bool" where
  "next_at t S \<longleftrightarrow> p_next S = t"

definition anywhere :: "pst \<Rightarrow> bool" where
  "anywhere S \<longleftrightarrow> True"

definition any_result :: "'a \<Rightarrow> bool" where
  "any_result x \<longleftrightarrow> True"

lemma anything [simp]: "anywhere S" "any_result x"
  by (simp_all add: anywhere_def any_result_def)

lemma steady_anywhere [simp]: "steady anywhere"
  by (simp add: steady_def)

lemma steady_at [simp]: "steady (next_at t)"
  using movesD(4) by (auto simp: steady_def next_at_def)

lemma steady_near [simp]: "steady (near k)"
  unfolding steady_def near_def
proof (intro allI impI)
  fix S S' assume a: "same_kind k (p_store S (p_next S))" "sound S" "moves S S'" "\<not> stopped S'" "rest S' = rest S"
  note m = movesD [OF a(3,2,4)]
  have "p_next S < p_fresh S" using upcoming_fresh [OF a(2) m(5)] by simp
  then have "same_kind (p_store S (p_next S)) (p_store S' (p_next S'))"
    using m(2,4) a(5) unfolding same_kinds_def by simp
  with a(1) show "same_kind k (p_store S' (p_next S'))" by (rule same_kind_trans)
qed

section \<open>Steps that read\<close>

text \<open>
  \<open>m\<close> reads something if \<open>P\<close> holds before and its result fulfils \<open>B\<close>.
\<close>

definition drops :: "(pst \<Rightarrow> bool) \<Rightarrow> ('a \<Rightarrow> bool) \<Rightarrow> 'a parser \<Rightarrow> bool" where
  "drops P B m \<longleftrightarrow> (\<forall>S x S'. run_state m S = (x, S') \<longrightarrow> sound S \<longrightarrow> \<not> stopped S \<longrightarrow> P S \<longrightarrow> B x \<longrightarrow> eaten S S')"

abbreviation eats :: "'a parser \<Rightarrow> bool" where
  "eats \<equiv> drops anywhere any_result"

lemma dropsD: "drops P B m \<Longrightarrow> run_state m S = (x, S') \<Longrightarrow> sound S \<Longrightarrow> \<not> stopped S \<Longrightarrow> P S \<Longrightarrow> B x \<Longrightarrow> eaten S S'"
  unfolding drops_def by blast

lemma drops_weaken: "eats m \<Longrightarrow> drops P B m" "drops P any_result m \<Longrightarrow> drops P B m"
  by (simp_all add: drops_def)

lemma drops_near: "drops anywhere B m \<Longrightarrow> drops P B m"
  by (simp add: drops_def)

lemma eaten_moves: "eaten S S1 \<Longrightarrow> moves S S1 \<Longrightarrow> moves S1 S2 \<Longrightarrow> sound S \<Longrightarrow> eaten S S2"
  using moves_idle [of S1 S2] movesD(1) [of S S1] movesD(3) [of S1 S2]
  by (cases "stopped S1"; cases "stopped S2") (auto simp: eaten_def)

lemma moves_eaten:
  "moves S S1 \<Longrightarrow> moves S1 S2 \<Longrightarrow> sound S \<Longrightarrow> (rest S1 = rest S \<Longrightarrow> \<not> stopped S1 \<Longrightarrow> eaten S1 S2) \<Longrightarrow> eaten S S2"
  using moves_idle [of S1 S2] movesD(1,3) [of S S1] movesD(3) [of S1 S2] le_neq_implies_less [of "rest S1" "rest S"]
  by (cases "stopped S1"; cases "stopped S2"; cases "rest S1 = rest S") (auto simp: eaten_def)

lemma drops_cond:
  assumes "obeys moves m" "drops P C m" "steady P" "\<And>x. obeys moves (f x)" "\<And>x. \<not> C x \<Longrightarrow> drops P B (f x)"
  shows "drops P B (m \<bind> f)"
  unfolding drops_def
proof (intro allI impI)
  fix S y S2 assume r: "run_state (m \<bind> f) S = (y, S2)" and S: "sound S" "\<not> stopped S" "P S" "B y"
  obtain x S1 where 1: "run_state m S = (x, S1)" by fastforce
  then have 2: "run_state (f x) S1 = (y, S2)" using r by simp
  have m: "moves S S1" "moves S1 S2" using obeysD [OF assms(1), of S] obeysD [OF assms(4) [of x], of S1] 1 2 by simp_all
  show "eaten S S2"
  proof (cases "C x")
    case True
    then show ?thesis using eaten_moves [OF dropsD [OF assms(2) 1 S(1-3)] m S(1)] by simp
  next
    case False
    show ?thesis
    proof (rule moves_eaten [OF m S(1)])
      assume e: "rest S1 = rest S" "\<not> stopped S1"
      then have "P S1" using assms(3) S m(1) unfolding steady_def by blast
      then show "eaten S1 S2" using dropsD [OF assms(5) [OF False] 2] movesD(1) [OF m(1) S(1)] e(2) S(4) by blast
    qed
  qed
qed

lemma drops_first: "obeys moves m \<Longrightarrow> drops P any_result m \<Longrightarrow> steady P \<Longrightarrow> (\<And>x. obeys moves (f x)) \<Longrightarrow> drops P B (m \<bind> f)"
  by (rule drops_cond) (assumption | simp)+

lemma drops_second: "obeys moves m \<Longrightarrow> steady P \<Longrightarrow> (\<And>x. obeys moves (f x)) \<Longrightarrow> (\<And>x. drops P B (f x)) \<Longrightarrow> drops P B (m \<bind> f)"
  by (rule drops_cond [where C = "\<lambda>_. False"]) (simp_all add: drops_def)

lemma drops_next: "(\<And>k. proper k \<Longrightarrow> drops (near k) B (f k)) \<Longrightarrow> drops anywhere B (next_tok \<bind> f)"
  by (fastforce simp: drops_def next_tok_def near_def sound_def)

lemma drops_again: "(\<And>k2. same_kind k k2 \<Longrightarrow> proper k2 \<Longrightarrow> drops (near k) B (f k2)) \<Longrightarrow> drops (near k) B (next_tok \<bind> f)"
  by (fastforce simp: drops_def next_tok_def near_def sound_def)

lemma drops_ref: "(\<And>t. drops (next_at t) B (f t)) \<Longrightarrow> drops anywhere B (next_ref \<bind> f)"
  by (fastforce simp: drops_def next_ref_def next_at_def)

lemma drops_at: "(\<And>k. drops (near k) B (f k)) \<Longrightarrow> drops (next_at t) B (tok_at t \<bind> f)"
  by (fastforce simp: drops_def tok_at_def next_at_def near_def)

lemma drops_halt: "drops P B (f False) \<Longrightarrow> drops P B (gets stopped \<bind> f)"
  by (auto simp: drops_def)

lemma drops_branches:
  "(b \<Longrightarrow> drops P B m1) \<Longrightarrow> (\<not> b \<Longrightarrow> drops P B m2) \<Longrightarrow> drops P B (if b then m1 else m2)"
  "drops P B (h x) \<Longrightarrow> drops P B (Let x h)"
  "(\<And>a b. drops P B (g a b)) \<Longrightarrow> drops P B (case p of (a, b) \<Rightarrow> g a b)"
  "(o' = None \<Longrightarrow> drops P B m1) \<Longrightarrow> (\<And>x. o' = Some x \<Longrightarrow> drops P B (l x)) \<Longrightarrow> drops P B (case o' of None \<Rightarrow> m1 | Some x \<Rightarrow> l x)"
  by (auto split: option.splits prod.splits)

lemma drops_provided: "b \<Longrightarrow> drops P B m \<Longrightarrow> drops P B (provided b m)"
  by (simp add: provided_def)

lemma drops_ret: "\<not> B x \<Longrightarrow> drops P B (ret x)"
  by (simp add: drops_def)

lemma drops_out: "drops P B (do { out_of_fuel; ret x })" "drops P B' out_of_fuel"
  by (auto simp: drops_def out_of_fuel_def eaten_def stopped_def)

lemma drops_advance: "drops P B (advance_to expected related)"
  using advance_moves(2) by (simp add: drops_def) (metis snd_conv)

lemma drops_while:
  assumes "obeys moves m" "drops P any_result m" "steady P"
  shows "drops P B (while_loop n m)"
proof (cases n)
  case (Suc k)
  have "obeys moves (do { halt \<leftarrow> gets stopped; if more \<and> \<not> halt then while_loop k m else ret () })" for more
    by (intro moving.bind_obeys moving.while_loop_obeys moving.pure_steps obeys_branches assms(1))
  then show ?thesis unfolding Suc while_loop.simps by (intro drops_first assms)
qed (simp add: drops_out)

section \<open>Loops\<close>

text \<open>
  \<open>m\<close> comes to an end from states with less than \<open>k\<close> left, and \<open>P\<close> needs only be assumed where exactly
  one less than \<open>k\<close> is left.
\<close>

definition within :: "nat \<Rightarrow> (pst \<Rightarrow> bool) \<Rightarrow> pst \<Rightarrow> bool" where
  "within k P S \<longleftrightarrow> ended S \<and> (stopped S \<or> sound S \<and> rest S < k \<and> (P S \<or> Suc (rest S) < k))"

definition closes :: "nat \<Rightarrow> (pst \<Rightarrow> bool) \<Rightarrow> 'a parser \<Rightarrow> bool" where
  "closes k P m \<longleftrightarrow> (\<forall>S. within k P S \<longrightarrow> ended (snd (run_state m S)))"

lemma closesD: "closes k P m \<Longrightarrow> within k P S \<Longrightarrow> ended (snd (run_state m S))"
  by (simp add: closes_def)

lemma fresh_ended: "\<not> p_stuck S \<Longrightarrow> ended S" "\<not> stopped S \<Longrightarrow> ended S"
  by (simp_all add: ended_def stopped_def)

lemma closed: "obeys moves m \<Longrightarrow> closes w anywhere m \<Longrightarrow> obeys (ends w) m"
  by (simp add: obeys_def closes_def ends_def within_def fresh_ended)

lemma ended_after:
  assumes "obeys (ends w) m" "k \<le> w" "within k P S"
  shows "ended (snd (run_state m S))"
proof (cases "stopped S")
  case True
  then show ?thesis
    using assms(3) moves_idle obeysD [OF ends_moves [OF assms(1)], of S] by (metis within_def)
next
  case False
  then show ?thesis using obeysD [OF assms(1), of S] assms(2,3) by (simp add: ends_def within_def stopped_def)
qed

lemma closes_leaf: "obeys (ends w) m \<Longrightarrow> k \<le> w \<Longrightarrow> closes k P m"
  unfolding closes_def using ended_after by blast

lemma closes_less: "closes w P m \<Longrightarrow> k \<le> w \<Longrightarrow> closes k P m"
  unfolding closes_def within_def by fastforce

lemma closes_all: "closes w anywhere m \<Longrightarrow> closes w P m"
  unfolding closes_def within_def by auto

lemma stopped_after: "moves S S' \<Longrightarrow> stopped S' \<or> \<not> stopped S"
  using moves_idle by blast

lemma within_after:
  assumes "moves S S1" "within k P S" "ended S1" "steady P"
  shows "within k P S1"
proof (cases "stopped S1")
  case False
  then have S: "sound S" "rest S < k" "P S \<or> Suc (rest S) < k" using assms(1,2) stopped_after by (auto simp: within_def)
  note m = movesD [OF assms(1) S(1) False]
  have "P S1 \<or> Suc (rest S1) < k"
  proof (cases "rest S1 = rest S")
    case True
    then show ?thesis using S assms(1,4) False unfolding steady_def by metis
  qed (use m(3) S(2) in simp)
  then show ?thesis using m S assms(3) by (simp add: within_def)
qed (use assms(3) in \<open>simp add: within_def\<close>)

lemma within_less:
  assumes "moves S S1" "within (Suc k) P S" "ended S1" "P S \<Longrightarrow> sound S \<Longrightarrow> \<not> stopped S \<Longrightarrow> eaten S S1"
  shows "within k anywhere S1"
proof (cases "stopped S1")
  case False
  then have ns: "\<not> stopped S" using assms(1) stopped_after by blast
  then have S: "sound S" "rest S < Suc k" "P S \<or> Suc (rest S) < Suc k" using assms(2) by (auto simp: within_def)
  note m = movesD [OF assms(1) S(1) False]
  have "rest S1 < k" using S m(3) assms(4) ns False by (auto simp: eaten_def)
  then show ?thesis using m assms(3) by (simp add: within_def)
qed (use assms(3) in \<open>simp add: within_def\<close>)

text \<open>A step that may come to an end itself only from states with less than \<open>k\<close> left.\<close>

lemma closes_bind:
  assumes "obeys moves m" "closes k P m" "steady P" "\<And>x. closes k P (f x)"
  shows "closes k P (m \<bind> f)"
  unfolding closes_def
proof (intro allI impI)
  fix S assume S: "within k P S"
  obtain x S1 where r: "run_state m S = (x, S1)" by fastforce
  have "moves S S1" "ended S1" using obeysD [OF assms(1), of S] closesD [OF assms(2) S] r by simp_all
  then show "ended (snd (run_state (m \<bind> f) S))"
    using closesD [OF assms(4) within_after [OF _ S _ assms(3)]] r by simp
qed

text \<open>Steps before and after something is read.\<close>

lemma closes_pass:
  "obeys (ends w) m \<Longrightarrow> k \<le> w \<Longrightarrow> steady P \<Longrightarrow> (\<And>x. closes k P (f x)) \<Longrightarrow> closes k P (m \<bind> f)"
  by (rule closes_bind [OF ends_moves closes_leaf])

lemma closes_cond:
  assumes "obeys (ends w) m" "Suc k \<le> w" "drops P B m" "\<And>x. B x \<Longrightarrow> closes k anywhere (f x)"
    "\<And>x. \<not> B x \<Longrightarrow> closes (Suc k) anywhere (f x)"
  shows "closes (Suc k) P (m \<bind> f)"
  unfolding closes_def
proof (intro allI impI)
  fix S assume S: "within (Suc k) P S"
  obtain x S1 where r: "run_state m S = (x, S1)" by fastforce
  have 1: "moves S S1" "ended S1" using obeysD [OF ends_moves [OF assms(1)], of S] ended_after [OF assms(1,2) S] r by simp_all
  show "ended (snd (run_state (m \<bind> f) S))"
  proof (cases "B x")
    case True
    then have "within k anywhere S1" using dropsD [OF assms(3) r] by (intro within_less [OF 1(1) S 1(2)])
    then show ?thesis using closesD [OF assms(4) [OF True]] r by simp
  next
    case False
    have "within (Suc k) anywhere S" using S by (auto simp: within_def)
    from within_after [OF 1(1) this 1(2)] show ?thesis using closesD [OF assms(5) [OF False]] r by simp
  qed
qed

lemma closes_eat:
  "obeys (ends w) m \<Longrightarrow> Suc k \<le> w \<Longrightarrow> drops P any_result m \<Longrightarrow> (\<And>x. closes k anywhere (f x)) \<Longrightarrow> closes (Suc k) P (m \<bind> f)"
  by (rule closes_cond) (assumption | simp)+

lemma closes_advance: "(\<And>x. closes k anywhere (f x)) \<Longrightarrow> closes (Suc k) P (advance_to expected related \<bind> f)"
  by (rule closes_eat [OF ending.advancing order_refl drops_advance])

lemma closes_next: "(\<And>k. closes j (near k) (f k)) \<Longrightarrow> closes j anywhere (next_tok \<bind> f)"
  by (simp add: closes_def within_def next_tok_def near_def)

lemma closes_ref: "(\<And>t. closes j (next_at t) (f t)) \<Longrightarrow> closes j anywhere (next_ref \<bind> f)"
  by (simp add: closes_def within_def next_ref_def next_at_def)

lemma closes_at: "(\<And>k. closes j (near k) (f k)) \<Longrightarrow> closes j (next_at t) (tok_at t \<bind> f)"
  unfolding closes_def within_def tok_at_def next_at_def near_def by auto

lemma closes_again:
  assumes "\<And>k2. same_kind k k2 \<Longrightarrow> proper k2 \<Longrightarrow> closes (Suc j) (near k) (f k2)" "\<And>k2. closes j anywhere (f k2)"
  shows "closes (Suc j) (near k) (next_tok \<bind> f)"
  unfolding closes_def
proof (intro allI impI)
  fix S assume S: "within (Suc j) (near k) S"
  let ?k = "p_store S (p_next S)"
  have r: "run_state (next_tok \<bind> f) S = run_state (f ?k) S" by (simp add: next_tok_def)
  show "ended (snd (run_state (next_tok \<bind> f) S))"
  proof (cases "same_kind k ?k \<and> proper ?k")
    case True
    then show ?thesis using closesD [OF assms(1) S] r by metis
  next
    case False
    then have "within j anywhere S" using S by (auto simp: within_def near_def sound_def)
    then show ?thesis using closesD [OF assms(2)] r by metis
  qed
qed

lemma closes_branches:
  "(b \<Longrightarrow> closes k P m1) \<Longrightarrow> (\<not> b \<Longrightarrow> closes k P m2) \<Longrightarrow> closes k P (if b then m1 else m2)"
  "closes k P (h x) \<Longrightarrow> closes k P (Let x h)"
  "(\<And>a b. closes k P (g a b)) \<Longrightarrow> closes k P (case p of (a, b) \<Rightarrow> g a b)"
  by (auto split: prod.splits)

lemma closes_provided: "(b \<Longrightarrow> closes k P m) \<Longrightarrow> closes k P (provided b m)"
  unfolding provided_def by (intro closes_branches closes_leaf [OF ending.pure_steps(1) order_refl])

lemma closes_0: "obeys moves m \<Longrightarrow> closes 0 P m"
  by (rule closes_leaf [OF ends_0 order_refl])

lemma closes_while:
  assumes "obeys moves m" "obeys (ends w) m" "drops anywhere (\<lambda>more. more) m"
  shows "k \<le> n \<Longrightarrow> k \<le> w \<Longrightarrow> closes k anywhere (while_loop n m)"
proof (induction n arbitrary: k)
  case (Suc n)
  show ?case
  proof (cases k)
    case 0
    then show ?thesis using assms(1) by (simp only:) (intro closes_0 moving.while_loop_obeys)
  next
    case j: (Suc j)
    have round: "closes l anywhere (do { halt \<leftarrow> gets stopped; if more \<and> \<not> halt then while_loop n m else ret () })"
      if "more \<Longrightarrow> l \<le> n" "l \<le> w" for more l
      by (intro closes_pass [OF ending.pure_steps(2) order_refl] closes_branches Suc.IH steady_anywhere
          closes_leaf [OF ending.pure_steps(1) order_refl]) (use that in auto)
    then show ?thesis
      using Suc.prems unfolding j while_loop.simps by (intro closes_cond [OF assms(2) _ assms(3)] round) auto
  qed
qed (auto intro: closes_0 moving.cut_off)

declare anything [simp del]

end
