(* ===== verification/Endings.thy ===== *)
theory Endings
  imports EndRules
begin

text \<open>
  The parser comes to an end: every loop and every recursion reads something before it goes on, so fuel
  that grows with what is left of the source is enough.
\<close>

section \<open>Loops that only look ahead\<close>

lemma uncut:
  "obeys moves m \<Longrightarrow> (\<And>S. sound S \<Longrightarrow> \<not> p_stuck S \<Longrightarrow> rest S < w \<Longrightarrow> \<not> p_stuck (snd (run_state m S))) \<Longrightarrow> obeys (ends w) m"
  by (simp add: obeys_def ends_def fresh_ended)

lemma peek_step:
  assumes "run_state (peek_token i) S = (t, S1)" "sound S" "\<not> p_stuck S"
  shows "\<not> p_stuck S1 \<and> (stopped S1 \<or> sound S1 \<and> rest S1 \<le> rest S \<and> (Suc i \<le> rest S1 \<or> final (p_store S1 t)))"
proof -
  have 1: "\<not> p_stuck S1" "moves S S1" using uncut_peek [of i S] obeysD [OF moving.peeking, of S i] assms by simp_all
  have "sound S1 \<and> rest S1 \<le> rest S \<and> (Suc i \<le> rest S1 \<or> final (p_store S1 t))" if "\<not> stopped S1"
  proof -
    note m = movesD [OF 1(2) assms(2) that]
    have "fetched i t S1" using peek_facts(2) [OF assms(1,2) m(5)] that by simp
    then show ?thesis using m(1,3) by (cases "i < List.length (p_look S1)") (simp_all add: fetched_def rest_def sound_def)
  qed
  with 1 show ?thesis by blast
qed

lemma uncut_report [simp]: "p_stuck (snd (run_state (report_tok code t args) S)) = p_stuck S"
  by (simp add: report_tok_def tok_at_def)

lemma final_ids: "final k \<Longrightarrow> \<not> has_id ''(endline)'' k \<and> \<not> has_id ''(comment)'' k"
  by (auto simp: final_def has_id_def)

lemma uncut_ignore:
  "sound S \<Longrightarrow> \<not> p_stuck S \<Longrightarrow> i \<le> rest S \<Longrightarrow> rest S < n + i \<Longrightarrow> \<not> p_stuck (snd (run_state (peekIgnoreEOL n i) S))"
proof (induction n arbitrary: i S)
  case (Suc n)
  obtain t S1 where t: "run_state (peek_token i) S = (t, S1)" by fastforce
  from peek_step [OF t Suc.prems(1,2)] show ?case
    using Suc.IH [of S1 "Suc i"] Suc.prems(4) final_ids t by (auto simp: tok_at_def)
qed simp

lemma uncut_reachable:
  "sound S \<Longrightarrow> \<not> p_stuck S \<Longrightarrow> i \<le> rest S \<Longrightarrow> rest S < n + i \<Longrightarrow> \<not> p_stuck (snd (run_state (reachable_from n i v) S))"
proof (induction n arbitrary: i S)
  case (Suc n)
  obtain t S1 where t: "run_state (peek_token i) S = (t, S1)" by fastforce
  from peek_step [OF t Suc.prems(1,2)] show ?case
    using Suc.IH [of S1 "Suc i"] Suc.prems(4) final_ids t uncut_peek [of "Suc i" S1]
    by (auto simp: tok_at_def peeked_def opt_value_def lint_state_def provided_def split: prod.splits)
qed simp

lemma uncut_through:
  "sound S \<Longrightarrow> \<not> p_stuck S \<Longrightarrow> i \<le> rest S \<Longrightarrow> rest S < n + i \<Longrightarrow> \<not> p_stuck (snd (run_state (peek_through n i parens pn) S))"
proof (induction n arbitrary: i S parens pn)
  case (Suc n)
  obtain t S1 where t: "run_state (peek_token i) S = (t, S1)" by fastforce
  from peek_step [OF t Suc.prems(1,2)] show ?case
    using Suc.IH [of S1 "Suc i"] Suc.prems(4) t by (auto simp: tok_at_def Let_def final_def)
qed simp

lemma uncut_block_type:
  "sound S \<Longrightarrow> \<not> p_stuck S \<Longrightarrow> 0 < n \<Longrightarrow> has_id ''(end)'' pn \<or> i \<le> rest S \<and> Suc (rest S) < n + i \<Longrightarrow>
    \<not> p_stuck (snd (run_state (block_type_from n i depth prev pn notJson) S))"
proof (induction n arbitrary: i S depth prev pn notJson)
  case (Suc n)
  obtain t S1 where t: "run_state (peek_token i) S = (t, S1)" by fastforce
  note s = peek_step [OF t Suc.prems(1,2)]
  show ?case
  proof (cases "has_id ''(end)'' pn \<or> stopped S1")
    case True
    then show ?thesis using s t by (auto simp: tok_at_def peeked_def Let_def)
  next
    case False
    then have "\<not> p_stuck (snd (run_state (block_type_from n (Suc i) d pn (p_store S1 t) b) S1))" for d b
      using s Suc.prems(4) by (intro Suc.IH) (auto simp: final_def)
    then show ?thesis using s t by (auto simp: tok_at_def peeked_def Let_def)
  qed
qed simp

lemma look_ends:
  assumes "Suc w < N"
  shows "obeys (ends w) (peekIgnoreEOL N 0)" "obeys (ends w) (reachable_from N 0 v)" "obeys (ends w) (peek_through N 0 parens pn)"
    "obeys (ends w) (block_type_from N 0 depth prev k notJson)"
  using assms uncut_ignore [of _ 0 N] uncut_reachable [of _ 0 N v] uncut_through [of _ 0 N parens pn]
    uncut_block_type [of _ N k 0 depth prev notJson]
  by (auto intro!: uncut moving.peekIgnoreEOL_obeys moving.reachable_from_obeys moving.peek_through_obeys moving.block_type_from_obeys)

section \<open>The indentation of a block\<close>

lemma indent_parts:
  "run_state indent_more S = ((), if stopped S then S else S\<lparr>p_indent := p_indent S + indent_width S\<rparr>)"
  by (simp add: indent_more_def indent_step_def indent_by_def indent_of_def opt_value_def lint_state_def)

definition deeper_loop :: "nat \<Rightarrow> unit parser" where
  "deeper_loop n = while_loop n (do {
     i \<leftarrow> gets p_indent;
     k \<leftarrow> next_tok;
     (if right_of_indent i k then do { indent_more; ret True } else ret False)
   })"

lemma deeper_step:
  "run_state (deeper_loop (Suc n)) S =
     (if right_of_indent (p_indent S) (p_store S (p_next S))
      then if stopped S then ((), S) else run_state (deeper_loop n) (S\<lparr>p_indent := p_indent S + indent_width S\<rparr>)
      else ((), S))"
  by (simp add: deeper_loop_def next_tok_def indent_parts stopped_def)

lemma deeper_lint: "p_lint (snd (run_state (deeper_loop n) S)) = p_lint S"
  by (induction n arbitrary: S) (simp_all add: deeper_step, simp add: deeper_loop_def out_of_fuel_def)

lemma deeper_stuck:
  "0 < indent_width S \<Longrightarrow> indent_gap S < n \<Longrightarrow> p_stuck (snd (run_state (deeper_loop n) S)) = p_stuck S"
proof (induction n arbitrary: S)
  case (Suc n)
  let ?S = "S\<lparr>p_indent := p_indent S + indent_width S\<rparr>"
  have w: "indent_width ?S = indent_width S" by (simp add: indent_of_def)
  have "indent_gap ?S < n" if "right_of_indent (p_indent S) (p_store S (p_next S))"
    using Suc.prems that by (auto simp: indent_gap_def right_of_indent_def split: option.splits)
  then show ?case using Suc.IH [of ?S] Suc.prems(1) w by (simp add: deeper_step)
qed simp

lemma indent_ends: "obeys (ends w) indent_deeper"
proof -
  have d: "run_state indent_deeper S = run_state (deeper_loop (Suc (indent_gap S))) S" for S
    by (simp add: indent_deeper_def deeper_loop_def)
  have "ended (snd (run_state indent_deeper S))" if "\<not> p_stuck S" for S
  proof (cases "0 < indent_width S")
    case True
    then show ?thesis using deeper_stuck [OF True lessI] that d by (simp add: ended_def)
  next
    case False
    then show ?thesis using deeper_lint [of "Suc (indent_gap S)" S] d by (simp add: ended_def indent_of_def)
  qed
  then show ?thesis using obeysD [OF moving.indent_deeper_obeys] by (simp add: obeys_def ends_def)
qed

section \<open>Loops with fuel\<close>

text \<open>
  Induction over the fuel and what is left: it is enough to look at one round that reads something.
\<close>

lemma level_induct [consumes 2, case_names none round]:
  assumes "k \<le> n" "k \<le> w" "\<And>n. P n 0" "\<And>n j. j \<le> n \<Longrightarrow> Suc j \<le> w \<Longrightarrow> P n j \<Longrightarrow> P (Suc n) (Suc j)"
  shows "P n k"
  using assms(1,2)
proof (induction n arbitrary: k)
  case 0
  then show ?case using assms(3) by simp
next
  case (Suc n)
  then show ?case using assms(3,4) by (cases k) simp_all
qed

lemma while_ends: "obeys moves m \<Longrightarrow> obeys (ends w) m \<Longrightarrow> drops anywhere (\<lambda>more. more) m \<Longrightarrow> w \<le> n \<Longrightarrow> obeys (ends w) (while_loop n m)"
  by (rule closed [OF moving.while_loop_obeys closes_while [OF _ _ _ _ order_refl]])

end
