(* ===== verification/EndContract.thy ===== *)
theory EndContract
  imports Endings
begin

text \<open>
  Every function of the parser comes to an end where its recursive calls do: the loops of the locales of
  \<^verbatim>\<open>ParserContract\<close>, with enough fuel, at the relation \<open>ends w\<close>.
\<close>

locale parser_ends = parser_recursive moves Rc for Rc +
  fixes w :: nat
  assumes calls_end: "obeys (ends w) (r_expr Rc c p)" "obeys (ends w) (r_stmt Rc c)" "obeys (ends w) (r_pat Rc c False a)"
    and calls_eat: "eats (r_expr Rc c p)" "eats (r_stmt Rc c)"
      "checkPunctuators k [''['', ''{''] \<Longrightarrow> drops (near k) any_result (r_pat Rc c False a)"
    and enough: "2 * w + 2 \<le> r_fuel Rc"
begin

lemma looking:
  "obeys (ends w) (peekIgnoreEOL (r_fuel Rc) 0)" "obeys (ends w) (reachable_from (r_fuel Rc) 0 v)"
  "obeys (ends w) (peek_through (r_fuel Rc) 0 parens pn)" "obeys (ends w) (block_type_from (r_fuel Rc) 0 depth prev k notJson)"
  using look_ends [of w "r_fuel Rc"] enough by simp_all

lemmas dropping = drops_next drops_halt drops_branches drops_first [OF _ drops_advance] drops_advance drops_ret
  steady_near steady_anywhere

lemma spread_ends: "obeys (ends w) (spreadrest (r_fuel Rc) operation)"
  unfolding spreadrest_def
  by (intro obeys_rule obeys_step while_ends dropping) (use enough in simp_all)

end

sublocale parser_ends \<subseteq> level: parser_base "ends w" Rc
  by unfold_locales (rule looking spread_ends indent_ends calls_end)+

context parser_ends begin

lemmas reading = closes_advance closes_eat [OF calls_end(1) _ drops_weaken(1) [OF calls_eat(1)]]
  closes_eat [OF calls_end(2) _ drops_weaken(1) [OF calls_eat(2)]]

lemmas spine = closes_next closes_branches reading closes_pass [where w = w] closes_leaf [where w = w]

lemma nextInnerDE_closes: "k \<le> n \<Longrightarrow> k \<le> w \<Longrightarrow> closes k anywhere (nextInnerDE n Rc c isAssignment)"
proof (induction n k arbitrary: c isAssignment rule: level_induct [where w = w])
  case (none n)
  show ?case by (intro closes_0 obeys_step)
next
  case (round n j)
  show ?case unfolding nextInnerDE.simps
    by (intro closes_bind [OF _ round.IH] closes_all [OF round.IH] spine obeys_rule obeys_step) (use round.hyps in simp_all)
qed

lemma directives_from_closes: "k \<le> n \<Longrightarrow> k \<le> w \<Longrightarrow> closes k anywhere (directives_from n Rc current)"
proof (induction n k arbitrary: current rule: level_induct [where w = w])
  case (none n)
  show ?case by (intro closes_0 obeys_step)
next
  case (round n j)
  show ?case unfolding directives_from.simps
    by (intro closes_bind [OF _ round.IH] closes_all [OF round.IH] spine obeys_rule obeys_step) (use round.hyps in simp_all)
qed

lemma statements_from_closes: "k \<le> n \<Longrightarrow> k \<le> w \<Longrightarrow> closes k anywhere (statements_from n Rc c xs)"
proof (induction n k arbitrary: c xs rule: level_induct [where w = w])
  case (none n)
  show ?case by (intro closes_0 obeys_step)
next
  case (round n j)
  show ?case unfolding statements_from.simps
    by (intro closes_bind [OF _ round.IH] closes_all [OF round.IH] spine obeys_rule obeys_step) (use round.hyps in simp_all)
qed

lemma import_names_closes: "k \<le> n \<Longrightarrow> k \<le> w \<Longrightarrow> closes k anywhere (import_names n c)"
proof (induction n k arbitrary: c rule: level_induct [where w = w])
  case (none n)
  show ?case by (intro closes_0 obeys_step)
next
  case (round n j)
  show ?case unfolding import_names.simps
    by (intro closes_bind [OF _ round.IH] closes_all [OF round.IH] spine obeys_rule obeys_step) (use round.hyps in simp_all)
qed

text \<open>The values of JSON mode have fuel of their own.\<close>

lemma json_members_closes:
  assumes "obeys moves v" "closes l anywhere v" "l \<le> w"
  shows "k \<le> n \<Longrightarrow> k \<le> l \<Longrightarrow> closes k anywhere (json_members v n s seen)"
proof (induction n k arbitrary: s seen rule: level_induct [where w = l])
  case (none n)
  show ?case by (intro closes_0 obeys_rule assms(1))
next
  case (round n j)
  show ?case unfolding json_members.simps
    by (intro closes_bind [OF assms(1) closes_less [OF assms(2)]] closes_all [OF round.IH] spine obeys_rule obeys_step)
      (use round.hyps assms(3) in simp_all)
qed

lemma json_elements_closes:
  assumes "obeys moves v" "closes l anywhere v" "l \<le> w"
  shows "k \<le> n \<Longrightarrow> k \<le> l \<Longrightarrow> closes k anywhere (json_elements v n s)"
proof (induction n k arbitrary: s rule: level_induct [where w = l])
  case (none n)
  show ?case by (intro closes_0 obeys_rule assms(1))
next
  case (round n j)
  show ?case unfolding json_elements.simps
    by (intro closes_bind [OF assms(1) closes_less [OF assms(2)]] closes_all [OF round.IH] spine obeys_rule obeys_step)
      (use round.hyps assms(3) in simp_all)
qed

lemma json_value_closes: "k \<le> n \<Longrightarrow> k \<le> w \<Longrightarrow> closes k anywhere (json_value n)"
proof (induction n k rule: level_induct [where w = w])
  case (none n)
  show ?case by (intro closes_0 obeys_step)
next
  case (round n j)
  have "closes j anywhere (json_members (json_value n) n s seen)" "closes j anywhere (json_elements (json_value n) n s)" for s seen
    using round.hyps by (intro json_members_closes [OF _ round.IH] json_elements_closes [OF _ round.IH] obeys_step; simp)+
  note m = this
  show ?case unfolding json_value.simps json_object_def json_array_def
    by (intro closes_bind [OF _ closes_provided] closes_all [OF m(1)] closes_all [OF m(2)] spine obeys_rule obeys_step) (use round.hyps in simp_all)
qed

lemma skip_parameter_ends: "obeys (ends w) (skip_parameter (r_fuel Rc))"
  unfolding skip_parameter_def by (intro while_ends obeys_rule obeys_step dropping) (use enough in simp_all)

lemma recover_method_ends: "obeys (ends w) (recover_method Rc c)"
  unfolding recover_method_def by (intro while_ends obeys_rule obeys_step dropping) (use enough in simp_all)

lemma skip_commas_closes: "k < n \<Longrightarrow> k \<le> w \<Longrightarrow> closes k anywhere (skip_commas n)"
proof (induction n arbitrary: k)
  case (Suc n)
  show ?case
  proof (cases k)
    case 0
    then show ?thesis by (simp only:) (intro closes_0 obeys_step)
  next
    case j: (Suc j)
    define body where "body = do { advance_id '',''; k1 \<leftarrow> next_tok; ret (has_id '','' k1) }"
    have b: "obeys moves body" "obeys (ends w) body" "drops anywhere B body" for B
      unfolding body_def by (intro obeys_rule obeys_step dropping)+
    have l: "closes (Suc j) anywhere (while_loop n body)" using closes_while [OF b] Suc.prems j by simp
    have e: "eats (while_loop n body)" by (rule drops_while [OF b(1) b(3) steady_anywhere])
    show ?thesis unfolding j skip_commas.simps body_def [symmetric]
      apply (intro closes_eat [OF closed [OF moving.while_loop_obeys l] order_refl drops_weaken(1) [OF e]] b closes_all [OF Suc.IH] spine obeys_rule obeys_step)
      apply (use Suc.prems j in simp_all)
    done
  qed
qed simp

lemma export_names_closes: "k \<le> n \<Longrightarrow> k \<le> w \<Longrightarrow> closes k anywhere (export_names n xs)"
proof (induction n k arbitrary: xs rule: level_induct [where w = w])
  case (none n)
  show ?case by (intro closes_0 obeys_step)
next
  case (round n j)
  have m: "obeys moves export_name" "obeys (ends w) export_name" by (rule obeys_step)+
  have e: "eats export_name"
    unfolding export_name_def by (intro dropping drops_second obeys_rule obeys_step)
  show ?case unfolding export_names.simps
    by (intro closes_eat [OF m(2) _ drops_weaken(1) [OF e]] closes_all [OF round.IH] spine obeys_rule obeys_step) (use round.hyps in simp_all)
qed

end

sublocale parser_ends \<subseteq> level: parser_series "ends w" Rc
  by unfold_locales
    (intro closed nextInnerDE_closes json_value_closes directives_from_closes statements_from_closes skip_parameter_ends
      recover_method_ends skip_commas_closes import_names_closes export_names_closes obeys_step; use enough in simp)+

context parser_ends begin

lemma checkPunctuators_parts: "checkPunctuators k ps \<longleftrightarrow> list_ex (checkPunctuator k) ps"
  by (induction ps) (auto simp: checkPunctuators_def checkPunctuator_def has_value_def split: option.splits)

lemma still_bracket: "same_kind k k2 \<Longrightarrow> proper k2 \<Longrightarrow> checkPunctuator k2 p \<longleftrightarrow> checkPunctuator k p"
  by (auto simp: proper_def checkPunctuator_def has_value_def has_id_def)

lemma still_brackets: "same_kind k k2 \<Longrightarrow> proper k2 \<Longrightarrow> checkPunctuators k2 ps \<longleftrightarrow> checkPunctuators k ps"
  by (simp only: checkPunctuators_parts ext [OF still_bracket])

lemma array_pattern_closes: "k \<le> n \<Longrightarrow> k \<le> w \<Longrightarrow> closes k anywhere (array_pattern n Rc c isAssignment afterRest ids)"
proof (induction n k arbitrary: c isAssignment afterRest ids rule: level_induct [where w = w])
  case (none n)
  show ?case by (intro closes_0 obeys_step)
next
  case (round n j)
  show ?case unfolding array_pattern.simps
    by (intro closes_again closes_eat [OF _ _ drops_provided [OF _ drops_advance]] closes_all [OF round.IH] spine obeys_rule obeys_step)
     (use round.hyps still_bracket in auto)
qed

lemma object_pattern_closes: "k \<le> n \<Longrightarrow> k \<le> w \<Longrightarrow> closes k anywhere (object_pattern n Rc c isAssignment ids)"
proof (induction n k arbitrary: c isAssignment ids rule: level_induct [where w = w])
  case (none n)
  show ?case by (intro closes_0 obeys_step)
next
  case (round n j)
  show ?case unfolding object_pattern.simps
    by (intro closes_again closes_eat [OF _ _ drops_provided [OF _ drops_advance]] closes_all [OF round.IH] spine obeys_rule obeys_step)
     (use round.hyps still_bracket in auto)
qed

end

end
