(* ===== verification/EndLoops.thy ===== *)
theory EndLoops
  imports EndContract
begin

text \<open>
  The loops over parameters, properties, members, declarations, arguments, clauses and operators read
  something in every round, so every function of the parser comes to an end.
\<close>

sublocale parser_ends \<subseteq> level: parser_patterns "ends w" Rc
  by unfold_locales (intro closed array_pattern_closes object_pattern_closes obeys_step; use enough in simp)+

section \<open>What the rounds read\<close>

context parser_ends begin

lemma pattern_eats:
  assumes "checkPunctuators k [''['', ''{'']"
  shows "drops (near k) B (destructuringPattern Rc c False a)" "drops (near k) B (destructuringPatternRecursive Rc c False a)"
proof -
  show r: "drops (near k) B (destructuringPatternRecursive Rc c False a)" for c
    unfolding destructuringPatternRecursive_def if_False
    by (intro drops_again drops_branches drops_first [OF _ drops_provided [OF _ drops_advance]] steady_near obeys_rule obeys_step)
      (use assms in \<open>auto simp: checkPunctuators_parts still_bracket simp del: same_kind_def\<close>)
  show "drops (near k) B (destructuringPattern Rc c False a)"
    unfolding destructuringPattern_def by (intro drops_second r steady_near obeys_rule obeys_step)
qed

lemma identifier_eats: "drops P (\<lambda>i. i \<noteq> None) (optionalidentifier c isName)"
  by (rule drops_near) (unfold optionalidentifier_def, intro dropping obeys_rule obeys_step, simp_all)

lemma name_eats: "drops (near k) (\<lambda>i. i \<noteq> None \<or> \<not> has_id '';'' k) (parse_identifier c isName)"
proof (cases "has_id '';'' k")
  case True
  show ?thesis unfolding parse_identifier_def
    by (rule drops_cond [OF _ identifier_eats])
      (simp_all add: True nonempty_def, (intro obeys_rule obeys_step drops_second steady_near drops_ret; simp add: True)+)
next
  case False
  show ?thesis unfolding parse_identifier_def
    apply (rule drops_cond [OF _ identifier_eats])
    apply (simp_all add: nonempty_def del: same_kind_def)
    apply (intro obeys_rule obeys_step)
    apply (intro steady_near obeys_rule obeys_step)
    apply (intro drops_again drops_first [OF _ drops_provided [OF _ drops_advance]] drops_second steady_near obeys_rule obeys_step)
    apply (use False in \<open>auto simp: has_id_def\<close>)
    done
qed

lemma skip_eats:
  assumes "has_id '';'' k" "proper k"
  shows "drops (near k) B (skip_parameter (r_fuel Rc))"
proof -
  have "\<not> checkPunctuators k ['','', '')'']" using assms
    by (auto simp: proper_def checkPunctuators_def has_value_def js_def)
  then show ?thesis
    unfolding skip_parameter_def
    by (intro drops_while drops_again drops_branches drops_first [OF _ drops_advance] steady_near obeys_rule obeys_step)
      (simp_all add: still_brackets del: same_kind_def)
qed

lemma id_bracket: "id_in [''{'', ''[''] k \<Longrightarrow> proper k \<Longrightarrow> checkPunctuators k [''['', ''{'']"
  by (auto simp: id_in_def proper_def has_id_def checkPunctuators_parts split: option.splits)

lemma params_eat: "eats (param_names Rc c)"
  unfolding param_names_def
proof (intro drops_next drops_branches)
  fix k assume "proper k" "id_in [''{'', ''[''] k"
  then show "drops (near k) any_result (do {
      ids \<leftarrow> destructuringPattern Rc c False False;
      ret (List.map_filter (\<lambda>(v, t). case nonempty v of Some s \<Rightarrow> Some (s, t) | None \<Rightarrow> None) ids, True) })"
    using id_bracket by (intro drops_first pattern_eats steady_near obeys_rule obeys_step)
next
  fix k assume k: "proper k"
  let ?rest = "\<lambda>ident. do {
      u \<leftarrow> curr_ref;
      (case ident of Some v \<Rightarrow> ret ([(v, u)], False) | None \<Rightarrow> do { skip_parameter (r_fuel Rc); ret ([], False) }) }"
  have "drops (near k) any_result (?rest None)" if "has_id '';'' k"
    unfolding option.case by (intro drops_second drops_first skip_eats [OF that k] steady_near obeys_rule obeys_step)
  then show "drops (near k) any_result (parse_identifier c False \<bind> ?rest)"
    by (intro drops_cond [OF _ name_eats] steady_near obeys_rule obeys_step) auto
qed

lemma function_eats:
  assumes "o_loneArg opts = None" "\<not> o_parsedOpening opts"
  shows "drops P B (doFunction Rc c opts)"
proof -
  have a: "eats (all_params Rc c (o_parsedOpening opts))" for c
    unfolding all_params_def using assms(2)
    by (intro dropping drops_second drops_first [OF _ drops_provided [OF _ drops_advance]] obeys_rule obeys_step) auto
  have f: "drops Q any_result (functionparams Rc c opts)" for Q c
    unfolding functionparams_def by (rule drops_near, intro drops_second steady_anywhere obeys_rule obeys_step) (simp add: assms(1) a)
  have p: "eats (function_parts Rc c opts)" for c
    unfolding function_parts_def
    by (intro drops_first [OF _ f] drops_second steady_anywhere obeys_rule obeys_step)
  have e: "obeys moves (enter_function b opts)" for b
    unfolding enter_function_def by (intro obeys_rule obeys_step moving.unnoticed) (simp add: outside_functors_def)
  have "eats (doFunction Rc c opts)"
    unfolding doFunction_def
    by (intro drops_branches drops_first [OF _ p] drops_second steady_anywhere obeys_rule obeys_step e moving.unnoticed)
      (simp_all add: outside_functors_def)
  then show ?thesis by (simp add: drops_def anything)
qed

lemma method_eats: "drops P B (doMethod Rc classToken c name generator)"
proof -
  have f: "drops P B (doFunction Rc c (method_options classToken name generator))" for P B
    by (rule function_eats) (simp_all add: method_options_def no_options_def)
  have r: "drops P B (recover_method Rc c)" for P B
    unfolding recover_method_def by (rule drops_near, intro drops_first [OF _ drops_advance] drops_second steady_anywhere obeys_rule obeys_step)
  let ?go = "\<lambda>givenUp. provided (\<not> givenUp) (do { doFunction Rc c (method_options classToken name generator); ret () })"
  have g: "drops anywhere B ((if b then ret False else recover_method Rc c) \<bind> ?go)" for b
  proof (cases b)
    case True
    show ?thesis
      by (simp only: True if_True State_Monad.bind_left_identity)
        (intro drops_provided drops_first [OF _ f] steady_anywhere obeys_rule obeys_step, simp)
  next
    case False
    show ?thesis
      by (simp only: False if_False) (intro drops_first [OF _ r] steady_anywhere obeys_rule obeys_step)
  qed
  show ?thesis
    unfolding doMethod_def
    by (rule drops_near, intro g drops_second steady_anywhere obeys_rule obeys_step)
qed

lemma member_parts_eat:
  "drops P B (static_constructor Rc classToken c inGenerator ps)"
  "drops P C (class_constructor Rc classToken c inGenerator accessor seen)"
  "drops P D (computedPropertyName Rc c)"
  "drops P E (named_member Rc classToken c isStatic inGenerator accessor ps)"
  unfolding static_constructor_def class_constructor_def computedPropertyName_def named_member_def
  by (rule drops_near, intro drops_branches drops_first [OF _ drops_advance] drops_first [OF _ method_eats] drops_second
      steady_anywhere obeys_rule obeys_step; simp)+

lemma member_eats: "eats (class_member Rc classToken c ps seen)"
  unfolding class_member_def
  by (intro dropping drops_first [OF _ member_parts_eat(1)] drops_first [OF _ member_parts_eat(2)]
      drops_first [OF _ member_parts_eat(3)] drops_first [OF _ member_parts_eat(4)] drops_second obeys_rule obeys_step)

end

section \<open>Parameters and functions\<close>

context parser_ends begin

lemma params_from_closes: "k \<le> n \<Longrightarrow> k \<le> w \<Longrightarrow> closes k anywhere (params_from n Rc c arity ids patterns pastDefault start)"
proof (induction n k arbitrary: c arity ids patterns pastDefault start rule: level_induct [where w = w])
  case (none n)
  show ?case by (intro closes_0 obeys_step)
next
  case (round n j)
  show ?case unfolding params_from.simps
    by (intro closes_eat [OF level.destructuringPatternRecursive_obeys(3) _ drops_near [OF params_eat]] closes_all [OF round.IH] spine obeys_rule obeys_step) (use round.hyps in simp_all)
qed

end

sublocale parser_ends \<subseteq> level: parser_uses "ends w" Rc
  by unfold_locales (intro closed params_from_closes obeys_step; use enough in simp)

section \<open>Lists, clauses and operators\<close>

context parser_ends begin

lemma comma_eats:
  "drops P (\<lambda>more. more) property_comma"
  "drops P (\<lambda>more. more) (declaration_comma t)"
  unfolding property_comma_def declaration_comma_def
  by (rule drops_near, intro dropping drops_second obeys_rule obeys_step; simp)+

lemma template_eats: "drops P B (if b then do { r_expr Rc c p; ret () } else advance)"
  by (rule drops_near, intro dropping drops_first [OF _ calls_eat(1)] obeys_rule obeys_step)

lemma clause_eats:
  "drops P B (catch_clause Rc c again)"
  "drops P B (case_clause Rc c)"
  "drops P B (default_clause seenCase)"
  unfolding catch_clause_def case_clause_def default_clause_def
  by (rule drops_near, intro drops_first [OF _ drops_advance] drops_second steady_anywhere obeys_rule obeys_step)+

lemma target_eats: "drops (near k) B (if checkPunctuators k [''{'', ''[''] then pattern_target Rc c x else expression_target Rc c x)"
proof (intro drops_branches)
  assume "checkPunctuators k [''{'', ''['']"
  then have "checkPunctuators k [''['', ''{'']" by (auto simp: checkPunctuators_parts)
  then show "drops (near k) B (pattern_target Rc c x)"
    unfolding pattern_target_def by (intro drops_branches drops_first pattern_eats steady_near obeys_rule obeys_step)
next
  show "drops (near k) B (expression_target Rc c x)"
    unfolding expression_target_def
    by (rule drops_near, intro drops_branches drops_first [OF _ calls_eat(1)] steady_anywhere obeys_rule obeys_step)
qed

lemma statements_eat: "drops P (\<lambda>goes_on. goes_on) (clause_statements Rc c False)"
proof -
  have m: "drops P (\<lambda>goes_on. goes_on) (if b then do { advance_id '':''; report_curr ''E024'' [str_arg '':'']; statements Rc c; ret True }
      else do { report_next ''E021'' args; ret False })" for P b args
    by (rule drops_near, intro dropping drops_second obeys_rule obeys_step; simp)
  show ?thesis
    unfolding clause_statements_def if_False
    by (rule drops_near, intro drops_cond [OF _ m] drops_second drops_ret steady_anywhere obeys_rule obeys_step; simp)
qed

lemma object_properties_closes: "k \<le> n \<Longrightarrow> k \<le> w \<Longrightarrow> closes k anywhere (object_properties n Rc c i ps)"
proof (induction n k arbitrary: c i ps rule: level_induct [where w = w])
  case (none n)
  show ?case by (intro closes_0 obeys_step)
next
  case (round n j)
  show ?case unfolding object_properties.simps
    by (intro closes_cond [where w = w, OF _ _ comma_eats(1)] closes_all [OF round.IH] spine obeys_rule obeys_step) (use round.hyps in simp_all)
qed

lemma class_members_closes: "k \<le> n \<Longrightarrow> k \<le> w \<Longrightarrow> closes k anywhere (class_members n Rc classToken c ps seen)"
proof (induction n k arbitrary: classToken c ps seen rule: level_induct [where w = w])
  case (none n)
  show ?case by (intro closes_0 obeys_step)
next
  case (round n j)
  show ?case unfolding class_members.simps
    by (intro closes_eat [where w = w, OF _ _ drops_near [OF member_eats]] closes_all [OF round.IH] spine obeys_rule obeys_step) (use round.hyps in simp_all)
qed

lemma let_declarations_closes: "k \<le> n \<Longrightarrow> k \<le> w \<Longrightarrow> closes k anywhere (let_declarations n Rc ty c t)"
proof (induction n k arbitrary: ty c t rule: level_induct [where w = w])
  case (none n)
  show ?case by (intro closes_0 obeys_step)
next
  case (round n j)
  show ?case unfolding let_declarations.simps
    by (intro closes_cond [where w = w, OF _ _ comma_eats(2)] closes_all [OF round.IH] spine obeys_rule obeys_step) (use round.hyps in simp_all)
qed

lemma var_declarations_closes: "k \<le> n \<Longrightarrow> k \<le> w \<Longrightarrow> closes k anywhere (var_declarations n Rc c t)"
proof (induction n k arbitrary: c t rule: level_induct [where w = w])
  case (none n)
  show ?case by (intro closes_0 obeys_step)
next
  case (round n j)
  show ?case unfolding var_declarations.simps
    by (intro closes_cond [where w = w, OF _ _ comma_eats(2)] closes_all [OF round.IH] spine obeys_rule obeys_step) (use round.hyps in simp_all)
qed

lemma call_arguments_closes: "k \<le> n \<Longrightarrow> k \<le> w \<Longrightarrow> closes k anywhere (call_arguments n Rc c ps)"
proof (induction n k arbitrary: c ps rule: level_induct [where w = w])
  case (none n)
  show ?case by (intro closes_0 obeys_step)
next
  case (round n j)
  show ?case unfolding call_arguments.simps
    by (intro closes_all [OF round.IH] spine obeys_rule obeys_step) (use round.hyps in simp_all)
qed

lemma array_elements_closes: "k \<le> n \<Longrightarrow> k \<le> w \<Longrightarrow> closes k anywhere (array_elements n Rc c t)"
proof (induction n k arbitrary: c t rule: level_induct [where w = w])
  case (none n)
  show ?case by (intro closes_0 obeys_step)
next
  case (round n j)
  show ?case unfolding array_elements.simps
    by (intro closes_all [OF round.IH] spine obeys_rule obeys_step) (use round.hyps in simp_all)
qed

lemma template_parts_closes: "k \<le> n \<Longrightarrow> k \<le> w \<Longrightarrow> closes k anywhere (template_parts n Rc c ctx depth)"
proof (induction n k arbitrary: c ctx depth rule: level_induct [where w = w])
  case (none n)
  show ?case by (intro closes_0 obeys_step)
next
  case (round n j)
  show ?case unfolding template_parts.simps
    by (intro closes_eat [where w = w, OF _ _ template_eats] closes_all [OF round.IH] spine obeys_rule obeys_step) (use round.hyps in simp_all)
qed

lemma catch_clauses_closes: "k \<le> n \<Longrightarrow> k \<le> w \<Longrightarrow> closes k anywhere (catch_clauses n Rc c again)"
proof (induction n k arbitrary: c again rule: level_induct [where w = w])
  case (none n)
  show ?case by (intro closes_0 obeys_step)
next
  case (round n j)
  show ?case unfolding catch_clauses.simps
    by (intro closes_eat [where w = w, OF _ _ clause_eats(1)] closes_all [OF round.IH] spine obeys_rule obeys_step) (use round.hyps in simp_all)
qed

lemma increments_closes: "k \<le> n \<Longrightarrow> k \<le> w \<Longrightarrow> closes k anywhere (increments n Rc c)"
proof (induction n k arbitrary: c rule: level_induct [where w = w])
  case (none n)
  show ?case by (intro closes_0 obeys_step)
next
  case (round n j)
  show ?case unfolding increments.simps
    by (intro closes_all [OF round.IH] spine obeys_rule obeys_step) (use round.hyps in simp_all)
qed

lemma head_targets_closes: "k \<le> n \<Longrightarrow> k \<le> w \<Longrightarrow> closes k anywhere (head_targets n Rc c x)"
proof (induction n k arbitrary: c x rule: level_induct [where w = w])
  case (none n)
  show ?case by (intro closes_0 obeys_step)
next
  case (round n j)
  show ?case unfolding head_targets.simps
    by (intro closes_eat [where w = w, OF _ _ target_eats] closes_all [OF round.IH] spine obeys_rule obeys_step)
      (use round.hyps in simp_all)
qed

text \<open>After statements that read nothing the loop over the clauses of a \<open>switch\<close> ends in the next round.\<close>

lemma switch_clauses_closes:
  "2 * k + (if g then 1 else 0) \<le> n \<Longrightarrow> k \<le> w \<Longrightarrow> closes k anywhere (switch_clauses n Rc c t noindent g seenCase)"
proof (induction n arbitrary: k g seenCase)
  case 0
  then show ?case by (auto intro: closes_0 obeys_step)
next
  case (Suc n)
  show ?case
  proof (cases k)
    case 0
    show ?thesis unfolding 0 by (intro closes_0 obeys_step)
  next
    case j: (Suc j)
    have r: "closes j anywhere (switch_clauses n Rc c t noindent True b)" for b using Suc.prems j by (intro Suc.IH) auto
    have s: "closes (Suc j) P (do { goes_on \<leftarrow> clause_statements Rc c g; if goes_on then switch_clauses n Rc c t noindent False b else ret () })" for P b
    proof (cases g)
      case True
      have "closes (Suc j) P (switch_clauses n Rc c t noindent False b)" for P b
        using Suc.prems j True by (intro closes_all [OF Suc.IH]) auto
      note r = this
      have "closes (Suc j) anywhere (if b' then switch_clauses n Rc c t noindent False b else ret ())" for b'
        by (intro r spine obeys_step) (use Suc.prems j in simp_all)
      then show ?thesis using Suc.prems j
        by (intro closes_all [where P = P] closes_pass [where w = w] steady_anywhere obeys_step) simp_all
    next
      case False
      have "closes j P (switch_clauses n Rc c t noindent False b)" for P b
        using Suc.prems j False by (intro closes_all [OF Suc.IH]) auto
      note r = this
      show ?thesis using False
        by (simp only: not_False_eq_True) (intro closes_cond [where w = w, OF _ _ statements_eat] r spine obeys_step; use Suc.prems j in simp)
    qed
    show ?thesis unfolding j switch_clauses.simps
      by (intro closes_eat [where w = w, OF _ _ clause_eats(2)] closes_eat [where w = w, OF _ _ clause_eats(3)]
          s closes_all [OF r] spine obeys_rule obeys_step) (use Suc.prems j in simp_all)
  qed
qed

end

sublocale parser_ends \<subseteq> level: parser_loops "ends w" Rc
  by unfold_locales
    (intro closed object_properties_closes class_members_closes let_declarations_closes var_declarations_closes
      call_arguments_closes array_elements_closes template_parts_closes catch_clauses_closes switch_clauses_closes
      head_targets_closes increments_closes obeys_step; use enough in simp)+

context parser_ends begin

lemma operators_closes: "k \<le> n \<Longrightarrow> k \<le> w \<Longrightarrow> closes k anywhere (operators n Rc c rbp left)"
proof (induction n k arbitrary: c rbp left rule: level_induct [where w = w])
  case (none n)
  show ?case by (intro closes_0 obeys_step)
next
  case (round n j)
  show ?case unfolding operators.simps
    by (intro closes_all [OF round.IH] spine obeys_rule obeys_step) (use round.hyps in simp_all)
qed

end

sublocale parser_ends \<subseteq> level: parser_functions "ends w" Rc
  by unfold_locales (intro closed operators_closes obeys_step; use enough in simp)

end
