(* ===== verification/FuelRules.thy ===== *)
theory FuelRules
  imports JsonEnds
begin

text \<open>
  Fuel: a parser that has more of it does the same, unless the other one was cut off. This theory has
  the relation between two parsers, and the rules for the constructs of the definitions.
\<close>

section \<open>Steps after an exception\<close>

interpretation halted: parser_frame idle
proof unfold_locales
  show "obeys idle (upd f)" "obeys idle (lint g)" for f g by (rule obeysI, rule idle_upd idle_lint)+
  then show "obeys idle (upd_funct g)" "obeys idle (upd_lstate h)" "obeys idle (scope_op e)"
      "obeys idle (upd_lstate (put_options os is))" and n: "obeys idle (renaming k)" for g h e os "is" k
    by (simp_all add: upd_funct_def upd_lstate_def scope_op_def renaming_def)
  show "obeys idle m \<Longrightarrow> obeys idle (nested m)" for m :: "nat option parser"
    by (rule nested_obeys [OF _ _ n]) (auto simp: idle_def)
  show "obeys idle (lint (warningAt code l c args))" "obeys idle (lint (quit code p args))" "obeys idle (lint fault)" for code l c p args
    by (rule obeysI, rule idle_lint)+
qed (auto simp: obeys_def idle_def alloc_def out_of_fuel_def idle_peek [unfolded idle_def] idle_advance [unfolded idle_def])

lemma idle_names [obeys_step]: "obeys idle names_push" "obeys idle names_pop"
  by (simp_all add: obeys_def names_push_def names_pop_def idle_def)

section \<open>One parser extends another\<close>

text \<open>
  \<open>m'\<close> extends \<open>m\<close>: it does what \<open>m\<close> does wherever \<open>m\<close> is not cut off. (What a step returns after an
  exception is of no importance.)
\<close>

definition extends :: "'a parser \<Rightarrow> 'a parser \<Rightarrow> bool" where
  "extends m m' \<longleftrightarrow> obeys idle m \<and> obeys idle m' \<and>
     (\<forall>S. case run_state m S of (x, S1) \<Rightarrow> case run_state m' S of (y, S2) \<Rightarrow>
        p_stuck S1 \<or> S2 = S1 \<and> (stopped S1 \<or> y = x))"

lemma extends_obeys: "extends m m' \<Longrightarrow> obeys idle m" "extends m m' \<Longrightarrow> obeys idle m'"
  by (simp_all add: extends_def)

lemma extendsI:
  assumes "obeys idle m" "obeys idle m'"
    and "\<And>S x S1 y S2. run_state m S = (x, S1) \<Longrightarrow> run_state m' S = (y, S2) \<Longrightarrow>
      p_stuck S1 \<or> S2 = S1 \<and> (stopped S1 \<or> y = x)"
  shows "extends m m'"
  unfolding extends_def using assms by (intro conjI allI) (simp_all split: prod.split)

lemma extendsD:
  assumes "extends m m'" "run_state m S = (x, S1)" "run_state m' S = (y, S2)"
  shows "p_stuck S1 \<or> S2 = S1 \<and> (stopped S1 \<or> y = x)"
  using assms(1) [unfolded extends_def, THEN conjunct2, THEN conjunct2, THEN spec, of S] assms(2,3) by simp

lemma extends_refl: "obeys idle m \<Longrightarrow> extends m m"
  by (auto simp: extends_def)

lemma idle_stuck: "idle S S' \<Longrightarrow> p_stuck S \<Longrightarrow> p_stuck S'"
  by (simp add: idle_def stopped_def)

named_theorems extends_rule and extends_step

lemma extends_bind [extends_rule]:
  assumes "extends m m'" "\<And>x. extends (f x) (f' x)"
  shows "extends (m \<bind> f) (m' \<bind> f')"
proof (rule extendsI)
  note f = extends_obeys [OF assms(2)]
  show "obeys idle (m \<bind> f)" "obeys idle (m' \<bind> f')"
    using extends_obeys [OF assms(1)] f by (simp_all add: halted.bind_obeys)
  fix S u T1 v T2
  assume r: "run_state (m \<bind> f) S = (u, T1)" "run_state (m' \<bind> f') S = (v, T2)"
  obtain x S1 y S2 where 1: "run_state m S = (x, S1)" "run_state m' S = (y, S2)" by fastforce
  have 2: "run_state (f x) S1 = (u, T1)" and 3: "run_state (f' y) S2 = (v, T2)" using r 1 by simp_all
  have i: "idle S1 T1" "idle S2 T2" using obeysD [OF f(1) [of x], of S1] obeysD [OF f(2) [of y], of S2] 2 3 by simp_all
  show "p_stuck T1 \<or> T2 = T1 \<and> (stopped T1 \<or> v = u)"
  proof (cases "stopped S1")
    case True
    then show ?thesis using extendsD [OF assms(1) 1] i by (auto simp: idle_def)
  next
    case False
    then have "S2 = S1" "y = x" using extendsD [OF assms(1) 1] by (auto simp: stopped_def)
    then show ?thesis using extendsD [OF assms(2) 2] 3 by simp
  qed
qed

lemma extends_branches [extends_rule]:
  "extends m1 m1' \<Longrightarrow> extends m2 m2' \<Longrightarrow> extends (if b then m1 else m2) (if b then m1' else m2')"
  "extends (h x) (h' x) \<Longrightarrow> extends (Let x h) (Let x h')"
  "(\<And>a b. extends (g a b) (g' a b)) \<Longrightarrow> extends (case p of (a, b) \<Rightarrow> g a b) (case p of (a, b) \<Rightarrow> g' a b)"
  "extends m1 m1' \<Longrightarrow> (\<And>x. extends (f x) (f' x)) \<Longrightarrow>
    extends (case o' of None \<Rightarrow> m1 | Some x \<Rightarrow> f x) (case o' of None \<Rightarrow> m1' | Some x \<Rightarrow> f' x)"
  "extends m1 m1' \<Longrightarrow> (\<And>x r. extends (l x r) (l' x r)) \<Longrightarrow>
    extends (case xs of [] \<Rightarrow> m1 | x # r \<Rightarrow> l x r) (case xs of [] \<Rightarrow> m1' | x # r \<Rightarrow> l' x r)"
  by (auto split: option.splits list.splits prod.splits)

lemma extends_cases [extends_rule]:
  "extends m1 m1' \<Longrightarrow> (\<And>x. extends (f x) (f' x)) \<Longrightarrow> (\<And>x. extends (g x) (g' x)) \<Longrightarrow> (\<And>x. extends (h x) (h' x)) \<Longrightarrow>
    extends (case v of VNone \<Rightarrow> m1 | VTok x \<Rightarrow> f x | VName x \<Rightarrow> g x | VList x \<Rightarrow> h x)
      (case v of VNone \<Rightarrow> m1' | VTok x \<Rightarrow> f' x | VName x \<Rightarrow> g' x | VList x \<Rightarrow> h' x)"
  "extends m1 m1' \<Longrightarrow> (\<And>x. extends (f2 x) (f2' x)) \<Longrightarrow> (\<And>x. extends (g2 x) (g2' x)) \<Longrightarrow>
    extends (case n of NoName \<Rightarrow> m1 | TextName x \<Rightarrow> f2 x | ComputedName x \<Rightarrow> g2 x)
      (case n of NoName \<Rightarrow> m1' | TextName x \<Rightarrow> f2' x | ComputedName x \<Rightarrow> g2' x)"
  by (auto split: tok_val.splits prop_name.splits)

lemma extends_table:
  "list_all2 (\<lambda>(p, m) (q, m'). p = q \<and> extends m m') tbl tbl' \<Longrightarrow> extends d d' \<Longrightarrow>
    extends (case map_of tbl p of None \<Rightarrow> d | Some m \<Rightarrow> m) (case map_of tbl' p of None \<Rightarrow> d' | Some m \<Rightarrow> m)"
  by (induction tbl tbl' rule: list_all2_induct) auto

lemma extends_provided [extends_rule]: "extends m m' \<Longrightarrow> extends (provided b m) (provided b m')"
  by (cases b) (simp_all add: extends_refl halted.pure_steps)

lemma extends_for_each [extends_rule]: "(\<And>x. extends (f x) (f' x)) \<Longrightarrow> extends (for_each f xs) (for_each f' xs)"
  by (induction xs) (simp_all add: extends_refl halted.pure_steps extends_bind)

section \<open>The end of the fuel\<close>

lemma extends_fuel:
  assumes "obeys idle m'" "obeys idle f"
  shows "extends (out_of_fuel \<bind> (\<lambda>_. f)) m'"
proof (rule extendsI)
  show i: "obeys idle (out_of_fuel \<bind> (\<lambda>_. f))" by (simp add: halted.bind_obeys halted.cut_off assms(2))
  fix S x S1 y S2
  assume r: "run_state (out_of_fuel \<bind> (\<lambda>_. f)) S = (x, S1)" "run_state m' S = (y, S2)"
  show "p_stuck S1 \<or> S2 = S1 \<and> (stopped S1 \<or> y = x)"
  proof (cases "stopped S")
    case True
    then show ?thesis using r obeysD [OF i, of S] obeysD [OF assms(1), of S] by (simp add: idle_def)
  next
    case False
    then have "idle (S\<lparr>p_stuck := True\<rparr>) S1"
      using r(1) obeysD [OF assms(2), of "S\<lparr>p_stuck := True\<rparr>"] by (simp add: out_of_fuel_def)
    then show ?thesis by (simp add: idle_def stopped_def)
  qed
qed (rule assms(1))

lemma extends_out_of_fuel: "obeys idle m' \<Longrightarrow> extends out_of_fuel m'"
  using extends_fuel [OF _ halted.pure_steps(1) [of "()"]] by simp

lemma extends_while_loop [extends_rule]:
  "n \<le> n' \<Longrightarrow> extends m m' \<Longrightarrow> extends (while_loop n m) (while_loop n' m')"
proof (induction n arbitrary: n')
  case 0
  then show ?case using halted.while_loop_obeys [OF extends_obeys(2)] by (simp add: extends_out_of_fuel)
next
  case (Suc n)
  then obtain k where k: "n' = Suc k" "n \<le> k" by (cases n') auto
  show ?case
    using Suc.IH [OF k(2) Suc.prems(2)] Suc.prems(2)
    by (simp only: k while_loop.simps) (intro extends_rule extends_refl halted.pure_steps)
qed

text \<open>Induction over the fuel of two loops.\<close>

lemma fuel_induct [consumes 1, case_names out step]:
  assumes "n \<le> n'" "\<And>n'. P 0 n'" "\<And>n k. n \<le> k \<Longrightarrow> P n k \<Longrightarrow> P (Suc n) (Suc k)"
  shows "P n n'"
  using assms(1)
proof (induction n arbitrary: n')
  case (Suc n)
  then obtain k where "n' = Suc k" "n \<le> k" by (cases n') auto
  then show ?case using Suc.IH assms(3) by blast
qed (rule assms(2))

end
