(* ===== verification/FuelContract.thy ===== *)
theory FuelContract
  imports FuelRules
begin

text \<open>
  Every function of the parser extends itself: with recursive functions that extend each other, and no
  less fuel, it does the same wherever it is not cut off. \<open>fuelled\<close> has the two sets of recursive
  functions; the development goes through the functions in the order of \<open>ParserContract\<close>.
\<close>

locale fuelled = lo: parser_recursive idle Rc + hi: parser_recursive idle Rd for Rc Rd +
  assumes expr_extends: "extends (r_expr Rc c p) (r_expr Rd c p)"
    and stmt_extends: "extends (r_stmt Rc c) (r_stmt Rd c)"
    and pat_extends: "extends (r_pat Rc c False a) (r_pat Rd c False a)"
    and more_fuel: "r_fuel Rc \<le> r_fuel Rd"
begin

declare expr_extends [extends_step] and stmt_extends [extends_step] and pat_extends [extends_step]
  and more_fuel [extends_step]

lemma peekIgnoreEOL_extends [extends_step]: "n \<le> n' \<Longrightarrow> extends (peekIgnoreEOL n i) (peekIgnoreEOL n' i)"
proof (induction n n' arbitrary: i rule: fuel_induct)
  case (out n')
  show ?case by (simp only: peekIgnoreEOL.simps) (intro extends_fuel extends_out_of_fuel obeys_step)
next
  case (step n k)
  show ?case by (simp only: peekIgnoreEOL.simps) (intro extends_rule extends_step step extends_refl obeys_rule obeys_step)
qed

lemma spreadrest_extends [extends_step]:
  "n \<le> n' \<Longrightarrow> extends (spreadrest n operation) (spreadrest n' operation)"
  unfolding spreadrest_def
  by (intro extends_rule extends_step extends_refl obeys_rule obeys_step lo.obeys_update; simp add: frame_def)+

lemma reachable_from_extends [extends_step]: "n \<le> n' \<Longrightarrow> extends (reachable_from n i v) (reachable_from n' i v)"
proof (induction n n' arbitrary: i v rule: fuel_induct)
  case (out n')
  show ?case by (simp only: reachable_from.simps) (intro extends_fuel extends_out_of_fuel obeys_step)
next
  case (step n k)
  show ?case by (simp only: reachable_from.simps) (intro extends_rule extends_step step extends_refl obeys_rule obeys_step)
qed

lemma reachable_extends [extends_step]:
  "n \<le> n' \<Longrightarrow> extends (reachable n controlToken) (reachable n' controlToken)"
  unfolding reachable_def
  by (intro extends_rule extends_step extends_refl obeys_rule obeys_step lo.obeys_update; simp add: frame_def)+

lemma peek_through_extends [extends_step]: "n \<le> n' \<Longrightarrow> extends (peek_through n i parens pn) (peek_through n' i parens pn)"
proof (induction n n' arbitrary: i parens pn rule: fuel_induct)
  case (out n')
  show ?case by (simp only: peek_through.simps) (intro extends_fuel extends_out_of_fuel obeys_step)
next
  case (step n k)
  show ?case by (simp only: peek_through.simps) (intro extends_rule extends_step step extends_refl obeys_rule obeys_step)
qed

lemma peekThroughParens_extends [extends_step]:
  "n \<le> n' \<Longrightarrow> extends (peekThroughParens n parens) (peekThroughParens n' parens)"
  unfolding peekThroughParens_def
  by (intro extends_rule extends_step extends_refl obeys_rule obeys_step lo.obeys_update; simp add: frame_def)+

lemma block_type_from_extends [extends_step]: "n \<le> n' \<Longrightarrow> extends (block_type_from n i depth prev pn notJson) (block_type_from n' i depth prev pn notJson)"
proof (induction n n' arbitrary: i depth prev pn notJson rule: fuel_induct)
  case (out n')
  show ?case by (simp only: block_type_from.simps) (intro extends_fuel extends_out_of_fuel obeys_step)
next
  case (step n k)
  show ?case by (simp only: block_type_from.simps) (intro extends_rule extends_step step extends_refl obeys_rule obeys_step)
qed

lemma lookupBlockType_extends [extends_step]:
  "n \<le> n' \<Longrightarrow> extends (lookupBlockType n) (lookupBlockType n')"
  unfolding lookupBlockType_def
  by (intro extends_rule extends_step extends_refl obeys_rule obeys_step lo.obeys_update; simp add: frame_def)+

lemma extends_needs [extends_rule]: "extends m m' \<Longrightarrow> extends (needs ok m) (needs ok m')"
  unfolding needs_def by (intro extends_rule extends_refl obeys_step)

lemma binary_led_extends [extends_step]:
  "extends (binary_led Rc c p t left) (binary_led Rd c p t left)"
  "extends (plain_led Rc c p t left) (plain_led Rd c p t left)"
  unfolding binary_led_def plain_led_def
  by (intro extends_rule extends_step extends_refl obeys_rule obeys_step lo.obeys_update; simp add: frame_def)+

lemma in_led_extends [extends_step]:
  "extends (in_led Rc c t left) (in_led Rd c t left)"
  "extends (bitwise_led Rc c p t left) (bitwise_led Rd c p t left)"
  "extends (assign_led Rc c t left) (assign_led Rd c t left)"
  "extends (bitwise_assign_led Rc c t left) (bitwise_assign_led Rd c t left)"
  "extends (power_assign_led Rc c t left) (power_assign_led Rd c t left)"
  "extends (comma_led Rc c t left) (comma_led Rd c t left)"
  "extends (conditional_led Rc c t left) (conditional_led Rd c t left)"
  "extends (logical_led Rc c p t left) (logical_led Rd c p t left)"
  "extends (nullish_led Rc c t left) (nullish_led Rd c t left)"
  unfolding in_led_def bitwise_led_def assign_led_def bitwise_assign_led_def power_assign_led_def comma_led_def conditional_led_def logical_led_def nullish_led_def
  by (intro extends_rule extends_step extends_refl obeys_rule obeys_step lo.obeys_update; simp add: frame_def)+

lemma power_led_extends [extends_step]:
  "extends (power_led Rc c t left) (power_led Rd c t left)"
  "extends (relation_led Rc c t left) (relation_led Rd c t left)"
  "extends (instanceof_led Rc c t left) (instanceof_led Rd c t left)"
  "extends (plus_led Rc c t left) (plus_led Rd c t left)"
  "extends (minus_led Rc c t left) (minus_led Rd c t left)"
  "extends (prefix_nud Rc c t) (prefix_nud Rd c t)"
  unfolding power_led_def relation_led_def instanceof_led_def plus_led_join minus_led_def prefix_nud_def
  by (intro extends_rule extends_step extends_refl obeys_rule obeys_step lo.obeys_update; simp add: frame_def)+

lemma sign_nud_extends [extends_step]:
  "extends (sign_nud Rc signs code c t) (sign_nud Rd signs code c t)"
  "extends (delete_nud Rc c t) (delete_nud Rd c t)"
  "extends (tilde_nud Rc c t) (tilde_nud Rd c t)"
  "extends (not_nud Rc c t) (not_nud Rd c t)"
  "extends (typeof_nud Rc c t) (typeof_nud Rd c t)"
  unfolding sign_nud_def delete_nud_def tilde_nud_def not_nud_def typeof_nud_def
  by (intro extends_rule extends_step extends_refl obeys_rule obeys_step lo.obeys_update; simp add: frame_def)+

lemma json_value_extends [extends_step]: "n \<le> n' \<Longrightarrow> extends (json_value n) (json_value n')"
proof (intro extendsI lo.json_value_obeys)
  fix S x S1 y S2
  assume "n \<le> n'" "run_state (json_value n) S = (x, S1)" "run_state (json_value n') S = (y, S2)"
  then show "p_stuck S1 \<or> S2 = S1 \<and> (stopped S1 \<or> y = x)" using value_stable [of n S n'] by auto
qed

lemma assignment_target_extends [extends_step]:
  "extends (assignment_target Rc c) (assignment_target Rd c)"
  unfolding assignment_target_def
  by (intro extends_rule extends_step extends_refl obeys_rule obeys_step lo.obeys_update; simp add: frame_def)+

lemma nextInnerDE_extends [extends_step]: "n \<le> n' \<Longrightarrow> extends (nextInnerDE n Rc c isAssignment) (nextInnerDE n' Rd c isAssignment)"
proof (induction n n' arbitrary: c isAssignment rule: fuel_induct)
  case (out n')
  show ?case by (simp only: nextInnerDE.simps) (intro extends_fuel extends_out_of_fuel obeys_step)
next
  case (step n k)
  show ?case by (simp only: nextInnerDE.simps) (intro extends_rule extends_step step extends_refl obeys_rule obeys_step)
qed

lemma rest_name_extends [extends_step]:
  "extends (rest_name Rc c) (rest_name Rd c)"
  "extends (named_property Rc c isAssignment) (named_property Rd c isAssignment)"
  "extends (assignmentProperty Rc c isAssignment) (assignmentProperty Rd c isAssignment)"
  "extends (pattern_default Rc c) (pattern_default Rd c)"
  unfolding rest_name_def named_property_def assignmentProperty_def pattern_default_def
  by (intro extends_rule extends_step extends_refl obeys_rule obeys_step lo.obeys_update; simp add: frame_def)+

lemma array_pattern_extends [extends_step]: "n \<le> n' \<Longrightarrow> extends (array_pattern n Rc c isAssignment afterRest ids) (array_pattern n' Rd c isAssignment afterRest ids)"
proof (induction n n' arbitrary: c isAssignment afterRest ids rule: fuel_induct)
  case (out n')
  show ?case by (simp only: array_pattern.simps) (intro extends_fuel extends_out_of_fuel obeys_step)
next
  case (step n k)
  show ?case by (simp only: array_pattern.simps) (intro extends_rule extends_step step extends_refl obeys_rule obeys_step)
qed

lemma object_pattern_extends [extends_step]: "n \<le> n' \<Longrightarrow> extends (object_pattern n Rc c isAssignment ids) (object_pattern n' Rd c isAssignment ids)"
proof (induction n n' arbitrary: c isAssignment ids rule: fuel_induct)
  case (out n')
  show ?case by (simp only: object_pattern.simps) (intro extends_fuel extends_out_of_fuel obeys_step)
next
  case (step n k)
  show ?case by (simp only: object_pattern.simps) (intro extends_rule extends_step step extends_refl obeys_rule obeys_step)
qed

lemma destructuringPatternRecursive_extends [extends_step]:
  "extends (destructuringPatternRecursive Rc c opened isAssignment) (destructuringPatternRecursive Rd c opened isAssignment)"
  unfolding destructuringPatternRecursive_def
  by (intro extends_rule extends_step extends_refl obeys_rule obeys_step lo.obeys_update; simp add: frame_def)+

lemma destructuringPattern_extends [extends_step]:
  "extends (destructuringPattern Rc c opened isAssignment) (destructuringPattern Rd c opened isAssignment)"
  unfolding destructuringPattern_def
  by (intro extends_rule extends_step extends_refl obeys_rule obeys_step lo.obeys_update; simp add: frame_def)+

lemma directives_from_extends [extends_step]: "n \<le> n' \<Longrightarrow> extends (directives_from n Rc current) (directives_from n' Rd current)"
proof (induction n n' arbitrary: current rule: fuel_induct)
  case (out n')
  show ?case by (simp only: directives_from.simps) (intro extends_fuel extends_out_of_fuel obeys_step)
next
  case (step n k)
  show ?case by (simp only: directives_from.simps) (intro extends_rule extends_step step extends_refl obeys_rule obeys_step)
qed

lemma directives_extends [extends_step]:
  "extends (directives Rc) (directives Rd)"
  unfolding directives_def
  by (intro extends_rule extends_step extends_refl obeys_rule obeys_step lo.obeys_update; simp add: frame_def)+

lemma statements_from_extends [extends_step]: "n \<le> n' \<Longrightarrow> extends (statements_from n Rc c xs) (statements_from n' Rd c xs)"
proof (induction n n' arbitrary: c xs rule: fuel_induct)
  case (out n')
  show ?case by (simp only: statements_from.simps) (intro extends_fuel extends_out_of_fuel obeys_step)
next
  case (step n k)
  show ?case by (simp only: statements_from.simps) (intro extends_rule extends_step step extends_refl obeys_rule obeys_step)
qed

lemma statements_extends [extends_step]:
  "extends (statements Rc c) (statements Rd c)"
  "extends (function_prologue Rc) (function_prologue Rd)"
  "extends (block_body Rc c ordinary isfunc) (block_body Rd c ordinary isfunc)"
  "extends (braced_block Rc c ordinary isfunc isfatarrow) (braced_block Rd c ordinary isfunc isfatarrow)"
  "extends (expression_block Rc c stmt' isfatarrow) (expression_block Rd c stmt' isfatarrow)"
  unfolding statements_def function_prologue_def block_body_def braced_block_def expression_block_def
  by (intro extends_rule extends_step extends_refl obeys_rule obeys_step lo.obeys_update; simp add: frame_def)+

lemma braceless_block_extends [extends_step]:
  "extends (braceless_block Rc c stmt') (braceless_block Rd c stmt')"
  "extends (block Rc c ordinary stmt' isfunc isfatarrow iscase) (block Rd c ordinary stmt' isfunc isfatarrow iscase)"
  "extends (stmt_block Rc c) (stmt_block Rd c)"
  "extends (end_statement Rc t r) (end_statement Rd t r)"
  "extends (unlabelled_statement Rc c t i) (unlabelled_statement Rd c t i)"
  unfolding braceless_block_def block_def stmt_block_def end_statement_def unlabelled_statement_def
  by (intro extends_rule extends_step extends_refl obeys_rule obeys_step lo.obeys_update; simp add: frame_def)+

lemma statement_extends [extends_step]:
  "extends (statement Rc c) (statement Rd c)"
  unfolding statement_def
  by (intro extends_rule extends_step extends_refl obeys_rule obeys_step lo.obeys_update; simp add: frame_def)+

lemma skip_parameter_extends [extends_step]:
  "n \<le> n' \<Longrightarrow> extends (skip_parameter n) (skip_parameter n')"
  "extends (param_names Rc c) (param_names Rd c)"
  "extends (param_default Rc c pastDefault pastRest) (param_default Rd c pastDefault pastRest)"
  unfolding skip_parameter_def param_names_def param_default_def
  by (intro extends_rule extends_step extends_refl obeys_rule obeys_step lo.obeys_update; simp add: frame_def)+

lemma params_from_extends [extends_step]: "n \<le> n' \<Longrightarrow> extends (params_from n Rc c arity ids patterns pastDefault start) (params_from n' Rd c arity ids patterns pastDefault start)"
proof (induction n n' arbitrary: c arity ids patterns pastDefault start rule: fuel_induct)
  case (out n')
  show ?case by (simp only: params_from.simps) (intro extends_fuel extends_out_of_fuel obeys_step)
next
  case (step n k)
  show ?case by (simp only: params_from.simps) (intro extends_rule extends_step step extends_refl obeys_rule obeys_step)
qed

lemma all_params_extends [extends_step]:
  "extends (all_params Rc c parsedOpening) (all_params Rd c parsedOpening)"
  "extends (functionparams Rc c opts) (functionparams Rd c opts)"
  unfolding all_params_def functionparams_def
  by (intro extends_rule extends_step extends_refl obeys_rule obeys_step lo.obeys_update; simp add: frame_def)+

lemma function_parts_extends [extends_step]:
  "extends (function_parts Rc c opts) (function_parts Rd c opts)"
  unfolding function_parts_def
  by (intro extends_rule extends_step extends_refl obeys_rule obeys_step lo.obeys_update; simp add: frame_def)+

lemma doFunction_extends [extends_step]: "extends (doFunction Rc c opts) (doFunction Rd c opts)"
  unfolding doFunction_def enter_function_def
  by (intro extends_rule extends_step extends_refl obeys_rule obeys_step halted.unnoticed; simp add: outside_functors_def)

lemma computedPropertyName_extends [extends_step]:
  "extends (computedPropertyName Rc c) (computedPropertyName Rd c)"
  "extends (short_property Rc c ps) (short_property Rd c ps)"
  "extends (accessor_property Rc c isGet ps) (accessor_property Rd c isGet ps)"
  unfolding computedPropertyName_def short_property_def accessor_property_def
  by (intro extends_rule extends_step extends_refl obeys_rule obeys_step lo.obeys_update; simp add: frame_def)+

lemma property_value_extends [extends_step]:
  "extends (property_value Rc c isAsync isGenerator) (property_value Rd c isAsync isGenerator)"
  "extends (plain_property Rc c ps) (plain_property Rd c ps)"
  "extends (spread_property Rc c) (spread_property Rd c)"
  "extends (object_property Rc c i ps) (object_property Rd c i ps)"
  unfolding property_value_def plain_property_def spread_property_def object_property_def
  by (intro extends_rule extends_step extends_refl obeys_rule obeys_step lo.obeys_update; simp add: frame_def)+

lemma object_properties_extends [extends_step]: "n \<le> n' \<Longrightarrow> extends (object_properties n Rc c i ps) (object_properties n' Rd c i ps)"
proof (induction n n' arbitrary: c i ps rule: fuel_induct)
  case (out n')
  show ?case by (simp only: object_properties.simps) (intro extends_fuel extends_out_of_fuel obeys_step)
next
  case (step n k)
  show ?case by (simp only: object_properties.simps) (intro extends_rule extends_step step extends_refl obeys_rule obeys_step)
qed

lemma destructuring_nud_extends [extends_step]:
  "extends (destructuring_nud Rc c t) (destructuring_nud Rd c t)"
  "extends (object_nud Rc c t) (object_nud Rd c t)"
  unfolding destructuring_nud_def object_nud_def
  by (intro extends_rule extends_step extends_refl obeys_rule obeys_step lo.obeys_update; simp add: frame_def)+

lemma recover_method_extends [extends_step]:
  "extends (recover_method Rc c) (recover_method Rd c)"
  "extends (doMethod Rc classToken c name generator) (doMethod Rd classToken c name generator)"
  "extends (class_constructor Rc classToken c inGenerator accessor seen) (class_constructor Rd classToken c inGenerator accessor seen)"
  "extends (static_constructor Rc classToken c inGenerator ps) (static_constructor Rd classToken c inGenerator ps)"
  "extends (named_member Rc classToken c isStatic inGenerator accessor ps) (named_member Rd classToken c isStatic inGenerator accessor ps)"
  "extends (class_member Rc classToken c ps seen) (class_member Rd classToken c ps seen)"
  unfolding recover_method_def doMethod_def class_constructor_def static_constructor_def named_member_def class_member_def
  by (intro extends_rule extends_step extends_refl obeys_rule obeys_step lo.obeys_update; simp add: frame_def)+

lemma class_members_extends [extends_step]: "n \<le> n' \<Longrightarrow> extends (class_members n Rc classToken c ps seen) (class_members n' Rd classToken c ps seen)"
proof (induction n n' arbitrary: classToken c ps seen rule: fuel_induct)
  case (out n')
  show ?case by (simp only: class_members.simps) (intro extends_fuel extends_out_of_fuel obeys_step)
next
  case (step n k)
  show ?case by (simp only: class_members.simps) (intro extends_rule extends_step step extends_refl obeys_rule obeys_step)
qed

lemma classBody_extends [extends_step]:
  "extends (classBody Rc classToken c) (classBody Rd classToken c)"
  "extends (class_heritage Rc c) (class_heritage Rd c)"
  "extends (class_fud Rc c t) (class_fud Rd c t)"
  "extends (class_nud Rc c t) (class_nud Rd c t)"
  unfolding classBody_def class_heritage_def class_fud_def class_nud_def
  by (intro extends_rule extends_step extends_refl obeys_rule obeys_step lo.obeys_update; simp add: frame_def)+

lemma let_targets_extends [extends_step]:
  "extends (let_targets Rc c) (let_targets Rd c)"
  "extends (let_initializer Rc c t lone names) (let_initializer Rd c t lone names)"
  "extends (let_declaration Rc ty c t) (let_declaration Rd ty c t)"
  unfolding let_targets_def let_initializer_def let_declaration_def
  by (intro extends_rule extends_step extends_refl obeys_rule obeys_step lo.obeys_update; simp add: frame_def)+

lemma let_declarations_extends [extends_step]: "n \<le> n' \<Longrightarrow> extends (let_declarations n Rc ty c t) (let_declarations n' Rd ty c t)"
proof (induction n n' arbitrary: ty c t rule: fuel_induct)
  case (out n')
  show ?case by (simp only: let_declarations.simps) (intro extends_fuel extends_out_of_fuel obeys_step)
next
  case (step n k)
  show ?case by (simp only: let_declarations.simps) (intro extends_rule extends_step step extends_refl obeys_rule obeys_step)
qed

lemma blockVariableStatement_extends [extends_step]:
  "extends (blockVariableStatement Rc ty c t) (blockVariableStatement Rd ty c t)"
  "extends (var_targets Rc c) (var_targets Rd c)"
  "extends (var_initializer Rc c t lone names) (var_initializer Rd c t lone names)"
  "extends (var_declaration Rc c t) (var_declaration Rd c t)"
  unfolding blockVariableStatement_def var_targets_def var_initializer_def var_declaration_def
  by (intro extends_rule extends_step extends_refl obeys_rule obeys_step lo.obeys_update; simp add: frame_def)+

lemma var_declarations_extends [extends_step]: "n \<le> n' \<Longrightarrow> extends (var_declarations n Rc c t) (var_declarations n' Rd c t)"
proof (induction n n' arbitrary: c t rule: fuel_induct)
  case (out n')
  show ?case by (simp only: var_declarations.simps) (intro extends_fuel extends_out_of_fuel obeys_step)
next
  case (step n k)
  show ?case by (simp only: var_declarations.simps) (intro extends_rule extends_step step extends_refl obeys_rule obeys_step)
qed

lemma var_fud_extends [extends_step]:
  "extends (var_fud Rc c t) (var_fud Rd c t)"
  unfolding var_fud_def
  by (intro extends_rule extends_step extends_refl obeys_rule obeys_step lo.obeys_update; simp add: frame_def)+

lemma function_fud_extends [extends_step]:
  "extends (function_fud Rc c t') (function_fud Rd c t')"
  "extends (function_nud Rc c t') (function_nud Rd c t')"
  unfolding function_fud_def function_nud_def
  by (intro extends_rule extends_step extends_refl obeys_rule obeys_step lo.obeys_update; simp add: frame_def)+

lemma comp_filter_extends [extends_step]:
  "extends (comp_filter Rc c) (comp_filter Rd c)"
  unfolding comp_filter_def
  by (intro extends_rule extends_step extends_refl obeys_rule obeys_step lo.obeys_update; simp add: frame_def)+

lemma comp_generate_extends [extends_step]:
  "extends (comp_generate Rc c) (comp_generate Rd c)"
  "extends (comprehensiveArrayExpression Rc c) (comprehensiveArrayExpression Rd c)"
  unfolding comp_generate_def comprehensiveArrayExpression_def
  by (intro extends_rule extends_step extends_refl obeys_rule obeys_step lo.obeys_update; simp add: frame_def)+

lemma extends_metaProperty [extends_rule]:
  "extends m m' \<Longrightarrow> extends (metaProperty c name m) (metaProperty c name m')"
  unfolding metaProperty_def
  by (intro extends_rule extends_step extends_refl obeys_rule obeys_step lo.obeys_update; simp add: frame_def)

lemma new_nud_extends [extends_step]:
  "extends (new_nud Rc c t) (new_nud Rd c t)"
  "extends (dot_led Rc c t left) (dot_led Rd c t left)"
  unfolding new_nud_def dot_led_def
  by (intro extends_rule extends_step extends_refl obeys_rule obeys_step lo.obeys_update; simp add: frame_def)+

lemma bracket_led_extends [extends_step]:
  "extends (bracket_led Rc c t left) (bracket_led Rd c t left)"
  unfolding bracket_led_def
  by (intro extends_rule extends_step extends_refl obeys_rule obeys_step lo.obeys_update; simp add: frame_def)+

lemma call_arguments_extends [extends_step]: "n \<le> n' \<Longrightarrow> extends (call_arguments n Rc c ps) (call_arguments n' Rd c ps)"
proof (induction n n' arbitrary: c ps rule: fuel_induct)
  case (out n')
  show ?case by (simp only: call_arguments.simps) (intro extends_fuel extends_out_of_fuel obeys_step)
next
  case (step n k)
  show ?case by (simp only: call_arguments.simps) (intro extends_rule extends_step step extends_refl obeys_rule obeys_step)
qed

lemma call_led_extends [extends_step]:
  "extends (call_led Rc c t left) (call_led Rd c t left)"
  "extends (optional_led Rc c t left) (optional_led Rd c t left)"
  "extends (arrow_led Rc c t left) (arrow_led Rd c t left)"
  unfolding call_led_def optional_led_def arrow_led_def
  by (intro extends_rule extends_step extends_refl obeys_rule obeys_step lo.obeys_update; simp add: frame_def)+

lemma group_nud_extends [extends_step]:
  "extends (group_nud Rc c rbp t) (group_nud Rd c rbp t)"
  unfolding group_nud_def
  by (intro extends_rule extends_step extends_refl obeys_rule obeys_step lo.obeys_update; simp add: frame_def)+

lemma skip_commas_extends [extends_step]: "n \<le> n' \<Longrightarrow> extends (skip_commas n) (skip_commas n')"
proof (induction n n' rule: fuel_induct)
  case (out n')
  show ?case by (simp only: skip_commas.simps) (intro extends_fuel extends_out_of_fuel obeys_step)
next
  case (step n k)
  show ?case by (simp only: skip_commas.simps) (intro extends_rule extends_step step extends_refl obeys_rule obeys_step)
qed

lemma array_elements_extends [extends_step]: "n \<le> n' \<Longrightarrow> extends (array_elements n Rc c t) (array_elements n' Rd c t)"
proof (induction n n' arbitrary: c t rule: fuel_induct)
  case (out n')
  show ?case by (simp only: array_elements.simps) (intro extends_fuel extends_out_of_fuel obeys_step)
next
  case (step n k)
  show ?case by (simp only: array_elements.simps) (intro extends_rule extends_step step extends_refl obeys_rule obeys_step)
qed

lemma array_nud_extends [extends_step]:
  "extends (array_nud Rc c t) (array_nud Rd c t)"
  unfolding array_nud_def
  by (intro extends_rule extends_step extends_refl obeys_rule obeys_step lo.obeys_update; simp add: frame_def)+

lemma template_parts_extends [extends_step]: "n \<le> n' \<Longrightarrow> extends (template_parts n Rc c ctx depth) (template_parts n' Rd c ctx depth)"
proof (induction n n' arbitrary: c ctx depth rule: fuel_induct)
  case (out n')
  show ?case by (simp only: template_parts.simps) (intro extends_fuel extends_out_of_fuel obeys_step)
next
  case (step n k)
  show ?case by (simp only: template_parts.simps) (intro extends_rule extends_step step extends_refl obeys_rule obeys_step)
qed

lemma doTemplateLiteral_extends [extends_step]:
  "extends (doTemplateLiteral Rc c t tag) (doTemplateLiteral Rd c t tag)"
  "extends (let_nud Rc c rbp t) (let_nud Rd c rbp t)"
  "extends (await_nud Rc c t) (await_nud Rd c t)"
  "extends (async_isFunc Rc t) (async_isFunc Rd t)"
  "extends (async_fud Rc c t) (async_fud Rd c t)"
  "extends (async_nud Rc c rbp t) (async_nud Rd c rbp t)"
  "extends (yield_operand Rc c t) (yield_operand Rd c t)"
  unfolding doTemplateLiteral_def let_nud_def await_nud_def async_isFunc_def async_fud_def async_nud_def yield_operand_def
  by (intro extends_rule extends_step extends_refl obeys_rule obeys_step lo.obeys_update; simp add: frame_def)+

lemma mozYield_extends [extends_step]:
  "extends (mozYield Rc c t) (mozYield Rd c t)"
  "extends (yield_nud Rc c t) (yield_nud Rd c t)"
  "extends (import_nud Rc c t) (import_nud Rd c t)"
  unfolding mozYield_def yield_nud_def import_nud_def
  by (intro extends_rule extends_step extends_refl obeys_rule obeys_step lo.obeys_update; simp add: frame_def)+

lemma condition_extends [extends_step]:
  "extends (condition Rc c) (condition Rd c)"
  "extends (else_branch Rc c) (else_branch Rd c)"
  "extends (if_fud Rc c t') (if_fud Rd c t')"
  "extends (catchParameter Rc c) (catchParameter Rd c)"
  "extends (catch_clause Rc c again) (catch_clause Rd c again)"
  unfolding condition_def else_branch_def if_fud_def catchParameter_def catch_clause_def
  by (intro extends_rule extends_step extends_refl obeys_rule obeys_step lo.obeys_update; simp add: frame_def)+

lemma catch_clauses_extends [extends_step]: "n \<le> n' \<Longrightarrow> extends (catch_clauses n Rc c again) (catch_clauses n' Rd c again)"
proof (induction n n' arbitrary: c again rule: fuel_induct)
  case (out n')
  show ?case by (simp only: catch_clauses.simps) (intro extends_fuel extends_out_of_fuel obeys_step)
next
  case (step n k)
  show ?case by (simp only: catch_clauses.simps) (intro extends_rule extends_step step extends_refl obeys_rule obeys_step)
qed

lemma try_fud_extends [extends_step]:
  "extends (try_fud Rc c t) (try_fud Rd c t)"
  "extends (while_fud Rc c t) (while_fud Rd c t)"
  "extends (with_fud Rc c t) (with_fud Rd c t)"
  "extends (do_fud Rc c t) (do_fud Rd c t)"
  "extends (case_clause Rc c) (case_clause Rd c)"
  "extends (clause_statements Rc c g) (clause_statements Rd c g)"
  unfolding try_fud_def while_fud_def with_fud_def do_fud_def case_clause_def clause_statements_def
  by (intro extends_rule extends_step extends_refl obeys_rule obeys_step lo.obeys_update; simp add: frame_def)+

lemma switch_clauses_extends [extends_step]: "n \<le> n' \<Longrightarrow> extends (switch_clauses n Rc c t noindent g seenCase) (switch_clauses n' Rd c t noindent g seenCase)"
proof (induction n n' arbitrary: c t noindent g seenCase rule: fuel_induct)
  case (out n')
  show ?case by (simp only: switch_clauses.simps) (intro extends_fuel extends_out_of_fuel obeys_step)
next
  case (step n k)
  show ?case by (simp only: switch_clauses.simps) (intro extends_rule extends_step step extends_refl obeys_rule obeys_step)
qed

lemma switch_fud_extends [extends_step]:
  "extends (switch_fud Rc c t) (switch_fud Rd c t)"
  "extends (break_fud Rc t) (break_fud Rd t)"
  "extends (continue_fud Rc t) (continue_fud Rd t)"
  "extends (return_value Rc c t) (return_value Rd c t)"
  "extends (return_fud Rc c t) (return_fud Rd c t)"
  "extends (throw_fud Rc c t) (throw_fud Rd c t)"
  unfolding switch_fud_def break_fud_def continue_fud_def return_value_def return_fud_def throw_fud_def
  by (intro extends_rule extends_step extends_refl obeys_rule obeys_step lo.obeys_update; simp add: frame_def)+

lemma var_head_extends [extends_step]:
  "extends (var_head Rc c) (var_head Rd c)"
  "extends (let_head Rc ty c) (let_head Rd ty c)"
  "extends (pattern_target Rc c x) (pattern_target Rd c x)"
  "extends (expression_target Rc c x) (expression_target Rd c x)"
  unfolding var_head_def let_head_def pattern_target_def expression_target_def
  by (intro extends_rule extends_step extends_refl obeys_rule obeys_step lo.obeys_update; simp add: frame_def)+

lemma head_targets_extends [extends_step]: "n \<le> n' \<Longrightarrow> extends (head_targets n Rc c x) (head_targets n' Rd c x)"
proof (induction n n' arbitrary: c x rule: fuel_induct)
  case (out n')
  show ?case by (simp only: head_targets.simps) (intro extends_fuel extends_out_of_fuel obeys_step)
next
  case (step n k)
  show ?case by (simp only: head_targets.simps) (intro extends_rule extends_step step extends_refl obeys_rule obeys_step)
qed

lemma plain_head_extends [extends_step]:
  "extends (plain_head Rc c) (plain_head Rd c)"
  "extends (parse_head Rc c) (parse_head Rd c)"
  "extends (iteration Rc c t h nextop opening) (iteration Rd c t h nextop opening)"
  unfolding plain_head_def parse_head_def iteration_def
  by (intro extends_rule extends_step extends_refl obeys_rule obeys_step lo.obeys_update; simp add: frame_def)+

lemma increments_extends [extends_step]: "n \<le> n' \<Longrightarrow> extends (increments n Rc c) (increments n' Rd c)"
proof (induction n n' arbitrary: c rule: fuel_induct)
  case (out n')
  show ?case by (simp only: increments.simps) (intro extends_fuel extends_out_of_fuel obeys_step)
next
  case (step n k)
  show ?case by (simp only: increments.simps) (intro extends_rule extends_step step extends_refl obeys_rule obeys_step)
qed

lemma counting_loop_extends [extends_step]:
  "extends (counting_loop Rc c h foreachtok opening) (counting_loop Rd c h foreachtok opening)"
  "extends (for_fud Rc c t) (for_fud Rd c t)"
  unfolding counting_loop_def for_fud_def
  by (intro extends_rule extends_step extends_refl obeys_rule obeys_step lo.obeys_update; simp add: frame_def)+

lemma import_names_extends [extends_step]: "n \<le> n' \<Longrightarrow> extends (import_names n c) (import_names n' c)"
proof (induction n n' arbitrary: c rule: fuel_induct)
  case (out n')
  show ?case by (simp only: import_names.simps) (intro extends_fuel extends_out_of_fuel obeys_step)
next
  case (step n k)
  show ?case by (simp only: import_names.simps) (intro extends_rule extends_step step extends_refl obeys_rule obeys_step)
qed

lemma import_bindings_extends [extends_step]:
  "extends (import_bindings Rc c) (import_bindings Rd c)"
  "extends (import_fud Rc c t) (import_fud Rd c t)"
  unfolding import_bindings_def import_fud_def
  by (intro extends_rule extends_step extends_refl obeys_rule obeys_step lo.obeys_update; simp add: frame_def)+

lemma extends_declared_name [extends_rule]:
  "(\<And>t. extends (f t) (f' t)) \<Longrightarrow> extends (declared_name p f) (declared_name p f')"
  unfolding declared_name_def
  by (intro extends_rule extends_step extends_refl obeys_rule obeys_step lo.obeys_update; simp add: frame_def)

lemma export_function_extends [extends_step]:
  "extends (export_function Rc c t) (export_function Rd c t)"
  "extends (export_async Rc c t) (export_async Rd c t)"
  "extends (export_class Rc c t) (export_class Rd c t)"
  "extends (export_default Rc c t) (export_default Rd c t)"
  unfolding export_function_def export_async_def export_class_def export_default_def
  by (intro extends_rule extends_step extends_refl obeys_rule obeys_step lo.obeys_update; simp add: frame_def)+

lemma export_names_extends [extends_step]: "n \<le> n' \<Longrightarrow> extends (export_names n xs) (export_names n' xs)"
proof (induction n n' arbitrary: xs rule: fuel_induct)
  case (out n')
  show ?case by (simp only: export_names.simps) (intro extends_fuel extends_out_of_fuel obeys_step)
next
  case (step n k)
  show ?case by (simp only: export_names.simps) (intro extends_rule extends_step step extends_refl obeys_rule obeys_step)
qed

lemma export_clause_extends [extends_step]:
  "extends (export_clause Rc ok t) (export_clause Rd ok t)"
  "extends (export_variables Rc c ty) (export_variables Rd c ty)"
  "extends (export_declaration Rc c t) (export_declaration Rd c t)"
  "extends (export_fud Rc c t) (export_fud Rd c t)"
  unfolding export_clause_def export_variables_def export_declaration_def export_fud_def
  by (intro extends_rule extends_step extends_refl obeys_rule obeys_step lo.obeys_update; simp add: frame_def)+

lemma nud_extends [extends_step]: "extends (nud Rc c p s t) (nud Rd c p s t)"
  unfolding nud_def
  by (intro extends_branches extends_table)
    (simp_all add: nud_table_def extends_rule extends_step extends_refl obeys_rule obeys_step)

lemma led_extends [extends_step]: "extends (led Rc c s t left) (led Rd c s t left)"
  unfolding led_def
  by (intro extends_branches extends_table)
    (simp_all add: led_table_def extends_rule extends_step extends_refl obeys_rule obeys_step)

lemma fud_extends [extends_step]: "extends (fud Rc c s t) (fud Rd c s t)"
  unfolding fud_def
  by (intro extends_table)
    (simp_all add: fud_table_def extends_rule extends_step extends_refl obeys_rule obeys_step)

lemma useFud_extends [extends_step]:
  "extends (useFud Rc c p t) (useFud Rd c p t)"
  "extends (apply_led Rc c left) (apply_led Rd c left)"
  unfolding useFud_def apply_led_def
  by (intro extends_rule extends_step extends_refl obeys_rule obeys_step lo.obeys_update; simp add: frame_def)+

lemma operators_extends [extends_step]: "n \<le> n' \<Longrightarrow> extends (operators n Rc c rbp left) (operators n' Rd c rbp left)"
proof (induction n n' arbitrary: c rbp left rule: fuel_induct)
  case (out n')
  show ?case by (simp only: operators.simps) (intro extends_fuel extends_out_of_fuel obeys_step)
next
  case (step n k)
  show ?case by (simp only: operators.simps) (intro extends_rule extends_step step extends_refl obeys_rule obeys_step)
qed

lemma operand_extends [extends_step]:
  "extends (operand Rc c rbp) (operand Rd c rbp)"
  unfolding operand_def
  by (intro extends_rule extends_step extends_refl obeys_rule obeys_step lo.obeys_update; simp add: frame_def)+

lemma expression_extends [extends_step]:
  "extends (expression Rc c rbp) (expression Rd c rbp)"
  unfolding expression_def
  by (intro extends_rule extends_step extends_refl obeys_rule obeys_step lo.obeys_update; simp add: frame_def)+

lemma extends_unless_stopped [extends_rule]: "extends m m' \<Longrightarrow> extends (unless_stopped x m) (unless_stopped x m')"
  unfolding unless_stopped_def by (intro extends_rule extends_refl obeys_step)

lemma destructuringAssignOrJsonValue_extends [extends_step]:
  "extends (destructuringAssignOrJsonValue Rc c) (destructuringAssignOrJsonValue Rd c)"
  unfolding destructuringAssignOrJsonValue_def
  by (intro extends_rule extends_step extends_refl obeys_rule obeys_step lo.obeys_update; simp add: frame_def)+

lemma parse_program_extends: "extends (parse_program Rc) (parse_program Rd)"
  unfolding parse_program_def by (intro extends_rule extends_step extends_refl obeys_rule obeys_step)

end

end
