(* ===== verification/FuelTheorems.thy ===== *)
theory FuelTheorems
  imports FuelContract RunTheorems
begin

text \<open>
  The fuel of a run has no influence on its outcome: a run that was not cut off has the same outcome
  with any more fuel.
\<close>

section \<open>The recursive functions\<close>

lemma recs_fuel [simp]: "r_fuel (parser_recs N n) = N"
  by (cases n) simp_all

lemma recs_extend: "N \<le> N' \<Longrightarrow> n \<le> n' \<Longrightarrow> fuelled (parser_recs N n) (parser_recs N' n')"
proof (induction n arbitrary: n')
  case 0
  note hi = halted.recs_obey [of N' n']
  show ?case
    by (intro fuelled.intro fuelled_axioms.intro halted.recs_obey)
      (simp_all add: "0.prems" extends_fuel halted.pure_steps parser_base.expr_obeys [OF parser_recursive.axioms(2) [OF hi]]
        parser_base.stmt_obeys [OF parser_recursive.axioms(2) [OF hi]] parser_base.pat_obeys [OF parser_recursive.axioms(2) [OF hi]])
next
  case (Suc n)
  then obtain k where k: "n' = Suc k" "n \<le> k" by (cases n') auto
  note f = Suc.IH [OF Suc.prems(1) k(2)]
  show ?case
    unfolding k(1)
    by (intro fuelled.intro fuelled_axioms.intro halted.recs_obey)
      (simp_all add: Suc.prems fuelled.extends_unless_stopped [OF f] fuelled.expression_extends [OF f]
        fuelled.statement_extends [OF f] fuelled.destructuringPatternRecursive_extends [OF f])
qed

section \<open>Runs\<close>

lemma run_parser_fuel:
  assumes "\<not> p_stuck (run_parser n S)" "n \<le> n'"
  shows "run_parser n' S = run_parser n S"
proof -
  have "extends (parse_program (the_parser n)) (parse_program (the_parser n'))"
    unfolding the_parser_def by (rule fuelled.parse_program_extends [OF recs_extend]) (use assms(2) in auto)
  from extendsD [OF this prod.collapse [symmetric] prod.collapse [symmetric], of S] show ?thesis
    using assms(1) by (simp add: run_parser_def)
qed

lemma lint_once_fuel:
  assumes "\<not> p_stuck (lint_once n re forin o' g src L)" "n \<le> n'"
  shows "lint_once n' re forin o' g src L = lint_once n re forin o' g src L"
proof -
  obtain lx L1 where "start_run o' g src L = (lx, L1)" by fastforce
  then show ?thesis
    using assms run_parser_fuel [of n "initial_pst re forin lx L1" n']
    by (simp add: lint_once_def parse_source_def finish_parse_def)
qed

end
