(* ===== verification/ParseEnds.thy ===== *)
theory ParseEnds
  imports EndLoops FuelTheorems
begin

text \<open>
  Every parse ends: an amount of fuel that is known from the source and the options is enough for the loops
  and the recursion of the parser, unless the option \<open>indent\<close> is no positive number: the search for the
  indentation of a block goes on by it.
\<close>

section \<open>The recursive functions\<close>

text \<open>A statement from its first token on, after the label it may have.\<close>

definition after_label :: "recs \<Rightarrow> nat \<Rightarrow> nat \<Rightarrow> int \<Rightarrow> tok \<Rightarrow> nat option parser" where
  "after_label R context t i k =
     (if has_id ''{'' k then do {
        verb \<leftarrow> funct_get f_verb;
        c \<leftarrow> curr_tok;
        block R context True True False False (verb = Some (js ''case'') \<and> has_value '':'' c);
        ret None
      }
      else unlabelled_statement R context t i)"

context parser_ends begin

lemma expression_eats: "eats (expression Rc c p)"
  unfolding expression_def
  by (intro drops_branches drops_first [OF _ drops_advance] drops_second steady_anywhere obeys_rule obeys_step)

lemma expression_ends: "obeys (ends (Suc w)) (expression Rc c p)"
proof (rule closed [OF expression_obeys])
  show "closes (Suc w) anywhere (expression Rc c p)"
    unfolding expression_def
    by (intro closes_leaf [where w = w and k = w] closes_advance closes_branches closes_pass [where w = "Suc w"] steady_anywhere
        obeys_rule obeys_step; simp)
qed

lemma pattern_ends: "obeys (ends (Suc w)) (destructuringPatternRecursive Rc c False a)"
proof (rule closed [OF destructuringPatternRecursive_obeys(1)])
  have h: "obeys (ends w) (array_pattern (r_fuel Rc) Rc c a False [])" "obeys (ends w) (object_pattern (r_fuel Rc) Rc c a [])"
    by (rule obeys_step)+
  show "closes (Suc w) anywhere (destructuringPatternRecursive Rc c False a)"
    unfolding destructuringPatternRecursive_def if_False not_False_eq_True provided_def if_True
    by (intro closes_leaf [where w = w and k = w] closes_advance closes_branches closes_pass [where w = "Suc w"]
        closes_leaf [where w = "Suc w"] steady_anywhere h obeys_rule obeys_step; simp)
qed

lemma label_eats: "drops P B (parse_label t)"
  unfolding parse_label_def
  by (rule drops_near, intro drops_first [OF _ drops_advance] drops_second steady_anywhere obeys_rule obeys_step moving.scopes; simp)

lemma label_ends: "obeys (ends (Suc w)) (parse_label t)"
  unfolding parse_label_def by (intro obeys_rule obeys_step ending.scopes; simp)

text \<open>A block that follows its brace.\<close>

lemma braced_eats: "drops P B (braced_block Rc c ordinary isfunc isfatarrow)"
  unfolding braced_block_def
  by (rule drops_near, intro drops_branches drops_first [OF _ drops_advance] drops_second steady_anywhere obeys_rule obeys_step
      obeys_update; simp add: frame_def)

lemma braced_ends: "obeys (ends (Suc w)) (braced_block Rc c ordinary isfunc isfatarrow)"
proof (rule closed)
  show "obeys moves (braced_block Rc c ordinary isfunc isfatarrow)" by (rule obeys_step)
  show "closes (Suc w) anywhere (braced_block Rc c ordinary isfunc isfatarrow)"
    unfolding braced_block_def
    by (intro closes_leaf [where w = w and k = w] closes_advance closes_branches closes_pass [where w = "Suc w"]
        steady_anywhere obeys_rule obeys_step level.obeys_update; simp add: frame_def)
qed

lemma brace_follows:
  assumes "has_id ''{'' k" "same_kind k k2"
  shows "drops (near k) any_result (if has_id ''{'' k2 then braced_block Rc c o' isfunc isfatarrow else m)"
    "obeys (ends (Suc w)) (if has_id ''{'' k2 then braced_block Rc c o' isfunc isfatarrow else m)"
  using assms braced_eats braced_ends by (simp_all add: has_id_def)

lemma block_eats:
  assumes "has_id ''{'' k"
  shows "drops (near k) B (block Rc c ordinary s isfunc isfatarrow i)"
  unfolding block_def
  by (intro drops_again drops_first [OF _ brace_follows(1) [OF assms]] drops_second steady_near obeys_rule obeys_step
      obeys_update; simp add: frame_def)

lemma block_ends:
  assumes "has_id ''{'' k"
  shows "closes (Suc w) (near k) (block Rc c ordinary s isfunc isfatarrow i)"
  unfolding block_def verifyMaxNestedBlockDepthPerFunction_def
  by (intro closes_leaf [where w = w and k = w] closes_again
      closes_eat [OF brace_follows(2) [OF assms] order_refl brace_follows(1) [OF assms]]
      closes_pass [where w = "Suc w"] steady_near obeys_rule obeys_step ending.obeys_update level.obeys_update;
      simp add: frame_def)

text \<open>A statement with or without a label.\<close>

lemma label_drops:
  assumes "\<And>x. obeys moves (f x)" "drops (next_at t) B (f t)"
  shows "drops (next_at t) B ((if labelled then parse_label t else ret t) \<bind> f)"
  using assms drops_first [OF _ label_eats steady_at assms(1), of t t] by (cases labelled) (simp_all add: obeys_step)

lemma label_closes:
  assumes "\<And>x. closes w anywhere (f x)" "closes (Suc w) (next_at t) (f t)"
  shows "closes (Suc w) (next_at t) ((if labelled then parse_label t else ret t) \<bind> f)"
  using assms closes_eat [OF label_ends order_refl label_eats assms(1)] by (cases labelled) simp_all

lemma after_label_obeys [obeys_step]: "obeys moves (after_label Rc c t i k)" "obeys (ends w) (after_label Rc c t i k)"
  unfolding after_label_def by (intro obeys_rule obeys_step)+

lemma after_label_eats: "drops (near k) B (after_label Rc c t i k)"
  unfolding after_label_def unlabelled_statement_def
  by (intro drops_branches drops_first [OF _ block_eats] drops_first [OF _ drops_near [OF calls_eat(1)]] drops_second steady_near
      obeys_rule obeys_step obeys_update; simp add: frame_def)

lemma after_label_closes:
  assumes "\<And>c p. obeys (ends (Suc w)) (r_expr Rc c p)"
  shows "closes (Suc w) (near k) (after_label Rc c t i k)"
  unfolding after_label_def unlabelled_statement_def
  by (intro closes_branches closes_bind [OF _ block_ends] closes_eat [OF assms order_refl drops_near [OF calls_eat(1)]]
      closes_leaf [where w = w and k = w] closes_pass [where w = "Suc w"] closes_leaf [where w = "Suc w"] steady_near
      obeys_rule obeys_step level.obeys_update; simp add: frame_def)

lemma statement_eats: "eats (statement Rc c)"
  unfolding statement_def after_label_def [symmetric]
  by (intro drops_branches drops_first [OF _ drops_advance] drops_ref label_drops drops_at drops_first [OF _ after_label_eats]
      drops_second steady_near steady_at steady_anywhere obeys_rule obeys_step obeys_update)

lemma statement_ends:
  assumes "\<And>c p. obeys (ends (Suc w)) (r_expr Rc c p)"
  shows "obeys (ends (Suc w)) (statement Rc c)"
proof (rule closed)
  show "obeys moves (statement Rc c)" by (rule obeys_step)
  show "closes (Suc w) anywhere (statement Rc c)"
    unfolding statement_def after_label_def [symmetric]
    by (intro closes_leaf [where w = w and k = w] closes_branches closes_ref closes_advance label_closes closes_at
        closes_bind [OF _ after_label_closes [OF assms]] closes_pass [where w = "Suc w"] closes_leaf [where w = "Suc w"]
        steady_near steady_at steady_anywhere obeys_rule obeys_step; simp)
qed

end

section \<open>The knot\<close>

lemma unless_eats: "drops P B m \<Longrightarrow> drops P B (unless_stopped x m)"
  unfolding unless_stopped_def by (intro drops_halt) simp

lemma unless_ends: "obeys (ends w) m \<Longrightarrow> obeys (ends w) (unless_stopped x m)"
  unfolding unless_stopped_def by (intro obeys_rule obeys_step)

definition recs_eat :: "nat \<Rightarrow> nat \<Rightarrow> bool" where
  "recs_eat N n \<longleftrightarrow> (\<forall>c p. eats (r_expr (parser_recs N n) c p)) \<and> (\<forall>c. eats (r_stmt (parser_recs N n) c)) \<and>
     (\<forall>k c a. checkPunctuators k [''['', ''{''] \<longrightarrow> drops (near k) any_result (r_pat (parser_recs N n) c False a))"

definition recs_end :: "nat \<Rightarrow> nat \<Rightarrow> bool" where
  "recs_end N n \<longleftrightarrow>
     (\<forall>w. 2 * w \<le> Suc n \<longrightarrow> 2 * w \<le> N \<longrightarrow>
        (\<forall>c p. obeys (ends w) (r_expr (parser_recs N n) c p)) \<and> (\<forall>c a. obeys (ends w) (r_pat (parser_recs N n) c False a))) \<and>
     (\<forall>w. 2 * w \<le> n \<longrightarrow> 2 * w \<le> N \<longrightarrow> (\<forall>c. obeys (ends w) (r_stmt (parser_recs N n) c)))"

lemma ends_recs: "recs_eat N n \<Longrightarrow> recs_end N n \<Longrightarrow> 2 * w \<le> n \<Longrightarrow> 2 * w + 2 \<le> N \<Longrightarrow> parser_ends (parser_recs N n) w"
  by (intro parser_ends.intro parser_ends_axioms.intro moving.recs_obey) (simp_all add: recs_eat_def recs_end_def)

lemma knot: "2 \<le> N \<Longrightarrow> recs_eat N n \<and> recs_end N n"
proof (induction n)
  case 0
  have o: "obeys (ends 0) (do { out_of_fuel; ret x })" for x :: 'a
    by (intro ends_0 moving.bind_obeys moving.cut_off moving.pure_steps)
  have z: "2 * w \<le> Suc 0 \<longleftrightarrow> w = 0" for w :: nat by auto
  show ?case by (simp add: recs_eat_def recs_end_def drops_out z o)
next
  case (Suc n)
  then have hyp: "recs_eat N n" "recs_end N n" by simp_all
  note P = ends_recs [OF hyp]
  have P0: "parser_ends (parser_recs N n) 0" using P [of 0] Suc.prems by simp
  have "recs_eat N (Suc n)"
    using parser_ends.expression_eats [OF P0] parser_ends.statement_eats [OF P0] parser_ends.pattern_eats(2) [OF P0]
    by (simp add: recs_eat_def unless_eats)
  moreover have "recs_end N (Suc n)"
  proof -
    note base = parser_recursive.axioms(2) [OF moving.recs_obey [of N "Suc n"]]
    note 0 = ends_0 [OF parser_base.expr_obeys [OF base]] ends_0 [OF parser_base.stmt_obeys [OF base]] ends_0 [OF parser_base.pat_obeys [OF base]]
    have "obeys (ends w) (r_expr (parser_recs N (Suc n)) c p)" "obeys (ends w) (r_pat (parser_recs N (Suc n)) c False a)"
      if "2 * w \<le> Suc (Suc n)" "2 * w \<le> N" for w c p a
      using that 0 parser_ends.expression_ends [OF P] parser_ends.pattern_ends [OF P] by (cases w; simp add: unless_ends)+
    moreover have "obeys (ends w) (r_stmt (parser_recs N (Suc n)) c)" if w: "2 * w \<le> Suc n" "2 * w \<le> N" for w c
    proof (cases w)
      case (Suc v)
      have "obeys (ends (Suc v)) (r_expr (parser_recs N n) c p)" for c p
        using hyp(2) w Suc by (simp add: recs_end_def)
      then show ?thesis using parser_ends.statement_ends [OF P] w Suc by (simp add: unless_ends)
    qed (use 0 in simp)
    ultimately show ?thesis unfolding recs_end_def by simp
  qed
  ultimately show ?case by simp
qed

interpretation levels: parser_ends "parser_recs (Suc (Suc n)) (Suc (Suc n))" "n div 2" for n
  using knot [of "Suc (Suc n)" "Suc (Suc n)"] by (intro ends_recs) auto

section \<open>Programs\<close>

lemma run_parser_ends:
  assumes "sound S" "\<not> p_stuck S" "2 * rest S + 4 \<le> n"
  shows "ended (run_parser n S)"
proof -
  obtain m where n: "n = Suc (Suc m)" using assms(3) by (metis add_2_eq_Suc add_leD2 le_Suc_ex numeral_Bit0 add.assoc)
  have "ends (m div 2) S (run_parser n S)"
    using obeysD [OF levels.level.parse_program_obeys] unfolding run_parser_def the_parser_def n by blast
  moreover have "rest S < m div 2" using assms(3) n by simp
  ultimately show ?thesis using assms by (simp add: ends_def)
qed

lemma start_keeps:
  assumes "start_run o' g source L0 = (lx, L)"
  shows "0 < indent_of (set_up o' L0) \<Longrightarrow> 0 < indent_of L"
    "tab (l_state L) = tab (snd (new_Lexer (source_lines source) (l_state (set_up o' L0))))"
    "lx = fst (new_Lexer (source_lines source) (l_state (set_up o' L0)))"
proof -
  obtain lx' st where n: "new_Lexer (source_lines source) (l_state (set_up o' L0)) = (lx', st)" by fastforce
  let ?M = "(set_up o' L0)\<lparr>l_lines := lines lx', l_state := st\<rparr>"
  have s: "lx = lx'" "L = unless_thrown (add_globals g) (unless_thrown applyOptions (uncaught (check_names o' ?M)))"
    using assms by (auto simp: start_run_def Let_def n)
  have "option st ''indent'' = option (l_state (set_up o' L0)) ''indent''" using n by (auto simp: new_Lexer_def Let_def)
  then have "indent_of ?M = indent_of (set_up o' L0)" by (simp add: indent_of_def)
  then show "0 < indent_of L" if "0 < indent_of (set_up o' L0)"
    using indent.P_beginning [of ?M g o'] that by (simp add: s(2) keeps_indent_def)
  show "tab (l_state L) = tab (snd (new_Lexer (source_lines source) (l_state (set_up o' L0))))"
    using tabs.P_beginning [of ?M g o'] by (simp add: s(2) keeps_tab_def n)
  show "lx = fst (new_Lexer (source_lines source) (l_state (set_up o' L0)))" by (simp add: s(1) n)
qed

lemma new_Lexer_fields:
  "input (fst (new_Lexer ls st)) = []" "line (fst (new_Lexer ls st)) = 0" "\<not> exhausted (fst (new_Lexer ls st))"
  by (simp_all add: new_Lexer_def Let_def)

lemma start_sound:
  assumes "start_run o' g source L0 = (lx, L)"
  shows "sound (initial_pst re forin lx L)" "\<not> p_stuck (initial_pst re forin lx L)"
proof -
  have "proper begin_tok"
    using symbol_id [of "''(begin)''"] by (auto simp: proper_def begin_tok_def symbol_tok_def has_id_def Let_def)
  moreover have "input lx = []" "\<not> exhausted lx" using new_Lexer_fields by (simp_all add: start_keeps(3) [OF assms])
  ultimately show "sound (initial_pst re forin lx L)"
    by (simp add: sound_def stream_ok_def initial_pst_def fits_def)
qed (simp add: initial_pst_def)

text \<open>Fuel for a source.\<close>

definition enough_fuel :: "call_options \<Rightarrow> jstr \<Rightarrow> linter \<Rightarrow> nat" where
  "enough_fuel o' source L0 =
     (case new_Lexer (source_lines source) (l_state (set_up o' L0)) of
        (lx, st) \<Rightarrow> 4 * (List.length (lines lx) * Suc (width st lx) + 1) + 4)"

lemma parse_not_stuck:
  assumes "0 < indent_of (set_up o' L0)" "enough_fuel o' source L0 \<le> n"
  shows "\<not> p_stuck (lint_once n re forin o' g source L0)"
proof -
  obtain lx L where s: "start_run o' g source L0 = (lx, L)" by fastforce
  let ?S = "initial_pst re forin lx L"
  have "4 * lexer_left (l_state L) lx + 4 = enough_fuel o' source L0"
    using new_Lexer_fields [of "source_lines source" "l_state (set_up o' L0)"] start_keeps(2,3) [OF s]
    by (simp add: enough_fuel_def lexer_left_def width_def split_beta)
  then have "2 * rest ?S + 4 \<le> n" using assms(2) by (simp add: rest_def unread_def initial_pst_def)
  then have "ended (run_parser n ?S)" using run_parser_ends [OF start_sound [OF s]] by simp
  moreover have "0 < indent_width (run_parser n ?S)"
    using indent.run_parser_obeys [of ?S n] start_keeps(1) [OF s assms(1)] by (simp add: keeps_indent_def initial_pst_def)
  ultimately show ?thesis
    by (simp add: lint_once_def parse_source_def finish_parse_def s ended_def)
qed

text \<open>
  C2: Every parse ends: with a positive \<open>indent\<close>, the fuel computed from the lines of the source and the width
  of a tab lets the run of \<open>JSHINT\<close> on the source, whatever it is, come to its end by itself, and with any more fuel
  it ends in the same state.
\<close>

theorem every_parse_ends:
  assumes "0 < indent_of (set_up o' L0)" "enough_fuel o' source L0 \<le> n"
  shows "\<not> p_stuck (lint_once n re forin o' g source L0) \<and>
    lint_once n re forin o' g source L0 = lint_once (enough_fuel o' source L0) re forin o' g source L0"
  using parse_not_stuck [OF assms] lint_once_fuel [OF parse_not_stuck [OF assms(1) order_refl] assms(2)] by simp

definition plain_call :: call_options where
  "plain_call = \<lparr>c_predef = None, c_globals = None, c_exported = None, c_scope = None, c_options = []\<rparr>"

lemma plain_start:
  "option (l_state (set_up plain_call demo_linter)) ''indent'' = JNum 4" "tab (l_state (set_up plain_call demo_linter)) = []"
  by (simp_all add: set_up_def Let_def plain_call_def default_option_def set_option_def pass_dict_def opt_on_def base_globals_def
      new_results_def add_globals_def reset_state_def)

theorem every_parse_ends_witness:
  "\<not> p_stuck (lint_once 20 (\<lambda>_ _. None) (False, []) plain_call [] (js ''1;'') demo_linter)"
proof -
  have "source_lines (js ''1;'') = [js ''1;'']" "\<not> is_shebang [js ''1;'']"
    "List.length (expand_tabs (replicate 4 32) (js ''1;'')) = 2" by code_simp+
  then have "enough_fuel plain_call (js ''1;'') demo_linter = 20" 
    by (simp add: enough_fuel_def new_Lexer_def width_def plain_start)
  moreover have "0 < indent_of (set_up plain_call demo_linter)" by (simp add: indent_of_def plain_start)
  ultimately show ?thesis
    using every_parse_ends [of plain_call demo_linter "js ''1;''" 20] by simp
qed

end
